(* ===== verification/Prelude.thy ===== *)
theory Prelude
  imports Main "HOL-Library.Product_Lexorder"
begin

text \<open>
  Shared vocabulary of the development: identifiers and times, the state-and-error monad in
  which the service handlers are written, the table operations that stand for the SQL
  statements of the repositories, first-occurrence deduplication, and the lemmas about them
  that every component uses.

  A Go handler \<open>func (s *Service) H(ctx, ...) (T, error)\<close> becomes a function of type
  \<open>'s \<Rightarrow> ('e + 't) \<times> 's\<close>: \<open>Inl\<close> is the returned error, and the state is
  the one the handler leaves behind, also when it returns an error.
\<close>

named_theorems monad_simps \<open>unfolding of the monad combinators\<close>
named_theorems repo_reads \<open>what a successful repository read says about the tables\<close>
named_theorems run_Inr \<open>inversion of a handler that returned no error\<close>

subsection \<open>Identifiers and time\<close>

text \<open>
  A \<open>uuid.UUID\<close> is only compared for equality and order, so it is a natural number;
  \<open>uuid.Nil\<close> is \<open>0\<close>. A \<open>time.Time\<close> is its UTC instant in nanoseconds.
\<close>

type_synonym uuid = nat
type_synonym gotime = int

abbreviation (input) uuid_Nil :: uuid where
  "uuid_Nil \<equiv> 0"

definition time_Second :: int where
  "time_Second = 1000000000"

definition time_Millisecond :: int where
  "time_Millisecond = 1000000"

definition time_Minute :: int where
  "time_Minute = 60 * time_Second"

text \<open>The zero \<open>time.Time\<close> is midnight of January 1 of the year 1.\<close>

definition time_Zero :: gotime where
  "time_Zero = - 62135596800 * time_Second"

subsection \<open>The handler monad\<close>

type_synonym ('s, 'e, 'a) handler = "'s \<Rightarrow> ('e + 'a) \<times> 's"

definition returnM :: "'a \<Rightarrow> ('s, 'e, 'a) handler" where
  "returnM x = (\<lambda>s. (Inr x, s))"

definition throwM :: "'e \<Rightarrow> ('s, 'e, 'a) handler" where
  "throwM e = (\<lambda>s. (Inl e, s))"

definition bindM :: "('s, 'e, 'a) handler \<Rightarrow> ('a \<Rightarrow> ('s, 'e, 'b) handler) \<Rightarrow> ('s, 'e, 'b) handler" where
  "bindM m k = (\<lambda>s. case m s of (Inl e, s') \<Rightarrow> (Inl e, s') | (Inr x, s') \<Rightarrow> k x s')"

text \<open>\<open>readM f\<close> runs a read-only operation; \<open>getM f\<close> one that cannot fail.\<close>

definition readM :: "('s \<Rightarrow> 'e + 'a) \<Rightarrow> ('s, 'e, 'a) handler" where
  "readM f = (\<lambda>s. (f s, s))"

definition getM :: "('s \<Rightarrow> 'a) \<Rightarrow> ('s, 'e, 'a) handler" where
  "getM f = (\<lambda>s. (Inr (f s), s))"

definition modifyM :: "('s \<Rightarrow> 's) \<Rightarrow> ('s, 'e, unit) handler" where
  "modifyM f = (\<lambda>s. (Inr (), f s))"

text \<open>\<open>failIf b e\<close> is the early return \<open>if b { return e }\<close>.\<close>

definition failIf :: "bool \<Rightarrow> 'e \<Rightarrow> ('s, 'e, unit) handler" where
  "failIf b e = (if b then throwM e else returnM ())"

text \<open>\<open>mapErrM h m\<close> is \<open>if err != nil { return h(err) }\<close>.\<close>

definition mapErrM :: "('e \<Rightarrow> 'f) \<Rightarrow> ('s, 'e, 'a) handler \<Rightarrow> ('s, 'f, 'a) handler" where
  "mapErrM h m = (\<lambda>s. case m s of (Inl e, s') \<Rightarrow> (Inl (h e), s') | (Inr x, s') \<Rightarrow> (Inr x, s'))"

text \<open>\<open>tryM m\<close> hands the outcome of \<open>m\<close> to the caller: nothing is returned early.\<close>

definition tryM :: "('s, 'e, 'a) handler \<Rightarrow> ('s, 'f, 'e + 'a) handler" where
  "tryM m = (\<lambda>s. case m s of (r, s') \<Rightarrow> (Inr r, s'))"

text \<open>\<open>for _, x := range xs { body }\<close>, left at the first error the body returns.\<close>

fun forM :: "'a list \<Rightarrow> ('a \<Rightarrow> ('s, 'e, unit) handler) \<Rightarrow> ('s, 'e, unit) handler" where
  "forM [] f = returnM ()"
| "forM (x # xs) f = bindM (f x) (\<lambda>_. forM xs f)"

text \<open>The same loop with an accumulator that each iteration replaces.\<close>

fun foldM :: "('b \<Rightarrow> 'a \<Rightarrow> ('s, 'e, 'b) handler) \<Rightarrow> 'b \<Rightarrow> 'a list \<Rightarrow> ('s, 'e, 'b) handler" where
  "foldM f acc [] = returnM acc"
| "foldM f acc (x # xs) = bindM (f acc x) (\<lambda>acc'. foldM f acc' xs)"

lemma returnM_apply [monad_simps]: "returnM x s = (Inr x, s)"
  by (simp add: returnM_def)

lemma throwM_apply [monad_simps]: "throwM e s = (Inl e, s)"
  by (simp add: throwM_def)

lemma readM_apply [monad_simps]: "readM f s = (f s, s)"
  by (simp add: readM_def)

lemma getM_apply [monad_simps]: "getM f s = (Inr (f s), s)"
  by (simp add: getM_def)

lemma modifyM_apply [monad_simps]: "modifyM f s = (Inr (), f s)"
  by (simp add: modifyM_def)

lemma failIf_apply [monad_simps]: "failIf b e s = (if b then Inl e else Inr (), s)"
  by (simp add: failIf_def throwM_def returnM_def)

lemma bindM_apply [monad_simps]:
  "bindM m k s = (case m s of (Inl e, s') \<Rightarrow> (Inl e, s') | (Inr x, s') \<Rightarrow> k x s')"
  by (simp add: bindM_def)

lemma mapErrM_apply [monad_simps]:
  "mapErrM h m s = (case m s of (Inl e, s') \<Rightarrow> (Inl (h e), s') | (Inr x, s') \<Rightarrow> (Inr x, s'))"
  by (simp add: mapErrM_def)

lemma snd_mapErrM: "snd (mapErrM h m s) = snd (m s)"
  by (simp add: mapErrM_def split: prod.splits sum.splits)

lemma bindM_step: "m s = (Inr x, s1) \<Longrightarrow> bindM m k s = k x s1"
  by (simp add: bindM_def)

lemma tryM_apply [monad_simps]: "tryM m s = (Inr (fst (m s)), snd (m s))"
  by (simp add: tryM_def split: prod.splits)

lemma bindM_assoc: "bindM (bindM m f) g = bindM m (\<lambda>x. bindM (f x) g)"
  by (rule ext) (simp add: bindM_def split: prod.splits sum.splits)

lemma bindM_returnM [simp]: "bindM m returnM = m"
  by (rule ext) (simp add: bindM_def returnM_def split: prod.splits sum.splits)

text \<open>Reading a successful run backwards, statement by statement.\<close>

lemma bindM_Inr [run_Inr]:
  "bindM m k s = (Inr y, s') \<longleftrightarrow> (\<exists>x s1. m s = (Inr x, s1) \<and> k x s1 = (Inr y, s'))"
  by (auto simp: bindM_def split: prod.splits sum.splits)

lemma returnM_Inr [run_Inr]: "returnM x s = (Inr y, s') \<longleftrightarrow> y = x \<and> s' = s"
  by (auto simp: returnM_def)

lemma throwM_Inr [run_Inr]: "throwM e s = (Inr y, s') \<longleftrightarrow> False"
  by (simp add: throwM_def)

lemma readM_run [run_Inr]: "readM f s = (r, s') \<longleftrightarrow> f s = r \<and> s' = s"
  by (auto simp: readM_def)

lemma getM_Inr [run_Inr]: "getM f s = (Inr y, s') \<longleftrightarrow> y = f s \<and> s' = s"
  by (auto simp: getM_def)

lemma modifyM_Inr [run_Inr]: "modifyM f s = (Inr y, s') \<longleftrightarrow> s' = f s"
  by (auto simp: modifyM_def)

lemma failIf_Inr [run_Inr]: "failIf b e s = (Inr y, s') \<longleftrightarrow> \<not> b \<and> s' = s"
  by (auto simp: failIf_def throwM_def returnM_def)

lemma mapErrM_Inr [run_Inr]: "mapErrM h m s = (Inr y, s') \<longleftrightarrow> m s = (Inr y, s')"
  by (auto simp: mapErrM_def split: prod.splits sum.splits)

lemma tryM_Inr [run_Inr]: "tryM m s = (Inr r, s') \<longleftrightarrow> m s = (r, s')"
  by (auto simp: tryM_def split: prod.splits)

lemma mapErrM_readM: "mapErrM h (readM f) s = (Inl e, s') \<longleftrightarrow> (\<exists>e0. f s = Inl e0 \<and> e = h e0) \<and> s' = s"
  by (auto simp: mapErrM_def readM_def split: sum.splits)

subsection \<open>Relating the states before and after a handler\<close>

text \<open>
  \<open>keepsM R m\<close>: whatever \<open>m\<close> returns, the states before and after are related by \<open>R\<close>.
  With a reflexive and transitive \<open>R\<close> it composes along the handler's structure, so a
  handler's lemma is the composition of the lemmas of the operations it calls.
\<close>

definition keepsM :: "('s \<Rightarrow> 's \<Rightarrow> bool) \<Rightarrow> ('s, 'e, 'a) handler \<Rightarrow> bool" where
  "keepsM R m \<longleftrightarrow> (\<forall>s. R s (snd (m s)))"

lemma keepsMI: "(\<And>s. R s (snd (m s))) \<Longrightarrow> keepsM R m"
  by (simp add: keepsM_def)

lemma keepsMD: "keepsM R m \<Longrightarrow> R s (snd (m s))"
  by (simp add: keepsM_def)

locale run_relation =
  fixes R :: "'s \<Rightarrow> 's \<Rightarrow> bool"
  assumes R_refl [simp, intro]: "R s s"
    and R_trans: "R s t \<Longrightarrow> R t u \<Longrightarrow> R s u"
begin

lemma keeps_returnM [simp, intro]: "keepsM R (returnM x)"
  by (simp add: keepsM_def returnM_def)

lemma keeps_throwM [simp, intro]: "keepsM R (throwM e)"
  by (simp add: keepsM_def throwM_def)

lemma keeps_readM [simp, intro]: "keepsM R (readM f)"
  by (simp add: keepsM_def readM_def)

lemma keeps_getM [simp, intro]: "keepsM R (getM f)"
  by (simp add: keepsM_def getM_def)

lemma keeps_failIf [simp, intro]: "keepsM R (failIf b e)"
  by (simp add: failIf_def)

lemma keeps_bindM [intro]:
  assumes "keepsM R m" and "\<And>x. keepsM R (k x)"
  shows "keepsM R (bindM m k)"
proof (rule keepsMI)
  fix s
  obtain r s' where ms: "m s = (r, s')" by (cases "m s")
  with assms(1) have "R s s'" by (metis keepsMD snd_conv)
  then show "R s (snd (bindM m k s))"
    using assms(2) ms by (cases r) (auto simp: bindM_def keepsM_def intro: R_trans)
qed

text \<open>The same at one state, with what the first statement returned.\<close>

lemma at_bindM:
  assumes "R s (snd (m s))" and "\<And>x s'. m s = (Inr x, s') \<Longrightarrow> R s' (snd (k x s'))"
  shows "R s (snd (bindM m k s))"
proof (cases "m s")
  case (Pair r s')
  then show ?thesis
    using assms by (cases r) (auto simp: bindM_def intro: R_trans)
qed

lemma keeps_mapErrM [intro]: "keepsM R m \<Longrightarrow> keepsM R (mapErrM h m)"
  by (auto simp: keepsM_def mapErrM_def split: prod.splits sum.splits) (metis snd_conv)+

lemma keeps_tryM [intro]: "keepsM R m \<Longrightarrow> keepsM R (tryM m)"
  by (auto simp: keepsM_def tryM_def split: prod.splits) (metis snd_conv)

lemma keeps_forM [intro]: "(\<And>x. keepsM R (f x)) \<Longrightarrow> keepsM R (forM xs f)"
  by (induction xs) auto

lemma keeps_foldM [intro]: "(\<And>a x. keepsM R (f a x)) \<Longrightarrow> keepsM R (foldM f acc xs)"
  by (induction xs arbitrary: acc) auto

lemma keeps_modifyM: "(\<And>s. R s (f s)) \<Longrightarrow> keepsM R (modifyM f)"
  by (simp add: keepsM_def modifyM_def)

lemma keeps_If [intro]: "keepsM R m \<Longrightarrow> keepsM R m' \<Longrightarrow> keepsM R (if b then m else m')"
  by simp

lemma keeps_case_option [intro]:
  "keepsM R m \<Longrightarrow> (\<And>x. keepsM R (k x)) \<Longrightarrow> keepsM R (case z of None \<Rightarrow> m | Some x \<Rightarrow> k x)"
  by (simp split: option.splits)

lemma keeps_case_sum [intro]:
  "(\<And>e. keepsM R (h e)) \<Longrightarrow> (\<And>x. keepsM R (k x)) \<Longrightarrow>
   keepsM R (case z of Inl e \<Rightarrow> h e | Inr x \<Rightarrow> k x)"
  by (simp split: sum.splits)

lemma after_bindM:
  assumes "R s (snd (m s1))" and "\<And>x. keepsM R (k x)"
  shows "R s (snd (bindM m k s1))"
proof (cases "m s1")
  case (Pair r s2)
  then show ?thesis
    using assms by (cases r) (auto simp: bindM_def keepsM_def intro: R_trans)
qed

lemma at_read: "(\<And>x. f s = Inr x \<Longrightarrow> R s (snd (k x s))) \<Longrightarrow> R s (snd (bindM (mapErrM h (readM f)) k s))"
  by (cases "f s") (simp_all add: bindM_def mapErrM_def readM_def)

lemma at_failIf: "(\<not> b \<Longrightarrow> R s (snd (k () s))) \<Longrightarrow> R s (snd (bindM (failIf b e) k s))"
  by (simp add: bindM_def failIf_def throwM_def returnM_def)

lemma at_keeps: "keepsM R m \<Longrightarrow> R s (snd (m s))"
  by (simp add: keepsM_def)

end

subsection \<open>Tables\<close>

text \<open>
  A database table is the list of its rows. \<open>upd_where P f rows\<close> is
  \<open>UPDATE t SET f WHERE P\<close> and \<open>count_where P rows\<close> is \<open>SELECT count(*) WHERE P\<close>;
  \<open>find\<close> is \<open>SELECT ... WHERE P\<close> scanned into one row.
\<close>

definition upd_where :: "('r \<Rightarrow> bool) \<Rightarrow> ('r \<Rightarrow> 'r) \<Rightarrow> 'r list \<Rightarrow> 'r list" where
  "upd_where P f rows = map (\<lambda>r. if P r then f r else r) rows"

definition count_where :: "('r \<Rightarrow> bool) \<Rightarrow> 'r list \<Rightarrow> nat" where
  "count_where P rows = length (filter P rows)"

lemma upd_where_Nil [simp]: "upd_where P f [] = []"
  by (simp add: upd_where_def)

lemma upd_where_Cons [simp]:
  "upd_where P f (r # rows) = (if P r then f r else r) # upd_where P f rows"
  by (simp add: upd_where_def)

lemma length_upd_where [simp]: "length (upd_where P f rows) = length rows"
  by (simp add: upd_where_def)

lemma set_upd_where: "set (upd_where P f rows) = (\<lambda>r. if P r then f r else r) ` set rows"
  by (simp add: upd_where_def)

lemma upd_where_elem: "r \<in> set (upd_where P f rows) \<Longrightarrow>
  \<exists>r0 \<in> set rows. r = (if P r0 then f r0 else r0)"
  by (auto simp: upd_where_def)

lemma upd_where_noop: "(\<And>r. r \<in> set rows \<Longrightarrow> \<not> P r) \<Longrightarrow> upd_where P f rows = rows"
  by (induction rows) auto

lemma map_upd_where:
  "(\<And>r. P r \<Longrightarrow> g (f r) = g r) \<Longrightarrow> map g (upd_where P f rows) = map g rows"
  by (induction rows) auto

lemma find_upd_where_other:
  "(\<And>r. P r \<Longrightarrow> Q (f r) = Q r) \<Longrightarrow> (\<And>r. Q r \<Longrightarrow> \<not> P r) \<Longrightarrow>
   find Q (upd_where P f rows) = find Q rows"
  by (induction rows) auto

lemma find_upd_where:
  assumes "\<And>r. P r \<Longrightarrow> Q (f r) = Q r"
  shows "find Q (upd_where P f rows) = map_option (\<lambda>r. if P r then f r else r) (find Q rows)"
  using assms by (induction rows) auto

lemma find_append: "find P (xs @ ys) = (case find P xs of Some x \<Rightarrow> Some x | None \<Rightarrow> find P ys)"
  by (induction xs) auto

lemma find_SomeD: "find P xs = Some x \<Longrightarrow> x \<in> set xs \<and> P x"
  by (induction xs) (auto split: if_splits)

lemma find_None_iff': "find P xs = None \<longleftrightarrow> (\<forall>x \<in> set xs. \<not> P x)"
  by (induction xs) auto

lemma find_unique:
  assumes "distinct (map key rows)" and "r \<in> set rows"
  shows "find (\<lambda>x. key x = key r) rows = Some r"
  using assms by (induction rows) (auto simp: image_iff)

lemma find_distinct_SomeI:
  assumes "distinct (map key rows)" and "r \<in> set rows" and "key r = k"
  shows "find (\<lambda>x. key x = k) rows = Some r"
  using find_unique [OF assms(1,2)] assms(3) by simp

lemma distinct_key_eq:
  "distinct (map key rows) \<Longrightarrow> r \<in> set rows \<Longrightarrow> r' \<in> set rows \<Longrightarrow> key r = key r' \<Longrightarrow> r = r'"
  by (metis find_unique option.inject)

lemma count_where_Nil [simp]: "count_where P [] = 0"
  by (simp add: count_where_def)

lemma count_where_Cons [simp]:
  "count_where P (r # rows) = (if P r then 1 else 0) + count_where P rows"
  by (simp add: count_where_def)

lemma count_where_append [simp]: "count_where P (xs @ ys) = count_where P xs + count_where P ys"
  by (simp add: count_where_def)

lemma count_where_0_iff: "count_where P rows = 0 \<longleftrightarrow> (\<forall>r \<in> set rows. \<not> P r)"
  by (induction rows) auto

lemma count_where_upd_le:
  "(\<And>r. P r \<Longrightarrow> Q (f r) \<Longrightarrow> Q r) \<Longrightarrow> count_where Q (upd_where P f rows) \<le> count_where Q rows"
  by (induction rows) (auto simp: le_SucI)

lemma count_where_upd_eq:
  "(\<And>r. P r \<Longrightarrow> Q (f r) = Q r) \<Longrightarrow> count_where Q (upd_where P f rows) = count_where Q rows"
  by (induction rows) auto

lemma count_where_filter_le: "count_where P (filter Q rows) \<le> count_where P rows"
  by (induction rows) (auto simp: le_SucI)

subsection \<open>First-occurrence deduplication\<close>

text \<open>
  The \<open>seen\<close>-map loops of the services: a value whose key was already seen is skipped, the
  others are kept in order.
\<close>

fun dedup_seen :: "('a \<Rightarrow> 'k) \<Rightarrow> 'k list \<Rightarrow> 'a list \<Rightarrow> 'a list" where
  "dedup_seen key seen [] = []"
| "dedup_seen key seen (x # xs) =
     (if key x \<in> set seen then dedup_seen key seen xs
      else x # dedup_seen key (key x # seen) xs)"

lemma dedup_seen_keys:
  "key ` set (dedup_seen key seen xs) = key ` set xs - set seen"
  by (induction xs arbitrary: seen) auto

lemma dedup_seen_subset: "set (dedup_seen key seen xs) \<subseteq> set xs"
  by (induction xs arbitrary: seen) auto

lemma dedup_seen_distinct: "distinct (map key (dedup_seen key seen xs))"
proof (induction xs arbitrary: seen)
  case Nil
  then show ?case by simp
next
  case (Cons x xs)
  have "key x \<notin> key ` set (dedup_seen key (key x # seen) xs)"
    by (simp add: dedup_seen_keys)
  with Cons show ?case by auto
qed

lemma dedup_seen_id:
  "distinct (map key xs) \<Longrightarrow> key ` set xs \<inter> set seen = {} \<Longrightarrow> dedup_seen key seen xs = xs"
  by (induction xs arbitrary: seen) auto

end
