(* ===== verification/Cerrors.thy ===== *)
theory Cerrors
  imports Prelude
begin

text \<open>
  Errors as values: \<open>internal/pkg/cerrors/errors.go\<close>. An \<open>error\<close> of the program is an
  application error, a sentinel of the standard library, an error of a driver the program only
  passes on, or one of these wrapped with \<open>fmt.Errorf("...: %w", err)\<close> or joined with
  \<open>errors.Join\<close>. \<open>errors_Is\<close> and \<open>AsAppError\<close> walk that structure as
  \<open>errors.Is\<close> and \<open>errors.As\<close> do: depth first, outermost first.
\<close>

datatype code =
    CodeNotFound | CodeAlreadyExists | CodeInvalidInput | CodeUnauthorized | CodeForbidden
  | CodeAccountDeactivated | CodeAccountSuspended | CodeNotDeactivated | CodeInternal
  | CodeConflict | CodeRateLimited | CodeQuotaExceeded | CodeUnavailable | CodeUnprocessable
  | CodeCallEnded | CodeCanceled | CodeWaitingRoomDeclined | CodeCallPasswordRequired
  | CodeChannelCallExists | CodeUserInCall
  | CodeOther string

fun code_str :: "code \<Rightarrow> string" where
  "code_str CodeNotFound = ''NOT_FOUND''"
| "code_str CodeAlreadyExists = ''ALREADY_EXISTS''"
| "code_str CodeInvalidInput = ''INVALID_INPUT''"
| "code_str CodeUnauthorized = ''UNAUTHORIZED''"
| "code_str CodeForbidden = ''FORBIDDEN''"
| "code_str CodeAccountDeactivated = ''ACCOUNT_DEACTIVATED''"
| "code_str CodeAccountSuspended = ''ACCOUNT_SUSPENDED''"
| "code_str CodeNotDeactivated = ''NOT_DEACTIVATED''"
| "code_str CodeInternal = ''INTERNAL''"
| "code_str CodeConflict = ''CONFLICT''"
| "code_str CodeRateLimited = ''RATE_LIMITED''"
| "code_str CodeQuotaExceeded = ''QUOTA_EXCEEDED''"
| "code_str CodeUnavailable = ''UNAVAILABLE''"
| "code_str CodeUnprocessable = ''UNPROCESSABLE''"
| "code_str CodeCallEnded = ''CALL_ENDED''"
| "code_str CodeCanceled = ''CANCELED''"
| "code_str CodeWaitingRoomDeclined = ''WAITING_ROOM_DECLINED''"
| "code_str CodeCallPasswordRequired = ''CALL_PASSWORD_REQUIRED''"
| "code_str CodeChannelCallExists = ''CHANNEL_ALREADY_HAS_ACTIVE_CALL''"
| "code_str CodeUserInCall = ''USER_ALREADY_IN_CALL''"
| "code_str (CodeOther s) = s"

text \<open>
  The comparable sentinel errors the program tests with \<open>errors.Is\<close>. \<open>ErrNamed\<close> stands
  for any other error variable of the program or its libraries, by name.
\<close>

datatype sentinel =
    context_Canceled | context_DeadlineExceeded | syscall_EPIPE | syscall_ECONNRESET
  | net_ErrClosed | ErrNamed string

datatype go_error =
    AppError code string "go_error option"
  | Sentinel sentinel
  | Opaque string
  | Wrapf string go_error
  | Join "go_error list"

subsection \<open>The constructors of \<open>AppError\<close>\<close>

definition NotFound :: "string \<Rightarrow> go_error" where
  "NotFound msg = AppError CodeNotFound msg None"

definition AlreadyExists :: "string \<Rightarrow> go_error" where
  "AlreadyExists msg = AppError CodeAlreadyExists msg None"

definition InvalidInput :: "string \<Rightarrow> go_error" where
  "InvalidInput msg = AppError CodeInvalidInput msg None"

definition Unauthorized :: "string \<Rightarrow> go_error" where
  "Unauthorized msg = AppError CodeUnauthorized msg None"

definition CallPasswordRequired :: "string \<Rightarrow> go_error" where
  "CallPasswordRequired msg = AppError CodeCallPasswordRequired msg None"

definition Forbidden :: "string \<Rightarrow> go_error" where
  "Forbidden msg = AppError CodeForbidden msg None"

definition QuotaExceeded :: "string \<Rightarrow> go_error" where
  "QuotaExceeded msg = AppError CodeQuotaExceeded msg None"

definition AccountDeactivated :: go_error where
  "AccountDeactivated = AppError CodeAccountDeactivated ''account is deactivated'' None"

definition AccountSuspended :: go_error where
  "AccountSuspended = AppError CodeAccountSuspended ''account is suspended'' None"

definition NotDeactivated :: go_error where
  "NotDeactivated = AppError CodeNotDeactivated ''account is not deactivated'' None"

definition Internal :: "string \<Rightarrow> go_error option \<Rightarrow> go_error" where
  "Internal msg err = AppError CodeInternal msg err"

definition Conflict :: "string \<Rightarrow> go_error" where
  "Conflict msg = AppError CodeConflict msg None"

definition ChannelCallExists :: "string \<Rightarrow> go_error" where
  "ChannelCallExists msg = AppError CodeChannelCallExists msg None"

definition UserInCall :: "string \<Rightarrow> go_error" where
  "UserInCall msg = AppError CodeUserInCall msg None"

definition Unavailable :: "string \<Rightarrow> go_error" where
  "Unavailable msg = AppError CodeUnavailable msg None"

definition Unprocessable :: "string \<Rightarrow> go_error" where
  "Unprocessable msg = AppError CodeUnprocessable msg None"

definition CallEnded :: "string \<Rightarrow> go_error" where
  "CallEnded msg = AppError CodeCallEnded msg None"

definition WaitingRoomDeclined :: "string \<Rightarrow> go_error" where
  "WaitingRoomDeclined msg = AppError CodeWaitingRoomDeclined msg None"

definition Canceled :: "string \<Rightarrow> go_error" where
  "Canceled msg = AppError CodeCanceled msg None"

lemmas app_error_defs =
  NotFound_def AlreadyExists_def InvalidInput_def Unauthorized_def CallPasswordRequired_def
  Forbidden_def QuotaExceeded_def Internal_def Conflict_def ChannelCallExists_def
  UserInCall_def Unavailable_def Unprocessable_def CallEnded_def WaitingRoomDeclined_def
  Canceled_def AccountDeactivated_def AccountSuspended_def NotDeactivated_def

subsection \<open>Status codes and inspection\<close>

text \<open>\<open>(*AppError).HTTPStatus\<close>: the default branch catches \<open>INTERNAL\<close> and any unknown code.\<close>

fun HTTPStatus :: "code \<Rightarrow> int" where
  "HTTPStatus CodeNotFound = 404"
| "HTTPStatus CodeAlreadyExists = 409"
| "HTTPStatus CodeConflict = 409"
| "HTTPStatus CodeChannelCallExists = 409"
| "HTTPStatus CodeUserInCall = 409"
| "HTTPStatus CodeInvalidInput = 400"
| "HTTPStatus CodeUnauthorized = 401"
| "HTTPStatus CodeCallPasswordRequired = 401"
| "HTTPStatus CodeForbidden = 403"
| "HTTPStatus CodeAccountDeactivated = 403"
| "HTTPStatus CodeAccountSuspended = 403"
| "HTTPStatus CodeNotDeactivated = 403"
| "HTTPStatus CodeWaitingRoomDeclined = 403"
| "HTTPStatus CodeRateLimited = 429"
| "HTTPStatus CodeQuotaExceeded = 413"
| "HTTPStatus CodeUnprocessable = 422"
| "HTTPStatus CodeUnavailable = 503"
| "HTTPStatus CodeCallEnded = 410"
| "HTTPStatus CodeCanceled = 499"
| "HTTPStatus CodeInternal = 500"
| "HTTPStatus (CodeOther _) = 500"

fun errors_Is :: "go_error \<Rightarrow> sentinel \<Rightarrow> bool" where
  "errors_Is (AppError c m None) t = False"
| "errors_Is (AppError c m (Some e)) t = errors_Is e t"
| "errors_Is (Sentinel s) t = (s = t)"
| "errors_Is (Opaque m) t = False"
| "errors_Is (Wrapf m e) t = errors_Is e t"
| "errors_Is (Join es) t = (\<exists>e \<in> set es. errors_Is e t)"

text \<open>\<open>AsAppError\<close> returns the first application error of the chain; its code, message and wrapped error.\<close>

fun AsAppError :: "go_error \<Rightarrow> (code \<times> string \<times> go_error option) option" and
    AsAppErrors :: "go_error list \<Rightarrow> (code \<times> string \<times> go_error option) option" where
  "AsAppError (AppError c m e) = Some (c, m, e)"
| "AsAppError (Sentinel s) = None"
| "AsAppError (Opaque m) = None"
| "AsAppError (Wrapf m e) = AsAppError e"
| "AsAppError (Join es) = AsAppErrors es"
| "AsAppErrors [] = None"
| "AsAppErrors (e # es) = (case AsAppError e of Some r \<Rightarrow> Some r | None \<Rightarrow> AsAppErrors es)"

text \<open>\<open>appErr, ok := AsAppError(err); ok && appErr.Code == c\<close>.\<close>

definition has_code :: "code \<Rightarrow> go_error \<Rightarrow> bool" where
  "has_code c e = (case AsAppError e of Some (c', _) \<Rightarrow> c' = c | None \<Rightarrow> False)"

definition IsContextCanceled :: "go_error option \<Rightarrow> bool" where
  "IsContextCanceled err = (case err of None \<Rightarrow> False | Some e \<Rightarrow> errors_Is e context_Canceled)"

definition IsClientDisconnect :: "go_error option \<Rightarrow> bool" where
  "IsClientDisconnect err =
     (case err of
        None \<Rightarrow> False
      | Some e \<Rightarrow>
          if IsContextCanceled err then True
          else errors_Is e syscall_EPIPE \<or> errors_Is e syscall_ECONNRESET \<or> errors_Is e net_ErrClosed)"

lemma AsAppError_constructors [simp]:
  "AsAppError (NotFound m) = Some (CodeNotFound, m, None)"
  "AsAppError (AlreadyExists m) = Some (CodeAlreadyExists, m, None)"
  "AsAppError (InvalidInput m) = Some (CodeInvalidInput, m, None)"
  "AsAppError (Forbidden m) = Some (CodeForbidden, m, None)"
  "AsAppError (Conflict m) = Some (CodeConflict, m, None)"
  "AsAppError (Internal m eo) = Some (CodeInternal, m, eo)"
  "AsAppError (CallEnded m) = Some (CodeCallEnded, m, None)"
  "AsAppError (UserInCall m) = Some (CodeUserInCall, m, None)"
  "AsAppError (ChannelCallExists m) = Some (CodeChannelCallExists, m, None)"
  "AsAppError (Unavailable m) = Some (CodeUnavailable, m, None)"
  "AsAppError (WaitingRoomDeclined m) = Some (CodeWaitingRoomDeclined, m, None)"
  "AsAppError (CallPasswordRequired m) = Some (CodeCallPasswordRequired, m, None)"
  by (simp_all add: app_error_defs)

lemma has_code_constructors [simp]:
  "has_code c (NotFound m) = (c = CodeNotFound)"
  "has_code c (Forbidden m) = (c = CodeForbidden)"
  "has_code c (Internal m eo) = (c = CodeInternal)"
  "has_code c (Wrapf m e) = has_code c e"
  "has_code c (Opaque m) = False"
  "has_code c (Sentinel s) = False"
  by (auto simp: has_code_def)

lemma has_code_AppError [simp]: "has_code c (AppError c' m e) = (c = c')"
  by (auto simp: has_code_def)

lemma errors_Is_constructors [simp]:
  "errors_Is (NotFound m) s = False"
  "errors_Is (Forbidden m) s = False"
  "errors_Is (Internal m None) s = False"
  "errors_Is (Internal m (Some e)) s = errors_Is e s"
  by (simp_all add: app_error_defs)

text \<open>
  What a handler may know of an error that came back from a repository: a deeper application
  error is never visible through an outer one.
\<close>

lemma has_code_unique: "has_code c e \<Longrightarrow> has_code c' e \<Longrightarrow> c = c'"
  by (auto simp: has_code_def split: option.splits)

lemma AsAppErrors_append:
  "AsAppErrors (es @ fs) = (case AsAppErrors es of Some r \<Rightarrow> Some r | None \<Rightarrow> AsAppErrors fs)"
  by (induction es) (auto split: option.splits)

lemma HTTPStatus_range: "400 \<le> HTTPStatus c \<and> HTTPStatus c < 600"
  by (cases c) auto

lemma HTTPStatus_server_error:
  "500 \<le> HTTPStatus c \<longleftrightarrow> c = CodeInternal \<or> c = CodeUnavailable \<or> (\<exists>s. c = CodeOther s)"
  by (cases c) auto

end
