(* ===== verification/Entity.thy ===== *)
theory Entity
  imports Cerrors
begin

text \<open>
  The entities of \<open>internal/domain/entity\<close> the access checks and the services work on.
  String-typed Go enumerations are datatypes with the source's constants; where the code has a
  \<open>Valid\<close> method or a \<open>default\<close> branch, a last constructor carries any other string
  (the empty string included). Records keep the fields that the modelled code reads or writes.
\<close>

subsection \<open>Workspaces, channels and grants\<close>

datatype WorkspaceRole =
  WorkspaceRoleOwner | WorkspaceRoleAdmin | WorkspaceRoleMember | WorkspaceRoleGuest
  | WorkspaceRoleOther string

record WorkspaceMember =
  WM_WorkspaceID :: uuid
  WM_UserID :: uuid
  WM_Role :: WorkspaceRole

record WorkspaceRoleDefinition =
  WRD_ID :: uuid
  WRD_WorkspaceID :: uuid
  WRD_Name :: string
  WRD_BaseRole :: WorkspaceRole
  WRD_Permissions :: "string list"

record WorkspaceRoleAssignment =
  WRA_WorkspaceID :: uuid
  WRA_UserID :: uuid
  WRA_RoleID :: uuid

datatype ChannelType =
  ChannelTypePublic | ChannelTypePrivate | ChannelTypeDM | ChannelTypeGroupDM
  | ChannelTypeSaved | ChannelTypeSavedGlobal | ChannelTypeOther string

definition IsSelfChannel :: "ChannelType \<Rightarrow> bool" where
  "IsSelfChannel t = (t = ChannelTypeSaved \<or> t = ChannelTypeSavedGlobal)"

datatype ChannelRole = ChannelRoleOwner | ChannelRoleAdmin | ChannelRoleMember

datatype DMRequestStatus =
  DMRequestStatusAccepted | DMRequestStatusPending | DMRequestStatusBlocked | DMRequestStatusOther string

text \<open>
  \<open>entity.Channel\<close> with the column \<open>archived_at\<close>. \<open>Ch_DMRequestStatus\<close>, \<open>Ch_LastActivityAt\<close> and
  \<open>Ch_Members\<close> are filled in by the services for a response; a row of the table has
  \<open>None\<close>, \<open>None\<close> and the nil slice. \<open>MembersCount\<close>, which only clients read, is left out.
\<close>

record Channel =
  Ch_ID :: uuid
  Ch_WorkspaceID :: "uuid option"
  Ch_Name :: string
  Ch_Topic :: "string option"
  Ch_Type :: ChannelType
  Ch_CreatedBy :: uuid
  Ch_OwnerUserID :: "uuid option"
  Ch_Archived :: bool
  Ch_ArchivedAt :: "gotime option"
  Ch_CreatedAt :: gotime
  Ch_UpdatedAt :: gotime
  Ch_DMRequestStatus :: "DMRequestStatus option"
  Ch_LastActivityAt :: "gotime option"
  Ch_Members :: "uuid list"

record ChannelMember =
  ChM_ID :: uuid
  ChM_ChannelID :: uuid
  ChM_UserID :: uuid
  ChM_Role :: ChannelRole
  ChM_LastReadAt :: gotime
  ChM_JoinedAt :: gotime
  ChM_DMRequestStatus :: DMRequestStatus

record GuestAccessGrant =
  GG_ID :: uuid
  GG_WorkspaceID :: uuid
  GG_UserID :: uuid
  GG_ChannelIDs :: "uuid list"
  GG_CallID :: "uuid option"
  GG_ExpiresAt :: gotime
  GG_CreatedAt :: gotime

text \<open>\<open>!now.After(g.ExpiresAt)\<close>.\<close>

definition GuestAccessGrant_IsActive :: "GuestAccessGrant \<Rightarrow> gotime \<Rightarrow> bool" where
  "GuestAccessGrant_IsActive g now = (\<not> now > GG_ExpiresAt g)"

definition GuestAccessGrant_AllowsChannel :: "GuestAccessGrant \<Rightarrow> uuid \<Rightarrow> bool" where
  "GuestAccessGrant_AllowsChannel g channelID =
     (if GG_CallID g \<noteq> None then False
      else if GG_ChannelIDs g = [] then True
      else channelID \<in> set (GG_ChannelIDs g))"

definition GuestAccessGrant_AllowsCall :: "GuestAccessGrant \<Rightarrow> uuid \<Rightarrow> bool" where
  "GuestAccessGrant_AllowsCall g callID = (GG_CallID g = Some callID)"

datatype ChannelAccessGrantKind = ChannelAccessGrantKindCollaborationDM

record ChannelAccessGrant =
  AG_ID :: uuid
  AG_ChannelID :: uuid
  AG_WorkspaceID :: uuid
  AG_UserID :: uuid
  AG_SourceUserID :: uuid
  AG_RemoteWorkspaceID :: uuid
  AG_Kind :: ChannelAccessGrantKind
  AG_AllowCalls :: bool
  AG_CreatedAt :: gotime

datatype WorkspaceConnectionStatus =
  WorkspaceConnectionPending | WorkspaceConnectionActive | WorkspaceConnectionPaused
  | WorkspaceConnectionRevoked

datatype WorkspaceDirectoryVisibility =
  DirectoryVisibilityNone | DirectoryVisibilityBasic | DirectoryVisibilityDirectory
  | DirectoryVisibilityOther string

datatype WorkspaceContactPolicy =
  ContactPolicyNone | ContactPolicyRoleBased | ContactPolicyMutualAllow | ContactPolicyOpen
  | ContactPolicyOther string

record WorkspaceConnectionPolicy =
  WP_DirectoryVisibility :: WorkspaceDirectoryVisibility
  WP_ContactPolicy :: WorkspaceContactPolicy
  WP_AllowedSourceRoles :: "WorkspaceRole list"
  WP_AllowedTargetRoles :: "WorkspaceRole list"
  WP_SharedChannels :: bool
  WP_SharedCalls :: bool
  WP_ExpiresAt :: "gotime option"

record WorkspaceConnection =
  WC_ID :: uuid
  WC_SourceWorkspaceID :: uuid
  WC_TargetWorkspaceID :: uuid
  WC_Status :: WorkspaceConnectionStatus
  WC_Policy :: WorkspaceConnectionPolicy
  WC_CreatedBy :: uuid
  WC_ApprovedBy :: "uuid option"

definition CanViewDirectory :: "WorkspaceConnectionPolicy \<Rightarrow> bool" where
  "CanViewDirectory p =
     (WP_DirectoryVisibility p = DirectoryVisibilityBasic \<or>
      WP_DirectoryVisibility p = DirectoryVisibilityDirectory)"

definition roleAllowed :: "WorkspaceRole \<Rightarrow> WorkspaceRole list \<Rightarrow> bool" where
  "roleAllowed role allowed = (if allowed = [] then False else role \<in> set allowed)"

definition CanContact :: "WorkspaceConnectionPolicy \<Rightarrow> WorkspaceRole \<Rightarrow> WorkspaceRole \<Rightarrow> bool" where
  "CanContact p sourceRole targetRole =
     (case WP_ContactPolicy p of
        ContactPolicyOpen \<Rightarrow> True
      | ContactPolicyRoleBased \<Rightarrow>
          roleAllowed sourceRole (WP_AllowedSourceRoles p) \<and> roleAllowed targetRole (WP_AllowedTargetRoles p)
      | ContactPolicyMutualAllow \<Rightarrow> False
      | ContactPolicyNone \<Rightarrow> False
      | ContactPolicyOther _ \<Rightarrow> False)"

subsection \<open>Calls\<close>

datatype CallType =
  CallTypeOneToOne | CallTypeGroup | CallTypeMeeting | CallTypeWebinar | CallTypeSelector
  | CallTypeOther string

datatype CallStatus = CallStatusRinging | CallStatusActive | CallStatusEnded

datatype EntryMode = EntryModeManualAdmit | EntryModePassword | EntryModeOpen | EntryModeOther string

fun EntryMode_Valid :: "EntryMode \<Rightarrow> bool" where
  "EntryMode_Valid (EntryModeOther _) = False"
| "EntryMode_Valid _ = True"

datatype BreakoutCreationPolicy =
  BreakoutCreationHost | BreakoutCreationEveryone | BreakoutCreationOther string

fun BreakoutCreationPolicy_Valid :: "BreakoutCreationPolicy \<Rightarrow> bool" where
  "BreakoutCreationPolicy_Valid (BreakoutCreationOther _) = False"
| "BreakoutCreationPolicy_Valid _ = True"

datatype CallEndReason =
  CallEndReasonHostEnded | CallEndReasonAllLeft | CallEndReasonFailed | CallEndReasonMissed
  | CallEndReasonCancelled

datatype CallRole =
  CallRoleHost | CallRoleCoHost | CallRolePresenter | CallRoleParticipant | CallRoleViewer
  | CallRoleOther string

datatype ParticipantStatus =
  ParticipantStatusInvited | ParticipantStatusWaiting | ParticipantStatusJoining
  | ParticipantStatusConnected | ParticipantStatusDisconnected | ParticipantStatusDeclined

datatype ParticipantLeftReason =
  ParticipantLeftReasonLeft | ParticipantLeftReasonTimeout | ParticipantLeftReasonDeclined
  | ParticipantLeftReasonMissed

datatype AccessLevel = AccessLevelPublic | AccessLevelPrivate | AccessLevelOther string

fun AccessLevel_Valid :: "AccessLevel \<Rightarrow> bool" where
  "AccessLevel_Valid (AccessLevelOther _) = False"
| "AccessLevel_Valid _ = True"

definition AccessLevel_Resolved :: "AccessLevel \<Rightarrow> AccessLevel" where
  "AccessLevel_Resolved a = (if AccessLevel_Valid a then a else AccessLevelPublic)"

datatype WhoCanAddGuestsPolicy =
  WhoCanAddGuestsHost | WhoCanAddGuestsEveryone | WhoCanAddGuestsOther string

definition WhoCanAddGuests_Valid :: "WhoCanAddGuestsPolicy \<Rightarrow> bool" where
  "WhoCanAddGuests_Valid p = (p = WhoCanAddGuestsHost \<or> p = WhoCanAddGuestsEveryone)"

record CallSettings =
  CS_WaitingRoom :: bool
  CS_MuteOnJoin :: bool
  CS_Recording :: bool
  CS_ScreenSharing :: bool
  CS_Chat :: bool
  CS_BreakoutRooms :: bool
  CS_BreakoutCreation :: BreakoutCreationPolicy
  CS_MaxBreakoutRooms :: int
  CS_MaxParticipants :: int
  CS_E2EE :: bool
  CS_Watermark :: bool
  CS_EntryMode :: EntryMode
  CS_MembersCanUnmuteMic :: "bool option"
  CS_MembersCanEnableCamera :: "bool option"
  CS_WhoCanAddGuests :: WhoCanAddGuestsPolicy

definition ResolvedWhoCanAddGuests :: "CallSettings \<Rightarrow> WhoCanAddGuestsPolicy" where
  "ResolvedWhoCanAddGuests c =
     (if WhoCanAddGuests_Valid (CS_WhoCanAddGuests c) then CS_WhoCanAddGuests c else WhoCanAddGuestsHost)"

definition ResolvedMembersCanUnmuteMic :: "CallSettings \<Rightarrow> bool" where
  "ResolvedMembersCanUnmuteMic c =
     (case CS_MembersCanUnmuteMic c of None \<Rightarrow> True | Some b \<Rightarrow> b)"

definition ResolvedMembersCanEnableCamera :: "CallSettings \<Rightarrow> bool" where
  "ResolvedMembersCanEnableCamera c =
     (case CS_MembersCanEnableCamera c of None \<Rightarrow> True | Some b \<Rightarrow> b)"

definition ResolvedEntryMode :: "CallSettings \<Rightarrow> EntryMode" where
  "ResolvedEntryMode c =
     (if EntryMode_Valid (CS_EntryMode c) then CS_EntryMode c
      else if CS_WaitingRoom c then EntryModeManualAdmit
      else EntryModeOpen)"

definition ResolvedBreakoutCreation :: "CallSettings \<Rightarrow> BreakoutCreationPolicy" where
  "ResolvedBreakoutCreation c =
     (if CS_BreakoutCreation c = BreakoutCreationEveryone then BreakoutCreationEveryone
      else BreakoutCreationHost)"

definition ResolvedMaxBreakoutRooms :: "CallSettings \<Rightarrow> int" where
  "ResolvedMaxBreakoutRooms c =
     (if CS_MaxBreakoutRooms c \<le> 0 then 8
      else if CS_MaxBreakoutRooms c > 8 then 8
      else if CS_MaxBreakoutRooms c < 1 then 1
      else CS_MaxBreakoutRooms c)"

text \<open>
  \<open>CallSettings.MarshalJSON\<close>, which also governs persistence: the two member permissions are
  written as the resolved booleans, every other field as it is. The JSON text itself is not
  modelled, only the settings value that decoding it gives back.
\<close>

definition CallSettings_MarshalJSON :: "CallSettings \<Rightarrow> CallSettings" where
  "CallSettings_MarshalJSON c =
     c\<lparr>CS_MembersCanUnmuteMic := Some (ResolvedMembersCanUnmuteMic c),
       CS_MembersCanEnableCamera := Some (ResolvedMembersCanEnableCamera c)\<rparr>"

record Call =
  Call_ID :: uuid
  Call_WorkspaceID :: uuid
  Call_ChannelID :: "uuid option"
  Call_Type :: CallType
  Call_Status :: CallStatus
  Call_Title :: string
  Call_CreatedBy :: uuid
  Call_ScheduledCallID :: "uuid option"
  Call_AccessLevel :: AccessLevel
  Call_Settings :: CallSettings
  Call_JoinPasswordHash :: string
  Call_StartedAt :: "gotime option"
  Call_EndedAt :: "gotime option"
  Call_EndReason :: "CallEndReason option"
  Call_FeaturedShareUserID :: "uuid option"
  Call_PinnedParticipantUserID :: "uuid option"
  Call_CreatedAt :: gotime

record CallParticipant =
  CP_ID :: uuid
  CP_CallID :: uuid
  CP_UserID :: uuid
  CP_BreakoutRoomID :: "uuid option"
  CP_Role :: CallRole
  CP_Status :: ParticipantStatus
  CP_AudioMuted :: bool
  CP_VideoMuted :: bool
  CP_ScreenSharing :: bool
  CP_CanScreenShare :: bool
  CP_JoinedAt :: "gotime option"
  CP_LeftAt :: "gotime option"
  CP_LeftReason :: "ParticipantLeftReason option"

datatype BreakoutRoomStatus = BreakoutRoomStatusActive | BreakoutRoomStatusClosed

record BreakoutRoom =
  BR_ID :: uuid
  BR_CallID :: uuid
  BR_Name :: string
  BR_CreatedBy :: uuid
  BR_TimeLimit :: "int option"
  BR_ClosesAt :: "gotime option"
  BR_Status :: BreakoutRoomStatus
  BR_CreatedAt :: gotime
  BR_ClosedAt :: "gotime option"

subsection \<open>Users and workspaces\<close>

datatype UserStatus = UserStatusActive | UserStatusSuspended | UserStatusDeactivated | UserStatusOther string

datatype SavedMessagesMode = SavedMessagesModePerWorkspace | SavedMessagesModeGlobal | SavedMessagesModeOther string

record User =
  U_ID :: uuid
  U_Email :: string
  U_DisplayName :: string
  U_AvatarURL :: string
  U_AvatarColor :: string
  U_Position :: "string option"
  U_Department :: "string option"
  U_Phone :: "string option"
  U_Timezone :: "string option"
  U_PasswordHash :: string
  U_Status :: UserStatus
  U_DeactivatedAt :: "gotime option"
  U_SavedMessagesMode :: SavedMessagesMode
  U_Locale :: string
  U_CreatedAt :: gotime
  U_UpdatedAt :: gotime

datatype WorkspaceKind = WorkspaceKindPersonal | WorkspaceKindOrganization | WorkspaceKindOther string

record Workspace =
  W_ID :: uuid
  W_Name :: string
  W_Slug :: string
  W_Kind :: WorkspaceKind
  W_AvatarURL :: string
  W_CreatedBy :: uuid
  W_CreatedAt :: gotime
  W_UpdatedAt :: gotime

subsection \<open>Messages\<close>

datatype MessageType = MessageTypeText | MessageTypeSystem | MessageTypeFile | MessageTypeOther string

text \<open>
  The JSON columns a service writes itself (\<open>call_event\<close>, \<open>saved_from\<close>, \<open>quoted_snapshot\<close>,
  \<open>profile_share\<close>) are the values they encode; \<open>forwarded_from\<close> is the client's text, stored as it
  came. \<open>callEventPayload\<close> is the envelope of \<open>service/call/chat_event.go\<close>.
\<close>

record callEventPayload =
  CE_CallID :: uuid
  CE_CallType :: CallType
  CE_EndReason :: "CallEndReason option"
  CE_StartedAt :: "gotime option"
  CE_EndedAt :: "gotime option"
  CE_DurationSeconds :: int
  CE_InitiatorID :: uuid
  CE_ParticipantUserIDs :: "uuid list"
  CE_ParticipantCount :: nat
  CE_HasRecording :: bool

record SavedFrom =
  SF_UserID :: uuid
  SF_MessageID :: uuid
  SF_ChannelID :: uuid

record QuotedSnapshot =
  QS_UserID :: uuid
  QS_ContentExcerpt :: string
  QS_CreatedAt :: gotime
  QS_Deleted :: "bool option"
  QS_ParentMessageID :: "uuid option"

record ProfileShareSnapshot =
  PSS_DisplayName :: string
  PSS_AvatarURL :: string
  PSS_AvatarColor :: string
  PSS_Role :: WorkspaceRole
  PSS_Position :: "string option"
  PSS_Department :: "string option"

record ProfileShare =
  PS_UserID :: uuid
  PS_WorkspaceID :: uuid
  PS_Snapshot :: ProfileShareSnapshot

record Reaction =
  Re_ID :: uuid
  Re_MessageID :: uuid
  Re_UserID :: uuid
  Re_Emoji :: string
  Re_CreatedAt :: gotime

record Attachment =
  At_ID :: uuid
  At_MessageID :: uuid
  At_FileName :: string
  At_StoragePath :: string
  At_CreatedAt :: gotime

record MessageFile =
  MF_ID :: uuid
  MF_Status :: string
  MF_Filename :: string
  MF_Extension :: string
  MF_MimeType :: string
  MF_Size :: int

text \<open>
  \<open>entity.Message\<close> without \<open>ReplyCount\<close> and the author's \<open>User\<close> row, which clients display.
  \<open>Msg_Reactions\<close>, \<open>Msg_Mentions\<close>, \<open>Msg_Attachments\<close>, \<open>Msg_Files\<close> and
  \<open>Msg_ClientMessageID\<close> are no columns: a stored row has them empty. The nil slice and the empty
  slice are both \<open>[]\<close>.
\<close>

record Message =
  Msg_ID :: uuid
  Msg_ChannelID :: uuid
  Msg_UserID :: uuid
  Msg_ParentID :: "uuid option"
  Msg_Content :: string
  Msg_Type :: MessageType
  Msg_Edited :: bool
  Msg_EditedAt :: "gotime option"
  Msg_Pinned :: bool
  Msg_PinnedBy :: "uuid option"
  Msg_PinnedAt :: "gotime option"
  Msg_ForwardedFrom :: "string option"
  Msg_SavedFrom :: "SavedFrom option"
  Msg_QuotedMessageID :: "uuid option"
  Msg_QuotedSnapshot :: "QuotedSnapshot option"
  Msg_ProfileShare :: "ProfileShare option"
  Msg_CallEvent :: "callEventPayload option"
  Msg_CreatedAt :: gotime
  Msg_UpdatedAt :: gotime
  Msg_DeletedAt :: "gotime option"
  Msg_HereRecipients :: "uuid list"
  Msg_Reactions :: "Reaction list"
  Msg_Mentions :: "uuid list"
  Msg_Attachments :: "Attachment list"
  Msg_FileIDs :: "uuid list"
  Msg_Files :: "MessageFile list"
  Msg_ClientMessageID :: "string option"

text \<open>The zero value a composite literal starts from.\<close>

definition Message_zero :: Message where
  "Message_zero =
     \<lparr>Msg_ID = uuid_Nil, Msg_ChannelID = uuid_Nil, Msg_UserID = uuid_Nil, Msg_ParentID = None, Msg_Content = '''',
      Msg_Type = MessageTypeOther '''', Msg_Edited = False, Msg_EditedAt = None, Msg_Pinned = False,
      Msg_PinnedBy = None, Msg_PinnedAt = None, Msg_ForwardedFrom = None, Msg_SavedFrom = None,
      Msg_QuotedMessageID = None, Msg_QuotedSnapshot = None, Msg_ProfileShare = None, Msg_CallEvent = None,
      Msg_CreatedAt = time_Zero, Msg_UpdatedAt = time_Zero, Msg_DeletedAt = None, Msg_HereRecipients = [], Msg_Reactions = [],
      Msg_Mentions = [], Msg_Attachments = [], Msg_FileIDs = [], Msg_Files = [], Msg_ClientMessageID = None\<rparr>"

subsection \<open>Resolution lemmas\<close>

lemma AccessLevel_Resolved_Valid [simp]: "AccessLevel_Valid (AccessLevel_Resolved a)"
  by (simp add: AccessLevel_Resolved_def)

lemma AccessLevel_Resolved_idem [simp]:
  "AccessLevel_Resolved (AccessLevel_Resolved a) = AccessLevel_Resolved a"
  by (simp add: AccessLevel_Resolved_def)

lemma ResolvedEntryMode_Valid [simp]: "EntryMode_Valid (ResolvedEntryMode c)"
  by (simp add: ResolvedEntryMode_def)

lemma ResolvedBreakoutCreation_Valid [simp]:
  "BreakoutCreationPolicy_Valid (ResolvedBreakoutCreation c)"
  by (simp add: ResolvedBreakoutCreation_def)

lemma ResolvedWhoCanAddGuests_Valid [simp]: "WhoCanAddGuests_Valid (ResolvedWhoCanAddGuests c)"
  by (simp add: ResolvedWhoCanAddGuests_def WhoCanAddGuests_Valid_def)

lemma ResolvedMaxBreakoutRooms_range:
  "1 \<le> ResolvedMaxBreakoutRooms c" "ResolvedMaxBreakoutRooms c \<le> 8"
  by (simp_all add: ResolvedMaxBreakoutRooms_def)

text \<open>The branch that returns 1 is dead: the three tests leave 1 to 8 untouched and map the rest to 8.\<close>

lemma ResolvedMaxBreakoutRooms_alt:
  "ResolvedMaxBreakoutRooms c =
     (if 1 \<le> CS_MaxBreakoutRooms c \<and> CS_MaxBreakoutRooms c \<le> 8 then CS_MaxBreakoutRooms c else 8)"
  by (simp add: ResolvedMaxBreakoutRooms_def)

lemma MarshalJSON_keeps_resolved:
  "ResolvedMembersCanUnmuteMic (CallSettings_MarshalJSON c) = ResolvedMembersCanUnmuteMic c"
  "ResolvedMembersCanEnableCamera (CallSettings_MarshalJSON c) = ResolvedMembersCanEnableCamera c"
  by (simp_all add: CallSettings_MarshalJSON_def ResolvedMembersCanUnmuteMic_def
      ResolvedMembersCanEnableCamera_def)

lemma AllowsChannel_not_call_scoped:
  "GuestAccessGrant_AllowsChannel g ch \<Longrightarrow> GG_CallID g = None"
  by (simp add: GuestAccessGrant_AllowsChannel_def split: if_splits)

end
