(* ===== verification/Directory.thy ===== *)
theory Directory
  imports Entity "HOL-Library.List_Lexorder" "HOL-Library.Char_ord"
begin

text \<open>
  The tables the authorisation components read, and the repository queries over them
  (\<open>internal/repository/postgres\<close>: \<open>workspace.go\<close>, \<open>channel.go\<close>,
  \<open>guest_access.go\<close>, \<open>channel_access_grant.go\<close>, \<open>workspace_collaboration.go\<close>,
  \<open>workspace_role.go\<close>), with \<open>internal/pkg/pagination\<close>.

  PostgreSQL is not part of the repository: \<open>d_fault\<close> is the environment's choice of which
  query fails, by query name and arguments, and with which driver error. A driver error is
  never an application error, so the field's type leaves only sentinels and opaque texts. An
  \<open>ORDER BY\<close> is a stable sort, a \<open>LIMIT\<close> a prefix; strings are ordered bytewise.
\<close>

type_synonym driver_error = "sentinel + string"

type_synonym fault_oracle = "string \<Rightarrow> uuid list \<Rightarrow> driver_error option"

definition driver_error :: "driver_error \<Rightarrow> go_error" where
  "driver_error d = (case d of Inl s \<Rightarrow> Sentinel s | Inr m \<Rightarrow> Opaque m)"

text \<open>A query that the oracle lets pass returns \<open>r\<close>; otherwise the wrapped driver error.\<close>

definition db_op :: "fault_oracle \<Rightarrow> string \<Rightarrow> uuid list \<Rightarrow> string \<Rightarrow> go_error + 'a \<Rightarrow> go_error + 'a" where
  "db_op fault op args wrap r =
     (case fault op args of Some d \<Rightarrow> Inl (Wrapf wrap (driver_error d)) | None \<Rightarrow> r)"

lemma driver_error_no_code [simp]: "AsAppError (driver_error d) = None"
  by (simp add: driver_error_def split: sum.splits)

lemma has_code_driver_error [simp]: "has_code c (driver_error d) = False"
  by (simp add: has_code_def)

lemma db_op_Inr [simp]: "db_op fault op args wrap r = Inr x \<longleftrightarrow> fault op args = None \<and> r = Inr x"
  by (auto simp: db_op_def split: option.splits)

lemma db_op_no_fault: "fault op args = None \<Longrightarrow> db_op fault op args wrap r = r"
  by (simp add: db_op_def)

lemma db_op_Inl_code:
  "db_op fault op args wrap r = Inl e \<Longrightarrow> has_code c e \<Longrightarrow> fault op args = None \<and> r = Inl e"
  by (auto simp: db_op_def split: option.splits)

record directory =
  d_members :: "WorkspaceMember list"
  d_channels :: "Channel list"
  d_channel_members :: "ChannelMember list"
  d_guest_grants :: "GuestAccessGrant list"
  d_access_grants :: "ChannelAccessGrant list"
  d_connections :: "WorkspaceConnection list"
  d_role_definitions :: "(WorkspaceRoleDefinition \<times> bool) list"
  d_role_assignments :: "WorkspaceRoleAssignment list"
  d_now :: gotime
  d_fault :: fault_oracle

text \<open>
  The boolean beside a role definition is its \<open>system\<close> column, which only appears inside queries.
\<close>

subsection \<open>Pagination\<close>

definition DefaultLimit :: int where "DefaultLimit = 50"

definition MaxLimit :: int where "MaxLimit = 100"

record Params =
  P_Cursor :: uuid
  P_Limit :: int

definition Normalize :: "Params \<Rightarrow> Params" where
  "Normalize p =
     (let p1 = (if P_Limit p \<le> 0 then p\<lparr>P_Limit := DefaultLimit\<rparr> else p)
      in if P_Limit p1 > MaxLimit then p1\<lparr>P_Limit := MaxLimit\<rparr> else p1)"

lemma Normalize_Limit: "1 \<le> P_Limit (Normalize p)" "P_Limit (Normalize p) \<le> MaxLimit"
  by (simp_all add: Normalize_def Let_def DefaultLimit_def MaxLimit_def)

lemma Normalize_id: "1 \<le> P_Limit p \<Longrightarrow> P_Limit p \<le> MaxLimit \<Longrightarrow> Normalize p = p"
  by (simp add: Normalize_def)

lemma Normalize_idem [simp]: "Normalize (Normalize p) = Normalize p"
  by (simp add: Normalize_id Normalize_Limit)

subsection \<open>Workspace members and roles\<close>

definition GetMember :: "directory \<Rightarrow> uuid \<Rightarrow> uuid \<Rightarrow> go_error + WorkspaceMember" where
  "GetMember d workspaceID userID =
     db_op (d_fault d) ''WorkspaceRepo.GetMember'' [workspaceID, userID] ''postgres: get workspace member''
       (case find (\<lambda>m. WM_WorkspaceID m = workspaceID \<and> WM_UserID m = userID) (d_members d) of
          None \<Rightarrow> Inl (NotFound ''workspace member not found'')
        | Some m \<Rightarrow> Inr m)"

definition ListAssignedDefinitions :: "directory \<Rightarrow> uuid \<Rightarrow> uuid \<Rightarrow> go_error + WorkspaceRoleDefinition list" where
  "ListAssignedDefinitions d workspaceID userID =
     db_op (d_fault d) ''WorkspaceRoleRepo.ListAssignedDefinitions'' [workspaceID, userID]
       ''postgres: list assigned workspace role definitions''
       (Inr (map fst (sort_key (\<lambda>(r, system). (\<not> system, WRD_Name r))
          (concat (map (\<lambda>a. filter (\<lambda>(r, _). WRD_WorkspaceID r = WRA_WorkspaceID a \<and> WRD_ID r = WRA_RoleID a)
                              (d_role_definitions d))
             (filter (\<lambda>a. WRA_WorkspaceID a = workspaceID \<and> WRA_UserID a = userID)
                (d_role_assignments d)))))))"

subsection \<open>Channels\<close>

definition Channel_GetByID :: "directory \<Rightarrow> uuid \<Rightarrow> go_error + Channel" where
  "Channel_GetByID d cid =
     db_op (d_fault d) ''ChannelRepo.GetByID'' [cid] ''postgres: get channel by id''
       (case find (\<lambda>ch. Ch_ID ch = cid) (d_channels d) of
          None \<Rightarrow> Inl (NotFound ''channel not found'')
        | Some ch \<Rightarrow> Inr ch)"

text \<open>
  The query asks for one row more than the page holds and the last line of the function cuts
  the page back to the limit.
\<close>

definition ListByWorkspace :: "directory \<Rightarrow> uuid \<Rightarrow> Params \<Rightarrow> go_error + Channel list" where
  "ListByWorkspace d workspaceID p0 =
     (let p = Normalize p0;
          rows = filter (\<lambda>ch. Ch_WorkspaceID ch = Some workspaceID \<and>
                              (P_Cursor p \<noteq> uuid_Nil \<longrightarrow> Ch_ID ch < P_Cursor p) \<and>
                              Ch_Type ch \<noteq> ChannelTypeSaved \<and> Ch_Type ch \<noteq> ChannelTypeSavedGlobal)
                   (d_channels d);
          channels = take (nat (P_Limit p + 1)) (rev (sort_key Ch_ID rows))
      in db_op (d_fault d) ''ChannelRepo.ListByWorkspace'' [workspaceID, P_Cursor p]
           ''postgres: list channels by workspace''
           (Inr (if int (length channels) > P_Limit p then take (nat (P_Limit p)) channels else channels)))"

definition ListByUser :: "directory \<Rightarrow> uuid \<Rightarrow> uuid \<Rightarrow> go_error + Channel list" where
  "ListByUser d workspaceID userID =
     db_op (d_fault d) ''ChannelRepo.ListByUser'' [workspaceID, userID] ''postgres: list channels by user''
       (Inr (sort_key Ch_Name
          (concat (map (\<lambda>c. map (\<lambda>cm. if Ch_Type c = ChannelTypeDM
                                      then c\<lparr>Ch_DMRequestStatus := Some (ChM_DMRequestStatus cm)\<rparr> else c)
                (filter (\<lambda>cm. ChM_ChannelID cm = Ch_ID c \<and> ChM_UserID cm = userID \<and>
                              ChM_DMRequestStatus cm \<noteq> DMRequestStatusBlocked) (d_channel_members d)))
             (filter (\<lambda>c. Ch_WorkspaceID c = Some workspaceID \<and>
                          Ch_Type c \<noteq> ChannelTypeSaved \<and> Ch_Type c \<noteq> ChannelTypeSavedGlobal)
                (d_channels d))))))"

definition Channel_GetMember :: "directory \<Rightarrow> uuid \<Rightarrow> uuid \<Rightarrow> go_error + ChannelMember" where
  "Channel_GetMember d channelID userID =
     db_op (d_fault d) ''ChannelRepo.GetMember'' [channelID, userID] ''postgres: get channel member''
       (case find (\<lambda>m. ChM_ChannelID m = channelID \<and> ChM_UserID m = userID) (d_channel_members d) of
          None \<Rightarrow> Inl (NotFound ''channel member not found'')
        | Some m \<Rightarrow> Inr m)"

subsection \<open>Grants and connections\<close>

text \<open>\<open>WHERE user_id = $1 AND workspace_id = $2 AND expires_at > $3 ORDER BY created_at DESC\<close>.\<close>

definition ListActiveByUserWorkspace :: "directory \<Rightarrow> uuid \<Rightarrow> uuid \<Rightarrow> gotime \<Rightarrow> go_error + GuestAccessGrant list" where
  "ListActiveByUserWorkspace d userID workspaceID now =
     db_op (d_fault d) ''GuestAccessRepo.ListActiveByUserWorkspace'' [userID, workspaceID]
       ''postgres: list guest access grants''
       (Inr (sort_key (\<lambda>g. - GG_CreatedAt g)
          (filter (\<lambda>g. GG_UserID g = userID \<and> GG_WorkspaceID g = workspaceID \<and> GG_ExpiresAt g > now)
             (d_guest_grants d))))"

definition ListByChannel :: "directory \<Rightarrow> uuid \<Rightarrow> go_error + ChannelAccessGrant list" where
  "ListByChannel d channelID =
     db_op (d_fault d) ''ChannelAccessGrantRepo.ListByChannel'' [channelID] ''postgres: list channel access grants''
       (Inr (sort_key AG_CreatedAt (filter (\<lambda>g. AG_ChannelID g = channelID) (d_access_grants d))))"

definition GetConnection :: "directory \<Rightarrow> uuid \<Rightarrow> uuid \<Rightarrow> go_error + WorkspaceConnection" where
  "GetConnection d sourceID targetID =
     db_op (d_fault d) ''WorkspaceCollaborationRepo.GetConnection'' [sourceID, targetID]
       ''postgres: scan workspace connection''
       (case find (\<lambda>c. WC_SourceWorkspaceID c = sourceID \<and> WC_TargetWorkspaceID c = targetID) (d_connections d) of
          None \<Rightarrow> Inl (NotFound ''workspace connection not found'')
        | Some c \<Rightarrow> Inr c)"

text \<open>
  The unique indexes of \<open>workspace_connections\<close> are its primary key and the pair of
  workspaces; a violation is the driver's code 23505.
\<close>

definition CreateConnection :: "WorkspaceConnection \<Rightarrow> (directory, go_error, unit) handler" where
  "CreateConnection c d =
     (case d_fault d ''WorkspaceCollaborationRepo.CreateConnection'' [WC_ID c] of
        Some e \<Rightarrow> (Inl (Wrapf ''postgres: create workspace connection'' (driver_error e)), d)
      | None \<Rightarrow>
          if \<exists>c' \<in> set (d_connections d). WC_ID c' = WC_ID c \<or>
               (WC_SourceWorkspaceID c' = WC_SourceWorkspaceID c \<and> WC_TargetWorkspaceID c' = WC_TargetWorkspaceID c)
          then (Inl (AlreadyExists ''workspace connection already exists''), d)
          else (Inr (), d\<lparr>d_connections := d_connections d @ [c]\<rparr>))"

definition UpdateConnectionStatus :: "uuid \<Rightarrow> WorkspaceConnectionStatus \<Rightarrow> uuid option \<Rightarrow> (directory, go_error, unit) handler" where
  "UpdateConnectionStatus cid status approvedBy d =
     (case d_fault d ''WorkspaceCollaborationRepo.UpdateConnectionStatus'' [cid] of
        Some e \<Rightarrow> (Inl (Wrapf ''postgres: update workspace connection status'' (driver_error e)), d)
      | None \<Rightarrow>
          if \<exists>c \<in> set (d_connections d). WC_ID c = cid
          then (Inr (), d\<lparr>d_connections := upd_where (\<lambda>c. WC_ID c = cid)
                            (\<lambda>c. c\<lparr>WC_Status := status, WC_ApprovedBy := approvedBy\<rparr>) (d_connections d)\<rparr>)
          else (Inl (NotFound ''workspace connection not found''), d))"

subsection \<open>What the reads say about the tables\<close>

lemma GetMember_Inr [repo_reads]:
  "GetMember d ws u = Inr m \<Longrightarrow> m \<in> set (d_members d) \<and> WM_WorkspaceID m = ws \<and> WM_UserID m = u"
  by (auto simp: GetMember_def dest!: find_SomeD split: option.splits)

lemma GetMember_NotFound:
  "GetMember d ws u = Inl e \<Longrightarrow> has_code CodeNotFound e \<Longrightarrow>
   \<forall>m \<in> set (d_members d). \<not> (WM_WorkspaceID m = ws \<and> WM_UserID m = u)"
  by (auto simp: GetMember_def find_None_iff' dest!: db_op_Inl_code split: option.splits)

lemma Channel_GetByID_Inr [repo_reads]:
  "Channel_GetByID d cid = Inr ch \<Longrightarrow> ch \<in> set (d_channels d) \<and> Ch_ID ch = cid"
  by (auto simp: Channel_GetByID_def dest!: find_SomeD split: option.splits)

lemma Channel_GetMember_Inr [repo_reads]:
  "Channel_GetMember d cid u = Inr m \<Longrightarrow>
   m \<in> set (d_channel_members d) \<and> ChM_ChannelID m = cid \<and> ChM_UserID m = u"
  by (auto simp: Channel_GetMember_def dest!: find_SomeD split: option.splits)

lemma ListActiveByUserWorkspace_Inr [repo_reads]:
  "ListActiveByUserWorkspace d u ws now = Inr gs \<Longrightarrow>
   set gs = {g \<in> set (d_guest_grants d). GG_UserID g = u \<and> GG_WorkspaceID g = ws \<and> GG_ExpiresAt g > now}"
  by (auto simp: ListActiveByUserWorkspace_def)

lemma ListByChannel_Inr [repo_reads]:
  "ListByChannel d cid = Inr gs \<Longrightarrow> set gs = {g \<in> set (d_access_grants d). AG_ChannelID g = cid}"
  by (auto simp: ListByChannel_def)

lemma GetConnection_Inr [repo_reads]:
  "GetConnection d s t = Inr c \<Longrightarrow>
   c \<in> set (d_connections d) \<and> WC_SourceWorkspaceID c = s \<and> WC_TargetWorkspaceID c = t"
  by (auto simp: GetConnection_def dest!: find_SomeD split: option.splits)

lemma ListAssignedDefinitions_Inr [repo_reads]:
  "ListAssignedDefinitions d ws u = Inr rs \<Longrightarrow> r \<in> set rs \<Longrightarrow>
   \<exists>a \<in> set (d_role_assignments d). WRA_WorkspaceID a = ws \<and> WRA_UserID a = u \<and>
     WRD_WorkspaceID r = ws \<and> WRD_ID r = WRA_RoleID a"
  by (fastforce simp: ListAssignedDefinitions_def)

text \<open>
  A page never exceeds the limit, although one row more is fetched: a caller cannot tell a full
  last page from a page with a successor by its length.
\<close>

lemma ListByWorkspace_length:
  assumes "ListByWorkspace d ws p = Inr page"
  shows "int (length page) \<le> P_Limit (Normalize p)"
  using assms Normalize_Limit(1) [of p]
  by (auto simp: ListByWorkspace_def Let_def split: if_splits)

lemma ListByWorkspace_Inr [repo_reads]:
  assumes "ListByWorkspace d ws p = Inr page" and "ch \<in> set page"
  shows "ch \<in> set (d_channels d) \<and> Ch_WorkspaceID ch = Some ws \<and> \<not> IsSelfChannel (Ch_Type ch)"
  using assms
  by (auto simp: ListByWorkspace_def Let_def IsSelfChannel_def split: if_splits dest!: in_set_takeD)

end
