(* ===== verification/Strings.thy ===== *)
theory Strings
  imports Prelude "HOL-Library.Sublist"
begin

text \<open>
  What the services use of Go's \<open>strings\<close>, \<open>unicode/utf8\<close> and \<open>regexp\<close> packages. A Go string is its
  bytes.
\<close>

subsection \<open>White space\<close>

text \<open>
  \<open>strings.TrimSpace\<close> on the bytes of a string: the UTF-8 encodings of the code points of
  Unicode's White\_Space property are stripped from both ends.
\<close>

definition space_encodings :: "string list" where
  "space_encodings =
     [[CHR 0x09], [CHR 0x0A], [CHR 0x0B], [CHR 0x0C], [CHR 0x0D], [CHR 0x20],
      [CHR 0xC2, CHR 0x85], [CHR 0xC2, CHR 0xA0], [CHR 0xE1, CHR 0x9A, CHR 0x80],
      [CHR 0xE2, CHR 0x80, CHR 0x80], [CHR 0xE2, CHR 0x80, CHR 0x81], [CHR 0xE2, CHR 0x80, CHR 0x82],
      [CHR 0xE2, CHR 0x80, CHR 0x83], [CHR 0xE2, CHR 0x80, CHR 0x84], [CHR 0xE2, CHR 0x80, CHR 0x85],
      [CHR 0xE2, CHR 0x80, CHR 0x86], [CHR 0xE2, CHR 0x80, CHR 0x87], [CHR 0xE2, CHR 0x80, CHR 0x88],
      [CHR 0xE2, CHR 0x80, CHR 0x89], [CHR 0xE2, CHR 0x80, CHR 0x8A], [CHR 0xE2, CHR 0x80, CHR 0xA8],
      [CHR 0xE2, CHR 0x80, CHR 0xA9], [CHR 0xE2, CHR 0x80, CHR 0xAF], [CHR 0xE2, CHR 0x81, CHR 0x9F],
      [CHR 0xE3, CHR 0x80, CHR 0x80]]"

text \<open>Strip any of the nonempty words \<open>ws\<close> from the front, as long as one matches.\<close>

function strip_front :: "string list \<Rightarrow> string \<Rightarrow> string" where
  "strip_front ws s =
     (case find (\<lambda>w. w \<noteq> [] \<and> prefix w s) ws of
        Some w \<Rightarrow> strip_front ws (drop (length w) s)
      | None \<Rightarrow> s)"
  by auto
termination
  by (relation "measure (length \<circ> snd)")
    (auto dest!: find_SomeD simp: prefix_def)

declare strip_front.simps [simp del]

definition TrimSpace :: "string \<Rightarrow> string" where
  "TrimSpace s = rev (strip_front (map rev space_encodings) (rev (strip_front space_encodings s)))"

lemma strip_front_none:
  assumes "find (\<lambda>w. w \<noteq> [] \<and> prefix w s) ws = None"
  shows "strip_front ws s = s"
  using assms by (subst strip_front.simps) simp

lemma strip_front_no_prefix: "w \<in> set ws \<Longrightarrow> w \<noteq> [] \<Longrightarrow> \<not> prefix w (strip_front ws s)"
proof (induction ws s rule: strip_front.induct)
  case (1 ws s)
  show ?case
  proof (cases "find (\<lambda>w. w \<noteq> [] \<and> prefix w s) ws")
    case None
    with 1(2,3) show ?thesis by (auto simp: strip_front_none find_None_iff')
  next
    case (Some v)
    with 1 show ?thesis by (subst strip_front.simps) simp
  qed
qed

subsection \<open>UTF-8\<close>

text \<open>
  A string is its bytes. \<open>rune_tail b bs\<close> is how many continuation bytes follow the leading
  byte \<open>b\<close>, or \<open>None\<close> when no valid rune starts here (\<open>unicode/utf8\<close>: no overlong forms, no
  surrogates, nothing above U+10FFFF).
\<close>

definition in_range :: "nat \<Rightarrow> nat \<Rightarrow> nat \<Rightarrow> bool" where
  "in_range lo hi b = (lo \<le> b \<and> b \<le> hi)"

definition cont :: "nat list \<Rightarrow> bool" where
  "cont bs = (\<forall>b \<in> set bs. in_range 128 191 b)"

definition rune_tail :: "nat \<Rightarrow> nat list \<Rightarrow> nat option" where
  "rune_tail b bs =
     (if b < 128 then Some 0
      else if in_range 194 223 b \<and> 1 \<le> length bs \<and> cont (take 1 bs) then Some 1
      else if in_range 224 239 b \<and> 2 \<le> length bs \<and> cont (take 2 bs) \<and>
              (b = 224 \<longrightarrow> 160 \<le> hd bs) \<and> (b = 237 \<longrightarrow> hd bs \<le> 159) then Some 2
      else if in_range 240 244 b \<and> 3 \<le> length bs \<and> cont (take 3 bs) \<and>
              (b = 240 \<longrightarrow> 144 \<le> hd bs) \<and> (b = 244 \<longrightarrow> hd bs \<le> 143) then Some 3
      else None)"

fun utf8_valid :: "nat list \<Rightarrow> bool" where
  "utf8_valid [] = True"
| "utf8_valid (b # bs) = (case rune_tail b bs of None \<Rightarrow> False | Some k \<Rightarrow> utf8_valid (drop k bs))"

text \<open>\<open>RuneCount\<close> counts a byte that starts no valid rune as one rune.\<close>

fun rune_count :: "nat list \<Rightarrow> nat" where
  "rune_count [] = 0"
| "rune_count (b # bs) = Suc (case rune_tail b bs of None \<Rightarrow> rune_count bs | Some k \<Rightarrow> rune_count (drop k bs))"

definition bytes :: "string \<Rightarrow> nat list" where
  "bytes s = map of_char s"

definition utf8_ValidString :: "string \<Rightarrow> bool" where
  "utf8_ValidString s = utf8_valid (bytes s)"

definition utf8_RuneCountInString :: "string \<Rightarrow> nat" where
  "utf8_RuneCountInString s = rune_count (bytes s)"

subsection \<open>Mentions\<close>

text \<open>
  \<open>mention_match token s\<close>: the pattern \<open>(?i)(^|[^A-Za-z0-9_])@token([^A-Za-z0-9_.-]|$)\<close>, for an ASCII
  token without special case folding, matches somewhere in \<open>s\<close>. The flag of \<open>mention_scan\<close> says that the
  previous character, or the start of the text, ends a word.
\<close>

definition word_char :: "char \<Rightarrow> bool" where
  "word_char c = (let n = (of_char c :: nat) in
     in_range 65 90 n \<or> in_range 97 122 n \<or> in_range 48 57 n \<or> n = 95)"

definition ascii_lower :: "char \<Rightarrow> char" where
  "ascii_lower c = (if in_range 65 90 (of_char c) then char_of (of_char c + 32 :: nat) else c)"

fun mention_end :: "string \<Rightarrow> bool" where
  "mention_end [] = True"
| "mention_end (c # cs) = (\<not> word_char c \<and> c \<noteq> CHR ''.'' \<and> c \<noteq> CHR ''-'')"

fun mention_scan :: "string \<Rightarrow> bool \<Rightarrow> string \<Rightarrow> bool" where
  "mention_scan token boundary [] = False"
| "mention_scan token boundary (c # cs) =
     (boundary \<and> c = CHR ''@'' \<and> map ascii_lower (take (length token) cs) = token \<and>
        mention_end (drop (length token) cs) \<or>
      mention_scan token (\<not> word_char c) cs)"

definition mention_match :: "string \<Rightarrow> string \<Rightarrow> bool" where
  "mention_match token s = mention_scan token True s"

lemma mention_scan_at: "mention_scan token b s \<Longrightarrow> CHR ''@'' \<in> set s"
  by (induction s arbitrary: b) auto

lemma mention_match_at: "mention_match token s \<Longrightarrow> CHR ''@'' \<in> set s"
  unfolding mention_match_def by (rule mention_scan_at)

subsection \<open>Counting runes\<close>

lemma rune_count_le: "rune_count bs \<le> length bs"
proof (induction bs rule: rune_count.induct)
  case (2 b bs)
  show ?case
  proof (cases "rune_tail b bs")
    case None
    with 2 show ?thesis by simp
  next
    case (Some k)
    with 2(2) have "rune_count (drop k bs) \<le> length (drop k bs)" by simp
    with Some show ?thesis by simp
  qed
qed simp

lemma rune_count_0 [simp]: "rune_count bs = 0 \<longleftrightarrow> bs = []"
  by (cases bs) auto

lemma RuneCountInString_le: "utf8_RuneCountInString s \<le> length s"
  using rune_count_le [of "bytes s"] by (simp add: utf8_RuneCountInString_def bytes_def)

lemma RuneCountInString_0 [simp]: "utf8_RuneCountInString s = 0 \<longleftrightarrow> s = ''''"
  by (simp add: utf8_RuneCountInString_def bytes_def)

end
