(* ===== verification/Rbac.thy ===== *)
theory Rbac
  imports Directory Strings
begin

text \<open>
  Role-based permissions: \<open>internal/security/rbac/rbac.go\<close> and \<open>checker.go\<close>. A
  \<open>Permission\<close> is a string constant; it is a datatype here, ordered by its string as
  \<open>sort.Slice\<close> orders it. A \<open>map[Permission]bool\<close> is a partial map to booleans.
\<close>

datatype Permission =
    PermissionWorkspaceManage | PermissionWorkspaceSettings | PermissionMemberRead
  | PermissionMemberInvite | PermissionMemberManage | PermissionChannelCreate
  | PermissionChannelManage | PermissionMessageSend | PermissionMessageModerate
  | PermissionCallStart | PermissionCallModerate | PermissionRecordingStart
  | PermissionRecordingRead | PermissionMarketplaceManage | PermissionAIUse
  | PermissionTelephonyUse | PermissionWhiteLabelManage | PermissionCollaborationManage
  | PermissionDirectoryReadShared | PermissionDirectMessageShared | PermissionCrossWorkspaceInvite

fun Permission_str :: "Permission \<Rightarrow> string" where
  "Permission_str PermissionWorkspaceManage = ''workspace.manage''"
| "Permission_str PermissionWorkspaceSettings = ''workspace.settings.manage''"
| "Permission_str PermissionMemberRead = ''member.read''"
| "Permission_str PermissionMemberInvite = ''member.invite''"
| "Permission_str PermissionMemberManage = ''member.manage''"
| "Permission_str PermissionChannelCreate = ''channel.create''"
| "Permission_str PermissionChannelManage = ''channel.manage''"
| "Permission_str PermissionMessageSend = ''message.send''"
| "Permission_str PermissionMessageModerate = ''message.moderate''"
| "Permission_str PermissionCallStart = ''call.start''"
| "Permission_str PermissionCallModerate = ''call.moderate''"
| "Permission_str PermissionRecordingStart = ''recording.start''"
| "Permission_str PermissionRecordingRead = ''recording.read''"
| "Permission_str PermissionMarketplaceManage = ''marketplace.manage''"
| "Permission_str PermissionAIUse = ''ai.use''"
| "Permission_str PermissionTelephonyUse = ''telephony.use''"
| "Permission_str PermissionWhiteLabelManage = ''white_label.manage''"
| "Permission_str PermissionCollaborationManage = ''collaboration.manage''"
| "Permission_str PermissionDirectoryReadShared = ''directory.shared.read''"
| "Permission_str PermissionDirectMessageShared = ''direct_message.shared.start''"
| "Permission_str PermissionCrossWorkspaceInvite = ''workspace.external.invite''"

lemma Permission_str_inj [simp]: "Permission_str p = Permission_str q \<longleftrightarrow> p = q"
  by (cases p; cases q; simp)

instantiation Permission :: linorder
begin

definition less_eq_Permission :: "Permission \<Rightarrow> Permission \<Rightarrow> bool" where
  "less_eq_Permission p q = (Permission_str p \<le> Permission_str q)"

definition less_Permission :: "Permission \<Rightarrow> Permission \<Rightarrow> bool" where
  "less_Permission p q = (Permission_str p < Permission_str q)"

instance
  by standard (auto simp: less_eq_Permission_def less_Permission_def less_le)

end

record RoleDefinition =
  RD_Name :: string
  RD_BaseRole :: WorkspaceRole
  RD_Permissions :: "Permission \<rightharpoonup> bool"

definition RoleDefinition_Has :: "RoleDefinition \<Rightarrow> Permission \<Rightarrow> bool" where
  "RoleDefinition_Has r permission = (case RD_Permissions r permission of Some b \<Rightarrow> b | None \<Rightarrow> False)"

definition adminPermissions :: "Permission list" where
  "adminPermissions =
     [PermissionWorkspaceSettings, PermissionMemberRead, PermissionMemberInvite,
      PermissionMemberManage, PermissionChannelCreate, PermissionChannelManage,
      PermissionMessageSend, PermissionMessageModerate, PermissionCallStart,
      PermissionCallModerate, PermissionRecordingStart, PermissionRecordingRead,
      PermissionMarketplaceManage, PermissionAIUse, PermissionTelephonyUse,
      PermissionCollaborationManage, PermissionDirectoryReadShared,
      PermissionDirectMessageShared, PermissionCrossWorkspaceInvite]"

text \<open>\<open>permissions[p] = true\<close> for every \<open>p\<close> of a list.\<close>

definition set_all :: "Permission list \<Rightarrow> (Permission \<rightharpoonup> bool) \<Rightarrow> (Permission \<rightharpoonup> bool)" where
  "set_all ps m = fold (\<lambda>p m. m(p \<mapsto> True)) ps m"

definition DefaultWorkspacePermissions :: "WorkspaceRole \<Rightarrow> (Permission \<rightharpoonup> bool)" where
  "DefaultWorkspacePermissions role =
     (let permissions = set_all
            [PermissionMemberRead, PermissionChannelCreate, PermissionMessageSend,
             PermissionCallStart, PermissionRecordingRead, PermissionAIUse,
             PermissionDirectoryReadShared, PermissionDirectMessageShared] Map.empty
      in case role of
           WorkspaceRoleOwner \<Rightarrow>
             (set_all adminPermissions permissions)
               (PermissionWorkspaceManage \<mapsto> True, PermissionWhiteLabelManage \<mapsto> True)
         | WorkspaceRoleAdmin \<Rightarrow> set_all adminPermissions permissions
         | WorkspaceRoleMember \<Rightarrow> permissions
         | WorkspaceRoleGuest \<Rightarrow>
             set_all [PermissionMemberRead, PermissionMessageSend, PermissionCallStart,
                      PermissionRecordingRead] Map.empty
         | WorkspaceRoleOther _ \<Rightarrow> Map.empty)"

fun WorkspaceRole_str :: "WorkspaceRole \<Rightarrow> string" where
  "WorkspaceRole_str WorkspaceRoleOwner = ''owner''"
| "WorkspaceRole_str WorkspaceRoleAdmin = ''admin''"
| "WorkspaceRole_str WorkspaceRoleMember = ''member''"
| "WorkspaceRole_str WorkspaceRoleGuest = ''guest''"
| "WorkspaceRole_str (WorkspaceRoleOther s) = s"

definition DefaultWorkspaceRole :: "WorkspaceRole \<Rightarrow> RoleDefinition" where
  "DefaultWorkspaceRole role =
     \<lparr>RD_Name = WorkspaceRole_str role, RD_BaseRole = role,
      RD_Permissions = DefaultWorkspacePermissions role\<rparr>"

definition Has :: "WorkspaceRole \<Rightarrow> Permission \<Rightarrow> bool" where
  "Has role permission = RoleDefinition_Has (DefaultWorkspaceRole role) permission"

definition AllPermissions :: "Permission list" where
  "AllPermissions = sort
     [PermissionWorkspaceManage, PermissionWorkspaceSettings, PermissionMemberRead,
      PermissionMemberInvite, PermissionMemberManage, PermissionChannelCreate,
      PermissionChannelManage, PermissionMessageSend, PermissionMessageModerate,
      PermissionCallStart, PermissionCallModerate, PermissionRecordingStart,
      PermissionRecordingRead, PermissionMarketplaceManage, PermissionAIUse,
      PermissionTelephonyUse, PermissionWhiteLabelManage, PermissionCollaborationManage,
      PermissionDirectoryReadShared, PermissionDirectMessageShared, PermissionCrossWorkspaceInvite]"

subsection \<open>Parsing\<close>

definition ParsePermission :: "string \<Rightarrow> Permission option" where
  "ParsePermission raw = find (\<lambda>candidate. Permission_str candidate = TrimSpace raw) AllPermissions"

fun normalize_loop :: "string list \<Rightarrow> string list \<Rightarrow> go_error + string list" where
  "normalize_loop normalized [] = Inr normalized"
| "normalize_loop normalized (value # raw) =
     (case ParsePermission value of
        None \<Rightarrow> Inl (Opaque (''invalid permission: '' @ value))
      | Some permission \<Rightarrow>
          if Permission_str permission \<in> set normalized then normalize_loop normalized raw
          else normalize_loop (normalized @ [Permission_str permission]) raw)"

definition NormalizePermissionStrings :: "string list \<Rightarrow> go_error + string list" where
  "NormalizePermissionStrings raw =
     (case normalize_loop [] raw of Inl e \<Rightarrow> Inl e | Inr normalized \<Rightarrow> Inr (sort normalized))"

fun parse_all :: "(Permission \<rightharpoonup> bool) \<Rightarrow> string list \<Rightarrow> go_error + (Permission \<rightharpoonup> bool)" where
  "parse_all permissions [] = Inr permissions"
| "parse_all permissions (raw # rest) =
     (case ParsePermission raw of
        None \<Rightarrow> Inl (Opaque (''invalid permission in stored role definition: '' @ raw))
      | Some permission \<Rightarrow> parse_all (permissions(permission \<mapsto> True)) rest)"

definition RoleDefinitionFromEntity :: "WorkspaceRoleDefinition \<Rightarrow> go_error + RoleDefinition" where
  "RoleDefinitionFromEntity role =
     (case parse_all Map.empty (WRD_Permissions role) of
        Inl e \<Rightarrow> Inl e
      | Inr permissions \<Rightarrow>
          Inr \<lparr>RD_Name = WRD_Name role, RD_BaseRole = WRD_BaseRole role, RD_Permissions = permissions\<rparr>)"

text \<open>\<open>Merge\<close>: an overlay only ever sets entries to true.\<close>

definition merge_overlay :: "(Permission \<rightharpoonup> bool) \<Rightarrow> RoleDefinition \<Rightarrow> (Permission \<rightharpoonup> bool)" where
  "merge_overlay m overlay =
     (\<lambda>p. case RD_Permissions overlay p of Some True \<Rightarrow> Some True | _ \<Rightarrow> m p)"

definition Merge :: "RoleDefinition \<Rightarrow> RoleDefinition list \<Rightarrow> RoleDefinition" where
  "Merge base overlays =
     \<lparr>RD_Name = RD_Name base, RD_BaseRole = RD_BaseRole base,
      RD_Permissions = fold (\<lambda>overlay m. merge_overlay m overlay) overlays (RD_Permissions base)\<rparr>"

subsection \<open>The checker\<close>

text \<open>The loop of \<open>Resolve\<close> over the assigned definitions.\<close>

fun resolve_loop :: "WorkspaceRole \<Rightarrow> RoleDefinition \<Rightarrow> WorkspaceRoleDefinition list \<Rightarrow> go_error + RoleDefinition" where
  "resolve_loop memberRole effective [] = Inr effective"
| "resolve_loop memberRole effective (definition # definitions) =
     (if WRD_BaseRole definition \<noteq> memberRole then resolve_loop memberRole effective definitions
      else (case RoleDefinitionFromEntity definition of
              Inl err \<Rightarrow> Inl (Internal ''failed to resolve workspace permissions'' (Some (Wrapf ''role'' err)))
            | Inr overlay \<Rightarrow> resolve_loop memberRole (Merge effective [overlay]) definitions))"

text \<open>\<open>hasRoles\<close> is \<open>c.roles != nil\<close>.\<close>

definition Resolve :: "bool \<Rightarrow> directory \<Rightarrow> uuid \<Rightarrow> uuid \<Rightarrow> go_error + RoleDefinition" where
  "Resolve hasRoles d workspaceID userID =
     (case GetMember d workspaceID userID of
        Inl err \<Rightarrow>
          if has_code CodeNotFound err then Inl (Forbidden ''user is not a workspace member'')
          else Inl (Internal ''failed to verify workspace membership'' (Some err))
      | Inr member \<Rightarrow>
          let effective = DefaultWorkspaceRole (WM_Role member)
          in if \<not> hasRoles then Inr effective
             else (case ListAssignedDefinitions d workspaceID userID of
                     Inl err \<Rightarrow> Inl (Internal ''failed to load assigned workspace roles'' (Some err))
                   | Inr definitions \<Rightarrow> resolve_loop (WM_Role member) effective definitions))"

definition HasPermission :: "bool \<Rightarrow> directory \<Rightarrow> uuid \<Rightarrow> uuid \<Rightarrow> Permission \<Rightarrow> go_error + bool" where
  "HasPermission hasRoles d workspaceID userID permission =
     (case Resolve hasRoles d workspaceID userID of
        Inl err \<Rightarrow> Inl err
      | Inr role \<Rightarrow> Inr (RoleDefinition_Has role permission))"

definition Require :: "bool \<Rightarrow> directory \<Rightarrow> uuid \<Rightarrow> uuid \<Rightarrow> Permission \<Rightarrow> go_error + unit" where
  "Require hasRoles d workspaceID userID permission =
     (case HasPermission hasRoles d workspaceID userID permission of
        Inl err \<Rightarrow> Inl err
      | Inr allowed \<Rightarrow>
          if \<not> allowed then Inl (Forbidden ''workspace role does not have required permission'')
          else Inr ())"


subsection \<open>Lemmas\<close>

lemma set_all_apply [simp]: "set_all ps m p = (if p \<in> set ps then Some True else m p)"
  unfolding set_all_def by (induction ps arbitrary: m) auto

lemma UNIV_Permission: "p \<in> set AllPermissions"
  unfolding AllPermissions_def set_sort by (cases p) simp_all

lemma AllPermissions_distinct: "distinct AllPermissions"
  unfolding AllPermissions_def distinct_sort by simp

lemma Has_alt:
  "Has role p \<longleftrightarrow>
     (case role of
        WorkspaceRoleOwner \<Rightarrow> True
      | WorkspaceRoleAdmin \<Rightarrow> p \<in> set adminPermissions
      | WorkspaceRoleMember \<Rightarrow>
          p \<in> {PermissionMemberRead, PermissionChannelCreate, PermissionMessageSend,
               PermissionCallStart, PermissionRecordingRead, PermissionAIUse,
               PermissionDirectoryReadShared, PermissionDirectMessageShared}
      | WorkspaceRoleGuest \<Rightarrow>
          p \<in> {PermissionMemberRead, PermissionMessageSend, PermissionCallStart, PermissionRecordingRead}
      | WorkspaceRoleOther _ \<Rightarrow> False)"
  by (cases role; cases p)
    (simp_all add: Has_def DefaultWorkspaceRole_def RoleDefinition_Has_def
      DefaultWorkspacePermissions_def adminPermissions_def)

text \<open>The order of the built-in roles: a role lists before the roles that dominate it.\<close>

definition role_rank :: "WorkspaceRole \<Rightarrow> nat" where
  "role_rank role =
     (case role of WorkspaceRoleOther _ \<Rightarrow> 0 | WorkspaceRoleGuest \<Rightarrow> 1 | WorkspaceRoleMember \<Rightarrow> 2
      | WorkspaceRoleAdmin \<Rightarrow> 3 | WorkspaceRoleOwner \<Rightarrow> 4)"

lemma Has_mono: "role_rank r \<le> role_rank r' \<Longrightarrow> Has r p \<Longrightarrow> Has r' p"
  by (cases r; cases r') (auto simp: Has_alt role_rank_def adminPermissions_def)

subsubsection \<open>Trimming and parsing\<close>

lemma TrimSpace_Permission_str [simp]: "TrimSpace (Permission_str p) = Permission_str p"
  by (cases p) (simp_all add: TrimSpace_def strip_front_none space_encodings_def)

lemma ParsePermission_Some: "ParsePermission raw = Some p \<longleftrightarrow> Permission_str p = TrimSpace raw"
proof
  assume "ParsePermission raw = Some p"
  then show "Permission_str p = TrimSpace raw"
    by (auto simp: ParsePermission_def dest: find_SomeD)
next
  assume p: "Permission_str p = TrimSpace raw"
  have "find (\<lambda>c. Permission_str c = Permission_str p) AllPermissions = Some p"
    by (rule find_unique) (simp_all add: UNIV_Permission AllPermissions_distinct distinct_map inj_on_def)
  with p show "ParsePermission raw = Some p" by (simp add: ParsePermission_def)
qed

lemma ParsePermission_roundtrip [simp]: "ParsePermission (Permission_str p) = Some p"
  by (simp add: ParsePermission_Some)

lemma normalize_loop_Inr:
  assumes "normalize_loop acc raw = Inr ns" and "distinct acc"
  shows "distinct ns \<and> set ns = set acc \<union> TrimSpace ` set raw \<and>
    (\<forall>r \<in> set raw. \<exists>p. ParsePermission r = Some p)"
  using assms
proof (induction raw arbitrary: acc)
  case Nil
  then show ?case by simp
next
  case (Cons r raw)
  from Cons.prems(1) obtain p where p: "ParsePermission r = Some p"
    by (auto split: option.splits)
  then have "Permission_str p = TrimSpace r" by (simp add: ParsePermission_Some)
  with Cons p show ?case by (auto split: if_splits)
qed

lemma normalize_loop_Inl_iff:
  "(\<exists>e. normalize_loop acc raw = Inl e) \<longleftrightarrow> (\<exists>r \<in> set raw. ParsePermission r = None)"
  by (induction raw arbitrary: acc) (auto split: option.splits)

lemma NormalizePermissionStrings_Inr:
  assumes "NormalizePermissionStrings raw = Inr ns"
  shows "sorted ns" "distinct ns" "set ns = TrimSpace ` set raw"
    "\<forall>r \<in> set raw. \<exists>p. ParsePermission r = Some p"
proof -
  from assms obtain ms where ms: "normalize_loop [] raw = Inr ms" "ns = sort ms"
    by (auto simp: NormalizePermissionStrings_def split: sum.splits)
  with normalize_loop_Inr [OF ms(1)]
  show "sorted ns" "distinct ns" "set ns = TrimSpace ` set raw"
    "\<forall>r \<in> set raw. \<exists>p. ParsePermission r = Some p"
    by simp_all
qed

lemma normalize_loop_fresh:
  assumes "distinct (acc @ raw)" and "\<forall>r \<in> set raw. \<exists>p. r = Permission_str p"
  shows "normalize_loop acc raw = Inr (acc @ raw)"
  using assms by (induction raw arbitrary: acc) auto

lemma NormalizePermissionStrings_idem:
  assumes "NormalizePermissionStrings raw = Inr ns"
  shows "NormalizePermissionStrings ns = Inr ns"
proof -
  note ns = NormalizePermissionStrings_Inr [OF assms]
  have "\<forall>r \<in> set ns. \<exists>p. r = Permission_str p"
    using ns(3,4) by (auto simp: ParsePermission_Some) metis
  with ns(2) have "normalize_loop [] ns = Inr ns" by (simp add: normalize_loop_fresh)
  with ns(1) show ?thesis by (simp add: NormalizePermissionStrings_def sorted_sort_id)
qed

subsubsection \<open>Merging\<close>

lemma Merge_single_Has:
  "RoleDefinition_Has (Merge base [o1]) p \<longleftrightarrow> RoleDefinition_Has base p \<or> RoleDefinition_Has o1 p"
  by (auto simp: RoleDefinition_Has_def Merge_def merge_overlay_def split: option.splits bool.splits)

lemma merge_fold_mono:
  "m p = Some True \<Longrightarrow> fold (\<lambda>ov m. merge_overlay m ov) ovs m p = Some True"
  by (induction ovs arbitrary: m) (auto simp: merge_overlay_def split: option.splits bool.splits)

lemma resolve_loop_Has:
  assumes "resolve_loop mr eff defs = Inr role"
  shows "RoleDefinition_Has role p \<longleftrightarrow> RoleDefinition_Has eff p \<or>
    (\<exists>dn \<in> set defs. WRD_BaseRole dn = mr \<and>
       (\<exists>ov. RoleDefinitionFromEntity dn = Inr ov \<and> RoleDefinition_Has ov p))"
  using assms
  by (induction defs arbitrary: eff) (auto simp: Merge_single_Has split: if_splits sum.splits)

lemma Resolve_member:
  assumes "Resolve hasRoles d ws u = Inr role"
  obtains m where "GetMember d ws u = Inr m"
  using assms by (auto simp: Resolve_def split: sum.splits if_splits)

lemma Resolve_Has:
  assumes "Resolve hasRoles d ws u = Inr role" and "GetMember d ws u = Inr m"
  shows "RoleDefinition_Has role p \<longleftrightarrow> Has (WM_Role m) p \<or>
    (hasRoles \<and> (\<exists>defs. ListAssignedDefinitions d ws u = Inr defs \<and>
      (\<exists>dn \<in> set defs. WRD_BaseRole dn = WM_Role m \<and>
         (\<exists>ov. RoleDefinitionFromEntity dn = Inr ov \<and> RoleDefinition_Has ov p))))"
  using assms
  by (auto simp: Resolve_def Has_def Let_def resolve_loop_Has split: sum.splits if_splits)

lemma Require_iff: "Require hasRoles d ws u p = Inr () \<longleftrightarrow> HasPermission hasRoles d ws u p = Inr True"
  by (auto simp: Require_def split: sum.splits)

text \<open>
  The interface \<open>rbac.Checker\<close>: what a client of \<open>Require\<close> relies on. A grant comes from a
  membership of that workspace, and a denial for a missing permission is \<open>FORBIDDEN\<close>.
\<close>

locale permission_checker =
  fixes require :: "uuid \<Rightarrow> uuid \<Rightarrow> Permission \<Rightarrow> go_error + unit"
    and member_role :: "uuid \<Rightarrow> uuid \<Rightarrow> WorkspaceRole option"
  assumes require_member: "require ws u p = Inr () \<Longrightarrow> \<exists>role. member_role ws u = Some role"
    and require_base: "member_role ws u = Some role \<Longrightarrow> Has role p \<Longrightarrow>
          require ws u p = Inr () \<or> (\<exists>e. require ws u p = Inl e \<and> has_code CodeInternal e)"
begin

lemma denied_outsider: "member_role ws u = None \<Longrightarrow> \<exists>e. require ws u p = Inl e"
  using require_member by (metis (full_types) isl_def old.unit.exhaust option.distinct(1) sum.collapse(2))

lemma owner_never_forbidden:
  "member_role ws u = Some WorkspaceRoleOwner \<Longrightarrow> require ws u p \<noteq> Inl e \<or> \<not> has_code CodeForbidden e"
  using require_base [of ws u WorkspaceRoleOwner p] has_code_unique [of CodeInternal e CodeForbidden]
  by (auto simp: Has_alt)

end

definition member_role :: "directory \<Rightarrow> uuid \<Rightarrow> uuid \<Rightarrow> WorkspaceRole option" where
  "member_role d ws u = (case GetMember d ws u of Inl _ \<Rightarrow> None | Inr m \<Rightarrow> Some (WM_Role m))"

lemma resolve_loop_Inl: "resolve_loop mr eff defs = Inl e \<Longrightarrow> has_code CodeInternal e"
  by (induction defs arbitrary: eff) (auto split: if_splits sum.splits)

interpretation rbac: permission_checker "Require hasRoles d" "member_role d" for hasRoles d
proof
  fix ws u p
  assume "Require hasRoles d ws u p = Inr ()"
  then show "\<exists>role. member_role d ws u = Some role"
    by (auto simp: Require_def HasPermission_def member_role_def Resolve_def split: sum.splits if_splits)
next
  fix ws u role p
  assume m: "member_role d ws u = Some role" and h: "Has role p"
  then obtain m where m': "GetMember d ws u = Inr m" "WM_Role m = role"
    by (auto simp: member_role_def split: sum.splits)
  show "Require hasRoles d ws u p = Inr () \<or>
    (\<exists>e. Require hasRoles d ws u p = Inl e \<and> has_code CodeInternal e)"
  proof (cases "Resolve hasRoles d ws u")
    case (Inl e)
    with m' have "has_code CodeInternal e"
      by (auto simp: Resolve_def Let_def dest: resolve_loop_Inl split: if_splits sum.splits)
    with Inl show ?thesis by (simp add: Require_def HasPermission_def)
  next
    case (Inr r)
    with m' h show ?thesis by (simp add: Require_iff HasPermission_def Resolve_Has)
  qed
qed

end
