(* ===== verification/Access.thy ===== *)
theory Access
  imports Rbac
begin

text \<open>
  Who may see what: guest grants (\<open>internal/security/guestaccess/checker.go\<close>),
  cross-workspace collaboration (\<open>internal/service/collaboration/service.go\<close>,
  \<open>internal/security/collabaccess/checker.go\<close>) and the channel access policy that combines
  them (\<open>internal/security/accesspolicy/checker.go\<close>).
\<close>

subsection \<open>Guest grants\<close>

record entityGrant =
  eg_channelIDs :: "uuid list"
  eg_callID :: "uuid option"

definition IsCallScoped :: "entityGrant \<Rightarrow> bool" where
  "IsCallScoped g = (eg_callID g \<noteq> None)"

definition AllowsChannel :: "entityGrant \<Rightarrow> uuid \<Rightarrow> bool" where
  "AllowsChannel g channelID =
     (if eg_callID g \<noteq> None then False
      else if eg_channelIDs g = [] then True
      else channelID \<in> set (eg_channelIDs g))"

definition AllowsCall :: "entityGrant \<Rightarrow> uuid \<Rightarrow> bool" where
  "AllowsCall g callID = (eg_callID g = Some callID)"

text \<open>\<open>hasGrants\<close> is \<open>c != nil && c.grants != nil\<close>.\<close>

definition activeGrants :: "bool \<Rightarrow> directory \<Rightarrow> uuid \<Rightarrow> uuid \<Rightarrow> go_error + entityGrant list" where
  "activeGrants hasGrants d workspaceID userID =
     (if \<not> hasGrants then Inr []
      else (case ListActiveByUserWorkspace d userID workspaceID (d_now d) of
              Inl err \<Rightarrow>
                (case AsAppError err of
                   Some (c, m, e) \<Rightarrow> Inl (AppError c m e)
                 | None \<Rightarrow> Inl (Internal ''failed to load guest access grants'' (Some err)))
            | Inr grants \<Rightarrow>
                Inr (map (\<lambda>g. \<lparr>eg_channelIDs = GG_ChannelIDs g, eg_callID = GG_CallID g\<rparr>) grants)))"

definition HasWorkspaceAccess :: "bool \<Rightarrow> directory \<Rightarrow> uuid \<Rightarrow> uuid \<Rightarrow> go_error + bool" where
  "HasWorkspaceAccess hasGrants d workspaceID userID =
     (case activeGrants hasGrants d workspaceID userID of
        Inl err \<Rightarrow> Inl err
      | Inr grants \<Rightarrow> Inr (\<exists>g \<in> set grants. \<not> IsCallScoped g))"

definition HasChannelAccess :: "bool \<Rightarrow> directory \<Rightarrow> uuid \<Rightarrow> uuid \<Rightarrow> uuid \<Rightarrow> go_error + bool" where
  "HasChannelAccess hasGrants d workspaceID channelID userID =
     (case activeGrants hasGrants d workspaceID userID of
        Inl err \<Rightarrow> Inl err
      | Inr grants \<Rightarrow> Inr (\<exists>g \<in> set grants. AllowsChannel g channelID))"

definition IsGuest :: "bool \<Rightarrow> directory \<Rightarrow> uuid \<Rightarrow> uuid \<Rightarrow> go_error + bool" where
  "IsGuest hasGrants d workspaceID userID =
     (case activeGrants hasGrants d workspaceID userID of
        Inl err \<Rightarrow> Inl err
      | Inr grants \<Rightarrow> Inr (length grants > 0))"

definition HasCallAccess :: "bool \<Rightarrow> directory \<Rightarrow> uuid \<Rightarrow> uuid \<Rightarrow> uuid \<Rightarrow> go_error + bool" where
  "HasCallAccess hasGrants d workspaceID callID userID =
     (case activeGrants hasGrants d workspaceID userID of
        Inl err \<Rightarrow> Inl err
      | Inr grants \<Rightarrow> Inr (\<exists>g \<in> set grants. AllowsCall g callID))"

text \<open>The single pass over the grants, left with \<open>break\<close> at the first grant for the call.\<close>

fun evaluate_loop :: "uuid \<Rightarrow> bool \<Rightarrow> bool \<Rightarrow> entityGrant list \<Rightarrow> bool \<times> bool" where
  "evaluate_loop callID isGuest hasCallAccess [] = (isGuest, hasCallAccess)"
| "evaluate_loop callID isGuest hasCallAccess (g # grants) =
     (if AllowsCall g callID then (True, True) else evaluate_loop callID True hasCallAccess grants)"

definition EvaluateCallAccess :: "bool \<Rightarrow> directory \<Rightarrow> uuid \<Rightarrow> uuid \<Rightarrow> uuid \<Rightarrow> go_error + (bool \<times> bool)" where
  "EvaluateCallAccess hasGrants d workspaceID callID userID =
     (case activeGrants hasGrants d workspaceID userID of
        Inl err \<Rightarrow> Inl err
      | Inr grants \<Rightarrow> Inr (evaluate_loop callID False False grants))"

subsection \<open>Workspace connections\<close>

text \<open>
  \<open>perms\<close> is the \<open>rbac.Checker\<close> of the service, \<open>None\<close> when it is nil. A fresh
  connection id is an argument, since \<open>id.New()\<close> reads the clock and a random source.
\<close>

type_synonym rbac_checker = "directory \<Rightarrow> uuid \<Rightarrow> uuid \<Rightarrow> Permission \<Rightarrow> go_error + unit"

definition requirePermission :: "rbac_checker option \<Rightarrow> directory \<Rightarrow> uuid \<Rightarrow> uuid \<Rightarrow> Permission \<Rightarrow> go_error + unit" where
  "requirePermission perms d workspaceID userID permission =
     (case perms of
        Some require \<Rightarrow> require d workspaceID userID permission
      | None \<Rightarrow>
          (case GetMember d workspaceID userID of
             Inl _ \<Rightarrow> Inl (Forbidden ''user is not a workspace member'')
           | Inr member \<Rightarrow>
               if \<not> Has (WM_Role member) permission
               then Inl (Forbidden ''workspace role does not have required permission'')
               else Inr ()))"

definition validatePolicy :: "WorkspaceConnectionPolicy \<Rightarrow> go_error + unit" where
  "validatePolicy policy =
     (if (case WP_DirectoryVisibility policy of DirectoryVisibilityOther s \<Rightarrow> s \<noteq> '''' | _ \<Rightarrow> False)
      then Inl (InvalidInput ''invalid directory visibility'')
      else if (case WP_ContactPolicy policy of ContactPolicyOther s \<Rightarrow> s \<noteq> '''' | _ \<Rightarrow> False)
      then Inl (InvalidInput ''invalid contact policy'')
      else if WP_ContactPolicy policy = ContactPolicyRoleBased \<and>
              (WP_AllowedSourceRoles policy = [] \<or> WP_AllowedTargetRoles policy = [])
      then Inl (InvalidInput ''role-based contact policy requires source and target roles'')
      else Inr ())"

definition RequestConnection :: "rbac_checker option \<Rightarrow> uuid \<Rightarrow> uuid \<Rightarrow> uuid \<Rightarrow> uuid \<Rightarrow> WorkspaceConnectionPolicy \<Rightarrow>
    (directory, go_error, WorkspaceConnection) handler" where
  "RequestConnection perms newID sourceWorkspaceID targetWorkspaceID actorID policy =
     bindM (failIf (sourceWorkspaceID = targetWorkspaceID) (InvalidInput ''cannot connect a workspace to itself'')) (\<lambda>_.
     bindM (readM (\<lambda>d. requirePermission perms d sourceWorkspaceID actorID PermissionCollaborationManage)) (\<lambda>_.
     bindM (readM (\<lambda>_. validatePolicy policy)) (\<lambda>_.
     let connection = \<lparr>WC_ID = newID, WC_SourceWorkspaceID = sourceWorkspaceID,
           WC_TargetWorkspaceID = targetWorkspaceID, WC_Status = WorkspaceConnectionPending,
           WC_Policy = policy, WC_CreatedBy = actorID, WC_ApprovedBy = None\<rparr>
     in bindM (mapErrM (\<lambda>err. Internal ''failed to create workspace connection'' (Some err))
                (CreateConnection connection)) (\<lambda>_.
        returnM connection))))"

definition ApproveConnection :: "rbac_checker option \<Rightarrow> uuid \<Rightarrow> uuid \<Rightarrow> uuid \<Rightarrow> (directory, go_error, unit) handler" where
  "ApproveConnection perms sourceWorkspaceID targetWorkspaceID actorID =
     bindM (readM (\<lambda>d. requirePermission perms d targetWorkspaceID actorID PermissionCollaborationManage)) (\<lambda>_.
     bindM (mapErrM (\<lambda>_. NotFound ''workspace connection not found'')
             (readM (\<lambda>d. GetConnection d sourceWorkspaceID targetWorkspaceID))) (\<lambda>connection.
     bindM (failIf (WC_Status connection \<noteq> WorkspaceConnectionPending)
             (Conflict ''workspace connection is not pending'')) (\<lambda>_.
     UpdateConnectionStatus (WC_ID connection) WorkspaceConnectionActive (Some actorID))))"

definition activeConnection :: "directory \<Rightarrow> uuid \<Rightarrow> uuid \<Rightarrow> go_error + WorkspaceConnection" where
  "activeConnection d sourceWorkspaceID targetWorkspaceID =
     (case GetConnection d sourceWorkspaceID targetWorkspaceID of
        Inl _ \<Rightarrow> Inl (Forbidden ''workspace connection is not active'')
      | Inr connection \<Rightarrow>
          if WC_Status connection \<noteq> WorkspaceConnectionActive
          then Inl (Forbidden ''workspace connection is not active'')
          else if (case WP_ExpiresAt (WC_Policy connection) of None \<Rightarrow> False | Some t \<Rightarrow> \<not> t > d_now d)
          then Inl (Forbidden ''workspace connection has expired'')
          else Inr connection)"

definition authorizeContact :: "directory \<Rightarrow> WorkspaceConnection \<Rightarrow> uuid \<Rightarrow> uuid \<Rightarrow> uuid \<Rightarrow> uuid \<Rightarrow> go_error + unit" where
  "authorizeContact d connection sourceWorkspaceID targetWorkspaceID sourceUserID targetUserID =
     (case GetMember d sourceWorkspaceID sourceUserID of
        Inl _ \<Rightarrow> Inl (Forbidden ''source user is not a workspace member'')
      | Inr sourceMember \<Rightarrow>
          (case GetMember d targetWorkspaceID targetUserID of
             Inl _ \<Rightarrow> Inl (Forbidden ''target user is not a workspace member'')
           | Inr targetMember \<Rightarrow>
               if \<not> CanContact (WC_Policy connection) (WM_Role sourceMember) (WM_Role targetMember)
               then Inl (Forbidden ''cross-workspace contact is not permitted by policy'')
               else Inr ()))"

definition Service_CanContact :: "directory \<Rightarrow> uuid \<Rightarrow> uuid \<Rightarrow> uuid \<Rightarrow> uuid \<Rightarrow> go_error + unit" where
  "Service_CanContact d sourceWorkspaceID targetWorkspaceID sourceUserID targetUserID =
     (case activeConnection d sourceWorkspaceID targetWorkspaceID of
        Inl err \<Rightarrow> Inl err
      | Inr connection \<Rightarrow>
          authorizeContact d connection sourceWorkspaceID targetWorkspaceID sourceUserID targetUserID)"

definition CanShareChannel :: "directory \<Rightarrow> uuid \<Rightarrow> uuid \<Rightarrow> uuid \<Rightarrow> uuid \<Rightarrow> go_error + unit" where
  "CanShareChannel d sourceWorkspaceID targetWorkspaceID sourceUserID targetUserID =
     (case activeConnection d sourceWorkspaceID targetWorkspaceID of
        Inl err \<Rightarrow> Inl err
      | Inr connection \<Rightarrow>
          if \<not> WP_SharedChannels (WC_Policy connection)
          then Inl (Forbidden ''workspace connection does not allow shared channels'')
          else authorizeContact d connection sourceWorkspaceID targetWorkspaceID sourceUserID targetUserID)"

definition CanShareCall :: "directory \<Rightarrow> uuid \<Rightarrow> uuid \<Rightarrow> uuid \<Rightarrow> uuid \<Rightarrow> go_error + unit" where
  "CanShareCall d sourceWorkspaceID targetWorkspaceID sourceUserID targetUserID =
     (case activeConnection d sourceWorkspaceID targetWorkspaceID of
        Inl err \<Rightarrow> Inl err
      | Inr connection \<Rightarrow>
          if \<not> WP_SharedCalls (WC_Policy connection)
          then Inl (Forbidden ''workspace connection does not allow shared calls'')
          else authorizeContact d connection sourceWorkspaceID targetWorkspaceID sourceUserID targetUserID)"

subsection \<open>Collaboration grants on a channel\<close>

record Decision =
  Managed :: bool
  Allowed :: bool

text \<open>The loop of \<open>authorize\<close> over the channel's grants.\<close>

fun authorize_loop :: "directory \<Rightarrow> uuid \<Rightarrow> bool \<Rightarrow> ChannelAccessGrant list \<Rightarrow> go_error + Decision" where
  "authorize_loop d userID requireCalls [] = Inr \<lparr>Managed = True, Allowed = False\<rparr>"
| "authorize_loop d userID requireCalls (grant # grants) =
     (if userID \<noteq> AG_UserID grant \<and> userID \<noteq> AG_SourceUserID grant
      then authorize_loop d userID requireCalls grants
      else if requireCalls \<and> \<not> AG_AllowCalls grant
      then authorize_loop d userID requireCalls grants
      else (case (if requireCalls
                  then CanShareCall d (AG_WorkspaceID grant) (AG_RemoteWorkspaceID grant) (AG_SourceUserID grant) (AG_UserID grant)
                  else CanShareChannel d (AG_WorkspaceID grant) (AG_RemoteWorkspaceID grant) (AG_SourceUserID grant) (AG_UserID grant)) of
              Inr _ \<Rightarrow> Inr \<lparr>Managed = True, Allowed = True\<rparr>
            | Inl authErr \<Rightarrow>
                if \<not> has_code CodeForbidden authErr \<and> \<not> has_code CodeNotFound authErr
                then Inl authErr
                else authorize_loop d userID requireCalls grants))"

text \<open>\<open>configured\<close> is \<open>c != nil && c.grants != nil && c.collaboration != nil\<close>.\<close>

definition authorize :: "bool \<Rightarrow> directory \<Rightarrow> uuid \<Rightarrow> uuid \<Rightarrow> bool \<Rightarrow> go_error + Decision" where
  "authorize configured d channelID userID requireCalls =
     (if \<not> configured then Inr \<lparr>Managed = False, Allowed = False\<rparr>
      else (case ListByChannel d channelID of
              Inl err \<Rightarrow> Inl (Internal ''failed to verify collaboration access'' (Some err))
            | Inr grants \<Rightarrow>
                if grants = [] then Inr \<lparr>Managed = False, Allowed = False\<rparr>
                else authorize_loop d userID requireCalls grants))"

definition AuthorizeChannel :: "bool \<Rightarrow> directory \<Rightarrow> uuid \<Rightarrow> uuid \<Rightarrow> go_error + Decision" where
  "AuthorizeChannel configured d channelID userID = authorize configured d channelID userID False"

definition AuthorizeCall :: "bool \<Rightarrow> directory \<Rightarrow> uuid \<Rightarrow> uuid \<Rightarrow> go_error + Decision" where
  "AuthorizeCall configured d channelID userID = authorize configured d channelID userID True"

subsection \<open>The channel access policy\<close>

datatype Subject = SubjectMember | SubjectGuest | SubjectCollaborator

datatype Capability = CapabilityView | CapabilityParticipate | CapabilityManage

record ChannelDecision =
  CD_Subject :: Subject
  CD_Channel :: Channel
  CD_WorkspaceMember :: "WorkspaceMember option"
  CD_ChannelMember :: "ChannelMember option"

text \<open>
  \<open>accesspolicy.Checker\<close> takes its guest and collaboration checks through the interfaces
  \<open>GuestAccess\<close> and \<open>CollaborationAccess\<close>; either may be nil. \<open>pc_workspaces\<close> and
  \<open>pc_present\<close> are the nil tests on the repository and on the receiver.
\<close>

record Checker =
  pc_present :: bool
  pc_workspaces :: bool
  pc_guests :: "((uuid \<Rightarrow> uuid \<Rightarrow> go_error + bool) \<times> (uuid \<Rightarrow> uuid \<Rightarrow> uuid \<Rightarrow> go_error + bool)) option"
  pc_collab :: "(uuid \<Rightarrow> uuid \<Rightarrow> go_error + Decision) option"

definition workspaceMember :: "Checker \<Rightarrow> directory \<Rightarrow> uuid \<Rightarrow> uuid \<Rightarrow> go_error + WorkspaceMember" where
  "workspaceMember c d workspaceID userID =
     (if \<not> pc_workspaces c then Inl (Forbidden ''workspace access is not configured'')
      else (case GetMember d workspaceID userID of
              Inl err \<Rightarrow>
                if has_code CodeNotFound err then Inl (Forbidden ''user is not a workspace member'')
                else Inl (Internal ''failed to verify workspace membership'' (Some err))
            | Inr member \<Rightarrow> Inr member))"

definition WorkspaceAccess :: "Checker \<Rightarrow> directory \<Rightarrow> uuid \<Rightarrow> uuid \<Rightarrow> go_error + Subject" where
  "WorkspaceAccess c d workspaceID userID =
     (if \<not> pc_present c then Inl (Forbidden ''workspace access is not configured'')
      else (case workspaceMember c d workspaceID userID of
              Inr _ \<Rightarrow> Inr SubjectMember
            | Inl err \<Rightarrow>
                if \<not> has_code CodeForbidden err then Inl err
                else (case pc_guests c of
                        None \<Rightarrow> Inl (Forbidden ''user does not have access to this workspace'')
                      | Some (hasWorkspaceAccess, _) \<Rightarrow>
                          (case hasWorkspaceAccess workspaceID userID of
                             Inl guestErr \<Rightarrow> Inl guestErr
                           | Inr allowed \<Rightarrow>
                               if allowed then Inr SubjectGuest
                               else Inl (Forbidden ''user does not have access to this workspace'')))))"

definition authorizeCollaboration :: "Checker \<Rightarrow> uuid \<Rightarrow> uuid \<Rightarrow> go_error + bool" where
  "authorizeCollaboration c channelID userID =
     (case pc_collab c of
        None \<Rightarrow> Inr True
      | Some auth \<Rightarrow>
          (case auth channelID userID of
             Inl err \<Rightarrow> Inl err
           | Inr decision \<Rightarrow> Inr (if \<not> Managed decision then True else Allowed decision)))"

definition channelDecisionForWorkspaceMember ::
    "Checker \<Rightarrow> directory \<Rightarrow> Channel \<Rightarrow> WorkspaceMember \<Rightarrow> uuid \<Rightarrow> Capability \<Rightarrow> go_error + ChannelDecision" where
  "channelDecisionForWorkspaceMember c d ch member userID capability =
     (case (case Channel_GetMember d (Ch_ID ch) userID of
              Inl err \<Rightarrow>
                if \<not> has_code CodeNotFound err
                then Inl (Internal ''failed to verify channel membership'' (Some err))
                else Inr None
            | Inr m \<Rightarrow> Inr (Some m)) of
        Inl e \<Rightarrow> Inl e
      | Inr channelMember \<Rightarrow>
          let granted = Inr \<lparr>CD_Subject = SubjectMember, CD_Channel = ch,
                             CD_WorkspaceMember = Some member, CD_ChannelMember = channelMember\<rparr>
          in case Ch_Type ch of
               ChannelTypePublic \<Rightarrow>
                 if capability = CapabilityParticipate \<and> channelMember = None
                 then Inl (Forbidden ''user is not a member of this channel'')
                 else granted
             | ChannelTypeSaved \<Rightarrow> Inl (NotFound ''channel not found'')
             | ChannelTypeSavedGlobal \<Rightarrow> Inl (NotFound ''channel not found'')
             | ChannelTypeOther _ \<Rightarrow> Inl (Forbidden ''unsupported channel type'')
             | _ \<Rightarrow>
                 if channelMember = None then Inl (Forbidden ''you do not have access to this channel'')
                 else if Ch_Type ch = ChannelTypeDM \<or> Ch_Type ch = ChannelTypeGroupDM
                 then (case authorizeCollaboration c (Ch_ID ch) userID of
                         Inl err \<Rightarrow> Inl err
                       | Inr allowed \<Rightarrow>
                           if \<not> allowed
                           then Inl (Forbidden ''you do not have access to this collaboration channel'')
                           else granted)
                 else granted)"

definition selfChannelDecision ::
    "Checker \<Rightarrow> directory \<Rightarrow> Channel \<Rightarrow> uuid \<Rightarrow> uuid \<Rightarrow> go_error + ChannelDecision" where
  "selfChannelDecision c d ch pathWorkspaceID userID =
     (if Ch_OwnerUserID ch \<noteq> Some userID then Inl (NotFound ''channel not found'')
      else (case Ch_Type ch of
              ChannelTypeSaved \<Rightarrow>
                (case Ch_WorkspaceID ch of
                   None \<Rightarrow> Inl (NotFound ''channel not found'')
                 | Some ws \<Rightarrow>
                     if pathWorkspaceID \<noteq> uuid_Nil \<and> ws \<noteq> pathWorkspaceID
                     then Inl (NotFound ''channel not found'')
                     else Inr \<lparr>CD_Subject = SubjectMember, CD_Channel = ch,
                               CD_WorkspaceMember = None, CD_ChannelMember = None\<rparr>)
            | ChannelTypeSavedGlobal \<Rightarrow>
                if pathWorkspaceID = uuid_Nil then Inl (NotFound ''channel not found'')
                else (case workspaceMember c d pathWorkspaceID userID of
                        Inl err \<Rightarrow>
                          if has_code CodeForbidden err
                          then Inl (Forbidden ''user is not a member of this workspace'')
                          else Inl err
                      | Inr member \<Rightarrow>
                          Inr \<lparr>CD_Subject = SubjectMember, CD_Channel = ch,
                               CD_WorkspaceMember = Some member, CD_ChannelMember = None\<rparr>)
            | _ \<Rightarrow> Inl (NotFound ''channel not found'')))"

definition channelDecisionForCollaborator :: "Checker \<Rightarrow> directory \<Rightarrow> Channel \<Rightarrow> uuid \<Rightarrow> go_error + ChannelDecision" where
  "channelDecisionForCollaborator c d ch userID =
     (if Ch_Type ch \<noteq> ChannelTypeDM \<and> Ch_Type ch \<noteq> ChannelTypeGroupDM
      then Inl (Forbidden ''you do not have access to this channel'')
      else (case Channel_GetMember d (Ch_ID ch) userID of
              Inl err \<Rightarrow>
                if has_code CodeNotFound err then Inl (Forbidden ''you do not have access to this channel'')
                else Inl (Internal ''failed to verify channel membership'' (Some err))
            | Inr channelMember \<Rightarrow>
                (case authorizeCollaboration c (Ch_ID ch) userID of
                   Inl err \<Rightarrow> Inl err
                 | Inr allowed \<Rightarrow>
                     if \<not> allowed
                     then Inl (Forbidden ''you do not have access to this collaboration channel'')
                     else Inr \<lparr>CD_Subject = SubjectCollaborator, CD_Channel = ch,
                               CD_WorkspaceMember = None, CD_ChannelMember = Some channelMember\<rparr>)))"

text \<open>
  \<open>Checker.Channel\<close>; \<open>pathWorkspaceID\<close> is the workspace of the request path, carried by the
  context.
\<close>

definition Checker_Channel :: "Checker \<Rightarrow> directory \<Rightarrow> uuid \<Rightarrow> uuid \<Rightarrow> uuid \<Rightarrow> Capability \<Rightarrow> go_error + ChannelDecision" where
  "Checker_Channel c d pathWorkspaceID channelID userID capability =
     (if \<not> pc_present c then Inl (Forbidden ''channel access is not configured'')
      else (case Channel_GetByID d channelID of
        Inl err \<Rightarrow>
          if has_code CodeNotFound err then Inl (NotFound ''channel not found'')
          else Inl (Internal ''failed to get channel'' (Some err))
      | Inr ch \<Rightarrow>
          if Ch_Archived ch \<and> capability \<noteq> CapabilityManage then Inl (Forbidden ''channel is archived'')
          else if IsSelfChannel (Ch_Type ch) then selfChannelDecision c d ch pathWorkspaceID userID
          else (case Ch_WorkspaceID ch of
             None \<Rightarrow> Inl (NotFound ''channel not found'')
           | Some ws \<Rightarrow>
               if pathWorkspaceID \<noteq> uuid_Nil \<and> ws \<noteq> pathWorkspaceID then Inl (NotFound ''channel not found'')
               else (case workspaceMember c d ws userID of
                  Inr member \<Rightarrow> channelDecisionForWorkspaceMember c d ch member userID capability
                | Inl memberErr \<Rightarrow>
                    if \<not> has_code CodeForbidden memberErr then Inl memberErr
                    else (case pc_guests c of
                       None \<Rightarrow> channelDecisionForCollaborator c d ch userID
                     | Some (_, hasChannelAccess) \<Rightarrow>
                         (case hasChannelAccess ws (Ch_ID ch) userID of
                            Inl err \<Rightarrow> Inl err
                          | Inr allowed \<Rightarrow>
                              if allowed
                              then Inr \<lparr>CD_Subject = SubjectGuest, CD_Channel = ch,
                                        CD_WorkspaceMember = None, CD_ChannelMember = None\<rparr>
                              else channelDecisionForCollaborator c d ch userID))))))"

definition dedupeChannels :: "Channel list \<Rightarrow> Channel list" where
  "dedupeChannels channels = dedup_seen Ch_ID [] channels"

text \<open>
  The page loop of \<open>ListChannels\<close>: errors other than a refusal stop the listing, the loop ends
  when a page is not longer than \<open>MaxLimit\<close> or the cursor does not move.
\<close>

fun list_page :: "(Channel \<Rightarrow> go_error + ChannelDecision) \<Rightarrow> Channel list \<Rightarrow> Channel list \<Rightarrow> go_error + Channel list" where
  "list_page decide all [] = Inr all"
| "list_page decide all (ch # page) =
     (case decide ch of
        Inr decision \<Rightarrow> list_page decide (all @ [CD_Channel decision]) page
      | Inl err \<Rightarrow>
          if has_code CodeForbidden err \<or> has_code CodeNotFound err then list_page decide all page
          else Inl err)"

function list_loop :: "directory \<Rightarrow> uuid \<Rightarrow> (Channel \<Rightarrow> go_error + ChannelDecision) \<Rightarrow> uuid \<Rightarrow> Channel list \<Rightarrow>
    go_error + Channel list" where
  "list_loop d workspaceID decide cursor all =
     (case ListByWorkspace d workspaceID \<lparr>P_Cursor = cursor, P_Limit = MaxLimit\<rparr> of
        Inl err \<Rightarrow> Inl (Internal ''failed to list workspace channels'' (Some err))
      | Inr page \<Rightarrow>
          (case list_page decide all page of
             Inl err \<Rightarrow> Inl err
           | Inr all' \<Rightarrow>
               if int (length page) \<le> MaxLimit then Inr all'
               else let nextCursor = Ch_ID (last page)
                    in if nextCursor = uuid_Nil \<or> nextCursor = cursor then Inr all'
                       else list_loop d workspaceID decide nextCursor all'))"
  by auto
termination
  by (relation "{}") (auto dest!: ListByWorkspace_length simp: Normalize_def MaxLimit_def)

declare list_loop.simps [simp del]

definition ListChannels :: "Checker \<Rightarrow> directory \<Rightarrow> uuid \<Rightarrow> uuid \<Rightarrow> uuid \<Rightarrow> Capability \<Rightarrow> go_error + Channel list" where
  "ListChannels c d pathWorkspaceID workspaceID userID capability =
     (let decide = (\<lambda>ch. Checker_Channel c d pathWorkspaceID (Ch_ID ch) userID capability);
          listAll = (case list_loop d workspaceID decide uuid_Nil [] of
                       Inl err \<Rightarrow> Inl err
                     | Inr all \<Rightarrow> Inr (dedupeChannels all))
      in if \<not> pc_present c then Inl (Forbidden ''channel access is not configured'')
         else if capability = CapabilityParticipate
         then (case workspaceMember c d workspaceID userID of
                 Inl _ \<Rightarrow> listAll
               | Inr _ \<Rightarrow>
                   (case ListByUser d workspaceID userID of
                      Inl err \<Rightarrow> Inl (Internal ''failed to list user channels'' (Some err))
                    | Inr channels \<Rightarrow>
                        Inr (dedupeChannels (List.map_filter
                          (\<lambda>ch. case decide ch of Inr decision \<Rightarrow> Some (CD_Channel decision) | Inl _ \<Rightarrow> None)
                          channels))))
         else listAll)"


subsection \<open>Guest grants: lemmas\<close>

text \<open>The grants of a user that are active now.\<close>

definition active_grants :: "directory \<Rightarrow> uuid \<Rightarrow> uuid \<Rightarrow> GuestAccessGrant set" where
  "active_grants d ws u =
     {g \<in> set (d_guest_grants d). GG_UserID g = u \<and> GG_WorkspaceID g = ws \<and> GG_ExpiresAt g > d_now d}"

lemma activeGrants_Inr:
  assumes "activeGrants hasGrants d ws u = Inr gs"
  shows "set gs = (if hasGrants
    then (\<lambda>g. \<lparr>eg_channelIDs = GG_ChannelIDs g, eg_callID = GG_CallID g\<rparr>) ` active_grants d ws u else {})"
  using assms
  by (auto simp: activeGrants_def active_grants_def dest!: ListActiveByUserWorkspace_Inr
      split: if_splits sum.splits option.splits)

lemma evaluate_loop_alt:
  "evaluate_loop cid g h gs = (g \<or> gs \<noteq> [], h \<or> (\<exists>x \<in> set gs. AllowsCall x cid))"
  by (induction gs arbitrary: g) auto

lemma AllowsChannel_entity:
  "AllowsChannel \<lparr>eg_channelIDs = GG_ChannelIDs g, eg_callID = GG_CallID g\<rparr> ch = GuestAccessGrant_AllowsChannel g ch"
  "AllowsCall \<lparr>eg_channelIDs = GG_ChannelIDs g, eg_callID = GG_CallID g\<rparr> cid = GuestAccessGrant_AllowsCall g cid"
  by (simp_all add: AllowsChannel_def GuestAccessGrant_AllowsChannel_def AllowsCall_def
      GuestAccessGrant_AllowsCall_def)

lemma HasChannelAccess_Inr:
  "HasChannelAccess hasGrants d ws ch u = Inr b \<Longrightarrow>
   b \<longleftrightarrow> hasGrants \<and> (\<exists>g \<in> active_grants d ws u. GuestAccessGrant_AllowsChannel g ch)"
  by (fastforce simp: HasChannelAccess_def AllowsChannel_entity dest!: activeGrants_Inr split: sum.splits if_splits)

lemma HasWorkspaceAccess_Inr:
  "HasWorkspaceAccess hasGrants d ws u = Inr b \<Longrightarrow>
   b \<longleftrightarrow> hasGrants \<and> (\<exists>g \<in> active_grants d ws u. GG_CallID g = None)"
  by (fastforce simp: HasWorkspaceAccess_def IsCallScoped_def dest!: activeGrants_Inr split: sum.splits if_splits)

lemma HasCallAccess_Inr:
  "HasCallAccess hasGrants d ws cid u = Inr b \<Longrightarrow>
   b \<longleftrightarrow> hasGrants \<and> (\<exists>g \<in> active_grants d ws u. GG_CallID g = Some cid)"
  by (fastforce simp: HasCallAccess_def AllowsCall_def dest!: activeGrants_Inr split: sum.splits if_splits)

lemma IsGuest_Inr:
  "IsGuest hasGrants d ws u = Inr b \<Longrightarrow> b \<longleftrightarrow> hasGrants \<and> active_grants d ws u \<noteq> {}"
  by (auto simp: IsGuest_def dest!: activeGrants_Inr split: sum.splits if_splits)

lemma EvaluateCallAccess_pair:
  "EvaluateCallAccess hasGrants d ws cid u =
     (case IsGuest hasGrants d ws u of
        Inl e \<Rightarrow> Inl e
      | Inr g \<Rightarrow> (case HasCallAccess hasGrants d ws cid u of Inl e \<Rightarrow> Inl e | Inr h \<Rightarrow> Inr (g, h)))"
  by (auto simp: EvaluateCallAccess_def IsGuest_def HasCallAccess_def evaluate_loop_alt split: sum.splits)

lemma EvaluateCallAccess_Inr:
  "EvaluateCallAccess hasGrants d ws cid u = Inr (g, h) \<Longrightarrow>
   (g \<longleftrightarrow> hasGrants \<and> active_grants d ws u \<noteq> {}) \<and>
   (h \<longleftrightarrow> hasGrants \<and> (\<exists>x \<in> active_grants d ws u. GG_CallID x = Some cid))"
  by (auto simp: EvaluateCallAccess_pair dest!: IsGuest_Inr HasCallAccess_Inr split: sum.splits)

subsection \<open>Collaboration: lemmas\<close>

definition connection_live :: "directory \<Rightarrow> WorkspaceConnection \<Rightarrow> bool" where
  "connection_live d c \<longleftrightarrow> WC_Status c = WorkspaceConnectionActive \<and>
     (case WP_ExpiresAt (WC_Policy c) of None \<Rightarrow> True | Some t \<Rightarrow> t > d_now d)"

lemma activeConnection_Inr:
  "activeConnection d s t = Inr c \<longleftrightarrow> GetConnection d s t = Inr c \<and> connection_live d c"
  by (auto simp: activeConnection_def connection_live_def split: sum.splits option.splits if_splits)

lemma activeConnection_Inl: "activeConnection d s t = Inl e \<Longrightarrow> has_code CodeForbidden e"
  by (auto simp: activeConnection_def split: sum.splits if_splits)

lemma authorizeContact_Inl: "authorizeContact d c s t su tu = Inl e \<Longrightarrow> has_code CodeForbidden e"
  by (auto simp: authorizeContact_def split: sum.splits if_splits)

lemma CanShare_Inl:
  "CanShareChannel d s t su tu = Inl e \<Longrightarrow> has_code CodeForbidden e"
  "CanShareCall d s t su tu = Inl e \<Longrightarrow> has_code CodeForbidden e"
  by (auto simp: CanShareChannel_def CanShareCall_def
      dest: activeConnection_Inl authorizeContact_Inl split: sum.splits if_splits)

text \<open>What a grant on a channel amounts to: the share test of its two users' workspaces.\<close>

definition grant_ok :: "directory \<Rightarrow> uuid \<Rightarrow> bool \<Rightarrow> ChannelAccessGrant \<Rightarrow> bool" where
  "grant_ok d u requireCalls g \<longleftrightarrow>
     (u = AG_UserID g \<or> u = AG_SourceUserID g) \<and> (requireCalls \<longrightarrow> AG_AllowCalls g) \<and>
     (if requireCalls
      then CanShareCall d (AG_WorkspaceID g) (AG_RemoteWorkspaceID g) (AG_SourceUserID g) (AG_UserID g) = Inr ()
      else CanShareChannel d (AG_WorkspaceID g) (AG_RemoteWorkspaceID g) (AG_SourceUserID g) (AG_UserID g) = Inr ())"

lemma authorize_loop_alt:
  "authorize_loop d u rc gs = Inr \<lparr>Managed = True, Allowed = (\<exists>g \<in> set gs. grant_ok d u rc g)\<rparr>"
  by (induction gs) (auto simp: grant_ok_def dest: CanShare_Inl split: sum.splits)

lemma authorize_Inr:
  assumes "authorize True d ch u rc = Inr dec"
  shows "(Managed dec \<longleftrightarrow> (\<exists>g \<in> set (d_access_grants d). AG_ChannelID g = ch)) \<and>
    (Allowed dec \<longleftrightarrow> (\<exists>g \<in> set (d_access_grants d). AG_ChannelID g = ch \<and> grant_ok d u rc g))"
proof -
  from assms obtain gs where gs: "ListByChannel d ch = Inr gs"
    by (auto simp: authorize_def split: sum.splits)
  have "set gs = {g \<in> set (d_access_grants d). AG_ChannelID g = ch}"
    using ListByChannel_Inr [OF gs] .
  then have "gs = [] \<longleftrightarrow> (\<forall>g \<in> set (d_access_grants d). AG_ChannelID g \<noteq> ch)"
    and "set gs = {g \<in> set (d_access_grants d). AG_ChannelID g = ch}"
    by (auto simp flip: set_empty)
  with assms gs show ?thesis
    by (auto simp: authorize_def authorize_loop_alt split: if_splits)
qed

lemma CanShareCall_Inr:
  "CanShareCall d s t su tu = Inr () \<longleftrightarrow>
     (\<exists>c ms mt. GetConnection d s t = Inr c \<and> connection_live d c \<and> WP_SharedCalls (WC_Policy c) \<and>
        GetMember d s su = Inr ms \<and> GetMember d t tu = Inr mt \<and>
        CanContact (WC_Policy c) (WM_Role ms) (WM_Role mt))"
  by (auto simp: CanShareCall_def authorizeContact_def activeConnection_Inr
      split: sum.splits if_splits dest: activeConnection_Inl)
    (metis Inl_Inr_False activeConnection_Inr)+

lemma requirePermission_None_member:
  "requirePermission None d ws u p = Inr () \<longleftrightarrow> (\<exists>m. GetMember d ws u = Inr m \<and> Has (WM_Role m) p)"
  by (auto simp: requirePermission_def split: sum.splits if_splits)

subsection \<open>The channel policy: lemmas\<close>

text \<open>
  The interface \<open>accesspolicy.GuestAccess\<close>. \<open>only_call_guest\<close> says of a user that every
  guest grant they hold in the workspace is scoped to a call; the provider promises that such a
  user passes neither the workspace nor the channel test.
\<close>

locale guest_access =
  fixes hasWorkspaceAccess :: "uuid \<Rightarrow> uuid \<Rightarrow> go_error + bool"
    and hasChannelAccess :: "uuid \<Rightarrow> uuid \<Rightarrow> uuid \<Rightarrow> go_error + bool"
    and only_call_guest :: "uuid \<Rightarrow> uuid \<Rightarrow> bool"
  assumes no_workspace: "only_call_guest ws u \<Longrightarrow> hasWorkspaceAccess ws u \<noteq> Inr True"
    and no_channel: "only_call_guest ws u \<Longrightarrow> hasChannelAccess ws ch u \<noteq> Inr True"
begin

lemma WorkspaceAccess_refused:
  assumes "pc_guests c = Some (hasWorkspaceAccess, hasChannelAccess)"
    and "only_call_guest ws u" and "workspaceMember c d ws u = Inl e"
  shows "\<exists>e'. WorkspaceAccess c d ws u = Inl e'"
  using assms no_workspace [of ws u]
  by (auto simp: WorkspaceAccess_def split: sum.splits)

lemma Channel_not_as_guest:
  assumes "pc_guests c = Some (hasWorkspaceAccess, hasChannelAccess)"
    and "Checker_Channel c d pw cid u cap = Inr dec" and "Ch_WorkspaceID (CD_Channel dec) = Some ws"
    and "only_call_guest ws u"
  shows "CD_Subject dec \<noteq> SubjectGuest"
  using assms no_channel [of ws u]
  by (auto simp: Checker_Channel_def selfChannelDecision_def channelDecisionForWorkspaceMember_def
      channelDecisionForCollaborator_def Let_def
      split: sum.splits if_splits option.splits ChannelType.splits)

end

definition only_call_guest :: "directory \<Rightarrow> uuid \<Rightarrow> uuid \<Rightarrow> bool" where
  "only_call_guest d ws u \<longleftrightarrow> (\<forall>g \<in> active_grants d ws u. GG_CallID g \<noteq> None)"

interpretation guests: guest_access
  "HasWorkspaceAccess hasGrants d" "HasChannelAccess hasGrants d" "only_call_guest d" for hasGrants d
proof
  fix ws u ch
  assume *: "only_call_guest d ws u"
  then show "HasWorkspaceAccess hasGrants d ws u \<noteq> Inr True"
    by (auto simp: only_call_guest_def dest!: HasWorkspaceAccess_Inr)
  from * show "HasChannelAccess hasGrants d ws ch u \<noteq> Inr True"
    by (auto simp: only_call_guest_def dest!: HasChannelAccess_Inr AllowsChannel_not_call_scoped)
qed

lemma workspaceMember_Inr:
  "workspaceMember c d ws u = Inr m \<Longrightarrow>
   m \<in> set (d_members d) \<and> WM_WorkspaceID m = ws \<and> WM_UserID m = u"
  by (auto simp: workspaceMember_def dest!: GetMember_Inr split: if_splits sum.splits)

text \<open>The archived guard and the path guard, on every successful decision.\<close>

lemma Checker_Channel_Inr:
  assumes "Checker_Channel c d pw cid u cap = Inr dec"
  shows "CD_Channel dec \<in> set (d_channels d)" "Ch_ID (CD_Channel dec) = cid"
    "Ch_Archived (CD_Channel dec) \<longrightarrow> cap = CapabilityManage"
    "pw \<noteq> 0 \<longrightarrow> Ch_Type (CD_Channel dec) \<noteq> ChannelTypeSavedGlobal \<longrightarrow> Ch_WorkspaceID (CD_Channel dec) = Some pw"
    "IsSelfChannel (Ch_Type (CD_Channel dec)) \<longrightarrow> Ch_OwnerUserID (CD_Channel dec) = Some u"
proof -
  from assms obtain ch where ch: "Channel_GetByID d cid = Inr ch" and dec: "CD_Channel dec = ch"
    and arch: "Ch_Archived ch \<longrightarrow> cap = CapabilityManage"
    by (auto simp: Checker_Channel_def selfChannelDecision_def channelDecisionForWorkspaceMember_def
        channelDecisionForCollaborator_def Let_def
        split: sum.splits if_splits option.splits ChannelType.splits)
  from Channel_GetByID_Inr [OF ch] dec arch
  show "CD_Channel dec \<in> set (d_channels d)" "Ch_ID (CD_Channel dec) = cid"
    "Ch_Archived (CD_Channel dec) \<longrightarrow> cap = CapabilityManage" by auto
  show "pw \<noteq> 0 \<longrightarrow> Ch_Type (CD_Channel dec) \<noteq> ChannelTypeSavedGlobal \<longrightarrow> Ch_WorkspaceID (CD_Channel dec) = Some pw"
    using assms ch dec
    by (auto simp: Checker_Channel_def selfChannelDecision_def IsSelfChannel_def
        split: if_splits option.splits ChannelType.splits)
  show "IsSelfChannel (Ch_Type (CD_Channel dec)) \<longrightarrow> Ch_OwnerUserID (CD_Channel dec) = Some u"
    using assms ch dec
    by (auto simp: Checker_Channel_def selfChannelDecision_def split: if_splits)
qed

text \<open>A private channel, a DM or a group DM is only granted to its channel members or to a guest.\<close>

lemma Checker_Channel_private:
  assumes "Checker_Channel c d pw cid u cap = Inr dec"
    and "Ch_Type (CD_Channel dec) \<in> {ChannelTypePrivate, ChannelTypeDM, ChannelTypeGroupDM}"
  shows "CD_Subject dec = SubjectGuest \<or> (\<exists>m. Channel_GetMember d cid u = Inr m)"
proof -
  from assms(1) obtain ch where ch: "Channel_GetByID d cid = Inr ch" and dec: "CD_Channel dec = ch"
    by (auto simp: Checker_Channel_def selfChannelDecision_def channelDecisionForWorkspaceMember_def
        channelDecisionForCollaborator_def Let_def
        split: sum.splits if_splits option.splits ChannelType.splits)
  have "Ch_ID ch = cid" using Channel_GetByID_Inr [OF ch] by simp
  with assms ch dec show ?thesis
    by (cases dec) (auto simp: Checker_Channel_def IsSelfChannel_def channelDecisionForWorkspaceMember_def
        channelDecisionForCollaborator_def Let_def
        split: sum.splits if_splits option.splits ChannelType.splits)
qed

lemma dedupeChannels_props:
  "distinct (map Ch_ID (dedupeChannels chs))" "set (dedupeChannels chs) \<subseteq> set chs"
  "Ch_ID ` set (dedupeChannels chs) = Ch_ID ` set chs"
  by (simp_all add: dedupeChannels_def dedup_seen_distinct dedup_seen_subset dedup_seen_keys)

lemma dedup_seen_length: "length (dedup_seen key seen xs) \<le> length xs"
  by (induction xs arbitrary: seen) (auto simp: le_SucI)

lemma list_page_Inr:
  "list_page decide all page = Inr res \<Longrightarrow>
   res = all @ List.map_filter (\<lambda>ch. case decide ch of Inr dec \<Rightarrow> Some (CD_Channel dec) | Inl _ \<Rightarrow> None) page"
  by (induction page arbitrary: all)
    (fastforce simp: List.map_filter_simps split: sum.splits if_splits)+

text \<open>Because a page is cut back to \<open>MaxLimit\<close> rows, the page loop always ends with its first page.\<close>

lemma list_loop_first_page:
  "list_loop d ws decide cursor all =
     (case ListByWorkspace d ws \<lparr>P_Cursor = cursor, P_Limit = MaxLimit\<rparr> of
        Inl err \<Rightarrow> Inl (Internal ''failed to list workspace channels'' (Some err))
      | Inr page \<Rightarrow> list_page decide all page)"
proof (cases "ListByWorkspace d ws \<lparr>P_Cursor = cursor, P_Limit = MaxLimit\<rparr>")
  case (Inl e)
  then show ?thesis by (subst list_loop.simps) simp
next
  case (Inr page)
  from ListByWorkspace_length [OF Inr] have "int (length page) \<le> MaxLimit"
    by (simp add: Normalize_def MaxLimit_def)
  with Inr show ?thesis by (subst list_loop.simps) (auto split: sum.splits)
qed

lemma map_filter_length: "length (List.map_filter f xs) \<le> length xs"
  by (induction xs) (auto simp: List.map_filter_simps split: option.splits)

lemma ListChannels_view:
  assumes "cap \<noteq> CapabilityParticipate" and "ListChannels c d pw ws u cap = Inr res"
  obtains page where "ListByWorkspace d ws \<lparr>P_Cursor = 0, P_Limit = MaxLimit\<rparr> = Inr page"
    and "res = dedupeChannels (List.map_filter (\<lambda>ch. case Checker_Channel c d pw (Ch_ID ch) u cap of
           Inr dec \<Rightarrow> Some (CD_Channel dec) | Inl _ \<Rightarrow> None) page)"
  using assms
  by (auto simp: ListChannels_def Let_def list_loop_first_page dest!: list_page_Inr
      split: if_splits sum.splits)

end
