(* ===== verification/CallState.thy ===== *)
theory CallState
  imports Access
begin

text \<open>
  The world of the call service (\<open>internal/service/call\<close>): its configuration and
  collaborators as an environment, its tables and side effects as a state, the events of
  \<open>internal/domain/event/events.go\<close>, and \<open>TxManager.WithinTx\<close> of
  \<open>internal/repository/postgres/tx.go\<close>.

  The clock is read once per handler (\<open>d_now\<close>); \<open>id.New()\<close> draws the next identifier
  of \<open>e_id\<close>. bcrypt, LiveKit, the SFU and the media placement service are parameters: the
  environment says what each call returns, and the state logs what they were asked to do.
\<close>

subsection \<open>Events\<close>

datatype EventType =
    TypeMessageCreated | TypeMessageUpdated | TypeMessageDeleted | TypeReactionAdded | TypeReactionRemoved
  | TypeMessagePinned | TypeMessageUnpinned | TypeTypingStarted | TypePresenceChanged
  | TypeChannelCreated | TypeChannelUpdated | TypeChannelRead | TypeMemberJoined | TypeMemberLeft
  | TypeCallStarted | TypeCallEnded | TypeCallParticipantJoined | TypeCallParticipantLeft
  | TypeCallParticipantUpdated | TypeCallInvited | TypeCallQualityAdapted
  | TypeCallMessageCreated | TypeCallMessageDeleted | TypeCallTypingStarted
  | TypeCallSettingsChanged | TypeCallHandRaised | TypeCallHandLowered | TypeCallReaction
  | TypeCallRecordingStarted | TypeCallRecordingUpdated
  | TypeCallShareRequestCreated | TypeCallShareRequestResolved | TypeCallFeaturedShareUpdated
  | TypeCallPinnedChanged | TypeCallParticipantMuted | TypeCallAskUnmute
  | TypeWaitingRoomJoined | TypeWaitingRoomAdmitted | TypeWaitingRoomRejected
  | TypeBreakoutRoomCreated | TypeBreakoutRoomClosed | TypeBreakoutRoomsAllClosed
  | TypeBreakoutParticipantMoved | TypeBreakoutBroadcast | TypeBreakoutRoomInvite
  | TypeSignalOffer | TypeSignalAnswer | TypeSignalCandidate
  | TypeOther string

datatype DeliverySemantic = DeliveryEphemeral | DeliveryBestEffort | DeliveryAtLeastOnce

record Definition =
  Def_DeliverySemantic :: DeliverySemantic
  Def_Replayable :: bool

definition DefinitionForType :: "EventType \<Rightarrow> Definition" where
  "DefinitionForType t =
     (if t \<in> {TypeTypingStarted, TypeCallTypingStarted, TypeSignalOffer, TypeSignalAnswer,
              TypeSignalCandidate, TypeCallHandRaised, TypeCallHandLowered, TypeCallReaction,
              TypeCallShareRequestCreated, TypeCallShareRequestResolved,
              TypeCallFeaturedShareUpdated, TypeCallPinnedChanged, TypeCallParticipantMuted,
              TypeCallAskUnmute, TypeBreakoutBroadcast, TypeBreakoutRoomInvite, TypeCallInvited}
      then \<lparr>Def_DeliverySemantic = DeliveryEphemeral, Def_Replayable = False\<rparr>
      else if t \<in> {TypePresenceChanged, TypeCallQualityAdapted}
      then \<lparr>Def_DeliverySemantic = DeliveryBestEffort, Def_Replayable = False\<rparr>
      else \<lparr>Def_DeliverySemantic = DeliveryAtLeastOnce, Def_Replayable = True\<rparr>)"

record CallMessage =
  CM_ID :: uuid
  CM_CallID :: uuid
  CM_SenderID :: uuid
  CM_Body :: string
  CM_CreatedAt :: gotime
  CM_DeletedAt :: "gotime option"

datatype Payload =
    CallPayload Call
  | CallParticipantPayload uuid CallParticipant
  | CallInvitedPayload uuid uuid uuid CallType "uuid option"
  | SignalPayload uuid uuid uuid string
  | PinnedParticipantPayload uuid "uuid option"
  | FeaturedSharePayload uuid "uuid option"
  | CallSettingsChangedPayload uuid AccessLevel CallSettings
  | ShareRequestPayload uuid uuid
  | ShareRequestResolvedPayload uuid uuid bool
  | CallParticipantMutedPayload uuid uuid "bool option" "bool option"
  | CallAskUnmutePayload uuid uuid uuid
  | CallHandPayload uuid uuid
  | CallReactionPayload uuid uuid string
  | CallMessagePayload uuid CallMessage
  | CallMessageDeletedPayload uuid uuid
  | BreakoutRoomPayload uuid BreakoutRoom
  | BreakoutParticipantMovedPayload uuid uuid "uuid option"
  | BreakoutRoomsAllClosedPayload uuid
  | BreakoutBroadcastPayload uuid uuid string
  | BreakoutRoomInvitePayload uuid uuid uuid uuid string
  | MessagePayload Message "ChannelType option" "uuid option" "uuid option"
  | MovedMessagePayload uuid uuid gotime
  | ReactionPayload Reaction
  | PinPayload uuid uuid uuid
  | ChannelPayload Channel
  | MemberPayload uuid uuid
  | ChannelReadPayload uuid uuid gotime

text \<open>
  \<open>event.NewMessagePayload\<close>: for a self channel the payload names its type, its workspace and the
  message it was saved from.
\<close>

definition NewMessagePayload :: "Message \<Rightarrow> Channel option \<Rightarrow> Payload" where
  "NewMessagePayload message channel =
     (case channel of
        None \<Rightarrow> MessagePayload message None None None
      | Some ch \<Rightarrow>
          if \<not> IsSelfChannel (Ch_Type ch) then MessagePayload message None None None
          else MessagePayload message (Some (Ch_Type ch)) (Ch_WorkspaceID ch)
                 (case Msg_SavedFrom message of
                    None \<Rightarrow> None
                  | Some savedFrom \<Rightarrow> if SF_MessageID savedFrom \<noteq> uuid_Nil then Some (SF_MessageID savedFrom) else None))"

text \<open>
  The subject strings: \<open>aloqa.ws.W\<close>, \<open>aloqa.ws.W.user.U.events\<close>, \<open>aloqa.signal.U\<close> and
  \<open>aloqa.chat.C\<close>.
\<close>

datatype EventSubject =
    WorkspaceSubject uuid
  | WorkspaceUserEventsSubject uuid uuid
  | SignalSubject uuid
  | ChatSubject uuid

record Event =
  Ev_Type :: EventType
  Ev_Subject :: EventSubject
  Ev_WorkspaceID :: uuid
  Ev_ChannelID :: uuid
  Ev_UserID :: uuid
  Ev_Payload :: Payload

text \<open>
  \<open>event.Prepare\<close>: the outbox gets the event only when it is durable. Marshalling the payloads
  above cannot fail.
\<close>

definition Prepare_durable :: "EventType \<Rightarrow> bool" where
  "Prepare_durable t = (Def_DeliverySemantic (DefinitionForType t) = DeliveryAtLeastOnce)"

subsection \<open>Media plane\<close>

text \<open>
  Room names: \<open>callID.String()\<close> for the main room and \<open>callID:breakout:roomID\<close> for a
  breakout room, for the SFU and LiveKit alike; any other name a webhook may carry.
\<close>

datatype RoomName = MainRoom uuid | BreakoutRoomName uuid uuid | ForeignRoom string

definition breakoutSFURoomID :: "uuid \<Rightarrow> uuid \<Rightarrow> RoomName" where
  "breakoutSFURoomID callID breakoutRoomID = BreakoutRoomName callID breakoutRoomID"

definition breakoutLiveKitRoomName :: "uuid \<Rightarrow> uuid \<Rightarrow> RoomName" where
  "breakoutLiveKitRoomName callID breakoutRoomID = BreakoutRoomName callID breakoutRoomID"

definition parseBreakoutRoomName :: "RoomName \<Rightarrow> (uuid \<times> uuid) option" where
  "parseBreakoutRoomName name =
     (case name of BreakoutRoomName c r \<Rightarrow> Some (c, r) | _ \<Rightarrow> None)"

datatype TrackSource =
  TrackSource_UNKNOWN | TrackSource_CAMERA | TrackSource_MICROPHONE | TrackSource_SCREEN_SHARE
  | TrackSource_SCREEN_SHARE_AUDIO

record ParticipantPermission =
  PP_CanSubscribe :: bool
  PP_CanPublish :: bool
  PP_CanPublishData :: bool
  PP_CanPublishSources :: "TrackSource list"

record LiveKitTrack =
  LT_Sid :: string
  LT_Source :: TrackSource
  LT_Muted :: bool

text \<open>
  A LiveKit identity is the user id's string for the users of the service; an identity
  \<open>uuid.Parse\<close> rejects (an egress recorder, say) is \<open>OtherIdentity\<close>.
\<close>

datatype Identity = UserIdentity uuid | OtherIdentity string

definition parse_identity :: "Identity \<Rightarrow> uuid option" where
  "parse_identity i = (case i of UserIdentity u \<Rightarrow> Some u | OtherIdentity _ \<Rightarrow> None)"

record LiveKitParticipant =
  LP_Identity :: Identity
  LP_Tracks :: "LiveKitTrack list"

text \<open>The requests of \<open>LiveKitRoomClient\<close> that change the media plane.\<close>

datatype LiveKitRequest =
    LK_EnsureRoom RoomName int
  | LK_DeleteRoom RoomName
  | LK_RemoveParticipant uuid uuid
  | LK_UpdateParticipant uuid uuid ParticipantPermission
  | LK_MutePublishedTrack RoomName uuid string

text \<open>\<open>auth.VideoGrant\<close> as \<open>mintLiveKitToken\<close> fills it; an unset source list is \<open>None\<close>.\<close>

record VideoGrant =
  VG_Room :: RoomName
  VG_RoomJoin :: bool
  VG_CanPublish :: bool
  VG_CanSubscribe :: bool
  VG_CanPublishData :: bool
  VG_CanPublishSources :: "TrackSource list option"

text \<open>The requests to \<open>EgressWebhookSink\<close> (\<open>livekit_egress.go\<close>), which the recording service implements.\<close>

datatype EgressEventPhase = EgressEventStarted | EgressEventUpdated | EgressEventEnded

record EgressEventInfo =
  EE_EgressID :: string
  EE_CallID :: uuid
  EE_Phase :: EgressEventPhase
  EE_Succeeded :: bool
  EE_FileSizeBytes :: int
  EE_DurationSeconds :: int

datatype EgressRequest = EG_HandleEgressEvent EgressEventInfo | EG_StopActiveEgressForCall uuid

record MediaConfig =
  MC_MaxPresentersPerCall :: int
  MC_MaxViewersPerCall :: int
  MC_MaxScreenSharesPerCall :: int
  MC_DefaultWebinarPresenters :: int

record MediaCallPolicy =
  MP_MaxParticipants :: int
  MP_MaxPresenters :: int
  MP_MaxViewers :: int

subsection \<open>Environment and state\<close>

record call_env =
  e_dir :: directory
  e_tx :: bool
  e_guests :: bool
  e_collab :: bool
  e_messages :: bool
  e_realtime :: bool
  e_livekit :: bool
  e_livekitRooms :: bool
  e_sfu :: bool
  e_sfuMaxRooms :: int
  e_recordingEnabled :: bool
  e_media :: MediaConfig
  e_control :: "(Call \<Rightarrow> MediaCallPolicy) option"
  e_servesLocally :: "Call \<Rightarrow> bool"
  e_id :: "nat \<Rightarrow> uuid"
  e_bcryptCompare :: "string \<Rightarrow> string \<Rightarrow> bool"
  e_bcryptHash :: "string \<Rightarrow> string option"
  e_lkResult :: "LiveKitRequest \<Rightarrow> go_error option"
  e_lkParticipants :: "RoomName \<Rightarrow> go_error + LiveKitParticipant list"
  e_livekitURL :: string
  e_tokenTTL :: int
  e_toJWT :: "VideoGrant \<Rightarrow> uuid \<Rightarrow> string \<Rightarrow> string option"
  e_egressSink :: bool
  e_egressResult :: "EgressRequest \<Rightarrow> go_error option"
  e_callMessages :: bool

record outbox_row =
  ob_Event :: Event
  ob_Replayable :: bool

text \<open>A row of \<open>call_livekit_webhook_events\<close>; \<open>WE_Processed\<close> is its status.\<close>

record webhook_row =
  WE_EventID :: string
  WE_CallID :: uuid
  WE_EventType :: string
  WE_Processed :: bool
  WE_ClaimToken :: uuid
  WE_ReceivedAt :: gotime
  WE_LeaseExpiresAt :: "gotime option"
  WE_ProcessedAt :: "gotime option"

text \<open>The tables; an invitation is (call, invited user, inviting user).\<close>

record call_db =
  db_calls :: "Call list"
  db_parts :: "CallParticipant list"
  db_invited :: "(uuid \<times> uuid \<times> uuid) list"
  db_rooms :: "BreakoutRoom list"
  db_outbox :: "outbox_row list"
  db_messages :: "Message list"
  db_callmsgs :: "CallMessage list"
  db_webhooks :: "webhook_row list"

record call_state =
  st_db :: call_db
  st_published :: "Event list"
  st_lk :: "LiveKitRequest list"
  st_egress :: "EgressRequest list"
  st_sfuRooms :: "RoomName list"
  st_timers :: "RoomName list"
  st_ids :: nat

type_synonym 'a call_handler = "(call_state, go_error, 'a) handler"

abbreviation (input) now_of :: "call_env \<Rightarrow> gotime" where
  "now_of env \<equiv> d_now (e_dir env)"

abbreviation (input) fault_of :: "call_env \<Rightarrow> fault_oracle" where
  "fault_of env \<equiv> d_fault (e_dir env)"

definition id_New :: "call_env \<Rightarrow> uuid call_handler" where
  "id_New env = (\<lambda>s. (Inr (e_id env (st_ids s)), s\<lparr>st_ids := Suc (st_ids s)\<rparr>))"

text \<open>
  One SQL statement: it fails with the driver's error and no effect when the environment says
  so, and otherwise reads or updates the tables.
\<close>

definition repo_query :: "call_env \<Rightarrow> string \<Rightarrow> uuid list \<Rightarrow> string \<Rightarrow> (call_db \<Rightarrow> go_error + 'a) \<Rightarrow> call_state \<Rightarrow> go_error + 'a" where
  "repo_query env op args wrap f s = db_op (fault_of env) op args wrap (f (st_db s))"

definition repo_exec :: "call_env \<Rightarrow> string \<Rightarrow> uuid list \<Rightarrow> string \<Rightarrow> (call_db \<Rightarrow> (go_error + 'a) \<times> call_db) \<Rightarrow> 'a call_handler" where
  "repo_exec env op args wrap f s =
     (case fault_of env op args of
        Some d \<Rightarrow> (Inl (Wrapf wrap (driver_error d)), s)
      | None \<Rightarrow> (case f (st_db s) of (r, db) \<Rightarrow> (r, s\<lparr>st_db := db\<rparr>)))"

text \<open>
  \<open>WithinTx\<close>: the closure's statements run in one transaction, which is rolled back when the
  closure or the commit fails. Only the tables roll back, not what was published meanwhile.
\<close>

definition WithinTx :: "call_env \<Rightarrow> 'a call_handler \<Rightarrow> 'a call_handler" where
  "WithinTx env fn s =
     (case fault_of env ''TxManager.Begin'' [] of
        Some d \<Rightarrow> (Inl (Wrapf ''postgres: begin transaction'' (driver_error d)), s)
      | None \<Rightarrow>
          (case fn s of
             (Inl e, s') \<Rightarrow> (Inl e, s'\<lparr>st_db := st_db s\<rparr>)
           | (Inr x, s') \<Rightarrow>
               (case fault_of env ''TxManager.Commit'' [] of
                  Some d \<Rightarrow> (Inl (Wrapf ''postgres: commit transaction'' (driver_error d)), s'\<lparr>st_db := st_db s\<rparr>)
                | None \<Rightarrow> (Inr x, s'))))"

lemma WithinTx_atomic:
  "WithinTx env fn s = (Inl e, s') \<Longrightarrow> st_db s' = st_db s"
  by (auto simp: WithinTx_def split: option.splits prod.splits sum.splits)

lemma WithinTx_commit:
  "WithinTx env fn s = (Inr x, s') \<Longrightarrow> fn s = (Inr x, s')"
  by (auto simp: WithinTx_def split: option.splits prod.splits sum.splits)

lemma WithinTx_Inr [run_Inr]:
  "WithinTx env fn s = (Inr x, s') \<longleftrightarrow>
   fault_of env ''TxManager.Begin'' [] = None \<and> fn s = (Inr x, s') \<and> fault_of env ''TxManager.Commit'' [] = None"
  by (auto simp: WithinTx_def split: option.splits prod.splits sum.splits)

lemma repo_exec_Inr [run_Inr]:
  "repo_exec env op args wrap f s = (Inr x, s') \<longleftrightarrow>
   fault_of env op args = None \<and> fst (f (st_db s)) = Inr x \<and> s' = s\<lparr>st_db := snd (f (st_db s))\<rparr>"
  by (auto simp: repo_exec_def split: option.splits prod.splits)

lemma id_New_Inr [run_Inr]:
  "id_New env s = (Inr x, s') \<longleftrightarrow> x = e_id env (st_ids s) \<and> s' = s\<lparr>st_ids := Suc (st_ids s)\<rparr>"
  by (auto simp: id_New_def)

lemma repo_query_Inr [simp]:
  "repo_query env op args wrap f s = Inr x \<longleftrightarrow> fault_of env op args = None \<and> f (st_db s) = Inr x"
  by (simp add: repo_query_def)

lemma repo_query_Inl_code:
  "repo_query env op args wrap f s = Inl e \<Longrightarrow> has_code c e \<Longrightarrow>
   fault_of env op args = None \<and> f (st_db s) = Inl e"
  by (auto simp: repo_query_def dest: db_op_Inl_code)

lemma parseBreakoutRoomName_roundtrip [simp]:
  "parseBreakoutRoomName (breakoutLiveKitRoomName c r) = Some (c, r)"
  by (simp add: parseBreakoutRoomName_def breakoutLiveKitRoomName_def)

end
