(* ===== verification/CallRepo.thy ===== *)
theory CallRepo
  imports CallState
begin

text \<open>
  The SQL of \<open>internal/repository/postgres/call.go\<close> and \<open>breakout_room.go\<close> as operations on
  the tables of \<open>call_db\<close>. Each definition is one repository method: its \<open>WHERE\<close> clause is the
  row test, its \<open>SET\<close> list the row update, a \<open>RowsAffected() == 0\<close> branch the test whether a
  row matched. Foreign keys hold: a participant's call exists, so the joins with \<open>calls\<close> and
  \<open>users\<close> never drop a row.
\<close>

subsection \<open>Calls\<close>

text \<open>The normalisation every read applies to the decoded settings column.\<close>

definition load_settings :: "CallSettings \<Rightarrow> CallSettings" where
  "load_settings c0 =
     (let c1 = c0\<lparr>CS_EntryMode := ResolvedEntryMode c0\<rparr>;
          c2 = c1\<lparr>CS_BreakoutCreation := ResolvedBreakoutCreation c1\<rparr>;
          c3 = c2\<lparr>CS_MaxBreakoutRooms := ResolvedMaxBreakoutRooms c2\<rparr>
      in c3\<lparr>CS_WhoCanAddGuests := ResolvedWhoCanAddGuests c3\<rparr>)"

definition load_call :: "Call \<Rightarrow> Call" where
  "load_call c = c\<lparr>Call_Settings := load_settings (Call_Settings c)\<rparr>"

text \<open>The list projections do not select the password hash.\<close>

definition load_call_projection :: "Call \<Rightarrow> Call" where
  "load_call_projection c = (load_call c)\<lparr>Call_JoinPasswordHash := ''''\<rparr>"

definition store_call :: "Call \<Rightarrow> Call" where
  "store_call c = c\<lparr>Call_Settings := CallSettings_MarshalJSON (Call_Settings c),
                    Call_AccessLevel := AccessLevel_Resolved (Call_AccessLevel c)\<rparr>"

definition Calls_Create :: "call_env \<Rightarrow> Call \<Rightarrow> unit call_handler" where
  "Calls_Create env call =
     repo_exec env ''CallRepo.Create'' [Call_ID call] ''postgres: create call''
       (\<lambda>db. if \<exists>c \<in> set (db_calls db). Call_ID c = Call_ID call
             then (Inl (Wrapf ''postgres: create call'' (Opaque ''23505'')), db)
             else (Inr (), db\<lparr>db_calls := db_calls db @ [store_call call]\<rparr>))"

definition Calls_GetByID :: "call_env \<Rightarrow> uuid \<Rightarrow> call_state \<Rightarrow> go_error + Call" where
  "Calls_GetByID env cid =
     repo_query env ''CallRepo.GetByID'' [cid] ''postgres: get call by id''
       (\<lambda>db. case find (\<lambda>c. Call_ID c = cid) (db_calls db) of
               None \<Rightarrow> Inl (NotFound ''call not found'')
             | Some c \<Rightarrow> Inr (load_call c))"

definition ListActiveByWorkspace :: "call_env \<Rightarrow> uuid \<Rightarrow> call_state \<Rightarrow> go_error + Call list" where
  "ListActiveByWorkspace env workspaceID =
     repo_query env ''CallRepo.ListActiveByWorkspace'' [workspaceID] ''postgres: list active calls''
       (\<lambda>db. Inr (map load_call_projection (sort_key (\<lambda>c. - Call_CreatedAt c)
          (filter (\<lambda>c. Call_WorkspaceID c = workspaceID \<and> Call_Status c \<noteq> CallStatusEnded) (db_calls db)))))"

definition started_or_created :: "Call \<Rightarrow> gotime" where
  "started_or_created c = (case Call_StartedAt c of Some t \<Rightarrow> t | None \<Rightarrow> Call_CreatedAt c)"

definition ListStaleOpen :: "call_env \<Rightarrow> gotime \<Rightarrow> int \<Rightarrow> call_state \<Rightarrow> go_error + Call list" where
  "ListStaleOpen env before limit0 =
     (let limit1 = (if limit0 \<le> 0 then 100 else limit0);
          limit = (if limit1 > 500 then 500 else limit1)
      in repo_query env ''CallRepo.ListStaleOpen'' [] ''postgres: list stale open calls''
           (\<lambda>db. Inr (map load_call_projection (take (nat limit) (sort_key started_or_created
              (filter (\<lambda>c. (Call_Status c = CallStatusRinging \<or> Call_Status c = CallStatusActive) \<and>
                           started_or_created c < before) (db_calls db)))))))"

definition ListRecentByWorkspace :: "call_env \<Rightarrow> uuid \<Rightarrow> int \<Rightarrow> gotime option \<Rightarrow> call_state \<Rightarrow> go_error + Call list" where
  "ListRecentByWorkspace env workspaceID limit0 before =
     (let limit1 = (if limit0 \<le> 0 then 20 else limit0);
          limit = (if limit1 > 100 then 100 else limit1)
      in repo_query env ''CallRepo.ListRecentByWorkspace'' [workspaceID] ''postgres: list recent calls''
           (\<lambda>db. Inr (map load_call_projection (take (nat (limit + 1)) (sort_key (\<lambda>c. - Call_CreatedAt c)
              (filter (\<lambda>c. Call_WorkspaceID c = workspaceID \<and>
                           (case before of None \<Rightarrow> True | Some t \<Rightarrow> Call_CreatedAt c < t)) (db_calls db)))))))"

text \<open>\<open>UPDATE calls SET ... WHERE id = $1\<close>, with the \<open>RowsAffected\<close> check.\<close>

definition update_call_row :: "uuid \<Rightarrow> (Call \<Rightarrow> Call) \<Rightarrow> call_db \<Rightarrow> call_db" where
  "update_call_row cid f db = db\<lparr>db_calls := upd_where (\<lambda>c. Call_ID c = cid) f (db_calls db)\<rparr>"

definition call_exists :: "uuid \<Rightarrow> call_db \<Rightarrow> bool" where
  "call_exists cid db = (\<exists>c \<in> set (db_calls db). Call_ID c = cid)"

definition UpdateSettings :: "call_env \<Rightarrow> uuid \<Rightarrow> CallSettings \<Rightarrow> unit call_handler" where
  "UpdateSettings env cid settings =
     repo_exec env ''CallRepo.UpdateSettings'' [cid] ''postgres: update call settings''
       (\<lambda>db. if call_exists cid db
             then (Inr (), update_call_row cid (\<lambda>c. c\<lparr>Call_Settings := CallSettings_MarshalJSON settings\<rparr>) db)
             else (Inl (NotFound ''call not found''), db))"

definition UpdateAccessLevel :: "call_env \<Rightarrow> uuid \<Rightarrow> AccessLevel \<Rightarrow> unit call_handler" where
  "UpdateAccessLevel env cid level =
     repo_exec env ''CallRepo.UpdateAccessLevel'' [cid] ''postgres: update call access level''
       (\<lambda>db. if call_exists cid db
             then (Inr (), update_call_row cid (\<lambda>c. c\<lparr>Call_AccessLevel := AccessLevel_Resolved level\<rparr>) db)
             else (Inl (NotFound ''call not found''), db))"

text \<open>\<open>INSERT ... ON CONFLICT (call_id, user_id) DO NOTHING\<close>.\<close>

definition insert_invited :: "uuid \<Rightarrow> uuid \<Rightarrow> uuid \<Rightarrow> call_db \<Rightarrow> call_db" where
  "insert_invited callID userID invitedBy db =
     (if \<exists>(c, u, _) \<in> set (db_invited db). c = callID \<and> u = userID then db
      else db\<lparr>db_invited := db_invited db @ [(callID, userID, invitedBy)]\<rparr>)"

definition AddInvitedMembers :: "call_env \<Rightarrow> uuid \<Rightarrow> uuid list \<Rightarrow> uuid \<Rightarrow> unit call_handler" where
  "AddInvitedMembers env callID userIDs invitedBy =
     forM userIDs (\<lambda>userID.
       repo_exec env ''CallRepo.AddInvitedMembers'' [callID, userID] ''postgres: add invited member''
         (\<lambda>db. (Inr (), insert_invited callID userID invitedBy db)))"

definition IsInvited :: "call_env \<Rightarrow> uuid \<Rightarrow> uuid \<Rightarrow> call_state \<Rightarrow> go_error + bool" where
  "IsInvited env callID userID =
     repo_query env ''CallRepo.IsInvited'' [callID, userID] ''postgres: is invited''
       (\<lambda>db. Inr (\<exists>(c, u, _) \<in> set (db_invited db). c = callID \<and> u = userID))"

definition ListInvitedMembers :: "call_env \<Rightarrow> uuid \<Rightarrow> call_state \<Rightarrow> go_error + uuid list" where
  "ListInvitedMembers env callID =
     repo_query env ''CallRepo.ListInvitedMembers'' [callID] ''postgres: list invited members''
       (\<lambda>db. Inr (map (\<lambda>(c, u, b). u) (filter (\<lambda>(c, u, b). c = callID) (db_invited db))))"

definition SnapshotConnectedIntoInvited :: "call_env \<Rightarrow> uuid \<Rightarrow> uuid \<Rightarrow> unit call_handler" where
  "SnapshotConnectedIntoInvited env callID invitedBy =
     repo_exec env ''CallRepo.SnapshotConnectedIntoInvited'' [callID] ''postgres: snapshot connected into invited''
       (\<lambda>db. (Inr (), fold (\<lambda>p. insert_invited callID (CP_UserID p) invitedBy)
          (filter (\<lambda>p. CP_CallID p = callID \<and> CP_Status p = ParticipantStatusConnected \<and>
              (\<exists>c \<in> set (db_calls db). Call_ID c = CP_CallID p \<and>
                 (\<exists>m \<in> set (d_members (e_dir env)). WM_WorkspaceID m = Call_WorkspaceID c \<and> WM_UserID m = CP_UserID p)))
            (db_parts db)) db))"

definition ActivateRinging :: "call_env \<Rightarrow> uuid \<Rightarrow> bool call_handler" where
  "ActivateRinging env cid =
     repo_exec env ''CallRepo.ActivateRinging'' [cid] ''postgres: activate ringing call''
       (\<lambda>db. if \<exists>c \<in> set (db_calls db). Call_ID c = cid \<and> Call_Status c = CallStatusRinging
             then (Inr True, db\<lparr>db_calls := upd_where (\<lambda>c. Call_ID c = cid \<and> Call_Status c = CallStatusRinging)
                     (\<lambda>c. c\<lparr>Call_Status := CallStatusActive, Call_StartedAt := Some (now_of env)\<rparr>) (db_calls db)\<rparr>)
             else if call_exists cid db then (Inr False, db)
             else (Inl (NotFound ''call not found''), db))"

definition coalesce :: "'a option \<Rightarrow> 'a option \<Rightarrow> 'a option" where
  "coalesce a b = (case a of Some _ \<Rightarrow> a | None \<Rightarrow> b)"

definition live_status :: "ParticipantStatus \<Rightarrow> bool" where
  "live_status st = (st = ParticipantStatusJoining \<or> st = ParticipantStatusConnected \<or> st = ParticipantStatusWaiting)"

text \<open>The id of the call in the body of a \<open>call.started\<close> event.\<close>

definition payload_call_id :: "Payload \<Rightarrow> uuid option" where
  "payload_call_id p = (case p of CallPayload c \<Rightarrow> Some (Call_ID c) | _ \<Rightarrow> None)"

text \<open>
  \<open>endCallQuery\<close> and \<open>cancelRingingQuery\<close>: one statement ends the call, disconnects its live
  participants and tombstones its \<open>call.started\<close> event. They differ in the status test.
\<close>

definition end_call_statement ::
    "(CallStatus \<Rightarrow> bool) \<Rightarrow> gotime \<Rightarrow> uuid \<Rightarrow> CallEndReason option \<Rightarrow> ParticipantLeftReason \<Rightarrow> call_db \<Rightarrow> call_db" where
  "end_call_statement isOpen now cid reason partReason db =
     db\<lparr>db_calls := upd_where (\<lambda>c. Call_ID c = cid \<and> isOpen (Call_Status c))
          (\<lambda>c. c\<lparr>Call_Status := CallStatusEnded,
                 Call_EndedAt := coalesce (Call_EndedAt c) (Some now),
                 Call_EndReason := coalesce (Call_EndReason c) reason\<rparr>) (db_calls db),
        db_parts := upd_where (\<lambda>p. CP_CallID p = cid \<and> live_status (CP_Status p))
          (\<lambda>p. p\<lparr>CP_Status := ParticipantStatusDisconnected,
                 CP_LeftAt := coalesce (CP_LeftAt p) (Some now),
                 CP_LeftReason := coalesce (CP_LeftReason p) (Some partReason)\<rparr>) (db_parts db),
        db_outbox := upd_where (\<lambda>r. Ev_Type (ob_Event r) = TypeCallStarted \<and> ob_Replayable r \<and>
                                    payload_call_id (Ev_Payload (ob_Event r)) = Some cid)
          (\<lambda>r. r\<lparr>ob_Replayable := False\<rparr>) (db_outbox db)\<rparr>"

definition endCallAndDisconnect :: "call_env \<Rightarrow> uuid \<Rightarrow> (CallStatus \<Rightarrow> bool) \<Rightarrow> CallEndReason option \<Rightarrow>
    ParticipantLeftReason \<Rightarrow> bool call_handler" where
  "endCallAndDisconnect env cid isOpen reason partReason =
     repo_exec env ''CallRepo.endCallAndDisconnect'' [cid] ''postgres: end call and disconnect participants''
       (\<lambda>db. if \<exists>c \<in> set (db_calls db). Call_ID c = cid \<and> isOpen (Call_Status c)
             then (Inr True, end_call_statement isOpen (now_of env) cid reason partReason db)
             else if call_exists cid db then (Inr False, db)
             else (Inl (NotFound ''call not found''), db))"

definition EndWithReasonIfNotEnded :: "call_env \<Rightarrow> uuid \<Rightarrow> CallEndReason \<Rightarrow> bool call_handler" where
  "EndWithReasonIfNotEnded env cid reason =
     endCallAndDisconnect env cid (\<lambda>st. st \<noteq> CallStatusEnded) (Some reason) ParticipantLeftReasonTimeout"

definition CancelRingingWithReason :: "call_env \<Rightarrow> uuid \<Rightarrow> CallEndReason \<Rightarrow> bool call_handler" where
  "CancelRingingWithReason env cid reason =
     endCallAndDisconnect env cid (\<lambda>st. st = CallStatusRinging) (Some reason) ParticipantLeftReasonMissed"

definition SetFeaturedShareUserID :: "call_env \<Rightarrow> uuid \<Rightarrow> uuid option \<Rightarrow> unit call_handler" where
  "SetFeaturedShareUserID env cid userID =
     repo_exec env ''CallRepo.SetFeaturedShareUserID'' [cid] ''postgres: set call featured_share_user_id''
       (\<lambda>db. (Inr (), update_call_row cid (\<lambda>c. c\<lparr>Call_FeaturedShareUserID := userID\<rparr>) db))"

definition SetPinnedParticipantUserID :: "call_env \<Rightarrow> uuid \<Rightarrow> uuid option \<Rightarrow> unit call_handler" where
  "SetPinnedParticipantUserID env cid userID =
     repo_exec env ''CallRepo.SetPinnedParticipantUserID'' [cid] ''postgres: set call pinned_participant_user_id''
       (\<lambda>db. (Inr (), update_call_row cid (\<lambda>c. c\<lparr>Call_PinnedParticipantUserID := userID\<rparr>) db))"

subsection \<open>Participants\<close>

text \<open>The unique indexes are the primary key and (call, user); the call must exist.\<close>

definition participant_conflict :: "CallParticipant \<Rightarrow> call_db \<Rightarrow> bool" where
  "participant_conflict p db =
     (\<exists>q \<in> set (db_parts db). CP_ID q = CP_ID p \<or> (CP_CallID q = CP_CallID p \<and> CP_UserID q = CP_UserID p))"

definition AddParticipant :: "call_env \<Rightarrow> CallParticipant \<Rightarrow> unit call_handler" where
  "AddParticipant env p =
     repo_exec env ''CallRepo.AddParticipant'' [CP_CallID p, CP_UserID p] ''postgres: add call participant''
       (\<lambda>db. if participant_conflict p db then (Inl (AlreadyExists ''participant already in call''), db)
             else if \<not> call_exists (CP_CallID p) db
             then (Inl (Wrapf ''postgres: add call participant'' (Opaque ''23503'')), db)
             else (Inr (), db\<lparr>db_parts := db_parts db @ [p\<lparr>CP_BreakoutRoomID := None\<rparr>]\<rparr>))"

definition in_media :: "CallParticipant \<Rightarrow> bool" where
  "in_media p = (CP_Status p = ParticipantStatusConnected \<or> CP_Status p = ParticipantStatusJoining)"

definition AddParticipantIfCapacity :: "call_env \<Rightarrow> CallParticipant \<Rightarrow> int \<Rightarrow> unit call_handler" where
  "AddParticipantIfCapacity env p maxParticipants =
     repo_exec env ''CallRepo.AddParticipantIfCapacity'' [CP_CallID p, CP_UserID p]
       ''postgres: add participant with capacity check''
       (\<lambda>db. if \<not> int (count_where (\<lambda>q. CP_CallID q = CP_CallID p \<and> in_media q) (db_parts db)) < maxParticipants
             then (Inl (Forbidden ''call has reached maximum participant capacity''), db)
             else if participant_conflict p db then (Inl (AlreadyExists ''participant already in call''), db)
             else if \<not> call_exists (CP_CallID p) db
             then (Inl (Wrapf ''postgres: add participant with capacity check'' (Opaque ''23503'')), db)
             else (Inr (), db\<lparr>db_parts := db_parts db @ [p\<lparr>CP_BreakoutRoomID := None\<rparr>]\<rparr>))"

definition GetParticipant :: "call_env \<Rightarrow> uuid \<Rightarrow> uuid \<Rightarrow> call_state \<Rightarrow> go_error + CallParticipant" where
  "GetParticipant env callID userID =
     repo_query env ''CallRepo.GetParticipant'' [callID, userID] ''postgres: get call participant''
       (\<lambda>db. case find (\<lambda>p. CP_CallID p = callID \<and> CP_UserID p = userID) (db_parts db) of
               None \<Rightarrow> Inl (NotFound ''call participant not found'')
             | Some p \<Rightarrow> Inr p)"

text \<open>
  The \<open>is_guest\<close> column of the two participant reads: an unexpired guest grant in the call's
  workspace and no membership.
\<close>

definition participant_IsGuest :: "call_env \<Rightarrow> Call \<Rightarrow> CallParticipant \<Rightarrow> bool" where
  "participant_IsGuest env call p =
     ((\<exists>g \<in> set (d_guest_grants (e_dir env)). GG_UserID g = CP_UserID p \<and>
          GG_WorkspaceID g = Call_WorkspaceID call \<and> GG_ExpiresAt g > now_of env) \<and>
      \<not> (\<exists>m \<in> set (d_members (e_dir env)). WM_WorkspaceID m = Call_WorkspaceID call \<and> WM_UserID m = CP_UserID p))"

text \<open>\<open>ORDER BY joined_at\<close>: ascending, nulls last.\<close>

definition joined_key :: "CallParticipant \<Rightarrow> nat \<times> int" where
  "joined_key p = (case CP_JoinedAt p of Some t \<Rightarrow> (0, t) | None \<Rightarrow> (1, 0))"

definition ListParticipants :: "call_env \<Rightarrow> uuid \<Rightarrow> call_state \<Rightarrow> go_error + CallParticipant list" where
  "ListParticipants env callID =
     repo_query env ''CallRepo.ListParticipants'' [callID] ''postgres: list call participants''
       (\<lambda>db. Inr (sort_key joined_key (filter (\<lambda>p. CP_CallID p = callID) (db_parts db))))"

text \<open>The \<open>CASE\<close> expressions of \<open>UpdateParticipantStatusWithReason\<close>.\<close>

definition set_participant_status :: "gotime \<Rightarrow> ParticipantStatus \<Rightarrow> ParticipantLeftReason option \<Rightarrow> CallParticipant \<Rightarrow> CallParticipant" where
  "set_participant_status now status leftReason p =
     p\<lparr>CP_Status := status,
       CP_JoinedAt := (if status = ParticipantStatusConnected \<and> CP_JoinedAt p = None then Some now else CP_JoinedAt p),
       CP_LeftAt := (if status = ParticipantStatusDisconnected \<and> CP_LeftAt p = None then Some now
                     else if status = ParticipantStatusConnected then None else CP_LeftAt p),
       CP_LeftReason := (if status = ParticipantStatusDisconnected then leftReason
                         else if status = ParticipantStatusConnected then None else CP_LeftReason p)\<rparr>"

text \<open>\<open>UPDATE call_participants SET f WHERE id = $1 AND P\<close> and its \<open>RowsAffected\<close> test.\<close>

definition part_matches :: "(CallParticipant \<Rightarrow> bool) \<Rightarrow> call_db \<Rightarrow> bool" where
  "part_matches P db = (\<exists>p \<in> set (db_parts db). P p)"

definition update_parts :: "(CallParticipant \<Rightarrow> bool) \<Rightarrow> (CallParticipant \<Rightarrow> CallParticipant) \<Rightarrow> call_db \<Rightarrow> call_db" where
  "update_parts P f db = db\<lparr>db_parts := upd_where P f (db_parts db)\<rparr>"

definition UpdateParticipantStatusWithReason :: "call_env \<Rightarrow> uuid \<Rightarrow> ParticipantStatus \<Rightarrow> ParticipantLeftReason option \<Rightarrow> unit call_handler" where
  "UpdateParticipantStatusWithReason env pid status leftReason =
     repo_exec env ''CallRepo.UpdateParticipantStatusWithReason'' [pid] ''postgres: update participant status''
       (\<lambda>db. if part_matches (\<lambda>p. CP_ID p = pid) db
             then (Inr (), update_parts (\<lambda>p. CP_ID p = pid) (set_participant_status (now_of env) status leftReason) db)
             else (Inl (NotFound ''call participant not found''), db))"

definition UpdateParticipantStatus :: "call_env \<Rightarrow> uuid \<Rightarrow> ParticipantStatus \<Rightarrow> unit call_handler" where
  "UpdateParticipantStatus env pid status = UpdateParticipantStatusWithReason env pid status None"

definition DisconnectParticipantIfConnectedWithReason :: "call_env \<Rightarrow> uuid \<Rightarrow> ParticipantLeftReason \<Rightarrow> bool call_handler" where
  "DisconnectParticipantIfConnectedWithReason env pid leftReason =
     repo_exec env ''CallRepo.DisconnectParticipantIfConnectedWithReason'' [pid]
       ''postgres: disconnect participant if connected''
       (\<lambda>db. if part_matches (\<lambda>p. CP_ID p = pid \<and> CP_Status p \<noteq> ParticipantStatusDisconnected) db
             then (Inr True, update_parts (\<lambda>p. CP_ID p = pid \<and> CP_Status p \<noteq> ParticipantStatusDisconnected)
                     (\<lambda>p. p\<lparr>CP_Status := ParticipantStatusDisconnected,
                            CP_LeftAt := coalesce (CP_LeftAt p) (Some (now_of env)),
                            CP_LeftReason := coalesce (CP_LeftReason p) (Some leftReason)\<rparr>) db)
             else if part_matches (\<lambda>p. CP_ID p = pid) db then (Inr False, db)
             else (Inl (NotFound ''call participant not found''), db))"

definition Calls_UpdateParticipantRole :: "call_env \<Rightarrow> uuid \<Rightarrow> CallRole \<Rightarrow> unit call_handler" where
  "Calls_UpdateParticipantRole env pid role =
     repo_exec env ''CallRepo.UpdateParticipantRole'' [pid] ''postgres: update participant role''
       (\<lambda>db. if part_matches (\<lambda>p. CP_ID p = pid \<and> CP_Role p \<noteq> CallRoleHost) db
             then (Inr (), update_parts (\<lambda>p. CP_ID p = pid \<and> CP_Role p \<noteq> CallRoleHost) (\<lambda>p. p\<lparr>CP_Role := role\<rparr>) db)
             else (Inl (NotFound ''call participant not found''), db))"

text \<open>
  \<open>CallRepo.TransferHost\<close> in its own transaction: the locked rows decide, then the host is
  demoted and the target promoted. When the two users coincide the scan loop's \<open>switch\<close> only
  takes its first case.
\<close>

definition Calls_TransferHost :: "call_env \<Rightarrow> uuid \<Rightarrow> uuid \<Rightarrow> uuid \<Rightarrow> bool call_handler" where
  "Calls_TransferHost env callID fromUserID toUserID =
     repo_exec env ''CallRepo.TransferHost'' [callID, fromUserID, toUserID] ''postgres: transfer host''
       (\<lambda>db. let fromIsHost = part_matches (\<lambda>p. CP_CallID p = callID \<and> CP_UserID p = fromUserID \<and>
                                CP_Role p = CallRoleHost) db;
                 targetEligible = part_matches (\<lambda>p. CP_CallID p = callID \<and> CP_UserID p = toUserID \<and>
                                toUserID \<noteq> fromUserID \<and> CP_Role p \<noteq> CallRoleHost \<and>
                                CP_Status p = ParticipantStatusConnected) db
             in if \<not> fromIsHost \<or> \<not> targetEligible then (Inr False, db)
                else (Inr True,
                      update_parts (\<lambda>p. CP_CallID p = callID \<and> CP_UserID p = toUserID) (\<lambda>p. p\<lparr>CP_Role := CallRoleHost\<rparr>)
                        (update_parts (\<lambda>p. CP_CallID p = callID \<and> CP_UserID p = fromUserID)
                           (\<lambda>p. p\<lparr>CP_Role := CallRoleParticipant\<rparr>) db)))"

definition UpdateParticipantMedia :: "call_env \<Rightarrow> uuid \<Rightarrow> bool \<Rightarrow> bool \<Rightarrow> bool \<Rightarrow> unit call_handler" where
  "UpdateParticipantMedia env pid audioMuted videoMuted screenSharing =
     repo_exec env ''CallRepo.UpdateParticipantMedia'' [pid] ''postgres: update participant media''
       (\<lambda>db. if part_matches (\<lambda>p. CP_ID p = pid) db
             then (Inr (), update_parts (\<lambda>p. CP_ID p = pid)
                     (\<lambda>p. p\<lparr>CP_AudioMuted := audioMuted, CP_VideoMuted := videoMuted, CP_ScreenSharing := screenSharing\<rparr>) db)
             else (Inl (NotFound ''call participant not found''), db))"

definition SetCanScreenShare :: "call_env \<Rightarrow> uuid \<Rightarrow> bool \<Rightarrow> unit call_handler" where
  "SetCanScreenShare env pid canShare =
     repo_exec env ''CallRepo.SetCanScreenShare'' [pid] ''postgres: set participant can_screen_share''
       (\<lambda>db. (Inr (), update_parts (\<lambda>p. CP_ID p = pid) (\<lambda>p. p\<lparr>CP_CanScreenShare := canShare\<rparr>) db))"

definition Calls_RemoveParticipant :: "call_env \<Rightarrow> uuid \<Rightarrow> uuid \<Rightarrow> unit call_handler" where
  "Calls_RemoveParticipant env callID userID =
     repo_exec env ''CallRepo.RemoveParticipant'' [callID, userID] ''postgres: remove call participant''
       (\<lambda>db. if part_matches (\<lambda>p. CP_CallID p = callID \<and> CP_UserID p = userID) db
             then (Inr (), db\<lparr>db_parts := filter (\<lambda>p. \<not> (CP_CallID p = callID \<and> CP_UserID p = userID)) (db_parts db)\<rparr>)
             else (Inl (NotFound ''call participant not found''), db))"

subsection \<open>Breakout rooms\<close>

text \<open>
  The insert loop inside the transaction; a duplicate id aborts it, and so does a time limit
  that the column \<open>time_limit int CHECK (time_limit >= 0)\<close> cannot hold.
\<close>

definition time_limit_fits :: "int option \<Rightarrow> bool" where
  "time_limit_fits t = (case t of None \<Rightarrow> True | Some n \<Rightarrow> 0 \<le> n \<and> n < 2 ^ 31)"

fun insert_rooms :: "BreakoutRoom list \<Rightarrow> BreakoutRoom list \<Rightarrow> BreakoutRoom list option" where
  "insert_rooms table [] = Some table"
| "insert_rooms table (r # rs) =
     (if (\<exists>q \<in> set table. BR_ID q = BR_ID r) \<or> \<not> time_limit_fits (BR_TimeLimit r) then None
      else insert_rooms (table @ [r]) rs)"

definition CreateRoomsWithinCap :: "call_env \<Rightarrow> uuid \<Rightarrow> int \<Rightarrow> BreakoutRoom list \<Rightarrow> unit call_handler" where
  "CreateRoomsWithinCap env callID maxRooms rooms =
     repo_exec env ''BreakoutRoomRepo.CreateRoomsWithinCap'' [callID] ''postgres: create breakout rooms within cap''
       (\<lambda>db. if int (count_where (\<lambda>r. BR_CallID r = callID \<and> BR_Status r = BreakoutRoomStatusActive) (db_rooms db)) +
                int (length rooms) > maxRooms
             then (Inl (InvalidInput ''breakout room limit reached''), db)
             else (case insert_rooms (db_rooms db) rooms of
                     None \<Rightarrow> (Inl (Wrapf ''postgres: create breakout room within cap'' (Opaque ''23505'')), db)
                   | Some table \<Rightarrow> (Inr (), db\<lparr>db_rooms := table\<rparr>)))"

definition Rooms_GetByID :: "call_env \<Rightarrow> uuid \<Rightarrow> call_state \<Rightarrow> go_error + BreakoutRoom" where
  "Rooms_GetByID env rid =
     repo_query env ''BreakoutRoomRepo.GetByID'' [rid] ''postgres: get breakout room''
       (\<lambda>db. case find (\<lambda>r. BR_ID r = rid) (db_rooms db) of
               None \<Rightarrow> Inl (NotFound ''breakout room not found'')
             | Some r \<Rightarrow> Inr r)"

definition Rooms_ListByCall :: "call_env \<Rightarrow> uuid \<Rightarrow> call_state \<Rightarrow> go_error + BreakoutRoom list" where
  "Rooms_ListByCall env callID =
     repo_query env ''BreakoutRoomRepo.ListByCall'' [callID] ''postgres: list breakout rooms''
       (\<lambda>db. Inr (sort_key BR_CreatedAt (filter (\<lambda>r. BR_CallID r = callID) (db_rooms db))))"

text \<open>\<open>SELECT DISTINCT call_id ... LIMIT\<close>: the rows come in table order.\<close>

definition ListCallsWithExpiredActiveBreakouts :: "call_env \<Rightarrow> gotime \<Rightarrow> int \<Rightarrow> call_state \<Rightarrow> go_error + uuid list" where
  "ListCallsWithExpiredActiveBreakouts env before limit =
     repo_query env ''BreakoutRoomRepo.ListCallsWithExpiredActiveBreakouts'' []
       ''postgres: list calls with expired active breakouts''
       (\<lambda>db. Inr (take (nat limit) (dedup_seen id [] (map BR_CallID
          (filter (\<lambda>r. BR_Status r = BreakoutRoomStatusActive \<and>
                       (case BR_ClosesAt r of None \<Rightarrow> False | Some t \<Rightarrow> t \<le> before)) (db_rooms db))))))"

definition close_rooms :: "gotime \<Rightarrow> (BreakoutRoom \<Rightarrow> bool) \<Rightarrow> call_db \<Rightarrow> call_db" where
  "close_rooms now P db =
     db\<lparr>db_rooms := upd_where (\<lambda>r. P r \<and> BR_Status r = BreakoutRoomStatusActive)
          (\<lambda>r. r\<lparr>BR_Status := BreakoutRoomStatusClosed, BR_ClosedAt := Some now\<rparr>) (db_rooms db)\<rparr>"

definition Rooms_Close :: "call_env \<Rightarrow> uuid \<Rightarrow> unit call_handler" where
  "Rooms_Close env rid =
     repo_exec env ''BreakoutRoomRepo.Close'' [rid] ''postgres: close breakout room''
       (\<lambda>db. if \<exists>r \<in> set (db_rooms db). BR_ID r = rid \<and> BR_Status r = BreakoutRoomStatusActive
             then (Inr (), close_rooms (now_of env) (\<lambda>r. BR_ID r = rid) db)
             else (Inl (NotFound ''breakout room not found or already closed''), db))"

definition Rooms_CloseAllByCall :: "call_env \<Rightarrow> uuid \<Rightarrow> unit call_handler" where
  "Rooms_CloseAllByCall env callID =
     repo_exec env ''BreakoutRoomRepo.CloseAllByCall'' [callID] ''postgres: close all breakout rooms''
       (\<lambda>db. (Inr (), close_rooms (now_of env) (\<lambda>r. BR_CallID r = callID) db))"

definition AssignParticipant :: "call_env \<Rightarrow> uuid \<Rightarrow> uuid \<Rightarrow> uuid \<Rightarrow> unit call_handler" where
  "AssignParticipant env callID userID breakoutRoomID =
     repo_exec env ''BreakoutRoomRepo.AssignParticipant'' [callID, userID, breakoutRoomID]
       ''postgres: assign participant to breakout room''
       (\<lambda>db. if part_matches (\<lambda>p. CP_CallID p = callID \<and> CP_UserID p = userID \<and> in_media p) db
             then (Inr (), update_parts (\<lambda>p. CP_CallID p = callID \<and> CP_UserID p = userID \<and> in_media p)
                     (\<lambda>p. p\<lparr>CP_BreakoutRoomID := Some breakoutRoomID\<rparr>) db)
             else (Inl (NotFound ''active participant not found in call''), db))"

definition UnassignParticipant :: "call_env \<Rightarrow> uuid \<Rightarrow> uuid \<Rightarrow> unit call_handler" where
  "UnassignParticipant env callID userID =
     repo_exec env ''BreakoutRoomRepo.UnassignParticipant'' [callID, userID]
       ''postgres: unassign participant from breakout room''
       (\<lambda>db. if part_matches (\<lambda>p. CP_CallID p = callID \<and> CP_UserID p = userID) db
             then (Inr (), update_parts (\<lambda>p. CP_CallID p = callID \<and> CP_UserID p = userID)
                     (\<lambda>p. p\<lparr>CP_BreakoutRoomID := None\<rparr>) db)
             else (Inl (NotFound ''participant not found in call''), db))"

definition UnassignAllByRoom :: "call_env \<Rightarrow> uuid \<Rightarrow> unit call_handler" where
  "UnassignAllByRoom env breakoutRoomID =
     repo_exec env ''BreakoutRoomRepo.UnassignAllByRoom'' [breakoutRoomID]
       ''postgres: unassign all participants from breakout room''
       (\<lambda>db. (Inr (), update_parts (\<lambda>p. CP_BreakoutRoomID p = Some breakoutRoomID)
                (\<lambda>p. p\<lparr>CP_BreakoutRoomID := None\<rparr>) db))"

definition Rooms_ListParticipants :: "call_env \<Rightarrow> uuid \<Rightarrow> call_state \<Rightarrow> go_error + CallParticipant list" where
  "Rooms_ListParticipants env breakoutRoomID =
     repo_query env ''BreakoutRoomRepo.ListParticipants'' [breakoutRoomID] ''postgres: list breakout room participants''
       (\<lambda>db. Inr (sort_key joined_key
          (filter (\<lambda>p. CP_BreakoutRoomID p = Some breakoutRoomID \<and> in_media p) (db_parts db))))"

subsection \<open>Outbox and chat messages\<close>

text \<open>\<open>EnqueueRealtime\<close>: a nil realtime repository drops the event silently.\<close>

definition EnqueueRealtime :: "call_env \<Rightarrow> Event \<Rightarrow> unit call_handler" where
  "EnqueueRealtime env evt =
     (if \<not> e_realtime env then returnM ()
      else repo_exec env ''RealtimeRepo.Enqueue'' [Ev_UserID evt] ''postgres: enqueue realtime event''
             (\<lambda>db. (Inr (), db\<lparr>db_outbox := db_outbox db @
                [\<lparr>ob_Event = evt, ob_Replayable = Def_Replayable (DefinitionForType (Ev_Type evt))\<rparr>]\<rparr>)))"

definition Messages_Create :: "call_env \<Rightarrow> Message \<Rightarrow> unit call_handler" where
  "Messages_Create env msg =
     repo_exec env ''MessageRepo.Create'' [Msg_ID msg] ''postgres: create message''
       (\<lambda>db. if \<exists>m \<in> set (db_messages db). Msg_ID m = Msg_ID msg
             then (Inl (Wrapf ''postgres: create message'' (Opaque ''23505'')), db)
             else (Inr (), db\<lparr>db_messages := db_messages db @ [msg]\<rparr>))"

end
