(* ===== verification/CallSpec.thy ===== *)
theory CallSpec
  imports CallRepo
begin

text \<open>
  The specification of the call lifecycle: what the service may ever do to the status of a call
  and to the role and status of its participants, as a step relation on two maps, the
  invariants it keeps, and the abstraction function from the tables. The repository operations
  are shown to be runs of this relation here; the handlers in the following theories.
\<close>

subsection \<open>The step relation\<close>

record roster =
  ro_status :: "uuid \<rightharpoonup> CallStatus"
  ro_parts :: "uuid \<times> uuid \<rightharpoonup> CallRole \<times> ParticipantStatus"

definition hangup :: "uuid \<Rightarrow> (uuid \<times> uuid \<rightharpoonup> CallRole \<times> ParticipantStatus) \<Rightarrow> (uuid \<times> uuid \<rightharpoonup> CallRole \<times> ParticipantStatus)" where
  "hangup cid ps = (\<lambda>(c, u). case ps (c, u) of
     None \<Rightarrow> None
   | Some (role, st) \<Rightarrow> Some (role, if c = cid \<and> live_status st then ParticipantStatusDisconnected else st))"

inductive call_step :: "roster \<Rightarrow> roster \<Rightarrow> bool" where
  create: "ro_status r cid = None \<Longrightarrow>
     call_step r (r\<lparr>ro_status := (ro_status r)(cid \<mapsto> CallStatusRinging)\<rparr>)"
| activate: "ro_status r cid = Some CallStatusRinging \<Longrightarrow>
     call_step r (r\<lparr>ro_status := (ro_status r)(cid \<mapsto> CallStatusActive)\<rparr>)"
| finish: "ro_status r cid = Some st \<Longrightarrow> st \<noteq> CallStatusEnded \<Longrightarrow>
     call_step r (r\<lparr>ro_status := (ro_status r)(cid \<mapsto> CallStatusEnded), ro_parts := hangup cid (ro_parts r)\<rparr>)"
| enter: "ro_status r cid = Some st \<Longrightarrow> (live_status ps \<Longrightarrow> st \<noteq> CallStatusEnded) \<Longrightarrow>
     ro_parts r (cid, u) = None \<Longrightarrow>
     (role = CallRoleHost \<Longrightarrow> \<forall>v. ro_parts r (cid, v) = None) \<Longrightarrow>
     call_step r (r\<lparr>ro_parts := (ro_parts r)((cid, u) \<mapsto> (role, ps))\<rparr>)"
| move: "ro_parts r (cid, u) = Some (role, ps) \<Longrightarrow>
     (live_status ps' \<Longrightarrow> ro_status r cid \<noteq> Some CallStatusEnded) \<Longrightarrow>
     call_step r (r\<lparr>ro_parts := (ro_parts r)((cid, u) \<mapsto> (role, ps'))\<rparr>)"
| change_role: "ro_parts r (cid, u) = Some (role, ps) \<Longrightarrow> role \<noteq> CallRoleHost \<Longrightarrow> role' \<noteq> CallRoleHost \<Longrightarrow>
     call_step r (r\<lparr>ro_parts := (ro_parts r)((cid, u) \<mapsto> (role', ps))\<rparr>)"
| transfer: "ro_parts r (cid, u) = Some (CallRoleHost, ps) \<Longrightarrow>
     ro_parts r (cid, v) = Some (role, ParticipantStatusConnected) \<Longrightarrow> role \<noteq> CallRoleHost \<Longrightarrow>
     call_step r (r\<lparr>ro_parts := (ro_parts r)((cid, u) \<mapsto> (CallRoleParticipant, ps),
                                               (cid, v) \<mapsto> (CallRoleHost, ParticipantStatusConnected))\<rparr>)"
| drop: "call_step r (r\<lparr>ro_parts := (ro_parts r)((cid, u) := None)\<rparr>)"

inductive_cases call_stepE: "call_step r r'"

text \<open>The invariants: a single host, no live participant in an ended call, no orphans.\<close>

definition single_host :: "roster \<Rightarrow> bool" where
  "single_host r \<longleftrightarrow> (\<forall>c u v ps qs.
     ro_parts r (c, u) = Some (CallRoleHost, ps) \<longrightarrow> ro_parts r (c, v) = Some (CallRoleHost, qs) \<longrightarrow> u = v)"

lemma single_hostD:
  "single_host r \<Longrightarrow> ro_parts r (c, u) = Some (CallRoleHost, ps) \<Longrightarrow> ro_parts r (c, v) = Some (CallRoleHost, qs) \<Longrightarrow> u = v"
  unfolding single_host_def by blast

definition no_zombies :: "roster \<Rightarrow> bool" where
  "no_zombies r \<longleftrightarrow> (\<forall>c u role ps.
     ro_status r c = Some CallStatusEnded \<longrightarrow> ro_parts r (c, u) = Some (role, ps) \<longrightarrow> \<not> live_status ps)"

definition no_orphans :: "roster \<Rightarrow> bool" where
  "no_orphans r \<longleftrightarrow> (\<forall>c u. ro_parts r (c, u) \<noteq> None \<longrightarrow> ro_status r c \<noteq> None)"

text \<open>
  The interface between the step relation and its clients: a predicate that every step keeps
  holds after every run.
\<close>

locale step_invariant =
  fixes I :: "roster \<Rightarrow> bool"
  assumes step: "call_step r r' \<Longrightarrow> I r \<Longrightarrow> I r'"
begin

lemma run: "call_step\<^sup>*\<^sup>* r r' \<Longrightarrow> I r \<Longrightarrow> I r'"
  by (induction rule: rtranclp_induct) (auto intro: step)

end

lemma hangup_Some:
  "hangup cid ps (c, u) = Some (role, st) \<longleftrightarrow>
   (\<exists>st0. ps (c, u) = Some (role, st0) \<and>
      st = (if c = cid \<and> live_status st0 then ParticipantStatusDisconnected else st0))"
  by (auto simp: hangup_def split: option.splits)

lemma hangup_None [simp]: "hangup cid ps (c, u) = None \<longleftrightarrow> ps (c, u) = None"
  by (auto simp: hangup_def split: option.splits)

lemma not_live_disconnected [simp]: "\<not> live_status ParticipantStatusDisconnected"
  by (simp add: live_status_def)

interpretation host_inv: step_invariant single_host
  by unfold_locales
    (erule call_stepE; fastforce simp: single_host_def hangup_Some split: if_splits)

interpretation orphan_inv: step_invariant no_orphans
  by unfold_locales
    (erule call_stepE; fastforce simp: no_orphans_def split: if_splits)

interpretation zombie_inv: step_invariant "\<lambda>r. no_zombies r \<and> no_orphans r"
proof
  fix r r' assume st: "call_step r r'" and I: "no_zombies r \<and> no_orphans r"
  from st I have "no_zombies r'"
    by cases (fastforce simp: no_zombies_def no_orphans_def hangup_Some live_status_def split: if_splits)+
  with orphan_inv.step [OF st] I show "no_zombies r' \<and> no_orphans r'" by blast
qed

text \<open>Status only moves forward: ringing, active, ended.\<close>

fun status_rank :: "CallStatus \<Rightarrow> nat" where
  "status_rank CallStatusRinging = 0"
| "status_rank CallStatusActive = 1"
| "status_rank CallStatusEnded = 2"

lemma call_step_status_mono:
  "call_step r r' \<Longrightarrow> ro_status r c = Some st \<Longrightarrow>
   \<exists>st'. ro_status r' c = Some st' \<and> status_rank st \<le> status_rank st'"
  by (erule call_stepE) (auto; (case_tac st; simp))+

lemma call_run_status_mono:
  "call_step\<^sup>*\<^sup>* r r' \<Longrightarrow> ro_status r c = Some st \<Longrightarrow>
   \<exists>st'. ro_status r' c = Some st' \<and> status_rank st \<le> status_rank st'"
proof (induction rule: rtranclp_induct)
  case base
  then show ?case by auto
next
  case (step y z)
  then show ?case by (meson call_step_status_mono le_trans)
qed

lemma call_run_ended_terminal:
  assumes "call_step\<^sup>*\<^sup>* r r'" and "ro_status r c = Some CallStatusEnded"
  shows "ro_status r' c = Some CallStatusEnded"
proof -
  obtain st' where "ro_status r' c = Some st'" "2 \<le> status_rank st'"
    using call_run_status_mono [OF assms] by auto
  then show ?thesis by (cases st') auto
qed

subsection \<open>The abstraction\<close>

definition status_of :: "call_db \<Rightarrow> uuid \<rightharpoonup> CallStatus" where
  "status_of db cid = map_option Call_Status (find (\<lambda>c. Call_ID c = cid) (db_calls db))"

definition part_of :: "call_db \<Rightarrow> uuid \<times> uuid \<rightharpoonup> CallRole \<times> ParticipantStatus" where
  "part_of db = (\<lambda>(c, u). map_option (\<lambda>p. (CP_Role p, CP_Status p))
     (find (\<lambda>p. CP_CallID p = c \<and> CP_UserID p = u) (db_parts db)))"

definition roster_of :: "call_db \<Rightarrow> roster" where
  "roster_of db = \<lparr>ro_status = status_of db, ro_parts = part_of db\<rparr>"

text \<open>The keys of the two tables, and the invariants on the abstraction.\<close>

definition part_key :: "CallParticipant \<Rightarrow> uuid \<times> uuid" where
  "part_key p = (CP_CallID p, CP_UserID p)"

definition keys_ok :: "call_db \<Rightarrow> bool" where
  "keys_ok db \<longleftrightarrow> distinct (map Call_ID (db_calls db)) \<and> distinct (map CP_ID (db_parts db)) \<and>
     distinct (map part_key (db_parts db))"

definition call_ok :: "call_db \<Rightarrow> bool" where
  "call_ok db \<longleftrightarrow> keys_ok db \<and> single_host (roster_of db) \<and> no_zombies (roster_of db) \<and> no_orphans (roster_of db)"

text \<open>
  The simulation: from a well-formed database the service leads to a well-formed one, and what
  happened in between is a run of the specification.
\<close>

definition sim :: "call_state \<Rightarrow> call_state \<Rightarrow> bool" where
  "sim s s' \<longleftrightarrow> (call_ok (st_db s) \<longrightarrow>
     call_ok (st_db s') \<and> call_step\<^sup>*\<^sup>* (roster_of (st_db s)) (roster_of (st_db s')))"

interpretation sim: run_relation sim
  by unfold_locales (auto simp: sim_def)

definition core :: "call_state \<Rightarrow> Call list \<times> CallParticipant list" where
  "core s = (db_calls (st_db s), db_parts (st_db s))"

lemma core_eq_roster:
  assumes "core s' = core s"
  shows "roster_of (st_db s') = roster_of (st_db s)" "call_ok (st_db s') = call_ok (st_db s)"
proof -
  have c: "db_calls (st_db s') = db_calls (st_db s)" "db_parts (st_db s') = db_parts (st_db s)"
    using assms by (simp_all add: core_def)
  then show a: "roster_of (st_db s') = roster_of (st_db s)"
    unfolding roster_of_def status_of_def part_of_def by (simp add: fun_eq_iff)
  with c show "call_ok (st_db s') = call_ok (st_db s)" by (simp add: call_ok_def keys_ok_def)
qed

lemma sim_core: "core s' = core s \<Longrightarrow> sim s s'"
  using core_eq_roster [of s' s] by (simp add: sim_def)

text \<open>An update of the tables that amounts to one step of the specification.\<close>

lemma sim_step:
  assumes "call_ok (st_db s) \<Longrightarrow> keys_ok (st_db s')"
    and "call_ok (st_db s) \<Longrightarrow> call_step (roster_of (st_db s)) (roster_of (st_db s'))"
  shows "sim s s'"
  unfolding sim_def
proof (intro impI conjI)
  assume ok: "call_ok (st_db s)"
  note st = assms(2) [OF ok]
  from ok have "single_host (roster_of (st_db s))" "no_zombies (roster_of (st_db s)) \<and> no_orphans (roster_of (st_db s))"
    by (simp_all add: call_ok_def)
  with host_inv.step [OF st] zombie_inv.step [OF st] assms(1) [OF ok]
  show "call_ok (st_db s')" by (simp add: call_ok_def)
  from st show "call_step\<^sup>*\<^sup>* (roster_of (st_db s)) (roster_of (st_db s'))" by blast
qed


subsection \<open>Single-row updates\<close>

text \<open>Updates that keep the keys of the participants table.\<close>

definition keeps_keys :: "(CallParticipant \<Rightarrow> CallParticipant) \<Rightarrow> bool" where
  "keeps_keys f \<longleftrightarrow> (\<forall>p. CP_ID (f p) = CP_ID p \<and> CP_CallID (f p) = CP_CallID p \<and> CP_UserID (f p) = CP_UserID p)"

lemma keeps_keys_part_key: "keeps_keys f \<Longrightarrow> part_key (f p) = part_key p"
  by (simp add: keeps_keys_def part_key_def)

lemma keys_ok_update_parts: "keeps_keys f \<Longrightarrow> keys_ok (update_parts P f db) = keys_ok db"
  by (simp add: keys_ok_def update_parts_def map_upd_where keeps_keys_part_key keeps_keys_def)

lemma status_of_update_parts [simp]: "status_of (update_parts P f db) = status_of db"
  by (simp add: fun_eq_iff status_of_def update_parts_def)

lemma part_of_update_parts:
  "keeps_keys f \<Longrightarrow> part_of (update_parts P f db) (c, u) =
     map_option (\<lambda>p. let p' = (if P p then f p else p) in (CP_Role p', CP_Status p'))
       (find (\<lambda>p. CP_CallID p = c \<and> CP_UserID p = u) (db_parts db))"
  by (simp add: part_of_def update_parts_def find_upd_where keeps_keys_def option.map_comp comp_def Let_def
      split del: if_split)

lemma part_of_apply:
  "part_of db (c, u) = map_option (\<lambda>p. (CP_Role p, CP_Status p))
     (find (\<lambda>p. CP_CallID p = c \<and> CP_UserID p = u) (db_parts db))"
  by (simp add: part_of_def)

lemma part_of_SomeD:
  "part_of db (c, u) = Some (role, st) \<Longrightarrow>
   \<exists>p \<in> set (db_parts db). CP_CallID p = c \<and> CP_UserID p = u \<and> CP_Role p = role \<and> CP_Status p = st"
  by (auto simp: part_of_def dest: find_SomeD)

lemma part_of_None: "part_of db (c, u) = None \<longleftrightarrow> (\<forall>p \<in> set (db_parts db). part_key p \<noteq> (c, u))"
  by (auto simp: part_of_def find_None_iff' part_key_def)

lemma find_part:
  assumes "keys_ok db" and "p \<in> set (db_parts db)"
  shows "find (\<lambda>q. CP_CallID q = CP_CallID p \<and> CP_UserID q = CP_UserID p) (db_parts db) = Some p"
proof -
  have "find (\<lambda>q. part_key q = part_key p) (db_parts db) = Some p"
    using assms by (intro find_unique) (simp_all add: keys_ok_def)
  then show ?thesis by (simp add: part_key_def)
qed

lemma part_of_row:
  "keys_ok db \<Longrightarrow> p \<in> set (db_parts db) \<Longrightarrow>
   part_of db (CP_CallID p, CP_UserID p) = Some (CP_Role p, CP_Status p)"
  by (simp add: part_of_def find_part)

lemma same_id_row:
  "keys_ok db \<Longrightarrow> p \<in> set (db_parts db) \<Longrightarrow> q \<in> set (db_parts db) \<Longrightarrow> CP_ID p = CP_ID q \<Longrightarrow> p = q"
  by (auto simp: keys_ok_def dest: distinct_key_eq)

lemma same_key_row:
  "keys_ok db \<Longrightarrow> p \<in> set (db_parts db) \<Longrightarrow> q \<in> set (db_parts db) \<Longrightarrow>
   CP_CallID p = CP_CallID q \<Longrightarrow> CP_UserID p = CP_UserID q \<Longrightarrow> p = q"
  unfolding keys_ok_def part_key_def by (auto dest: distinct_key_eq)

lemma find_upd_row:
  assumes "keys_ok db" and "p \<in> set (db_parts db)" and "P p"
    and "\<And>q. q \<in> set (db_parts db) \<Longrightarrow> P q \<Longrightarrow> q = p" and "keeps_keys f"
  shows "part_of (update_parts P f db) =
    (part_of db)((CP_CallID p, CP_UserID p) \<mapsto> (CP_Role (f p), CP_Status (f p)))"
proof (rule ext, rule prod.induct)
  fix c u
  show "part_of (update_parts P f db) (c, u) =
    ((part_of db)((CP_CallID p, CP_UserID p) \<mapsto> (CP_Role (f p), CP_Status (f p)))) (c, u)"
  proof (cases "c = CP_CallID p \<and> u = CP_UserID p")
    case True
    with assms(1-3,5) show ?thesis by (simp add: part_of_update_parts find_part Let_def)
  next
    case False
    have "\<not> P q" if "find (\<lambda>p. CP_CallID p = c \<and> CP_UserID p = u) (db_parts db) = Some q" for q
      using find_SomeD [OF that] assms(4) [of q] False by auto
    then show ?thesis
      using False assms(5)
      by (cases "find (\<lambda>p. CP_CallID p = c \<and> CP_UserID p = u) (db_parts db)")
        (auto simp: part_of_update_parts part_of_apply [of db])
  qed
qed

lemma part_of_same:
  assumes "keeps_keys f"
    and "\<And>q. q \<in> set (db_parts db) \<Longrightarrow> P q \<Longrightarrow> CP_Role (f q) = CP_Role q \<and> CP_Status (f q) = CP_Status q"
  shows "part_of (update_parts P f db) = part_of db"
proof (rule ext, rule prod.induct)
  fix c u
  show "part_of (update_parts P f db) (c, u) = part_of db (c, u)"
    using assms
    by (cases "find (\<lambda>p. CP_CallID p = c \<and> CP_UserID p = u) (db_parts db)")
      (auto simp: part_of_update_parts part_of_apply [of db] Let_def dest!: find_SomeD)
qed

lemma roster_update_parts_same:
  assumes "keeps_keys f"
    and "\<And>q. q \<in> set (db_parts db) \<Longrightarrow> P q \<Longrightarrow> CP_Role (f q) = CP_Role q \<and> CP_Status (f q) = CP_Status q"
  shows "roster_of (update_parts P f db) = roster_of db"
  using part_of_same [OF assms] by (simp add: roster_of_def fun_eq_iff)

lemma status_of_call:
  "keys_ok db \<Longrightarrow> c \<in> set (db_calls db) \<Longrightarrow> status_of db (Call_ID c) = Some (Call_Status c)"
  by (simp add: status_of_def keys_ok_def find_unique)

lemma status_of_SomeD:
  "status_of db cid = Some st \<Longrightarrow> \<exists>c \<in> set (db_calls db). Call_ID c = cid \<and> Call_Status c = st"
  by (auto simp: status_of_def dest: find_SomeD)

lemma status_of_None: "status_of db cid = None \<longleftrightarrow> \<not> call_exists cid db"
  by (auto simp: status_of_def find_None_iff' call_exists_def)

text \<open>An update of the row of one call.\<close>

lemma status_of_upd_calls:
  assumes "keys_ok db" and "c \<in> set (db_calls db)" and "P c"
    and "\<And>x. P x \<Longrightarrow> Call_ID x = Call_ID c" and "\<And>x. Call_ID (f x) = Call_ID x"
  shows "status_of (db\<lparr>db_calls := upd_where P f (db_calls db)\<rparr>) = (status_of db)(Call_ID c \<mapsto> Call_Status (f c))"
proof (rule ext)
  fix cid
  have f: "find (\<lambda>x. Call_ID x = cid) (upd_where P f (db_calls db)) =
    map_option (\<lambda>r. if P r then f r else r) (find (\<lambda>x. Call_ID x = cid) (db_calls db))"
    using assms(5) by (intro find_upd_where) simp
  show "status_of (db\<lparr>db_calls := upd_where P f (db_calls db)\<rparr>) cid =
    ((status_of db)(Call_ID c \<mapsto> Call_Status (f c))) cid"
  proof (cases "cid = Call_ID c")
    case True
    with assms(1-3) f show ?thesis by (simp add: status_of_def keys_ok_def find_unique)
  next
    case False
    have "\<not> P q" if "find (\<lambda>x. Call_ID x = cid) (db_calls db) = Some q" for q
      using find_SomeD [OF that] False assms(4) by auto
    with f False show ?thesis
      by (cases "find (\<lambda>x. Call_ID x = cid) (db_calls db)") (auto simp: status_of_def)
  qed
qed

lemma part_of_calls [simp]: "part_of (db\<lparr>db_calls := cs\<rparr>) = part_of db"
  by (simp add: part_of_def)

lemma status_of_other [simp]:
  "status_of (db\<lparr>db_parts := ps\<rparr>) = status_of db" "status_of (db\<lparr>db_outbox := os\<rparr>) = status_of db"
  "part_of (db\<lparr>db_outbox := os\<rparr>) = part_of db"
  by (simp_all add: status_of_def fun_eq_iff part_of_def)


subsection \<open>The repository operations are runs of the specification\<close>

lemma repo_exec_snd:
  "snd (repo_exec env op args wrap f s) =
     (case fault_of env op args of Some d \<Rightarrow> s | None \<Rightarrow> s\<lparr>st_db := snd (f (st_db s))\<rparr>)"
  by (auto simp: repo_exec_def split: option.splits prod.splits)

lemma sim_exec:
  assumes "sim s (s\<lparr>st_db := snd (f (st_db s))\<rparr>)"
  shows "sim s (snd (repo_exec env op args wrap f s))"
  using assms by (simp add: repo_exec_snd split: option.splits)

lemma sim_roster_same:
  assumes "keys_ok (st_db s) \<Longrightarrow> keys_ok (st_db s')"
    and "keys_ok (st_db s) \<Longrightarrow> roster_of (st_db s') = roster_of (st_db s)"
  shows "sim s s'"
  using assms by (simp add: sim_def call_ok_def)

named_theorems repo_sim \<open>the repository operations as runs of the specification\<close>

lemma keys_ok_upd_calls:
  "(\<And>x. Call_ID (f x) = Call_ID x) \<Longrightarrow>
   keys_ok (db\<lparr>db_calls := upd_where P f (db_calls db)\<rparr>) = keys_ok db"
  by (simp add: keys_ok_def map_upd_where)

text \<open>Updates of a call that leave its status alone.\<close>

lemma status_of_update_call_row:
  assumes "\<And>x. Call_ID (f x) = Call_ID x" and "\<And>x. Call_Status (f x) = Call_Status x"
  shows "status_of (update_call_row cid f db) = status_of db"
proof (rule ext)
  fix i
  have "find (\<lambda>x. Call_ID x = i) (upd_where (\<lambda>c. Call_ID c = cid) f (db_calls db)) =
    map_option (\<lambda>r. if Call_ID r = cid then f r else r) (find (\<lambda>x. Call_ID x = i) (db_calls db))"
    using assms(1) by (intro find_upd_where) simp
  with assms(2) show "status_of (update_call_row cid f db) i = status_of db i"
    by (cases "find (\<lambda>x. Call_ID x = i) (db_calls db)") (simp_all add: status_of_def update_call_row_def)
qed

lemma sim_update_call_row:
  assumes "\<And>x. Call_ID (f x) = Call_ID x" and "\<And>x. Call_Status (f x) = Call_Status x"
  shows "sim s (s\<lparr>st_db := update_call_row cid f (st_db s)\<rparr>)"
proof (rule sim_roster_same)
  show "keys_ok (st_db (s\<lparr>st_db := update_call_row cid f (st_db s)\<rparr>))" if "keys_ok (st_db s)"
    using that assms(1) by (simp add: update_call_row_def keys_ok_upd_calls)
  have "part_of (update_call_row cid f (st_db s)) = part_of (st_db s)"
    by (simp add: update_call_row_def)
  with status_of_update_call_row [OF assms, of cid "st_db s"]
  show "roster_of (st_db (s\<lparr>st_db := update_call_row cid f (st_db s)\<rparr>)) = roster_of (st_db s)"
    by (simp add: roster_of_def fun_eq_iff)
qed

lemma sim_id [simp]: "sim s (s\<lparr>st_db := st_db s\<rparr>)"
  by simp

lemma UpdateSettings_sim [repo_sim]: "sim s (snd (UpdateSettings env cid st s))"
  unfolding UpdateSettings_def by (rule sim_exec) (simp add: sim_update_call_row)

lemma UpdateAccessLevel_sim [repo_sim]: "sim s (snd (UpdateAccessLevel env cid lv s))"
  unfolding UpdateAccessLevel_def by (rule sim_exec) (simp add: sim_update_call_row)

lemma SetFeaturedShareUserID_sim [repo_sim]: "sim s (snd (SetFeaturedShareUserID env cid u s))"
  unfolding SetFeaturedShareUserID_def by (rule sim_exec) (simp add: sim_update_call_row)

lemma SetPinnedParticipantUserID_sim [repo_sim]: "sim s (snd (SetPinnedParticipantUserID env cid u s))"
  unfolding SetPinnedParticipantUserID_def by (rule sim_exec) (simp add: sim_update_call_row)

lemma Calls_Create_sim [repo_sim]:
  assumes "Call_Status call = CallStatusRinging"
  shows "sim s (snd (Calls_Create env call s))"
  unfolding Calls_Create_def
proof (rule sim_exec, simp, intro impI)
  assume fresh: "\<forall>c\<in>set (db_calls (st_db s)). Call_ID c \<noteq> Call_ID call"
  let ?db = "(st_db s)\<lparr>db_calls := db_calls (st_db s) @ [store_call call]\<rparr>"
  have sid: "Call_ID (store_call call) = Call_ID call" "Call_Status (store_call call) = CallStatusRinging"
    using assms by (simp_all add: store_call_def)
  show "sim s (s\<lparr>st_db := ?db\<rparr>)"
  proof (rule sim_step)
    assume "call_ok (st_db s)"
    with fresh sid show "keys_ok (st_db (s\<lparr>st_db := ?db\<rparr>))"
      by (auto simp: call_ok_def keys_ok_def)
    have "status_of ?db = (status_of (st_db s))(Call_ID call \<mapsto> CallStatusRinging)"
      using fresh sid
      by (auto simp: fun_eq_iff status_of_def find_append find_None_iff' split: option.splits dest: find_SomeD)
    then have "roster_of ?db = (roster_of (st_db s))\<lparr>ro_status := (ro_status (roster_of (st_db s)))(Call_ID call \<mapsto> CallStatusRinging)\<rparr>"
      by (simp add: roster_of_def fun_eq_iff)
    moreover have "ro_status (roster_of (st_db s)) (Call_ID call) = None"
      using fresh by (auto simp: roster_of_def status_of_def find_None_iff')
    ultimately show "call_step (roster_of (st_db s)) (roster_of (st_db (s\<lparr>st_db := ?db\<rparr>)))"
      using call_step.create by simp
  qed
qed

lemma ActivateRinging_sim [repo_sim]: "sim s (snd (ActivateRinging env cid s))"
  unfolding ActivateRinging_def
proof (rule sim_exec, simp, intro impI conjI)
  assume "\<exists>c\<in>set (db_calls (st_db s)). Call_ID c = cid \<and> Call_Status c = CallStatusRinging"
  then obtain c where c: "c \<in> set (db_calls (st_db s))" "Call_ID c = cid" "Call_Status c = CallStatusRinging"
    by blast
  let ?P = "\<lambda>c. Call_ID c = cid \<and> Call_Status c = CallStatusRinging"
  let ?f = "\<lambda>c. c\<lparr>Call_Status := CallStatusActive, Call_StartedAt := Some (now_of env)\<rparr>"
  let ?db = "(st_db s)\<lparr>db_calls := upd_where ?P ?f (db_calls (st_db s))\<rparr>"
  show "sim s (s\<lparr>st_db := ?db\<rparr>)"
  proof (rule sim_step)
    assume ok: "call_ok (st_db s)"
    then have k: "keys_ok (st_db s)" by (simp add: call_ok_def)
    then show "keys_ok (st_db (s\<lparr>st_db := ?db\<rparr>))" by (simp add: keys_ok_upd_calls)
    have "status_of ?db = (status_of (st_db s))(Call_ID c \<mapsto> Call_Status (?f c))"
      using k c by (intro status_of_upd_calls) auto
    then have "roster_of ?db = (roster_of (st_db s))\<lparr>ro_status := (ro_status (roster_of (st_db s)))(cid \<mapsto> CallStatusActive)\<rparr>"
      using c by (simp add: roster_of_def)
    moreover have "ro_status (roster_of (st_db s)) cid = Some CallStatusRinging"
      using status_of_call [OF k c(1)] c by (simp add: roster_of_def)
    ultimately show "call_step (roster_of (st_db s)) (roster_of (st_db (s\<lparr>st_db := ?db\<rparr>)))"
      using call_step.activate by simp
  qed
qed

text \<open>The end statement: the call's status and the hang-up of its live participants.\<close>

lemma part_of_end_call:
  "part_of (end_call_statement isOpen now cid reason pr db) = hangup cid (part_of db)"
proof (rule ext, rule prod.induct)
  fix c u
  let ?P = "\<lambda>p. CP_CallID p = cid \<and> live_status (CP_Status p)"
  let ?f = "\<lambda>p. p\<lparr>CP_Status := ParticipantStatusDisconnected, CP_LeftAt := coalesce (CP_LeftAt p) (Some now),
                 CP_LeftReason := coalesce (CP_LeftReason p) (Some pr)\<rparr>"
  have "find (\<lambda>p. CP_CallID p = c \<and> CP_UserID p = u) (upd_where ?P ?f (db_parts db)) =
    map_option (\<lambda>p. if ?P p then ?f p else p) (find (\<lambda>p. CP_CallID p = c \<and> CP_UserID p = u) (db_parts db))"
    by (intro find_upd_where) simp
  then have upd: "part_of (end_call_statement isOpen now cid reason pr db) (c, u) =
    map_option (\<lambda>p. (CP_Role p, CP_Status p)) (map_option (\<lambda>p. if ?P p then ?f p else p)
      (find (\<lambda>p. CP_CallID p = c \<and> CP_UserID p = u) (db_parts db)))"
    unfolding part_of_apply end_call_statement_def by simp
  show "part_of (end_call_statement isOpen now cid reason pr db) (c, u) = hangup cid (part_of db) (c, u)"
  proof (cases "find (\<lambda>p. CP_CallID p = c \<and> CP_UserID p = u) (db_parts db)")
    case None
    with upd show ?thesis by (simp add: hangup_def part_of_apply [of db])
  next
    case (Some p)
    with find_SomeD [OF Some] upd show ?thesis by (simp add: hangup_def part_of_apply [of db])
  qed
qed

lemma status_of_end_call:
  assumes "keys_ok db" and "c \<in> set (db_calls db)" and "Call_ID c = cid" and "isOpen (Call_Status c)"
  shows "status_of (end_call_statement isOpen now cid reason pr db) = (status_of db)(cid \<mapsto> CallStatusEnded)"
proof -
  let ?f = "\<lambda>c. c\<lparr>Call_Status := CallStatusEnded, Call_EndedAt := coalesce (Call_EndedAt c) (Some now),
                 Call_EndReason := coalesce (Call_EndReason c) reason\<rparr>"
  let ?P = "\<lambda>c. Call_ID c = cid \<and> isOpen (Call_Status c)"
  have "status_of (db\<lparr>db_calls := upd_where ?P ?f (db_calls db)\<rparr>) = (status_of db)(Call_ID c \<mapsto> Call_Status (?f c))"
    using assms by (intro status_of_upd_calls) auto
  with assms(3) show ?thesis by (simp add: status_of_def fun_eq_iff end_call_statement_def)
qed

lemma keys_ok_end_call: "keys_ok (end_call_statement isOpen now cid reason pr db) = keys_ok db"
  by (simp add: keys_ok_def end_call_statement_def map_upd_where part_key_def)

lemma endCallAndDisconnect_sim:
  assumes "\<And>st. isOpen st \<Longrightarrow> st \<noteq> CallStatusEnded"
  shows "sim s (snd (endCallAndDisconnect env cid isOpen reason pr s))"
  unfolding endCallAndDisconnect_def
proof (rule sim_exec, simp, intro impI conjI)
  assume "\<exists>c\<in>set (db_calls (st_db s)). Call_ID c = cid \<and> isOpen (Call_Status c)"
  then obtain c where c: "c \<in> set (db_calls (st_db s))" "Call_ID c = cid" "isOpen (Call_Status c)" by blast
  let ?db = "end_call_statement isOpen (now_of env) cid reason pr (st_db s)"
  show "sim s (s\<lparr>st_db := ?db\<rparr>)"
  proof (rule sim_step)
    assume "call_ok (st_db s)"
    then have k: "keys_ok (st_db s)" by (simp add: call_ok_def)
    then show "keys_ok (st_db (s\<lparr>st_db := ?db\<rparr>))" by (simp add: keys_ok_end_call)
    have "roster_of ?db = (roster_of (st_db s))\<lparr>ro_status := (ro_status (roster_of (st_db s)))(cid \<mapsto> CallStatusEnded),
        ro_parts := hangup cid (ro_parts (roster_of (st_db s)))\<rparr>"
      by (simp add: roster_of_def part_of_end_call status_of_end_call [where c = c, OF k c(1,2)] c(3))
    moreover have "ro_status (roster_of (st_db s)) cid = Some (Call_Status c)"
      using status_of_call [OF k c(1)] c by (simp add: roster_of_def)
    ultimately show "call_step (roster_of (st_db s)) (roster_of (st_db (s\<lparr>st_db := ?db\<rparr>)))"
      using call_step.finish assms [OF c(3)] by simp
  qed
qed

lemma EndWithReasonIfNotEnded_sim [repo_sim]: "sim s (snd (EndWithReasonIfNotEnded env cid reason s))"
  unfolding EndWithReasonIfNotEnded_def by (rule endCallAndDisconnect_sim) simp

lemma CancelRingingWithReason_sim [repo_sim]: "sim s (snd (CancelRingingWithReason env cid reason s))"
  unfolding CancelRingingWithReason_def by (rule endCallAndDisconnect_sim) simp


text \<open>Participants: an insert is an \<open>enter\<close> step, an update of one row a \<open>move\<close> or \<open>change_role\<close>.\<close>

lemma AddParticipant_sim:
  assumes "live_status (CP_Status p) \<Longrightarrow> status_of (st_db s) (CP_CallID p) \<noteq> Some CallStatusEnded"
    and "CP_Role p = CallRoleHost \<Longrightarrow> \<forall>q \<in> set (db_parts (st_db s)). CP_CallID q \<noteq> CP_CallID p"
  shows "sim s (snd (AddParticipant env p s))"
  unfolding AddParticipant_def
proof (rule sim_exec, simp, intro impI)
  assume nc: "\<not> participant_conflict p (st_db s)" and ex: "call_exists (CP_CallID p) (st_db s)"
  let ?p = "p\<lparr>CP_BreakoutRoomID := None\<rparr>"
  let ?db = "(st_db s)\<lparr>db_parts := db_parts (st_db s) @ [?p]\<rparr>"
  show "sim s (s\<lparr>st_db := ?db\<rparr>)"
  proof (rule sim_step)
    assume "call_ok (st_db s)"
    then have k: "keys_ok (st_db s)" by (simp add: call_ok_def)
    with nc show "keys_ok (st_db (s\<lparr>st_db := ?db\<rparr>))"
      by (auto simp: keys_ok_def participant_conflict_def part_key_def)
    have none: "part_of (st_db s) (CP_CallID p, CP_UserID p) = None"
      using nc by (auto simp: part_of_None participant_conflict_def part_key_def)
    have "part_of ?db = (part_of (st_db s))((CP_CallID p, CP_UserID p) \<mapsto> (CP_Role p, CP_Status p))"
      using nc
      by (auto simp: fun_eq_iff part_of_apply find_append find_None_iff' participant_conflict_def
          split: option.splits dest!: find_SomeD)
    then have r: "roster_of ?db = (roster_of (st_db s))\<lparr>ro_parts :=
        (ro_parts (roster_of (st_db s)))((CP_CallID p, CP_UserID p) \<mapsto> (CP_Role p, CP_Status p))\<rparr>"
      by (simp add: roster_of_def)
    obtain st where "status_of (st_db s) (CP_CallID p) = Some st"
      using ex by (metis not_None_eq status_of_None)
    then have "call_step (roster_of (st_db s)) ((roster_of (st_db s))\<lparr>ro_parts :=
        (ro_parts (roster_of (st_db s)))((CP_CallID p, CP_UserID p) \<mapsto> (CP_Role p, CP_Status p))\<rparr>)"
      using none assms
      by (intro call_step.enter [where st = st]) (auto simp: roster_of_def part_of_None part_key_def)
    with r show "call_step (roster_of (st_db s)) (roster_of (st_db (s\<lparr>st_db := ?db\<rparr>)))" by simp
  qed
qed

lemma sim_update_status_row:
  assumes "keeps_keys f" and "\<And>q. CP_Role (f q) = CP_Role q"
    and "p \<in> set (db_parts (st_db s))" and "P p"
    and "keys_ok (st_db s) \<Longrightarrow> \<forall>q \<in> set (db_parts (st_db s)). P q \<longrightarrow> q = p"
    and "live_status (CP_Status (f p)) \<Longrightarrow> status_of (st_db s) (CP_CallID p) \<noteq> Some CallStatusEnded"
  shows "sim s (s\<lparr>st_db := update_parts P f (st_db s)\<rparr>)"
proof (rule sim_step)
  assume "call_ok (st_db s)"
  then have k: "keys_ok (st_db s)" by (simp add: call_ok_def)
  with assms(1) show "keys_ok (st_db (s\<lparr>st_db := update_parts P f (st_db s)\<rparr>))"
    by (simp add: keys_ok_update_parts)
  have u: "\<And>q. q \<in> set (db_parts (st_db s)) \<Longrightarrow> P q \<Longrightarrow> q = p" using assms(5) [OF k] by blast
  have "part_of (update_parts P f (st_db s)) =
    (part_of (st_db s))((CP_CallID p, CP_UserID p) \<mapsto> (CP_Role (f p), CP_Status (f p)))"
    by (rule find_upd_row [where P = P and p = p, OF k assms(3,4) u assms(1)])
  then have r: "roster_of (update_parts P f (st_db s)) = (roster_of (st_db s))\<lparr>ro_parts :=
      (ro_parts (roster_of (st_db s)))((CP_CallID p, CP_UserID p) \<mapsto> (CP_Role p, CP_Status (f p)))\<rparr>"
    by (simp add: roster_of_def assms(2))
  have "call_step (roster_of (st_db s)) ((roster_of (st_db s))\<lparr>ro_parts :=
      (ro_parts (roster_of (st_db s)))((CP_CallID p, CP_UserID p) \<mapsto> (CP_Role p, CP_Status (f p)))\<rparr>)"
    using part_of_row [OF k assms(3)] assms(6)
    by (intro call_step.move) (auto simp: roster_of_def)
  with r show "call_step (roster_of (st_db s)) (roster_of (st_db (s\<lparr>st_db := update_parts P f (st_db s)\<rparr>)))"
    by simp
qed

lemma keeps_keys_status [simp]: "keeps_keys (set_participant_status now st lr)"
  by (simp add: keeps_keys_def set_participant_status_def)

lemma set_participant_status_simps [simp]:
  "CP_Role (set_participant_status now st lr p) = CP_Role p"
  "CP_Status (set_participant_status now st lr p) = st"
  by (simp_all add: set_participant_status_def)

text \<open>A status update may only bring a participant to life while the call is open.\<close>

definition open_rows :: "call_db \<Rightarrow> uuid \<Rightarrow> bool" where
  "open_rows db pid \<longleftrightarrow> (\<forall>p \<in> set (db_parts db). CP_ID p = pid \<longrightarrow> status_of db (CP_CallID p) \<noteq> Some CallStatusEnded)"

lemma UpdateParticipantStatusWithReason_sim:
  assumes "live_status st \<Longrightarrow> open_rows (st_db s) pid"
  shows "sim s (snd (UpdateParticipantStatusWithReason env pid st lr s))"
  unfolding UpdateParticipantStatusWithReason_def
proof (rule sim_exec, simp, intro impI)
  assume "part_matches (\<lambda>p. CP_ID p = pid) (st_db s)"
  then obtain p where "p \<in> set (db_parts (st_db s))" "CP_ID p = pid" by (auto simp: part_matches_def)
  with assms show "sim s (s\<lparr>st_db := update_parts (\<lambda>p. CP_ID p = pid)
      (set_participant_status (now_of env) st lr) (st_db s)\<rparr>)"
    by (intro sim_update_status_row [where p = p]) (auto simp: open_rows_def dest: same_id_row)
qed

lemma UpdateParticipantStatus_sim:
  "(live_status st \<Longrightarrow> open_rows (st_db s) pid) \<Longrightarrow> sim s (snd (UpdateParticipantStatus env pid st s))"
  by (simp add: UpdateParticipantStatus_def UpdateParticipantStatusWithReason_sim)

lemma DisconnectParticipant_sim [repo_sim]:
  "sim s (snd (DisconnectParticipantIfConnectedWithReason env pid lr s))"
  unfolding DisconnectParticipantIfConnectedWithReason_def
proof (rule sim_exec, simp, intro impI)
  assume "part_matches (\<lambda>p. CP_ID p = pid \<and> CP_Status p \<noteq> ParticipantStatusDisconnected) (st_db s)"
  then obtain p where "p \<in> set (db_parts (st_db s))" "CP_ID p = pid" "CP_Status p \<noteq> ParticipantStatusDisconnected"
    by (auto simp: part_matches_def)
  then show "sim s (s\<lparr>st_db := update_parts (\<lambda>p. CP_ID p = pid \<and> CP_Status p \<noteq> ParticipantStatusDisconnected)
      (\<lambda>p. p\<lparr>CP_Status := ParticipantStatusDisconnected, CP_LeftAt := coalesce (CP_LeftAt p) (Some (now_of env)),
            CP_LeftReason := coalesce (CP_LeftReason p) (Some lr)\<rparr>) (st_db s)\<rparr>)"
    by (intro sim_update_status_row [where p = p]) (auto simp: keeps_keys_def dest: same_id_row)
qed

lemma UpdateParticipantRole_sim [repo_sim]:
  assumes "role \<noteq> CallRoleHost"
  shows "sim s (snd (Calls_UpdateParticipantRole env pid role s))"
  unfolding Calls_UpdateParticipantRole_def
proof (rule sim_exec, simp, intro impI)
  let ?P = "\<lambda>p. CP_ID p = pid \<and> CP_Role p \<noteq> CallRoleHost"
  let ?f = "\<lambda>p. p\<lparr>CP_Role := role\<rparr>"
  assume "part_matches ?P (st_db s)"
  then obtain p where p: "p \<in> set (db_parts (st_db s))" "CP_ID p = pid" "CP_Role p \<noteq> CallRoleHost"
    by (auto simp: part_matches_def)
  show "sim s (s\<lparr>st_db := update_parts ?P ?f (st_db s)\<rparr>)"
  proof (rule sim_step)
    assume "call_ok (st_db s)"
    then have k: "keys_ok (st_db s)" by (simp add: call_ok_def)
    then show "keys_ok (st_db (s\<lparr>st_db := update_parts ?P ?f (st_db s)\<rparr>))"
      by (simp add: keys_ok_update_parts keeps_keys_def)
    have "part_of (update_parts ?P ?f (st_db s)) =
      (part_of (st_db s))((CP_CallID p, CP_UserID p) \<mapsto> (CP_Role (?f p), CP_Status (?f p)))"
      using k p by (intro find_upd_row) (auto simp: keeps_keys_def dest: same_id_row)
    then have r: "roster_of (update_parts ?P ?f (st_db s)) = (roster_of (st_db s))\<lparr>ro_parts :=
        (ro_parts (roster_of (st_db s)))((CP_CallID p, CP_UserID p) \<mapsto> (role, CP_Status p))\<rparr>"
      by (simp add: roster_of_def fun_eq_iff)
    have "call_step (roster_of (st_db s)) ((roster_of (st_db s))\<lparr>ro_parts :=
        (ro_parts (roster_of (st_db s)))((CP_CallID p, CP_UserID p) \<mapsto> (role, CP_Status p))\<rparr>)"
      using part_of_row [OF k p(1)] p(3) assms by (intro call_step.change_role) (auto simp: roster_of_def)
    with r show "call_step (roster_of (st_db s)) (roster_of (st_db (s\<lparr>st_db := update_parts ?P ?f (st_db s)\<rparr>)))"
      by simp
  qed
qed

text \<open>Two single-row updates make up a transfer of the host role.\<close>

lemma part_of_transfer:
  assumes k: "keys_ok db" and p: "p \<in> set (db_parts db)" and q: "q \<in> set (db_parts db)"
    and c: "CP_CallID p = cid" "CP_CallID q = cid" and ne: "CP_UserID p \<noteq> CP_UserID q"
  shows "part_of (update_parts (\<lambda>r. CP_CallID r = cid \<and> CP_UserID r = CP_UserID q) (\<lambda>r. r\<lparr>CP_Role := CallRoleHost\<rparr>)
      (update_parts (\<lambda>r. CP_CallID r = cid \<and> CP_UserID r = CP_UserID p) (\<lambda>r. r\<lparr>CP_Role := CallRoleParticipant\<rparr>) db)) =
    (part_of db)((cid, CP_UserID p) \<mapsto> (CallRoleParticipant, CP_Status p), (cid, CP_UserID q) \<mapsto> (CallRoleHost, CP_Status q))"
proof -
  let ?f = "\<lambda>r. r\<lparr>CP_Role := CallRoleParticipant\<rparr>" and ?g = "\<lambda>r. r\<lparr>CP_Role := CallRoleHost\<rparr>"
  let ?P = "\<lambda>r. CP_CallID r = cid \<and> CP_UserID r = CP_UserID p"
  let ?Q = "\<lambda>r. CP_CallID r = cid \<and> CP_UserID r = CP_UserID q"
  have kf: "keeps_keys ?f" "keeps_keys ?g" by (simp_all add: keeps_keys_def)
  have 1: "part_of (update_parts ?P ?f db) = (part_of db)((CP_CallID p, CP_UserID p) \<mapsto> (CP_Role (?f p), CP_Status (?f p)))"
    using k p c kf by (intro find_upd_row) (auto dest: same_key_row)
  have k1: "keys_ok (update_parts ?P ?f db)" using k kf by (simp add: keys_ok_update_parts)
  have q1: "q \<in> set (db_parts (update_parts ?P ?f db))"
    using q ne c by (auto simp: update_parts_def set_upd_where image_iff intro!: bexI [of _ q])
  have 2: "part_of (update_parts ?Q ?g (update_parts ?P ?f db)) =
    (part_of (update_parts ?P ?f db))((CP_CallID q, CP_UserID q) \<mapsto> (CP_Role (?g q), CP_Status (?g q)))"
    using k1 q1 c kf by (intro find_upd_row) (auto dest: same_key_row)
  show ?thesis unfolding 2 1 using c by simp
qed

lemma TransferHost_sim [repo_sim]: "sim s (snd (Calls_TransferHost env cid u v s))"
proof (cases "part_matches (\<lambda>p. CP_CallID p = cid \<and> CP_UserID p = u \<and> CP_Role p = CallRoleHost) (st_db s) \<and>
    part_matches (\<lambda>p. CP_CallID p = cid \<and> CP_UserID p = v \<and> v \<noteq> u \<and> CP_Role p \<noteq> CallRoleHost \<and>
      CP_Status p = ParticipantStatusConnected) (st_db s)")
  case False
  then show ?thesis unfolding Calls_TransferHost_def by (intro sim_exec) (auto simp: Let_def)
next
  case True
  obtain p q where p: "p \<in> set (db_parts (st_db s))" "CP_CallID p = cid" "CP_UserID p = u" "CP_Role p = CallRoleHost"
    and q: "q \<in> set (db_parts (st_db s))" "CP_CallID q = cid" "CP_UserID q = v" "v \<noteq> u" "CP_Role q \<noteq> CallRoleHost"
      "CP_Status q = ParticipantStatusConnected"
    using True by (auto simp: part_matches_def)
  let ?db = "update_parts (\<lambda>p. CP_CallID p = cid \<and> CP_UserID p = v) (\<lambda>p. p\<lparr>CP_Role := CallRoleHost\<rparr>)
    (update_parts (\<lambda>p. CP_CallID p = cid \<and> CP_UserID p = u) (\<lambda>p. p\<lparr>CP_Role := CallRoleParticipant\<rparr>) (st_db s))"
  have "sim s (s\<lparr>st_db := ?db\<rparr>)"
  proof (rule sim_step)
    assume "call_ok (st_db s)"
    then have k: "keys_ok (st_db s)" by (simp add: call_ok_def)
    then show "keys_ok (st_db (s\<lparr>st_db := ?db\<rparr>))" by (simp add: keys_ok_update_parts keeps_keys_def)
    have "part_of ?db = (part_of (st_db s))((cid, u) \<mapsto> (CallRoleParticipant, CP_Status p), (cid, v) \<mapsto> (CallRoleHost, CP_Status q))"
      using part_of_transfer [OF k p(1) q(1) p(2) q(2)] p q by simp
    then have r: "roster_of ?db = (roster_of (st_db s))\<lparr>ro_parts := (ro_parts (roster_of (st_db s)))
        ((cid, u) \<mapsto> (CallRoleParticipant, CP_Status p), (cid, v) \<mapsto> (CallRoleHost, ParticipantStatusConnected))\<rparr>"
      using q by (simp add: roster_of_def fun_eq_iff)
    have "call_step (roster_of (st_db s)) ((roster_of (st_db s))\<lparr>ro_parts := (ro_parts (roster_of (st_db s)))
        ((cid, u) \<mapsto> (CallRoleParticipant, CP_Status p), (cid, v) \<mapsto> (CallRoleHost, ParticipantStatusConnected))\<rparr>)"
      using part_of_row [OF k p(1)] part_of_row [OF k q(1)] p q
      by (intro call_step.transfer) (auto simp: roster_of_def)
    with r show "call_step (roster_of (st_db s)) (roster_of (st_db (s\<lparr>st_db := ?db\<rparr>)))" by simp
  qed
  with True show ?thesis unfolding Calls_TransferHost_def by (intro sim_exec) (simp add: Let_def)
qed


lemma RemoveParticipant_sim [repo_sim]: "sim s (snd (Calls_RemoveParticipant env cid u s))"
  unfolding Calls_RemoveParticipant_def
proof (rule sim_exec, simp, intro impI)
  let ?Q = "\<lambda>p. CP_CallID p = cid \<longrightarrow> CP_UserID p \<noteq> u"
  let ?db = "(st_db s)\<lparr>db_parts := filter ?Q (db_parts (st_db s))\<rparr>"
  show "sim s (s\<lparr>st_db := ?db\<rparr>)"
  proof (rule sim_step)
    assume "call_ok (st_db s)"
    then show "keys_ok (st_db (s\<lparr>st_db := ?db\<rparr>))"
      by (simp add: call_ok_def keys_ok_def distinct_map_filter)
    have fd: "find P (filter ?Q xs) = find (\<lambda>p. ?Q p \<and> P p) xs" for P and xs :: "CallParticipant list"
      by (induction xs) auto
    have "part_of ?db = (part_of (st_db s))((cid, u) := None)"
    proof (rule ext, rule prod.induct)
      fix c v
      have "find (\<lambda>p. ?Q p \<and> CP_CallID p = c \<and> CP_UserID p = v) (db_parts (st_db s)) =
        (if c = cid \<and> v = u then None else find (\<lambda>p. CP_CallID p = c \<and> CP_UserID p = v) (db_parts (st_db s)))"
        by (auto simp: find_None_iff' intro!: find_cong)
      then show "part_of ?db (c, v) = ((part_of (st_db s))((cid, u) := None)) (c, v)"
        by (simp add: part_of_apply fd)
    qed
    then have "roster_of ?db = (roster_of (st_db s))\<lparr>ro_parts := (ro_parts (roster_of (st_db s)))((cid, u) := None)\<rparr>"
      by (simp add: roster_of_def)
    then show "call_step (roster_of (st_db s)) (roster_of (st_db (s\<lparr>st_db := ?db\<rparr>)))"
      using call_step.drop by simp
  qed
qed

text \<open>Updates of other columns.\<close>

lemma sim_update_parts_same:
  assumes "keeps_keys f" and "\<And>q. CP_Role (f q) = CP_Role q" and "\<And>q. CP_Status (f q) = CP_Status q"
  shows "sim s (s\<lparr>st_db := update_parts P f (st_db s)\<rparr>)"
  using assms by (intro sim_roster_same) (simp_all add: keys_ok_update_parts roster_update_parts_same)

lemma UpdateParticipantMedia_sim [repo_sim]: "sim s (snd (UpdateParticipantMedia env pid a v sc s))"
  unfolding UpdateParticipantMedia_def by (rule sim_exec) (simp add: sim_update_parts_same keeps_keys_def)

lemma SetCanScreenShare_sim [repo_sim]: "sim s (snd (SetCanScreenShare env pid b s))"
  unfolding SetCanScreenShare_def by (rule sim_exec) (simp add: sim_update_parts_same keeps_keys_def)

lemma AssignParticipant_sim [repo_sim]: "sim s (snd (AssignParticipant env cid u rid s))"
  unfolding AssignParticipant_def by (rule sim_exec) (simp add: sim_update_parts_same keeps_keys_def)

lemma UnassignParticipant_sim [repo_sim]: "sim s (snd (UnassignParticipant env cid u s))"
  unfolding UnassignParticipant_def by (rule sim_exec) (simp add: sim_update_parts_same keeps_keys_def)

lemma UnassignAllByRoom_sim [repo_sim]: "sim s (snd (UnassignAllByRoom env rid s))"
  unfolding UnassignAllByRoom_def by (rule sim_exec) (simp add: sim_update_parts_same keeps_keys_def)

subsection \<open>Operations that leave the two tables alone\<close>

text \<open>\<open>quiet m\<close>: calls and participants are the same before and after.\<close>

definition same_core :: "call_state \<Rightarrow> call_state \<Rightarrow> bool" where
  "same_core s s' \<longleftrightarrow> core s' = core s"

interpretation quiet: run_relation same_core
  by unfold_locales (simp_all add: same_core_def)

abbreviation (input) quiet :: "'a call_handler \<Rightarrow> bool" where
  "quiet m \<equiv> keepsM same_core m"

named_theorems quiet_intros \<open>operations that leave calls and participants alone\<close>

lemmas quiet_struct =
  quiet.keeps_bindM quiet.keeps_mapErrM quiet.keeps_tryM quiet.keeps_returnM quiet.keeps_throwM
  quiet.keeps_readM quiet.keeps_getM quiet.keeps_failIf quiet.keeps_forM quiet.keeps_foldM
  quiet.keeps_If quiet.keeps_case_option quiet.keeps_case_sum

lemma quietD: "quiet m \<Longrightarrow> core (snd (m s)) = core s"
  by (simp add: keepsM_def same_core_def)

lemma quiet_sim: "quiet m \<Longrightarrow> sim s (snd (m s))"
  by (rule sim_core) (rule quietD)

lemma quiet_exec:
  assumes "\<And>db. db_calls (snd (f db)) = db_calls db" and "\<And>db. db_parts (snd (f db)) = db_parts db"
  shows "quiet (repo_exec env op args wrap f)"
  by (rule keepsMI) (simp add: same_core_def core_def repo_exec_snd assms split: option.splits)

lemma insert_invited_core [simp]:
  "db_calls (insert_invited c u b db) = db_calls db" "db_parts (insert_invited c u b db) = db_parts db"
  by (simp_all add: insert_invited_def)

lemma AddInvitedMembers_quiet [quiet_intros]: "quiet (AddInvitedMembers env cid us b)"
  unfolding AddInvitedMembers_def by (rule quiet.keeps_forM) (rule quiet_exec; simp)

lemma fold_insert_invited_core [simp]:
  "db_calls (fold (\<lambda>p. insert_invited c (g p) b) ps db) = db_calls db"
  "db_parts (fold (\<lambda>p. insert_invited c (g p) b) ps db) = db_parts db"
  by (induction ps arbitrary: db) simp_all

lemma Snapshot_quiet [quiet_intros]: "quiet (SnapshotConnectedIntoInvited env cid b)"
  unfolding SnapshotConnectedIntoInvited_def by (rule quiet_exec) simp_all

lemma CreateRoomsWithinCap_quiet [quiet_intros]: "quiet (CreateRoomsWithinCap env cid n rs)"
  unfolding CreateRoomsWithinCap_def by (rule quiet_exec) (simp_all split: option.splits)

lemma Rooms_Close_quiet [quiet_intros]: "quiet (Rooms_Close env rid)"
  unfolding Rooms_Close_def by (rule quiet_exec) (simp_all add: close_rooms_def)

lemma Rooms_CloseAllByCall_quiet [quiet_intros]: "quiet (Rooms_CloseAllByCall env cid)"
  unfolding Rooms_CloseAllByCall_def by (rule quiet_exec) (simp_all add: close_rooms_def)

lemma EnqueueRealtime_quiet [quiet_intros]: "quiet (EnqueueRealtime env evt)"
  unfolding EnqueueRealtime_def by (simp, intro impI, rule quiet_exec) simp_all

lemma Messages_Create_quiet [quiet_intros]: "quiet (Messages_Create env msg)"
  unfolding Messages_Create_def by (rule quiet_exec) simp_all

lemma id_New_quiet [quiet_intros]: "quiet (id_New env)"
  by (rule keepsMI) (simp add: id_New_def same_core_def core_def)

lemma WithinTx_quiet [quiet_intros]:
  assumes "quiet m"
  shows "quiet (WithinTx env m)"
proof (rule keepsMI)
  fix s
  show "same_core s (snd (WithinTx env m s))"
    using quietD [OF assms, of s]
    by (auto simp: WithinTx_def same_core_def core_def split: option.splits prod.splits sum.splits)
qed

lemma quiet_modifyM:
  "(\<And>s. st_db (f s) = st_db s) \<Longrightarrow> quiet (modifyM f)"
  by (rule quiet.keeps_modifyM) (simp add: same_core_def core_def)

subsection \<open>Symbolic execution of a handler up to the simulation\<close>

text \<open>
  To show that a handler is a run of the specification one goes through it statement by
  statement, keeping what its guards and reads said about the state.
\<close>

lemmas sim_bind = sim.at_bindM

lemma sim_bind_read:
  "(\<And>x. f s = Inr x \<Longrightarrow> sim s (snd (k x s))) \<Longrightarrow> sim s (snd (bindM (readM f) k s))"
  by (rule sim_bind) (auto simp: readM_def)

lemma sim_bind_mapErr_read:
  "(\<And>x. f s = Inr x \<Longrightarrow> sim s (snd (k x s))) \<Longrightarrow> sim s (snd (bindM (mapErrM h (readM f)) k s))"
  by (rule sim_bind) (auto simp: mapErrM_def readM_def split: sum.splits)

lemma sim_bind_get:
  "sim s (snd (k (f s) s)) \<Longrightarrow> sim s (snd (bindM (getM f) k s))"
  by (simp add: bindM_def getM_def)

lemma sim_bind_failIf:
  "(\<not> b \<Longrightarrow> sim s (snd (k () s))) \<Longrightarrow> sim s (snd (bindM (failIf b e) k s))"
  by (rule sim_bind) (auto simp: failIf_def throwM_def returnM_def split: if_splits)

lemma sim_bind_quiet:
  assumes "quiet m" and "\<And>x s'. core s' = core s \<Longrightarrow> sim s' (snd (k x s'))"
  shows "sim s (snd (bindM m k s))"
proof (rule sim_bind)
  show "sim s (snd (m s))" by (rule quiet_sim [OF assms(1)])
  fix x s' assume "m s = (Inr x, s')"
  with quietD [OF assms(1), of s] show "sim s' (snd (k x s'))" by (intro assms(2)) simp
qed

lemma sim_bind_any:
  assumes "\<And>s. sim s (snd (m s))" and "\<And>x s'. sim s' (snd (k x s'))"
  shows "sim s (snd (bindM m k s))"
  using assms by (intro sim_bind) auto

declare snd_mapErrM [simp]

lemma snd_tryM [simp]: "snd (tryM m s) = snd (m s)"
  by (simp add: tryM_def split: prod.splits)

lemma snd_returnM [simp]: "snd (returnM x s) = s"
  by (simp add: returnM_def)

lemma snd_throwM [simp]: "snd (throwM x s) = s"
  by (simp add: throwM_def)

lemma snd_readM [simp]: "snd (readM f s) = s"
  by (simp add: readM_def)

lemma sim_tx:
  assumes "sim s (snd (m s))"
  shows "sim s (snd (WithinTx env m s))"
proof (cases "WithinTx env m s")
  case (Pair r s')
  show ?thesis
  proof (cases r)
    case (Inl e)
    with Pair WithinTx_atomic [of env m s e s'] show ?thesis
      by (intro sim_core) (simp add: core_def)
  next
    case (Inr x)
    with Pair WithinTx_commit [of env m s x s'] assms show ?thesis by simp
  qed
qed

lemma sim_forM:
  assumes "\<And>x s. x \<in> set xs \<Longrightarrow> J s \<Longrightarrow> sim s (snd (f x s)) \<and> J (snd (f x s))" and "J s"
  shows "sim s (snd (forM xs f s))"
  using assms
proof (induction xs arbitrary: s)
  case Nil
  then show ?case by simp
next
  case (Cons x xs)
  have 1: "sim s (snd (f x s))" "J (snd (f x s))"
    using Cons.prems(1) [of x s] Cons.prems(2) by simp_all
  have "sim s (snd (bindM (f x) (\<lambda>_. forM xs f) s))"
  proof (rule sim_bind)
    show "sim s (snd (f x s))" by (rule 1(1))
    fix y s' assume "f x s = (Inr y, s')"
    with 1(2) have "J s'" by simp
    then show "sim s' (snd (forM xs f s'))" using Cons.IH Cons.prems(1) by simp
  qed
  then show ?case by simp
qed

end
