(* ===== verification/CallAccess.thy ===== *)
theory CallAccess
  imports CallSpec
begin

text \<open>
  The access checks of the call service (\<open>internal/service/call/service.go\<close>, with
  \<open>requireHostOrCoHost\<close> and \<open>wrapCallError\<close> of \<open>breakout.go\<close>). They only read, so each is a
  function of the state into an error or a result.
\<close>

subsection \<open>Workspace and channel access\<close>

definition requireWorkspaceMember :: "call_env \<Rightarrow> uuid \<Rightarrow> uuid \<Rightarrow> go_error + unit" where
  "requireWorkspaceMember env workspaceID userID =
     (case GetMember (e_dir env) workspaceID userID of
        Inl err \<Rightarrow>
          if has_code CodeNotFound err then Inl (Forbidden ''user is not a member of this workspace'')
          else Inl (Internal ''failed to verify workspace membership'' (Some err))
      | Inr _ \<Rightarrow> Inr ())"

definition canAccessWorkspaceContent :: "call_env \<Rightarrow> uuid \<Rightarrow> uuid \<Rightarrow> go_error + unit" where
  "canAccessWorkspaceContent env workspaceID userID =
     (case requireWorkspaceMember env workspaceID userID of
        Inr _ \<Rightarrow> Inr ()
      | Inl _ \<Rightarrow>
          if e_guests env
          then (case HasWorkspaceAccess True (e_dir env) workspaceID userID of
                  Inl err \<Rightarrow> Inl err
                | Inr allowed \<Rightarrow>
                    if allowed then Inr () else Inl (Forbidden ''user does not have access to this workspace''))
          else Inl (Forbidden ''user does not have access to this workspace''))"

definition isGuestUser :: "call_env \<Rightarrow> uuid \<Rightarrow> uuid \<Rightarrow> bool" where
  "isGuestUser env workspaceID userID =
     (case GetMember (e_dir env) workspaceID userID of
        Inr _ \<Rightarrow> False
      | Inl _ \<Rightarrow>
          if \<not> e_guests env then False
          else (case IsGuest True (e_dir env) workspaceID userID of Inl _ \<Rightarrow> False | Inr allowed \<Rightarrow> allowed))"

definition ensureCollaborationChannelAccess :: "call_env \<Rightarrow> Channel \<Rightarrow> uuid \<Rightarrow> go_error + bool" where
  "ensureCollaborationChannelAccess env ch userID =
     (if Ch_Type ch \<noteq> ChannelTypeDM \<and> Ch_Type ch \<noteq> ChannelTypeGroupDM then Inr True
      else if \<not> e_collab env then Inr True
      else (case AuthorizeCall True (e_dir env) (Ch_ID ch) userID of
              Inl err \<Rightarrow> Inl err
            | Inr decision \<Rightarrow> if \<not> Managed decision then Inr True else Inr (Allowed decision)))"

definition requireChannelAccess :: "call_env \<Rightarrow> Channel \<Rightarrow> uuid \<Rightarrow> go_error + unit" where
  "requireChannelAccess env ch userID =
     (case Ch_WorkspaceID ch of
        None \<Rightarrow> Inl (NotFound ''channel not found'')
      | Some workspaceID \<Rightarrow>
          (case requireWorkspaceMember env workspaceID userID of
             Inr _ \<Rightarrow>
               if Ch_Type ch = ChannelTypePublic then Inr ()
               else (case Channel_GetMember (e_dir env) (Ch_ID ch) userID of
                       Inl err \<Rightarrow>
                         if has_code CodeNotFound err then Inl (Forbidden ''you do not have access to this channel'')
                         else Inl (Internal ''failed to check channel membership'' (Some err))
                     | Inr _ \<Rightarrow>
                         (case ensureCollaborationChannelAccess env ch userID of
                            Inl err \<Rightarrow> Inl err
                          | Inr allowed \<Rightarrow>
                              if \<not> allowed then Inl (Forbidden ''you do not have access to this collaboration channel'')
                              else Inr ()))
           | Inl _ \<Rightarrow>
               let collab =
                     (if Ch_Type ch = ChannelTypeDM \<or> Ch_Type ch = ChannelTypeGroupDM
                      then (case Channel_GetMember (e_dir env) (Ch_ID ch) userID of
                              Inr _ \<Rightarrow>
                                (case ensureCollaborationChannelAccess env ch userID of
                                   Inl err \<Rightarrow> Inl err
                                 | Inr allowed \<Rightarrow>
                                     if allowed then Inr () else Inl (Forbidden ''you do not have access to this channel''))
                            | Inl err \<Rightarrow>
                                if \<not> has_code CodeNotFound err
                                then Inl (Internal ''failed to check channel membership'' (Some err))
                                else Inl (Forbidden ''you do not have access to this channel''))
                      else Inl (Forbidden ''you do not have access to this channel''))
               in if e_guests env
                  then (case HasChannelAccess True (e_dir env) workspaceID (Ch_ID ch) userID of
                          Inl err \<Rightarrow> Inl err
                        | Inr allowed \<Rightarrow> if allowed then Inr () else collab)
                  else collab))"

subsection \<open>Call access\<close>

definition wrapCallError :: "go_error \<Rightarrow> go_error" where
  "wrapCallError err =
     (if has_code CodeNotFound err then NotFound ''call not found''
      else Internal ''failed to get call'' (Some err))"

definition getCallForWorkspace :: "call_env \<Rightarrow> uuid \<Rightarrow> uuid \<Rightarrow> call_state \<Rightarrow> go_error + Call" where
  "getCallForWorkspace env workspaceID callID s =
     (case Calls_GetByID env callID s of
        Inl err \<Rightarrow> Inl (wrapCallError err)
      | Inr call \<Rightarrow> if Call_WorkspaceID call \<noteq> workspaceID then Inl (NotFound ''call not found'') else Inr call)"

definition isPrivateChannelLessCall :: "Call \<Rightarrow> bool" where
  "isPrivateChannelLessCall call =
     (Call_ChannelID call = None \<and> Call_Type call \<noteq> CallTypeOneToOne \<and>
      AccessLevel_Resolved (Call_AccessLevel call) = AccessLevelPrivate)"

definition canAccessPrivateChannelLessCall :: "call_env \<Rightarrow> Call \<Rightarrow> uuid \<Rightarrow> bool \<Rightarrow> bool \<Rightarrow> call_state \<Rightarrow> go_error + bool" where
  "canAccessPrivateChannelLessCall env call userID isWorkspaceMember hasCallGuestGrant s =
     (if Call_CreatedBy call = userID \<or> hasCallGuestGrant then Inr True
      else let invited =
             (if \<not> isWorkspaceMember then Inr False
              else (case IsInvited env (Call_ID call) userID s of
                      Inl err \<Rightarrow> Inl (Internal ''failed to check private call invite'' (Some err))
                    | Inr b \<Rightarrow> Inr b))
           in (case GetParticipant env (Call_ID call) userID s of
                 Inr participant \<Rightarrow>
                   if CP_Role participant = CallRoleHost \<or> CP_Role participant = CallRoleCoHost then Inr True
                   else if CP_Status participant = ParticipantStatusConnected then Inr True
                   else invited
               | Inl err \<Rightarrow>
                   if \<not> has_code CodeNotFound err
                   then Inl (Internal ''failed to check call participation'' (Some err))
                   else invited))"

text \<open>The guest branch of \<open>requireCallAccess\<close>: (may the call be returned at once?, has a call grant).\<close>

definition guest_branch :: "call_env \<Rightarrow> Call \<Rightarrow> uuid \<Rightarrow> bool \<Rightarrow> go_error + (bool \<times> bool)" where
  "guest_branch env call userID isMember =
     (if \<not> isMember \<and> e_guests env
      then (case EvaluateCallAccess True (e_dir env) (Call_WorkspaceID call) (Call_ID call) userID of
              Inl gerr \<Rightarrow> Inl gerr
            | Inr (isGuest, hasCall) \<Rightarrow>
                if isGuest
                then if hasCall then Inr (True, True)
                     else (case HasWorkspaceAccess True (e_dir env) (Call_WorkspaceID call) userID of
                             Inl werr \<Rightarrow> Inl werr
                           | Inr hasLegacy \<Rightarrow>
                               if \<not> hasLegacy then Inl (Forbidden ''you do not have access to this call'')
                               else Inr (False, hasCall))
                else Inr (False, hasCall))
      else Inr (False, False))"

definition requireCallAccess :: "call_env \<Rightarrow> uuid \<Rightarrow> uuid \<Rightarrow> uuid \<Rightarrow> call_state \<Rightarrow> go_error + Call" where
  "requireCallAccess env workspaceID callID userID s =
     (case getCallForWorkspace env workspaceID callID s of
        Inl err \<Rightarrow> Inl err
      | Inr call \<Rightarrow>
          let isMember = (case GetMember (e_dir env) (Call_WorkspaceID call) userID of Inr _ \<Rightarrow> True | Inl _ \<Rightarrow> False)
          in (case guest_branch env call userID isMember of
                Inl err \<Rightarrow> Inl err
              | Inr (now_, hasCallGuestGrant) \<Rightarrow>
                  if now_ then Inr call
                  else (case Call_ChannelID call of
                     Some channelID \<Rightarrow>
                       (case Channel_GetByID (e_dir env) channelID of
                          Inl err \<Rightarrow> Inl (Internal ''failed to get channel'' (Some err))
                        | Inr ch \<Rightarrow>
                            if Call_Type call = CallTypeOneToOne \<and>
                               (Ch_Type ch = ChannelTypeDM \<or> Ch_Type ch = ChannelTypeGroupDM) \<and>
                               canAccessWorkspaceContent env (Call_WorkspaceID call) userID = Inr () \<and>
                               (case GetParticipant env callID userID s of
                                  Inr p \<Rightarrow> CP_Status p = ParticipantStatusConnected
                                | Inl _ \<Rightarrow> False)
                            then Inr call
                            else (case requireChannelAccess env ch userID of
                                    Inl err \<Rightarrow> Inl err
                                  | Inr _ \<Rightarrow> Inr call))
                   | None \<Rightarrow>
                       if isPrivateChannelLessCall call
                       then (case canAccessPrivateChannelLessCall env call userID isMember hasCallGuestGrant s of
                               Inl err \<Rightarrow> Inl err
                             | Inr allowed \<Rightarrow>
                                 if \<not> allowed then Inl (Forbidden ''you do not have access to this private call'')
                                 else Inr call)
                       else (case canAccessWorkspaceContent env (Call_WorkspaceID call) userID of
                               Inl err \<Rightarrow> Inl err
                             | Inr _ \<Rightarrow> Inr call))))"

definition canUserEnterPrivateChannelLessCall :: "call_env \<Rightarrow> Call \<Rightarrow> uuid \<Rightarrow> call_state \<Rightarrow> go_error + unit" where
  "canUserEnterPrivateChannelLessCall env call userID s =
     (if \<not> isPrivateChannelLessCall call then Inr ()
      else (case (case GetMember (e_dir env) (Call_WorkspaceID call) userID of
                    Inr _ \<Rightarrow> Inr True
                  | Inl err \<Rightarrow>
                      if \<not> has_code CodeNotFound err
                      then Inl (Internal ''failed to verify workspace membership'' (Some err))
                      else Inr False) of
              Inl err \<Rightarrow> Inl err
            | Inr isMember \<Rightarrow>
                (case (if \<not> isMember \<and> e_guests env
                       then HasCallAccess True (e_dir env) (Call_WorkspaceID call) (Call_ID call) userID
                       else Inr False) of
                   Inl err \<Rightarrow> Inl err
                 | Inr hasCallGuestGrant \<Rightarrow>
                     (case canAccessPrivateChannelLessCall env call userID isMember hasCallGuestGrant s of
                        Inl err \<Rightarrow> Inl err
                      | Inr allowed \<Rightarrow>
                          if \<not> allowed then Inl (Forbidden ''you do not have access to this private call'')
                          else Inr ()))))"

definition CanAccessCall :: "call_env \<Rightarrow> uuid \<Rightarrow> uuid \<Rightarrow> uuid \<Rightarrow> call_state \<Rightarrow> go_error + unit" where
  "CanAccessCall env workspaceID callID userID s =
     (case requireCallAccess env workspaceID callID userID s of Inl err \<Rightarrow> Inl err | Inr _ \<Rightarrow> Inr ())"

text \<open>
  \<open>GetParticipant\<close> with the two error messages each caller supplies: one for \<open>NOT_FOUND\<close>, one
  for any other failure.
\<close>

definition participant_or :: "call_env \<Rightarrow> uuid \<Rightarrow> uuid \<Rightarrow> go_error \<Rightarrow> string \<Rightarrow> call_state \<Rightarrow> go_error + CallParticipant" where
  "participant_or env callID userID notFound failed s =
     (case GetParticipant env callID userID s of
        Inl err \<Rightarrow> if has_code CodeNotFound err then Inl notFound else Inl (Internal failed (Some err))
      | Inr p \<Rightarrow> Inr p)"

definition requireHostOrCoHost :: "call_env \<Rightarrow> uuid \<Rightarrow> uuid \<Rightarrow> call_state \<Rightarrow> go_error + unit" where
  "requireHostOrCoHost env callID userID s =
     (case participant_or env callID userID (Forbidden ''user is not a participant in this call'')
             ''failed to verify participant role'' s of
        Inl err \<Rightarrow> Inl err
      | Inr participant \<Rightarrow>
          if CP_Role participant \<noteq> CallRoleHost \<and> CP_Role participant \<noteq> CallRoleCoHost
          then Inl (Forbidden ''only host or co-host can perform this action'')
          else Inr ())"

definition authorizeGuestLinkActor :: "call_env \<Rightarrow> Call \<Rightarrow> uuid \<Rightarrow> call_state \<Rightarrow> go_error + unit" where
  "authorizeGuestLinkActor env call userID s =
     (case participant_or env (Call_ID call) userID (Forbidden ''user is not a participant in this call'')
             ''failed to get participant'' s of
        Inl err \<Rightarrow> Inl err
      | Inr participant \<Rightarrow>
          if CP_Role participant = CallRoleHost \<or> CP_Role participant = CallRoleCoHost then Inr ()
          else if isPrivateChannelLessCall call
          then Inl (Forbidden ''only host or co-host can add guests to a private call'')
          else if ResolvedWhoCanAddGuests (Call_Settings call) \<noteq> WhoCanAddGuestsEveryone
          then Inl (Forbidden ''only host or co-host can add guests to this call'')
          else if CP_Status participant \<noteq> ParticipantStatusConnected
          then Inl (Forbidden ''only connected participants can add guests'')
          else if participant_IsGuest env call participant then Inl (Forbidden ''guests cannot add guests'')
          else Inr ())"

definition AuthorizeGuestLink :: "call_env \<Rightarrow> uuid \<Rightarrow> uuid \<Rightarrow> uuid \<Rightarrow> call_state \<Rightarrow> go_error + Call" where
  "AuthorizeGuestLink env workspaceID callID userID s =
     (case requireCallAccess env workspaceID callID userID s of
        Inl err \<Rightarrow> Inl err
      | Inr call \<Rightarrow>
          if Call_Status call = CallStatusEnded then Inl (CallEnded ''call has already ended'')
          else (case authorizeGuestLinkActor env call userID s of Inl err \<Rightarrow> Inl err | Inr _ \<Rightarrow> Inr call))"

definition serviceError :: "string \<Rightarrow> go_error \<Rightarrow> go_error" where
  "serviceError message err =
     (case AsAppError err of
        Some (c, m, e) \<Rightarrow> AppError c m e
      | None \<Rightarrow> Internal message (Some err))"

definition mediaRoomPreparationError :: "go_error \<Rightarrow> go_error" where
  "mediaRoomPreparationError err =
     (case AsAppError err of
        Some (c, m, e) \<Rightarrow> AppError c m e
      | None \<Rightarrow> Internal ''failed to prepare call media room'' (Some err))"

subsection \<open>What the reads say\<close>

lemma Calls_GetByID_Inr [repo_reads]:
  "Calls_GetByID env cid s = Inr call \<Longrightarrow>
   \<exists>c \<in> set (db_calls (st_db s)). call = load_call c \<and> Call_ID c = cid \<and>
     find (\<lambda>c. Call_ID c = cid) (db_calls (st_db s)) = Some c"
  by (auto simp: Calls_GetByID_def dest: find_SomeD split: option.splits)

lemma load_call_simps [simp]:
  "Call_ID (load_call c) = Call_ID c" "Call_Status (load_call c) = Call_Status c"
  "Call_WorkspaceID (load_call c) = Call_WorkspaceID c" "Call_ChannelID (load_call c) = Call_ChannelID c"
  "Call_Type (load_call c) = Call_Type c" "Call_CreatedBy (load_call c) = Call_CreatedBy c"
  "Call_AccessLevel (load_call c) = Call_AccessLevel c"
  "Call_PinnedParticipantUserID (load_call c) = Call_PinnedParticipantUserID c"
  "Call_JoinPasswordHash (load_call c) = Call_JoinPasswordHash c"
  by (simp_all add: load_call_def)

lemma GetParticipant_Inr [repo_reads]:
  "GetParticipant env cid u s = Inr p \<Longrightarrow>
   p \<in> set (db_parts (st_db s)) \<and> CP_CallID p = cid \<and> CP_UserID p = u \<and>
   find (\<lambda>p. CP_CallID p = cid \<and> CP_UserID p = u) (db_parts (st_db s)) = Some p"
  by (auto simp: GetParticipant_def dest: find_SomeD split: option.splits)

lemma GetParticipant_part_of:
  "GetParticipant env cid u s = Inr p \<Longrightarrow> part_of (st_db s) (cid, u) = Some (CP_Role p, CP_Status p)"
  by (auto simp: part_of_apply dest!: GetParticipant_Inr)

lemma GetParticipant_NotFound:
  "GetParticipant env cid u s = Inl e \<Longrightarrow> has_code CodeNotFound e \<Longrightarrow> part_of (st_db s) (cid, u) = None"
  by (auto simp: GetParticipant_def part_of_apply dest!: repo_query_Inl_code split: option.splits)

lemma ListParticipants_Inr [repo_reads]:
  "ListParticipants env cid s = Inr ps \<Longrightarrow> set ps = {p \<in> set (db_parts (st_db s)). CP_CallID p = cid}"
  by (auto simp: ListParticipants_def)

lemma getCallForWorkspace_Inr:
  "getCallForWorkspace env ws cid s = Inr call \<Longrightarrow> Calls_GetByID env cid s = Inr call \<and> Call_WorkspaceID call = ws"
  by (auto simp: getCallForWorkspace_def split: sum.splits if_splits)

lemma requireCallAccess_call:
  "requireCallAccess env ws cid u s = Inr call \<Longrightarrow> getCallForWorkspace env ws cid s = Inr call"
  by (auto simp: requireCallAccess_def Let_def split: sum.splits if_splits option.splits)

lemma Calls_GetByID_status:
  "Calls_GetByID env cid s = Inr call \<Longrightarrow>
   Call_ID call = cid \<and> status_of (st_db s) cid = Some (Call_Status call)"
  by (auto simp: status_of_def dest!: Calls_GetByID_Inr)

text \<open>What every handler knows after its access check: the call's id, workspace and current status.\<close>

lemma requireCallAccess_status:
  "requireCallAccess env ws cid u s = Inr call \<Longrightarrow>
   Call_ID call = cid \<and> Call_WorkspaceID call = ws \<and> status_of (st_db s) cid = Some (Call_Status call)"
  using requireCallAccess_call getCallForWorkspace_Inr Calls_GetByID_status by fastforce

lemma participant_or_Inr:
  "participant_or env cid u nf f s = Inr p \<longleftrightarrow> GetParticipant env cid u s = Inr p"
  by (auto simp: participant_or_def split: sum.splits)

lemma requireHostOrCoHost_Inr:
  "requireHostOrCoHost env cid u s = Inr () \<longleftrightarrow>
   (\<exists>p. GetParticipant env cid u s = Inr p \<and> (CP_Role p = CallRoleHost \<or> CP_Role p = CallRoleCoHost))"
  by (auto simp: requireHostOrCoHost_def participant_or_def split: sum.splits)

lemma serviceError_code: "has_code c err \<Longrightarrow> has_code c (serviceError m err)"
  by (auto simp: serviceError_def has_code_def split: option.splits)

lemma serviceError_AsAppError:
  "AsAppError (serviceError m err) = (case AsAppError err of Some r \<Rightarrow> Some r | None \<Rightarrow> Some (CodeInternal, m, Some err))"
  by (auto simp: serviceError_def split: option.splits)

subsection \<open>Who may reach a private call\<close>

text \<open>The rule of a private channel-less call, read off the tables.\<close>

definition private_call_member :: "call_env \<Rightarrow> call_db \<Rightarrow> Call \<Rightarrow> uuid \<Rightarrow> bool" where
  "private_call_member env db call u \<longleftrightarrow>
     Call_CreatedBy call = u \<or>
     (\<exists>g \<in> active_grants (e_dir env) (Call_WorkspaceID call) u. GG_CallID g = Some (Call_ID call)) \<or>
     (\<exists>p \<in> set (db_parts db). CP_CallID p = Call_ID call \<and> CP_UserID p = u \<and>
        (CP_Role p = CallRoleHost \<or> CP_Role p = CallRoleCoHost \<or> CP_Status p = ParticipantStatusConnected)) \<or>
     ((\<exists>m \<in> set (d_members (e_dir env)). WM_WorkspaceID m = Call_WorkspaceID call \<and> WM_UserID m = u) \<and>
      (\<exists>(c, v, _) \<in> set (db_invited db). c = Call_ID call \<and> v = u))"

lemma IsInvited_Inr:
  "IsInvited env cid u s = Inr b \<Longrightarrow> b \<longleftrightarrow> (\<exists>(c, v, _) \<in> set (db_invited (st_db s)). c = cid \<and> v = u)"
  by (auto simp: IsInvited_def)

lemma canAccessPrivate_True:
  assumes "canAccessPrivateChannelLessCall env call u isMember hasGrant s = Inr True"
    and "isMember \<Longrightarrow> \<exists>m \<in> set (d_members (e_dir env)). WM_WorkspaceID m = Call_WorkspaceID call \<and> WM_UserID m = u"
    and "hasGrant \<Longrightarrow> \<exists>g \<in> active_grants (e_dir env) (Call_WorkspaceID call) u. GG_CallID g = Some (Call_ID call)"
  shows "private_call_member env (st_db s) call u"
proof -
  have 1: "Call_CreatedBy call = u \<or> hasGrant \<or>
    (\<exists>p. GetParticipant env (Call_ID call) u s = Inr p \<and>
      (CP_Role p = CallRoleHost \<or> CP_Role p = CallRoleCoHost \<or> CP_Status p = ParticipantStatusConnected)) \<or>
    (isMember \<and> IsInvited env (Call_ID call) u s = Inr True)"
    using assms(1)
    by (auto simp: canAccessPrivateChannelLessCall_def Let_def split: if_splits sum.splits)
  moreover have "private_call_member env (st_db s) call u"
    if "GetParticipant env (Call_ID call) u s = Inr p"
      "CP_Role p = CallRoleHost \<or> CP_Role p = CallRoleCoHost \<or> CP_Status p = ParticipantStatusConnected" for p
    using GetParticipant_Inr [OF that(1)] that(2) by (auto simp: private_call_member_def)
  moreover have "private_call_member env (st_db s) call u" if "isMember" "IsInvited env (Call_ID call) u s = Inr True"
    using IsInvited_Inr [OF that(2)] assms(2) [OF that(1)] by (auto simp: private_call_member_def)
  moreover have "private_call_member env (st_db s) call u" if hasGrant
    using assms(3) [OF that] by (auto simp: private_call_member_def)
  ultimately show ?thesis by (auto simp: private_call_member_def)
qed

lemma guest_branch_Inr:
  assumes "guest_branch env call u isMember = Inr (b, g)"
  shows "(b \<or> g) \<longrightarrow> (\<exists>x \<in> active_grants (e_dir env) (Call_WorkspaceID call) u. GG_CallID x = Some (Call_ID call))"
  using assms
  by (auto simp: guest_branch_def dest!: EvaluateCallAccess_Inr split: if_splits sum.splits prod.splits)

lemma requireCallAccess_private:
  assumes acc: "requireCallAccess env ws cid u s = Inr call" and priv: "isPrivateChannelLessCall call"
  shows "private_call_member env (st_db s) call u"
proof -
  define isM where "isM = (case GetMember (e_dir env) (Call_WorkspaceID call) u of Inr _ \<Rightarrow> True | Inl _ \<Rightarrow> False)"
  have ch: "Call_ChannelID call = None" using priv by (simp add: isPrivateChannelLessCall_def)
  have acc': "(case guest_branch env call u isM of Inl err \<Rightarrow> Inl err | Inr (b, h) \<Rightarrow>
      if b then Inr call else (case canAccessPrivateChannelLessCall env call u isM h s of
        Inl err \<Rightarrow> Inl err
      | Inr allowed \<Rightarrow> if \<not> allowed then Inl (Forbidden ''you do not have access to this private call'') else Inr call)) = Inr call"
    using acc unfolding requireCallAccess_def Let_def
    by (cases "guest_branch env call u isM")
      (auto simp: requireCallAccess_call [OF acc] ch priv simp flip: isM_def)
  then obtain b h where gb: "guest_branch env call u isM = Inr (b, h)"
    by (cases "guest_branch env call u isM") auto
  with acc' have dec: "b \<or> canAccessPrivateChannelLessCall env call u isM h s = Inr True"
    by (auto split: sum.splits if_splits)
  show ?thesis
  proof (cases b)
    case True
    with guest_branch_Inr [OF gb] show ?thesis by (auto simp: private_call_member_def)
  next
    case False
    with dec have "canAccessPrivateChannelLessCall env call u isM h s = Inr True" by simp
    then show ?thesis
    proof (rule canAccessPrivate_True)
      show "\<exists>m \<in> set (d_members (e_dir env)). WM_WorkspaceID m = Call_WorkspaceID call \<and> WM_UserID m = u" if isM
        using that unfolding isM_def by (auto dest: GetMember_Inr split: sum.splits)
      show "\<exists>g \<in> active_grants (e_dir env) (Call_WorkspaceID call) u. GG_CallID g = Some (Call_ID call)" if h
        using guest_branch_Inr [OF gb] that by simp
    qed
  qed
qed

end
