(* ===== verification/CallEvents.thy ===== *)
theory CallEvents
  imports CallAccess
begin

text \<open>
  The effects the call handlers share: publishing and enqueueing events
  (\<open>service.go\<close>, \<open>sharing.go\<close>), the LiveKit and SFU requests (\<open>livekit.go\<close>,
  \<open>breakout_timer.go\<close>, \<open>media/sfu/sfu.go\<close>), the media policy, and the system message of an
  ended call (\<open>chat_event.go\<close>).
\<close>

subsection \<open>Publishing\<close>

text \<open>\<open>doPublish\<close>: a publish error is only logged, so the state records what was handed to NATS.\<close>

definition doPublish :: "call_env \<Rightarrow> EventType \<Rightarrow> EventSubject \<Rightarrow> uuid \<Rightarrow> uuid \<Rightarrow> uuid \<Rightarrow> Payload \<Rightarrow> unit call_handler" where
  "doPublish env evtType subject workspaceID channelID userID payload =
     modifyM (\<lambda>s. s\<lparr>st_published := st_published s @
       [\<lparr>Ev_Type = evtType, Ev_Subject = subject, Ev_WorkspaceID = workspaceID,
         Ev_ChannelID = channelID, Ev_UserID = userID, Ev_Payload = payload\<rparr>]\<rparr>)"

text \<open>The closure \<open>add\<close> of \<open>privateCallEventRecipients\<close>.\<close>

definition add_recipient :: "uuid list \<Rightarrow> uuid \<Rightarrow> uuid list" where
  "add_recipient recipients userID =
     (if userID = uuid_Nil \<or> userID \<in> set recipients then recipients else recipients @ [userID])"

definition event_audience :: "CallParticipant \<Rightarrow> bool" where
  "event_audience p =
     (CP_Role p = CallRoleHost \<or> CP_Role p = CallRoleCoHost \<or> CP_Status p = ParticipantStatusConnected \<or>
      CP_Status p = ParticipantStatusJoining \<or> CP_Status p = ParticipantStatusWaiting \<or>
      CP_Status p = ParticipantStatusInvited)"

definition privateCallEventRecipients :: "call_env \<Rightarrow> Call \<Rightarrow> call_state \<Rightarrow> go_error + uuid list" where
  "privateCallEventRecipients env call s =
     (case ListParticipants env (Call_ID call) s of
        Inl err \<Rightarrow> Inl (Internal ''failed to list private call participants for event fanout'' (Some err))
      | Inr participants \<Rightarrow>
          (case ListInvitedMembers env (Call_ID call) s of
             Inl err \<Rightarrow> Inl (Internal ''failed to list private call invitees for event fanout'' (Some err))
           | Inr invited \<Rightarrow>
               Inr (foldl add_recipient
                 (foldl add_recipient (add_recipient [] (Call_CreatedBy call))
                    (map CP_UserID (filter event_audience participants)))
                 invited)))"

definition publishPrivateCallScoped :: "call_env \<Rightarrow> EventType \<Rightarrow> Call \<Rightarrow> uuid \<Rightarrow> uuid \<Rightarrow> Payload \<Rightarrow> unit call_handler" where
  "publishPrivateCallScoped env evtType call channelID userID payload =
     bindM (tryM (readM (privateCallEventRecipients env call))) (\<lambda>r.
       case r of
         Inl _ \<Rightarrow> returnM ()
       | Inr recipients \<Rightarrow>
           forM recipients (\<lambda>recipientID.
             doPublish env evtType (WorkspaceUserEventsSubject (Call_WorkspaceID call) recipientID)
               (Call_WorkspaceID call) channelID userID payload))"

definition publishCallScoped :: "call_env \<Rightarrow> EventType \<Rightarrow> Call \<Rightarrow> uuid \<Rightarrow> uuid \<Rightarrow> Payload \<Rightarrow> unit call_handler" where
  "publishCallScoped env evtType call channelID userID payload =
     (if \<not> isPrivateChannelLessCall call
      then doPublish env evtType (WorkspaceSubject (Call_WorkspaceID call)) (Call_WorkspaceID call) channelID userID payload
      else publishPrivateCallScoped env evtType call channelID userID payload)"

definition channel_or_nil :: "Call \<Rightarrow> uuid" where
  "channel_or_nil call = (case Call_ChannelID call of None \<Rightarrow> uuid_Nil | Some c \<Rightarrow> c)"

definition publishCallEvent :: "call_env \<Rightarrow> EventType \<Rightarrow> Call \<Rightarrow> uuid \<Rightarrow> unit call_handler" where
  "publishCallEvent env evtType call userID =
     publishCallScoped env evtType call (channel_or_nil call) userID (CallPayload call)"

definition publishParticipantEvent :: "call_env \<Rightarrow> EventType \<Rightarrow> Call \<Rightarrow> CallParticipant \<Rightarrow> unit call_handler" where
  "publishParticipantEvent env evtType call p =
     publishCallScoped env evtType call (channel_or_nil call) (CP_UserID p) (CallParticipantPayload (Call_ID call) p)"

definition publishCallInvited :: "call_env \<Rightarrow> Call \<Rightarrow> uuid \<Rightarrow> uuid \<Rightarrow> unit call_handler" where
  "publishCallInvited env call inviteeUserID inviterUserID =
     doPublish env TypeCallInvited (SignalSubject inviteeUserID) (Call_WorkspaceID call) uuid_Nil inviterUserID
       (CallInvitedPayload (Call_ID call) (Call_WorkspaceID call) inviterUserID (Call_Type call) (Call_ChannelID call))"

definition publishCallControlEvent :: "call_env \<Rightarrow> EventType \<Rightarrow> Call \<Rightarrow> uuid \<Rightarrow> Payload \<Rightarrow> unit call_handler" where
  "publishCallControlEvent env evtType call actorID payload =
     publishCallScoped env evtType call (channel_or_nil call) actorID payload"

definition publishBreakoutEvent :: "call_env \<Rightarrow> EventType \<Rightarrow> Call \<Rightarrow> Payload \<Rightarrow> unit call_handler" where
  "publishBreakoutEvent env evtType call payload =
     publishCallScoped env evtType call (channel_or_nil call) (Call_CreatedBy call) payload"

definition publishCallSettingsChanged :: "call_env \<Rightarrow> Call \<Rightarrow> unit call_handler" where
  "publishCallSettingsChanged env call =
     publishCallScoped env TypeCallSettingsChanged call (channel_or_nil call) (Call_CreatedBy call)
       (CallSettingsChangedPayload (Call_ID call) (AccessLevel_Resolved (Call_AccessLevel call)) (Call_Settings call))"

subsection \<open>Enqueueing in a transaction\<close>

definition enqueueDurableEventTx :: "call_env \<Rightarrow> EventType \<Rightarrow> EventSubject \<Rightarrow> uuid \<Rightarrow> uuid \<Rightarrow> uuid \<Rightarrow> Payload \<Rightarrow> unit call_handler" where
  "enqueueDurableEventTx env evtType subject workspaceID channelID userID payload =
     (if \<not> Prepare_durable evtType then returnM ()
      else EnqueueRealtime env
             \<lparr>Ev_Type = evtType, Ev_Subject = subject, Ev_WorkspaceID = workspaceID,
              Ev_ChannelID = channelID, Ev_UserID = userID, Ev_Payload = payload\<rparr>)"

definition enqueueCallScopedEventTx :: "call_env \<Rightarrow> EventType \<Rightarrow> Call \<Rightarrow> uuid \<Rightarrow> uuid \<Rightarrow> Payload \<Rightarrow> unit call_handler" where
  "enqueueCallScopedEventTx env evtType call channelID userID payload =
     (if \<not> isPrivateChannelLessCall call
      then enqueueDurableEventTx env evtType (WorkspaceSubject (Call_WorkspaceID call)) (Call_WorkspaceID call)
             channelID userID payload
      else bindM (readM (privateCallEventRecipients env call)) (\<lambda>recipients.
             forM recipients (\<lambda>recipientID.
               enqueueDurableEventTx env evtType (WorkspaceUserEventsSubject (Call_WorkspaceID call) recipientID)
                 (Call_WorkspaceID call) channelID userID payload)))"

definition enqueueCallEventTx :: "call_env \<Rightarrow> EventType \<Rightarrow> Call \<Rightarrow> uuid \<Rightarrow> unit call_handler" where
  "enqueueCallEventTx env evtType call userID =
     enqueueCallScopedEventTx env evtType call (channel_or_nil call) userID (CallPayload call)"

definition enqueueParticipantEventTx :: "call_env \<Rightarrow> EventType \<Rightarrow> Call \<Rightarrow> CallParticipant \<Rightarrow> unit call_handler" where
  "enqueueParticipantEventTx env evtType call p =
     enqueueCallScopedEventTx env evtType call (channel_or_nil call) (CP_UserID p) (CallParticipantPayload (Call_ID call) p)"

subsection \<open>Media policy\<close>

definition callPolicy :: "call_env \<Rightarrow> Call \<Rightarrow> MediaCallPolicy" where
  "callPolicy env call =
     (case e_control env of
        Some policyForCall \<Rightarrow> policyForCall call
      | None \<Rightarrow>
          let configured = CS_MaxParticipants (Call_Settings call);
              maxParticipants =
                (if configured \<le> 0
                 then (case Call_Type call of
                         CallTypeOneToOne \<Rightarrow> 2
                       | CallTypeGroup \<Rightarrow> 32
                       | CallTypeMeeting \<Rightarrow> 500
                       | CallTypeWebinar \<Rightarrow> MC_MaxViewersPerCall (e_media env)
                       | CallTypeSelector \<Rightarrow> MC_MaxViewersPerCall (e_media env)
                       | CallTypeOther _ \<Rightarrow> 500)
                 else configured);
              policy = \<lparr>MP_MaxParticipants = maxParticipants,
                        MP_MaxPresenters = MC_MaxPresentersPerCall (e_media env),
                        MP_MaxViewers = MC_MaxViewersPerCall (e_media env)\<rparr>
          in if Call_Type call = CallTypeWebinar \<or> Call_Type call = CallTypeSelector
             then policy\<lparr>MP_MaxPresenters := MC_DefaultWebinarPresenters (e_media env), MP_MaxViewers := maxParticipants\<rparr>
             else policy)"

definition effectiveParticipantCap :: "call_env \<Rightarrow> Call \<Rightarrow> int" where
  "effectiveParticipantCap env call =
     (let policy = callPolicy env call
      in if MP_MaxParticipants policy > 0 then MP_MaxParticipants policy
         else CS_MaxParticipants (Call_Settings call))"

subsection \<open>LiveKit\<close>

definition lk_request :: "call_env \<Rightarrow> LiveKitRequest \<Rightarrow> unit call_handler" where
  "lk_request env req =
     bindM (modifyM (\<lambda>s. s\<lparr>st_lk := st_lk s @ [req]\<rparr>)) (\<lambda>_.
       case e_lkResult env req of Some e \<Rightarrow> throwM e | None \<Rightarrow> returnM ())"

text \<open>\<open>uint32(cap)\<close> keeps the low 32 bits.\<close>

definition room_capacity :: "call_env \<Rightarrow> Call \<Rightarrow> int" where
  "room_capacity env call =
     (let cap = effectiveParticipantCap env call in if cap > 0 then cap mod 2 ^ 32 else 0)"

definition EnsureLiveKitRoom :: "call_env \<Rightarrow> Call \<Rightarrow> unit call_handler" where
  "EnsureLiveKitRoom env call =
     (if \<not> e_livekit env \<or> \<not> e_livekitRooms env then returnM ()
      else lk_request env (LK_EnsureRoom (MainRoom (Call_ID call)) (room_capacity env call)))"

definition EnsureLiveKitRoomRequired :: "call_env \<Rightarrow> Call \<Rightarrow> unit call_handler" where
  "EnsureLiveKitRoomRequired env call =
     (if \<not> e_livekit env then returnM ()
      else if \<not> e_livekitRooms env then throwM (Unavailable ''livekit room service is not configured'')
      else EnsureLiveKitRoom env call)"

definition cancelBreakoutLiveKitDelete :: "RoomName \<Rightarrow> unit call_handler" where
  "cancelBreakoutLiveKitDelete name = modifyM (\<lambda>s. s\<lparr>st_timers := filter (\<lambda>n. n \<noteq> name) (st_timers s)\<rparr>)"

definition scheduleBreakoutLiveKitDelete :: "call_env \<Rightarrow> RoomName \<Rightarrow> unit call_handler" where
  "scheduleBreakoutLiveKitDelete env name =
     (if \<not> e_livekitRooms env then returnM ()
      else bindM (cancelBreakoutLiveKitDelete name) (\<lambda>_.
             modifyM (\<lambda>s. s\<lparr>st_timers := st_timers s @ [name]\<rparr>)))"

text \<open>The body of the grace timer, run when it fires: it drops its entry and deletes the room.\<close>

definition breakoutDeleteTimerFires :: "call_env \<Rightarrow> RoomName \<Rightarrow> unit call_handler" where
  "breakoutDeleteTimerFires env name =
     bindM (getM (\<lambda>s. name \<in> set (st_timers s))) (\<lambda>pending.
       if \<not> pending then returnM ()
       else bindM (cancelBreakoutLiveKitDelete name) (\<lambda>_.
              bindM (tryM (lk_request env (LK_DeleteRoom name))) (\<lambda>_. returnM ())))"

definition EnsureLiveKitBreakoutRoom :: "call_env \<Rightarrow> Call \<Rightarrow> uuid \<Rightarrow> unit call_handler" where
  "EnsureLiveKitBreakoutRoom env call breakoutRoomID =
     (if \<not> e_livekit env \<or> \<not> e_livekitRooms env then returnM ()
      else bindM (cancelBreakoutLiveKitDelete (breakoutLiveKitRoomName (Call_ID call) breakoutRoomID)) (\<lambda>_.
             lk_request env (LK_EnsureRoom (breakoutLiveKitRoomName (Call_ID call) breakoutRoomID)
               (room_capacity env call))))"

definition DeleteLiveKitRoom :: "call_env \<Rightarrow> uuid \<Rightarrow> unit call_handler" where
  "DeleteLiveKitRoom env callID =
     (if \<not> e_livekit env \<or> \<not> e_livekitRooms env then returnM ()
      else lk_request env (LK_DeleteRoom (MainRoom callID)))"

definition RemoveLiveKitParticipant :: "call_env \<Rightarrow> uuid \<Rightarrow> uuid \<Rightarrow> unit call_handler" where
  "RemoveLiveKitParticipant env callID userID =
     (if \<not> e_livekit env \<or> \<not> e_livekitRooms env then returnM ()
      else lk_request env (LK_RemoveParticipant callID userID))"

text \<open>A best-effort call: the error is logged and dropped.\<close>

definition bestEffort :: "'a call_handler \<Rightarrow> unit call_handler" where
  "bestEffort m = bindM (tryM m) (\<lambda>_. returnM ())"

definition deleteLiveKitRoomBestEffort :: "call_env \<Rightarrow> uuid \<Rightarrow> unit call_handler" where
  "deleteLiveKitRoomBestEffort env callID = bestEffort (DeleteLiveKitRoom env callID)"

definition removeLiveKitParticipantBestEffort :: "call_env \<Rightarrow> uuid \<Rightarrow> uuid \<Rightarrow> unit call_handler" where
  "removeLiveKitParticipantBestEffort env callID userID = bestEffort (RemoveLiveKitParticipant env callID userID)"

subsection \<open>SFU rooms\<close>

text \<open>\<open>SFU.CreateRoom\<close>, whose error the call service only logs, and \<open>SFU.CloseRoom\<close>.\<close>

definition SFU_CreateRoom :: "call_env \<Rightarrow> RoomName \<Rightarrow> unit call_handler" where
  "SFU_CreateRoom env name = (\<lambda>s.
     if name \<in> set (st_sfuRooms s) then (Inl (Opaque ''room already exists''), s)
     else if e_sfuMaxRooms env > 0 \<and> int (length (st_sfuRooms s)) \<ge> e_sfuMaxRooms env
     then (Inl (Opaque ''node has reached the room limit''), s)
     else (Inr (), s\<lparr>st_sfuRooms := st_sfuRooms s @ [name]\<rparr>))"

definition SFU_CloseRoom :: "RoomName \<Rightarrow> unit call_handler" where
  "SFU_CloseRoom name = modifyM (\<lambda>s. s\<lparr>st_sfuRooms := filter (\<lambda>n. n \<noteq> name) (st_sfuRooms s)\<rparr>)"

text \<open>\<open>if s.sfu != nil { s.sfu.CloseRoom(name) }\<close>.\<close>

definition closeSFURoom :: "call_env \<Rightarrow> RoomName \<Rightarrow> unit call_handler" where
  "closeSFURoom env name = (if e_sfu env then SFU_CloseRoom name else returnM ())"

text \<open>A method call through \<open>s.sfu\<close> without a nil test panics when there is no SFU.\<close>

definition derefSFU :: "call_env \<Rightarrow> 'a call_handler \<Rightarrow> 'a call_handler" where
  "derefSFU env m = (if e_sfu env then m else throwM (Opaque ''panic: nil pointer dereference''))"

definition closeAllBreakoutSFURooms :: "call_env \<Rightarrow> uuid \<Rightarrow> unit call_handler" where
  "closeAllBreakoutSFURooms env callID =
     bindM (tryM (readM (Rooms_ListByCall env callID))) (\<lambda>r.
       case r of
         Inl _ \<Rightarrow> returnM ()
       | Inr rooms \<Rightarrow>
           bindM (forM rooms (\<lambda>room.
             if BR_Status room \<noteq> BreakoutRoomStatusActive then returnM ()
             else bindM (closeSFURoom env (breakoutSFURoomID callID (BR_ID room))) (\<lambda>_.
                  let roomName = breakoutLiveKitRoomName callID (BR_ID room)
                  in bindM (cancelBreakoutLiveKitDelete roomName) (\<lambda>_.
                     if e_livekitRooms env then bestEffort (lk_request env (LK_DeleteRoom roomName)) else returnM ())))) (\<lambda>_.
           bestEffort (Rooms_CloseAllByCall env callID)))"

subsection \<open>The chat record of an ended call\<close>

definition joinedParticipants :: "CallParticipant list \<Rightarrow> uuid list \<times> nat" where
  "joinedParticipants participants =
     (let ids = dedup_seen id [] (map CP_UserID (filter (\<lambda>p. CP_JoinedAt p \<noteq> None) participants))
      in (ids, length ids))"

definition callEndedFallbackContent :: "CallEndReason option \<Rightarrow> string" where
  "callEndedFallbackContent reason =
     (if reason = Some CallEndReasonMissed \<or> reason = Some CallEndReasonCancelled then ''Missed call'' else ''Call'')"

text \<open>\<open>int64(d.Seconds())\<close> of a positive duration: whole seconds, rounded down.\<close>

definition buildCallEventPayload :: "Call \<Rightarrow> CallParticipant list \<Rightarrow> callEventPayload" where
  "buildCallEventPayload call participants =
     (let (userIDs0, count0) = joinedParticipants participants;
          duration0 = (case (Call_StartedAt call, Call_EndedAt call) of
                         (Some t0, Some t1) \<Rightarrow> if t1 - t0 > 0 then (t1 - t0) div time_Second else 0
                       | _ \<Rightarrow> 0);
          never = (Call_EndReason call = Some CallEndReasonMissed \<or> Call_EndReason call = Some CallEndReasonCancelled)
      in \<lparr>CE_CallID = Call_ID call, CE_CallType = Call_Type call, CE_EndReason = Call_EndReason call,
          CE_StartedAt = Call_StartedAt call, CE_EndedAt = Call_EndedAt call,
          CE_DurationSeconds = (if never then 0 else duration0),
          CE_InitiatorID = Call_CreatedBy call,
          CE_ParticipantUserIDs = (if never then [] else userIDs0),
          CE_ParticipantCount = (if never then 0 else count0),
          CE_HasRecording = False\<rparr>)"

definition emitCallEndedChatMessage :: "call_env \<Rightarrow> Call \<Rightarrow> unit call_handler" where
  "emitCallEndedChatMessage env call =
     (case Call_ChannelID call of
        None \<Rightarrow> returnM ()
      | Some channelID \<Rightarrow>
          if Call_Type call = CallTypeSelector then returnM ()
          else bindM (tryM (readM (ListParticipants env (Call_ID call)))) (\<lambda>r.
               let participants = (case r of Inl _ \<Rightarrow> [] | Inr ps \<Rightarrow> ps)
               in bindM (id_New env) (\<lambda>newID.
                  let msg = Message_zero\<lparr>Msg_ID := newID, Msg_ChannelID := channelID, Msg_UserID := Call_CreatedBy call,
                             Msg_Content := callEndedFallbackContent (Call_EndReason call),
                             Msg_Type := MessageTypeSystem,
                             Msg_CallEvent := Some (buildCallEventPayload call participants),
                             Msg_CreatedAt := now_of env, Msg_UpdatedAt := now_of env\<rparr>;
                      payload = NewMessagePayload msg None;
                      publish = (\<lambda>subject. doPublish env TypeMessageCreated subject (Call_WorkspaceID call)
                                   channelID (Call_CreatedBy call) payload);
                      enqueue = (\<lambda>subject. enqueueDurableEventTx env TypeMessageCreated subject (Call_WorkspaceID call)
                                   channelID (Call_CreatedBy call) payload)
                  in if e_tx env
                     then bestEffort (WithinTx env
                            (bindM (Messages_Create env msg) (\<lambda>_.
                             bindM (enqueue (ChatSubject channelID)) (\<lambda>_.
                             enqueue (WorkspaceSubject (Call_WorkspaceID call))))))
                     else if \<not> e_messages env then returnM ()
                     else bindM (tryM (Messages_Create env msg)) (\<lambda>created.
                            case created of
                              Inl _ \<Rightarrow> returnM ()
                            | Inr _ \<Rightarrow>
                                bindM (publish (ChatSubject channelID)) (\<lambda>_.
                                publish (WorkspaceSubject (Call_WorkspaceID call)))))))"

subsection \<open>None of these touch calls or participants\<close>

lemma doPublish_quiet [quiet_intros]: "quiet (doPublish env t sj w c u p)"
  unfolding doPublish_def by (rule quiet_modifyM) simp

lemma bestEffort_quiet [quiet_intros]: "quiet m \<Longrightarrow> quiet (bestEffort m)"
  unfolding bestEffort_def by (intro quiet.keeps_bindM quiet.keeps_tryM quiet.keeps_returnM)

lemma publishCallScoped_quiet [quiet_intros]: "quiet (publishCallScoped env t call ch u p)"
  unfolding publishCallScoped_def publishPrivateCallScoped_def
  by (intro quiet_struct quiet_intros)

lemma publishers_quiet [quiet_intros]:
  "quiet (publishCallEvent env t call u)" "quiet (publishParticipantEvent env t call p)"
  "quiet (publishCallInvited env call u v)" "quiet (publishCallControlEvent env t call u pl)"
  "quiet (publishBreakoutEvent env t call pl)" "quiet (publishCallSettingsChanged env call)"
  unfolding publishCallEvent_def publishParticipantEvent_def publishCallInvited_def
    publishCallControlEvent_def publishBreakoutEvent_def publishCallSettingsChanged_def
  by (rule quiet_intros)+

lemma enqueueDurable_quiet [quiet_intros]: "quiet (enqueueDurableEventTx env t sj w c u p)"
  unfolding enqueueDurableEventTx_def by (intro quiet_struct quiet_intros)

lemma enqueueCallScoped_quiet [quiet_intros]: "quiet (enqueueCallScopedEventTx env t call ch u p)"
  unfolding enqueueCallScopedEventTx_def by (intro quiet_struct quiet_intros)

lemma enqueuers_quiet [quiet_intros]:
  "quiet (enqueueCallEventTx env t call u)" "quiet (enqueueParticipantEventTx env t call p)"
  unfolding enqueueCallEventTx_def enqueueParticipantEventTx_def by (rule quiet_intros)+

lemma lk_request_quiet [quiet_intros]: "quiet (lk_request env req)"
  unfolding lk_request_def by (intro quiet.keeps_bindM quiet_modifyM) (auto split: option.splits)

lemma timer_quiet [quiet_intros]:
  "quiet (cancelBreakoutLiveKitDelete n)" "quiet (scheduleBreakoutLiveKitDelete env n)"
  unfolding cancelBreakoutLiveKitDelete_def scheduleBreakoutLiveKitDelete_def
  by (intro quiet_struct quiet_modifyM; simp)+

lemma livekit_quiet [quiet_intros]:
  "quiet (EnsureLiveKitRoom env call)" "quiet (EnsureLiveKitRoomRequired env call)"
  "quiet (EnsureLiveKitBreakoutRoom env call rid)"
  "quiet (deleteLiveKitRoomBestEffort env cid)" "quiet (removeLiveKitParticipantBestEffort env cid u)"
  unfolding EnsureLiveKitRoom_def EnsureLiveKitRoomRequired_def EnsureLiveKitBreakoutRoom_def
    deleteLiveKitRoomBestEffort_def removeLiveKitParticipantBestEffort_def DeleteLiveKitRoom_def
    RemoveLiveKitParticipant_def
  by (intro quiet_struct quiet_intros)+

lemma breakoutDeleteTimerFires_quiet [quiet_intros]: "quiet (breakoutDeleteTimerFires env n)"
  unfolding breakoutDeleteTimerFires_def by (intro quiet_struct quiet_intros)

lemma sfu_quiet [quiet_intros]:
  "quiet (SFU_CreateRoom env n)" "quiet (SFU_CloseRoom n)" "quiet (closeSFURoom env n)"
  unfolding SFU_CloseRoom_def closeSFURoom_def
  by (auto intro!: keepsMI simp: SFU_CreateRoom_def same_core_def core_def modifyM_def)

lemma derefSFU_quiet [quiet_intros]: "quiet m \<Longrightarrow> quiet (derefSFU env m)"
  by (simp add: derefSFU_def)

lemma closeAllBreakoutSFURooms_quiet [quiet_intros]: "quiet (closeAllBreakoutSFURooms env cid)"
  unfolding closeAllBreakoutSFURooms_def Let_def by (intro quiet_struct quiet_intros)

lemma emitCallEndedChatMessage_quiet [quiet_intros]: "quiet (emitCallEndedChatMessage env call)"
  unfolding emitCallEndedChatMessage_def Let_def
  by (intro quiet_struct quiet_intros)

end
