(* ===== verification/CallLifecycle.thy ===== *)
theory CallLifecycle
  imports CallEvents
begin

text \<open>
  The lifecycle handlers of \<open>internal/service/call/service.go\<close>: starting, joining, the waiting
  room, invitations, leaving, ending and cancelling a call, each on its transactional and its
  non-transactional path.
\<close>

subsection \<open>Settings of a new call\<close>

definition validateCallSettings :: "CallType \<Rightarrow> CallSettings \<Rightarrow> go_error + unit" where
  "validateCallSettings callType settings =
     (if (case callType of CallTypeOther _ \<Rightarrow> True | _ \<Rightarrow> False) then Inl (InvalidInput ''invalid call type'')
      else if CS_MaxParticipants settings < 0 then Inl (InvalidInput ''max_participants cannot be negative'')
      else if CS_EntryMode settings \<noteq> EntryModeOther '''' \<and> \<not> EntryMode_Valid (CS_EntryMode settings)
      then Inl (InvalidInput ''invalid entry_mode'')
      else if CS_BreakoutCreation settings \<noteq> BreakoutCreationOther '''' \<and>
              \<not> BreakoutCreationPolicy_Valid (CS_BreakoutCreation settings)
      then Inl (InvalidInput ''invalid breakout_creation'')
      else if CS_MaxBreakoutRooms settings \<noteq> 0 \<and> (CS_MaxBreakoutRooms settings < 1 \<or> CS_MaxBreakoutRooms settings > 8)
      then Inl (InvalidInput ''max_breakout_rooms must be between 1 and 8'')
      else if CS_WhoCanAddGuests settings \<noteq> WhoCanAddGuestsOther '''' \<and> \<not> WhoCanAddGuests_Valid (CS_WhoCanAddGuests settings)
      then Inl (InvalidInput ''invalid who_can_add_guests'')
      else Inr ())"

definition FinalizeNewCallSettings :: "call_env \<Rightarrow> CallType \<Rightarrow> CallSettings \<Rightarrow> CallSettings" where
  "FinalizeNewCallSettings env callType s0 =
     (let s1 = (if callType = CallTypeGroup \<or> callType = CallTypeMeeting then s0\<lparr>CS_BreakoutRooms := True\<rparr> else s0);
          s2 = s1\<lparr>CS_Recording := e_recordingEnabled env, CS_Chat := True\<rparr>;
          s3 = (if CS_MembersCanUnmuteMic s2 = None then s2\<lparr>CS_MembersCanUnmuteMic := Some True\<rparr> else s2);
          s4 = (if CS_MembersCanEnableCamera s3 = None then s3\<lparr>CS_MembersCanEnableCamera := Some True\<rparr> else s3);
          entryMode = ResolvedEntryMode s4;
          s5 = s4\<lparr>CS_EntryMode := entryMode, CS_WaitingRoom := (entryMode = EntryModeManualAdmit)\<rparr>;
          s6 = s5\<lparr>CS_BreakoutCreation := ResolvedBreakoutCreation s5\<rparr>;
          s7 = s6\<lparr>CS_MaxBreakoutRooms := ResolvedMaxBreakoutRooms s6\<rparr>
      in s7\<lparr>CS_WhoCanAddGuests := ResolvedWhoCanAddGuests s7\<rparr>)"

definition maxJoinPasswordBytes :: nat where
  "maxJoinPasswordBytes = 72"

definition verifyJoinPassword :: "call_env \<Rightarrow> string \<Rightarrow> string \<Rightarrow> go_error + unit" where
  "verifyJoinPassword env hash password =
     (if hash = '''' then Inl (Forbidden ''this call is not configured with a password'')
      else if password = '''' then Inl (CallPasswordRequired ''a password is required to join this call'')
      else if \<not> e_bcryptCompare env hash password then Inl (CallPasswordRequired ''incorrect call password'')
      else Inr ())"

subsection \<open>Helpers\<close>

definition markCallEnded :: "call_env \<Rightarrow> CallEndReason \<Rightarrow> Call \<Rightarrow> Call" where
  "markCallEnded env reason call =
     call\<lparr>Call_Status := CallStatusEnded, Call_EndedAt := Some (now_of env), Call_EndReason := Some reason\<rparr>"

definition markParticipantDisconnected :: "call_env \<Rightarrow> ParticipantLeftReason \<Rightarrow> CallParticipant \<Rightarrow> CallParticipant" where
  "markParticipantDisconnected env reason p =
     p\<lparr>CP_Status := ParticipantStatusDisconnected, CP_LeftAt := Some (now_of env), CP_LeftReason := Some reason\<rparr>"

definition guestReconnectGrace :: int where
  "guestReconnectGrace = 30 * time_Second"

definition guestWithinReconnectGrace :: "call_env \<Rightarrow> CallParticipant \<Rightarrow> bool" where
  "guestWithinReconnectGrace env p =
     (case CP_LeftAt p of None \<Rightarrow> False | Some t \<Rightarrow> now_of env - t < guestReconnectGrace)"

definition shouldAutoEndAfterLeave :: "Call \<Rightarrow> CallParticipant list \<Rightarrow> bool" where
  "shouldAutoEndAfterLeave call participants =
     (if Call_Status call = CallStatusEnded then False
      else let activeCount = count_where in_media participants
           in if Call_Type call = CallTypeOneToOne then activeCount < 2 else activeCount = 0)"

definition activeCallInChannel :: "call_env \<Rightarrow> uuid \<Rightarrow> uuid \<Rightarrow> call_state \<Rightarrow> go_error + Call option" where
  "activeCallInChannel env workspaceID channelID s =
     (case ListActiveByWorkspace env workspaceID s of
        Inl err \<Rightarrow> Inl (Internal ''failed to list active calls'' (Some err))
      | Inr calls \<Rightarrow> Inr (find (\<lambda>c. Call_ChannelID c = Some channelID) calls))"

fun user_active_loop :: "call_env \<Rightarrow> uuid \<Rightarrow> call_state \<Rightarrow> Call list \<Rightarrow> go_error + Call option" where
  "user_active_loop env userID s [] = Inr None"
| "user_active_loop env userID s (c # calls) =
     (case GetParticipant env (Call_ID c) userID s of
        Inl err \<Rightarrow>
          if has_code CodeNotFound err then user_active_loop env userID s calls
          else Inl (Internal ''failed to check user participation'' (Some err))
      | Inr p \<Rightarrow>
          if CP_Status p = ParticipantStatusConnected then Inr (Some c) else user_active_loop env userID s calls)"

definition userActiveCall :: "call_env \<Rightarrow> uuid \<Rightarrow> uuid \<Rightarrow> call_state \<Rightarrow> go_error + Call option" where
  "userActiveCall env workspaceID userID s =
     (case ListActiveByWorkspace env workspaceID s of
        Inl err \<Rightarrow> Inl (Internal ''failed to list active calls'' (Some err))
      | Inr calls \<Rightarrow> user_active_loop env userID s calls)"

text \<open>The loop shared by the two invite paths; \<open>seen\<close> holds the ids already met, kept in order.\<close>

fun validate_targets :: "call_env \<Rightarrow> uuid \<Rightarrow> go_error \<Rightarrow> go_error \<Rightarrow> string \<Rightarrow> uuid list \<Rightarrow> uuid list \<Rightarrow> go_error + uuid list" where
  "validate_targets env workspaceID nilErr notMember failed seen [] = Inr seen"
| "validate_targets env workspaceID nilErr notMember failed seen (u # us) =
     (if u = uuid_Nil then Inl nilErr
      else if u \<in> set seen then validate_targets env workspaceID nilErr notMember failed seen us
      else (case GetMember (e_dir env) workspaceID u of
              Inl err \<Rightarrow> if has_code CodeNotFound err then Inl notMember else Inl (Internal failed (Some err))
            | Inr _ \<Rightarrow> validate_targets env workspaceID nilErr notMember failed (seen @ [u]) us))"

definition validateInvitedMemberIDs :: "call_env \<Rightarrow> uuid \<Rightarrow> uuid list \<Rightarrow> go_error + uuid list" where
  "validateInvitedMemberIDs env workspaceID userIDs =
     validate_targets env workspaceID
       (InvalidInput ''invited_member_ids must not contain nil'')
       (InvalidInput ''invited members must belong to the workspace'')
       ''failed to verify invited member'' [] userIDs"

subsection \<open>Starting a call\<close>

record StartCallAccessOptions =
  AO_AccessLevel :: AccessLevel
  AO_InvitedMemberIDs :: "uuid list"

text \<open>The channel checks of \<open>StartCallWithAccess\<close>.\<close>

definition start_channel_check :: "call_env \<Rightarrow> uuid \<Rightarrow> uuid \<Rightarrow> uuid option \<Rightarrow> call_state \<Rightarrow> go_error + unit" where
  "start_channel_check env workspaceID userID channelID s =
     (case channelID of
        None \<Rightarrow> Inr ()
      | Some chID \<Rightarrow>
          (case Channel_GetByID (e_dir env) chID of
             Inl err \<Rightarrow>
               if has_code CodeNotFound err then Inl (NotFound ''channel not found'')
               else Inl (Internal ''failed to get channel'' (Some err))
           | Inr ch \<Rightarrow>
               if Ch_WorkspaceID ch \<noteq> Some workspaceID then Inl (NotFound ''channel not found'')
               else (case requireChannelAccess env ch userID of
                       Inl err \<Rightarrow> Inl err
                     | Inr _ \<Rightarrow>
                         (case activeCallInChannel env workspaceID chID s of
                            Inl err \<Rightarrow> Inl err
                          | Inr existing \<Rightarrow>
                              if existing \<noteq> None
                              then Inl (ChannelCallExists ''channel already has an active call'')
                              else Inr ()))))"

definition start_password_hash :: "call_env \<Rightarrow> EntryMode \<Rightarrow> string \<Rightarrow> go_error + string" where
  "start_password_hash env entryMode joinPassword =
     (if entryMode \<noteq> EntryModePassword then Inr ''''
      else if joinPassword = '''' then Inl (InvalidInput ''a password is required for password entry mode'')
      else if length joinPassword > maxJoinPasswordBytes
      then Inl (InvalidInput ''call password must be at most 72 bytes'')
      else (case e_bcryptHash env joinPassword of
              None \<Rightarrow> Inl (Internal ''failed to hash call password'' (Some (Opaque ''bcrypt'')))
            | Some h \<Rightarrow> Inr h))"

definition start_access_level :: "CallType \<Rightarrow> uuid option \<Rightarrow> StartCallAccessOptions \<Rightarrow> go_error + AccessLevel" where
  "start_access_level callType channelID opts =
     (case (if AO_AccessLevel opts = AccessLevelOther '''' then Inr AccessLevelPublic
            else if \<not> AccessLevel_Valid (AO_AccessLevel opts) then Inl (InvalidInput ''invalid access_level'')
            else Inr (AO_AccessLevel opts)) of
        Inl err \<Rightarrow> Inl err
      | Inr accessLevel \<Rightarrow>
          if AO_InvitedMemberIDs opts \<noteq> [] \<and> accessLevel \<noteq> AccessLevelPrivate
          then Inl (InvalidInput ''invited_member_ids require private access'')
          else if accessLevel = AccessLevelPrivate \<and> (channelID \<noteq> None \<or> callType = CallTypeOneToOne)
          then Inl (InvalidInput ''private access is only supported for channel-less multi-party calls'')
          else Inr accessLevel)"

text \<open>The two write paths of \<open>StartCallWithAccess\<close>: inside a transaction, and statement by statement.\<close>

definition start_write :: "call_env \<Rightarrow> Call \<Rightarrow> CallParticipant \<Rightarrow> uuid list \<Rightarrow> uuid \<Rightarrow> unit call_handler" where
  "start_write env call participant invitedMemberIDs userID =
     (let invite = (if Call_AccessLevel call = AccessLevelPrivate \<and> invitedMemberIDs \<noteq> []
                    then AddInvitedMembers env (Call_ID call) invitedMemberIDs userID else returnM ());
          cleanup = (\<lambda>msg m. bindM (tryM m) (\<lambda>r.
            case r of
              Inr _ \<Rightarrow> returnM ()
            | Inl err \<Rightarrow> bindM (deleteLiveKitRoomBestEffort env (Call_ID call)) (\<lambda>_. throwM (Internal msg (Some err)))))
      in if e_tx env
         then cleanup ''failed to create call'' (WithinTx env
                (bindM (Calls_Create env call) (\<lambda>_.
                 bindM (AddParticipant env participant) (\<lambda>_.
                 bindM invite (\<lambda>_.
                 enqueueCallEventTx env TypeCallStarted call userID)))))
         else bindM (cleanup ''failed to create call'' (Calls_Create env call)) (\<lambda>_.
              bindM (cleanup ''failed to add host participant'' (AddParticipant env participant)) (\<lambda>_.
              bindM (cleanup ''failed to add private call invited members'' invite) (\<lambda>_.
              publishCallEvent env TypeCallStarted call userID))))"

definition StartCallWithAccess :: "call_env \<Rightarrow> uuid \<Rightarrow> uuid \<Rightarrow> CallType \<Rightarrow> string \<Rightarrow> uuid option \<Rightarrow> CallSettings \<Rightarrow>
    string \<Rightarrow> StartCallAccessOptions \<Rightarrow> Call call_handler" where
  "StartCallWithAccess env workspaceID userID callType title channelID settings0 joinPassword opts =
     bindM (readM (\<lambda>_. validateCallSettings callType settings0)) (\<lambda>_.
     bindM (readM (\<lambda>_. start_access_level callType channelID opts)) (\<lambda>accessLevel.
     let settings = FinalizeNewCallSettings env callType settings0
     in bindM (readM (\<lambda>_. start_password_hash env (CS_EntryMode settings) joinPassword)) (\<lambda>joinPasswordHash.
        bindM (readM (\<lambda>_. requireWorkspaceMember env workspaceID userID)) (\<lambda>_.
        bindM (readM (\<lambda>_. validateInvitedMemberIDs env workspaceID (AO_InvitedMemberIDs opts))) (\<lambda>invitedMemberIDs.
        bindM (readM (start_channel_check env workspaceID userID channelID)) (\<lambda>_.
        bindM (readM (userActiveCall env workspaceID userID)) (\<lambda>otherCall.
        bindM (failIf (otherCall \<noteq> None) (UserInCall ''you are already in another call'')) (\<lambda>_.
        bindM (id_New env) (\<lambda>callID.
        bindM (id_New env) (\<lambda>participantID.
        let call = \<lparr>Call_ID = callID, Call_WorkspaceID = workspaceID, Call_ChannelID = channelID,
              Call_Type = callType, Call_Status = CallStatusRinging, Call_Title = title,
              Call_CreatedBy = userID, Call_ScheduledCallID = None, Call_AccessLevel = accessLevel,
              Call_Settings = settings, Call_JoinPasswordHash = joinPasswordHash,
              Call_StartedAt = Some (now_of env), Call_EndedAt = None, Call_EndReason = None,
              Call_FeaturedShareUserID = None, Call_PinnedParticipantUserID = None,
              Call_CreatedAt = now_of env\<rparr>;
            participant = \<lparr>CP_ID = participantID, CP_CallID = callID, CP_UserID = userID,
              CP_BreakoutRoomID = None, CP_Role = CallRoleHost, CP_Status = ParticipantStatusConnected,
              CP_AudioMuted = False, CP_VideoMuted = False, CP_ScreenSharing = False,
              CP_CanScreenShare = False, CP_JoinedAt = Some (now_of env), CP_LeftAt = None, CP_LeftReason = None\<rparr>
        in bindM (mapErrM mediaRoomPreparationError (EnsureLiveKitRoomRequired env call)) (\<lambda>_.
           bindM (start_write env call participant invitedMemberIDs userID) (\<lambda>_.
           bindM (if e_sfu env \<and> e_servesLocally env call then bestEffort (SFU_CreateRoom env (MainRoom callID))
                  else returnM ()) (\<lambda>_.
           returnM call)))))))))))))"

definition StartCall :: "call_env \<Rightarrow> uuid \<Rightarrow> uuid \<Rightarrow> CallType \<Rightarrow> string \<Rightarrow> uuid option \<Rightarrow> CallSettings \<Rightarrow> string \<Rightarrow> Call call_handler" where
  "StartCall env workspaceID userID callType title channelID settings joinPassword =
     StartCallWithAccess env workspaceID userID callType title channelID settings joinPassword
       \<lparr>AO_AccessLevel = AccessLevelOther '''', AO_InvitedMemberIDs = []\<rparr>"

subsection \<open>Joining\<close>

definition connectInvitedParticipant :: "call_env \<Rightarrow> Call \<Rightarrow> CallParticipant \<Rightarrow> CallParticipant call_handler" where
  "connectInvitedParticipant env call participant =
     (let joined = participant\<lparr>CP_Status := ParticipantStatusConnected, CP_JoinedAt := Some (now_of env)\<rparr>;
          activate = (if Call_Status call = CallStatusRinging then ActivateRinging env (Call_ID call) else returnM False)
      in if e_tx env
         then bindM (mapErrM (serviceError ''failed to connect invited participant'') (WithinTx env
                (bindM (UpdateParticipantStatus env (CP_ID participant) ParticipantStatusConnected) (\<lambda>_.
                 bindM activate (\<lambda>_.
                 enqueueParticipantEventTx env TypeCallParticipantJoined call joined))))) (\<lambda>_.
              returnM joined)
         else bindM (mapErrM (\<lambda>err. Internal ''failed to update participant status'' (Some err))
                (UpdateParticipantStatus env (CP_ID participant) ParticipantStatusConnected)) (\<lambda>_.
              bindM (mapErrM (serviceError ''failed to activate call'') activate) (\<lambda>_.
              bindM (publishParticipantEvent env TypeCallParticipantJoined call joined) (\<lambda>_.
              returnM joined))))"

text \<open>The capacity check of \<open>JoinCall\<close>.\<close>

definition join_capacity :: "call_env \<Rightarrow> Call \<Rightarrow> call_state \<Rightarrow> go_error + unit" where
  "join_capacity env call s =
     (let effectiveCap = effectiveParticipantCap env call
      in if effectiveCap > 0
         then (case ListParticipants env (Call_ID call) s of
                 Inl err \<Rightarrow> Inl (Internal ''failed to check call capacity'' (Some err))
               | Inr participants \<Rightarrow>
                   if int (count_where in_media participants) \<ge> effectiveCap
                   then Inl (Conflict ''call has reached maximum participant capacity'')
                   else Inr ())
         else Inr ())"

text \<open>\<open>JoinCall\<close> for a user who already has a participant row.\<close>

definition join_existing :: "call_env \<Rightarrow> Call \<Rightarrow> bool \<Rightarrow> CallParticipant \<Rightarrow> CallParticipant call_handler" where
  "join_existing env call guest existing =
     (if CP_Status existing = ParticipantStatusDeclined
      then throwM (WaitingRoomDeclined ''the host declined your request to join'')
      else if CP_Status existing = ParticipantStatusWaiting then returnM existing
      else if CP_Status existing = ParticipantStatusInvited \<and> \<not> guest
      then connectInvitedParticipant env call existing
      else if guest \<and> CP_Status existing \<noteq> ParticipantStatusConnected \<and> \<not> guestWithinReconnectGrace env existing
      then bindM (mapErrM (\<lambda>err. Internal ''failed to return guest to waiting room'' (Some err))
             (UpdateParticipantStatus env (CP_ID existing) ParticipantStatusWaiting)) (\<lambda>_.
           let waiting = existing\<lparr>CP_Status := ParticipantStatusWaiting\<rparr>
           in bindM (publishParticipantEvent env TypeWaitingRoomJoined call waiting) (\<lambda>_.
              returnM waiting))
      else let connected = existing\<lparr>CP_Status := ParticipantStatusConnected\<rparr>;
               rejoined = connected\<lparr>CP_JoinedAt := Some (now_of env)\<rparr>
           in bindM (mapErrM (\<lambda>err. Internal ''failed to update participant status'' (Some err))
                (if e_tx env
                 then WithinTx env
                        (bindM (UpdateParticipantStatus env (CP_ID existing) ParticipantStatusConnected) (\<lambda>_.
                         enqueueParticipantEventTx env TypeCallParticipantJoined call connected))
                 else UpdateParticipantStatus env (CP_ID existing) ParticipantStatusConnected)) (\<lambda>_.
              bindM (if e_tx env then returnM () else publishParticipantEvent env TypeCallParticipantJoined call rejoined) (\<lambda>_.
              returnM rejoined)))"

text \<open>The initial status of a new participant from the entry mode.\<close>

definition join_status :: "call_env \<Rightarrow> Call \<Rightarrow> bool \<Rightarrow> string \<Rightarrow> go_error + ParticipantStatus" where
  "join_status env call guest joinPassword =
     (let entryMode = ResolvedEntryMode (Call_Settings call)
      in if guest then Inr ParticipantStatusWaiting
         else if entryMode = EntryModeManualAdmit then Inr ParticipantStatusWaiting
         else if entryMode = EntryModePassword
         then (case verifyJoinPassword env (Call_JoinPasswordHash call) joinPassword of
                 Inl err \<Rightarrow> Inl err
               | Inr _ \<Rightarrow> Inr ParticipantStatusConnected)
         else Inr ParticipantStatusConnected)"

definition join_write :: "call_env \<Rightarrow> Call \<Rightarrow> CallParticipant \<Rightarrow> CallParticipant call_handler" where
  "join_write env call participant =
     (if e_tx env
      then bindM (mapErrM (serviceError ''failed to add participant'') (WithinTx env
             (bindM (AddParticipant env participant) (\<lambda>_.
              if CP_Status participant = ParticipantStatusWaiting
              then enqueueParticipantEventTx env TypeWaitingRoomJoined call participant
              else bindM (if Call_Status call = CallStatusRinging
                          then bindM (ActivateRinging env (Call_ID call)) (\<lambda>activated.
                               failIf (\<not> activated) (Conflict ''call is no longer ringing''))
                          else returnM ()) (\<lambda>_.
                   enqueueParticipantEventTx env TypeCallParticipantJoined call participant))))) (\<lambda>_.
           returnM participant)
      else bindM (mapErrM (\<lambda>err. Internal ''failed to add participant'' (Some err)) (AddParticipant env participant)) (\<lambda>_.
           if CP_Status participant = ParticipantStatusWaiting
           then bindM (publishParticipantEvent env TypeWaitingRoomJoined call participant) (\<lambda>_. returnM participant)
           else bindM (if Call_Status call = CallStatusRinging
                       then bindM (mapErrM (serviceError ''failed to activate call'') (ActivateRinging env (Call_ID call))) (\<lambda>activated.
                            if \<not> activated
                            then bindM (tryM (Calls_RemoveParticipant env (Call_ID call) (CP_UserID participant))) (\<lambda>_.
                                 throwM (Conflict ''call is no longer ringing''))
                            else returnM ())
                       else returnM ()) (\<lambda>_.
                bindM (publishParticipantEvent env TypeCallParticipantJoined call participant) (\<lambda>_.
                returnM participant))))"

definition JoinCall :: "call_env \<Rightarrow> uuid \<Rightarrow> uuid \<Rightarrow> uuid \<Rightarrow> string \<Rightarrow> CallParticipant call_handler" where
  "JoinCall env workspaceID callID userID joinPassword =
     bindM (readM (requireCallAccess env workspaceID callID userID)) (\<lambda>call.
     bindM (failIf (Call_Status call = CallStatusEnded) (CallEnded ''call has already ended'')) (\<lambda>_.
     let guest = isGuestUser env (Call_WorkspaceID call) userID
     in bindM (readM (join_capacity env call)) (\<lambda>_.
        bindM (mapErrM mediaRoomPreparationError (EnsureLiveKitRoomRequired env call)) (\<lambda>_.
        bindM (tryM (readM (GetParticipant env callID userID))) (\<lambda>r.
        case r of
          Inr existing \<Rightarrow> join_existing env call guest existing
        | Inl err \<Rightarrow>
            if \<not> has_code CodeNotFound err
            then throwM (Internal ''failed to check existing participant'' (Some err))
            else bindM (readM (\<lambda>_. join_status env call guest joinPassword)) (\<lambda>initialStatus.
                 bindM (id_New env) (\<lambda>participantID.
                 join_write env call
                   \<lparr>CP_ID = participantID, CP_CallID = callID, CP_UserID = userID, CP_BreakoutRoomID = None,
                    CP_Role = (if Call_Type call = CallTypeWebinar \<or> Call_Type call = CallTypeSelector
                               then CallRoleViewer else CallRoleParticipant),
                    CP_Status = initialStatus, CP_AudioMuted = CS_MuteOnJoin (Call_Settings call),
                    CP_VideoMuted = False, CP_ScreenSharing = False, CP_CanScreenShare = False,
                    CP_JoinedAt = Some (now_of env), CP_LeftAt = None, CP_LeftReason = None\<rparr>)))))))"

subsection \<open>The waiting room\<close>

definition activate_after_admission :: "call_env \<Rightarrow> Call \<Rightarrow> unit call_handler" where
  "activate_after_admission env call =
     (if Call_Status call = CallStatusRinging
      then bindM (mapErrM (serviceError ''failed to activate call'') (ActivateRinging env (Call_ID call))) (\<lambda>activated.
           failIf (\<not> activated) (Conflict ''call is no longer ringing''))
      else returnM ())"

definition AdmitParticipant :: "call_env \<Rightarrow> uuid \<Rightarrow> uuid \<Rightarrow> uuid \<Rightarrow> uuid \<Rightarrow> unit call_handler" where
  "AdmitParticipant env workspaceID callID userID targetUserID =
     bindM (readM (requireCallAccess env workspaceID callID userID)) (\<lambda>call.
     bindM (readM (requireHostOrCoHost env callID userID)) (\<lambda>_.
     bindM (readM (participant_or env callID targetUserID (NotFound ''participant not found'') ''failed to get participant'')) (\<lambda>participant.
     bindM (failIf (CP_Status participant \<noteq> ParticipantStatusWaiting) (Conflict ''participant is not in the waiting room'')) (\<lambda>_.
     bindM (readM (canUserEnterPrivateChannelLessCall env call targetUserID)) (\<lambda>_.
     bindM (mapErrM (\<lambda>err. Internal ''failed to admit participant'' (Some err))
             (UpdateParticipantStatus env (CP_ID participant) ParticipantStatusConnected)) (\<lambda>_.
     bindM (publishParticipantEvent env TypeWaitingRoomAdmitted call (participant\<lparr>CP_Status := ParticipantStatusConnected\<rparr>)) (\<lambda>_.
     activate_after_admission env call)))))))"

definition AdmitAll :: "call_env \<Rightarrow> uuid \<Rightarrow> uuid \<Rightarrow> uuid \<Rightarrow> unit call_handler" where
  "AdmitAll env workspaceID callID userID =
     bindM (readM (requireCallAccess env workspaceID callID userID)) (\<lambda>call.
     bindM (readM (requireHostOrCoHost env callID userID)) (\<lambda>_.
     bindM (mapErrM (\<lambda>err. Internal ''failed to list participants'' (Some err)) (readM (ListParticipants env callID))) (\<lambda>participants.
     bindM (forM participants (\<lambda>p.
       if CP_Status p \<noteq> ParticipantStatusWaiting then returnM ()
       else bindM (readM (canUserEnterPrivateChannelLessCall env call (CP_UserID p))) (\<lambda>_.
            bindM (tryM (UpdateParticipantStatus env (CP_ID p) ParticipantStatusConnected)) (\<lambda>r.
            case r of
              Inl _ \<Rightarrow> returnM ()
            | Inr _ \<Rightarrow> publishParticipantEvent env TypeWaitingRoomAdmitted call (p\<lparr>CP_Status := ParticipantStatusConnected\<rparr>))))) (\<lambda>_.
     activate_after_admission env call))))"

definition RejectParticipant :: "call_env \<Rightarrow> uuid \<Rightarrow> uuid \<Rightarrow> uuid \<Rightarrow> uuid \<Rightarrow> unit call_handler" where
  "RejectParticipant env workspaceID callID userID targetUserID =
     bindM (readM (requireCallAccess env workspaceID callID userID)) (\<lambda>call.
     bindM (readM (requireHostOrCoHost env callID userID)) (\<lambda>_.
     bindM (readM (participant_or env callID targetUserID (NotFound ''participant not found'') ''failed to get participant'')) (\<lambda>participant.
     bindM (failIf (CP_Status participant \<noteq> ParticipantStatusWaiting) (Conflict ''participant is not in the waiting room'')) (\<lambda>_.
     if isGuestUser env (Call_WorkspaceID call) targetUserID
     then bindM (mapErrM (\<lambda>err. Internal ''failed to reject participant'' (Some err))
                  (UpdateParticipantStatus env (CP_ID participant) ParticipantStatusDeclined)) (\<lambda>_.
          bindM (publishParticipantEvent env TypeWaitingRoomRejected call (participant\<lparr>CP_Status := ParticipantStatusDeclined\<rparr>)) (\<lambda>_.
          removeLiveKitParticipantBestEffort env callID targetUserID))
     else bindM (mapErrM (\<lambda>err. Internal ''failed to reject participant'' (Some err))
                  (Calls_RemoveParticipant env callID targetUserID)) (\<lambda>_.
          bindM (publishParticipantEvent env TypeWaitingRoomRejected call (participant\<lparr>CP_Status := ParticipantStatusDisconnected\<rparr>)) (\<lambda>_.
          removeLiveKitParticipantBestEffort env callID targetUserID))))))"

definition ListWaiting :: "call_env \<Rightarrow> uuid \<Rightarrow> uuid \<Rightarrow> uuid \<Rightarrow> call_state \<Rightarrow> go_error + CallParticipant list" where
  "ListWaiting env workspaceID callID userID s =
     (case requireCallAccess env workspaceID callID userID s of
        Inl err \<Rightarrow> Inl err
      | Inr _ \<Rightarrow>
          (case requireHostOrCoHost env callID userID s of
             Inl err \<Rightarrow> Inl err
           | Inr _ \<Rightarrow>
               (case ListParticipants env callID s of
                  Inl err \<Rightarrow> Inl (Internal ''failed to list participants'' (Some err))
                | Inr participants \<Rightarrow> Inr (filter (\<lambda>p. CP_Status p = ParticipantStatusWaiting) participants))))"

subsection \<open>Invitations\<close>

record InviteResult =
  IR_Invited :: "CallParticipant list"
  IR_Skipped :: "(uuid \<times> string) list"

text \<open>The body of the second phase of \<open>InviteParticipants\<close>.\<close>

definition invite_one :: "call_env \<Rightarrow> uuid \<Rightarrow> Call \<Rightarrow> uuid \<Rightarrow> InviteResult \<Rightarrow> uuid \<Rightarrow> InviteResult call_handler" where
  "invite_one env workspaceID call actorUserID result targetUserID =
     (let callID = Call_ID call;
          skip = (\<lambda>reason. result\<lparr>IR_Skipped := IR_Skipped result @ [(targetUserID, reason)]\<rparr>)
      in bindM (tryM (readM (CanAccessCall env workspaceID callID targetUserID))) (\<lambda>access.
         case access of
           Inl err \<Rightarrow>
             if has_code CodeForbidden err then returnM (skip ''no_access'')
             else throwM (Internal ''failed to verify call access'' (Some err))
         | Inr _ \<Rightarrow>
             bindM (tryM (readM (GetParticipant env callID targetUserID))) (\<lambda>r.
             case r of
               Inl err \<Rightarrow>
                 if \<not> has_code CodeNotFound err then throwM (Internal ''failed to get participant'' (Some err))
                 else bindM (id_New env) (\<lambda>participantID.
                      let participant = \<lparr>CP_ID = participantID, CP_CallID = callID, CP_UserID = targetUserID,
                            CP_BreakoutRoomID = None, CP_Role = CallRoleParticipant, CP_Status = ParticipantStatusInvited,
                            CP_AudioMuted = False, CP_VideoMuted = False, CP_ScreenSharing = False,
                            CP_CanScreenShare = False, CP_JoinedAt = None, CP_LeftAt = None, CP_LeftReason = None\<rparr>
                      in bindM (mapErrM (\<lambda>err. Internal ''failed to invite participant'' (Some err)) (AddParticipant env participant)) (\<lambda>_.
                         bindM (publishCallInvited env call targetUserID actorUserID) (\<lambda>_.
                         returnM (result\<lparr>IR_Invited := IR_Invited result @ [participant]\<rparr>))))
             | Inr existing \<Rightarrow>
                 (case CP_Status existing of
                    ParticipantStatusConnected \<Rightarrow> returnM (skip ''already_connected'')
                  | ParticipantStatusJoining \<Rightarrow> returnM (skip ''joining'')
                  | ParticipantStatusWaiting \<Rightarrow> returnM (skip ''waiting'')
                  | _ \<Rightarrow>
                      bindM (if CP_Status existing \<noteq> ParticipantStatusInvited
                             then mapErrM (\<lambda>err. Internal ''failed to invite participant'' (Some err))
                                    (UpdateParticipantStatus env (CP_ID existing) ParticipantStatusInvited)
                             else returnM ()) (\<lambda>_.
                      bindM (publishCallInvited env call targetUserID actorUserID) (\<lambda>_.
                      returnM (result\<lparr>IR_Invited := IR_Invited result @ [existing\<lparr>CP_Status := ParticipantStatusInvited\<rparr>]\<rparr>)))))))"

definition InviteParticipants :: "call_env \<Rightarrow> uuid \<Rightarrow> uuid \<Rightarrow> uuid \<Rightarrow> uuid list \<Rightarrow> InviteResult call_handler" where
  "InviteParticipants env workspaceID callID actorUserID targetUserIDs =
     bindM (readM (requireCallAccess env workspaceID callID actorUserID)) (\<lambda>call.
     bindM (failIf (Call_Status call = CallStatusEnded) (Forbidden ''call has already ended'')) (\<lambda>_.
     bindM (readM (requireHostOrCoHost env callID actorUserID)) (\<lambda>_.
     bindM (readM (\<lambda>_. validate_targets env (Call_WorkspaceID call)
             (InvalidInput ''user_ids must not contain nil'') (Unprocessable ''user is not a workspace member'')
             ''failed to verify workspace membership'' [] targetUserIDs)) (\<lambda>targets.
     bindM (if isPrivateChannelLessCall call \<and> targets \<noteq> []
            then mapErrM (\<lambda>err. Internal ''failed to add private call invited members'' (Some err))
                   (AddInvitedMembers env callID targets actorUserID)
            else returnM ()) (\<lambda>_.
     foldM (invite_one env workspaceID call actorUserID) \<lparr>IR_Invited = [], IR_Skipped = []\<rparr> targets)))))"

definition DeclineCall :: "call_env \<Rightarrow> uuid \<Rightarrow> uuid \<Rightarrow> uuid \<Rightarrow> unit call_handler" where
  "DeclineCall env workspaceID callID userID =
     bindM (readM (requireCallAccess env workspaceID callID userID)) (\<lambda>call.
     bindM (tryM (readM (GetParticipant env callID userID))) (\<lambda>r.
     case r of
       Inl err \<Rightarrow>
         if has_code CodeNotFound err then returnM () else throwM (Internal ''failed to get participant'' (Some err))
     | Inr participant \<Rightarrow>
         if CP_Status participant \<noteq> ParticipantStatusInvited \<and> CP_Status participant \<noteq> ParticipantStatusWaiting
         then returnM ()
         else bindM (mapErrM (\<lambda>err. Internal ''failed to decline call'' (Some err))
                (UpdateParticipantStatus env (CP_ID participant) ParticipantStatusDeclined)) (\<lambda>_.
              publishParticipantEvent env TypeCallParticipantUpdated call (participant\<lparr>CP_Status := ParticipantStatusDeclined\<rparr>))))"

subsection \<open>The handlers are runs of the specification\<close>

lemma sim_call_okI: "(call_ok (st_db s) \<Longrightarrow> sim s s') \<Longrightarrow> sim s s'"
  by (simp add: sim_def)

lemma call_okD:
  assumes "call_ok db"
  shows "keys_ok db"
    and "part_of db (c, u) = Some (role, ps) \<Longrightarrow> live_status ps \<Longrightarrow> status_of db c \<noteq> Some CallStatusEnded"
    and "part_of db (c, u) = Some (role, ps) \<Longrightarrow> status_of db c \<noteq> None"
proof -
  have a: "keys_ok db" "no_zombies (roster_of db)" "no_orphans (roster_of db)"
    using assms by (simp_all add: call_ok_def)
  show "keys_ok db" by (rule a)
  show "status_of db c \<noteq> Some CallStatusEnded" if "part_of db (c, u) = Some (role, ps)" "live_status ps"
    using a(2) that by (fastforce simp: no_zombies_def roster_of_def)
  show "status_of db c \<noteq> None" if "part_of db (c, u) = Some (role, ps)"
    using a(3) that unfolding no_orphans_def roster_of_def by (metis option.discI roster.select_convs)
qed

lemma row_open:
  assumes "call_ok db" and "p \<in> set (db_parts db)"
    and "status_of db (CP_CallID p) \<noteq> Some CallStatusEnded \<or> live_status (CP_Status p)"
  shows "open_rows db (CP_ID p)"
proof -
  note k = call_okD(1) [OF assms(1)]
  have "status_of db (CP_CallID p) \<noteq> Some CallStatusEnded"
    using assms(3) call_okD(2) [OF assms(1) part_of_row [OF k assms(2)]] by blast
  moreover have "q = p" if "q \<in> set (db_parts db)" "CP_ID q = CP_ID p" for q
    using same_id_row [OF k that(1) assms(2) that(2)] .
  ultimately show ?thesis unfolding open_rows_def by blast
qed

lemma update_row_sim:
  assumes "p \<in> set (db_parts (st_db s))"
    and "live_status st \<Longrightarrow> status_of (st_db s) (CP_CallID p) \<noteq> Some CallStatusEnded \<or> live_status (CP_Status p)"
  shows "sim s (snd (UpdateParticipantStatus env (CP_ID p) st s))"
  by (rule sim_call_okI, rule UpdateParticipantStatus_sim, rule row_open) (use assms in auto)

lemma update_dead_sim [repo_sim]: "\<not> live_status st \<Longrightarrow> sim s (snd (UpdateParticipantStatus env pid st s))"
  by (intro UpdateParticipantStatus_sim) simp

lemma add_dead_sim [repo_sim]:
  "\<not> live_status (CP_Status p) \<Longrightarrow> CP_Role p \<noteq> CallRoleHost \<Longrightarrow> sim s (snd (AddParticipant env p s))"
  by (intro AddParticipant_sim) simp_all

text \<open>Handlers whose every statement is a run unconditionally compose structurally.\<close>

lemmas sim_struct =
  sim.keeps_bindM sim.keeps_mapErrM sim.keeps_tryM sim.keeps_returnM sim.keeps_throwM
  sim.keeps_readM sim.keeps_getM sim.keeps_failIf sim.keeps_forM sim.keeps_foldM
  sim.keeps_If sim.keeps_case_option sim.keeps_case_sum

lemma sim_quiet: "quiet m \<Longrightarrow> keepsM sim m"
  by (rule keepsMI) (rule quiet_sim)

lemma sim_tx_keeps: "keepsM sim m \<Longrightarrow> keepsM sim (WithinTx env m)"
  by (rule keepsMI) (simp add: sim_tx keepsMD)

lemma core_same:
  "core s' = core s \<Longrightarrow> db_calls (st_db s') = db_calls (st_db s) \<and> db_parts (st_db s') = db_parts (st_db s) \<and>
     status_of (st_db s') = status_of (st_db s)"
  using core_eq_roster [of s' s] by (simp add: core_def roster_of_def)

text \<open>A statement that depends on the state, followed by statements that are runs anyway.\<close>

lemma sim_first: "sim s (snd (m s)) \<Longrightarrow> (\<And>x. keepsM sim (k x)) \<Longrightarrow> sim s (snd (bindM m k s))"
  by (rule sim_bind) (auto dest: keepsMD)

lemma sim_mapErr: "sim s (snd (m s)) \<Longrightarrow> sim s (snd (mapErrM h m s))"
  by simp

lemma sim_try: "sim s (snd (m s)) \<Longrightarrow> sim s (snd (tryM m s))"
  by simp

lemma sim_if: "(b \<Longrightarrow> sim s (snd (m s))) \<Longrightarrow> (\<not> b \<Longrightarrow> sim s (snd (m' s))) \<Longrightarrow> sim s (snd ((if b then m else m') s))"
  by simp

lemma sim_return: "sim s (snd (returnM x s))" "sim s (snd (throwM e s))"
  by simp_all

lemmas sim_exec_rules = sim_first sim_mapErr sim_try sim_if sim_tx sim_return

named_theorems sim_intros \<open>operations that are runs of the specification from every state\<close>

lemma repo_keeps [sim_intros]:
  "keepsM sim (ActivateRinging env cid)" "keepsM sim (EndWithReasonIfNotEnded env cid reason)"
  "keepsM sim (CancelRingingWithReason env cid reason)" "keepsM sim (UpdateSettings env cid st)"
  "keepsM sim (UpdateAccessLevel env cid lv)" "keepsM sim (SetFeaturedShareUserID env cid fu)"
  "keepsM sim (SetPinnedParticipantUserID env cid fu)" "keepsM sim (Calls_TransferHost env cid u v)"
  "keepsM sim (DisconnectParticipantIfConnectedWithReason env pid lr)"
  "keepsM sim (Calls_RemoveParticipant env cid u)" "keepsM sim (UpdateParticipantMedia env pid a vm sc)"
  "keepsM sim (SetCanScreenShare env pid b)" "keepsM sim (AssignParticipant env cid u rid)"
  "keepsM sim (UnassignParticipant env cid u)" "keepsM sim (UnassignAllByRoom env rid)"
  by (intro keepsMI repo_sim)+

lemma dead_keeps [sim_intros]:
  "\<not> live_status st \<Longrightarrow> keepsM sim (UpdateParticipantStatus env pid st)"
  "\<not> live_status (CP_Status p) \<Longrightarrow> CP_Role p \<noteq> CallRoleHost \<Longrightarrow> keepsM sim (AddParticipant env p)"
  "role \<noteq> CallRoleHost \<Longrightarrow> keepsM sim (Calls_UpdateParticipantRole env pid role)"
  by (intro keepsMI repo_sim; simp)+

lemmas sim_quiets [sim_intros] = quiet_intros [THEN sim_quiet]

lemma not_live [simp]:
  "\<not> live_status ParticipantStatusInvited" "\<not> live_status ParticipantStatusDeclined"
  by (simp_all add: live_status_def)

subsubsection \<open>Starting\<close>

lemma Calls_Create_Inr:
  "Calls_Create env call s = (Inr x, s') \<Longrightarrow>
   \<not> call_exists (Call_ID call) (st_db s) \<and> st_db s' = (st_db s)\<lparr>db_calls := db_calls (st_db s) @ [store_call call]\<rparr>"
  by (auto simp: Calls_Create_def repo_exec_def call_exists_def split: option.splits if_splits)

lemma status_of_created:
  "\<not> call_exists (Call_ID call) db \<Longrightarrow>
   status_of (db\<lparr>db_calls := db_calls db @ [store_call call]\<rparr>) (Call_ID call) = Some (Call_Status call)"
  by (auto simp: status_of_def find_append store_call_def call_exists_def dest: find_SomeD split: option.splits)

text \<open>The fresh call has no participants: otherwise they would have been orphans.\<close>

lemma create_add_host_sim:
  assumes "Call_Status call = CallStatusRinging" and "CP_CallID p = Call_ID call"
    and "Calls_Create env call s = (Inr x, s')" and "call_ok (st_db s)" and "core s'' = core s'"
  shows "sim s'' (snd (AddParticipant env p s''))"
proof (rule AddParticipant_sim)
  note c = Calls_Create_Inr [OF assms(3)]
  note same = core_same [OF assms(5)]
  show "status_of (st_db s'') (CP_CallID p) \<noteq> Some CallStatusEnded"
    using c status_of_created [of call "st_db s"] assms(1,2) same by simp
  have "\<forall>q \<in> set (db_parts (st_db s)). CP_CallID q \<noteq> Call_ID call"
  proof
    fix q assume q: "q \<in> set (db_parts (st_db s))"
    have "status_of (st_db s) (CP_CallID q) \<noteq> None"
      using call_okD(3) [OF assms(4) part_of_row [OF call_okD(1) [OF assms(4)] q]] .
    with c show "CP_CallID q \<noteq> Call_ID call" by (auto simp: status_of_None)
  qed
  with c same assms(2) show "\<forall>q \<in> set (db_parts (st_db s'')). CP_CallID q \<noteq> CP_CallID p" by simp
qed

lemma start_tx_sim:
  assumes "Call_Status call = CallStatusRinging" and "CP_CallID p = Call_ID call" and "quiet k"
  shows "sim s (snd (bindM (Calls_Create env call) (\<lambda>_. bindM (AddParticipant env p) (\<lambda>_. k)) s))"
proof (rule sim_call_okI, rule sim_bind)
  assume ok: "call_ok (st_db s)"
  show "sim s (snd (Calls_Create env call s))" by (rule Calls_Create_sim [OF assms(1)])
  fix x s' assume cr: "Calls_Create env call s = (Inr x, s')"
  show "sim s' (snd (bindM (AddParticipant env p) (\<lambda>_. k) s'))"
    using create_add_host_sim [OF assms(1,2) cr ok refl] quiet_sim [OF assms(3)] by (intro sim_bind) simp_all
qed

lemma bindM_tryM_Inr:
  "bindM (tryM m) (\<lambda>r. case r of Inr _ \<Rightarrow> returnM () | Inl err \<Rightarrow> bindM (k err) (\<lambda>_. throwM (h err))) s = (Inr x, s') \<Longrightarrow>
   \<exists>y. m s = (Inr y, s')"
  by (auto simp: bindM_def tryM_def returnM_def throwM_def split: prod.splits sum.splits)

lemma start_write_sim:
  assumes "Call_Status call = CallStatusRinging" and "CP_CallID p = Call_ID call"
  shows "sim s (snd (start_write env call p us u s))"
proof -
  let ?cl = "\<lambda>msg m. bindM (tryM m) (\<lambda>r. case r of Inr _ \<Rightarrow> returnM ()
    | Inl err \<Rightarrow> bindM (deleteLiveKitRoomBestEffort env (Call_ID call)) (\<lambda>_. throwM (Internal msg (Some err))))"
  have clean: "sim t (snd (?cl msg m t))" if "sim t (snd (m t))" for msg t and m :: "unit call_handler"
    by (rule sim_bind) (auto simp: that intro!: quiet_sim quiet_struct quiet_intros split: sum.splits)
  let ?inv = "if Call_AccessLevel call = AccessLevelPrivate \<and> us \<noteq> []
    then AddInvitedMembers env (Call_ID call) us u else returnM ()"
  have inv: "quiet ?inv" by (intro quiet_struct quiet_intros)
  have tx: "sim s (snd (?cl msg (WithinTx env (bindM (Calls_Create env call) (\<lambda>_. bindM (AddParticipant env p) (\<lambda>_.
      bindM ?inv (\<lambda>_. enqueueCallEventTx env TypeCallStarted call u))))) s))" for msg
    by (intro clean sim_tx start_tx_sim assms quiet.keeps_bindM inv quiet_intros)
  have "sim s (snd (bindM (?cl m1 (Calls_Create env call)) (\<lambda>_. bindM (?cl m2 (AddParticipant env p)) (\<lambda>_.
      bindM (?cl m3 ?inv) (\<lambda>_. publishCallEvent env TypeCallStarted call u))) s))" for m1 m2 m3
  proof (rule sim_call_okI, rule sim_bind)
    assume ok: "call_ok (st_db s)"
    show "sim s (snd (?cl m1 (Calls_Create env call) s))" by (intro clean Calls_Create_sim assms)
    fix x s' assume "?cl m1 (Calls_Create env call) s = (Inr x, s')"
    then obtain y where cr: "Calls_Create env call s = (Inr y, s')" by (auto dest: bindM_tryM_Inr)
    show "sim s' (snd (bindM (?cl m2 (AddParticipant env p)) (\<lambda>_.
      bindM (?cl m3 ?inv) (\<lambda>_. publishCallEvent env TypeCallStarted call u)) s'))"
      by (intro sim_bind clean create_add_host_sim [OF assms cr ok refl] quiet_sim [OF inv] quiet_sim quiet_intros)
  qed
  with tx show ?thesis unfolding start_write_def Let_def by (cases "e_tx env") (simp_all only: if_True if_False)
qed


lemma StartCallWithAccess_sim: "keepsM sim (StartCallWithAccess env ws u ct title ch st pw opts)"
proof (rule keepsMI)
  fix s show "sim s (snd (StartCallWithAccess env ws u ct title ch st pw opts s))"
    unfolding StartCallWithAccess_def Let_def
    by (intro sim_bind_read sim_bind_failIf sim_bind_quiet [OF id_New_quiet]
        sim_bind_quiet [OF quiet.keeps_mapErrM [OF livekit_quiet(2)]] sim_bind [OF start_write_sim]
        quiet_sim quiet_struct quiet_intros) simp_all
qed

lemma StartCall_sim: "keepsM sim (StartCall env ws u ct title ch st pw)"
  by (simp add: StartCall_def StartCallWithAccess_sim)

subsubsection \<open>Joining\<close>

lemma connectInvited_sim:
  assumes "p \<in> set (db_parts (st_db s))" and "status_of (st_db s) (CP_CallID p) \<noteq> Some CallStatusEnded"
  shows "sim s (snd (connectInvitedParticipant env call p s))"
proof -
  have up: "sim s (snd (UpdateParticipantStatus env (CP_ID p) ParticipantStatusConnected s))"
    using assms by (intro update_row_sim) simp_all
  show ?thesis
    unfolding connectInvitedParticipant_def Let_def by (intro sim_exec_rules up sim_struct sim_intros)
qed

lemma join_existing_sim:
  assumes "GetParticipant env (Call_ID call) u s = Inr p" and "status_of (st_db s) (Call_ID call) \<noteq> Some CallStatusEnded"
  shows "sim s (snd (join_existing env call guest p s))"
proof -
  have p: "p \<in> set (db_parts (st_db s))" "status_of (st_db s) (CP_CallID p) \<noteq> Some CallStatusEnded"
    using GetParticipant_Inr [OF assms(1)] assms(2) by simp_all
  have up: "sim s (snd (UpdateParticipantStatus env (CP_ID p) st s))" for st
    using p by (intro update_row_sim) simp_all
  show ?thesis
    unfolding join_existing_def Let_def
    by (intro sim_exec_rules up connectInvited_sim p sim_struct sim_intros)
qed

lemma join_write_sim:
  assumes "status_of (st_db s) (CP_CallID p) \<noteq> Some CallStatusEnded" and "CP_Role p \<noteq> CallRoleHost"
  shows "sim s (snd (join_write env call p s))"
proof -
  have add: "sim s (snd (AddParticipant env p s))" using assms by (intro AddParticipant_sim) simp_all
  show ?thesis
    unfolding join_write_def by (intro sim_exec_rules add sim_struct sim_intros)
qed

lemma sim_bind_tryread:
  "(\<And>e. f s = Inl e \<Longrightarrow> sim s (snd (k (Inl e) s))) \<Longrightarrow> (\<And>x. f s = Inr x \<Longrightarrow> sim s (snd (k (Inr x) s))) \<Longrightarrow>
   sim s (snd (bindM (tryM (readM f)) k s))"
  by (cases "f s") (auto simp: bindM_def tryM_def readM_def)

lemma JoinCall_sim: "keepsM sim (JoinCall env ws cid u pw)"
proof (rule keepsMI)
  fix s show "sim s (snd (JoinCall env ws cid u pw s))"
    unfolding JoinCall_def Let_def
  proof (rule sim_bind_read, rule sim_bind_failIf, rule sim_bind_read, rule sim_bind_quiet)
    fix call x s'
    assume acc: "requireCallAccess env ws cid u s = Inr call" "Call_Status call \<noteq> CallStatusEnded"
      and same: "core s' = core s"
    have id: "Call_ID call = cid" using requireCallAccess_status [OF acc(1)] by simp
    have open': "status_of (st_db t) cid \<noteq> Some CallStatusEnded" if "core t = core s'" for t
      using requireCallAccess_status [OF acc(1)] acc(2) core_same [OF same] core_same [OF that] by simp
    show "sim s' (snd (bindM (tryM (readM (GetParticipant env cid u))) (\<lambda>r. case r of
          Inl err \<Rightarrow>
            if \<not> has_code CodeNotFound err
            then throwM (Internal ''failed to check existing participant'' (Some err))
            else bindM (readM (\<lambda>_. join_status env call (isGuestUser env (Call_WorkspaceID call) u) pw)) (\<lambda>initialStatus.
                 bindM (id_New env) (\<lambda>participantID.
                 join_write env call
                   \<lparr>CP_ID = participantID, CP_CallID = cid, CP_UserID = u, CP_BreakoutRoomID = None,
                    CP_Role = (if Call_Type call = CallTypeWebinar \<or> Call_Type call = CallTypeSelector
                               then CallRoleViewer else CallRoleParticipant),
                    CP_Status = initialStatus, CP_AudioMuted = CS_MuteOnJoin (Call_Settings call),
                    CP_VideoMuted = False, CP_ScreenSharing = False, CP_CanScreenShare = False,
                    CP_JoinedAt = Some (now_of env), CP_LeftAt = None, CP_LeftReason = None\<rparr>))
        | Inr existing \<Rightarrow> join_existing env call (isGuestUser env (Call_WorkspaceID call) u) existing) s'))"
      (is "sim _ (snd (bindM _ ?k _))")
    proof (rule sim_bind_tryread)
      show "sim s' (snd (?k (Inr p) s'))" if "GetParticipant env cid u s' = Inr p" for p
        using join_existing_sim [of env call u s' p] that open' [of s'] id by simp
      show "sim s' (snd (?k (Inl e) s'))" for e
        using open'
        by (simp split del: if_split, intro sim_if sim_return sim_bind_read sim_bind_quiet [OF id_New_quiet] join_write_sim)
          simp_all
    qed
  qed (intro quiet_struct quiet_intros)
qed

subsubsection \<open>The waiting room, invitations\<close>

lemma activate_after_admission_sim [sim_intros]: "keepsM sim (activate_after_admission env call)"
  unfolding activate_after_admission_def by (intro sim_struct sim_intros)

lemma AdmitParticipant_sim: "keepsM sim (AdmitParticipant env ws cid u target)"
proof (rule keepsMI)
  fix s show "sim s (snd (AdmitParticipant env ws cid u target s))"
    unfolding AdmitParticipant_def
    by (intro sim_bind_read sim_bind_failIf sim_first sim_mapErr update_row_sim sim_struct sim_intros)
      (auto simp: participant_or_Inr live_status_def dest: GetParticipant_Inr)
qed

text \<open>Admitting one waiting participant leaves the others admissible.\<close>

lemma open_rows_core: "core s' = core s \<Longrightarrow> open_rows (st_db s') pid = open_rows (st_db s) pid"
  using core_same [of s' s] by (simp add: open_rows_def)

lemma open_rows_alt:
  "open_rows db pid \<longleftrightarrow> (\<forall>x \<in> set (map (\<lambda>p. (CP_ID p, CP_CallID p)) (db_parts db)).
     fst x = pid \<longrightarrow> status_of db (snd x) \<noteq> Some CallStatusEnded)"
  by (simp add: open_rows_def)

lemma open_rows_update: "open_rows (st_db (snd (UpdateParticipantStatus env pid st s))) pid' = open_rows (st_db s) pid'"
proof -
  have "open_rows (update_parts (\<lambda>p. CP_ID p = pid) (set_participant_status now st lr) db) pid' = open_rows db pid'" for now lr db
  proof -
    have "map (\<lambda>p. (CP_ID p, CP_CallID p)) (db_parts (update_parts (\<lambda>p. CP_ID p = pid) (set_participant_status now st lr) db)) =
      map (\<lambda>p. (CP_ID p, CP_CallID p)) (db_parts db)"
      unfolding update_parts_def by (simp, rule map_upd_where) (simp add: set_participant_status_def)
    then show ?thesis unfolding open_rows_alt status_of_update_parts by presburger
  qed
  then show ?thesis
    by (auto simp: UpdateParticipantStatus_def UpdateParticipantStatusWithReason_def repo_exec_def split: option.splits)
qed

lemma AdmitAll_sim: "keepsM sim (AdmitAll env ws cid u)"
proof (rule keepsMI)
  fix s show "sim s (snd (AdmitAll env ws cid u s))"
    unfolding AdmitAll_def
  proof (rule sim_bind_read, rule sim_bind_read, rule sim_bind_mapErr_read, rule sim_call_okI, rule sim_first)
    fix call x ps
    assume ps: "ListParticipants env cid s = Inr ps" and ok: "call_ok (st_db s)"
    let ?J = "\<lambda>t. \<forall>p \<in> set ps. CP_Status p = ParticipantStatusWaiting \<longrightarrow> open_rows (st_db t) (CP_ID p)"
    let ?body = "\<lambda>p. if CP_Status p \<noteq> ParticipantStatusWaiting then returnM ()
       else bindM (readM (canUserEnterPrivateChannelLessCall env call (CP_UserID p))) (\<lambda>_.
            bindM (tryM (UpdateParticipantStatus env (CP_ID p) ParticipantStatusConnected)) (\<lambda>r.
            case r of
              Inl _ \<Rightarrow> returnM ()
            | Inr _ \<Rightarrow> publishParticipantEvent env TypeWaitingRoomAdmitted call (p\<lparr>CP_Status := ParticipantStatusConnected\<rparr>)))"
    have J: "?J s"
      using ListParticipants_Inr [OF ps] row_open [OF ok] by (auto simp: live_status_def)
    have one: "sim t (snd (?body p t))" if "p \<in> set ps" "?J t" for p t
      using that
      by (intro sim_if sim_return sim_bind_read sim_first sim_try UpdateParticipantStatus_sim sim_struct sim_intros) simp_all
    have keep: "open_rows (st_db (snd (?body p t))) pid = open_rows (st_db t) pid" for p t pid
    proof -
      have "snd (?body p t) = t \<or> core (snd (?body p t)) = core (snd (UpdateParticipantStatus env (CP_ID p) ParticipantStatusConnected t))"
        using quietD [OF publishers_quiet(2)]
        by (auto simp: monad_simps split: sum.splits)
      then show ?thesis
        using open_rows_core [of "snd (?body p t)" "snd (UpdateParticipantStatus env (CP_ID p) ParticipantStatusConnected t)"]
          open_rows_update by auto
    qed
    show "sim s (snd (forM ps ?body s))"
      by (rule sim_forM [where J = ?J, OF _ J]) (use one keep in simp)
  qed (rule sim_intros)
qed

lemma RejectParticipant_sim: "keepsM sim (RejectParticipant env ws cid u target)"
  unfolding RejectParticipant_def by (intro sim_struct sim_intros) simp_all

lemma invite_one_sim [sim_intros]: "keepsM sim (invite_one env ws call u acc t)"
proof -
  have up: "keepsM sim (UpdateParticipantStatus env pid ParticipantStatusInvited)" for pid
    by (intro sim_intros) simp
  have case_st: "keepsM sim (case st of ParticipantStatusConnected \<Rightarrow> a | ParticipantStatusJoining \<Rightarrow> b
      | ParticipantStatusWaiting \<Rightarrow> c | _ \<Rightarrow> d)"
    if "keepsM sim a" "keepsM sim b" "keepsM sim c" "keepsM sim d"
    for st and a b c d :: "InviteResult call_handler"
    using that by (cases st) simp_all
  show ?thesis
    unfolding invite_one_def Let_def by (intro sim_struct case_st up sim_intros) simp_all
qed

lemma InviteParticipants_sim: "keepsM sim (InviteParticipants env ws cid u targets)"
  unfolding InviteParticipants_def by (intro sim_struct sim_intros)

lemma DeclineCall_sim: "keepsM sim (DeclineCall env ws cid u)"
  unfolding DeclineCall_def by (intro sim_struct sim_intros) simp_all

end
