(* ===== verification/CallEnding.thy ===== *)
theory CallEnding
  imports CallLifecycle
begin

text \<open>
  How a call and a participation end: \<open>LeaveCall\<close>, \<open>EndCall\<close>, \<open>CancelCall\<close> and
  \<open>RemoveParticipant\<close> of \<open>internal/service/call/service.go\<close>, the pinned-participant helpers
  of \<open>sharing.go\<close>, and the stale-call worker of \<open>cleanup.go\<close>.
\<close>

subsection \<open>The pinned participant\<close>

definition callPinsParticipant :: "Call \<Rightarrow> uuid \<Rightarrow> bool" where
  "callPinsParticipant call userID = (Call_PinnedParticipantUserID call = Some userID)"

text \<open>The handlers go on with the call it returns: in Go the pointer's field is reset.\<close>

definition clearPinnedParticipantIfMatches :: "call_env \<Rightarrow> Call \<Rightarrow> uuid \<Rightarrow> uuid \<Rightarrow> Call call_handler" where
  "clearPinnedParticipantIfMatches env call targetUserID actorID =
     (if \<not> callPinsParticipant call targetUserID then returnM call
      else bindM (SetPinnedParticipantUserID env (Call_ID call) None) (\<lambda>_.
           let call' = call\<lparr>Call_PinnedParticipantUserID := None\<rparr>
           in bindM (publishCallControlEvent env TypeCallPinnedChanged call' actorID
                      (PinnedParticipantPayload (Call_ID call) None)) (\<lambda>_.
              returnM call')))"

subsection \<open>Media clean-up\<close>

definition cleanupEndedMediaRooms :: "call_env \<Rightarrow> uuid \<Rightarrow> unit call_handler" where
  "cleanupEndedMediaRooms env callID =
     bindM (closeAllBreakoutSFURooms env callID) (\<lambda>_.
     bindM (deleteLiveKitRoomBestEffort env callID) (\<lambda>_.
     closeSFURoom env (MainRoom callID)))"

subsection \<open>Leaving\<close>

record LeaveCallResult =
  LR_AlreadyLeft :: bool

text \<open>What the write part of \<open>LeaveCall\<close> leaves in the handler's local variables.\<close>

record leave_vars =
  lv_call :: Call
  lv_alreadyLeft :: bool
  lv_autoEnded :: bool
  lv_pinCleared :: bool
  lv_return :: bool

definition leave_tx :: "call_env \<Rightarrow> Call \<Rightarrow> CallParticipant \<Rightarrow> uuid \<Rightarrow> leave_vars call_handler" where
  "leave_tx env call participant userID =
     bindM (DisconnectParticipantIfConnectedWithReason env (CP_ID participant) ParticipantLeftReasonLeft) (\<lambda>disconnected.
     if \<not> disconnected
     then returnM \<lparr>lv_call = call, lv_alreadyLeft = True, lv_autoEnded = False, lv_pinCleared = False, lv_return = False\<rparr>
     else bindM (enqueueParticipantEventTx env TypeCallParticipantLeft call
                  (markParticipantDisconnected env ParticipantLeftReasonLeft participant)) (\<lambda>_.
          let pinned = callPinsParticipant call userID;
              call1 = (if pinned then call\<lparr>Call_PinnedParticipantUserID := None\<rparr> else call);
              vars = \<lparr>lv_call = call1, lv_alreadyLeft = False, lv_autoEnded = False, lv_pinCleared = pinned, lv_return = False\<rparr>
          in bindM (if pinned then SetPinnedParticipantUserID env (Call_ID call) None else returnM ()) (\<lambda>_.
             bindM (readM (ListParticipants env (Call_ID call))) (\<lambda>participants.
             if shouldAutoEndAfterLeave call1 participants
             then bindM (EndWithReasonIfNotEnded env (Call_ID call) CallEndReasonAllLeft) (\<lambda>ended.
                  if \<not> ended then returnM vars
                  else let call2 = markCallEnded env CallEndReasonAllLeft call1
                       in bindM (enqueueCallEventTx env TypeCallEnded call2 userID) (\<lambda>_.
                          returnM (vars\<lparr>lv_call := call2, lv_autoEnded := True\<rparr>)))
             else returnM vars))))"

text \<open>Without a transaction a failed participant list makes the handler return at once (\<open>lv_return\<close>).\<close>

definition leave_direct :: "call_env \<Rightarrow> Call \<Rightarrow> CallParticipant \<Rightarrow> uuid \<Rightarrow> leave_vars call_handler" where
  "leave_direct env call participant userID =
     bindM (mapErrM (\<lambda>err. Internal ''failed to update participant status'' (Some err))
             (DisconnectParticipantIfConnectedWithReason env (CP_ID participant) ParticipantLeftReasonLeft)) (\<lambda>disconnected.
     if \<not> disconnected
     then returnM \<lparr>lv_call = call, lv_alreadyLeft = True, lv_autoEnded = False, lv_pinCleared = False, lv_return = False\<rparr>
     else bindM (publishParticipantEvent env TypeCallParticipantLeft call
                  (markParticipantDisconnected env ParticipantLeftReasonLeft participant)) (\<lambda>_.
          bindM (mapErrM (\<lambda>err. Internal ''failed to clear pinned participant'' (Some err))
                  (clearPinnedParticipantIfMatches env call userID userID)) (\<lambda>call1.
          let vars = \<lparr>lv_call = call1, lv_alreadyLeft = False, lv_autoEnded = False, lv_pinCleared = False, lv_return = False\<rparr>
          in bindM (tryM (readM (ListParticipants env (Call_ID call)))) (\<lambda>r.
             case r of
               Inl _ \<Rightarrow> returnM (vars\<lparr>lv_return := True\<rparr>)
             | Inr participants \<Rightarrow>
                 if shouldAutoEndAfterLeave call1 participants
                 then bindM (tryM (EndWithReasonIfNotEnded env (Call_ID call) CallEndReasonAllLeft)) (\<lambda>ended.
                      if ended = Inr True
                      then let call2 = markCallEnded env CallEndReasonAllLeft call1
                           in bindM (publishCallEvent env TypeCallEnded call2 userID) (\<lambda>_.
                              returnM (vars\<lparr>lv_call := call2, lv_autoEnded := True\<rparr>))
                      else returnM vars)
                 else returnM vars))))"

definition leave_finish :: "call_env \<Rightarrow> uuid \<Rightarrow> uuid \<Rightarrow> leave_vars \<Rightarrow> LeaveCallResult call_handler" where
  "leave_finish env callID userID v =
     (if lv_return v then returnM \<lparr>LR_AlreadyLeft = False\<rparr>
      else bindM (if lv_pinCleared v
                  then publishCallControlEvent env TypeCallPinnedChanged (lv_call v) userID
                         (PinnedParticipantPayload callID None)
                  else returnM ()) (\<lambda>_.
           bindM (removeLiveKitParticipantBestEffort env callID userID) (\<lambda>_.
           if lv_alreadyLeft v then returnM \<lparr>LR_AlreadyLeft = True\<rparr>
           else bindM (if lv_autoEnded v
                       then bindM (emitCallEndedChatMessage env (lv_call v)) (\<lambda>_. cleanupEndedMediaRooms env callID)
                       else returnM ()) (\<lambda>_.
                returnM \<lparr>LR_AlreadyLeft = False\<rparr>))))"

definition LeaveCall :: "call_env \<Rightarrow> uuid \<Rightarrow> uuid \<Rightarrow> uuid \<Rightarrow> LeaveCallResult call_handler" where
  "LeaveCall env workspaceID callID userID =
     bindM (readM (requireCallAccess env workspaceID callID userID)) (\<lambda>call.
     if Call_Status call = CallStatusEnded
     then bindM (removeLiveKitParticipantBestEffort env callID userID) (\<lambda>_. returnM \<lparr>LR_AlreadyLeft = True\<rparr>)
     else bindM (tryM (readM (GetParticipant env callID userID))) (\<lambda>r.
          case r of
            Inl err \<Rightarrow>
              if has_code CodeNotFound err
              then bindM (removeLiveKitParticipantBestEffort env callID userID) (\<lambda>_. returnM \<lparr>LR_AlreadyLeft = True\<rparr>)
              else throwM (Internal ''failed to get participant'' (Some err))
          | Inr participant \<Rightarrow>
              if CP_Status participant = ParticipantStatusDisconnected
              then bindM (mapErrM (\<lambda>err. Internal ''failed to clear pinned participant'' (Some err))
                           (clearPinnedParticipantIfMatches env call userID userID)) (\<lambda>_.
                   bindM (removeLiveKitParticipantBestEffort env callID userID) (\<lambda>_. returnM \<lparr>LR_AlreadyLeft = True\<rparr>))
              else bindM (if e_tx env
                          then mapErrM (serviceError ''failed to update participant status'')
                                 (WithinTx env (leave_tx env call participant userID))
                          else leave_direct env call participant userID) (\<lambda>v.
                   leave_finish env callID userID v)))"

subsection \<open>Ending and cancelling\<close>

definition EndCall :: "call_env \<Rightarrow> uuid \<Rightarrow> uuid \<Rightarrow> uuid \<Rightarrow> unit call_handler" where
  "EndCall env workspaceID callID userID =
     bindM (readM (requireCallAccess env workspaceID callID userID)) (\<lambda>call.
     bindM (failIf (Call_Status call = CallStatusEnded) (Conflict ''call has already ended'')) (\<lambda>_.
     bindM (readM (participant_or env callID userID (Forbidden ''user is not a participant in this call'')
             ''failed to get participant'')) (\<lambda>participant.
     bindM (failIf (CP_Role participant \<noteq> CallRoleHost \<and> CP_Role participant \<noteq> CallRoleCoHost)
             (Forbidden ''only host or co-host can end a call'')) (\<lambda>_.
     let call1 = markCallEnded env CallEndReasonHostEnded call;
         endIt = bindM (EndWithReasonIfNotEnded env callID CallEndReasonHostEnded) (\<lambda>ended.
                 failIf (\<not> ended) (Conflict ''call has already ended''))
     in bindM (if e_tx env
               then mapErrM (serviceError ''failed to end call'') (WithinTx env
                      (bindM endIt (\<lambda>_. enqueueCallEventTx env TypeCallEnded call1 userID)))
               else bindM (mapErrM (serviceError ''failed to end call'') endIt) (\<lambda>_.
                    publishCallEvent env TypeCallEnded call1 userID)) (\<lambda>_.
        bindM (emitCallEndedChatMessage env call1) (\<lambda>_.
        cleanupEndedMediaRooms env callID))))))"

record CancelCallResult =
  CR_Ended :: bool

text \<open>The compare-and-set of \<open>CancelCall\<close> and the reload when it did not apply.\<close>

definition cancel_attempt :: "call_env \<Rightarrow> uuid \<Rightarrow> bool call_handler" where
  "cancel_attempt env callID =
     bindM (CancelRingingWithReason env callID CallEndReasonCancelled) (\<lambda>ended.
     if ended then returnM True
     else bindM (readM (Calls_GetByID env callID)) (\<lambda>current.
          if Call_Status current = CallStatusEnded then returnM False
          else throwM (Conflict ''only ringing calls can be cancelled'')))"

definition CancelCall :: "call_env \<Rightarrow> uuid \<Rightarrow> uuid \<Rightarrow> uuid \<Rightarrow> CancelCallResult call_handler" where
  "CancelCall env workspaceID callID userID =
     bindM (readM (requireCallAccess env workspaceID callID userID)) (\<lambda>call.
     if Call_Status call = CallStatusEnded then returnM \<lparr>CR_Ended = False\<rparr>
     else bindM (failIf (Call_Status call \<noteq> CallStatusRinging) (Conflict ''only ringing calls can be cancelled'')) (\<lambda>_.
          bindM (failIf (Call_CreatedBy call \<noteq> userID) (Forbidden ''only call creator can cancel a ringing call'')) (\<lambda>_.
          let call1 = markCallEnded env CallEndReasonCancelled call
          in bindM (if e_tx env
                    then mapErrM (serviceError ''failed to cancel call'') (WithinTx env
                           (bindM (cancel_attempt env callID) (\<lambda>cancelled.
                            if cancelled
                            then bindM (enqueueCallEventTx env TypeCallEnded call1 userID) (\<lambda>_. returnM True)
                            else returnM False)))
                    else bindM (mapErrM (serviceError ''failed to cancel call'')
                                 (CancelRingingWithReason env callID CallEndReasonCancelled)) (\<lambda>ended.
                         if ended
                         then bindM (publishCallEvent env TypeCallEnded call1 userID) (\<lambda>_. returnM True)
                         else bindM (mapErrM (serviceError ''failed to load call'') (readM (Calls_GetByID env callID))) (\<lambda>current.
                              if Call_Status current = CallStatusEnded then returnM False
                              else throwM (Conflict ''only ringing calls can be cancelled'')))) (\<lambda>cancelled.
             if \<not> cancelled then returnM \<lparr>CR_Ended = False\<rparr>
             else bindM (emitCallEndedChatMessage env call1) (\<lambda>_.
                  bindM (cleanupEndedMediaRooms env callID) (\<lambda>_.
                  returnM \<lparr>CR_Ended = True\<rparr>))))))"

subsection \<open>Removing a participant\<close>

definition RemoveParticipant :: "call_env \<Rightarrow> uuid \<Rightarrow> uuid \<Rightarrow> uuid \<Rightarrow> uuid \<Rightarrow> unit call_handler" where
  "RemoveParticipant env workspaceID callID actorUserID targetUserID =
     bindM (readM (requireCallAccess env workspaceID callID actorUserID)) (\<lambda>call.
     bindM (failIf (Call_Status call = CallStatusEnded) (Forbidden ''call has already ended'')) (\<lambda>_.
     bindM (failIf (actorUserID = targetUserID) (InvalidInput ''cannot remove yourself; leave the call instead'')) (\<lambda>_.
     bindM (readM (participant_or env callID actorUserID (Forbidden ''actor is not a participant'')
             ''failed to get actor participant'')) (\<lambda>actor.
     bindM (failIf (CP_Role actor \<noteq> CallRoleHost) (Forbidden ''only the host can remove participants'')) (\<lambda>_.
     bindM (readM (participant_or env callID targetUserID (NotFound ''target participant not found'')
             ''failed to get target participant'')) (\<lambda>target.
     bindM (mapErrM (\<lambda>err. Internal ''failed to remove participant'' (Some err))
             (DisconnectParticipantIfConnectedWithReason env (CP_ID target) ParticipantLeftReasonLeft)) (\<lambda>disconnected.
     bindM (if disconnected
            then publishParticipantEvent env TypeCallParticipantLeft call
                   (markParticipantDisconnected env ParticipantLeftReasonLeft target)
            else returnM ()) (\<lambda>_.
     bindM (mapErrM (\<lambda>err. Internal ''failed to clear pinned participant'' (Some err))
             (clearPinnedParticipantIfMatches env call targetUserID actorUserID)) (\<lambda>_.
     removeLiveKitParticipantBestEffort env callID targetUserID)))))))))"

subsection \<open>The stale-call worker\<close>

definition normalizeStaleCallCleanupInputs :: "int \<Rightarrow> int \<Rightarrow> int \<Rightarrow> int \<times> int \<times> int" where
  "normalizeStaleCallCleanupInputs interval grace limit =
     (if interval \<le> 0 then 30 * time_Second else interval,
      if grace \<le> 0 then 5 * time_Minute else grace,
      if limit \<le> 0 then 100 else limit)"

definition staleCleanupReasons :: "CallStatus \<Rightarrow> (CallEndReason \<times> ParticipantLeftReason) option" where
  "staleCleanupReasons status =
     (case status of
        CallStatusRinging \<Rightarrow> Some (CallEndReasonMissed, ParticipantLeftReasonMissed)
      | CallStatusActive \<Rightarrow> Some (CallEndReasonAllLeft, ParticipantLeftReasonTimeout)
      | CallStatusEnded \<Rightarrow> None)"

definition endStaleCallStatus :: "call_env \<Rightarrow> uuid \<Rightarrow> CallStatus \<Rightarrow> CallEndReason \<Rightarrow> bool call_handler" where
  "endStaleCallStatus env callID status reason =
     (if status = CallStatusRinging then CancelRingingWithReason env callID reason
      else if status = CallStatusActive then EndWithReasonIfNotEnded env callID reason
      else returnM False)"

definition disconnectStaleParticipants :: "call_env \<Rightarrow> CallParticipant list \<Rightarrow> ParticipantLeftReason \<Rightarrow> unit call_handler" where
  "disconnectStaleParticipants env participants reason =
     forM participants (\<lambda>p.
       if CP_Status p = ParticipantStatusDisconnected then returnM ()
       else bindM (DisconnectParticipantIfConnectedWithReason env (CP_ID p) reason) (\<lambda>_. returnM ()))"

text \<open>
  The common body of \<open>endStaleOpenCallTx\<close> and \<open>endStaleOpenCallDirect\<close>: the ended call, or
  \<open>None\<close> when there was nothing to end. \<open>notify\<close> enqueues or publishes \<open>call.ended\<close>.
\<close>

definition end_stale_body :: "call_env \<Rightarrow> (Call \<Rightarrow> unit call_handler) \<Rightarrow> uuid \<Rightarrow> Call option call_handler" where
  "end_stale_body env notify callID =
     bindM (tryM (readM (Calls_GetByID env callID))) (\<lambda>r.
     case r of
       Inl err \<Rightarrow> if has_code CodeNotFound err then returnM None else throwM err
     | Inr call \<Rightarrow>
         (case staleCleanupReasons (Call_Status call) of
            None \<Rightarrow> returnM None
          | Some reasons \<Rightarrow>
              bindM (endStaleCallStatus env (Call_ID call) (Call_Status call) (fst reasons)) (\<lambda>didEnd.
              if \<not> didEnd then returnM None
              else bindM (readM (ListParticipants env (Call_ID call))) (\<lambda>participants.
                   bindM (disconnectStaleParticipants env participants (snd reasons)) (\<lambda>_.
                   let call1 = markCallEnded env (fst reasons) call
                   in bindM (notify call1) (\<lambda>_. returnM (Some call1)))))))"

definition endStaleOpenCall :: "call_env \<Rightarrow> uuid \<Rightarrow> bool call_handler" where
  "endStaleOpenCall env callID =
     bindM (if e_tx env
            then WithinTx env (end_stale_body env (\<lambda>c. enqueueCallEventTx env TypeCallEnded c (Call_CreatedBy c)) callID)
            else end_stale_body env (\<lambda>c. publishCallEvent env TypeCallEnded c (Call_CreatedBy c)) callID) (\<lambda>ended.
     case ended of
       None \<Rightarrow> returnM False
     | Some call1 \<Rightarrow>
         bindM (emitCallEndedChatMessage env call1) (\<lambda>_.
         bindM (cleanupEndedMediaRooms env (Call_ID call1)) (\<lambda>_.
         returnM True)))"

definition hasActiveMediaParticipants :: "call_env \<Rightarrow> Call \<Rightarrow> go_error + bool" where
  "hasActiveMediaParticipants env call =
     (if \<not> e_livekit env then Inr True
      else if \<not> e_livekitRooms env then Inl (Unavailable ''livekit room service is not configured'')
      else (case e_lkParticipants env (MainRoom (Call_ID call)) of
              Inl err \<Rightarrow> Inl err
            | Inr participants \<Rightarrow>
                if Call_Status call = CallStatusRinging
                then Inr (\<exists>p \<in> set participants. LP_Identity p \<noteq> UserIdentity (Call_CreatedBy call))
                else Inr (participants \<noteq> [])))"

definition CleanupStaleOpenCalls :: "call_env \<Rightarrow> int \<Rightarrow> int \<Rightarrow> nat call_handler" where
  "CleanupStaleOpenCalls env grace0 limit0 =
     (case normalizeStaleCallCleanupInputs 0 grace0 limit0 of (_, grace, limit) \<Rightarrow>
      if \<not> e_livekit env then returnM 0
      else bindM (mapErrM (\<lambda>err. Internal ''failed to list stale open calls'' (Some err))
                   (readM (ListStaleOpen env (now_of env - grace) limit))) (\<lambda>calls.
           foldM (\<lambda>ended call.
             case hasActiveMediaParticipants env call of
               Inl _ \<Rightarrow> returnM ended
             | Inr hasMedia \<Rightarrow>
                 if hasMedia then returnM ended
                 else bindM (tryM (endStaleOpenCall env (Call_ID call))) (\<lambda>r.
                      returnM (if r = Inr True then Suc ended else ended))) 0 calls))"

subsection \<open>Runs of the specification\<close>

lemma clearPinned_sim [sim_intros]: "keepsM sim (clearPinnedParticipantIfMatches env call t a)"
  unfolding clearPinnedParticipantIfMatches_def Let_def by (intro sim_struct sim_intros)

lemma cleanupEndedMediaRooms_quiet [quiet_intros]: "quiet (cleanupEndedMediaRooms env cid)"
  unfolding cleanupEndedMediaRooms_def by (intro quiet_struct quiet_intros)

lemmas cleanupEndedMediaRooms_sim [sim_intros] = sim_quiet [OF cleanupEndedMediaRooms_quiet]

lemma leave_sim [sim_intros]:
  "keepsM sim (leave_tx env call p u)" "keepsM sim (leave_direct env call p u)" "keepsM sim (leave_finish env cid u v)"
  unfolding leave_tx_def leave_direct_def leave_finish_def Let_def
  by (intro sim_struct sim_intros)+

lemma LeaveCall_sim: "keepsM sim (LeaveCall env ws cid u)"
  unfolding LeaveCall_def by (intro sim_struct sim_tx_keeps sim_intros)

lemma EndCall_sim: "keepsM sim (EndCall env ws cid u)"
  unfolding EndCall_def Let_def by (intro sim_struct sim_tx_keeps sim_intros)

lemma CancelCall_sim: "keepsM sim (CancelCall env ws cid u)"
  unfolding CancelCall_def cancel_attempt_def Let_def by (intro sim_struct sim_tx_keeps sim_intros)

lemma RemoveParticipant_handler_sim: "keepsM sim (RemoveParticipant env ws cid u t)"
  unfolding RemoveParticipant_def by (intro sim_struct sim_intros)

lemma endStaleOpenCall_sim [sim_intros]: "keepsM sim (endStaleOpenCall env cid)"
  unfolding endStaleOpenCall_def end_stale_body_def endStaleCallStatus_def disconnectStaleParticipants_def Let_def
  by (intro sim_struct sim_tx_keeps sim_intros)

lemma CleanupStaleOpenCalls_sim: "keepsM sim (CleanupStaleOpenCalls env g l)"
  unfolding CleanupStaleOpenCalls_def normalizeStaleCallCleanupInputs_def prod.case
  by (intro sim_struct sim_intros)

end
