(* ===== verification/CallMedia.thy ===== *)
theory CallMedia
  imports CallEnding
begin

text \<open>
  Media rights and roles: the publish policy and the LiveKit tokens of \<open>livekit.go\<close>, the media
  and role handlers of \<open>service.go\<close>, screen sharing, pinning and host media controls of
  \<open>sharing.go\<close>.
\<close>

subsection \<open>What a participant may publish\<close>

definition publishSources :: "bool \<Rightarrow> bool \<Rightarrow> bool \<Rightarrow> TrackSource list" where
  "publishSources canMic canCam canShare =
     (if canCam then [TrackSource_CAMERA] else []) @
     (if canMic then [TrackSource_MICROPHONE] else []) @
     (if canShare then [TrackSource_SCREEN_SHARE, TrackSource_SCREEN_SHARE_AUDIO] else [])"

definition canShareScreen :: "CallParticipant \<Rightarrow> bool" where
  "canShareScreen p = (CP_Role p = CallRoleHost \<or> CP_Role p = CallRoleCoHost \<or> CP_CanScreenShare p)"

definition resolveMemberPublish :: "CallRole \<Rightarrow> CallSettings \<Rightarrow> bool \<Rightarrow> bool \<times> bool \<times> bool \<times> bool" where
  "resolveMemberPublish role settings hasScreenGrant =
     (if role = CallRoleHost \<or> role = CallRoleCoHost then (True, True, True, True)
      else if role = CallRoleViewer then (False, False, False, False)
      else let canMic = ResolvedMembersCanUnmuteMic settings;
               canCam = ResolvedMembersCanEnableCamera settings;
               canShare = CS_ScreenSharing settings \<and> hasScreenGrant
           in (canMic, canCam, canShare, canMic \<or> canCam \<or> canShare))"

definition permissionForParticipant :: "CallRole \<Rightarrow> CallSettings \<Rightarrow> bool \<Rightarrow> ParticipantPermission" where
  "permissionForParticipant role settings hasScreenGrant =
     (case resolveMemberPublish role settings hasScreenGrant of (canMic, canCam, canShare, canPublish) \<Rightarrow>
      if \<not> canPublish
      then \<lparr>PP_CanSubscribe = True, PP_CanPublish = False, PP_CanPublishData = True, PP_CanPublishSources = []\<rparr>
      else \<lparr>PP_CanSubscribe = True, PP_CanPublish = True, PP_CanPublishData = True,
            PP_CanPublishSources = publishSources canMic canCam canShare\<rparr>)"

definition updateLiveKitParticipantPermission :: "call_env \<Rightarrow> uuid \<Rightarrow> uuid \<Rightarrow> CallRole \<Rightarrow> CallSettings \<Rightarrow> bool \<Rightarrow> unit call_handler" where
  "updateLiveKitParticipantPermission env callID userID role settings hasScreenGrant =
     (if \<not> e_livekitRooms env then returnM ()
      else lk_request env (LK_UpdateParticipant callID userID (permissionForParticipant role settings hasScreenGrant)))"

subsection \<open>Join tokens\<close>

text \<open>
  The token is what \<open>ToJWT\<close> of the LiveKit library makes of the grant; the display name of the
  breakout flow is empty, so the identity's string is used (\<open>None\<close>).
\<close>

record LiveKitJoinInfo =
  LJ_URL :: string
  LJ_AccessToken :: string
  LJ_ExpiresAt :: gotime
  LJ_TokenExpiresAt :: gotime
  LJ_RefreshAfter :: gotime

definition livekit_grant :: "RoomName \<Rightarrow> bool \<Rightarrow> bool \<Rightarrow> bool \<Rightarrow> VideoGrant" where
  "livekit_grant roomName canMic canCam canShare =
     (let sources = publishSources canMic canCam canShare
      in \<lparr>VG_Room = roomName, VG_RoomJoin = True, VG_CanPublish = (sources \<noteq> []), VG_CanSubscribe = True,
          VG_CanPublishData = True, VG_CanPublishSources = (if sources \<noteq> [] then Some sources else None)\<rparr>)"

text \<open>Go's duration division truncates toward zero.\<close>

definition mintLiveKitToken :: "call_env \<Rightarrow> RoomName \<Rightarrow> uuid \<Rightarrow> string \<Rightarrow> bool \<Rightarrow> bool \<Rightarrow> bool \<Rightarrow> go_error + LiveKitJoinInfo" where
  "mintLiveKitToken env roomName userID displayName canMic canCam canShare =
     (case e_toJWT env (livekit_grant roomName canMic canCam canShare) userID displayName of
        None \<Rightarrow> Inl (Internal ''failed to sign livekit access token'' (Some (Opaque ''jwt'')))
      | Some token \<Rightarrow>
          let ttl = e_tokenTTL env; expiresAt = now_of env + ttl
          in Inr \<lparr>LJ_URL = e_livekitURL env, LJ_AccessToken = token, LJ_ExpiresAt = expiresAt,
                  LJ_TokenExpiresAt = expiresAt,
                  LJ_RefreshAfter = expiresAt - (if ttl \<ge> 0 then ttl div 2 else - ((- ttl) div 2))\<rparr>)"

text \<open>The part the two \<open>Issue...JoinInfo\<close> functions share.\<close>

definition issue_join_info :: "call_env \<Rightarrow> RoomName \<Rightarrow> string \<Rightarrow> Call \<Rightarrow> uuid \<Rightarrow> string \<Rightarrow> call_state \<Rightarrow> go_error + LiveKitJoinInfo" where
  "issue_join_info env roomName failed call userID displayName s =
     (if \<not> e_livekit env then Inl (Unavailable ''livekit is not configured'')
      else (case participant_or env (Call_ID call) userID (Forbidden ''user is not a participant in this call'') failed s of
              Inl err \<Rightarrow> Inl err
            | Inr participant \<Rightarrow>
                if CP_Status participant \<noteq> ParticipantStatusConnected then Inl (Forbidden ''participant is not connected'')
                else (case resolveMemberPublish (CP_Role participant) (Call_Settings call) (CP_CanScreenShare participant) of
                        (canMic, canCam, canShare, _) \<Rightarrow>
                          mintLiveKitToken env roomName userID displayName canMic canCam canShare)))"

definition IssueLiveKitJoinInfo :: "call_env \<Rightarrow> Call \<Rightarrow> uuid \<Rightarrow> string \<Rightarrow> call_state \<Rightarrow> go_error + LiveKitJoinInfo" where
  "IssueLiveKitJoinInfo env call userID displayName =
     issue_join_info env (MainRoom (Call_ID call)) ''failed to load call participant for livekit token'' call userID displayName"

definition IssueLiveKitBreakoutJoinInfo :: "call_env \<Rightarrow> Call \<Rightarrow> uuid \<Rightarrow> uuid \<Rightarrow> call_state \<Rightarrow> go_error + LiveKitJoinInfo" where
  "IssueLiveKitBreakoutJoinInfo env call breakoutRoomID userID =
     issue_join_info env (breakoutLiveKitRoomName (Call_ID call) breakoutRoomID)
       ''failed to load call participant for livekit breakout token'' call userID ''''"

subsection \<open>Media state\<close>

definition checkScreenShareCapacity :: "call_env \<Rightarrow> uuid \<Rightarrow> uuid \<Rightarrow> call_state \<Rightarrow> go_error + unit" where
  "checkScreenShareCapacity env callID currentParticipantID s =
     (let limit0 = MC_MaxScreenSharesPerCall (e_media env); limit = (if limit0 \<le> 0 then 1 else limit0)
      in (case ListParticipants env callID s of
            Inl err \<Rightarrow> Inl (Internal ''failed to check screen share capacity'' (Some err))
          | Inr participants \<Rightarrow>
              if int (count_where (\<lambda>p. CP_ID p \<noteq> currentParticipantID \<and> CP_ScreenSharing p \<and>
                        CP_Status p = ParticipantStatusConnected) participants) \<ge> limit
              then Inl (Conflict ''screen share limit reached for this call'')
              else Inr ()))"

definition overlay :: "'a option \<Rightarrow> 'a \<Rightarrow> 'a" where
  "overlay patch old = (case patch of None \<Rightarrow> old | Some v \<Rightarrow> v)"

definition UpdateMedia :: "call_env \<Rightarrow> uuid \<Rightarrow> uuid \<Rightarrow> uuid \<Rightarrow> bool option \<Rightarrow> bool option \<Rightarrow> bool option \<Rightarrow> unit call_handler" where
  "UpdateMedia env workspaceID callID userID audioMuted videoMuted screenSharing =
     bindM (readM (requireCallAccess env workspaceID callID userID)) (\<lambda>call.
     bindM (failIf (Call_Status call = CallStatusEnded) (Forbidden ''call has already ended'')) (\<lambda>_.
     bindM (failIf (screenSharing = Some True \<and> \<not> CS_ScreenSharing (Call_Settings call))
             (Forbidden ''screen sharing is disabled for this call'')) (\<lambda>_.
     bindM (readM (participant_or env callID userID (NotFound ''participant not found in this call'')
             ''failed to get participant'')) (\<lambda>participant.
     let nextAudio = overlay audioMuted (CP_AudioMuted participant);
         nextVideo = overlay videoMuted (CP_VideoMuted participant);
         nextScreen = overlay screenSharing (CP_ScreenSharing participant);
         member = (CP_Role participant \<noteq> CallRoleHost \<and> CP_Role participant \<noteq> CallRoleCoHost);
         flipsOn = (screenSharing = Some True \<and> \<not> CP_ScreenSharing participant)
     in bindM (failIf (CP_Role participant = CallRoleViewer \<and> (\<not> nextAudio \<or> \<not> nextVideo \<or> nextScreen))
                (Forbidden ''viewers cannot publish media'')) (\<lambda>_.
        bindM (failIf (member \<and> audioMuted = Some False \<and> \<not> ResolvedMembersCanUnmuteMic (Call_Settings call))
                (Forbidden ''members cannot unmute the microphone in this call'')) (\<lambda>_.
        bindM (failIf (member \<and> videoMuted = Some False \<and> \<not> ResolvedMembersCanEnableCamera (Call_Settings call))
                (Forbidden ''members cannot enable the camera in this call'')) (\<lambda>_.
        bindM (if flipsOn then readM (checkScreenShareCapacity env callID (CP_ID participant)) else returnM ()) (\<lambda>_.
        bindM (failIf (flipsOn \<and> \<not> canShareScreen participant) (Forbidden ''screen_share_not_granted'')) (\<lambda>_.
        bindM (mapErrM (\<lambda>err. Internal ''failed to update media state'' (Some err))
                (UpdateParticipantMedia env (CP_ID participant) nextAudio nextVideo nextScreen)) (\<lambda>_.
        publishParticipantEvent env TypeCallParticipantUpdated call
          (participant\<lparr>CP_AudioMuted := nextAudio, CP_VideoMuted := nextVideo, CP_ScreenSharing := nextScreen\<rparr>)))))))))))"

subsection \<open>Roles\<close>

definition validateAssignableRole :: "CallType \<Rightarrow> CallRole \<Rightarrow> go_error + unit" where
  "validateAssignableRole callType role =
     (case role of
        CallRoleViewer \<Rightarrow>
          if callType \<noteq> CallTypeWebinar \<and> callType \<noteq> CallTypeSelector
          then Inl (InvalidInput ''viewer role is only valid for webinars and selector calls'') else Inr ()
      | CallRoleOther _ \<Rightarrow> Inl (InvalidInput ''invalid call role'')
      | _ \<Rightarrow> Inr ())"

definition UpdateParticipantRole :: "call_env \<Rightarrow> uuid \<Rightarrow> uuid \<Rightarrow> uuid \<Rightarrow> uuid \<Rightarrow> CallRole \<Rightarrow> unit call_handler" where
  "UpdateParticipantRole env workspaceID callID actorUserID targetUserID role =
     bindM (readM (requireCallAccess env workspaceID callID actorUserID)) (\<lambda>call.
     bindM (failIf (Call_Status call = CallStatusEnded) (Forbidden ''call has already ended'')) (\<lambda>_.
     bindM (readM (\<lambda>_. validateAssignableRole (Call_Type call) role)) (\<lambda>_.
     bindM (failIf (role = CallRoleHost) (InvalidInput ''host role can only be assigned via transfer-host'')) (\<lambda>_.
     bindM (readM (participant_or env callID actorUserID (Forbidden ''actor is not a participant'')
             ''failed to get actor participant'')) (\<lambda>actor.
     bindM (failIf (CP_Role actor \<noteq> CallRoleHost \<and> CP_Role actor \<noteq> CallRoleCoHost)
             (Forbidden ''only host or co-host can change participant roles'')) (\<lambda>_.
     bindM (readM (participant_or env callID targetUserID (NotFound ''participant not found'')
             ''failed to get target participant'')) (\<lambda>target.
     bindM (failIf (CP_Role target = CallRoleHost \<and> CP_UserID target \<noteq> CP_UserID actor)
             (Forbidden ''host role cannot be changed by another participant'')) (\<lambda>_.
     bindM (failIf (CP_Role actor = CallRoleCoHost \<and> (role = CallRoleHost \<or> role = CallRoleCoHost))
             (Forbidden ''co-hosts cannot assign host or co-host roles'')) (\<lambda>_.
     bindM (failIf (CP_UserID actor = CP_UserID target \<and> CP_Role actor = CallRoleHost \<and> role \<noteq> CallRoleHost)
             (Forbidden ''host cannot demote themselves'')) (\<lambda>_.
     bindM (mapErrM (\<lambda>err. Internal ''failed to update participant role'' (Some err))
             (Calls_UpdateParticipantRole env (CP_ID target) role)) (\<lambda>_.
     let target1 = target\<lparr>CP_Role := role\<rparr>
     in bindM (if role = CallRoleViewer
               then bindM (mapErrM (\<lambda>err. Internal ''failed to disable viewer media'' (Some err))
                            (UpdateParticipantMedia env (CP_ID target) True True False)) (\<lambda>_.
                    returnM (target1\<lparr>CP_AudioMuted := True, CP_VideoMuted := True, CP_ScreenSharing := False\<rparr>))
               else returnM target1) (\<lambda>target2.
        publishParticipantEvent env TypeCallParticipantUpdated call target2))))))))))))"

definition TransferHost :: "call_env \<Rightarrow> uuid \<Rightarrow> uuid \<Rightarrow> uuid \<Rightarrow> uuid \<Rightarrow> unit call_handler" where
  "TransferHost env workspaceID callID actorUserID targetUserID =
     bindM (readM (requireCallAccess env workspaceID callID actorUserID)) (\<lambda>call.
     bindM (failIf (Call_Status call = CallStatusEnded) (Forbidden ''call has already ended'')) (\<lambda>_.
     bindM (failIf (actorUserID = targetUserID) (InvalidInput ''cannot transfer host to yourself'')) (\<lambda>_.
     bindM (readM (participant_or env callID actorUserID (Forbidden ''actor is not a participant'')
             ''failed to get actor participant'')) (\<lambda>actor.
     bindM (failIf (CP_Role actor \<noteq> CallRoleHost) (Forbidden ''only the host can transfer host'')) (\<lambda>_.
     bindM (readM (participant_or env callID targetUserID (NotFound ''target participant not found'')
             ''failed to get target participant'')) (\<lambda>target.
     bindM (failIf (CP_Status target \<noteq> ParticipantStatusConnected) (InvalidInput ''target participant is not connected'')) (\<lambda>_.
     bindM (failIf (CP_Role target = CallRoleHost) (Conflict ''target is already the host'')) (\<lambda>_.
     bindM (mapErrM (\<lambda>err. Internal ''failed to transfer host'' (Some err))
             (Calls_TransferHost env callID actorUserID targetUserID)) (\<lambda>swapped.
     bindM (failIf (\<not> swapped) (Conflict ''host changed; please retry'')) (\<lambda>_.
     bindM (publishParticipantEvent env TypeCallParticipantUpdated call (actor\<lparr>CP_Role := CallRoleParticipant\<rparr>)) (\<lambda>_.
     publishParticipantEvent env TypeCallParticipantUpdated call (target\<lparr>CP_Role := CallRoleHost\<rparr>))))))))))))"

subsection \<open>Screen-share grants\<close>

text \<open>\<open>publishShareEvent\<close> only forwards to \<open>publishCallControlEvent\<close>.\<close>

definition publishShareEvent :: "call_env \<Rightarrow> EventType \<Rightarrow> Call \<Rightarrow> uuid \<Rightarrow> Payload \<Rightarrow> unit call_handler" where
  "publishShareEvent env evtType call actorID payload = publishCallControlEvent env evtType call actorID payload"

definition GrantScreenShare :: "call_env \<Rightarrow> uuid \<Rightarrow> uuid \<Rightarrow> uuid \<Rightarrow> uuid \<Rightarrow> unit call_handler" where
  "GrantScreenShare env workspaceID callID actorID targetUserID =
     bindM (readM (requireCallAccess env workspaceID callID actorID)) (\<lambda>call.
     bindM (readM (requireHostOrCoHost env callID actorID)) (\<lambda>_.
     bindM (readM (GetParticipant env callID targetUserID)) (\<lambda>target.
     bindM (failIf (CP_Role target = CallRoleViewer) (Forbidden ''viewers cannot be granted screen share'')) (\<lambda>_.
     if CP_Role target = CallRoleHost \<or> CP_Role target = CallRoleCoHost then returnM ()
     else bindM (updateLiveKitParticipantPermission env callID targetUserID (CP_Role target) (Call_Settings call) True) (\<lambda>_.
          bindM (SetCanScreenShare env (CP_ID target) True) (\<lambda>_.
          bindM (publishParticipantEvent env TypeCallParticipantUpdated call (target\<lparr>CP_CanScreenShare := True\<rparr>)) (\<lambda>_.
          publishShareEvent env TypeCallShareRequestResolved call actorID
            (ShareRequestResolvedPayload callID targetUserID True))))))))"

definition RevokeScreenShare :: "call_env \<Rightarrow> uuid \<Rightarrow> uuid \<Rightarrow> uuid \<Rightarrow> uuid \<Rightarrow> unit call_handler" where
  "RevokeScreenShare env workspaceID callID actorID targetUserID =
     bindM (readM (requireCallAccess env workspaceID callID actorID)) (\<lambda>call.
     bindM (readM (requireHostOrCoHost env callID actorID)) (\<lambda>_.
     bindM (readM (GetParticipant env callID targetUserID)) (\<lambda>target.
     if CP_Role target = CallRoleHost \<or> CP_Role target = CallRoleCoHost \<or> CP_Role target = CallRoleViewer then returnM ()
     else bindM (updateLiveKitParticipantPermission env callID targetUserID (CP_Role target) (Call_Settings call) False) (\<lambda>_.
          bindM (SetCanScreenShare env (CP_ID target) False) (\<lambda>_.
          publishParticipantEvent env TypeCallParticipantUpdated call (target\<lparr>CP_CanScreenShare := False\<rparr>))))))"

definition RequestScreenShare :: "call_env \<Rightarrow> uuid \<Rightarrow> uuid \<Rightarrow> uuid \<Rightarrow> unit call_handler" where
  "RequestScreenShare env workspaceID callID requesterID =
     bindM (readM (requireCallAccess env workspaceID callID requesterID)) (\<lambda>call.
     bindM (failIf (Call_Status call = CallStatusEnded) (Forbidden ''call has already ended'')) (\<lambda>_.
     bindM (readM (GetParticipant env callID requesterID)) (\<lambda>p.
     bindM (failIf (CP_Status p \<noteq> ParticipantStatusConnected) (Forbidden ''participant is not connected'')) (\<lambda>_.
     if CP_Role p = CallRoleViewer \<or> canShareScreen p then returnM ()
     else publishShareEvent env TypeCallShareRequestCreated call requesterID (ShareRequestPayload callID requesterID)))))"

definition ResolveShareRequest :: "call_env \<Rightarrow> uuid \<Rightarrow> uuid \<Rightarrow> uuid \<Rightarrow> uuid \<Rightarrow> bool \<Rightarrow> unit call_handler" where
  "ResolveShareRequest env workspaceID callID actorID requesterID approved =
     (if approved then GrantScreenShare env workspaceID callID actorID requesterID
      else bindM (readM (requireCallAccess env workspaceID callID actorID)) (\<lambda>call.
           bindM (readM (requireHostOrCoHost env callID actorID)) (\<lambda>_.
           publishShareEvent env TypeCallShareRequestResolved call actorID
             (ShareRequestResolvedPayload callID requesterID False))))"

definition SetFeaturedShare :: "call_env \<Rightarrow> uuid \<Rightarrow> uuid \<Rightarrow> uuid \<Rightarrow> uuid option \<Rightarrow> unit call_handler" where
  "SetFeaturedShare env workspaceID callID actorID target =
     bindM (readM (requireCallAccess env workspaceID callID actorID)) (\<lambda>call.
     bindM (readM (requireHostOrCoHost env callID actorID)) (\<lambda>_.
     bindM (case target of
              None \<Rightarrow> returnM ()
            | Some t \<Rightarrow> bindM (mapErrM (\<lambda>_. InvalidInput ''featured user is not in this call'')
                           (readM (GetParticipant env callID t))) (\<lambda>_. returnM ())) (\<lambda>_.
     bindM (SetFeaturedShareUserID env callID target) (\<lambda>_.
     publishShareEvent env TypeCallFeaturedShareUpdated call actorID (FeaturedSharePayload callID target)))))"

definition SetPinnedParticipant :: "call_env \<Rightarrow> uuid \<Rightarrow> uuid \<Rightarrow> uuid \<Rightarrow> uuid option \<Rightarrow> unit call_handler" where
  "SetPinnedParticipant env workspaceID callID actorID target =
     bindM (readM (requireCallAccess env workspaceID callID actorID)) (\<lambda>call.
     bindM (failIf (Call_Status call = CallStatusEnded) (Forbidden ''call has already ended'')) (\<lambda>_.
     bindM (readM (requireHostOrCoHost env callID actorID)) (\<lambda>_.
     bindM (case target of
              None \<Rightarrow> returnM ()
            | Some t \<Rightarrow> bindM (mapErrM (\<lambda>_. InvalidInput ''pinned participant is not in this call'')
                           (readM (GetParticipant env callID t))) (\<lambda>p.
                         failIf (CP_Status p \<noteq> ParticipantStatusConnected)
                           (InvalidInput ''pinned participant is not connected''))) (\<lambda>_.
     bindM (SetPinnedParticipantUserID env callID target) (\<lambda>_.
     publishCallControlEvent env TypeCallPinnedChanged (call\<lparr>Call_PinnedParticipantUserID := target\<rparr>) actorID
       (PinnedParticipantPayload callID target))))))"

subsection \<open>Host media controls\<close>

definition requireHostMediaControlTarget ::
    "call_env \<Rightarrow> uuid \<Rightarrow> uuid \<Rightarrow> uuid \<Rightarrow> uuid \<Rightarrow> call_state \<Rightarrow> go_error + (Call \<times> CallParticipant)" where
  "requireHostMediaControlTarget env workspaceID callID actorID targetUserID s =
     (case requireCallAccess env workspaceID callID actorID s of
        Inl err \<Rightarrow> Inl err
      | Inr call \<Rightarrow>
          if Call_Status call = CallStatusEnded then Inl (Forbidden ''call has already ended'')
          else (case requireHostOrCoHost env callID actorID s of
                  Inl err \<Rightarrow> Inl err
                | Inr _ \<Rightarrow>
                    if actorID = targetUserID then Inl (InvalidInput ''use local media controls for yourself'')
                    else (case participant_or env callID targetUserID (NotFound ''target participant not found'')
                                 ''failed to get target participant'' s of
                            Inl err \<Rightarrow> Inl err
                          | Inr target \<Rightarrow>
                              if CP_Status target \<noteq> ParticipantStatusConnected
                              then Inl (Forbidden ''target participant is not connected'')
                              else Inr (call, target))))"

definition liveKitRoomNameForParticipant :: "uuid \<Rightarrow> CallParticipant \<Rightarrow> RoomName" where
  "liveKitRoomNameForParticipant callID p =
     (case CP_BreakoutRoomID p of Some r \<Rightarrow> breakoutLiveKitRoomName callID r | None \<Rightarrow> MainRoom callID)"

definition muteLiveKitParticipantTracks :: "call_env \<Rightarrow> uuid \<Rightarrow> CallParticipant \<Rightarrow> TrackSource \<Rightarrow> unit call_handler" where
  "muteLiveKitParticipantTracks env callID target source =
     (if \<not> e_livekitRooms env then returnM ()
      else let roomName = liveKitRoomNameForParticipant callID target
           in bindM (mapErrM (\<lambda>err. Internal ''failed to list livekit participants for media control'' (Some err))
                      (readM (\<lambda>_. e_lkParticipants env roomName))) (\<lambda>lkParticipants.
              case find (\<lambda>p. LP_Identity p = UserIdentity (CP_UserID target)) lkParticipants of
                None \<Rightarrow> returnM ()
              | Some p \<Rightarrow>
                  forM (LP_Tracks p) (\<lambda>track.
                    if LT_Muted track \<or> LT_Source track \<noteq> source then returnM ()
                    else lk_request env (LK_MutePublishedTrack roomName (CP_UserID target) (LT_Sid track)))))"

definition MuteParticipant :: "call_env \<Rightarrow> uuid \<Rightarrow> uuid \<Rightarrow> uuid \<Rightarrow> uuid \<Rightarrow> unit call_handler" where
  "MuteParticipant env workspaceID callID actorID targetUserID =
     bindM (readM (requireHostMediaControlTarget env workspaceID callID actorID targetUserID)) (\<lambda>(call, target).
     if CP_AudioMuted target then returnM ()
     else bindM (muteLiveKitParticipantTracks env callID target TrackSource_MICROPHONE) (\<lambda>_.
          bindM (UpdateParticipantMedia env (CP_ID target) True (CP_VideoMuted target) (CP_ScreenSharing target)) (\<lambda>_.
          bindM (publishParticipantEvent env TypeCallParticipantUpdated call (target\<lparr>CP_AudioMuted := True\<rparr>)) (\<lambda>_.
          publishCallControlEvent env TypeCallParticipantMuted call actorID
            (CallParticipantMutedPayload callID targetUserID (Some True) None)))))"

definition DisableParticipantCamera :: "call_env \<Rightarrow> uuid \<Rightarrow> uuid \<Rightarrow> uuid \<Rightarrow> uuid \<Rightarrow> unit call_handler" where
  "DisableParticipantCamera env workspaceID callID actorID targetUserID =
     bindM (readM (requireHostMediaControlTarget env workspaceID callID actorID targetUserID)) (\<lambda>(call, target).
     if CP_VideoMuted target then returnM ()
     else bindM (muteLiveKitParticipantTracks env callID target TrackSource_CAMERA) (\<lambda>_.
          bindM (UpdateParticipantMedia env (CP_ID target) (CP_AudioMuted target) True (CP_ScreenSharing target)) (\<lambda>_.
          bindM (publishParticipantEvent env TypeCallParticipantUpdated call (target\<lparr>CP_VideoMuted := True\<rparr>)) (\<lambda>_.
          publishCallControlEvent env TypeCallParticipantMuted call actorID
            (CallParticipantMutedPayload callID targetUserID None (Some True))))))"

definition AskParticipantToUnmute :: "call_env \<Rightarrow> uuid \<Rightarrow> uuid \<Rightarrow> uuid \<Rightarrow> uuid \<Rightarrow> unit call_handler" where
  "AskParticipantToUnmute env workspaceID callID actorID targetUserID =
     bindM (readM (requireHostMediaControlTarget env workspaceID callID actorID targetUserID)) (\<lambda>(call, _).
     publishCallControlEvent env TypeCallAskUnmute call actorID (CallAskUnmutePayload callID targetUserID actorID))"

subsection \<open>Signalling\<close>

definition signal_type :: "string \<Rightarrow> EventType option" where
  "signal_type signalType =
     (if signalType = ''offer'' then Some TypeSignalOffer
      else if signalType = ''answer'' then Some TypeSignalAnswer
      else if signalType = ''candidate'' then Some TypeSignalCandidate else None)"

definition ForwardSignal :: "call_env \<Rightarrow> uuid \<Rightarrow> uuid \<Rightarrow> uuid \<Rightarrow> string \<Rightarrow> string \<Rightarrow> unit call_handler" where
  "ForwardSignal env callID fromUser toUser signalType payload =
     bindM (mapErrM wrapCallError (readM (Calls_GetByID env callID))) (\<lambda>call.
     bindM (failIf (Call_Status call = CallStatusEnded) (Forbidden ''call has already ended'')) (\<lambda>_.
     bindM (readM (participant_or env callID fromUser (Forbidden ''sender is not a participant in this call'')
             ''failed to verify sender'')) (\<lambda>_.
     bindM (readM (participant_or env callID toUser (NotFound ''recipient is not a participant in this call'')
             ''failed to verify recipient'')) (\<lambda>_.
     case signal_type signalType of
       None \<Rightarrow> throwM (InvalidInput (''unknown signal type: '' @ signalType))
     | Some evtType \<Rightarrow>
         doPublish env evtType (SignalSubject toUser) (Call_WorkspaceID call) uuid_Nil fromUser
           (SignalPayload callID fromUser toUser payload)))))"

subsection \<open>Runs of the specification\<close>

lemma sim_case_prod [sim_intros]: "(\<And>x y. keepsM sim (k x y)) \<Longrightarrow> keepsM sim (case z of (x, y) \<Rightarrow> k x y)"
  by (cases z) simp

lemma publishShareEvent_quiet [quiet_intros]: "quiet (publishShareEvent env t call u p)"
  unfolding publishShareEvent_def by (rule quiet_intros)

lemma livekit_media_quiet [quiet_intros]:
  "quiet (updateLiveKitParticipantPermission env cid u role st g)" "quiet (muteLiveKitParticipantTracks env cid p src)"
  unfolding updateLiveKitParticipantPermission_def muteLiveKitParticipantTracks_def Let_def
  by (intro quiet_struct quiet_intros)+

lemmas media_quiets [sim_intros] =
  sim_quiet [OF publishShareEvent_quiet] livekit_media_quiet [THEN sim_quiet]

lemma UpdateMedia_sim: "keepsM sim (UpdateMedia env ws cid u a v sc)"
  unfolding UpdateMedia_def Let_def by (intro sim_struct sim_intros)

lemma UpdateParticipantRole_handler_sim: "keepsM sim (UpdateParticipantRole env ws cid u t role)"
proof (cases "role = CallRoleHost")
  case True
  show ?thesis
    unfolding UpdateParticipantRole_def True
    by (rule keepsMI) (intro sim_bind_read sim_bind_failIf; simp)
next
  case False
  then show ?thesis unfolding UpdateParticipantRole_def Let_def by (intro sim_struct sim_intros)
qed

lemma media_handlers_sim:
  "keepsM sim (TransferHost env ws cid u t)" "keepsM sim (GrantScreenShare env ws cid u t)"
  "keepsM sim (RevokeScreenShare env ws cid u t)" "keepsM sim (RequestScreenShare env ws cid u)"
  "keepsM sim (SetFeaturedShare env ws cid u tg)" "keepsM sim (SetPinnedParticipant env ws cid u tg)"
  "keepsM sim (MuteParticipant env ws cid u t)" "keepsM sim (DisableParticipantCamera env ws cid u t)"
  "keepsM sim (AskParticipantToUnmute env ws cid u t)" "keepsM sim (ForwardSignal env cid u t sg pl)"
  unfolding TransferHost_def GrantScreenShare_def RevokeScreenShare_def RequestScreenShare_def
    SetFeaturedShare_def SetPinnedParticipant_def MuteParticipant_def DisableParticipantCamera_def
    AskParticipantToUnmute_def ForwardSignal_def
  by (intro sim_struct sim_intros)+

lemma ResolveShareRequest_sim: "keepsM sim (ResolveShareRequest env ws cid u r b)"
  unfolding ResolveShareRequest_def by (intro sim_struct sim_intros media_handlers_sim)

end
