(* ===== verification/Breakout.thy ===== *)
theory Breakout
  imports CallMedia
begin

text \<open>
  Breakout rooms: \<open>internal/service/call/breakout.go\<close> and the sweeper of
  \<open>breakout_autoclose.go\<close>. Handlers that use \<open>s.sfu\<close> without a nil test do so through
  \<open>derefSFU\<close>; \<open>RemovePeer\<close> only touches the SFU's peer connections, which are not modelled.
\<close>

subsection \<open>Opening rooms\<close>

record CreateBreakoutRoomInput =
  BI_Name :: string
  BI_TimeLimit :: "int option"
  BI_ParticipantUserIDs :: "uuid list"

text \<open>\<open>time.Duration\<close> is an \<open>int64\<close>: the product with \<open>time.Second\<close> wraps.\<close>

definition wrap64 :: "int \<Rightarrow> int" where
  "wrap64 x = (x + 2 ^ 63) mod 2 ^ 64 - 2 ^ 63"

definition max_time_limit :: "CreateBreakoutRoomInput list \<Rightarrow> int" where
  "max_time_limit inputs =
     foldl (\<lambda>m input. case BI_TimeLimit input of Some t \<Rightarrow> if t > m then t else m | None \<Rightarrow> m) 0 inputs"

definition rooms_close_at :: "call_env \<Rightarrow> CreateBreakoutRoomInput list \<Rightarrow> gotime option" where
  "rooms_close_at env inputs =
     (let maxTimeLimit = max_time_limit inputs
      in if maxTimeLimit > 0 then Some (now_of env + wrap64 (maxTimeLimit * time_Second)) else None)"

definition make_room :: "call_env \<Rightarrow> uuid \<Rightarrow> uuid \<Rightarrow> gotime option \<Rightarrow> CreateBreakoutRoomInput \<Rightarrow> uuid \<Rightarrow> BreakoutRoom" where
  "make_room env callID userID closesAt input newID =
     \<lparr>BR_ID = newID, BR_CallID = callID, BR_Name = BI_Name input, BR_CreatedBy = userID,
      BR_TimeLimit = BI_TimeLimit input,
      BR_ClosesAt = (case BI_TimeLimit input of Some t \<Rightarrow> if t > 0 then closesAt else None | None \<Rightarrow> None),
      BR_Status = BreakoutRoomStatusActive, BR_CreatedAt = now_of env, BR_ClosedAt = None\<rparr>"

definition make_rooms :: "call_env \<Rightarrow> uuid \<Rightarrow> uuid \<Rightarrow> CreateBreakoutRoomInput list \<Rightarrow> BreakoutRoom list call_handler" where
  "make_rooms env callID userID inputs =
     foldM (\<lambda>rooms input. bindM (id_New env) (\<lambda>newID.
       returnM (rooms @ [make_room env callID userID (rooms_close_at env inputs) input newID]))) [] inputs"

definition breakout_creation_allowed :: "call_env \<Rightarrow> Call \<Rightarrow> CallParticipant \<Rightarrow> go_error + unit" where
  "breakout_creation_allowed env call actor =
     (let actorIsHostOrCoHost = (CP_Role actor = CallRoleHost \<or> CP_Role actor = CallRoleCoHost)
      in if ResolvedBreakoutCreation (Call_Settings call) \<noteq> BreakoutCreationEveryone
         then if \<not> actorIsHostOrCoHost then Inl (Forbidden ''only host or co-host can perform this action'') else Inr ()
         else if CP_Status actor \<noteq> ParticipantStatusConnected
         then Inl (Forbidden ''only connected participants can open breakout rooms'')
         else if participant_IsGuest env call actor then Inl (Forbidden ''guests cannot open breakout rooms'')
         else Inr ())"

definition connectedParticipants :: "call_env \<Rightarrow> uuid \<Rightarrow> call_state \<Rightarrow> go_error + uuid list" where
  "connectedParticipants env callID s =
     (case ListParticipants env callID s of
        Inl err \<Rightarrow> Inl (Internal ''failed to list call participants'' (Some err))
      | Inr participants \<Rightarrow>
          Inr (map CP_UserID (filter (\<lambda>p. CP_Status p = ParticipantStatusConnected) participants)))"

definition preassign :: "call_env \<Rightarrow> Call \<Rightarrow> uuid \<Rightarrow> uuid list \<Rightarrow> BreakoutRoom \<Rightarrow> uuid list \<Rightarrow> unit call_handler" where
  "preassign env call userID connected room uids =
     forM uids (\<lambda>uid.
       if uid = userID \<or> uid \<notin> set connected then returnM ()
       else bindM (tryM (AssignParticipant env (Call_ID call) uid (BR_ID room))) (\<lambda>r.
            case r of
              Inl _ \<Rightarrow> returnM ()
            | Inr _ \<Rightarrow> publishBreakoutEvent env TypeBreakoutParticipantMoved call
                         (BreakoutParticipantMovedPayload (Call_ID call) uid (Some (BR_ID room)))))"

definition open_room :: "call_env \<Rightarrow> Call \<Rightarrow> uuid \<Rightarrow> bool \<Rightarrow> uuid list \<Rightarrow> BreakoutRoom \<times> CreateBreakoutRoomInput \<Rightarrow> unit call_handler" where
  "open_room env call userID actorIsHostOrCoHost connected ri =
     (let room = fst ri; input = snd ri
      in bindM (bestEffort (SFU_CreateRoom env (breakoutSFURoomID (Call_ID call) (BR_ID room)))) (\<lambda>_.
         bindM (bestEffort (EnsureLiveKitBreakoutRoom env call (BR_ID room))) (\<lambda>_.
         bindM (publishBreakoutEvent env TypeBreakoutRoomCreated call (BreakoutRoomPayload (Call_ID call) room)) (\<lambda>_.
         if actorIsHostOrCoHost then preassign env call userID connected room (BI_ParticipantUserIDs input) else returnM ()))))"

definition CreateBreakoutRooms :: "call_env \<Rightarrow> uuid \<Rightarrow> uuid \<Rightarrow> CreateBreakoutRoomInput list \<Rightarrow> BreakoutRoom list call_handler" where
  "CreateBreakoutRooms env callID userID inputs =
     bindM (mapErrM wrapCallError (readM (Calls_GetByID env callID))) (\<lambda>call.
     bindM (failIf (Call_Status call \<noteq> CallStatusActive) (Forbidden ''breakout rooms can only be created in an active call'')) (\<lambda>_.
     bindM (failIf (\<not> CS_BreakoutRooms (Call_Settings call)) (Forbidden ''breakout rooms are not enabled for this call'')) (\<lambda>_.
     bindM (readM (participant_or env callID userID (Forbidden ''only host or co-host can perform this action'')
             ''failed to get participant'')) (\<lambda>actor.
     bindM (readM (\<lambda>_. breakout_creation_allowed env call actor)) (\<lambda>_.
     bindM (failIf (inputs = []) (InvalidInput ''at least one breakout room is required'')) (\<lambda>_.
     bindM (failIf (\<exists>input \<in> set inputs. BI_Name input = '''') (InvalidInput ''breakout room name is required'')) (\<lambda>_.
     bindM (make_rooms env callID userID inputs) (\<lambda>rooms.
     let actorIsHostOrCoHost = (CP_Role actor = CallRoleHost \<or> CP_Role actor = CallRoleCoHost)
     in bindM (if actorIsHostOrCoHost then readM (connectedParticipants env callID) else returnM []) (\<lambda>connected.
        bindM (mapErrM (serviceError ''failed to create breakout rooms'')
                (CreateRoomsWithinCap env callID (ResolvedMaxBreakoutRooms (Call_Settings call)) rooms)) (\<lambda>_.
        bindM (forM (zip rooms inputs) (\<lambda>ri. derefSFU env (open_room env call userID actorIsHostOrCoHost connected ri))) (\<lambda>_.
        returnM rooms)))))))))))"

definition ListBreakoutRooms :: "call_env \<Rightarrow> uuid \<Rightarrow> call_state \<Rightarrow> go_error + BreakoutRoom list" where
  "ListBreakoutRooms env callID s =
     (case Calls_GetByID env callID s of
        Inl err \<Rightarrow> Inl (wrapCallError err)
      | Inr _ \<Rightarrow>
          (case Rooms_ListByCall env callID s of
             Inl err \<Rightarrow> Inl (Internal ''failed to list breakout rooms'' (Some err))
           | Inr rooms \<Rightarrow> Inr rooms))"

subsection \<open>Moving between rooms\<close>

definition room_or :: "call_env \<Rightarrow> uuid \<Rightarrow> uuid \<Rightarrow> call_state \<Rightarrow> go_error + BreakoutRoom" where
  "room_or env callID breakoutRoomID s =
     (case Rooms_GetByID env breakoutRoomID s of
        Inl err \<Rightarrow>
          if has_code CodeNotFound err then Inl (NotFound ''breakout room not found'')
          else Inl (Internal ''failed to get breakout room'' (Some err))
      | Inr room \<Rightarrow>
          if BR_CallID room \<noteq> callID then Inl (Forbidden ''breakout room does not belong to this call'') else Inr room)"

definition activeBreakoutRoomForCall :: "call_env \<Rightarrow> uuid \<Rightarrow> uuid \<Rightarrow> call_state \<Rightarrow> go_error + BreakoutRoom" where
  "activeBreakoutRoomForCall env callID breakoutRoomID s =
     (case room_or env callID breakoutRoomID s of
        Inl err \<Rightarrow> Inl err
      | Inr room \<Rightarrow>
          if BR_Status room \<noteq> BreakoutRoomStatusActive then Inl (Forbidden ''breakout room is closed'') else Inr room)"

text \<open>The connected participant each move needs.\<close>

definition connected_or :: "call_env \<Rightarrow> uuid \<Rightarrow> uuid \<Rightarrow> call_state \<Rightarrow> go_error + CallParticipant" where
  "connected_or env callID userID s =
     (case participant_or env callID userID (Forbidden ''user is not a participant in this call'') ''failed to get participant'' s of
        Inl err \<Rightarrow> Inl err
      | Inr p \<Rightarrow>
          if CP_Status p \<noteq> ParticipantStatusConnected then Inl (Forbidden ''participant is not connected'') else Inr p)"

definition publishMoved :: "call_env \<Rightarrow> Call \<Rightarrow> uuid \<Rightarrow> uuid option \<Rightarrow> unit call_handler" where
  "publishMoved env call userID room =
     publishBreakoutEvent env TypeBreakoutParticipantMoved call (BreakoutParticipantMovedPayload (Call_ID call) userID room)"

definition JoinBreakoutRoom :: "call_env \<Rightarrow> uuid \<Rightarrow> uuid \<Rightarrow> uuid \<Rightarrow> LiveKitJoinInfo call_handler" where
  "JoinBreakoutRoom env callID userID breakoutRoomID =
     bindM (mapErrM wrapCallError (readM (Calls_GetByID env callID))) (\<lambda>call.
     bindM (failIf (Call_Status call \<noteq> CallStatusActive) (Forbidden ''call is not active'')) (\<lambda>_.
     bindM (readM (activeBreakoutRoomForCall env callID breakoutRoomID)) (\<lambda>_.
     bindM (readM (connected_or env callID userID)) (\<lambda>participant.
     bindM (failIf (\<not> e_livekit env) (Unavailable ''livekit is not configured'')) (\<lambda>_.
     bindM (derefSFU env (returnM ())) (\<lambda>_.
     bindM (mapErrM (\<lambda>err. Internal ''failed to join breakout room'' (Some err))
             (AssignParticipant env callID userID breakoutRoomID)) (\<lambda>_.
     bindM (bestEffort (EnsureLiveKitBreakoutRoom env call breakoutRoomID)) (\<lambda>_.
     bindM (publishMoved env call userID (Some breakoutRoomID)) (\<lambda>_.
     readM (IssueLiveKitBreakoutJoinInfo env call breakoutRoomID userID))))))))))"

definition AssignParticipantToRoom :: "call_env \<Rightarrow> uuid \<Rightarrow> uuid \<Rightarrow> uuid \<Rightarrow> uuid \<Rightarrow> unit call_handler" where
  "AssignParticipantToRoom env callID actorID targetUserID breakoutRoomID =
     bindM (readM (requireHostOrCoHost env callID actorID)) (\<lambda>_.
     bindM (failIf (actorID = targetUserID) (InvalidInput ''cannot move yourself'')) (\<lambda>_.
     bindM (mapErrM wrapCallError (readM (Calls_GetByID env callID))) (\<lambda>call.
     bindM (readM (participant_or env callID targetUserID (Forbidden ''user is not a participant in this call'')
             ''failed to get participant'')) (\<lambda>target.
     bindM (failIf (CP_Role target = CallRoleHost) (Forbidden ''cannot move the host'')) (\<lambda>_.
     bindM (failIf (CP_Status target \<noteq> ParticipantStatusConnected) (Forbidden ''participant is not connected'')) (\<lambda>_.
     bindM (readM (activeBreakoutRoomForCall env callID breakoutRoomID)) (\<lambda>_.
     bindM (mapErrM (\<lambda>err. Internal ''failed to assign participant to breakout room'' (Some err))
             (AssignParticipant env callID targetUserID breakoutRoomID)) (\<lambda>_.
     publishMoved env call targetUserID (Some breakoutRoomID)))))))))"

definition InviteToBreakoutRoom :: "call_env \<Rightarrow> uuid \<Rightarrow> uuid \<Rightarrow> uuid \<Rightarrow> uuid \<Rightarrow> unit call_handler" where
  "InviteToBreakoutRoom env callID inviterID inviteeID breakoutRoomID =
     bindM (mapErrM wrapCallError (readM (Calls_GetByID env callID))) (\<lambda>call.
     bindM (readM (activeBreakoutRoomForCall env callID breakoutRoomID)) (\<lambda>room.
     bindM (readM (connected_or env callID inviterID)) (\<lambda>inviter.
     bindM (failIf (CP_BreakoutRoomID inviter \<noteq> Some breakoutRoomID) (Forbidden ''can only invite to your breakout room'')) (\<lambda>_.
     bindM (failIf (inviteeID = inviterID) (InvalidInput ''cannot invite yourself'')) (\<lambda>_.
     bindM (readM (connected_or env callID inviteeID)) (\<lambda>_.
     publishBreakoutEvent env TypeBreakoutRoomInvite call
       (BreakoutRoomInvitePayload callID breakoutRoomID inviterID inviteeID (BR_Name room))))))))"

definition ReturnToMainRoom :: "call_env \<Rightarrow> uuid \<Rightarrow> uuid \<Rightarrow> LiveKitJoinInfo call_handler" where
  "ReturnToMainRoom env callID userID =
     bindM (mapErrM wrapCallError (readM (Calls_GetByID env callID))) (\<lambda>call.
     bindM (failIf (Call_Status call = CallStatusEnded) (CallEnded ''this call has already ended'')) (\<lambda>_.
     bindM (readM (participant_or env callID userID (Forbidden ''user is not a participant in this call'')
             ''failed to get participant'')) (\<lambda>participant.
     bindM (failIf (\<not> e_livekit env) (Unavailable ''livekit is not configured'')) (\<lambda>_.
     if CP_BreakoutRoomID participant = None then readM (IssueLiveKitJoinInfo env call userID '''')
     else bindM (derefSFU env (returnM ())) (\<lambda>_.
          bindM (mapErrM (\<lambda>err. Internal ''failed to return to main room'' (Some err))
                  (UnassignParticipant env callID userID)) (\<lambda>_.
          bindM (publishMoved env call userID None) (\<lambda>_.
          readM (IssueLiveKitJoinInfo env call userID ''''))))))))"

subsection \<open>Closing rooms\<close>

definition CloseBreakoutRoom :: "call_env \<Rightarrow> uuid \<Rightarrow> uuid \<Rightarrow> uuid \<Rightarrow> unit call_handler" where
  "CloseBreakoutRoom env callID userID breakoutRoomID =
     bindM (mapErrM wrapCallError (readM (Calls_GetByID env callID))) (\<lambda>call.
     bindM (readM (requireHostOrCoHost env callID userID)) (\<lambda>_.
     bindM (readM (room_or env callID breakoutRoomID)) (\<lambda>room.
     bindM (failIf (BR_Status room \<noteq> BreakoutRoomStatusActive) (Conflict ''breakout room is already closed'')) (\<lambda>_.
     bindM (bestEffort (UnassignAllByRoom env breakoutRoomID)) (\<lambda>_.
     bindM (derefSFU env (SFU_CloseRoom (breakoutSFURoomID callID breakoutRoomID))) (\<lambda>_.
     bindM (scheduleBreakoutLiveKitDelete env (breakoutLiveKitRoomName callID breakoutRoomID)) (\<lambda>_.
     bindM (mapErrM (\<lambda>err. Internal ''failed to close breakout room'' (Some err)) (Rooms_Close env breakoutRoomID)) (\<lambda>_.
     publishBreakoutEvent env TypeBreakoutRoomClosed call (BreakoutRoomPayload callID room)))))))))"

definition hasActiveBreakoutRoom :: "BreakoutRoom list \<Rightarrow> bool" where
  "hasActiveBreakoutRoom rooms = (\<exists>r \<in> set rooms. BR_Status r = BreakoutRoomStatusActive)"

definition closeAllBreakoutRoomsForCall :: "call_env \<Rightarrow> Call \<Rightarrow> unit call_handler" where
  "closeAllBreakoutRoomsForCall env call =
     (let callID = Call_ID call
      in bindM (mapErrM (\<lambda>err. Internal ''failed to list breakout rooms'' (Some err)) (readM (Rooms_ListByCall env callID))) (\<lambda>rooms.
         if \<not> hasActiveBreakoutRoom rooms then returnM ()
         else bindM (forM rooms (\<lambda>room.
                if BR_Status room \<noteq> BreakoutRoomStatusActive then returnM ()
                else bindM (bestEffort (UnassignAllByRoom env (BR_ID room))) (\<lambda>_.
                     bindM (derefSFU env (SFU_CloseRoom (breakoutSFURoomID callID (BR_ID room)))) (\<lambda>_.
                     scheduleBreakoutLiveKitDelete env (breakoutLiveKitRoomName callID (BR_ID room)))))) (\<lambda>_.
              bindM (mapErrM (\<lambda>err. Internal ''failed to close all breakout rooms'' (Some err)) (Rooms_CloseAllByCall env callID)) (\<lambda>_.
              publishBreakoutEvent env TypeBreakoutRoomsAllClosed call (BreakoutRoomsAllClosedPayload callID)))))"

definition CloseAllBreakoutRooms :: "call_env \<Rightarrow> uuid \<Rightarrow> uuid \<Rightarrow> unit call_handler" where
  "CloseAllBreakoutRooms env callID userID =
     bindM (mapErrM wrapCallError (readM (Calls_GetByID env callID))) (\<lambda>call.
     bindM (readM (requireHostOrCoHost env callID userID)) (\<lambda>_.
     closeAllBreakoutRoomsForCall env call))"

definition BroadcastToBreakoutRooms :: "call_env \<Rightarrow> uuid \<Rightarrow> uuid \<Rightarrow> string \<Rightarrow> unit call_handler" where
  "BroadcastToBreakoutRooms env callID userID message =
     bindM (mapErrM wrapCallError (readM (Calls_GetByID env callID))) (\<lambda>call.
     bindM (readM (requireHostOrCoHost env callID userID)) (\<lambda>_.
     bindM (failIf (message = '''') (InvalidInput ''message is required'')) (\<lambda>_.
     publishBreakoutEvent env TypeBreakoutBroadcast call (BreakoutBroadcastPayload callID userID message))))"

definition ListBreakoutRoomParticipants :: "call_env \<Rightarrow> uuid \<Rightarrow> uuid \<Rightarrow> call_state \<Rightarrow> go_error + CallParticipant list" where
  "ListBreakoutRoomParticipants env callID breakoutRoomID s =
     (case room_or env callID breakoutRoomID s of
        Inl err \<Rightarrow> Inl err
      | Inr _ \<Rightarrow>
          (case Rooms_ListParticipants env breakoutRoomID s of
             Inl err \<Rightarrow> Inl (Internal ''failed to list participants'' (Some err))
           | Inr participants \<Rightarrow> Inr participants))"

subsection \<open>The sweeper\<close>

definition normalizeBreakoutAutoCloseInputs :: "int \<Rightarrow> int \<Rightarrow> int \<times> int" where
  "normalizeBreakoutAutoCloseInputs interval limit =
     (if interval \<le> 0 then 30 * time_Second else interval, if limit \<le> 0 then 100 else limit)"

definition closeExpiredBreakoutCall :: "call_env \<Rightarrow> uuid \<Rightarrow> bool call_handler" where
  "closeExpiredBreakoutCall env callID =
     bindM (tryM (readM (Calls_GetByID env callID))) (\<lambda>r.
     case r of
       Inl _ \<Rightarrow> returnM False
     | Inr call \<Rightarrow>
         bindM (tryM (closeAllBreakoutRoomsForCall env call)) (\<lambda>c.
         case c of Inl _ \<Rightarrow> returnM False | Inr _ \<Rightarrow> returnM True))"

definition CloseExpiredBreakoutRooms :: "call_env \<Rightarrow> gotime \<Rightarrow> int \<Rightarrow> nat call_handler" where
  "CloseExpiredBreakoutRooms env before limit0 =
     (let limit = snd (normalizeBreakoutAutoCloseInputs 0 limit0)
      in bindM (mapErrM (\<lambda>err. Internal ''failed to list expired breakout rooms'' (Some err))
                 (readM (ListCallsWithExpiredActiveBreakouts env before limit))) (\<lambda>callIDs.
         foldM (\<lambda>closed callID. bindM (closeExpiredBreakoutCall env callID) (\<lambda>ok.
           returnM (if ok then Suc closed else closed))) 0 callIDs))"

subsection \<open>Runs of the specification\<close>

lemma sim_bestEffort [sim_intros]: "keepsM sim m \<Longrightarrow> keepsM sim (bestEffort m)"
  unfolding bestEffort_def by (intro sim_struct)

lemma sim_derefSFU [sim_intros]: "keepsM sim m \<Longrightarrow> keepsM sim (derefSFU env m)"
  unfolding derefSFU_def by (intro sim_struct)

lemma publishMoved_quiet [quiet_intros]: "quiet (publishMoved env call u r)"
  unfolding publishMoved_def by (rule quiet_intros)

lemma make_rooms_quiet [quiet_intros]: "quiet (make_rooms env cid u inputs)"
  unfolding make_rooms_def by (intro quiet_struct quiet_intros)

lemmas breakout_quiets [sim_intros] = sim_quiet [OF publishMoved_quiet] sim_quiet [OF make_rooms_quiet]

lemma open_room_sim [sim_intros]: "keepsM sim (open_room env call u b cs ri)"
  unfolding open_room_def preassign_def Let_def by (intro sim_struct sim_intros)

lemma closeAllForCall_sim [sim_intros]: "keepsM sim (closeAllBreakoutRoomsForCall env call)"
  unfolding closeAllBreakoutRoomsForCall_def Let_def by (intro sim_struct sim_intros)

lemma breakout_handlers_sim:
  "keepsM sim (CreateBreakoutRooms env cid u inputs)" "keepsM sim (JoinBreakoutRoom env cid u rid)"
  "keepsM sim (AssignParticipantToRoom env cid u t rid)" "keepsM sim (InviteToBreakoutRoom env cid u t rid)"
  "keepsM sim (ReturnToMainRoom env cid u)" "keepsM sim (CloseBreakoutRoom env cid u rid)"
  "keepsM sim (CloseAllBreakoutRooms env cid u)" "keepsM sim (BroadcastToBreakoutRooms env cid u msg)"
  "keepsM sim (CloseExpiredBreakoutRooms env before limit)"
  unfolding CreateBreakoutRooms_def JoinBreakoutRoom_def AssignParticipantToRoom_def InviteToBreakoutRoom_def
    ReturnToMainRoom_def CloseBreakoutRoom_def CloseAllBreakoutRooms_def BroadcastToBreakoutRooms_def
    CloseExpiredBreakoutRooms_def closeExpiredBreakoutCall_def Let_def
  by (intro sim_struct sim_intros)+

end
