(* ===== verification/Settings.thy ===== *)
theory Settings
  imports Breakout
begin

text \<open>
  Host-controlled settings of a live call: \<open>internal/service/call/settings.go\<close>. A patch that
  tightens what members may publish is enforced on the LiveKit room before it is stored.
\<close>

subsection \<open>The patch\<close>

record CallSettingsPatch =
  P_EntryMode :: "EntryMode option"
  P_MuteOnJoin :: "bool option"
  P_BreakoutRooms :: "bool option"
  P_BreakoutCreation :: "BreakoutCreationPolicy option"
  P_MaxBreakoutRooms :: "int option"
  P_AccessLevel :: "AccessLevel option"
  P_ScreenSharing :: "bool option"
  P_Chat :: "bool option"
  P_MembersCanUnmuteMic :: "bool option"
  P_MembersCanEnableCamera :: "bool option"
  P_WhoCanAddGuests :: "WhoCanAddGuestsPolicy option"

definition patch_empty :: "CallSettingsPatch \<Rightarrow> bool" where
  "patch_empty patch =
     (P_EntryMode patch = None \<and> P_MuteOnJoin patch = None \<and> P_BreakoutRooms patch = None \<and>
      P_BreakoutCreation patch = None \<and> P_MaxBreakoutRooms patch = None \<and> P_AccessLevel patch = None \<and>
      P_ScreenSharing patch = None \<and> P_Chat patch = None \<and> P_MembersCanUnmuteMic patch = None \<and>
      P_MembersCanEnableCamera patch = None \<and> P_WhoCanAddGuests patch = None)"

text \<open>The straight-line part of \<open>UpdateCallSettings\<close>: the target settings and access level, or the validation error.\<close>

definition patch_basic :: "CallSettingsPatch \<Rightarrow> CallSettings \<Rightarrow> CallSettings" where
  "patch_basic patch s =
     s\<lparr>CS_MuteOnJoin := overlay (P_MuteOnJoin patch) (CS_MuteOnJoin s),
       CS_ScreenSharing := overlay (P_ScreenSharing patch) (CS_ScreenSharing s),
       CS_Chat := overlay (P_Chat patch) (CS_Chat s),
       CS_MembersCanUnmuteMic := (if P_MembersCanUnmuteMic patch \<noteq> None then P_MembersCanUnmuteMic patch else CS_MembersCanUnmuteMic s),
       CS_MembersCanEnableCamera := (if P_MembersCanEnableCamera patch \<noteq> None then P_MembersCanEnableCamera patch else CS_MembersCanEnableCamera s)\<rparr>"

definition patch_guests :: "CallSettingsPatch \<Rightarrow> CallSettings \<Rightarrow> go_error + CallSettings" where
  "patch_guests patch s =
     (case P_WhoCanAddGuests patch of
        None \<Rightarrow> Inr s
      | Some policy \<Rightarrow>
          if \<not> WhoCanAddGuests_Valid policy then Inl (InvalidInput ''invalid who_can_add_guests'')
          else Inr (s\<lparr>CS_WhoCanAddGuests := policy\<rparr>))"

definition patch_access :: "CallSettingsPatch \<Rightarrow> Call \<Rightarrow> go_error + AccessLevel" where
  "patch_access patch call =
     (case P_AccessLevel patch of
        None \<Rightarrow> Inr (AccessLevel_Resolved (Call_AccessLevel call))
      | Some level \<Rightarrow>
          if \<not> AccessLevel_Valid level then Inl (InvalidInput ''invalid access_level'')
          else if level = AccessLevelPrivate \<and> (Call_ChannelID call \<noteq> None \<or> Call_Type call = CallTypeOneToOne)
          then Inl (InvalidInput ''private access is only supported for channel-less multi-party calls'')
          else Inr level)"

definition patch_entry :: "CallSettingsPatch \<Rightarrow> Call \<Rightarrow> CallSettings \<Rightarrow> go_error + CallSettings" where
  "patch_entry patch call s =
     (case P_EntryMode patch of
        None \<Rightarrow> Inr s
      | Some mode \<Rightarrow>
          if \<not> EntryMode_Valid mode then Inl (InvalidInput ''invalid entry_mode'')
          else if mode = EntryModePassword \<and> Call_JoinPasswordHash call = ''''
          then Inl (InvalidInput ''entry_mode=password requires a configured join password'')
          else Inr (s\<lparr>CS_EntryMode := mode, CS_WaitingRoom := (mode = EntryModeManualAdmit)\<rparr>))"

definition patch_breakout :: "CallSettingsPatch \<Rightarrow> CallSettings \<Rightarrow> go_error + CallSettings" where
  "patch_breakout patch s =
     (case (case P_BreakoutCreation patch of
              None \<Rightarrow> Inr s
            | Some policy \<Rightarrow>
                if \<not> BreakoutCreationPolicy_Valid policy then Inl (InvalidInput ''invalid breakout_creation'')
                else Inr (s\<lparr>CS_BreakoutCreation := policy\<rparr>)) of
        Inl err \<Rightarrow> Inl err
      | Inr s1 \<Rightarrow>
          (case P_MaxBreakoutRooms patch of
             None \<Rightarrow> Inr s1
           | Some maxRooms \<Rightarrow>
               if maxRooms < 1 \<or> maxRooms > 8 then Inl (InvalidInput ''max_breakout_rooms must be between 1 and 8'')
               else Inr (s1\<lparr>CS_MaxBreakoutRooms := maxRooms\<rparr>)))"

definition apply_patch :: "CallSettingsPatch \<Rightarrow> Call \<Rightarrow> go_error + (CallSettings \<times> AccessLevel)" where
  "apply_patch patch call =
     (case patch_guests patch (patch_basic patch (Call_Settings call)) of
        Inl err \<Rightarrow> Inl err
      | Inr s1 \<Rightarrow>
          (case patch_access patch call of
             Inl err \<Rightarrow> Inl err
           | Inr level \<Rightarrow>
               (case patch_entry patch call s1 of
                  Inl err \<Rightarrow> Inl err
                | Inr s2 \<Rightarrow>
                    (case patch_breakout patch s2 of
                       Inl err \<Rightarrow> Inl err
                     | Inr s3 \<Rightarrow> Inr (s3, level)))))"

subsection \<open>Enforcing the publish policy\<close>

definition publishRestrictionTightened :: "CallSettings \<Rightarrow> CallSettings \<Rightarrow> bool" where
  "publishRestrictionTightened old next =
     ((CS_ScreenSharing old \<and> \<not> CS_ScreenSharing next) \<or>
      (ResolvedMembersCanUnmuteMic old \<and> \<not> ResolvedMembersCanUnmuteMic next) \<or>
      (ResolvedMembersCanEnableCamera old \<and> \<not> ResolvedMembersCanEnableCamera next))"

definition publishAffectingChanged :: "CallSettings \<Rightarrow> CallSettings \<Rightarrow> bool" where
  "publishAffectingChanged old next =
     (CS_ScreenSharing old \<noteq> CS_ScreenSharing next \<or>
      ResolvedMembersCanUnmuteMic old \<noteq> ResolvedMembersCanUnmuteMic next \<or>
      ResolvedMembersCanEnableCamera old \<noteq> ResolvedMembersCanEnableCamera next)"

definition isPolicyEnforceableMember :: "CallParticipant \<Rightarrow> bool" where
  "isPolicyEnforceableMember p =
     (CP_Status p = ParticipantStatusConnected \<and>
      \<not> (CP_Role p = CallRoleHost \<or> CP_Role p = CallRoleCoHost \<or> CP_Role p = CallRoleViewer) \<and>
      CP_BreakoutRoomID p = None)"

definition sourceDenied :: "TrackSource \<Rightarrow> bool \<Rightarrow> bool \<Rightarrow> bool \<Rightarrow> bool" where
  "sourceDenied source canMic canCam canShare =
     (case source of
        TrackSource_MICROPHONE \<Rightarrow> \<not> canMic
      | TrackSource_CAMERA \<Rightarrow> \<not> canCam
      | TrackSource_SCREEN_SHARE \<Rightarrow> \<not> canShare
      | TrackSource_SCREEN_SHARE_AUDIO \<Rightarrow> \<not> canShare
      | TrackSource_UNKNOWN \<Rightarrow> False)"

text \<open>\<open>indexLiveKitTracks\<close>: a later participant with the same identity overwrites an earlier one.\<close>

definition indexLiveKitTracks :: "LiveKitParticipant list \<Rightarrow> Identity \<Rightarrow> LiveKitTrack list" where
  "indexLiveKitTracks participants identity =
     (case find (\<lambda>p. LP_Identity p = identity) (rev participants) of None \<Rightarrow> [] | Some p \<Rightarrow> LP_Tracks p)"

definition enforce_one :: "call_env \<Rightarrow> uuid \<Rightarrow> CallSettings \<Rightarrow> LiveKitParticipant list \<Rightarrow> CallParticipant \<Rightarrow> unit call_handler" where
  "enforce_one env callID target lkParticipants p =
     (if \<not> isPolicyEnforceableMember p then returnM ()
      else (case resolveMemberPublish (CP_Role p) target (CP_CanScreenShare p) of (canMic, canCam, canShare, _) \<Rightarrow>
            bindM (updateLiveKitParticipantPermission env callID (CP_UserID p) (CP_Role p) target (CP_CanScreenShare p)) (\<lambda>_.
            forM (indexLiveKitTracks lkParticipants (UserIdentity (CP_UserID p))) (\<lambda>track.
              if LT_Muted track \<or> \<not> sourceDenied (LT_Source track) canMic canCam canShare then returnM ()
              else lk_request env (LK_MutePublishedTrack (MainRoom callID) (CP_UserID p) (LT_Sid track))))))"

definition enforceMemberPublishPolicy :: "call_env \<Rightarrow> uuid \<Rightarrow> CallSettings \<Rightarrow> unit call_handler" where
  "enforceMemberPublishPolicy env callID target =
     (if \<not> e_livekitRooms env then returnM ()
      else bindM (mapErrM (\<lambda>err. Internal ''failed to list participants for policy enforcement'' (Some err))
                   (readM (ListParticipants env callID))) (\<lambda>participants.
           bindM (mapErrM (\<lambda>err. Internal ''failed to list livekit participants for policy enforcement'' (Some err))
                   (readM (\<lambda>_. e_lkParticipants env (MainRoom callID)))) (\<lambda>lkParticipants.
           forM participants (enforce_one env callID target lkParticipants))))"

definition reconcileMemberPublishPolicy :: "call_env \<Rightarrow> uuid \<Rightarrow> CallSettings \<Rightarrow> unit call_handler" where
  "reconcileMemberPublishPolicy env callID target =
     (if \<not> e_livekitRooms env then returnM () else bestEffort (enforceMemberPublishPolicy env callID target))"

subsection \<open>Storing\<close>

definition persistCallSettingsAndAccess :: "call_env \<Rightarrow> Call \<Rightarrow> CallSettings \<Rightarrow> AccessLevel \<Rightarrow> uuid \<Rightarrow> unit call_handler" where
  "persistCallSettingsAndAccess env call settings nextAccessLevel actorID =
     (let currentAccessLevel = AccessLevel_Resolved (Call_AccessLevel call);
          accessChanged = (nextAccessLevel \<noteq> currentAccessLevel);
          snapshot = (if currentAccessLevel = AccessLevelPublic \<and> nextAccessLevel = AccessLevelPrivate
                      then SnapshotConnectedIntoInvited env (Call_ID call) actorID else returnM ());
          changeAccess = bindM snapshot (\<lambda>_. UpdateAccessLevel env (Call_ID call) nextAccessLevel)
      in if e_tx env \<and> accessChanged
         then WithinTx env (bindM changeAccess (\<lambda>_. UpdateSettings env (Call_ID call) settings))
         else bindM (if accessChanged then changeAccess else returnM ()) (\<lambda>_. UpdateSettings env (Call_ID call) settings))"

text \<open>The \<open>breakout_rooms\<close> field: switching it off closes the open rooms first.\<close>

definition patch_breakout_rooms :: "call_env \<Rightarrow> uuid \<Rightarrow> uuid \<Rightarrow> CallSettingsPatch \<Rightarrow> CallSettings \<Rightarrow> CallSettings call_handler" where
  "patch_breakout_rooms env callID actorID patch settings =
     (case P_BreakoutRooms patch of
        None \<Rightarrow> returnM settings
      | Some b \<Rightarrow>
          bindM (if b then returnM ()
                 else bindM (mapErrM (\<lambda>err. Internal ''failed to list breakout rooms'' (Some err))
                              (readM (Rooms_ListByCall env callID))) (\<lambda>rooms.
                      if hasActiveBreakoutRoom rooms then CloseAllBreakoutRooms env callID actorID else returnM ())) (\<lambda>_.
          returnM (settings\<lparr>CS_BreakoutRooms := b\<rparr>)))"

definition UpdateCallSettings :: "call_env \<Rightarrow> uuid \<Rightarrow> uuid \<Rightarrow> CallSettingsPatch \<Rightarrow> Call call_handler" where
  "UpdateCallSettings env callID actorID patch =
     bindM (mapErrM wrapCallError (readM (Calls_GetByID env callID))) (\<lambda>call.
     bindM (readM (requireHostOrCoHost env callID actorID)) (\<lambda>_.
     bindM (failIf (Call_Status call \<noteq> CallStatusActive) (Forbidden ''call is not active'')) (\<lambda>_.
     if patch_empty patch then returnM call
     else bindM (readM (\<lambda>_. apply_patch patch call)) (\<lambda>r.
          let nextAccessLevel = snd r
          in bindM (patch_breakout_rooms env callID actorID patch (fst r)) (\<lambda>settings.
             let persist = mapErrM wrapCallError (persistCallSettingsAndAccess env call settings nextAccessLevel actorID);
                 call1 = call\<lparr>Call_Settings := settings, Call_AccessLevel := nextAccessLevel\<rparr>
             in if publishRestrictionTightened (Call_Settings call) settings
                then bindM (enforceMemberPublishPolicy env callID settings) (\<lambda>_.
                     bindM persist (\<lambda>_.
                     bindM (publishCallSettingsChanged env call1) (\<lambda>_.
                     bindM (reconcileMemberPublishPolicy env callID settings) (\<lambda>_.
                     returnM call1))))
                else bindM persist (\<lambda>_.
                     bindM (if publishAffectingChanged (Call_Settings call) settings
                            then reconcileMemberPublishPolicy env callID settings else returnM ()) (\<lambda>_.
                     bindM (publishCallSettingsChanged env call1) (\<lambda>_.
                     returnM call1))))))))"

subsection \<open>Runs of the specification\<close>

lemma quiet_case_prod [quiet_intros]: "(\<And>x y. quiet (k x y)) \<Longrightarrow> quiet (case z of (x, y) \<Rightarrow> k x y)"
  by (cases z) simp

lemma enforce_quiet [quiet_intros]:
  "quiet (enforceMemberPublishPolicy env cid st)" "quiet (reconcileMemberPublishPolicy env cid st)"
  unfolding reconcileMemberPublishPolicy_def enforceMemberPublishPolicy_def enforce_one_def
  by (intro quiet_struct quiet_intros)+

lemmas enforce_sim [sim_intros] = enforce_quiet [THEN sim_quiet]

lemma persist_sim [sim_intros]: "keepsM sim (persistCallSettingsAndAccess env call st lv u)"
  unfolding persistCallSettingsAndAccess_def Let_def by (intro sim_struct sim_tx_keeps sim_intros)

lemma UpdateCallSettings_sim: "keepsM sim (UpdateCallSettings env cid u patch)"
  unfolding UpdateCallSettings_def patch_breakout_rooms_def Let_def
  by (intro sim_struct breakout_handlers_sim sim_intros)

end
