(* ===== verification/CallChat.thy ===== *)
theory CallChat
  imports Settings
begin

text \<open>
  Conversation in a call: hands and reactions (\<open>interactions.go\<close>), the in-call chat
  (\<open>message.go\<close>) and its table (\<open>repository/postgres/call_message.go\<close>).
\<close>

subsection \<open>Hands and reactions\<close>

definition callReactionMaxBytes :: nat where
  "callReactionMaxBytes = 32"

definition requireActiveInCallParticipant :: "call_env \<Rightarrow> uuid \<Rightarrow> uuid \<Rightarrow> uuid \<Rightarrow> call_state \<Rightarrow> go_error + Call" where
  "requireActiveInCallParticipant env workspaceID callID userID s =
     (case requireCallAccess env workspaceID callID userID s of
        Inl err \<Rightarrow> Inl err
      | Inr call \<Rightarrow>
          if Call_Status call \<noteq> CallStatusActive then Inl (Forbidden ''call is not active'')
          else (case participant_or env callID userID (Forbidden ''not in call'') ''failed to load participant'' s of
                  Inl err \<Rightarrow> Inl err
                | Inr participant \<Rightarrow>
                    if CP_Status participant \<noteq> ParticipantStatusConnected then Inl (Forbidden ''not in call'') else Inr call))"

definition publishCallInteraction :: "call_env \<Rightarrow> Call \<Rightarrow> EventType \<Rightarrow> Payload \<Rightarrow> unit call_handler" where
  "publishCallInteraction env call evtType payload =
     bindM (mapErrM (\<lambda>err. Internal ''failed to list participants'' (Some err)) (readM (ListParticipants env (Call_ID call)))) (\<lambda>participants.
     forM participants (\<lambda>p.
       if CP_Status p \<noteq> ParticipantStatusConnected then returnM ()
       else doPublish env evtType (SignalSubject (CP_UserID p)) (Call_WorkspaceID call) uuid_Nil (CP_UserID p) payload))"

definition RaiseHand :: "call_env \<Rightarrow> uuid \<Rightarrow> uuid \<Rightarrow> uuid \<Rightarrow> unit call_handler" where
  "RaiseHand env workspaceID callID userID =
     bindM (readM (requireActiveInCallParticipant env workspaceID callID userID)) (\<lambda>call.
     publishCallInteraction env call TypeCallHandRaised (CallHandPayload (Call_ID call) userID))"

definition LowerHand :: "call_env \<Rightarrow> uuid \<Rightarrow> uuid \<Rightarrow> uuid \<Rightarrow> unit call_handler" where
  "LowerHand env workspaceID callID userID =
     bindM (readM (requireActiveInCallParticipant env workspaceID callID userID)) (\<lambda>call.
     publishCallInteraction env call TypeCallHandLowered (CallHandPayload (Call_ID call) userID))"

definition SendCallReaction :: "call_env \<Rightarrow> uuid \<Rightarrow> uuid \<Rightarrow> uuid \<Rightarrow> string \<Rightarrow> unit call_handler" where
  "SendCallReaction env workspaceID callID userID emoji =
     bindM (failIf (emoji = '''' \<or> length emoji > callReactionMaxBytes \<or> \<not> utf8_ValidString emoji) (InvalidInput ''invalid emoji'')) (\<lambda>_.
     bindM (readM (requireActiveInCallParticipant env workspaceID callID userID)) (\<lambda>call.
     publishCallInteraction env call TypeCallReaction (CallReactionPayload (Call_ID call) userID emoji)))"

subsection \<open>The message table\<close>

definition CallMessages_Create :: "call_env \<Rightarrow> CallMessage \<Rightarrow> unit call_handler" where
  "CallMessages_Create env msg =
     repo_exec env ''CallMessageRepo.Create'' [CM_ID msg] ''postgres: create call message''
       (\<lambda>db. if \<exists>m \<in> set (db_callmsgs db). CM_ID m = CM_ID msg
             then (Inl (Wrapf ''postgres: create call message'' (Opaque ''23505'')), db)
             else (Inr (), db\<lparr>db_callmsgs := db_callmsgs db @ [msg]\<rparr>))"

text \<open>Newest first, one row more than the page so that the caller sees whether there are more.\<close>

definition CallMessages_ListByCall :: "call_env \<Rightarrow> uuid \<Rightarrow> Params \<Rightarrow> call_state \<Rightarrow> go_error + CallMessage list" where
  "CallMessages_ListByCall env callID p0 =
     (let p = Normalize p0
      in repo_query env ''CallMessageRepo.ListByCall'' [callID] ''postgres: list call messages''
           (\<lambda>db. Inr (take (nat (P_Limit p + 1)) (rev (sort_key CM_ID
              (filter (\<lambda>m. CM_CallID m = callID \<and> CM_DeletedAt m = None \<and> (P_Cursor p = uuid_Nil \<or> CM_ID m < P_Cursor p))
                (db_callmsgs db)))))))"

definition CallMessages_SoftDelete :: "call_env \<Rightarrow> uuid \<Rightarrow> uuid \<Rightarrow> unit call_handler" where
  "CallMessages_SoftDelete env msgID callID =
     repo_exec env ''CallMessageRepo.SoftDelete'' [msgID, callID] ''postgres: soft delete call message''
       (\<lambda>db. (Inr (), db\<lparr>db_callmsgs := upd_where (\<lambda>m. CM_ID m = msgID \<and> CM_CallID m = callID \<and> CM_DeletedAt m = None)
          (\<lambda>m. m\<lparr>CM_DeletedAt := Some (now_of env)\<rparr>) (db_callmsgs db)\<rparr>))"

definition CallMessages_GetByID :: "call_env \<Rightarrow> uuid \<Rightarrow> call_state \<Rightarrow> go_error + CallMessage" where
  "CallMessages_GetByID env msgID =
     repo_query env ''CallMessageRepo.GetByID'' [msgID] ''postgres: get call message by id''
       (\<lambda>db. case find (\<lambda>m. CM_ID m = msgID) (db_callmsgs db) of
               None \<Rightarrow> Inl (NotFound ''call message not found'')
             | Some m \<Rightarrow> Inr m)"

subsection \<open>The in-call chat\<close>

definition callMessageMaxBody :: nat where
  "callMessageMaxBody = 2000"

definition validateCallMessageBody :: "string \<Rightarrow> go_error + unit" where
  "validateCallMessageBody body =
     (if \<not> utf8_ValidString body then Inl (InvalidInput ''body must be valid UTF-8'')
      else let trimmed = TrimSpace body
           in if trimmed = '''' then Inl (InvalidInput ''body is required'')
              else if utf8_RuneCountInString trimmed > callMessageMaxBody then Inl (InvalidInput ''body too long'')
              else Inr ())"

definition callMessagePayloadFor :: "EventType \<Rightarrow> Call \<Rightarrow> CallMessage \<Rightarrow> Payload" where
  "callMessagePayloadFor evtType call msg =
     (if evtType = TypeCallMessageDeleted then CallMessageDeletedPayload (Call_ID call) (CM_ID msg)
      else CallMessagePayload (Call_ID call) msg)"

definition publishCallMessageEvent :: "call_env \<Rightarrow> EventType \<Rightarrow> Call \<Rightarrow> CallMessage \<Rightarrow> unit call_handler" where
  "publishCallMessageEvent env evtType call msg =
     publishCallScoped env evtType call (channel_or_nil call) (CM_SenderID msg) (callMessagePayloadFor evtType call msg)"

definition enqueueCallMessageEventTx :: "call_env \<Rightarrow> EventType \<Rightarrow> Call \<Rightarrow> CallMessage \<Rightarrow> unit call_handler" where
  "enqueueCallMessageEventTx env evtType call msg =
     enqueueCallScopedEventTx env evtType call (channel_or_nil call) (CM_SenderID msg) (callMessagePayloadFor evtType call msg)"

definition SendCallMessage :: "call_env \<Rightarrow> uuid \<Rightarrow> uuid \<Rightarrow> uuid \<Rightarrow> string \<Rightarrow> CallMessage call_handler" where
  "SendCallMessage env workspaceID callID senderID body =
     bindM (readM (\<lambda>_. validateCallMessageBody body)) (\<lambda>_.
     bindM (readM (requireCallAccess env workspaceID callID senderID)) (\<lambda>call.
     bindM (readM (participant_or env callID senderID (Forbidden ''not in call'') ''failed to verify participant'')) (\<lambda>participant.
     bindM (failIf (CP_Status participant \<noteq> ParticipantStatusConnected) (Forbidden ''not in call'')) (\<lambda>_.
     bindM (failIf (\<not> CS_Chat (Call_Settings call) \<and> CP_Role participant \<noteq> CallRoleHost \<and> CP_Role participant \<noteq> CallRoleCoHost)
             (Forbidden ''call chat is disabled'')) (\<lambda>_.
     bindM (failIf (Call_Status call = CallStatusEnded) (Forbidden ''call is not active'')) (\<lambda>_.
     bindM (failIf (\<not> e_callMessages env) (Unavailable ''call messaging is not configured'')) (\<lambda>_.
     bindM (id_New env) (\<lambda>newID.
     let msg = \<lparr>CM_ID = newID, CM_CallID = callID, CM_SenderID = senderID, CM_Body = body,
                CM_CreatedAt = now_of env, CM_DeletedAt = None\<rparr>
     in bindM (mapErrM (\<lambda>err. Internal ''failed to create call message'' (Some err))
                (if e_tx env
                 then WithinTx env (bindM (CallMessages_Create env msg) (\<lambda>_.
                        enqueueCallMessageEventTx env TypeCallMessageCreated call msg))
                 else CallMessages_Create env msg)) (\<lambda>_.
        bindM (if e_tx env then returnM () else publishCallMessageEvent env TypeCallMessageCreated call msg) (\<lambda>_.
        returnM msg))))))))))"

definition ListCallMessages :: "call_env \<Rightarrow> uuid \<Rightarrow> uuid \<Rightarrow> uuid \<Rightarrow> Params \<Rightarrow> call_state \<Rightarrow> go_error + CallMessage list" where
  "ListCallMessages env workspaceID callID requesterID params s =
     (case requireCallAccess env workspaceID callID requesterID s of
        Inl err \<Rightarrow> Inl err
      | Inr _ \<Rightarrow>
          if \<not> e_callMessages env then Inl (Unavailable ''call messaging is not configured'')
          else (case CallMessages_ListByCall env callID params s of
                  Inl err \<Rightarrow> Inl (Internal ''failed to list call messages'' (Some err))
                | Inr items \<Rightarrow> Inr items))"

definition DeleteCallMessage :: "call_env \<Rightarrow> uuid \<Rightarrow> uuid \<Rightarrow> uuid \<Rightarrow> uuid \<Rightarrow> unit call_handler" where
  "DeleteCallMessage env workspaceID callID requesterID messageID =
     bindM (readM (requireCallAccess env workspaceID callID requesterID)) (\<lambda>call.
     bindM (failIf (\<not> e_callMessages env) (Unavailable ''call messaging is not configured'')) (\<lambda>_.
     bindM (mapErrM (\<lambda>err. if has_code CodeNotFound err then NotFound ''call message not found''
                            else Internal ''failed to get call message'' (Some err))
             (readM (CallMessages_GetByID env messageID))) (\<lambda>msg.
     bindM (failIf (CM_CallID msg \<noteq> callID) (NotFound ''call message not found'')) (\<lambda>_.
     bindM (if CM_SenderID msg \<noteq> requesterID then readM (requireHostOrCoHost env callID requesterID) else returnM ()) (\<lambda>_.
     bindM (mapErrM (\<lambda>err. Internal ''failed to delete call message'' (Some err))
             (if e_tx env
              then WithinTx env (bindM (CallMessages_SoftDelete env messageID callID) (\<lambda>_.
                     enqueueCallMessageEventTx env TypeCallMessageDeleted call msg))
              else CallMessages_SoftDelete env messageID callID)) (\<lambda>_.
     if e_tx env then returnM () else publishCallMessageEvent env TypeCallMessageDeleted call msg))))))"

subsection \<open>Calls and participants stay as they are\<close>

lemma callmsg_repo_quiet [quiet_intros]:
  "quiet (CallMessages_Create env msg)" "quiet (CallMessages_SoftDelete env mid cid)"
  unfolding CallMessages_Create_def CallMessages_SoftDelete_def by (rule quiet_exec; simp)+

lemma chat_quiet [quiet_intros]:
  "quiet (publishCallMessageEvent env t call msg)" "quiet (enqueueCallMessageEventTx env t call msg)"
  "quiet (publishCallInteraction env call t pl)"
  unfolding publishCallMessageEvent_def enqueueCallMessageEventTx_def publishCallInteraction_def
  by (intro quiet_struct quiet_intros)+

lemma chat_handlers_quiet:
  "quiet (RaiseHand env ws cid u)" "quiet (LowerHand env ws cid u)" "quiet (SendCallReaction env ws cid u e)"
  "quiet (SendCallMessage env ws cid u body)" "quiet (DeleteCallMessage env ws cid u mid)"
  unfolding RaiseHand_def LowerHand_def SendCallReaction_def SendCallMessage_def DeleteCallMessage_def Let_def
  by (intro quiet_struct quiet_intros)+

end
