(* ===== verification/Webhooks.thy ===== *)
theory Webhooks
  imports CallChat
begin

text \<open>
  The LiveKit webhook bridge: \<open>HandleLiveKitWebhook\<close> and what it calls in
  \<open>internal/service/call/livekit.go\<close>, with the claim table of
  \<open>repository/postgres/call.go\<close> that makes deliveries idempotent.
\<close>

subsection \<open>Claims\<close>

datatype LiveKitWebhookClaimResult =
  LiveKitWebhookClaimProcess | LiveKitWebhookClaimDuplicate | LiveKitWebhookClaimInProgress

definition lease_expired :: "gotime \<Rightarrow> gotime option \<Rightarrow> bool" where
  "lease_expired now lease = (case lease of None \<Rightarrow> True | Some t \<Rightarrow> t \<le> now)"

text \<open>
  The three statements of \<open>ClaimLiveKitWebhookEvent\<close> and \<open>reclaimLiveKitWebhookEvent\<close>: insert
  unless the event is known; else look at the row; else take over an expired lease.
\<close>

definition claim_insert :: "call_env \<Rightarrow> webhook_row \<Rightarrow> bool call_handler" where
  "claim_insert env row =
     repo_exec env ''CallRepo.ClaimLiveKitWebhookEvent'' [WE_CallID row] ''postgres: claim livekit webhook event''
       (\<lambda>db. if \<exists>w \<in> set (db_webhooks db). WE_EventID w = WE_EventID row then (Inr False, db)
             else (Inr True, db\<lparr>db_webhooks := db_webhooks db @ [row]\<rparr>))"

definition claim_load :: "call_env \<Rightarrow> string \<Rightarrow> call_state \<Rightarrow> go_error + webhook_row option" where
  "claim_load env eventID =
     repo_query env ''CallRepo.loadLiveKitWebhookEvent'' [] ''postgres: load livekit webhook event claim''
       (\<lambda>db. Inr (find (\<lambda>w. WE_EventID w = eventID) (db_webhooks db)))"

definition reclaim_update :: "call_env \<Rightarrow> webhook_row \<Rightarrow> bool call_handler" where
  "reclaim_update env row =
     repo_exec env ''CallRepo.reclaimLiveKitWebhookEvent'' [WE_CallID row] ''postgres: reclaim livekit webhook event''
       (\<lambda>db. let stale = (\<lambda>w. WE_EventID w = WE_EventID row \<and> \<not> WE_Processed w \<and> lease_expired (now_of env) (WE_LeaseExpiresAt w))
             in (Inr (\<exists>w \<in> set (db_webhooks db). stale w),
                 db\<lparr>db_webhooks := upd_where stale
                      (\<lambda>w. w\<lparr>WE_ReceivedAt := WE_ReceivedAt row, WE_LeaseExpiresAt := WE_LeaseExpiresAt row,
                             WE_ClaimToken := WE_ClaimToken row\<rparr>) (db_webhooks db)\<rparr>))"

definition reclaimLiveKitWebhookEvent :: "call_env \<Rightarrow> webhook_row \<Rightarrow> LiveKitWebhookClaimResult call_handler" where
  "reclaimLiveKitWebhookEvent env row =
     bindM (readM (claim_load env (WE_EventID row))) (\<lambda>r.
     case r of
       None \<Rightarrow> returnM LiveKitWebhookClaimInProgress
     | Some w \<Rightarrow>
         if WE_Processed w then returnM LiveKitWebhookClaimDuplicate
         else if \<not> lease_expired (now_of env) (WE_LeaseExpiresAt w) then returnM LiveKitWebhookClaimInProgress
         else bindM (reclaim_update env row) (\<lambda>taken.
              returnM (if taken then LiveKitWebhookClaimProcess else LiveKitWebhookClaimInProgress)))"

definition ClaimLiveKitWebhookEvent :: "call_env \<Rightarrow> webhook_row \<Rightarrow> LiveKitWebhookClaimResult call_handler" where
  "ClaimLiveKitWebhookEvent env row =
     bindM (claim_insert env row) (\<lambda>inserted.
     if inserted then returnM LiveKitWebhookClaimProcess else reclaimLiveKitWebhookEvent env row)"

definition MarkLiveKitWebhookEventProcessed :: "call_env \<Rightarrow> string \<Rightarrow> uuid \<Rightarrow> bool call_handler" where
  "MarkLiveKitWebhookEventProcessed env eventID claimToken =
     repo_exec env ''CallRepo.MarkLiveKitWebhookEventProcessed'' [] ''postgres: mark livekit webhook event processed''
       (\<lambda>db. let mine = (\<lambda>w. WE_EventID w = eventID \<and> WE_ClaimToken w = claimToken \<and> \<not> WE_Processed w)
             in (Inr (\<exists>w \<in> set (db_webhooks db). mine w),
                 db\<lparr>db_webhooks := upd_where mine
                      (\<lambda>w. w\<lparr>WE_Processed := True, WE_ProcessedAt := Some (now_of env), WE_LeaseExpiresAt := None\<rparr>)
                      (db_webhooks db)\<rparr>))"

subsection \<open>Events\<close>

record EgressInfo =
  EI_EgressID :: string
  EI_RoomName :: "RoomName option"
  EI_Complete :: bool
  EI_Files :: "(int \<times> int) list"

text \<open>A \<open>livekit.WebhookEvent\<close>; an empty room name is \<open>None\<close>, a file result is (size, duration).\<close>

record WebhookEvent =
  WH_Event :: string
  WH_Id :: string
  WH_RoomName :: "RoomName option"
  WH_Participant :: "Identity option"
  WH_Track :: "TrackSource option"
  WH_EgressInfo :: "EgressInfo option"

definition liveKitWebhookClaimLease :: int where
  "liveKitWebhookClaimLease = 2 * time_Minute"

definition egress_request :: "call_env \<Rightarrow> EgressRequest \<Rightarrow> unit call_handler" where
  "egress_request env req =
     bindM (modifyM (\<lambda>s. s\<lparr>st_egress := st_egress s @ [req]\<rparr>)) (\<lambda>_.
       case e_egressResult env req of Some e \<Rightarrow> throwM e | None \<Rightarrow> returnM ())"

definition stopActiveEgressForCallBestEffort :: "call_env \<Rightarrow> uuid \<Rightarrow> unit call_handler" where
  "stopActiveEgressForCallBestEffort env callID =
     (if \<not> e_egressSink env then returnM () else bestEffort (egress_request env (EG_StopActiveEgressForCall callID)))"

text \<open>\<open>x / int64(time.Second)\<close> truncates toward zero.\<close>

definition go_div :: "int \<Rightarrow> int \<Rightarrow> int" where
  "go_div a b = sgn a * sgn b * (\<bar>a\<bar> div \<bar>b\<bar>)"

definition egress_event_info :: "uuid \<Rightarrow> string \<Rightarrow> EgressInfo \<Rightarrow> EgressEventInfo" where
  "egress_event_info callID eventName info =
     (let base = \<lparr>EE_EgressID = EI_EgressID info, EE_CallID = callID, EE_Phase = EgressEventStarted,
                  EE_Succeeded = False, EE_FileSizeBytes = 0, EE_DurationSeconds = 0\<rparr>
      in if eventName = ''egress_updated'' then base\<lparr>EE_Phase := EgressEventUpdated\<rparr>
         else if eventName = ''egress_ended''
         then (let ended = base\<lparr>EE_Phase := EgressEventEnded, EE_Succeeded := EI_Complete info\<rparr>
               in (case EI_Files info of
                     [] \<Rightarrow> ended
                   | (fileSize, duration) # _ \<Rightarrow>
                       ended\<lparr>EE_FileSizeBytes := fileSize, EE_DurationSeconds := go_div duration time_Second\<rparr>))
         else base)"

definition handleLiveKitEgressEvent :: "call_env \<Rightarrow> uuid \<Rightarrow> string \<Rightarrow> EgressInfo option \<Rightarrow> unit call_handler" where
  "handleLiveKitEgressEvent env callID eventName info =
     (case info of
        None \<Rightarrow> returnM ()
      | Some i \<Rightarrow>
          if \<not> e_egressSink env then returnM ()
          else egress_request env (EG_HandleEgressEvent (egress_event_info callID eventName i)))"

subsection \<open>Rooms and participants\<close>

text \<open>\<open>GetByID\<close> or \<open>GetParticipant\<close> as the bridge uses them: a missing row is \<open>None\<close>.\<close>

definition found_or :: "string \<Rightarrow> (call_state \<Rightarrow> go_error + 'a) \<Rightarrow> 'a option call_handler" where
  "found_or failed get =
     bindM (tryM (readM get)) (\<lambda>r.
     case r of
       Inr x \<Rightarrow> returnM (Some x)
     | Inl err \<Rightarrow> if has_code CodeNotFound err then returnM None else throwM (Internal failed (Some err)))"

text \<open>What both ways of ending a call from the bridge do after the status change.\<close>

definition bridge_ended :: "call_env \<Rightarrow> Call \<Rightarrow> uuid \<Rightarrow> unit call_handler" where
  "bridge_ended env call userID =
     bindM (publishCallEvent env TypeCallEnded (markCallEnded env CallEndReasonAllLeft call) userID) (\<lambda>_.
     bindM (stopActiveEgressForCallBestEffort env (Call_ID call)) (\<lambda>_.
     cleanupEndedMediaRooms env (Call_ID call)))"

definition handleLiveKitRoomFinished :: "call_env \<Rightarrow> uuid \<Rightarrow> unit call_handler" where
  "handleLiveKitRoomFinished env callID =
     bindM (found_or ''failed to load call for livekit room_finished'' (Calls_GetByID env callID)) (\<lambda>r.
     case r of
       None \<Rightarrow> returnM ()
     | Some call \<Rightarrow>
         if Call_Status call = CallStatusEnded then returnM ()
         else bindM (mapErrM (\<lambda>err. Internal ''failed to mark call ended'' (Some err))
                      (EndWithReasonIfNotEnded env callID CallEndReasonAllLeft)) (\<lambda>ended.
              if \<not> ended then returnM () else bridge_ended env call (Call_CreatedBy call)))"

definition handleLiveKitParticipantJoined :: "call_env \<Rightarrow> uuid \<Rightarrow> Identity option \<Rightarrow> unit call_handler" where
  "handleLiveKitParticipantJoined env callID p =
     (case Option.bind p parse_identity of
        None \<Rightarrow> returnM ()
      | Some userID \<Rightarrow>
          bindM (found_or ''failed to load call for livekit participant_joined'' (Calls_GetByID env callID)) (\<lambda>r.
          case r of
            None \<Rightarrow> returnM ()
          | Some call \<Rightarrow>
              if Call_Status call = CallStatusEnded then returnM ()
              else bindM (found_or ''failed to load participant for livekit participant_joined'' (GetParticipant env callID userID)) (\<lambda>q.
                   case q of
                     None \<Rightarrow> returnM ()
                   | Some participant \<Rightarrow>
                       if CP_Status participant \<noteq> ParticipantStatusConnected
                       then removeLiveKitParticipantBestEffort env callID userID
                       else if Call_Status call = CallStatusRinging \<and> userID \<noteq> Call_CreatedBy call
                       then bindM (mapErrM (\<lambda>err. Internal ''failed to mark call active'' (Some err))
                                    (ActivateRinging env callID)) (\<lambda>activated.
                            if \<not> activated then returnM ()
                            else publishParticipantEvent env TypeCallParticipantJoined
                                   (call\<lparr>Call_Status := CallStatusActive\<rparr>) participant)
                       else returnM ())))"

text \<open>\<open>autoEndAfterLiveKitParticipantLeft\<close>; its \<open>reason\<close> argument is only logged.\<close>

definition autoEndAfterLiveKitParticipantLeft :: "call_env \<Rightarrow> Call \<Rightarrow> uuid \<Rightarrow> unit call_handler" where
  "autoEndAfterLiveKitParticipantLeft env call userID =
     bindM (mapErrM (\<lambda>err. Internal ''failed to list participants for livekit participant_left'' (Some err))
             (readM (ListParticipants env (Call_ID call)))) (\<lambda>participants.
     if shouldAutoEndAfterLeave call participants
     then bindM (mapErrM (\<lambda>err. Internal ''failed to auto-end call for livekit participant_left'' (Some err))
                  (EndWithReasonIfNotEnded env (Call_ID call) CallEndReasonAllLeft)) (\<lambda>ended.
          if \<not> ended then returnM () else bridge_ended env call userID)
     else returnM ())"

text \<open>The disconnect step the main-room and the breakout-room leave share; it returns the call.\<close>

definition bridge_disconnect :: "call_env \<Rightarrow> Call \<Rightarrow> CallParticipant \<Rightarrow> uuid \<Rightarrow> string \<Rightarrow> string \<Rightarrow> Call call_handler" where
  "bridge_disconnect env call participant userID failedDisconnect failedPin =
     (if CP_Status participant = ParticipantStatusDisconnected then returnM call
      else bindM (mapErrM (\<lambda>err. Internal failedDisconnect (Some err))
                   (DisconnectParticipantIfConnectedWithReason env (CP_ID participant) ParticipantLeftReasonLeft)) (\<lambda>disconnected.
           if \<not> disconnected then returnM call
           else bindM (publishParticipantEvent env TypeCallParticipantLeft call
                        (markParticipantDisconnected env ParticipantLeftReasonLeft participant)) (\<lambda>_.
                mapErrM (\<lambda>err. Internal failedPin (Some err)) (clearPinnedParticipantIfMatches env call userID userID))))"

definition handleLiveKitParticipantLeft :: "call_env \<Rightarrow> uuid \<Rightarrow> Identity option \<Rightarrow> unit call_handler" where
  "handleLiveKitParticipantLeft env callID p =
     (case Option.bind p parse_identity of
        None \<Rightarrow> returnM ()
      | Some userID \<Rightarrow>
          bindM (found_or ''failed to load call for livekit participant_left'' (Calls_GetByID env callID)) (\<lambda>r.
          case r of
            None \<Rightarrow> returnM ()
          | Some call \<Rightarrow>
              if Call_Status call = CallStatusEnded then returnM ()
              else bindM (found_or ''failed to load participant for livekit participant_left'' (GetParticipant env callID userID)) (\<lambda>q.
                   case q of
                     None \<Rightarrow> returnM ()
                   | Some participant \<Rightarrow>
                       if CP_BreakoutRoomID participant \<noteq> None then returnM ()
                       else bindM (bridge_disconnect env call participant userID ''failed to mark participant disconnected''
                                    ''failed to clear pinned participant on livekit leave'') (\<lambda>call1.
                            autoEndAfterLiveKitParticipantLeft env call1 userID))))"

definition handleLiveKitBreakoutWebhook :: "call_env \<Rightarrow> WebhookEvent \<Rightarrow> RoomName \<Rightarrow> unit call_handler" where
  "handleLiveKitBreakoutWebhook env ev roomName =
     (if WH_Event ev \<noteq> ''participant_left'' then returnM ()
      else (case parseBreakoutRoomName roomName of
              None \<Rightarrow> returnM ()
            | Some ids \<Rightarrow>
                let callID = fst ids; breakoutRoomID = snd ids
                in (case Option.bind (WH_Participant ev) parse_identity of
                      None \<Rightarrow> returnM ()
                    | Some userID \<Rightarrow>
                        bindM (found_or ''failed to load call for livekit breakout participant_left'' (Calls_GetByID env callID)) (\<lambda>r.
                        case r of
                          None \<Rightarrow> returnM ()
                        | Some call \<Rightarrow>
                            bindM (found_or ''failed to load participant for livekit breakout participant_left'' (GetParticipant env callID userID)) (\<lambda>q.
                            case q of
                              None \<Rightarrow> returnM ()
                            | Some participant \<Rightarrow>
                                if CP_BreakoutRoomID participant \<noteq> Some breakoutRoomID then returnM ()
                                else bindM (mapErrM (\<lambda>err. Internal ''failed to unassign participant on livekit breakout participant_left'' (Some err))
                                             (UnassignParticipant env callID userID)) (\<lambda>_.
                                     bindM (publishMoved env call userID None) (\<lambda>_.
                                     bindM (bridge_disconnect env call participant userID
                                             ''failed to mark participant disconnected on breakout leave''
                                             ''failed to clear pinned participant on breakout leave'') (\<lambda>call1.
                                     autoEndAfterLiveKitParticipantLeft env call1 userID))))))))"

definition clear_featured_share :: "call_env \<Rightarrow> uuid \<Rightarrow> uuid \<Rightarrow> unit call_handler" where
  "clear_featured_share env callID userID =
     bindM (tryM (readM (Calls_GetByID env callID))) (\<lambda>r.
     case r of
       Inl _ \<Rightarrow> returnM ()
     | Inr c \<Rightarrow>
         if Call_FeaturedShareUserID c \<noteq> Some userID then returnM ()
         else bindM (tryM (SetFeaturedShareUserID env callID None)) (\<lambda>cleared.
              case cleared of
                Inl _ \<Rightarrow> returnM ()
              | Inr _ \<Rightarrow> publishShareEvent env TypeCallFeaturedShareUpdated (c\<lparr>Call_FeaturedShareUserID := None\<rparr>) userID
                           (FeaturedSharePayload callID None)))"

definition handleLiveKitTrackChanged :: "call_env \<Rightarrow> uuid \<Rightarrow> Identity option \<Rightarrow> TrackSource option \<Rightarrow> bool \<Rightarrow> unit call_handler" where
  "handleLiveKitTrackChanged env callID p track screenSharing =
     (if p = None \<or> track \<noteq> Some TrackSource_SCREEN_SHARE then returnM ()
      else (case Option.bind p parse_identity of
              None \<Rightarrow> returnM ()
            | Some userID \<Rightarrow>
                bindM (found_or ''failed to load participant for livekit track event'' (GetParticipant env callID userID)) (\<lambda>q.
                case q of
                  None \<Rightarrow> returnM ()
                | Some participant \<Rightarrow>
                    bindM (if screenSharing then returnM () else clear_featured_share env callID userID) (\<lambda>_.
                    if CP_ScreenSharing participant = screenSharing then returnM ()
                    else bindM (mapErrM (\<lambda>err. Internal ''failed to update participant screen share from livekit'' (Some err))
                                 (UpdateParticipantMedia env (CP_ID participant) (CP_AudioMuted participant)
                                    (CP_VideoMuted participant) screenSharing)) (\<lambda>_.
                         bindM (found_or ''failed to load call for livekit track event'' (Calls_GetByID env callID)) (\<lambda>r.
                         case r of
                           None \<Rightarrow> returnM ()
                         | Some call \<Rightarrow> publishParticipantEvent env TypeCallParticipantUpdated call
                                          (participant\<lparr>CP_ScreenSharing := screenSharing\<rparr>)))))))"

definition processLiveKitWebhook :: "call_env \<Rightarrow> WebhookEvent \<Rightarrow> uuid \<Rightarrow> unit call_handler" where
  "processLiveKitWebhook env ev callID =
     (if WH_Event ev = ''room_finished'' then handleLiveKitRoomFinished env callID
      else if WH_Event ev = ''participant_joined'' then handleLiveKitParticipantJoined env callID (WH_Participant ev)
      else if WH_Event ev = ''participant_left'' then handleLiveKitParticipantLeft env callID (WH_Participant ev)
      else if WH_Event ev = ''track_published'' then handleLiveKitTrackChanged env callID (WH_Participant ev) (WH_Track ev) True
      else if WH_Event ev = ''track_unpublished'' then handleLiveKitTrackChanged env callID (WH_Participant ev) (WH_Track ev) False
      else if WH_Event ev \<in> {''egress_started'', ''egress_updated'', ''egress_ended''}
      then handleLiveKitEgressEvent env callID (WH_Event ev) (WH_EgressInfo ev)
      else returnM ())"

text \<open>The claim of an event without an id always goes through, with no token.\<close>

definition claimLiveKitWebhookEvent :: "call_env \<Rightarrow> WebhookEvent \<Rightarrow> uuid \<Rightarrow> (LiveKitWebhookClaimResult \<times> uuid) call_handler" where
  "claimLiveKitWebhookEvent env ev callID =
     (if WH_Id ev = '''' then returnM (LiveKitWebhookClaimProcess, uuid_Nil)
      else bindM (id_New env) (\<lambda>claimToken.
           bindM (ClaimLiveKitWebhookEvent env
                   \<lparr>WE_EventID = WH_Id ev, WE_CallID = callID, WE_EventType = WH_Event ev, WE_Processed = False,
                    WE_ClaimToken = claimToken, WE_ReceivedAt = now_of env,
                    WE_LeaseExpiresAt = Some (now_of env + liveKitWebhookClaimLease), WE_ProcessedAt = None\<rparr>) (\<lambda>result.
           returnM (result, claimToken))))"

definition markLiveKitWebhookEventProcessed :: "call_env \<Rightarrow> string \<Rightarrow> uuid \<Rightarrow> unit call_handler" where
  "markLiveKitWebhookEventProcessed env eventID claimToken =
     (if eventID = '''' then returnM ()
      else bindM (mapErrM (\<lambda>err. Internal ''failed to mark livekit webhook processed'' (Some err))
                   (MarkLiveKitWebhookEventProcessed env eventID claimToken)) (\<lambda>marked.
           failIf (\<not> marked) (Conflict ''livekit webhook event claim was superseded'')))"

definition webhook_room :: "WebhookEvent \<Rightarrow> RoomName option" where
  "webhook_room ev =
     (case WH_RoomName ev of
        Some n \<Rightarrow> Some n
      | None \<Rightarrow> Option.bind (WH_EgressInfo ev) EI_RoomName)"

text \<open>
  A room name of another scheme is neither a breakout name nor a call id: either branch
  ignores the event.
\<close>

definition HandleLiveKitWebhook :: "call_env \<Rightarrow> WebhookEvent option \<Rightarrow> unit call_handler" where
  "HandleLiveKitWebhook env ev0 =
     (case ev0 of
        None \<Rightarrow> throwM (InvalidInput ''livekit webhook event is nil'')
      | Some ev \<Rightarrow>
          (case webhook_room ev of
             None \<Rightarrow> returnM ()
           | Some (BreakoutRoomName c r) \<Rightarrow> handleLiveKitBreakoutWebhook env ev (BreakoutRoomName c r)
           | Some (ForeignRoom name) \<Rightarrow> returnM ()
           | Some (MainRoom callID) \<Rightarrow>
               bindM (mapErrM (\<lambda>err. Internal ''failed to claim livekit webhook event'' (Some err))
                       (claimLiveKitWebhookEvent env ev callID)) (\<lambda>claim.
               if fst claim = LiveKitWebhookClaimDuplicate then returnM ()
               else bindM (failIf (fst claim = LiveKitWebhookClaimInProgress)
                            (Conflict ''livekit webhook event is already processing'')) (\<lambda>_.
                    bindM (processLiveKitWebhook env ev callID) (\<lambda>_.
                    markLiveKitWebhookEventProcessed env (WH_Id ev) (snd claim))))))"

subsection \<open>Runs of the specification\<close>

lemma claim_quiet [quiet_intros]:
  "quiet (claim_insert env row)" "quiet (reclaim_update env row)" "quiet (MarkLiveKitWebhookEventProcessed env e t)"
  unfolding claim_insert_def reclaim_update_def MarkLiveKitWebhookEventProcessed_def Let_def
  by (rule quiet_exec; simp)+

lemma claims_quiet [quiet_intros]:
  "quiet (claimLiveKitWebhookEvent env ev cid)" "quiet (markLiveKitWebhookEventProcessed env e t)"
  unfolding claimLiveKitWebhookEvent_def ClaimLiveKitWebhookEvent_def reclaimLiveKitWebhookEvent_def
    markLiveKitWebhookEventProcessed_def
  by (intro quiet_struct quiet_intros)+

lemma egress_quiet [quiet_intros]:
  "quiet (egress_request env req)" "quiet (stopActiveEgressForCallBestEffort env cid)"
  "quiet (handleLiveKitEgressEvent env cid nm info)"
proof -
  show a: "quiet (egress_request env req)" for req
    unfolding egress_request_def by (intro quiet_struct quiet_modifyM) simp
  show "quiet (stopActiveEgressForCallBestEffort env cid)" "quiet (handleLiveKitEgressEvent env cid nm info)"
    unfolding stopActiveEgressForCallBestEffort_def handleLiveKitEgressEvent_def
    by (intro quiet_struct quiet_intros a)+
qed

lemma found_or_quiet [quiet_intros]: "quiet (found_or m g)"
  unfolding found_or_def by (intro quiet_struct)

lemmas webhook_quiets [sim_intros] =
  claims_quiet [THEN sim_quiet] egress_quiet [THEN sim_quiet] sim_quiet [OF found_or_quiet]

lemma bridge_sim [sim_intros]:
  "keepsM sim (bridge_ended env call u)" "keepsM sim (bridge_disconnect env call p u m1 m2)"
  "keepsM sim (autoEndAfterLiveKitParticipantLeft env call u)" "keepsM sim (clear_featured_share env cid u)"
proof -
  show a: "keepsM sim (bridge_ended env call u)" for call
    unfolding bridge_ended_def by (intro sim_struct sim_intros)
  show "keepsM sim (bridge_disconnect env call p u m1 m2)" "keepsM sim (clear_featured_share env cid u)"
    "keepsM sim (autoEndAfterLiveKitParticipantLeft env call u)"
    unfolding bridge_disconnect_def autoEndAfterLiveKitParticipantLeft_def clear_featured_share_def
    by (intro sim_struct sim_intros a)+
qed

lemma livekit_events_sim [sim_intros]:
  "keepsM sim (handleLiveKitRoomFinished env cid)" "keepsM sim (handleLiveKitParticipantJoined env cid p)"
  "keepsM sim (handleLiveKitParticipantLeft env cid p)" "keepsM sim (handleLiveKitTrackChanged env cid p t b)"
  "keepsM sim (handleLiveKitBreakoutWebhook env ev rn)"
  unfolding handleLiveKitRoomFinished_def handleLiveKitParticipantJoined_def handleLiveKitParticipantLeft_def
    handleLiveKitTrackChanged_def handleLiveKitBreakoutWebhook_def Let_def
  by (intro sim_struct sim_intros)+

lemma processLiveKitWebhook_sim [sim_intros]: "keepsM sim (processLiveKitWebhook env ev cid)"
  unfolding processLiveKitWebhook_def by (intro sim_struct sim_intros)

lemma HandleLiveKitWebhook_sim: "keepsM sim (HandleLiveKitWebhook env ev)"
proof -
  have case_room: "keepsM sim (case n of MainRoom c \<Rightarrow> f c | BreakoutRoomName c r \<Rightarrow> g c r | ForeignRoom x \<Rightarrow> h x)"
    if "\<And>c. keepsM sim (f c)" "\<And>c r. keepsM sim (g c r)" "\<And>x. keepsM sim (h x)"
    for n and f :: "uuid \<Rightarrow> unit call_handler" and g h
    using that by (cases n) simp_all
  show ?thesis
    unfolding HandleLiveKitWebhook_def by (intro sim_struct case_room sim_intros)
qed

end
