(* ===== verification/CallQueries.thy ===== *)
theory CallQueries
  imports Webhooks
begin

text \<open>
  The read side of \<open>internal/service/call/service.go\<close>: a call, its participants, the active and
  the recent calls of a workspace, with private calls filtered out for those who may not see
  them.
\<close>

definition GetCall :: "call_env \<Rightarrow> uuid \<Rightarrow> uuid \<Rightarrow> uuid \<Rightarrow> call_state \<Rightarrow> go_error + Call" where
  "GetCall env workspaceID callID userID = requireCallAccess env workspaceID callID userID"

definition GetParticipants :: "call_env \<Rightarrow> uuid \<Rightarrow> uuid \<Rightarrow> uuid \<Rightarrow> call_state \<Rightarrow> go_error + CallParticipant list" where
  "GetParticipants env workspaceID callID userID s =
     (case requireCallAccess env workspaceID callID userID s of
        Inl err \<Rightarrow> Inl err
      | Inr _ \<Rightarrow>
          (case ListParticipants env callID s of
             Inl err \<Rightarrow> Inl (Internal ''failed to list participants'' (Some err))
           | Inr participants \<Rightarrow> Inr participants))"

text \<open>May the list show this call to a workspace member? Only private channel-less calls are hidden.\<close>

definition listable :: "call_env \<Rightarrow> uuid \<Rightarrow> call_state \<Rightarrow> Call \<Rightarrow> go_error + bool" where
  "listable env userID s call =
     (if isPrivateChannelLessCall call then canAccessPrivateChannelLessCall env call userID True False s else Inr True)"

fun filter_listable :: "call_env \<Rightarrow> uuid \<Rightarrow> call_state \<Rightarrow> Call list \<Rightarrow> go_error + Call list" where
  "filter_listable env userID s [] = Inr []"
| "filter_listable env userID s (call # calls) =
     (case listable env userID s call of
        Inl err \<Rightarrow> Inl err
      | Inr allowed \<Rightarrow>
          (case filter_listable env userID s calls of
             Inl err \<Rightarrow> Inl err
           | Inr rest \<Rightarrow> Inr (if allowed then call # rest else rest)))"

definition ListActiveCalls :: "call_env \<Rightarrow> uuid \<Rightarrow> uuid \<Rightarrow> call_state \<Rightarrow> go_error + Call list" where
  "ListActiveCalls env workspaceID userID s =
     (case requireWorkspaceMember env workspaceID userID of
        Inl err \<Rightarrow> Inl err
      | Inr _ \<Rightarrow>
          (case ListActiveByWorkspace env workspaceID s of
             Inl err \<Rightarrow> Inl (Internal ''failed to list active calls'' (Some err))
           | Inr calls \<Rightarrow> filter_listable env userID s calls))"

subsection \<open>Recent calls\<close>

text \<open>The cursor parameter after \<open>time.Parse(time.RFC3339Nano, cursor)\<close>: absent, malformed, or a time.\<close>

datatype Cursor = NoCursor | BadCursor | CursorAt gotime

record RecentCallsResult =
  RC_Calls :: "Call list"
  RC_NextCursor :: "gotime option"

text \<open>The inner loop: it stops as soon as one call more than the page has been collected.\<close>

fun recent_page :: "call_env \<Rightarrow> uuid \<Rightarrow> call_state \<Rightarrow> nat \<Rightarrow> Call list \<Rightarrow> Call list \<Rightarrow> go_error + Call list" where
  "recent_page env userID s limit filtered [] = Inr filtered"
| "recent_page env userID s limit filtered (call # calls) =
     (case listable env userID s call of
        Inl err \<Rightarrow> Inl err
      | Inr allowed \<Rightarrow>
          if \<not> allowed then recent_page env userID s limit filtered calls
          else if length (filtered @ [call]) > limit then Inr (filtered @ [call])
          else recent_page env userID s limit (filtered @ [call]) calls)"

text \<open>The calls of the workspace before the cursor: what is still to be read.\<close>

definition calls_before :: "uuid \<Rightarrow> gotime option \<Rightarrow> call_state \<Rightarrow> Call list" where
  "calls_before workspaceID before s =
     filter (\<lambda>c. Call_WorkspaceID c = workspaceID \<and> (case before of None \<Rightarrow> True | Some t \<Rightarrow> Call_CreatedAt c < t))
       (db_calls (st_db s))"

lemma ListRecent_Inr:
  assumes "ListRecentByWorkspace env ws limit before s = Inr calls"
  shows "\<exists>n. calls = map load_call_projection (take n (sort_key (\<lambda>c. - Call_CreatedAt c) (calls_before ws before s))) \<and>
    (0 < limit \<and> limit \<le> 100 \<longrightarrow> n = nat (limit + 1))"
  using assms by (auto simp: ListRecentByWorkspace_def Let_def calls_before_def)

lemma load_call_projection_CreatedAt [simp]: "Call_CreatedAt (load_call_projection c) = Call_CreatedAt c"
  by (simp add: load_call_projection_def load_call_def)

lemma ListRecent_last:
  assumes "ListRecentByWorkspace env ws limit before s = Inr calls" and "calls \<noteq> []"
  shows "\<exists>c \<in> set (calls_before ws before s). Call_CreatedAt c = Call_CreatedAt (last calls)"
proof -
  obtain n where eq: "calls = map load_call_projection (take n (sort_key (\<lambda>c. - Call_CreatedAt c) (calls_before ws before s)))"
    using ListRecent_Inr [OF assms(1)] by blast
  have "last calls \<in> set calls" using assms(2) by simp
  then have "last calls \<in> load_call_projection ` set (take n (sort_key (\<lambda>c. - Call_CreatedAt c) (calls_before ws before s)))"
    by (subst (asm) (2) eq) simp
  then obtain c where "last calls = load_call_projection c" "c \<in> set (calls_before ws before s)"
    by (auto dest: in_set_takeD)
  then show ?thesis by auto
qed

lemma calls_before_shrinks:
  assumes "c \<in> set (calls_before ws before s)" and "Call_CreatedAt c = t"
  shows "length (calls_before ws (Some t) s) < length (calls_before ws before s)"
proof -
  have sub: "case before of None \<Rightarrow> True | Some t' \<Rightarrow> Call_CreatedAt c < t'"
    using assms by (auto simp: calls_before_def)
  have "calls_before ws (Some t) s = filter (\<lambda>c. Call_CreatedAt c < t) (calls_before ws before s)"
    using assms sub by (auto simp: calls_before_def split: option.splits intro!: filter_cong)
  with assms show ?thesis by (auto intro!: length_filter_less [of c])
qed

function recent_loop :: "call_env \<Rightarrow> uuid \<Rightarrow> uuid \<Rightarrow> call_state \<Rightarrow> int \<Rightarrow> gotime option \<Rightarrow> Call list \<Rightarrow> bool \<Rightarrow>
    go_error + (Call list \<times> bool)" where
  "recent_loop env workspaceID userID s limit queryBefore filtered hasMore =
     (if int (length filtered) > limit then Inr (filtered, hasMore)
      else (case ListRecentByWorkspace env workspaceID limit queryBefore s of
              Inl err \<Rightarrow> Inl (Internal ''failed to list recent calls'' (Some err))
            | Inr calls \<Rightarrow>
                if calls = [] then Inr (filtered, hasMore)
                else let hasMore1 = (hasMore \<or> int (length calls) > limit)
                     in (case recent_page env userID s (nat limit) filtered calls of
                           Inl err \<Rightarrow> Inl err
                         | Inr filtered1 \<Rightarrow>
                             if int (length filtered1) > limit \<or> int (length calls) \<le> limit
                             then Inr (filtered1, hasMore1)
                             else recent_loop env workspaceID userID s limit (Some (Call_CreatedAt (last calls))) filtered1 hasMore1)))"
  by auto
termination
proof (relation "measure (\<lambda>(env, ws, u, s, limit, before, filtered, hasMore). length (calls_before ws before s))")
  fix env ws u s limit before and filtered :: "Call list" and hasMore calls h f1
  assume "ListRecentByWorkspace env ws limit before s = Inr calls" "calls \<noteq> []"
  from ListRecent_last [OF this] calls_before_shrinks
  show "((env, ws, u, s, limit, Some (Call_CreatedAt (last calls)), f1, h), (env, ws, u, s, limit, before, filtered, hasMore))
      \<in> measure (\<lambda>(env, ws, u, s, limit, before, filtered, hasMore). length (calls_before ws before s))"
    by auto
qed auto

declare recent_loop.simps [simp del]

definition ListRecentCalls :: "call_env \<Rightarrow> uuid \<Rightarrow> uuid \<Rightarrow> int \<Rightarrow> Cursor \<Rightarrow> call_state \<Rightarrow> go_error + RecentCallsResult" where
  "ListRecentCalls env workspaceID userID limit0 cursor s =
     (case requireWorkspaceMember env workspaceID userID of
        Inl err \<Rightarrow> Inl err
      | Inr _ \<Rightarrow>
          let limit1 = (if limit0 \<le> 0 then 20 else limit0); limit = (if limit1 > 100 then 100 else limit1)
          in (case cursor of
                BadCursor \<Rightarrow> Inl (InvalidInput ''invalid cursor'')
              | _ \<Rightarrow>
                  (case recent_loop env workspaceID userID s limit (case cursor of CursorAt t \<Rightarrow> Some t | _ \<Rightarrow> None) [] False of
                     Inl err \<Rightarrow> Inl err
                   | Inr (filtered, hasMore) \<Rightarrow>
                       if int (length filtered) > limit
                       then Inr \<lparr>RC_Calls = take (nat limit) filtered,
                                 RC_NextCursor = Some (Call_CreatedAt (filtered ! (nat limit - 1)))\<rparr>
                       else if int (length filtered) = limit \<and> hasMore
                       then Inr \<lparr>RC_Calls = filtered, RC_NextCursor = Some (Call_CreatedAt (filtered ! (nat limit - 1)))\<rparr>
                       else Inr \<lparr>RC_Calls = filtered, RC_NextCursor = None\<rparr>)))"

end
