(* ===== verification/RoomInvariant.thy ===== *)
theory RoomInvariant
  imports CallQueries
begin

text \<open>
  The breakout-room table under all the handlers: a call never has more than eight active
  breakout rooms, room ids are unique, and a stored time limit is a non-negative \<open>int4\<close>. Only
  \<open>CreateBreakoutRooms\<close> adds rows, under the cap of the call's settings.
\<close>

definition active_rooms :: "call_db \<Rightarrow> uuid \<Rightarrow> nat" where
  "active_rooms db cid = count_where (\<lambda>r. BR_CallID r = cid \<and> BR_Status r = BreakoutRoomStatusActive) (db_rooms db)"

definition rooms_ok :: "call_db \<Rightarrow> bool" where
  "rooms_ok db \<longleftrightarrow> (\<forall>cid. active_rooms db cid \<le> 8) \<and> distinct (map BR_ID (db_rooms db)) \<and>
     (\<forall>r \<in> set (db_rooms db). time_limit_fits (BR_TimeLimit r))"

definition rooms_rel :: "call_state \<Rightarrow> call_state \<Rightarrow> bool" where
  "rooms_rel s s' \<longleftrightarrow> (rooms_ok (st_db s) \<longrightarrow> rooms_ok (st_db s'))"

interpretation rooms: run_relation rooms_rel
  by unfold_locales (simp_all add: rooms_rel_def)

abbreviation (input) keeps_rooms :: "'a call_handler \<Rightarrow> bool" where
  "keeps_rooms m \<equiv> keepsM rooms_rel m"

named_theorems rooms_intros \<open>operations that keep the invariant of the breakout-room table\<close>

lemmas rooms_struct =
  rooms.keeps_bindM rooms.keeps_mapErrM rooms.keeps_tryM rooms.keeps_returnM rooms.keeps_throwM
  rooms.keeps_readM rooms.keeps_getM rooms.keeps_failIf rooms.keeps_forM rooms.keeps_foldM
  rooms.keeps_If rooms.keeps_case_option rooms.keeps_case_sum

subsection \<open>The statements\<close>

lemma rooms_ok_same: "db_rooms db' = db_rooms db \<Longrightarrow> rooms_ok db' = rooms_ok db"
  by (simp add: rooms_ok_def active_rooms_def)

lemma rooms_exec:
  assumes "\<And>db. rooms_ok db \<Longrightarrow> rooms_ok (snd (f db))"
  shows "keeps_rooms (repo_exec env op args wrap f)"
  by (rule keepsMI) (simp add: rooms_rel_def repo_exec_snd assms split: option.splits)

lemma rooms_exec_same:
  assumes "\<And>db. db_rooms (snd (f db)) = db_rooms db"
  shows "keeps_rooms (repo_exec env op args wrap f)"
  by (rule rooms_exec) (simp add: rooms_ok_same [OF assms])

lemma rooms_modifyM: "(\<And>s. st_db (f s) = st_db s) \<Longrightarrow> keeps_rooms (modifyM f)"
  by (rule rooms.keeps_modifyM) (simp add: rooms_rel_def)

lemma rooms_WithinTx [rooms_intros]:
  assumes "keeps_rooms m"
  shows "keeps_rooms (WithinTx env m)"
proof (rule keepsMI)
  fix s
  show "rooms_rel s (snd (WithinTx env m s))"
    using keepsMD [OF assms, of s]
    by (auto simp: WithinTx_def rooms_rel_def split: option.splits prod.splits sum.splits)
qed

lemma insert_invited_rooms [simp]: "db_rooms (insert_invited c u b db) = db_rooms db"
  by (simp add: insert_invited_def)

lemma fold_insert_invited_rooms [simp]: "db_rooms (fold (\<lambda>p. insert_invited c (g p) b) ps db) = db_rooms db"
  by (induction ps arbitrary: db) simp_all

lemma update_rooms_simps [simp]:
  "db_rooms (update_call_row cid f db) = db_rooms db" "db_rooms (update_parts P g db) = db_rooms db"
  "db_rooms (end_call_statement isOpen now cid reason pr db) = db_rooms db"
  by (simp_all add: update_call_row_def update_parts_def end_call_statement_def)

lemma call_statements_rooms [rooms_intros]:
  "keeps_rooms (Calls_Create env call)" "keeps_rooms (UpdateSettings env cid st)" "keeps_rooms (UpdateAccessLevel env cid lv)"
  "keeps_rooms (SnapshotConnectedIntoInvited env cid b)" "keeps_rooms (ActivateRinging env cid)"
  "keeps_rooms (SetFeaturedShareUserID env cid fu)" "keeps_rooms (SetPinnedParticipantUserID env cid fu)"
  "keeps_rooms (endCallAndDisconnect env cid isOpen reason pr)"
  unfolding Calls_Create_def UpdateSettings_def UpdateAccessLevel_def SnapshotConnectedIntoInvited_def ActivateRinging_def
    SetFeaturedShareUserID_def SetPinnedParticipantUserID_def endCallAndDisconnect_def
  by (rule rooms_exec_same; simp)+

lemma end_statements_rooms [rooms_intros]:
  "keeps_rooms (EndWithReasonIfNotEnded env cid reason)" "keeps_rooms (CancelRingingWithReason env cid reason)"
  unfolding EndWithReasonIfNotEnded_def CancelRingingWithReason_def by (rule rooms_intros)+

lemma AddInvitedMembers_rooms [rooms_intros]: "keeps_rooms (AddInvitedMembers env cid us b)"
  unfolding AddInvitedMembers_def by (rule rooms.keeps_forM) (rule rooms_exec_same; simp)

lemma part_statements_rooms [rooms_intros]:
  "keeps_rooms (AddParticipant env p)" "keeps_rooms (UpdateParticipantStatus env pid st)"
  "keeps_rooms (DisconnectParticipantIfConnectedWithReason env pid lr)"
  "keeps_rooms (Calls_UpdateParticipantRole env pid role)" "keeps_rooms (Calls_TransferHost env cid u v)"
  "keeps_rooms (UpdateParticipantMedia env pid a vm sc)" "keeps_rooms (SetCanScreenShare env pid b)"
  "keeps_rooms (Calls_RemoveParticipant env cid u)" "keeps_rooms (AssignParticipant env cid u rid)"
  "keeps_rooms (UnassignParticipant env cid u)" "keeps_rooms (UnassignAllByRoom env rid)"
  unfolding AddParticipant_def UpdateParticipantStatus_def UpdateParticipantStatusWithReason_def
    DisconnectParticipantIfConnectedWithReason_def Calls_UpdateParticipantRole_def Calls_TransferHost_def
    UpdateParticipantMedia_def SetCanScreenShare_def Calls_RemoveParticipant_def AssignParticipant_def
    UnassignParticipant_def UnassignAllByRoom_def Let_def
  by (rule rooms_exec_same; simp)+

lemma other_statements_rooms [rooms_intros]:
  "keeps_rooms (Messages_Create env msg)"
  "keeps_rooms (CallMessages_Create env cm)" "keeps_rooms (CallMessages_SoftDelete env mid cid)"
  "keeps_rooms (claim_insert env row)" "keeps_rooms (reclaim_update env row)"
  "keeps_rooms (MarkLiveKitWebhookEventProcessed env e t)"
  unfolding Messages_Create_def CallMessages_Create_def CallMessages_SoftDelete_def
    claim_insert_def reclaim_update_def MarkLiveKitWebhookEventProcessed_def Let_def
  by (rule rooms_exec_same; simp)+

lemma EnqueueRealtime_rooms [rooms_intros]: "keeps_rooms (EnqueueRealtime env evt)"
  unfolding EnqueueRealtime_def by (simp, intro impI, rule rooms_exec_same) simp

lemma id_New_rooms [rooms_intros]: "keeps_rooms (id_New env)"
  by (rule keepsMI) (simp add: id_New_def rooms_rel_def)

lemma close_rooms_ok: "rooms_ok db \<Longrightarrow> rooms_ok (close_rooms now P db)"
proof -
  assume ok: "rooms_ok db"
  have "active_rooms (close_rooms now P db) cid \<le> active_rooms db cid" for cid
    unfolding active_rooms_def close_rooms_def by (simp, rule count_where_upd_le) simp
  then have "active_rooms (close_rooms now P db) cid \<le> 8" for cid
    using ok by (meson le_trans rooms_ok_def)
  moreover have "map BR_ID (db_rooms (close_rooms now P db)) = map BR_ID (db_rooms db)"
    unfolding close_rooms_def by (simp, rule map_upd_where) simp
  moreover have "map BR_TimeLimit (db_rooms (close_rooms now P db)) = map BR_TimeLimit (db_rooms db)"
    unfolding close_rooms_def by (simp, rule map_upd_where) simp
  then have "BR_TimeLimit ` set (db_rooms (close_rooms now P db)) = BR_TimeLimit ` set (db_rooms db)"
    by (metis set_map)
  ultimately show ?thesis using ok unfolding rooms_ok_def by (metis image_iff)
qed

lemma close_statements_rooms [rooms_intros]:
  "keeps_rooms (Rooms_Close env rid)" "keeps_rooms (Rooms_CloseAllByCall env cid)"
  unfolding Rooms_Close_def Rooms_CloseAllByCall_def by (rule rooms_exec; simp add: close_rooms_ok)+

text \<open>The inserts: the table grows by the given rooms.\<close>

lemma insert_rooms_Some:
  "insert_rooms table rs = Some table' \<Longrightarrow>
   table' = table @ rs \<and> (distinct (map BR_ID table) \<longrightarrow> distinct (map BR_ID table')) \<and>
   (\<forall>r \<in> set rs. time_limit_fits (BR_TimeLimit r))"
proof (induction table rs rule: insert_rooms.induct)
  case (1 table)
  then show ?case by simp
next
  case (2 table r rs)
  from "2.prems" have c: "\<forall>q \<in> set table. BR_ID q \<noteq> BR_ID r" "time_limit_fits (BR_TimeLimit r)"
    "insert_rooms (table @ [r]) rs = Some table'"
    by (simp_all split: if_splits)
  then have "distinct (map BR_ID table) \<Longrightarrow> distinct (map BR_ID (table @ [r]))" by auto
  moreover from "2.IH" c have "table' = (table @ [r]) @ rs \<and>
    (distinct (map BR_ID (table @ [r])) \<longrightarrow> distinct (map BR_ID table')) \<and> (\<forall>r \<in> set rs. time_limit_fits (BR_TimeLimit r))"
    by fastforce
  ultimately show ?case using c(2) by (metis append.assoc append_Cons append_Nil set_ConsD)
qed

lemma CreateRooms_ok:
  assumes "rooms_ok db" and "insert_rooms (db_rooms db) rs = Some table"
    and "int (active_rooms db cid) + int (length rs) \<le> 8" and "\<forall>r \<in> set rs. BR_CallID r = cid"
  shows "rooms_ok (db\<lparr>db_rooms := table\<rparr>)"
proof -
  note t = insert_rooms_Some [OF assms(2)]
  have "active_rooms (db\<lparr>db_rooms := table\<rparr>) c \<le> 8" for c
  proof (cases "c = cid")
    case True
    have "count_where (\<lambda>r. BR_CallID r = cid \<and> BR_Status r = BreakoutRoomStatusActive) rs \<le> length rs"
      by (simp add: count_where_def)
    then show ?thesis using True t assms(3) unfolding active_rooms_def by simp
  next
    case False
    then have "count_where (\<lambda>r. BR_CallID r = c \<and> BR_Status r = BreakoutRoomStatusActive) rs = 0"
      using assms(4) by (auto simp: count_where_0_iff)
    then show ?thesis using t assms(1) unfolding active_rooms_def rooms_ok_def by simp
  qed
  moreover have "distinct (map BR_ID table)" using t assms(1) unfolding rooms_ok_def by blast
  moreover have "\<forall>r \<in> set table. time_limit_fits (BR_TimeLimit r)" using t assms(1) by (auto simp: rooms_ok_def)
  ultimately show ?thesis by (simp add: rooms_ok_def)
qed

lemma CreateRoomsWithinCap_rooms:
  assumes "cap \<le> 8" and "\<forall>r \<in> set rs. BR_CallID r = cid"
  shows "keeps_rooms (CreateRoomsWithinCap env cid cap rs)"
  unfolding CreateRoomsWithinCap_def
proof (rule rooms_exec)
  fix db assume ok: "rooms_ok db"
  let ?n = "count_where (\<lambda>r. BR_CallID r = cid \<and> BR_Status r = BreakoutRoomStatusActive) (db_rooms db)"
  show "rooms_ok (snd (if int ?n + int (length rs) > cap
             then (Inl (InvalidInput ''breakout room limit reached''), db)
             else (case insert_rooms (db_rooms db) rs of
                     None \<Rightarrow> (Inl (Wrapf ''postgres: create breakout room within cap'' (Opaque ''23505'')), db)
                   | Some table \<Rightarrow> (Inr (), db\<lparr>db_rooms := table\<rparr>))))"
    using ok assms CreateRooms_ok [OF ok, of rs _ cid] by (auto simp: active_rooms_def split: option.splits)
qed

subsection \<open>The helpers\<close>

lemma bestEffort_rooms [rooms_intros]: "keeps_rooms m \<Longrightarrow> keeps_rooms (bestEffort m)"
  unfolding bestEffort_def by (intro rooms_struct)

lemma derefSFU_rooms [rooms_intros]: "keeps_rooms m \<Longrightarrow> keeps_rooms (derefSFU env m)"
  unfolding derefSFU_def by (intro rooms_struct)

lemma rooms_case_prod [rooms_intros]: "(\<And>x y. keeps_rooms (k x y)) \<Longrightarrow> keeps_rooms (case z of (x, y) \<Rightarrow> k x y)"
  by (cases z) simp

lemma log_rooms [rooms_intros]:
  "keeps_rooms (doPublish env t sj w c u p)" "keeps_rooms (lk_request env req)" "keeps_rooms (egress_request env er)"
  "keeps_rooms (cancelBreakoutLiveKitDelete n)" "keeps_rooms (SFU_CloseRoom n)"
  unfolding doPublish_def lk_request_def egress_request_def cancelBreakoutLiveKitDelete_def SFU_CloseRoom_def
  by ((intro rooms_struct rooms_modifyM | simp)+)

lemma SFU_CreateRoom_rooms [rooms_intros]: "keeps_rooms (SFU_CreateRoom env n)"
  by (rule keepsMI) (simp add: SFU_CreateRoom_def rooms_rel_def)

lemma timer_rooms [rooms_intros]: "keeps_rooms (scheduleBreakoutLiveKitDelete env n)"
  unfolding scheduleBreakoutLiveKitDelete_def
  by (intro rooms_struct rooms_intros rooms_modifyM) simp

lemma publish_rooms [rooms_intros]: "keeps_rooms (publishCallScoped env t call ch u p)"
  unfolding publishCallScoped_def publishPrivateCallScoped_def by (intro rooms_struct rooms_intros)

lemma publishers_rooms [rooms_intros]:
  "keeps_rooms (publishCallEvent env t call u)" "keeps_rooms (publishParticipantEvent env t call p)"
  "keeps_rooms (publishCallInvited env call u v)" "keeps_rooms (publishCallControlEvent env t call u pl)"
  "keeps_rooms (publishBreakoutEvent env t call pl)" "keeps_rooms (publishCallSettingsChanged env call)"
  "keeps_rooms (publishShareEvent env t call u pl)" "keeps_rooms (publishMoved env call u r)"
  "keeps_rooms (publishCallMessageEvent env t call msg)" "keeps_rooms (publishCallInteraction env call t pl)"
  unfolding publishCallEvent_def publishParticipantEvent_def publishCallInvited_def publishShareEvent_def
    publishCallControlEvent_def publishBreakoutEvent_def publishCallSettingsChanged_def publishMoved_def
    publishCallMessageEvent_def publishCallInteraction_def
  by (intro rooms_struct rooms_intros | rule rooms_intros)+

lemma enqueue_rooms [rooms_intros]:
  "keeps_rooms (enqueueDurableEventTx env t sj w c u pl)"
  "keeps_rooms (enqueueCallScopedEventTx env t call ch u pl)"
  unfolding enqueueCallScopedEventTx_def enqueueDurableEventTx_def by (intro rooms_struct rooms_intros)+

lemma enqueuers_rooms [rooms_intros]:
  "keeps_rooms (enqueueCallEventTx env t call u)" "keeps_rooms (enqueueParticipantEventTx env t call p)"
  "keeps_rooms (enqueueCallMessageEventTx env t call msg)"
  unfolding enqueueCallEventTx_def enqueueParticipantEventTx_def enqueueCallMessageEventTx_def by (rule rooms_intros)+

lemma livekit_rooms [rooms_intros]:
  "keeps_rooms (EnsureLiveKitRoom env call)" "keeps_rooms (EnsureLiveKitBreakoutRoom env call rid)"
  "keeps_rooms (deleteLiveKitRoomBestEffort env cid)" "keeps_rooms (removeLiveKitParticipantBestEffort env cid u)"
  "keeps_rooms (closeSFURoom env n)" "keeps_rooms (breakoutDeleteTimerFires env n)"
  "keeps_rooms (updateLiveKitParticipantPermission env cid u role st g)"
  "keeps_rooms (muteLiveKitParticipantTracks env cid p src)" "keeps_rooms (stopActiveEgressForCallBestEffort env cid)"
  "keeps_rooms (handleLiveKitEgressEvent env cid nm info)"
  unfolding EnsureLiveKitRoom_def EnsureLiveKitBreakoutRoom_def deleteLiveKitRoomBestEffort_def
    removeLiveKitParticipantBestEffort_def DeleteLiveKitRoom_def RemoveLiveKitParticipant_def closeSFURoom_def
    breakoutDeleteTimerFires_def updateLiveKitParticipantPermission_def muteLiveKitParticipantTracks_def
    stopActiveEgressForCallBestEffort_def handleLiveKitEgressEvent_def Let_def
  by (intro rooms_struct rooms_intros)+

lemma EnsureRequired_rooms [rooms_intros]: "keeps_rooms (EnsureLiveKitRoomRequired env call)"
  unfolding EnsureLiveKitRoomRequired_def by (intro rooms_struct rooms_intros)

lemma ending_rooms [rooms_intros]:
  "keeps_rooms (emitCallEndedChatMessage env call)" "keeps_rooms (cleanupEndedMediaRooms env cid)"
  "keeps_rooms (clearPinnedParticipantIfMatches env call t a)"
  unfolding emitCallEndedChatMessage_def cleanupEndedMediaRooms_def closeAllBreakoutSFURooms_def
    clearPinnedParticipantIfMatches_def Let_def
  by (intro rooms_struct rooms_intros)+

subsection \<open>The handlers\<close>

lemma lifecycle_rooms:
  "keeps_rooms (StartCallWithAccess env ws u ct title ch st pw opts)" "keeps_rooms (JoinCall env ws cid u pw)"
  "keeps_rooms (AdmitParticipant env ws cid u t)" "keeps_rooms (AdmitAll env ws cid u)"
  "keeps_rooms (RejectParticipant env ws cid u t)" "keeps_rooms (DeclineCall env ws cid u)"
  unfolding StartCallWithAccess_def start_write_def JoinCall_def join_existing_def join_write_def
    connectInvitedParticipant_def AdmitParticipant_def AdmitAll_def activate_after_admission_def
    RejectParticipant_def DeclineCall_def Let_def
  by (intro rooms_struct rooms_intros)+

lemma InviteParticipants_rooms: "keeps_rooms (InviteParticipants env ws cid u targets)"
proof -
  have case_st: "keeps_rooms (case st of ParticipantStatusConnected \<Rightarrow> a | ParticipantStatusJoining \<Rightarrow> b
      | ParticipantStatusWaiting \<Rightarrow> c | _ \<Rightarrow> d)"
    if "keeps_rooms a" "keeps_rooms b" "keeps_rooms c" "keeps_rooms d"
    for st and a b c d :: "InviteResult call_handler"
    using that by (cases st) simp_all
  show ?thesis
    unfolding InviteParticipants_def invite_one_def Let_def by (intro rooms_struct case_st rooms_intros)
qed

lemma ending_handlers_rooms:
  "keeps_rooms (LeaveCall env ws cid u)" "keeps_rooms (EndCall env ws cid u)" "keeps_rooms (CancelCall env ws cid u)"
  "keeps_rooms (RemoveParticipant env ws cid u t)" "keeps_rooms (CleanupStaleOpenCalls env g l)"
  unfolding LeaveCall_def leave_tx_def leave_direct_def leave_finish_def EndCall_def CancelCall_def cancel_attempt_def
    RemoveParticipant_def CleanupStaleOpenCalls_def endStaleOpenCall_def end_stale_body_def endStaleCallStatus_def
    disconnectStaleParticipants_def Let_def
  by (intro rooms_struct rooms_intros)+

lemma media_rooms:
  "keeps_rooms (UpdateMedia env ws cid u a v sc)" "keeps_rooms (UpdateParticipantRole env ws cid u t role)"
  "keeps_rooms (TransferHost env ws cid u t)" "keeps_rooms (GrantScreenShare env ws cid u t)"
  "keeps_rooms (RevokeScreenShare env ws cid u t)" "keeps_rooms (RequestScreenShare env ws cid u)"
  "keeps_rooms (ResolveShareRequest env ws cid u t b)"
  "keeps_rooms (SetFeaturedShare env ws cid u tg)" "keeps_rooms (SetPinnedParticipant env ws cid u tg)"
  "keeps_rooms (MuteParticipant env ws cid u t)" "keeps_rooms (DisableParticipantCamera env ws cid u t)"
  "keeps_rooms (AskParticipantToUnmute env ws cid u t)" "keeps_rooms (ForwardSignal env cid u t sg pl)"
  unfolding UpdateMedia_def UpdateParticipantRole_def TransferHost_def GrantScreenShare_def RevokeScreenShare_def
    RequestScreenShare_def ResolveShareRequest_def SetFeaturedShare_def SetPinnedParticipant_def MuteParticipant_def
    DisableParticipantCamera_def AskParticipantToUnmute_def ForwardSignal_def Let_def
  by (intro rooms_struct rooms_intros)+

text \<open>Opening rooms: the new rows belong to the call, and the cap is at most eight.\<close>

lemma rooms_bind_result:
  assumes "keeps_rooms m" and "\<And>x s s'. m s = (Inr x, s') \<Longrightarrow> keeps_rooms (k x)"
  shows "keeps_rooms (bindM m k)"
  by (rule keepsMI, rule rooms.at_bindM) (blast intro: keepsMD [OF assms(1)] keepsMD [OF assms(2)])+

lemma make_rooms_result:
  assumes "foldM (\<lambda>rooms input. bindM (id_New env) (\<lambda>newID.
       returnM (rooms @ [make_room env cid u at input newID]))) acc inputs s = (Inr rooms, s')"
  shows "\<exists>new. rooms = acc @ new \<and> length new = length inputs \<and>
    (\<forall>i < length inputs. \<exists>rid. new ! i = make_room env cid u at (inputs ! i) rid)"
  using assms
proof (induction inputs arbitrary: acc s)
  case Nil
  then show ?case by (simp add: run_Inr)
next
  case (Cons input inputs)
  from Cons.prems obtain rid s1 where
    "foldM (\<lambda>rooms input. bindM (id_New env) (\<lambda>newID. returnM (rooms @ [make_room env cid u at input newID])))
       (acc @ [make_room env cid u at input rid]) inputs s1 = (Inr rooms, s')"
    by (auto simp: run_Inr)
  from Cons.IH [OF this] obtain new where new: "rooms = (acc @ [make_room env cid u at input rid]) @ new"
    "length new = length inputs" "\<forall>i < length inputs. \<exists>rid. new ! i = make_room env cid u at (inputs ! i) rid"
    by blast
  then show ?case
    by (intro exI [of _ "make_room env cid u at input rid # new"]) (auto simp: less_Suc_eq_0_disj)
qed

lemma make_rooms_CallID:
  assumes "make_rooms env cid u inputs s = (Inr rooms, s')"
  shows "\<forall>r \<in> set rooms. BR_CallID r = cid"
proof -
  have "\<exists>new. rooms = [] @ new \<and> length new = length inputs \<and>
    (\<forall>i < length inputs. \<exists>rid. new ! i = make_room env cid u (rooms_close_at env inputs) (inputs ! i) rid)"
    by (rule make_rooms_result) (use assms in \<open>simp add: make_rooms_def\<close>)
  then have "length rooms = length inputs" "\<forall>i < length inputs. BR_CallID (rooms ! i) = cid"
    by (auto simp: make_room_def)
  then show ?thesis by (auto simp: in_set_conv_nth)
qed

lemma make_rooms_rooms [rooms_intros]: "keeps_rooms (make_rooms env cid u inputs)"
  unfolding make_rooms_def by (intro rooms_struct rooms_intros)

lemma open_room_rooms [rooms_intros]: "keeps_rooms (open_room env call u b cs ri)"
  unfolding open_room_def preassign_def Let_def by (intro rooms_struct rooms_intros)

lemma closeAllForCall_rooms [rooms_intros]: "keeps_rooms (closeAllBreakoutRoomsForCall env call)"
  unfolding closeAllBreakoutRoomsForCall_def Let_def by (intro rooms_struct rooms_intros)

lemma CreateBreakoutRooms_rooms: "keeps_rooms (CreateBreakoutRooms env cid u inputs)"
  unfolding CreateBreakoutRooms_def Let_def
  by (intro rooms_bind_result [where m = "make_rooms env cid u inputs"] CreateRoomsWithinCap_rooms
      rooms.keeps_bindM [where m = "mapErrM _ _"] rooms.keeps_bindM [where m = "failIf _ _"] rooms.keeps_bindM [where m = "readM _"]
      rooms.keeps_bindM [where m = "if _ then _ else _"] rooms.keeps_bindM [where m = "forM _ _"]
      rooms_struct(2-) rooms_intros ResolvedMaxBreakoutRooms_range)
    (rule make_rooms_CallID)

lemma breakout_rooms:
  "keeps_rooms (JoinBreakoutRoom env cid u rid)" "keeps_rooms (AssignParticipantToRoom env cid u t rid)"
  "keeps_rooms (InviteToBreakoutRoom env cid u t rid)" "keeps_rooms (ReturnToMainRoom env cid u)"
  "keeps_rooms (CloseBreakoutRoom env cid u rid)" "keeps_rooms (CloseAllBreakoutRooms env cid u)"
  "keeps_rooms (BroadcastToBreakoutRooms env cid u msg)" "keeps_rooms (CloseExpiredBreakoutRooms env before limit)"
  unfolding JoinBreakoutRoom_def AssignParticipantToRoom_def InviteToBreakoutRoom_def ReturnToMainRoom_def
    CloseBreakoutRoom_def CloseAllBreakoutRooms_def BroadcastToBreakoutRooms_def CloseExpiredBreakoutRooms_def
    closeExpiredBreakoutCall_def Let_def
  by (intro rooms_struct rooms_intros)+

lemma UpdateCallSettings_rooms: "keeps_rooms (UpdateCallSettings env cid u patch)"
  unfolding UpdateCallSettings_def patch_breakout_rooms_def persistCallSettingsAndAccess_def
    reconcileMemberPublishPolicy_def enforceMemberPublishPolicy_def enforce_one_def Let_def
  by (intro rooms_struct breakout_rooms rooms_intros)

lemma chat_rooms:
  "keeps_rooms (RaiseHand env ws cid u)" "keeps_rooms (LowerHand env ws cid u)" "keeps_rooms (SendCallReaction env ws cid u e)"
  "keeps_rooms (SendCallMessage env ws cid u body)" "keeps_rooms (DeleteCallMessage env ws cid u mid)"
  unfolding RaiseHand_def LowerHand_def SendCallReaction_def SendCallMessage_def DeleteCallMessage_def Let_def
  by (intro rooms_struct rooms_intros)+

lemma bridge_rooms [rooms_intros]:
  "keeps_rooms (bridge_ended env call u)" "keeps_rooms (bridge_disconnect env call p u m1 m2)"
  "keeps_rooms (clear_featured_share env cid u)" "keeps_rooms (found_or m g)"
  unfolding bridge_ended_def bridge_disconnect_def clear_featured_share_def found_or_def
  by (intro rooms_struct rooms_intros)+

lemma webhook_rooms [rooms_intros]:
  "keeps_rooms (processLiveKitWebhook env ev cid)" "keeps_rooms (handleLiveKitBreakoutWebhook env ev rn)"
  "keeps_rooms (claimLiveKitWebhookEvent env ev cid)" "keeps_rooms (markLiveKitWebhookEventProcessed env e t)"
  unfolding processLiveKitWebhook_def handleLiveKitRoomFinished_def handleLiveKitParticipantJoined_def
    handleLiveKitParticipantLeft_def handleLiveKitTrackChanged_def handleLiveKitBreakoutWebhook_def
    autoEndAfterLiveKitParticipantLeft_def claimLiveKitWebhookEvent_def ClaimLiveKitWebhookEvent_def
    reclaimLiveKitWebhookEvent_def markLiveKitWebhookEventProcessed_def Let_def
  by (intro rooms_struct rooms_intros)+

lemma HandleLiveKitWebhook_rooms: "keeps_rooms (HandleLiveKitWebhook env ev)"
proof -
  have case_room: "keeps_rooms (case n of MainRoom c \<Rightarrow> f c | BreakoutRoomName c r \<Rightarrow> g c r | ForeignRoom x \<Rightarrow> h x)"
    if "\<And>c. keeps_rooms (f c)" "\<And>c r. keeps_rooms (g c r)" "\<And>x. keeps_rooms (h x)"
    for n and f :: "uuid \<Rightarrow> unit call_handler" and g h
    using that by (cases n) simp_all
  show ?thesis
    unfolding HandleLiveKitWebhook_def by (intro rooms_struct case_room rooms_intros)
qed

end
