(* ===== verification/CallSystem.thy ===== *)
theory CallSystem
  imports RoomInvariant
begin

text \<open>
  The service as a whole: a request is a call of one handler, and an execution is any sequence
  of requests, each served in an environment of its own (its clock, directory, faults, LiveKit
  answers). Requests are served one at a time.
\<close>

datatype lifecycle_request =
    StartCallReq uuid uuid CallType string "uuid option" CallSettings string StartCallAccessOptions
  | JoinCallReq uuid uuid uuid string
  | AdmitParticipantReq uuid uuid uuid uuid
  | AdmitAllReq uuid uuid uuid
  | RejectParticipantReq uuid uuid uuid uuid
  | InviteParticipantsReq uuid uuid uuid "uuid list"
  | DeclineCallReq uuid uuid uuid
  | LeaveCallReq uuid uuid uuid
  | EndCallReq uuid uuid uuid
  | CancelCallReq uuid uuid uuid
  | RemoveParticipantReq uuid uuid uuid uuid
  | CleanupReq int int

datatype media_request =
    UpdateMediaReq uuid uuid uuid "bool option" "bool option" "bool option"
  | UpdateRoleReq uuid uuid uuid uuid CallRole
  | TransferHostReq uuid uuid uuid uuid
  | GrantShareReq uuid uuid uuid uuid
  | RevokeShareReq uuid uuid uuid uuid
  | RequestShareReq uuid uuid uuid
  | ResolveShareReq uuid uuid uuid uuid bool
  | FeatureShareReq uuid uuid uuid "uuid option"
  | PinReq uuid uuid uuid "uuid option"
  | MuteReq uuid uuid uuid uuid
  | DisableCameraReq uuid uuid uuid uuid
  | AskUnmuteReq uuid uuid uuid uuid
  | SignalReq uuid uuid uuid string string

datatype breakout_request =
    CreateBreakoutReq uuid uuid "CreateBreakoutRoomInput list"
  | JoinBreakoutReq uuid uuid uuid
  | AssignBreakoutReq uuid uuid uuid uuid
  | InviteBreakoutReq uuid uuid uuid uuid
  | ReturnToMainReq uuid uuid
  | CloseBreakoutReq uuid uuid uuid
  | CloseAllBreakoutsReq uuid uuid
  | BroadcastReq uuid uuid string
  | SweepBreakoutsReq gotime int

datatype chat_request =
    UpdateSettingsReq uuid uuid CallSettingsPatch
  | RaiseHandReq uuid uuid uuid
  | LowerHandReq uuid uuid uuid
  | ReactionReq uuid uuid uuid string
  | SendMessageReq uuid uuid uuid string
  | DeleteMessageReq uuid uuid uuid uuid
  | WebhookReq "WebhookEvent option"
  | DeleteTimerReq RoomName

datatype call_request = Lifecycle lifecycle_request | Media media_request | Breakouts breakout_request | Chat chat_request

text \<open>Every handler, its result dropped; what the read-only ones do to the state is nothing.\<close>

definition outcome :: "'a call_handler \<Rightarrow> call_state \<Rightarrow> call_state" where
  "outcome m s = snd (m s)"

definition succeeds :: "'a call_handler \<Rightarrow> call_state \<Rightarrow> bool" where
  "succeeds m s = (\<not> isl (fst (m s)))"

lemma succeedsE:
  assumes "succeeds m s"
  obtains x where "m s = (Inr x, outcome m s)"
  using assms by (cases "m s"; cases "fst (m s)") (auto simp: succeeds_def outcome_def)

lemma succeeds_run:
  assumes "succeeds m s"
  obtains x s' where "m s = (Inr x, s')" "outcome m s = s'"
  using assms by (rule succeedsE) (auto intro: that)

primrec serve_lifecycle :: "call_env \<Rightarrow> lifecycle_request \<Rightarrow> call_state \<Rightarrow> call_state" where
  "serve_lifecycle env (StartCallReq w u t ti c st pw o') = outcome (StartCallWithAccess env w u t ti c st pw o')"
| "serve_lifecycle env (JoinCallReq w c u pw) = outcome (JoinCall env w c u pw)"
| "serve_lifecycle env (AdmitParticipantReq w c u t) = outcome (AdmitParticipant env w c u t)"
| "serve_lifecycle env (AdmitAllReq w c u) = outcome (AdmitAll env w c u)"
| "serve_lifecycle env (RejectParticipantReq w c u t) = outcome (RejectParticipant env w c u t)"
| "serve_lifecycle env (InviteParticipantsReq w c u ts) = outcome (InviteParticipants env w c u ts)"
| "serve_lifecycle env (DeclineCallReq w c u) = outcome (DeclineCall env w c u)"
| "serve_lifecycle env (LeaveCallReq w c u) = outcome (LeaveCall env w c u)"
| "serve_lifecycle env (EndCallReq w c u) = outcome (EndCall env w c u)"
| "serve_lifecycle env (CancelCallReq w c u) = outcome (CancelCall env w c u)"
| "serve_lifecycle env (RemoveParticipantReq w c u t) = outcome (RemoveParticipant env w c u t)"
| "serve_lifecycle env (CleanupReq g l) = outcome (CleanupStaleOpenCalls env g l)"

primrec serve_media :: "call_env \<Rightarrow> media_request \<Rightarrow> call_state \<Rightarrow> call_state" where
  "serve_media env (UpdateMediaReq w c u a v sc) = outcome (UpdateMedia env w c u a v sc)"
| "serve_media env (UpdateRoleReq w c u t r) = outcome (UpdateParticipantRole env w c u t r)"
| "serve_media env (TransferHostReq w c u t) = outcome (TransferHost env w c u t)"
| "serve_media env (GrantShareReq w c u t) = outcome (GrantScreenShare env w c u t)"
| "serve_media env (RevokeShareReq w c u t) = outcome (RevokeScreenShare env w c u t)"
| "serve_media env (RequestShareReq w c u) = outcome (RequestScreenShare env w c u)"
| "serve_media env (ResolveShareReq w c u r b) = outcome (ResolveShareRequest env w c u r b)"
| "serve_media env (FeatureShareReq w c u t) = outcome (SetFeaturedShare env w c u t)"
| "serve_media env (PinReq w c u t) = outcome (SetPinnedParticipant env w c u t)"
| "serve_media env (MuteReq w c u t) = outcome (MuteParticipant env w c u t)"
| "serve_media env (DisableCameraReq w c u t) = outcome (DisableParticipantCamera env w c u t)"
| "serve_media env (AskUnmuteReq w c u t) = outcome (AskParticipantToUnmute env w c u t)"
| "serve_media env (SignalReq c u t sg p) = outcome (ForwardSignal env c u t sg p)"

primrec serve_breakout :: "call_env \<Rightarrow> breakout_request \<Rightarrow> call_state \<Rightarrow> call_state" where
  "serve_breakout env (CreateBreakoutReq c u is) = outcome (CreateBreakoutRooms env c u is)"
| "serve_breakout env (JoinBreakoutReq c u r) = outcome (JoinBreakoutRoom env c u r)"
| "serve_breakout env (AssignBreakoutReq c u t r) = outcome (AssignParticipantToRoom env c u t r)"
| "serve_breakout env (InviteBreakoutReq c u t r) = outcome (InviteToBreakoutRoom env c u t r)"
| "serve_breakout env (ReturnToMainReq c u) = outcome (ReturnToMainRoom env c u)"
| "serve_breakout env (CloseBreakoutReq c u r) = outcome (CloseBreakoutRoom env c u r)"
| "serve_breakout env (CloseAllBreakoutsReq c u) = outcome (CloseAllBreakoutRooms env c u)"
| "serve_breakout env (BroadcastReq c u msg) = outcome (BroadcastToBreakoutRooms env c u msg)"
| "serve_breakout env (SweepBreakoutsReq b l) = outcome (CloseExpiredBreakoutRooms env b l)"

primrec serve_chat :: "call_env \<Rightarrow> chat_request \<Rightarrow> call_state \<Rightarrow> call_state" where
  "serve_chat env (UpdateSettingsReq c u p) = outcome (UpdateCallSettings env c u p)"
| "serve_chat env (RaiseHandReq w c u) = outcome (RaiseHand env w c u)"
| "serve_chat env (LowerHandReq w c u) = outcome (LowerHand env w c u)"
| "serve_chat env (ReactionReq w c u e) = outcome (SendCallReaction env w c u e)"
| "serve_chat env (SendMessageReq w c u b) = outcome (SendCallMessage env w c u b)"
| "serve_chat env (DeleteMessageReq w c u m) = outcome (DeleteCallMessage env w c u m)"
| "serve_chat env (WebhookReq ev) = outcome (HandleLiveKitWebhook env ev)"
| "serve_chat env (DeleteTimerReq n) = outcome (breakoutDeleteTimerFires env n)"

primrec serve :: "call_env \<Rightarrow> call_request \<Rightarrow> call_state \<Rightarrow> call_state" where
  "serve env (Lifecycle r) = serve_lifecycle env r"
| "serve env (Media r) = serve_media env r"
| "serve env (Breakouts r) = serve_breakout env r"
| "serve env (Chat r) = serve_chat env r"

fun execute :: "(call_env \<times> call_request) list \<Rightarrow> call_state \<Rightarrow> call_state" where
  "execute [] s = s"
| "execute ((env, req) # reqs) s = execute reqs (serve env req s)"

definition empty_db :: call_db where
  "empty_db = \<lparr>db_calls = [], db_parts = [], db_invited = [], db_rooms = [], db_outbox = [], db_messages = [],
     db_callmsgs = [], db_webhooks = []\<rparr>"

definition initial_state :: call_state where
  "initial_state = \<lparr>st_db = empty_db, st_published = [], st_lk = [], st_egress = [], st_sfuRooms = [], st_timers = [],
     st_ids = 0\<rparr>"

subsection \<open>One request, then many\<close>

text \<open>
  What the system's lemmas need of a relation on states: it is reflexive and transitive, and
  every request stays within it.
\<close>

locale request_relation = run_relation R for R :: "call_state \<Rightarrow> call_state \<Rightarrow> bool" +
  assumes serve: "R s (serve env req s)"
begin

lemma execute: "R s (execute reqs s)"
proof (induction reqs arbitrary: s)
  case Nil
  then show ?case by simp
next
  case (Cons r reqs)
  obtain env req where "r = (env, req)" by (cases r)
  with Cons [of "serve env req s"] serve [of s env req] show ?case by (simp add: R_trans)
qed

end

lemma outcome_keeps: "keepsM R m \<Longrightarrow> R s (outcome m s)"
  by (simp add: outcome_def keepsM_def)

lemmas serve_simps = serve.simps serve_lifecycle.simps serve_media.simps serve_breakout.simps serve_chat.simps

lemmas handlers_sim =
  StartCallWithAccess_sim JoinCall_sim AdmitParticipant_sim AdmitAll_sim RejectParticipant_sim InviteParticipants_sim
  DeclineCall_sim LeaveCall_sim EndCall_sim CancelCall_sim RemoveParticipant_handler_sim CleanupStaleOpenCalls_sim
  UpdateMedia_sim UpdateParticipantRole_handler_sim media_handlers_sim ResolveShareRequest_sim breakout_handlers_sim
  UpdateCallSettings_sim chat_handlers_quiet [THEN sim_quiet] HandleLiveKitWebhook_sim
  breakoutDeleteTimerFires_quiet [THEN sim_quiet]

interpretation service: request_relation sim
proof
  fix s env req
  show "sim s (serve env req s)"
    by (cases req; rename_tac r; case_tac r; simp only: serve_simps; rule outcome_keeps; rule handlers_sim)
qed

lemmas handlers_rooms =
  lifecycle_rooms InviteParticipants_rooms ending_handlers_rooms media_rooms CreateBreakoutRooms_rooms breakout_rooms
  UpdateCallSettings_rooms chat_rooms HandleLiveKitWebhook_rooms livekit_rooms

interpretation breakouts: request_relation rooms_rel
proof
  fix s env req
  show "rooms_rel s (serve env req s)"
    by (cases req; rename_tac r; case_tac r; simp only: serve_simps; rule outcome_keeps; rule handlers_rooms)
qed

lemma initial_ok: "call_ok (st_db initial_state)" "rooms_ok (st_db initial_state)"
  by (simp_all add: initial_state_def empty_db_def call_ok_def keys_ok_def single_host_def no_zombies_def no_orphans_def
      roster_of_def part_of_def status_of_def rooms_ok_def active_rooms_def)

lemma execute_call_ok:
  "call_ok (st_db s) \<Longrightarrow> call_ok (st_db (execute reqs s)) \<and>
   call_step\<^sup>*\<^sup>* (roster_of (st_db s)) (roster_of (st_db (execute reqs s)))"
  using service.execute [of s reqs] by (simp add: sim_def)

lemma execute_append: "execute (rs @ rs') s = execute rs' (execute rs s)"
  by (induction rs s rule: execute.induct) simp_all

end
