(* ===== verification/Scenario.thy ===== *)
theory Scenario
  imports CallSystem
begin

text \<open>
  A concrete workspace to run the handlers on: workspace 1 with the members 10, 11 and 12, a
  guest 20 invited to call 100, no faults, LiveKit answering every request. The theorems about
  the handlers are instantiated here.
\<close>

definition demo_member :: "uuid \<Rightarrow> WorkspaceMember" where
  "demo_member u = \<lparr>WM_WorkspaceID = 1, WM_UserID = u, WM_Role = WorkspaceRoleMember\<rparr>"

definition demo_dir :: directory where
  "demo_dir =
     \<lparr>d_members = [demo_member 10, demo_member 11, demo_member 12],
      d_channels = [\<lparr>Ch_ID = 50, Ch_WorkspaceID = Some 1, Ch_Name = ''general'', Ch_Topic = None,
                     Ch_Type = ChannelTypePublic, Ch_CreatedBy = 10, Ch_OwnerUserID = None, Ch_Archived = False,
                     Ch_ArchivedAt = None, Ch_CreatedAt = 0, Ch_UpdatedAt = 0, Ch_DMRequestStatus = None,
                     Ch_LastActivityAt = None, Ch_Members = []\<rparr>],
      d_channel_members = [],
      d_guest_grants = [\<lparr>GG_ID = 30, GG_WorkspaceID = 1, GG_UserID = 20, GG_ChannelIDs = [], GG_CallID = Some 100,
                         GG_ExpiresAt = 2000000000000, GG_CreatedAt = 0\<rparr>],
      d_access_grants = [], d_connections = [], d_role_definitions = [], d_role_assignments = [],
      d_now = 1000000000000, d_fault = (\<lambda>_ _. None)\<rparr>"

definition demo_env :: "bool \<Rightarrow> call_env" where
  "demo_env tx =
     \<lparr>e_dir = demo_dir, e_tx = tx, e_guests = True, e_collab = False, e_messages = True, e_realtime = True,
      e_livekit = True, e_livekitRooms = True, e_sfu = True, e_sfuMaxRooms = 0, e_recordingEnabled = False,
      e_media = \<lparr>MC_MaxPresentersPerCall = 16, MC_MaxViewersPerCall = 500, MC_MaxScreenSharesPerCall = 1,
                 MC_DefaultWebinarPresenters = 8\<rparr>,
      e_control = None, e_servesLocally = (\<lambda>_. True), e_id = (\<lambda>n. 100 + n),
      e_bcryptCompare = (\<lambda>h p. h = ''h'' @ p), e_bcryptHash = (\<lambda>p. Some (''h'' @ p)),
      e_lkResult = (\<lambda>_. None), e_lkParticipants = (\<lambda>_. Inr []),
      e_livekitURL = ''wss://livekit'', e_tokenTTL = 1800000000000, e_toJWT = (\<lambda>g u n. Some ''jwt''),
      e_egressSink = False, e_egressResult = (\<lambda>_. None), e_callMessages = True\<rparr>"

definition demo_settings :: CallSettings where
  "demo_settings =
     \<lparr>CS_WaitingRoom = False, CS_MuteOnJoin = False, CS_Recording = False, CS_ScreenSharing = True, CS_Chat = True,
      CS_BreakoutRooms = True, CS_BreakoutCreation = BreakoutCreationHost, CS_MaxBreakoutRooms = 8,
      CS_MaxParticipants = 0, CS_E2EE = False, CS_Watermark = False, CS_EntryMode = EntryModeOpen,
      CS_MembersCanUnmuteMic = Some True, CS_MembersCanEnableCamera = Some True, CS_WhoCanAddGuests = WhoCanAddGuestsHost\<rparr>"

definition demo_call :: "CallStatus \<Rightarrow> Call" where
  "demo_call st =
     \<lparr>Call_ID = 100, Call_WorkspaceID = 1, Call_ChannelID = None, Call_Type = CallTypeGroup, Call_Status = st,
      Call_Title = ''standup'', Call_CreatedBy = 10, Call_ScheduledCallID = None, Call_AccessLevel = AccessLevelPublic,
      Call_Settings = demo_settings, Call_JoinPasswordHash = '''', Call_StartedAt = Some 900000000000,
      Call_EndedAt = None, Call_EndReason = None, Call_FeaturedShareUserID = None, Call_PinnedParticipantUserID = None,
      Call_CreatedAt = 900000000000\<rparr>"

definition demo_part :: "uuid \<Rightarrow> uuid \<Rightarrow> CallRole \<Rightarrow> ParticipantStatus \<Rightarrow> CallParticipant" where
  "demo_part pid u role st =
     \<lparr>CP_ID = pid, CP_CallID = 100, CP_UserID = u, CP_BreakoutRoomID = None, CP_Role = role, CP_Status = st,
      CP_AudioMuted = False, CP_VideoMuted = False, CP_ScreenSharing = False, CP_CanScreenShare = False,
      CP_JoinedAt = Some 900000000000, CP_LeftAt = None, CP_LeftReason = None\<rparr>"

text \<open>Call 100 with its host 10 and further participants.\<close>

definition demo_host :: CallParticipant where
  "demo_host = demo_part 101 10 CallRoleHost ParticipantStatusConnected"

definition demo_state :: "Call \<Rightarrow> CallParticipant list \<Rightarrow> call_state" where
  "demo_state call parts =
     initial_state\<lparr>st_db := empty_db\<lparr>db_calls := [call], db_parts := demo_host # parts\<rparr>, st_ids := 10\<rparr>"

end
