(* ===== verification/LifecycleTheorems.thy ===== *)
theory LifecycleTheorems
  imports Scenario
begin

text \<open>
  What the lifecycle handlers achieve: who gets into a call and in which state, what a leave, an
  end and a cancellation leave behind. Each theorem is followed by its instance on the
  scenario's workspace.
\<close>

subsection \<open>Joining\<close>

lemma quiet_run: "quiet m \<Longrightarrow> m s = (r, s') \<Longrightarrow> core s' = core s"
  using quietD [of m s] by simp

lemma AddParticipant_Inr:
  "AddParticipant env p s = (Inr x, s') \<longleftrightarrow>
   fault_of env ''CallRepo.AddParticipant'' [CP_CallID p, CP_UserID p] = None \<and>
   \<not> participant_conflict p (st_db s) \<and> call_exists (CP_CallID p) (st_db s) \<and>
   s' = s\<lparr>st_db := (st_db s)\<lparr>db_parts := db_parts (st_db s) @ [p\<lparr>CP_BreakoutRoomID := None\<rparr>]\<rparr>\<rparr>"
  by (auto simp: AddParticipant_def repo_exec_Inr split: if_splits)

lemma ActivateRinging_parts:
  "ActivateRinging env cid s = (Inr x, s') \<Longrightarrow> db_parts (st_db s') = db_parts (st_db s)"
  by (auto simp: ActivateRinging_def repo_exec_Inr split: if_splits)

lemma core_parts: "core s' = core s \<Longrightarrow> db_parts (st_db s') = db_parts (st_db s)"
  by (simp add: core_def)

lemma join_write_Inr:
  assumes "join_write env call p s = (Inr q, s')"
  shows "q = p \<and> db_parts (st_db s') = db_parts (st_db s) @ [p\<lparr>CP_BreakoutRoomID := None\<rparr>]"
proof -
  have q: "db_parts (st_db t') = db_parts (st_db t)"
    if "enqueueParticipantEventTx env ty call p t = (r, t') \<or> publishParticipantEvent env ty call p t = (r, t')" for ty t r t'
    using that quiet_run [OF enqueuers_quiet(2)] quiet_run [OF publishers_quiet(2)] core_parts by blast
  show ?thesis
    using assms
    by (auto simp: join_write_def run_Inr AddParticipant_Inr split: if_splits
        dest!: ActivateRinging_parts q [OF disjI1] q [OF disjI2])
qed

text \<open>A successful join, up to the point where the handler knows whether the user has a row.\<close>

lemma JoinCall_Inr:
  assumes "JoinCall env ws cid u pw s = (Inr q, s')"
  obtains call s1 where "requireCallAccess env ws cid u s = Inr call" "Call_Status call \<noteq> CallStatusEnded"
    "join_capacity env call s = Inr ()" "core s1 = core s"
    "(\<exists>p. GetParticipant env cid u s1 = Inr p \<and> join_existing env call (isGuestUser env ws u) p s1 = (Inr q, s')) \<or>
     (\<exists>err p s2. GetParticipant env cid u s1 = Inl err \<and> has_code CodeNotFound err \<and> core s2 = core s1 \<and>
        join_status env call (isGuestUser env ws u) pw = Inr (CP_Status p) \<and> CP_CallID p = cid \<and> CP_UserID p = u \<and>
        CP_Role p = (if Call_Type call = CallTypeWebinar \<or> Call_Type call = CallTypeSelector then CallRoleViewer else CallRoleParticipant) \<and>
        CP_BreakoutRoomID p = None \<and> join_write env call p s2 = (Inr q, s'))"
proof -
  from assms obtain call s1 where 1: "requireCallAccess env ws cid u s = Inr call" "Call_Status call \<noteq> CallStatusEnded"
    "join_capacity env call s = Inr ()" "EnsureLiveKitRoomRequired env call s = (Inr (), s1)"
    and 2: "(case GetParticipant env cid u s1 of
        Inr existing \<Rightarrow> join_existing env call (isGuestUser env (Call_WorkspaceID call) u) existing
      | Inl err \<Rightarrow>
          if \<not> has_code CodeNotFound err
          then throwM (Internal ''failed to check existing participant'' (Some err))
          else bindM (readM (\<lambda>_. join_status env call (isGuestUser env (Call_WorkspaceID call) u) pw)) (\<lambda>initialStatus.
               bindM (id_New env) (\<lambda>participantID.
               join_write env call
                 \<lparr>CP_ID = participantID, CP_CallID = cid, CP_UserID = u, CP_BreakoutRoomID = None,
                  CP_Role = (if Call_Type call = CallTypeWebinar \<or> Call_Type call = CallTypeSelector
                             then CallRoleViewer else CallRoleParticipant),
                  CP_Status = initialStatus, CP_AudioMuted = CS_MuteOnJoin (Call_Settings call),
                  CP_VideoMuted = False, CP_ScreenSharing = False, CP_CanScreenShare = False,
                  CP_JoinedAt = Some (now_of env), CP_LeftAt = None, CP_LeftReason = None\<rparr>))) s1 = (Inr q, s')"
    by (auto simp: JoinCall_def Let_def run_Inr)
  have c: "core s1 = core s" using 1(4) by (rule quiet_run [OF livekit_quiet(2)])
  have ws: "Call_WorkspaceID call = ws" using requireCallAccess_status [OF 1(1)] by simp
  show thesis
  proof (cases "GetParticipant env cid u s1")
    case (Inr p)
    with 2 ws c show thesis by (intro that [OF 1(1-3) c]) simp
  next
    case (Inl err)
    with 2 ws obtain st p where "has_code CodeNotFound err" "join_status env call (isGuestUser env ws u) pw = Inr st"
      "join_write env call p (s1\<lparr>st_ids := Suc (st_ids s1)\<rparr>) = (Inr q, s')" "CP_Status p = st" "CP_CallID p = cid"
      "CP_UserID p = u" "CP_BreakoutRoomID p = None"
      "CP_Role p = (if Call_Type call = CallTypeWebinar \<or> Call_Type call = CallTypeSelector then CallRoleViewer else CallRoleParticipant)"
      by (auto simp: run_Inr split: if_splits)
    moreover have "core (s1\<lparr>st_ids := Suc (st_ids s1)\<rparr>) = core s1" by (simp add: core_def)
    ultimately show thesis using Inl by (intro that [OF 1(1-3) c]) blast
  qed
qed

text \<open>A user without a row who joins: the row that is added, and what the handler had checked.\<close>

lemma JoinCall_new_row:
  assumes "JoinCall env ws cid u pw s = (Inr q, s')" and "part_of (st_db s) (cid, u) = None"
  shows "\<exists>call. requireCallAccess env ws cid u s = Inr call \<and> Call_Status call \<noteq> CallStatusEnded \<and>
    join_capacity env call s = Inr () \<and> join_status env call (isGuestUser env ws u) pw = Inr (CP_Status q) \<and>
    CP_CallID q = cid \<and> CP_UserID q = u \<and>
    CP_Role q = (if Call_Type call = CallTypeWebinar \<or> Call_Type call = CallTypeSelector then CallRoleViewer else CallRoleParticipant) \<and>
    db_parts (st_db s') = db_parts (st_db s) @ [q]"
  using assms(1)
proof (rule JoinCall_Inr)
  fix call s1
  assume 1: "requireCallAccess env ws cid u s = Inr call" "Call_Status call \<noteq> CallStatusEnded"
    "join_capacity env call s = Inr ()" and c: "core s1 = core s"
    and 2: "(\<exists>p. GetParticipant env cid u s1 = Inr p \<and> join_existing env call (isGuestUser env ws u) p s1 = (Inr q, s')) \<or>
     (\<exists>err p s2. GetParticipant env cid u s1 = Inl err \<and> has_code CodeNotFound err \<and> core s2 = core s1 \<and>
        join_status env call (isGuestUser env ws u) pw = Inr (CP_Status p) \<and> CP_CallID p = cid \<and> CP_UserID p = u \<and>
        CP_Role p = (if Call_Type call = CallTypeWebinar \<or> Call_Type call = CallTypeSelector then CallRoleViewer else CallRoleParticipant) \<and>
        CP_BreakoutRoomID p = None \<and> join_write env call p s2 = (Inr q, s'))"
  have "GetParticipant env cid u s1 \<noteq> Inr p" for p
    using assms(2) core_parts [OF c] GetParticipant_part_of [of env cid u s1 p] by (auto simp: part_of_apply)
  with 2 obtain p s2 where p: "core s2 = core s1"
    "join_status env call (isGuestUser env ws u) pw = Inr (CP_Status p)" "CP_CallID p = cid" "CP_UserID p = u"
    "CP_Role p = (if Call_Type call = CallTypeWebinar \<or> Call_Type call = CallTypeSelector then CallRoleViewer else CallRoleParticipant)"
    "CP_BreakoutRoomID p = None" "join_write env call p s2 = (Inr q, s')" by blast
  from join_write_Inr [OF p(7)] core_parts [OF p(1)] core_parts [OF c] p(6)
  have "q = p" "db_parts (st_db s') = db_parts (st_db s) @ [p]" by simp_all
  with 1 p(2-5) show ?thesis by auto
qed

lemma accessed_call:
  assumes "keys_ok (st_db s)" and "c \<in> set (db_calls (st_db s))" and "Call_ID c = cid"
    and "requireCallAccess env ws cid u s = Inr call"
  shows "call = load_call c" "Call_WorkspaceID c = ws"
proof -
  obtain c' where c': "c' \<in> set (db_calls (st_db s))" "call = load_call c'" "Call_ID c' = cid" "Call_WorkspaceID call = ws"
    using Calls_GetByID_Inr [of env cid s call] getCallForWorkspace_Inr [OF requireCallAccess_call [OF assms(4)]] by blast
  have "c' = c" using distinct_key_eq [of Call_ID "db_calls (st_db s)" c' c] assms(1-3) c' by (simp add: keys_ok_def)
  with c' show "call = load_call c" "Call_WorkspaceID c = ws" by auto
qed

lemma ResolvedEntryMode_load [simp]: "ResolvedEntryMode (Call_Settings (load_call c)) = ResolvedEntryMode (Call_Settings c)"
  by (simp add: load_call_def load_settings_def Let_def ResolvedEntryMode_def)

lemma part_of_snoc:
  "part_of db (CP_CallID q, CP_UserID q) = None \<Longrightarrow> db_parts db' = db_parts db @ [q] \<Longrightarrow>
   part_of db' = (part_of db)((CP_CallID q, CP_UserID q) \<mapsto> (CP_Role q, CP_Status q))"
  by (rule ext) (auto simp: part_of_def find_append split: option.splits if_splits)

lemma join_status_Inr:
  "join_status env call guest pw = Inr st \<longleftrightarrow>
   st = (if guest \<or> ResolvedEntryMode (Call_Settings call) = EntryModeManualAdmit
         then ParticipantStatusWaiting else ParticipantStatusConnected) \<and>
   (guest \<or> ResolvedEntryMode (Call_Settings call) \<noteq> EntryModePassword \<or>
    verifyJoinPassword env (Call_JoinPasswordHash call) pw = Inr ())"
  by (auto simp: join_status_def Let_def split: sum.splits)

text \<open>
  C13: a user without a participant row who joins a call gets exactly one new row, as a viewer of
  a webinar or selector call and a participant otherwise. A guest, and everyone in a
  manual-admission call, waits; other members are connected, into a password call only with the
  password. The roles and statuses of everybody else are untouched.
\<close>

theorem join_admits_new_users:
  assumes "keys_ok (st_db s)" and "c \<in> set (db_calls (st_db s))" and "Call_ID c = cid"
    and "part_of (st_db s) (cid, u) = None" and "succeeds (JoinCall env ws cid u pw) s"
  shows "part_of (st_db (outcome (JoinCall env ws cid u pw) s)) = (part_of (st_db s))((cid, u) \<mapsto>
      (if Call_Type c = CallTypeWebinar \<or> Call_Type c = CallTypeSelector then CallRoleViewer else CallRoleParticipant,
       if isGuestUser env ws u \<or> ResolvedEntryMode (Call_Settings c) = EntryModeManualAdmit
       then ParticipantStatusWaiting else ParticipantStatusConnected)) \<and>
    (isGuestUser env ws u \<or> ResolvedEntryMode (Call_Settings c) \<noteq> EntryModePassword \<or>
       verifyJoinPassword env (Call_JoinPasswordHash c) pw = Inr ())"
proof -
  let ?s' = "outcome (JoinCall env ws cid u pw) s"
  obtain q where run: "JoinCall env ws cid u pw s = (Inr q, ?s')"
    using assms(5) by (rule succeedsE)
  obtain call where j: "requireCallAccess env ws cid u s = Inr call"
    "join_status env call (isGuestUser env ws u) pw = Inr (CP_Status q)" "CP_CallID q = cid" "CP_UserID q = u"
    "CP_Role q = (if Call_Type call = CallTypeWebinar \<or> Call_Type call = CallTypeSelector then CallRoleViewer else CallRoleParticipant)"
    "db_parts (st_db ?s') = db_parts (st_db s) @ [q]"
    using JoinCall_new_row [OF run assms(4)] by blast
  have "call = load_call c" using accessed_call [OF assms(1-3) j(1)] by simp
  then show ?thesis
    using part_of_snoc [of "st_db s" q, OF _ j(6)] assms(4) j(2-5) by (simp add: join_status_Inr)
qed

theorem join_admits_new_users_witness:
  "part_of (st_db (outcome (JoinCall (demo_env True) 1 100 20 '''') (demo_state (demo_call CallStatusActive) []))) (100, 20) =
     Some (CallRoleParticipant, ParticipantStatusWaiting)"
proof -
  let ?s = "demo_state (demo_call CallStatusActive) []"
  have h: "keys_ok (st_db ?s)" "demo_call CallStatusActive \<in> set (db_calls (st_db ?s))"
    "Call_ID (demo_call CallStatusActive) = 100" "part_of (st_db ?s) (100, 20) = None"
    "succeeds (JoinCall (demo_env True) 1 100 20 '''') ?s" "isGuestUser (demo_env True) 1 20"
    "Call_Type (demo_call CallStatusActive) = CallTypeGroup" by code_simp+
  show ?thesis using join_admits_new_users [OF h(1-5)] h(6,7) by simp
qed

lemma GetParticipant_row:
  assumes "find (\<lambda>x. CP_CallID x = cid \<and> CP_UserID x = u) (db_parts (st_db s)) = Some p"
  shows "GetParticipant env cid u s = Inr p \<or> (\<exists>e. GetParticipant env cid u s = Inl e \<and> \<not> has_code CodeNotFound e)"
proof (cases "GetParticipant env cid u s")
  case (Inl e)
  with GetParticipant_NotFound [OF Inl] assms show ?thesis by (auto simp: part_of_apply)
next
  case (Inr q)
  with GetParticipant_Inr [OF Inr] assms show ?thesis by simp
qed

text \<open>A user who has a row: what the handler goes on with.\<close>

lemma JoinCall_existing_row:
  assumes "JoinCall env ws cid u pw s = (Inr q, s')" and "keys_ok (st_db s)"
    and "p \<in> set (db_parts (st_db s))" "CP_CallID p = cid" "CP_UserID p = u"
  shows "\<exists>call s1. requireCallAccess env ws cid u s = Inr call \<and> core s1 = core s \<and>
    join_existing env call (isGuestUser env ws u) p s1 = (Inr q, s')"
  using assms(1)
proof (rule JoinCall_Inr)
  fix call s1
  assume 1: "requireCallAccess env ws cid u s = Inr call" and c: "core s1 = core s"
    and 2: "(\<exists>p. GetParticipant env cid u s1 = Inr p \<and> join_existing env call (isGuestUser env ws u) p s1 = (Inr q, s')) \<or>
     (\<exists>err p s2. GetParticipant env cid u s1 = Inl err \<and> has_code CodeNotFound err \<and> core s2 = core s1 \<and>
        join_status env call (isGuestUser env ws u) pw = Inr (CP_Status p) \<and> CP_CallID p = cid \<and> CP_UserID p = u \<and>
        CP_Role p = (if Call_Type call = CallTypeWebinar \<or> Call_Type call = CallTypeSelector then CallRoleViewer else CallRoleParticipant) \<and>
        CP_BreakoutRoomID p = None \<and> join_write env call p s2 = (Inr q, s'))"
  have f: "find (\<lambda>x. CP_CallID x = cid \<and> CP_UserID x = u) (db_parts (st_db s1)) = Some p"
    using find_part [OF assms(2,3)] core_parts [OF c] assms(4,5) by simp
  then have "\<not> has_code CodeNotFound err" if "GetParticipant env cid u s1 = Inl err" for err
    using GetParticipant_NotFound [OF that] by (auto simp: part_of_apply)
  with 2 have "\<exists>p. GetParticipant env cid u s1 = Inr p \<and>
      join_existing env call (isGuestUser env ws u) p s1 = (Inr q, s')" by blast
  with f have "join_existing env call (isGuestUser env ws u) p s1 = (Inr q, s')" by (auto dest!: GetParticipant_Inr)
  with 1 c show ?thesis by blast
qed

text \<open>
  A join request of someone the host has declined fails, and changes nothing in the call and
  participant tables.
\<close>

theorem declined_is_terminal_for_joining:
  assumes "keys_ok (st_db s)" and "p \<in> set (db_parts (st_db s))" and "CP_Status p = ParticipantStatusDeclined"
  shows "\<not> succeeds (JoinCall env ws (CP_CallID p) (CP_UserID p) pw) s \<and>
    core (outcome (JoinCall env ws (CP_CallID p) (CP_UserID p) pw) s) = core s"
proof
  let ?join = "JoinCall env ws (CP_CallID p) (CP_UserID p) pw"
  show "\<not> succeeds ?join s"
  proof
    assume "succeeds ?join s"
    then obtain q where "?join s = (Inr q, outcome ?join s)" by (rule succeedsE)
    from JoinCall_existing_row [OF this assms(1,2) refl refl] assms(3) show False
      by (auto simp: join_existing_def run_Inr)
  qed
  have row: "GetParticipant env (CP_CallID p) (CP_UserID p) t = Inr p \<or>
      (\<exists>e. GetParticipant env (CP_CallID p) (CP_UserID p) t = Inl e \<and> \<not> has_code CodeNotFound e)" if "core t = core s" for t
    by (rule GetParticipant_row) (use find_part [OF assms(1,2)] core_parts [OF that] in simp)
  have "same_core s (snd (?join s))"
    unfolding JoinCall_def Let_def
  proof (intro quiet.at_bindM, goal_cases)
    case (6 call s1 x s2 y s3 z s4 r s5)
    then have t: "core s4 = core s" by (auto simp: run_Inr dest: quiet_run [OF livekit_quiet(2)])
    from 6 have "s5 = s4" "r = GetParticipant env (CP_CallID p) (CP_UserID p) s4" by (simp_all add: run_Inr)
    with row [OF t] assms(3) show ?case by (auto simp: join_existing_def monad_simps)
  qed (rule keepsMD, intro quiet_struct quiet_intros)+
  then show "core (outcome ?join s) = core s" by (simp add: outcome_def same_core_def)
qed

theorem declined_is_terminal_for_joining_witness:
  "\<not> succeeds (JoinCall (demo_env True) 1 100 12 '''')
     (demo_state (demo_call CallStatusActive) [demo_part 102 12 CallRoleParticipant ParticipantStatusDeclined])"
proof -
  let ?p = "demo_part 102 12 CallRoleParticipant ParticipantStatusDeclined"
  have h: "keys_ok (st_db (demo_state (demo_call CallStatusActive) [?p]))"
    "?p \<in> set (db_parts (st_db (demo_state (demo_call CallStatusActive) [?p])))"
    "CP_Status ?p = ParticipantStatusDeclined" "CP_CallID ?p = 100" "CP_UserID ?p = 12" by code_simp+
  show ?thesis using declined_is_terminal_for_joining [OF h(1-3), of "demo_env True" 1 "''''"] h(4,5) by simp
qed

lemma UpdateParticipantStatus_part_of:
  assumes "UpdateParticipantStatus env (CP_ID p) st s = (Inr x, s')" and "keys_ok (st_db s)" and "p \<in> set (db_parts (st_db s))"
  shows "part_of (st_db s') = (part_of (st_db s))((CP_CallID p, CP_UserID p) \<mapsto> (CP_Role p, st))"
proof -
  have "st_db s' = update_parts (\<lambda>q. CP_ID q = CP_ID p) (set_participant_status (now_of env) st None) (st_db s)"
    using assms(1)
    by (auto simp: UpdateParticipantStatus_def UpdateParticipantStatusWithReason_def repo_exec_Inr split: if_splits)
  moreover have "keeps_keys (set_participant_status (now_of env) st None)"
    by (simp add: keeps_keys_def set_participant_status_def)
  ultimately show ?thesis
    using find_upd_row [OF assms(2,3), of "\<lambda>q. CP_ID q = CP_ID p" "set_participant_status (now_of env) st None"]
      same_id_row [OF assms(2) _ assms(3)]
    by (simp add: set_participant_status_def)
qed

lemma core_part_of: "core s' = core s \<Longrightarrow> part_of (st_db s') = part_of (st_db s)"
  by (drule core_parts) (simp add: part_of_def)

lemma core_keys_ok: "core s' = core s \<Longrightarrow> keys_ok (st_db s') = keys_ok (st_db s)"
  by (simp add: core_def keys_ok_def)

text \<open>
  A guest with a row who is not connected, and did not drop within the reconnect grace, is put
  back into the waiting room by every successful join; nobody else's role or status changes.
\<close>

theorem guests_reknock:
  assumes "keys_ok (st_db s)" and "p \<in> set (db_parts (st_db s))" and "isGuestUser env ws (CP_UserID p)"
    and "CP_Status p \<noteq> ParticipantStatusConnected" and "\<not> guestWithinReconnectGrace env p"
    and "succeeds (JoinCall env ws (CP_CallID p) (CP_UserID p) pw) s"
  shows "part_of (st_db (outcome (JoinCall env ws (CP_CallID p) (CP_UserID p) pw) s)) =
    (part_of (st_db s))((CP_CallID p, CP_UserID p) \<mapsto> (CP_Role p, ParticipantStatusWaiting))"
proof -
  let ?s' = "outcome (JoinCall env ws (CP_CallID p) (CP_UserID p) pw) s"
  obtain q where "JoinCall env ws (CP_CallID p) (CP_UserID p) pw s = (Inr q, ?s')" using assms(6) by (rule succeedsE)
  from JoinCall_existing_row [OF this assms(1,2) refl refl] assms(3)
  obtain call s1 where c: "core s1 = core s" and j: "join_existing env call True p s1 = (Inr q, ?s')" by auto
  have k: "keys_ok (st_db s1)" "p \<in> set (db_parts (st_db s1))" "part_of (st_db s1) = part_of (st_db s)"
    using assms(1,2) core_keys_ok [OF c] core_parts [OF c] core_part_of [OF c] by simp_all
  show ?thesis
  proof (cases "CP_Status p = ParticipantStatusWaiting")
    case True
    with j have "?s' = s1" by (auto simp: join_existing_def run_Inr)
    with k True part_of_row [OF assms(1,2)] show ?thesis by auto
  next
    case False
    with j assms(4,5) obtain x s2 where u: "UpdateParticipantStatus env (CP_ID p) ParticipantStatusWaiting s1 = (Inr x, s2)"
      and "publishParticipantEvent env TypeWaitingRoomJoined call (p\<lparr>CP_Status := ParticipantStatusWaiting\<rparr>) s2 = (Inr (), ?s')"
      by (auto simp: join_existing_def Let_def run_Inr split: if_splits)
    then have "part_of (st_db ?s') = part_of (st_db s2)"
      by (intro core_part_of quiet_run [OF publishers_quiet(2)])
    with UpdateParticipantStatus_part_of [OF u k(1,2)] k(3) show ?thesis by simp
  qed
qed

theorem guests_reknock_witness:
  "part_of (st_db (outcome (JoinCall (demo_env False) 1 100 20 '''')
     (demo_state (demo_call CallStatusActive) [demo_part 102 20 CallRoleParticipant ParticipantStatusInvited]))) (100, 20) =
   Some (CallRoleParticipant, ParticipantStatusWaiting)"
proof -
  let ?p = "demo_part 102 20 CallRoleParticipant ParticipantStatusInvited"
  let ?s = "demo_state (demo_call CallStatusActive) [?p]"
  have f: "CP_CallID ?p = 100" "CP_UserID ?p = 20" "CP_Role ?p = CallRoleParticipant" by code_simp+
  have h: "keys_ok (st_db ?s)" "?p \<in> set (db_parts (st_db ?s))" "isGuestUser (demo_env False) 1 (CP_UserID ?p)"
    "CP_Status ?p \<noteq> ParticipantStatusConnected" "\<not> guestWithinReconnectGrace (demo_env False) ?p"
    "succeeds (JoinCall (demo_env False) 1 (CP_CallID ?p) (CP_UserID ?p) '''') ?s" by code_simp+
  show ?thesis using guests_reknock [OF h] f by simp
qed

text \<open>
  A full call refuses every join: with as many connected or joining participants as the
  effective cap, the handler fails and leaves the state exactly as it was.
\<close>

theorem join_refused_when_full:
  assumes "keys_ok (st_db s)" and "c \<in> set (db_calls (st_db s))" and "Call_ID c = cid"
    and "0 < effectiveParticipantCap env (load_call c)"
    and "effectiveParticipantCap env (load_call c) \<le>
      int (count_where (\<lambda>p. CP_CallID p = cid \<and> in_media p) (db_parts (st_db s)))"
  shows "\<not> succeeds (JoinCall env ws cid u pw) s \<and> outcome (JoinCall env ws cid u pw) s = s"
proof (cases "requireCallAccess env ws cid u s")
  case (Inl e)
  then show ?thesis by (simp add: JoinCall_def succeeds_def outcome_def monad_simps)
next
  case (Inr call)
  then have c: "call = load_call c" using accessed_call [OF assms(1-3)] by blast
  have n: "count_where in_media (sort_key joined_key (filter (\<lambda>p. CP_CallID p = cid) rows)) =
      count_where (\<lambda>p. CP_CallID p = cid \<and> in_media p) rows" for rows
    by (simp add: count_where_def filter_sort conj_commute)
  have "isl (join_capacity env call s)"
    using assms(3-5) c
    by (auto simp: join_capacity_def Let_def ListParticipants_def repo_query_def db_op_def n split: option.splits sum.splits)
  with Inr show ?thesis
    by (cases "join_capacity env call s") (auto simp: JoinCall_def Let_def succeeds_def outcome_def monad_simps)
qed

text \<open>The scenario's call with room for two.\<close>

definition demo_small_call :: Call where
  "demo_small_call = (demo_call CallStatusActive)\<lparr>Call_Settings := demo_settings\<lparr>CS_MaxParticipants := 2\<rparr>\<rparr>"

theorem join_refused_when_full_witness:
  "\<not> succeeds (JoinCall (demo_env True) 1 100 12 '''')
     (demo_state demo_small_call [demo_part 102 11 CallRoleParticipant ParticipantStatusConnected])"
proof -
  let ?s = "demo_state demo_small_call [demo_part 102 11 CallRoleParticipant ParticipantStatusConnected]"
  have h: "keys_ok (st_db ?s)" "demo_small_call \<in> set (db_calls (st_db ?s))" "Call_ID demo_small_call = 100"
    "0 < effectiveParticipantCap (demo_env True) (load_call demo_small_call)"
    "effectiveParticipantCap (demo_env True) (load_call demo_small_call) \<le>
      int (count_where (\<lambda>p. CP_CallID p = 100 \<and> in_media p) (db_parts (st_db ?s)))" by code_simp+
  show ?thesis using join_refused_when_full [OF h] by blast
qed

end
