(* ===== verification/EndingTheorems.thy ===== *)
theory EndingTheorems
  imports LifecycleTheorems
begin

text \<open>
  What ending, cancelling and leaving a call achieve, and what the stale-call worker may touch.
\<close>

subsection \<open>The state after a call has ended\<close>

text \<open>Nobody of the call is live, and its \<open>call.started\<close> event is never replayed again.\<close>

definition hung_up :: "uuid \<Rightarrow> call_db \<Rightarrow> bool" where
  "hung_up cid db = list_all (\<lambda>p. CP_CallID p = cid \<longrightarrow> \<not> live_status (CP_Status p)) (db_parts db)"

definition tombstoned :: "uuid \<Rightarrow> call_db \<Rightarrow> bool" where
  "tombstoned cid db = list_all (\<lambda>r. Ev_Type (ob_Event r) = TypeCallStarted \<longrightarrow>
     payload_call_id (Ev_Payload (ob_Event r)) = Some cid \<longrightarrow> \<not> ob_Replayable r) (db_outbox db)"

definition tomb_rel :: "uuid \<Rightarrow> call_state \<Rightarrow> call_state \<Rightarrow> bool" where
  "tomb_rel cid s s' \<longleftrightarrow> (tombstoned cid (st_db s) \<longrightarrow> tombstoned cid (st_db s'))"

interpretation tomb: run_relation "tomb_rel cid" for cid
  by unfold_locales (simp_all add: tomb_rel_def)

named_theorems tomb_intros \<open>operations that revive no call.started event\<close>

lemmas tomb_struct =
  tomb.keeps_bindM tomb.keeps_mapErrM tomb.keeps_tryM tomb.keeps_returnM tomb.keeps_throwM
  tomb.keeps_readM tomb.keeps_getM tomb.keeps_failIf tomb.keeps_forM tomb.keeps_foldM
  tomb.keeps_If tomb.keeps_case_option tomb.keeps_case_sum

lemma tomb_exec_same:
  assumes "\<And>db. db_outbox (snd (f db)) = db_outbox db"
  shows "keepsM (tomb_rel cid) (repo_exec env op args wrap f)"
  by (rule keepsMI) (simp add: tomb_rel_def tombstoned_def repo_exec_snd assms split: option.splits)

lemma tomb_modifyM: "(\<And>s. st_db (f s) = st_db s) \<Longrightarrow> keepsM (tomb_rel cid) (modifyM f)"
  by (rule tomb.keeps_modifyM) (simp add: tomb_rel_def)

lemma tomb_WithinTx [tomb_intros]:
  assumes "keepsM (tomb_rel cid) m"
  shows "keepsM (tomb_rel cid) (WithinTx env m)"
proof (rule keepsMI)
  fix s
  show "tomb_rel cid s (snd (WithinTx env m s))"
    using keepsMD [OF assms, of s]
    by (auto simp: WithinTx_def tomb_rel_def split: option.splits prod.splits sum.splits)
qed

lemma tomb_enqueue [tomb_intros]:
  "t \<noteq> TypeCallStarted \<Longrightarrow> keepsM (tomb_rel cid) (enqueueDurableEventTx env t sj w c u p)"
  by (rule keepsMI)
    (simp add: enqueueDurableEventTx_def EnqueueRealtime_def tomb_rel_def tombstoned_def repo_exec_snd returnM_apply
      split: option.splits)

lemma tomb_leaves [tomb_intros]:
  "keepsM (tomb_rel cid) (doPublish env t sj w c u p)" "keepsM (tomb_rel cid) (lk_request env req)"
  "keepsM (tomb_rel cid) (SFU_CloseRoom name)" "keepsM (tomb_rel cid) (cancelBreakoutLiveKitDelete name)"
  "keepsM (tomb_rel cid) (id_New env)" "keepsM (tomb_rel cid) (Messages_Create env msg)"
  "keepsM (tomb_rel cid) (Rooms_CloseAllByCall env c)"
proof -
  show "keepsM (tomb_rel cid) (lk_request env req)"
    unfolding lk_request_def by (intro tomb_struct tomb_modifyM) simp_all
  show "keepsM (tomb_rel cid) (id_New env)" by (rule keepsMI) (simp add: id_New_def tomb_rel_def)
  show "keepsM (tomb_rel cid) (Messages_Create env msg)" unfolding Messages_Create_def by (rule tomb_exec_same) simp
  show "keepsM (tomb_rel cid) (Rooms_CloseAllByCall env c)"
    unfolding Rooms_CloseAllByCall_def by (rule tomb_exec_same) (simp add: close_rooms_def)
qed (simp_all add: doPublish_def SFU_CloseRoom_def cancelBreakoutLiveKitDelete_def tomb_modifyM)

lemma tomb_ending [tomb_intros]:
  "keepsM (tomb_rel cid) (enqueueCallEventTx env TypeCallEnded call u)"
  "keepsM (tomb_rel cid) (publishCallEvent env t call u)"
  "keepsM (tomb_rel cid) (emitCallEndedChatMessage env call)"
  "keepsM (tomb_rel cid) (cleanupEndedMediaRooms env c)"
proof -
  show "keepsM (tomb_rel cid) (enqueueCallEventTx env TypeCallEnded call u)"
    unfolding enqueueCallEventTx_def enqueueCallScopedEventTx_def by (intro tomb_struct tomb_intros) simp_all
  show "keepsM (tomb_rel cid) (publishCallEvent env t call u)"
    unfolding publishCallEvent_def publishCallScoped_def publishPrivateCallScoped_def by (intro tomb_struct tomb_intros)
  show "keepsM (tomb_rel cid) (emitCallEndedChatMessage env call)"
    unfolding emitCallEndedChatMessage_def bestEffort_def Let_def by (intro tomb_struct tomb_intros) simp_all
  show "keepsM (tomb_rel cid) (cleanupEndedMediaRooms env c)"
    unfolding cleanupEndedMediaRooms_def closeAllBreakoutSFURooms_def deleteLiveKitRoomBestEffort_def
      DeleteLiveKitRoom_def bestEffort_def closeSFURoom_def Let_def
    by (intro tomb_struct tomb_intros)
qed

text \<open>The one statement that ends a call.\<close>

lemma list_all_upd_where:
  "(\<And>x. P x \<Longrightarrow> Q (f x)) \<Longrightarrow> (\<And>x. \<not> P x \<Longrightarrow> Q x) \<Longrightarrow> list_all Q (upd_where P f xs)"
  by (induction xs) simp_all

lemma endCallAndDisconnect_True:
  assumes "endCallAndDisconnect env cid isOpen reason pr s = (Inr True, s')"
  shows "\<exists>c \<in> set (db_calls (st_db s)). Call_ID c = cid \<and> isOpen (Call_Status c)"
    and "s' = s\<lparr>st_db := end_call_statement isOpen (now_of env) cid reason pr (st_db s)\<rparr>"
proof -
  show 1: "\<exists>c \<in> set (db_calls (st_db s)). Call_ID c = cid \<and> isOpen (Call_Status c)"
  proof (rule ccontr)
    assume "\<not> ?thesis"
    with assms show False by (simp add: endCallAndDisconnect_def repo_exec_Inr split: if_split_asm)
  qed
  with assms show "s' = s\<lparr>st_db := end_call_statement isOpen (now_of env) cid reason pr (st_db s)\<rparr>"
    by (simp add: endCallAndDisconnect_def repo_exec_Inr)
qed

lemma end_call_statement_effect:
  assumes "keys_ok (st_db s)" and "endCallAndDisconnect env cid isOpen reason pr s = (Inr True, s')"
  shows "status_of (st_db s') cid = Some CallStatusEnded" "hung_up cid (st_db s')" "tombstoned cid (st_db s')"
    "\<exists>st. status_of (st_db s) cid = Some st \<and> isOpen st"
proof -
  note t = endCallAndDisconnect_True [OF assms(2)]
  from t(1) obtain c where c: "c \<in> set (db_calls (st_db s))" "Call_ID c = cid" "isOpen (Call_Status c)" by blast
  have db: "st_db s' = end_call_statement isOpen (now_of env) cid reason pr (st_db s)" by (simp add: t(2))
  let ?P = "\<lambda>x. Call_ID x = cid \<and> isOpen (Call_Status x)"
  let ?f = "\<lambda>x. x\<lparr>Call_Status := CallStatusEnded, Call_EndedAt := coalesce (Call_EndedAt x) (Some (now_of env)),
       Call_EndReason := coalesce (Call_EndReason x) reason\<rparr>"
  have "status_of (st_db s') cid = status_of ((st_db s)\<lparr>db_calls := upd_where ?P ?f (db_calls (st_db s))\<rparr>) cid"
    by (simp add: db end_call_statement_def status_of_def)
  also have "\<dots> = Some CallStatusEnded"
    using status_of_upd_calls [OF assms(1) c(1), of ?P ?f] c by simp
  finally show "status_of (st_db s') cid = Some CallStatusEnded" .
  show "hung_up cid (st_db s')"
    unfolding db hung_up_def end_call_statement_def by (simp, rule list_all_upd_where) simp_all
  show "tombstoned cid (st_db s')"
    unfolding db tombstoned_def end_call_statement_def by (simp, rule list_all_upd_where) auto
  show "\<exists>st. status_of (st_db s) cid = Some st \<and> isOpen st"
    using status_of_call [OF assms(1) c(1)] c by auto
qed

text \<open>The three effects together, and that what follows keeps them.\<close>

definition over :: "uuid \<Rightarrow> call_db \<Rightarrow> bool" where
  "over cid db \<longleftrightarrow> status_of db cid = Some CallStatusEnded \<and> hung_up cid db \<and> tombstoned cid db"

lemma after_the_end:
  assumes "over cid (st_db s)" and "m s = (r, s')" and "quiet m" and "keepsM (tomb_rel cid) m"
  shows "over cid (st_db s')"
proof -
  have "core s' = core s" by (rule quiet_run [OF assms(3,2)])
  moreover have "tomb_rel cid s s'" using keepsMD [OF assms(4), of s] assms(2) by simp
  ultimately show ?thesis using assms(1) by (simp add: over_def core_def status_of_def hung_up_def tomb_rel_def)
qed

text \<open>Ending in a transaction with the event in the outbox, or directly with the event published.\<close>

lemma ended_and_announced:
  assumes "keys_ok (st_db s)" and "endCallAndDisconnect env cid isOpen reason pr s = (Inr True, s1)"
    and "enqueueCallEventTx env TypeCallEnded call u s1 = (r, s2) \<or> publishCallEvent env TypeCallEnded call u s1 = (r, s2)"
  shows "over cid (st_db s2)"
proof -
  have "over cid (st_db s1)" using end_call_statement_effect [OF assms(1,2)] by (simp add: over_def)
  then show ?thesis
    using assms(3) after_the_end [of cid s1 _ r s2, OF _ _ enqueuers_quiet(1) tomb_ending(1)]
      after_the_end [of cid s1 _ r s2, OF _ _ publishers_quiet(1) tomb_ending(2)] by blast
qed

lemma ending_tail:
  assumes "over cid (st_db s)" and "emitCallEndedChatMessage env call s = (r, s1)" and "cleanupEndedMediaRooms env cid s1 = (r', s')"
  shows "over cid (st_db s')"
proof -
  have "over cid (st_db s1)" using assms(1,2) by (rule after_the_end) (rule quiet_intros tomb_intros)+
  then show ?thesis using assms(3) by (rule after_the_end) (rule quiet_intros tomb_intros)+
qed

subsection \<open>Ending and cancelling\<close>

text \<open>
  C14: only a host or co-host of the call ends it, and when \<open>EndCall\<close> succeeds the call is ended,
  nobody in it is connected, joining or waiting any more, and its \<open>call.started\<close> event will not
  be replayed to a client that subscribes later.
\<close>

theorem EndCall_ends_for_everyone:
  assumes "keys_ok (st_db s)" and "succeeds (EndCall env ws cid u) s"
  shows "(\<exists>st. part_of (st_db s) (cid, u) = Some (CallRoleHost, st) \<or> part_of (st_db s) (cid, u) = Some (CallRoleCoHost, st)) \<and>
    over cid (st_db (outcome (EndCall env ws cid u) s))"
proof -
  obtain x s' where run: "EndCall env ws cid u s = (Inr x, s')" and o: "outcome (EndCall env ws cid u) s = s'"
    using assms(2) by (rule succeeds_run)
  from run obtain call p s1 s2 s3 where p: "GetParticipant env cid u s = Inr p" "CP_Role p = CallRoleHost \<or> CP_Role p = CallRoleCoHost"
    and e: "EndWithReasonIfNotEnded env cid CallEndReasonHostEnded s = (Inr True, s1)"
    and ev: "enqueueCallEventTx env TypeCallEnded (markCallEnded env CallEndReasonHostEnded call) u s1 = (Inr (), s2) \<or>
      publishCallEvent env TypeCallEnded (markCallEnded env CallEndReasonHostEnded call) u s1 = (Inr (), s2)"
    and tl: "emitCallEndedChatMessage env (markCallEnded env CallEndReasonHostEnded call) s2 = (Inr (), s3)"
      "cleanupEndedMediaRooms env cid s3 = (Inr x, s')"
    by (cases "e_tx env"; auto simp: EndCall_def Let_def run_Inr participant_or_Inr; blast)
  have "over cid (st_db s')"
    using ending_tail [OF ended_and_announced [OF assms(1) e [unfolded EndWithReasonIfNotEnded_def] ev] tl] .
  with GetParticipant_part_of [OF p(1)] p(2) o show ?thesis by auto
qed

theorem EndCall_ends_for_everyone_witness:
  "over 100 (st_db (outcome (EndCall (demo_env True) 1 100 10)
     (demo_state (demo_call CallStatusActive) [demo_part 102 11 CallRoleParticipant ParticipantStatusConnected])))"
proof -
  let ?s = "demo_state (demo_call CallStatusActive) [demo_part 102 11 CallRoleParticipant ParticipantStatusConnected]"
  have h: "keys_ok (st_db ?s)" "succeeds (EndCall (demo_env True) 1 100 10) ?s" by code_simp+
  show ?thesis using EndCall_ends_for_everyone [OF h] by blast
qed

text \<open>
  \<open>CancelCall\<close> reports that it ended a call only when the call was ringing and the requester
  created it; the call is then over. When it reports that it ended nothing, the call had already
  ended, and no role or status has changed.
\<close>

theorem CancelCall_only_ringing_by_creator:
  assumes "keys_ok (st_db s)" and "c \<in> set (db_calls (st_db s))" and "Call_ID c = cid"
    and "CancelCall env ws cid u s = (Inr r, s')"
  shows "if CR_Ended r then Call_Status c = CallStatusRinging \<and> Call_CreatedBy c = u \<and> over cid (st_db s')
    else Call_Status c = CallStatusEnded \<and> roster_of (st_db s') = roster_of (st_db s)"
proof -
  obtain call where acc: "requireCallAccess env ws cid u s = Inr call"
    using assms(4) by (auto simp: CancelCall_def run_Inr)
  have c: "call = load_call c" using accessed_call [OF assms(1-3) acc] by simp
  have st: "status_of (st_db s) cid = Some (Call_Status c)" using status_of_call [OF assms(1,2)] assms(3) by simp
  show ?thesis
  proof (cases "Call_Status c = CallStatusEnded")
    case True
    with assms(4) acc c show ?thesis by (auto simp: CancelCall_def run_Inr)
  next
    case open': False
    with assms(4) acc c have g: "Call_Status c = CallStatusRinging" "Call_CreatedBy c = u"
      by (auto simp: CancelCall_def Let_def run_Inr)
    from st g(1) have no: "endCallAndDisconnect env cid (\<lambda>st. st = CallStatusRinging) reason pr s \<noteq> (Inr False, s1)" for reason pr s1
      using assms(2,3) by (auto simp: endCallAndDisconnect_def repo_exec_Inr split: if_splits)
    from assms(4) acc c open' no obtain s1 s2 s3 where
      e: "CancelRingingWithReason env cid CallEndReasonCancelled s = (Inr True, s1)"
      and ev: "enqueueCallEventTx env TypeCallEnded (markCallEnded env CallEndReasonCancelled call) u s1 = (Inr (), s2) \<or>
        publishCallEvent env TypeCallEnded (markCallEnded env CallEndReasonCancelled call) u s1 = (Inr (), s2)"
      and tl: "emitCallEndedChatMessage env (markCallEnded env CallEndReasonCancelled call) s2 = (Inr (), s3)"
        "cleanupEndedMediaRooms env cid s3 = (Inr (), s')" and r: "r = \<lparr>CR_Ended = True\<rparr>"
      by (cases "e_tx env"; auto simp: CancelCall_def cancel_attempt_def CancelRingingWithReason_def Let_def run_Inr split: if_splits; blast)
    from ending_tail [OF ended_and_announced [OF assms(1) e [unfolded CancelRingingWithReason_def] ev] tl] g r
    show ?thesis by simp
  qed
qed

theorem CancelCall_only_ringing_by_creator_witness:
  "over 100 (st_db (snd (CancelCall (demo_env False) 1 100 10 (demo_state (demo_call CallStatusRinging) []))))"
proof -
  let ?s = "demo_state (demo_call CallStatusRinging) []"
  let ?r = "CancelCall (demo_env False) 1 100 10 ?s"
  have h: "keys_ok (st_db ?s)" "demo_call CallStatusRinging \<in> set (db_calls (st_db ?s))" "Call_ID (demo_call CallStatusRinging) = 100"
    by code_simp+
  have r: "fst ?r = Inr \<lparr>CR_Ended = True\<rparr>" by code_simp
  then have "?r = (Inr \<lparr>CR_Ended = True\<rparr>, snd ?r)" by (simp add: prod_eq_iff)
  from CancelCall_only_ringing_by_creator [OF h this] show ?thesis by simp
qed

subsection \<open>Leaving\<close>

lemma Disconnect_run:
  assumes "DisconnectParticipantIfConnectedWithReason env (CP_ID p) lr s = (Inr d, s')" and "keys_ok (st_db s)"
    and "p \<in> set (db_parts (st_db s))" and "CP_Status p \<noteq> ParticipantStatusDisconnected"
  shows "d" "db_calls (st_db s') = db_calls (st_db s)"
    "part_of (st_db s') = (part_of (st_db s))((CP_CallID p, CP_UserID p) \<mapsto> (CP_Role p, ParticipantStatusDisconnected))"
    "keys_ok (st_db s')" "count_where (\<lambda>q. CP_CallID q = cid \<and> in_media q) (db_parts (st_db s')) =
      count_where (\<lambda>q. CP_CallID q = cid \<and> q \<noteq> p \<and> in_media q) (db_parts (st_db s))"
proof -
  let ?P = "\<lambda>q. CP_ID q = CP_ID p \<and> CP_Status q \<noteq> ParticipantStatusDisconnected"
  let ?f = "\<lambda>q. q\<lparr>CP_Status := ParticipantStatusDisconnected, CP_LeftAt := coalesce (CP_LeftAt q) (Some (now_of env)),
       CP_LeftReason := coalesce (CP_LeftReason q) (Some lr)\<rparr>"
  have "part_matches ?P (st_db s)" using assms(3,4) by (auto simp: part_matches_def)
  with assms(1) have d: "d" "st_db s' = update_parts ?P ?f (st_db s)"
    by (simp_all add: DisconnectParticipantIfConnectedWithReason_def repo_exec_Inr)
  have kk: "keeps_keys ?f" by (simp add: keeps_keys_def)
  have u: "q = p" if "q \<in> set (db_parts (st_db s))" "?P q" for q
    using same_id_row [OF assms(2) that(1) assms(3)] that(2) by simp
  show "d" "db_calls (st_db s') = db_calls (st_db s)" "keys_ok (st_db s')"
    using d kk assms(2) by (simp_all add: keys_ok_update_parts) (simp add: update_parts_def)
  show "part_of (st_db s') = (part_of (st_db s))((CP_CallID p, CP_UserID p) \<mapsto> (CP_Role p, ParticipantStatusDisconnected))"
    using find_upd_row [OF assms(2,3), of ?P ?f] u kk assms(4) d(2) by simp
  have "count_where (\<lambda>q. CP_CallID q = cid \<and> in_media q) (upd_where ?P ?f rows) =
      count_where (\<lambda>q. CP_CallID q = cid \<and> q \<noteq> p \<and> in_media q) rows" if "set rows \<subseteq> set (db_parts (st_db s))" for rows
    using that u assms(4) by (induction rows) (auto simp: in_media_def)
  with d(2) show "count_where (\<lambda>q. CP_CallID q = cid \<and> in_media q) (db_parts (st_db s')) =
      count_where (\<lambda>q. CP_CallID q = cid \<and> q \<noteq> p \<and> in_media q) (db_parts (st_db s))" by (simp add: update_parts_def)
qed

text \<open>Once disconnected, a participant stays so through the rest of the handler.\<close>

definition gone_rel :: "uuid \<times> uuid \<Rightarrow> call_state \<Rightarrow> call_state \<Rightarrow> bool" where
  "gone_rel k s s' \<longleftrightarrow> (\<forall>role. part_of (st_db s) k = Some (role, ParticipantStatusDisconnected) \<longrightarrow>
     part_of (st_db s') k = Some (role, ParticipantStatusDisconnected))"

interpretation gone: run_relation "gone_rel k" for k
  by unfold_locales (simp_all add: gone_rel_def)

lemmas gone_struct =
  gone.keeps_bindM gone.keeps_mapErrM gone.keeps_tryM gone.keeps_returnM gone.keeps_throwM
  gone.keeps_readM gone.keeps_getM gone.keeps_failIf gone.keeps_forM gone.keeps_foldM
  gone.keeps_If gone.keeps_case_option gone.keeps_case_sum

lemma gone_quiet: "quiet m \<Longrightarrow> keepsM (gone_rel k) m"
  by (rule keepsMI) (simp add: gone_rel_def core_part_of [OF quietD])

lemma gone_exec:
  assumes "\<And>db role. part_of db k = Some (role, ParticipantStatusDisconnected) \<Longrightarrow>
      part_of (snd (f db)) k = Some (role, ParticipantStatusDisconnected)"
  shows "keepsM (gone_rel k) (repo_exec env op args wrap f)"
  by (rule keepsMI) (simp add: gone_rel_def repo_exec_snd assms split: option.splits)

lemma gone_pin: "keepsM (gone_rel k) (SetPinnedParticipantUserID env cid x)"
  unfolding SetPinnedParticipantUserID_def by (rule gone_exec) (simp add: update_call_row_def part_of_def)

lemma gone_end: "keepsM (gone_rel k) (EndWithReasonIfNotEnded env cid r)"
  unfolding EndWithReasonIfNotEnded_def endCallAndDisconnect_def
proof (rule gone_exec)
  fix db :: call_db and role
  let ?g = "\<lambda>p. p\<lparr>CP_Status := ParticipantStatusDisconnected, CP_LeftAt := coalesce (CP_LeftAt p) (Some (now_of env)),
       CP_LeftReason := coalesce (CP_LeftReason p) (Some ParticipantLeftReasonTimeout)\<rparr>"
  have kk: "keeps_keys ?g" by (simp add: keeps_keys_def)
  assume "part_of db k = Some (role, ParticipantStatusDisconnected)"
  then have "part_of (update_parts (\<lambda>p. CP_CallID p = cid \<and> live_status (CP_Status p)) ?g db) k =
      Some (role, ParticipantStatusDisconnected)"
    by (cases k) (auto simp: part_of_update_parts [OF kk] part_of_apply [of db] Let_def)
  moreover have "part_of (end_call_statement isOpen (now_of env) cid (Some r) ParticipantLeftReasonTimeout db) k =
      part_of (update_parts (\<lambda>p. CP_CallID p = cid \<and> live_status (CP_Status p)) ?g db) k" for isOpen
    by (simp add: end_call_statement_def update_parts_def part_of_def)
  ultimately show "part_of (snd (if \<exists>c \<in> set (db_calls db). Call_ID c = cid \<and> Call_Status c \<noteq> CallStatusEnded
      then (Inr True, end_call_statement (\<lambda>st. st \<noteq> CallStatusEnded) (now_of env) cid (Some r) ParticipantLeftReasonTimeout db)
      else if call_exists cid db then (Inr False, db) else (Inl (NotFound ''call not found''), db))) k =
      Some (role, ParticipantStatusDisconnected)"
    using \<open>part_of db k = _\<close> by simp
qed

lemma gone_clear: "keepsM (gone_rel k) (clearPinnedParticipantIfMatches env call t a)"
  unfolding clearPinnedParticipantIfMatches_def Let_def
  by (intro gone_struct gone_pin gone_quiet [OF publishers_quiet(4)])

lemma gone_finish: "keepsM (gone_rel k) (leave_finish env cid u v)"
  by (rule gone_quiet) (unfold leave_finish_def, intro quiet_struct quiet_intros)

text \<open>A first statement, and a rest that keeps a relation.\<close>

lemma bind_then_keeps:
  assumes "bindM m k s = (Inr v, s')" and "\<And>x. keepsM R (k x)"
  obtains x s1 where "m s = (Inr x, s1)" "R s1 s'"
proof -
  from assms(1) obtain x s1 where "m s = (Inr x, s1)" "k x s1 = (Inr v, s')" by (auto simp: bindM_Inr)
  moreover have "R s1 (snd (k x s1))" by (rule keepsMD [OF assms(2)])
  ultimately show thesis using that by simp
qed

lemma gone_disconnect: "keepsM (gone_rel k) (DisconnectParticipantIfConnectedWithReason env pid lr)"
  unfolding DisconnectParticipantIfConnectedWithReason_def
proof (rule gone_exec)
  fix db :: call_db and role
  let ?P = "\<lambda>q. CP_ID q = pid \<and> CP_Status q \<noteq> ParticipantStatusDisconnected"
  let ?f = "\<lambda>q. q\<lparr>CP_Status := ParticipantStatusDisconnected, CP_LeftAt := coalesce (CP_LeftAt q) (Some (now_of env)),
       CP_LeftReason := coalesce (CP_LeftReason q) (Some lr)\<rparr>"
  have kk: "keeps_keys ?f" by (simp add: keeps_keys_def)
  assume h: "part_of db k = Some (role, ParticipantStatusDisconnected)"
  then have "part_of (update_parts ?P ?f db) k = Some (role, ParticipantStatusDisconnected)"
    by (cases k) (auto simp: part_of_update_parts [OF kk] part_of_apply [of db] Let_def)
  with h show "part_of (snd (if part_matches ?P db then (Inr True, update_parts ?P ?f db)
      else if part_matches (\<lambda>p. CP_ID p = pid) db then (Inr False, db)
      else (Inl (NotFound ''call participant not found''), db))) k = Some (role, ParticipantStatusDisconnected)"
    by simp
qed

lemma gone_WithinTx:
  assumes "keepsM (gone_rel k) m"
  shows "keepsM (gone_rel k) (WithinTx env m)"
proof (rule keepsMI)
  fix s
  show "gone_rel k s (snd (WithinTx env m s))"
    using keepsMD [OF assms, of s]
    by (auto simp: WithinTx_def gone_rel_def split: option.splits prod.splits sum.splits)
qed

lemmas gone_intros = gone_WithinTx gone_pin gone_end gone_clear gone_disconnect gone_finish quiet_intros [THEN gone_quiet]

lemma LeaveCall_gone: "keepsM (gone_rel k) (LeaveCall env ws cid u)"
  unfolding LeaveCall_def leave_tx_def leave_direct_def Let_def
  by (intro gone_struct gone_intros)

lemma leave_disconnects:
  assumes "leave_tx env call p u s = (Inr v, s') \<or> leave_direct env call p u s = (Inr v, s')" and "keys_ok (st_db s)"
    and "p \<in> set (db_parts (st_db s))" and "CP_Status p \<noteq> ParticipantStatusDisconnected"
  shows "part_of (st_db s') (CP_CallID p, CP_UserID p) = Some (CP_Role p, ParticipantStatusDisconnected)"
proof -
  let ?R = "gone_rel (CP_CallID p, CP_UserID p)"
  let ?m = "DisconnectParticipantIfConnectedWithReason env (CP_ID p) ParticipantLeftReasonLeft"
  have "\<exists>d s1. ?m s = (Inr d, s1) \<and> ?R s1 s'"
    using assms(1)
  proof
    assume "leave_tx env call p u s = (Inr v, s')"
    then obtain d s1 where "?m s = (Inr d, s1)" "?R s1 s'" unfolding leave_tx_def Let_def
      by (rule bind_then_keeps [where R = ?R]) (intro gone_struct gone_intros)
    then show ?thesis by blast
  next
    assume "leave_direct env call p u s = (Inr v, s')"
    then obtain d s1 where "mapErrM (\<lambda>err. Internal ''failed to update participant status'' (Some err)) ?m s = (Inr d, s1)"
      "?R s1 s'" unfolding leave_direct_def Let_def
      by (rule bind_then_keeps [where R = ?R]) (intro gone_struct gone_intros)
    then show ?thesis by (auto simp: mapErrM_Inr)
  qed
  then obtain d s1 where 1: "?m s = (Inr d, s1)" and 2: "?R s1 s'" by blast
  from Disconnect_run(3) [OF 1 assms(2-4)] 2 show ?thesis by (simp add: gone_rel_def)
qed

lemma LeaveCall_run:
  assumes "LeaveCall env ws (CP_CallID p) (CP_UserID p) s = (Inr r, s')" and "keys_ok (st_db s)"
    and "p \<in> set (db_parts (st_db s))" and "status_of (st_db s) (CP_CallID p) \<noteq> Some CallStatusEnded"
    and "CP_Status p \<noteq> ParticipantStatusDisconnected"
  obtains call v s1 where "requireCallAccess env ws (CP_CallID p) (CP_UserID p) s = Inr call"
    "leave_finish env (CP_CallID p) (CP_UserID p) v s1 = (Inr r, s')"
    "(if e_tx env then leave_tx env call p (CP_UserID p) s = (Inr v, s1)
      else leave_direct env call p (CP_UserID p) s = (Inr v, s1))"
proof -
  from assms(1) obtain call where acc: "requireCallAccess env ws (CP_CallID p) (CP_UserID p) s = Inr call"
    by (auto simp: LeaveCall_def run_Inr)
  have o: "Call_Status call \<noteq> CallStatusEnded" using requireCallAccess_status [OF acc] assms(4) by auto
  have "GetParticipant env (CP_CallID p) (CP_UserID p) s = Inr p \<or>
      (\<exists>e. GetParticipant env (CP_CallID p) (CP_UserID p) s = Inl e \<and> \<not> has_code CodeNotFound e)"
    by (rule GetParticipant_row [OF find_part [OF assms(2,3)]])
  with assms(1) acc o have "GetParticipant env (CP_CallID p) (CP_UserID p) s = Inr p"
    by (auto simp: LeaveCall_def run_Inr)
  with assms(1,5) acc o show thesis
    by (auto simp: LeaveCall_def run_Inr intro!: that [OF acc] split: if_splits)
qed

text \<open>
  A successful \<open>LeaveCall\<close> of somebody with a row in an open call leaves the row disconnected,
  whether or not the handler runs in a transaction.
\<close>

theorem LeaveCall_disconnects:
  assumes "keys_ok (st_db s)" and "p \<in> set (db_parts (st_db s))"
    and "status_of (st_db s) (CP_CallID p) \<noteq> Some CallStatusEnded"
    and "succeeds (LeaveCall env ws (CP_CallID p) (CP_UserID p)) s"
  shows "part_of (st_db (outcome (LeaveCall env ws (CP_CallID p) (CP_UserID p)) s)) (CP_CallID p, CP_UserID p) =
    Some (CP_Role p, ParticipantStatusDisconnected)"
proof -
  let ?k = "(CP_CallID p, CP_UserID p)"
  obtain r s' where run: "LeaveCall env ws (CP_CallID p) (CP_UserID p) s = (Inr r, s')"
    and o: "outcome (LeaveCall env ws (CP_CallID p) (CP_UserID p)) s = s'" using assms(4) by (rule succeeds_run)
  show ?thesis
  proof (cases "CP_Status p = ParticipantStatusDisconnected")
    case True
    with part_of_row [OF assms(1,2)] keepsMD [OF LeaveCall_gone [of ?k env ws "CP_CallID p" "CP_UserID p"], of s] o
    show ?thesis by (simp add: gone_rel_def outcome_def)
  next
    case False
    obtain call v s1 where "leave_finish env (CP_CallID p) (CP_UserID p) v s1 = (Inr r, s')"
      "leave_tx env call p (CP_UserID p) s = (Inr v, s1) \<or> leave_direct env call p (CP_UserID p) s = (Inr v, s1)"
      using run assms(1-3) False by (rule LeaveCall_run) (auto split: if_splits)
    with leave_disconnects [OF this(2) assms(1,2) False] keepsMD [OF gone_finish [of ?k env "CP_CallID p" "CP_UserID p" v], of s1] o
    show ?thesis by (simp add: gone_rel_def)
  qed
qed

theorem LeaveCall_disconnects_witness:
  "part_of (st_db (outcome (LeaveCall (demo_env False) 1 100 11)
     (demo_state (demo_call CallStatusActive) [demo_part 102 11 CallRoleParticipant ParticipantStatusConnected]))) (100, 11) =
   Some (CallRoleParticipant, ParticipantStatusDisconnected)"
proof -
  let ?p = "demo_part 102 11 CallRoleParticipant ParticipantStatusConnected"
  let ?s = "demo_state (demo_call CallStatusActive) [?p]"
  have f: "CP_CallID ?p = 100" "CP_UserID ?p = 11" "CP_Role ?p = CallRoleParticipant" by code_simp+
  have h: "keys_ok (st_db ?s)" "?p \<in> set (db_parts (st_db ?s))" "status_of (st_db ?s) (CP_CallID ?p) \<noteq> Some CallStatusEnded"
    "succeeds (LeaveCall (demo_env False) 1 (CP_CallID ?p) (CP_UserID ?p)) ?s" by code_simp+
  show ?thesis using LeaveCall_disconnects [OF h] f by simp
qed

lemma tomb_participant_event [tomb_intros]: "keepsM (tomb_rel cid) (publishCallControlEvent env t call u p)"
  "keepsM (tomb_rel cid) (removeLiveKitParticipantBestEffort env c u)"
  unfolding publishCallControlEvent_def publishCallScoped_def publishPrivateCallScoped_def
    removeLiveKitParticipantBestEffort_def RemoveLiveKitParticipant_def bestEffort_def
  by (intro tomb_struct tomb_intros)+

lemma pin_keeps_parts:
  assumes "(if b then SetPinnedParticipantUserID env cid None else returnM ()) s = (Inr x, s')"
  shows "db_parts (st_db s') = db_parts (st_db s)" "keys_ok (st_db s') = keys_ok (st_db s)" "status_of (st_db s') = status_of (st_db s)"
proof -
  have "map_option Call_Status (find (\<lambda>c. Call_ID c = i) (upd_where (\<lambda>c. Call_ID c = cid)
      (\<lambda>c. c\<lparr>Call_PinnedParticipantUserID := None\<rparr>) rows)) = map_option Call_Status (find (\<lambda>c. Call_ID c = i) rows)" for i rows
    by (induction rows) auto
  then show "db_parts (st_db s') = db_parts (st_db s)" "keys_ok (st_db s') = keys_ok (st_db s)" "status_of (st_db s') = status_of (st_db s)"
    using assms by (auto simp: SetPinnedParticipantUserID_def run_Inr update_call_row_def keys_ok_def map_upd_where
        status_of_def fun_eq_iff split: if_splits)
qed

lemma bind_run: "m s = (Inr x, s1) \<Longrightarrow> bindM m k s = k x s1"
  by (simp add: bindM_apply)

lemma leave_tx_last:
  assumes "leave_tx env call p u s = (Inr v, s')" and "keys_ok (st_db s)" and "p \<in> set (db_parts (st_db s))"
    and "CP_Status p \<noteq> ParticipantStatusDisconnected" and "Call_Status call \<noteq> CallStatusEnded"
    and "status_of (st_db s) (Call_ID call) = Some (Call_Status call)" 
    and "count_where (\<lambda>q. CP_CallID q = Call_ID call \<and> q \<noteq> p \<and> in_media q) (db_parts (st_db s)) <
      (if Call_Type call = CallTypeOneToOne then 2 else 1)"
  shows "over (Call_ID call) (st_db s') \<and> \<not> lv_return v \<and> \<not> lv_alreadyLeft v"
proof -
  let ?cid = "Call_ID call"
  let ?c1 = "if callPinsParticipant call u then call\<lparr>Call_PinnedParticipantUserID := None\<rparr> else call"
  obtain d s1 where d: "DisconnectParticipantIfConnectedWithReason env (CP_ID p) ParticipantLeftReasonLeft s = (Inr d, s1)"
    using assms(1) by (auto simp: leave_tx_def bindM_Inr)
  then have 1: "DisconnectParticipantIfConnectedWithReason env (CP_ID p) ParticipantLeftReasonLeft s = (Inr True, s1)"
    using Disconnect_run(1) [OF d assms(2-4)] by simp
  note dis = Disconnect_run [OF 1 assms(2-4)]
  from assms(1) [unfolded leave_tx_def Let_def bind_run [of "DisconnectParticipantIfConnectedWithReason env (CP_ID p) ParticipantLeftReasonLeft", OF 1]] obtain s2 s3 ps where
    2: "enqueueParticipantEventTx env TypeCallParticipantLeft call (markParticipantDisconnected env ParticipantLeftReasonLeft p) s1 = (Inr (), s2)"
    and 3: "(if callPinsParticipant call u then SetPinnedParticipantUserID env ?cid None else returnM ()) s2 = (Inr (), s3)"
    and 4: "ListParticipants env ?cid s3 = Inr ps"
    and 5: "(if shouldAutoEndAfterLeave ?c1 ps
             then bindM (EndWithReasonIfNotEnded env ?cid CallEndReasonAllLeft) (\<lambda>ended.
                  if \<not> ended
                  then returnM \<lparr>lv_call = ?c1, lv_alreadyLeft = False, lv_autoEnded = False,
                         lv_pinCleared = callPinsParticipant call u, lv_return = False\<rparr>
                  else bindM (enqueueCallEventTx env TypeCallEnded (markCallEnded env CallEndReasonAllLeft ?c1) u) (\<lambda>_.
                       returnM (\<lparr>lv_call = ?c1, lv_alreadyLeft = False, lv_autoEnded = False,
                         lv_pinCleared = callPinsParticipant call u, lv_return = False\<rparr>
                         \<lparr>lv_call := markCallEnded env CallEndReasonAllLeft ?c1, lv_autoEnded := True\<rparr>)))
             else returnM \<lparr>lv_call = ?c1, lv_alreadyLeft = False, lv_autoEnded = False,
                     lv_pinCleared = callPinsParticipant call u, lv_return = False\<rparr>) s3 = (Inr v, s')"
    by (simp add: Let_def run_Inr split del: if_split) blast
  have c2: "core s2 = core s1" by (rule quiet_run [OF enqueuers_quiet(2) 2])
  note pin = pin_keeps_parts [OF 3]
  have rows: "db_parts (st_db s3) = db_parts (st_db s1)" using pin(1) core_parts [OF c2] by simp
  have st: "keys_ok (st_db s3)" "status_of (st_db s3) ?cid = Some (Call_Status call)"
    using pin(2,3) core_keys_ok [OF c2] dis(2,4) c2 assms(6) by (simp_all add: core_def status_of_def)
  have "count_where in_media ps = count_where (\<lambda>q. CP_CallID q = ?cid \<and> in_media q) (db_parts (st_db s3))"
    using 4 by (auto simp: ListParticipants_def repo_query_def db_op_def count_where_def filter_sort conj_commute split: option.splits)
  then have "shouldAutoEndAfterLeave ?c1 ps"
    using assms(5,7) dis(5) rows by (simp add: shouldAutoEndAfterLeave_def Let_def split: if_split_asm)
  with 5 obtain b s4 where 6: "EndWithReasonIfNotEnded env ?cid CallEndReasonAllLeft s3 = (Inr b, s4)"
    and 7: "if b then enqueueCallEventTx env TypeCallEnded (markCallEnded env CallEndReasonAllLeft ?c1) u s4 = (Inr (), s') \<and>
        \<not> lv_return v \<and> \<not> lv_alreadyLeft v else True"
    by (auto simp: run_Inr split: if_splits)
  from st(2) have "b" using 6 assms(5) status_of_SomeD [OF st(2)]
    by (auto simp: EndWithReasonIfNotEnded_def endCallAndDisconnect_def repo_exec_Inr split: if_splits)
  with 6 have 8: "endCallAndDisconnect env ?cid (\<lambda>st. st \<noteq> CallStatusEnded) (Some CallEndReasonAllLeft)
      ParticipantLeftReasonTimeout s3 = (Inr True, s4)" by (simp add: EndWithReasonIfNotEnded_def)
  from ended_and_announced [OF st(1) 8] 7 \<open>b\<close> show ?thesis by auto
qed

lemma leave_finish_over:
  assumes "over cid (st_db s)" and "leave_finish env cid u v s = (r, s')"
  shows "over cid (st_db s')"
  using assms
  by (rule after_the_end) (unfold leave_finish_def, (intro quiet_struct quiet_intros tomb_struct tomb_intros)+)



text \<open>
  Leaving is idempotent: once the row is disconnected, a further \<open>LeaveCall\<close> reports that the
  user had already left, and no role or status of any call changes.
\<close>

theorem LeaveCall_idempotent:
  assumes "keys_ok (st_db s)" and "p \<in> set (db_parts (st_db s))" and "CP_Status p = ParticipantStatusDisconnected"
    and "LeaveCall env ws (CP_CallID p) (CP_UserID p) s = (Inr r, s')"
  shows "LR_AlreadyLeft r \<and> roster_of (st_db s') = roster_of (st_db s)"
proof -
  let ?clear = "\<lambda>call. clearPinnedParticipantIfMatches env call (CP_UserID p) (CP_UserID p)"
  have "GetParticipant env (CP_CallID p) (CP_UserID p) s = Inr p \<or>
      (\<exists>e. GetParticipant env (CP_CallID p) (CP_UserID p) s = Inl e \<and> \<not> has_code CodeNotFound e)"
    by (rule GetParticipant_row [OF find_part [OF assms(1,2)]])
  with assms(3,4) obtain s1 call where r: "r = \<lparr>LR_AlreadyLeft = True\<rparr>"
    and rm: "removeLiveKitParticipantBestEffort env (CP_CallID p) (CP_UserID p) s1 = (Inr (), s')"
    and "s1 = s \<or> (\<exists>x. ?clear call s = (Inr x, s1))"
    by (auto simp: LeaveCall_def run_Inr split: if_splits) blast+
  then have "roster_of (st_db s1) = roster_of (st_db s)"
  proof (elim disjE exE)
    fix x assume x: "?clear call s = (Inr x, s1)"
    show ?thesis
    proof (cases "callPinsParticipant call (CP_UserID p)")
      case False
      with x show ?thesis by (simp add: clearPinnedParticipantIfMatches_def run_Inr)
    next
      case True
      with x obtain s2 where 1: "SetPinnedParticipantUserID env (Call_ID call) None s = (Inr (), s2)"
        and 2: "publishCallControlEvent env TypeCallPinnedChanged (call\<lparr>Call_PinnedParticipantUserID := None\<rparr>) (CP_UserID p)
          (PinnedParticipantPayload (Call_ID call) None) s2 = (Inr (), s1)"
        by (auto simp: clearPinnedParticipantIfMatches_def Let_def run_Inr)
      have "core s1 = core s2" by (rule quiet_run [OF publishers_quiet(4) 2])
      moreover have "roster_of (st_db s2) = roster_of (st_db s)"
        using pin_keeps_parts [of True env "Call_ID call" s "()" s2] 1 by (simp add: roster_of_def part_of_def)
      ultimately show ?thesis using core_eq_roster(1) by metis
    qed
  qed simp
  moreover have "core s' = core s1" by (rule quiet_run [OF livekit_quiet(5) rm])
  ultimately show ?thesis using r core_eq_roster(1) [of s' s1] by simp
qed

theorem LeaveCall_idempotent_witness:
  "\<exists>r s'. LeaveCall (demo_env True) 1 100 11
       (demo_state (demo_call CallStatusActive) [demo_part 102 11 CallRoleParticipant ParticipantStatusDisconnected]) = (Inr r, s') \<and>
     LR_AlreadyLeft r"
proof -
  let ?p = "demo_part 102 11 CallRoleParticipant ParticipantStatusDisconnected"
  let ?s = "demo_state (demo_call CallStatusActive) [?p]"
  let ?r = "LeaveCall (demo_env True) 1 (CP_CallID ?p) (CP_UserID ?p) ?s"
  have f: "CP_CallID ?p = 100" "CP_UserID ?p = 11" by code_simp+
  have h: "keys_ok (st_db ?s)" "?p \<in> set (db_parts (st_db ?s))" "CP_Status ?p = ParticipantStatusDisconnected"
    "\<not> isl (fst ?r)" by code_simp+
  then have "?r = (Inr (projr (fst ?r)), snd ?r)" by (simp add: prod_eq_iff)
  from LeaveCall_idempotent [OF h(1-3) this] this f show ?thesis by fastforce
qed

subsection \<open>The stale-call worker\<close>

definition status_rel :: "uuid \<Rightarrow> call_state \<Rightarrow> call_state \<Rightarrow> bool" where
  "status_rel cid s s' \<longleftrightarrow> status_of (st_db s') cid = status_of (st_db s) cid"

interpretation same_status: run_relation "status_rel cid" for cid
  by unfold_locales (simp_all add: status_rel_def)

lemmas status_struct =
  same_status.keeps_bindM same_status.keeps_mapErrM same_status.keeps_tryM same_status.keeps_returnM same_status.keeps_throwM
  same_status.keeps_readM same_status.keeps_getM same_status.keeps_failIf same_status.keeps_forM same_status.keeps_foldM
  same_status.keeps_If same_status.keeps_case_option same_status.keeps_case_sum

lemma status_quiet: "quiet m \<Longrightarrow> keepsM (status_rel cid) m"
  by (rule keepsMI) (use quietD [of m] in \<open>simp add: status_rel_def core_def status_of_def\<close>)

lemma status_WithinTx:
  assumes "keepsM (status_rel cid) m"
  shows "keepsM (status_rel cid) (WithinTx env m)"
proof (rule keepsMI)
  fix s
  show "status_rel cid s (snd (WithinTx env m s))"
    using keepsMD [OF assms, of s]
    by (auto simp: WithinTx_def status_rel_def split: option.splits prod.splits sum.splits)
qed

lemma status_disconnect: "keepsM (status_rel cid) (DisconnectParticipantIfConnectedWithReason env pid r)"
  unfolding DisconnectParticipantIfConnectedWithReason_def
  by (rule keepsMI) (simp add: status_rel_def repo_exec_snd split: option.splits)

lemma status_end_other:
  assumes "cid' \<noteq> cid"
  shows "keepsM (status_rel cid) (endCallAndDisconnect env cid' isOpen reason pr)"
proof -
  have f: "find (\<lambda>c. Call_ID c = cid) (upd_where (\<lambda>c. Call_ID c = cid' \<and> isOpen (Call_Status c)) f rows) =
      find (\<lambda>c. Call_ID c = cid) rows" if "\<And>c. Call_ID (f c) = Call_ID c" for f rows
    using assms that by (induction rows) auto
  show ?thesis
    unfolding endCallAndDisconnect_def
    by (intro keepsMI) (simp add: status_rel_def repo_exec_snd end_call_statement_def status_of_def f split: option.splits)
qed

lemma end_stale_body_other:
  assumes "cid' \<noteq> cid" and "\<And>c. quiet (notify c)"
  shows "keepsM (status_rel cid) (end_stale_body env notify cid')"
proof (rule keepsMI)
  fix s
  show "status_rel cid s (snd (end_stale_body env notify cid' s))"
    unfolding end_stale_body_def
  proof (rule same_status.at_bindM, goal_cases)
    case (2 r s1)
    show ?case
    proof (cases r)
      case (Inr call)
      with 2 have "Call_ID call \<noteq> cid" using Calls_GetByID_status [of env cid' s call] assms(1) by (simp add: run_Inr)
      note rules = status_struct status_disconnect status_end_other [OF this] status_quiet [OF assms(2)]
      show ?thesis
        unfolding Inr sum.case disconnectStaleParticipants_def endStaleCallStatus_def CancelRingingWithReason_def
          EndWithReasonIfNotEnded_def Let_def
        by (rule keepsMD) (intro rules)
    qed simp
  qed simp
qed

lemma endStale_other: "cid' \<noteq> cid \<Longrightarrow> keepsM (status_rel cid) (endStaleOpenCall env cid')"
  unfolding endStaleOpenCall_def
  by (intro status_struct status_WithinTx end_stale_body_other quiet_intros status_quiet [OF emitCallEndedChatMessage_quiet]
      status_quiet [OF cleanupEndedMediaRooms_quiet])

lemma keeps_foldM_in:
  "run_relation R \<Longrightarrow> (\<And>a x. x \<in> set xs \<Longrightarrow> keepsM R (f a x)) \<Longrightarrow> keepsM R (foldM f acc xs)"
  by (induction xs arbitrary: acc) (auto simp: run_relation.keeps_returnM intro!: run_relation.keeps_bindM)



end
