(* ===== verification/StartTheorems.thy ===== *)
theory StartTheorems
  imports EndingTheorems
begin

text \<open>
  Starting a call: what a successful start leaves behind, the two exclusions (one open call per
  channel, one call per user), that a failed start leaves no trace in the tables, and the
  settings a new call carries.
\<close>

lemma start_write_Inr:
  assumes "start_write env call p us u s = (Inr x, s')"
  shows "db_calls (st_db s') = db_calls (st_db s) @ [store_call call]"
    and "db_parts (st_db s') = db_parts (st_db s) @ [p\<lparr>CP_BreakoutRoomID := None\<rparr>]"
proof -
  let ?inv = "if Call_AccessLevel call = AccessLevelPrivate \<and> us \<noteq> []
    then AddInvitedMembers env (Call_ID call) us u else returnM ()"
  have q: "quiet ?inv" by (intro quiet_struct quiet_intros)
  have "\<exists>a b c s1 s2 s3. Calls_Create env call s = (Inr a, s1) \<and> AddParticipant env p s1 = (Inr b, s2) \<and>
      ?inv s2 = (Inr c, s3) \<and> (enqueueCallEventTx env TypeCallStarted call u s3 = (Inr x, s') \<or>
      publishCallEvent env TypeCallStarted call u s3 = (Inr x, s'))"
  proof (cases "e_tx env")
    case True
    with assms have "\<exists>y. WithinTx env (bindM (Calls_Create env call) (\<lambda>_. bindM (AddParticipant env p) (\<lambda>_.
        bindM ?inv (\<lambda>_. enqueueCallEventTx env TypeCallStarted call u)))) s = (Inr y, s')"
      unfolding start_write_def Let_def by (simp only: if_True, elim bindM_tryM_Inr)
    then show ?thesis by (auto simp: WithinTx_Inr bindM_Inr simp del: split_paired_Ex split del: if_split)
  next
    case False
    define cl where "cl msg m = bindM (tryM m) (\<lambda>r. case r of Inr _ \<Rightarrow> returnM ()
      | Inl err \<Rightarrow> bindM (deleteLiveKitRoomBestEffort env (Call_ID call)) (\<lambda>_. throwM (Internal msg (Some err))))"
      for msg and m :: "unit call_handler"
    have cl: "\<exists>y. m t = (Inr y, t')" if "cl msg m t = (Inr z, t')" for msg m t z t'
      using that unfolding cl_def by (rule bindM_tryM_Inr)
    from assms False have "bindM (cl ''failed to create call'' (Calls_Create env call)) (\<lambda>_.
        bindM (cl ''failed to add host participant'' (AddParticipant env p)) (\<lambda>_.
        bindM (cl ''failed to add private call invited members'' ?inv) (\<lambda>_.
        publishCallEvent env TypeCallStarted call u))) s = (Inr x, s')"
      unfolding start_write_def Let_def cl_def by (simp only: if_False)
    then show ?thesis unfolding bindM_Inr by (blast dest: cl)
  qed
  then obtain a b c s1 s2 s3 where 1: "Calls_Create env call s = (Inr a, s1)" and 2: "AddParticipant env p s1 = (Inr b, s2)"
    and 3: "?inv s2 = (Inr c, s3)" and 4: "enqueueCallEventTx env TypeCallStarted call u s3 = (Inr x, s') \<or>
      publishCallEvent env TypeCallStarted call u s3 = (Inr x, s')" by blast
  have "core s3 = core s2" by (rule quiet_run [OF q 3])
  moreover have "core s' = core s3" using 4 quiet_run [OF enqueuers_quiet(1)] quiet_run [OF publishers_quiet(1)] by blast
  ultimately show "db_calls (st_db s') = db_calls (st_db s) @ [store_call call]"
    and "db_parts (st_db s') = db_parts (st_db s) @ [p\<lparr>CP_BreakoutRoomID := None\<rparr>]"
    using Calls_Create_Inr [OF 1] 2 by (auto simp: core_def AddParticipant_Inr)
qed

lemma user_active_loop_None:
  "user_active_loop env u s calls = Inr None \<Longrightarrow> c \<in> set calls \<Longrightarrow>
   part_of (st_db s) (Call_ID c, u) \<noteq> Some (role, ParticipantStatusConnected)"
proof (induction calls)
  case (Cons x calls)
  show ?case
  proof (cases "c = x")
    case True
    with Cons.prems(1) show ?thesis
      using GetParticipant_part_of [of env "Call_ID x" u s] GetParticipant_NotFound [of env "Call_ID x" u s]
      by (cases "GetParticipant env (Call_ID x) u s") (auto split: if_splits)
  next
    case False
    with Cons show ?thesis by (auto split: sum.splits if_splits)
  qed
qed simp

lemma userActiveCall_None:
  assumes "userActiveCall env ws u s = Inr None" and "c \<in> set (db_calls (st_db s))" "Call_WorkspaceID c = ws"
    "Call_Status c \<noteq> CallStatusEnded"
  shows "part_of (st_db s) (Call_ID c, u) \<noteq> Some (role, ParticipantStatusConnected)"
proof -
  from assms(1) obtain calls where l: "ListActiveByWorkspace env ws s = Inr calls" "user_active_loop env u s calls = Inr None"
    by (auto simp: userActiveCall_def split: sum.splits)
  from l(1) assms(2-4) have "load_call_projection c \<in> set calls"
    by (auto simp: ListActiveByWorkspace_def repo_query_def db_op_def split: option.splits)
  from user_active_loop_None [OF l(2) this] show ?thesis by (simp add: load_call_projection_def)
qed

lemma start_channel_check_Some:
  assumes "start_channel_check env ws u (Some ch) s = Inr ()" and "c \<in> set (db_calls (st_db s))" "Call_WorkspaceID c = ws"
    "Call_Status c \<noteq> CallStatusEnded"
  shows "Call_ChannelID c \<noteq> Some ch"
proof
  assume ch: "Call_ChannelID c = Some ch"
  from assms(1) obtain calls where l: "ListActiveByWorkspace env ws s = Inr calls" "find (\<lambda>x. Call_ChannelID x = Some ch) calls = None"
    by (auto simp: start_channel_check_def activeCallInChannel_def split: sum.splits if_splits)
  from l(1) assms(2-4) have "load_call_projection c \<in> set calls"
    by (auto simp: ListActiveByWorkspace_def repo_query_def db_op_def split: option.splits)
  with l(2) ch show False by (auto simp: find_None_iff' load_call_projection_def)
qed



subsection \<open>A failed start leaves no trace\<close>

definition db_rel :: "call_state \<Rightarrow> call_state \<Rightarrow> bool" where
  "db_rel s s' \<longleftrightarrow> st_db s' = st_db s"

interpretation same_db: run_relation db_rel
  by unfold_locales (simp_all add: db_rel_def)

lemmas db_struct =
  same_db.keeps_bindM same_db.keeps_mapErrM same_db.keeps_tryM same_db.keeps_returnM same_db.keeps_throwM
  same_db.keeps_readM same_db.keeps_getM same_db.keeps_failIf same_db.keeps_forM same_db.keeps_foldM
  same_db.keeps_If same_db.keeps_case_option same_db.keeps_case_sum

definition fails_clean :: "'a call_handler \<Rightarrow> call_state \<Rightarrow> bool" where
  "fails_clean m s \<longleftrightarrow> (isl (fst (m s)) \<longrightarrow> db_rel s (snd (m s)))"

lemma fails_clean_bind:
  assumes "keepsM db_rel m" and "\<And>x s'. fails_clean (k x) s'"
  shows "fails_clean (bindM m k) s"
  using keepsMD [OF assms(1), of s] assms(2)
  by (auto simp: fails_clean_def bindM_apply db_rel_def split: prod.splits sum.splits)

lemma fails_clean_last:
  assumes "fails_clean m s" and "\<And>x s'. \<not> isl (fst (k x s'))"
  shows "fails_clean (bindM m k) s"
  using assms by (auto simp: fails_clean_def bindM_apply split: prod.splits sum.splits)

lemma db_media:
  "keepsM db_rel (id_New env)" "keepsM db_rel (lk_request env req)"
  "keepsM db_rel (EnsureLiveKitRoomRequired env call)" "keepsM db_rel (deleteLiveKitRoomBestEffort env cid)"
proof -
  show lk: "keepsM db_rel (lk_request env req)" for req
    unfolding lk_request_def by (intro db_struct same_db.keeps_modifyM) (simp add: db_rel_def)
  show "keepsM db_rel (id_New env)" by (rule keepsMI) (simp add: id_New_def db_rel_def)
  show "keepsM db_rel (EnsureLiveKitRoomRequired env call)" "keepsM db_rel (deleteLiveKitRoomBestEffort env cid)"
    unfolding EnsureLiveKitRoomRequired_def EnsureLiveKitRoom_def deleteLiveKitRoomBestEffort_def DeleteLiveKitRoom_def
      bestEffort_def by (intro db_struct lk)+
qed

lemma start_write_clean:
  assumes "e_tx env"
  shows "fails_clean (start_write env call p us u) s"
proof -
  have del: "st_db (snd (deleteLiveKitRoomBestEffort env cid t)) = st_db t" for t cid
    using keepsMD [OF db_media(4), of t env cid] by (simp add: db_rel_def)
  have cl: "fails_clean (bindM (tryM (WithinTx env m)) (\<lambda>r. case r of Inr _ \<Rightarrow> returnM ()
      | Inl err \<Rightarrow> bindM (deleteLiveKitRoomBestEffort env cid) (\<lambda>_. throwM (h err)))) s" for m :: "unit call_handler" and h cid
  proof (cases "WithinTx env m s")
    case (Pair r s1)
    show ?thesis
    proof (cases r)
      case (Inl e)
      with Pair have "st_db s1 = st_db s" using WithinTx_atomic by blast
      with Pair Inl del [of cid s1] show ?thesis
        by (cases "deleteLiveKitRoomBestEffort env cid s1") (auto simp: fails_clean_def monad_simps db_rel_def split: sum.splits)
    next
      case (Inr x)
      with Pair show ?thesis by (simp add: fails_clean_def monad_simps)
    qed
  qed
  show ?thesis unfolding start_write_def Let_def using assms by (simp only: if_True cl)
qed

text \<open>
  C21: in a deployment with transactions a start that fails, at whatever step, leaves every table
  exactly as it was: no call without a host, no host without a call, no event.
\<close>

theorem StartCall_failure_leaves_no_trace:
  assumes "e_tx env" and "\<not> succeeds (StartCallWithAccess env ws u ct title ch st pw opts) s"
  shows "st_db (outcome (StartCallWithAccess env ws u ct title ch st pw opts) s) = st_db s"
proof -
  have "fails_clean (StartCallWithAccess env ws u ct title ch st pw opts) s"
    unfolding StartCallWithAccess_def Let_def
    by ((rule fails_clean_bind, intro db_struct db_media)+, rule fails_clean_last, rule start_write_clean [OF assms(1)])
      (simp add: bestEffort_def monad_simps split: prod.splits sum.splits)
  with assms(2) show ?thesis by (simp add: fails_clean_def succeeds_def outcome_def db_rel_def)
qed

theorem StartCall_failure_leaves_no_trace_witness:
  "st_db (outcome (StartCallWithAccess (demo_env True) 1 10 CallTypeGroup ''again'' None demo_settings ''''
       \<lparr>AO_AccessLevel = AccessLevelPublic, AO_InvitedMemberIDs = []\<rparr>) (demo_state (demo_call CallStatusActive) [])) =
   st_db (demo_state (demo_call CallStatusActive) [])"
proof -
  have h: "e_tx (demo_env True)"
    "\<not> succeeds (StartCallWithAccess (demo_env True) 1 10 CallTypeGroup ''again'' None demo_settings ''''
       \<lparr>AO_AccessLevel = AccessLevelPublic, AO_InvitedMemberIDs = []\<rparr>) (demo_state (demo_call CallStatusActive) [])" by code_simp+
  show ?thesis using StartCall_failure_leaves_no_trace [OF h] .
qed

subsection \<open>The settings of a new call\<close>

text \<open>What every read relies on: concrete values in every field with a default.\<close>

definition finalized :: "call_env \<Rightarrow> CallType \<Rightarrow> CallSettings \<Rightarrow> bool" where
  "finalized env ct f \<longleftrightarrow>
     EntryMode_Valid (CS_EntryMode f) \<and> CS_WaitingRoom f = (CS_EntryMode f = EntryModeManualAdmit) \<and>
     (CS_BreakoutCreation f = BreakoutCreationEveryone \<or> CS_BreakoutCreation f = BreakoutCreationHost) \<and>
     1 \<le> CS_MaxBreakoutRooms f \<and> CS_MaxBreakoutRooms f \<le> 8 \<and> WhoCanAddGuests_Valid (CS_WhoCanAddGuests f) \<and>
     CS_MembersCanUnmuteMic f \<noteq> None \<and> CS_MembersCanEnableCamera f \<noteq> None \<and>
     CS_Recording f = e_recordingEnabled env \<and> CS_Chat f \<and>
     (ct = CallTypeGroup \<or> ct = CallTypeMeeting \<longrightarrow> CS_BreakoutRooms f)"

lemma Finalize_fields:
  "EntryMode_Valid (CS_EntryMode (FinalizeNewCallSettings env ct st))"
  "CS_WaitingRoom (FinalizeNewCallSettings env ct st) = (CS_EntryMode (FinalizeNewCallSettings env ct st) = EntryModeManualAdmit)"
  "CS_Recording (FinalizeNewCallSettings env ct st) = e_recordingEnabled env" "CS_Chat (FinalizeNewCallSettings env ct st)"
  "ct = CallTypeGroup \<or> ct = CallTypeMeeting \<Longrightarrow> CS_BreakoutRooms (FinalizeNewCallSettings env ct st)"
  by (simp_all add: FinalizeNewCallSettings_def Let_def)

lemma Finalize_resolved_fields:
  "CS_BreakoutCreation (FinalizeNewCallSettings env ct st) = BreakoutCreationEveryone \<or>
   CS_BreakoutCreation (FinalizeNewCallSettings env ct st) = BreakoutCreationHost"
  "1 \<le> CS_MaxBreakoutRooms (FinalizeNewCallSettings env ct st)" "CS_MaxBreakoutRooms (FinalizeNewCallSettings env ct st) \<le> 8"
  "WhoCanAddGuests_Valid (CS_WhoCanAddGuests (FinalizeNewCallSettings env ct st))"
  by (simp_all add: FinalizeNewCallSettings_def Let_def ResolvedBreakoutCreation_def ResolvedMaxBreakoutRooms_def
      ResolvedWhoCanAddGuests_def WhoCanAddGuests_Valid_def)

lemma Finalize_publish_fields:
  "CS_MembersCanUnmuteMic (FinalizeNewCallSettings env ct st) \<noteq> None"
  "CS_MembersCanEnableCamera (FinalizeNewCallSettings env ct st) \<noteq> None"
  by (auto simp: FinalizeNewCallSettings_def Let_def)

lemma Finalize_finalized: "finalized env ct (FinalizeNewCallSettings env ct st)"
  unfolding finalized_def
  by (intro conjI impI) (rule Finalize_fields Finalize_resolved_fields Finalize_publish_fields; assumption?)+

lemma finalized_Resolved:
  assumes "finalized env ct f"
  shows "ResolvedEntryMode f = CS_EntryMode f" "ResolvedBreakoutCreation f = CS_BreakoutCreation f"
    "ResolvedMaxBreakoutRooms f = CS_MaxBreakoutRooms f" "ResolvedWhoCanAddGuests f = CS_WhoCanAddGuests f"
    "Some (ResolvedMembersCanUnmuteMic f) = CS_MembersCanUnmuteMic f"
    "Some (ResolvedMembersCanEnableCamera f) = CS_MembersCanEnableCamera f"
  using assms
  by (auto simp: finalized_def ResolvedEntryMode_def ResolvedBreakoutCreation_def ResolvedMaxBreakoutRooms_def
      ResolvedWhoCanAddGuests_def ResolvedMembersCanUnmuteMic_def ResolvedMembersCanEnableCamera_def)

text \<open>Updates with the value a field already has.\<close>

lemma settings_update_same:
  "f\<lparr>CS_EntryMode := CS_EntryMode f\<rparr> = f" "f\<lparr>CS_BreakoutCreation := CS_BreakoutCreation f\<rparr> = f"
  "f\<lparr>CS_MaxBreakoutRooms := CS_MaxBreakoutRooms f\<rparr> = f" "f\<lparr>CS_WhoCanAddGuests := CS_WhoCanAddGuests f\<rparr> = f"
  "f\<lparr>CS_MembersCanUnmuteMic := CS_MembersCanUnmuteMic f\<rparr> = f" "f\<lparr>CS_MembersCanEnableCamera := CS_MembersCanEnableCamera f\<rparr> = f"
  "f\<lparr>CS_WaitingRoom := CS_WaitingRoom f\<rparr> = f"
  "CS_BreakoutRooms f \<Longrightarrow> f\<lparr>CS_BreakoutRooms := True\<rparr> = f" "CS_Chat f \<Longrightarrow> f\<lparr>CS_Recording := CS_Recording f, CS_Chat := True\<rparr> = f"
  by simp_all

lemma finalized_load:
  assumes "finalized env ct f"
  shows "load_settings (CallSettings_MarshalJSON f) = f"
proof -
  note r = finalized_Resolved [OF assms]
  have "CallSettings_MarshalJSON f = f" by (simp only: CallSettings_MarshalJSON_def r settings_update_same)
  then show ?thesis by (simp only: load_settings_def Let_def r settings_update_same)
qed

lemma finalized_Finalize:
  assumes "finalized env ct f"
  shows "FinalizeNewCallSettings env ct f = f"
proof -
  note r = finalized_Resolved [OF assms]
  have h: "CS_Recording f = e_recordingEnabled env" "CS_Chat f" "CS_MembersCanUnmuteMic f \<noteq> None"
    "CS_MembersCanEnableCamera f \<noteq> None" "(CS_EntryMode f = EntryModeManualAdmit) = CS_WaitingRoom f"
    using assms by (simp_all add: finalized_def)
  have b: "(if ct = CallTypeGroup \<or> ct = CallTypeMeeting then f\<lparr>CS_BreakoutRooms := True\<rparr> else f) = f"
    using assms by (simp add: finalized_def settings_update_same)
  have c: "f\<lparr>CS_Recording := e_recordingEnabled env, CS_Chat := True\<rparr> = f"
    using settings_update_same(9) [OF h(2)] by (simp only: h(1))
  show ?thesis
    unfolding FinalizeNewCallSettings_def Let_def b c
    by (simp only: h(3-5) if_False r settings_update_same)
qed

text \<open>
  The settings a new call is created with survive the database: marshalled into the settings
  column and normalised on every later read, they come back exactly as \<open>FinalizeNewCallSettings\<close>
  returned them, and finalising them again changes nothing.
\<close>

theorem new_call_settings_roundtrip:
  "load_settings (CallSettings_MarshalJSON (FinalizeNewCallSettings env ct st)) = FinalizeNewCallSettings env ct st \<and>
   FinalizeNewCallSettings env ct (FinalizeNewCallSettings env ct st) = FinalizeNewCallSettings env ct st"
  using finalized_load [OF Finalize_finalized] finalized_Finalize [OF Finalize_finalized] by blast

end
