(* ===== verification/MediaTheorems.thy ===== *)
theory MediaTheorems
  imports StartTheorems
begin

text \<open>
  Roles and media rights: the exact effect of a host transfer and of a role change, that a join
  token grants what the live permission update grants, the screen-share limit, and who hears of
  a private call.
\<close>

subsection \<open>Roles\<close>

lemma publish_same_parts: "publishParticipantEvent env ty call p s = (r, s') \<Longrightarrow> part_of (st_db s') = part_of (st_db s)"
  using core_part_of [OF quiet_run [OF publishers_quiet(2)]] by blast

lemma Calls_TransferHost_True:
  "Calls_TransferHost env cid u v s = (Inr True, s') \<longleftrightarrow>
   fault_of env ''CallRepo.TransferHost'' [cid, u, v] = None \<and> u \<noteq> v \<and>
   (\<exists>p \<in> set (db_parts (st_db s)). CP_CallID p = cid \<and> CP_UserID p = u \<and> CP_Role p = CallRoleHost) \<and>
   (\<exists>q \<in> set (db_parts (st_db s)). CP_CallID q = cid \<and> CP_UserID q = v \<and> CP_Role q \<noteq> CallRoleHost \<and>
      CP_Status q = ParticipantStatusConnected) \<and>
   s' = s\<lparr>st_db := update_parts (\<lambda>p. CP_CallID p = cid \<and> CP_UserID p = v) (\<lambda>p. p\<lparr>CP_Role := CallRoleHost\<rparr>)
     (update_parts (\<lambda>p. CP_CallID p = cid \<and> CP_UserID p = u) (\<lambda>p. p\<lparr>CP_Role := CallRoleParticipant\<rparr>) (st_db s))\<rparr>"
  by (auto simp: Calls_TransferHost_def repo_exec_Inr part_matches_def Let_def split: if_splits)

text \<open>
  A successful \<open>TransferHost\<close> swaps exactly two roles: the actor, who was the host, becomes an
  ordinary participant, the target, who was connected and not the host, becomes the host. Nobody
  else's role and nobody's status changes.
\<close>

theorem TransferHost_swaps:
  assumes "keys_ok (st_db s)" and "succeeds (TransferHost env ws cid u v) s"
  shows "\<exists>st role. part_of (st_db s) (cid, u) = Some (CallRoleHost, st) \<and>
    part_of (st_db s) (cid, v) = Some (role, ParticipantStatusConnected) \<and> role \<noteq> CallRoleHost \<and>
    part_of (st_db (outcome (TransferHost env ws cid u v) s)) =
      (part_of (st_db s))((cid, u) \<mapsto> (CallRoleParticipant, st), (cid, v) \<mapsto> (CallRoleHost, ParticipantStatusConnected))"
proof -
  obtain x s' where run: "TransferHost env ws cid u v s = (Inr x, s')" and o: "outcome (TransferHost env ws cid u v) s = s'"
    using assms(2) by (rule succeeds_run)
  from run obtain s1 s2 call p q where t: "Calls_TransferHost env cid u v s = (Inr True, s1)"
    and e: "publishParticipantEvent env TypeCallParticipantUpdated call p s1 = (Inr (), s2)"
      "publishParticipantEvent env TypeCallParticipantUpdated call q s2 = (Inr x, s')"
    by (auto simp: TransferHost_def run_Inr)
  from t obtain p q where pq: "u \<noteq> v" "p \<in> set (db_parts (st_db s))" "CP_CallID p = cid" "CP_UserID p = u" "CP_Role p = CallRoleHost"
    "q \<in> set (db_parts (st_db s))" "CP_CallID q = cid" "CP_UserID q = v" "CP_Role q \<noteq> CallRoleHost"
    "CP_Status q = ParticipantStatusConnected"
    and s1: "s1 = s\<lparr>st_db := update_parts (\<lambda>p. CP_CallID p = cid \<and> CP_UserID p = v) (\<lambda>p. p\<lparr>CP_Role := CallRoleHost\<rparr>)
     (update_parts (\<lambda>p. CP_CallID p = cid \<and> CP_UserID p = u) (\<lambda>p. p\<lparr>CP_Role := CallRoleParticipant\<rparr>) (st_db s))\<rparr>"
    unfolding Calls_TransferHost_True by blast
  have "part_of (st_db s1) = (part_of (st_db s))((cid, u) \<mapsto> (CallRoleParticipant, CP_Status p), (cid, v) \<mapsto> (CallRoleHost, CP_Status q))"
    using part_of_transfer [OF assms(1) pq(2,6,3,7)] pq(1,4,8) s1 by simp
  moreover have "part_of (st_db s') = part_of (st_db s1)" using e [THEN publish_same_parts] by simp
  ultimately show ?thesis
    using part_of_row [OF assms(1) pq(2)] part_of_row [OF assms(1) pq(6)] pq o by auto
qed

theorem TransferHost_swaps_witness:
  "part_of (st_db (outcome (TransferHost (demo_env True) 1 100 10 11)
      (demo_state (demo_call CallStatusActive) [demo_part 102 11 CallRoleViewer ParticipantStatusConnected]))) (100, 11) =
    Some (CallRoleHost, ParticipantStatusConnected)"
proof -
  let ?s = "demo_state (demo_call CallStatusActive) [demo_part 102 11 CallRoleViewer ParticipantStatusConnected]"
  have h: "keys_ok (st_db ?s)" "succeeds (TransferHost (demo_env True) 1 100 10 11) ?s" by code_simp+
  show ?thesis using TransferHost_swaps [OF h] by auto
qed

lemma Calls_UpdateParticipantRole_Inr:
  "Calls_UpdateParticipantRole env pid role s = (Inr x, s') \<Longrightarrow>
   s' = s\<lparr>st_db := update_parts (\<lambda>p. CP_ID p = pid \<and> CP_Role p \<noteq> CallRoleHost) (\<lambda>p. p\<lparr>CP_Role := role\<rparr>) (st_db s)\<rparr> \<and>
   (\<exists>p \<in> set (db_parts (st_db s)). CP_ID p = pid \<and> CP_Role p \<noteq> CallRoleHost)"
  by (auto simp: Calls_UpdateParticipantRole_def repo_exec_Inr part_matches_def split: if_splits)

lemma UpdateParticipantMedia_part_of: "part_of (st_db (snd (UpdateParticipantMedia env pid a v sc s))) = part_of (st_db s)"
  by (auto simp: UpdateParticipantMedia_def repo_exec_snd keeps_keys_def split: option.splits intro!: part_of_same)

text \<open>
  A successful \<open>UpdateParticipantRole\<close> changes exactly one role, that of a target who is not
  the host, and never to host. The actor is the host or a co-host, and a co-host neither makes
  co-hosts nor changes the host.
\<close>

theorem UpdateParticipantRole_changes_one_role:
  assumes "keys_ok (st_db s)" and "succeeds (UpdateParticipantRole env ws cid u v role) s"
  shows "\<exists>actor old st. map_option fst (part_of (st_db s) (cid, u)) = Some actor \<and>
    (actor = CallRoleHost \<or> actor = CallRoleCoHost \<and> role \<noteq> CallRoleCoHost) \<and>
    part_of (st_db s) (cid, v) = Some (old, st) \<and> old \<noteq> CallRoleHost \<and> role \<noteq> CallRoleHost \<and>
    part_of (st_db (outcome (UpdateParticipantRole env ws cid u v role) s)) = (part_of (st_db s))((cid, v) \<mapsto> (role, st))"
proof -
  let ?P = "\<lambda>t p. CP_ID p = CP_ID t \<and> CP_Role p \<noteq> CallRoleHost" and ?f = "\<lambda>p. p\<lparr>CP_Role := role\<rparr>"
  obtain x s' where run: "UpdateParticipantRole env ws cid u v role s = (Inr x, s')"
    and o: "outcome (UpdateParticipantRole env ws cid u v role) s = s'" using assms(2) by (rule succeeds_run)
  from run obtain actor target call s1 s2 target2 where a: "GetParticipant env cid u s = Inr actor"
      "CP_Role actor = CallRoleHost \<or> CP_Role actor = CallRoleCoHost \<and> role \<noteq> CallRoleCoHost" "role \<noteq> CallRoleHost"
    and t: "GetParticipant env cid v s = Inr target"
    and w: "Calls_UpdateParticipantRole env (CP_ID target) role s = (Inr (), s1)"
    and m: "s2 = s1 \<or> UpdateParticipantMedia env (CP_ID target) True True False s1 = (Inr (), s2)"
    and e: "publishParticipantEvent env TypeCallParticipantUpdated call target2 s2 = (Inr x, s')"
    unfolding UpdateParticipantRole_def Let_def
    by (cases "role = CallRoleViewer"; auto simp: run_Inr participant_or_Inr; blast)
  have row: "target \<in> set (db_parts (st_db s))" "CP_CallID target = cid" "CP_UserID target = v"
    using GetParticipant_Inr [OF t] by auto
  from Calls_UpdateParticipantRole_Inr [OF w] obtain p where s1: "s1 = s\<lparr>st_db := update_parts (?P target) ?f (st_db s)\<rparr>"
    and p: "p \<in> set (db_parts (st_db s))" "?P target p" by blast
  have "p = target" using same_id_row [OF assms(1) p(1) row(1)] p(2) by simp
  then have r: "CP_Role target \<noteq> CallRoleHost" using p by simp
  have "part_of (update_parts (?P target) ?f (st_db s)) =
      (part_of (st_db s))((CP_CallID target, CP_UserID target) \<mapsto> (CP_Role (?f target), CP_Status (?f target)))"
    using assms(1) row(1) r by (intro find_upd_row) (auto simp: keeps_keys_def dest: same_id_row)
  moreover have "part_of (st_db s2) = part_of (st_db s1)"
    using m UpdateParticipantMedia_part_of [of env "CP_ID target" True True False s1] by auto
  ultimately have "part_of (st_db s') = (part_of (st_db s))((cid, v) \<mapsto> (role, CP_Status target))"
    using publish_same_parts [OF e] row s1 by simp
  with GetParticipant_part_of [OF a(1)] GetParticipant_part_of [OF t] a r o show ?thesis by auto
qed

theorem UpdateParticipantRole_changes_one_role_witness:
  "part_of (st_db (outcome (UpdateParticipantRole (demo_env True) 1 100 10 11 CallRoleCoHost)
      (demo_state (demo_call CallStatusActive) [demo_part 102 11 CallRoleParticipant ParticipantStatusConnected]))) (100, 11) =
    Some (CallRoleCoHost, ParticipantStatusConnected)"
proof -
  let ?s = "demo_state (demo_call CallStatusActive) [demo_part 102 11 CallRoleParticipant ParticipantStatusConnected]"
  have h: "keys_ok (st_db ?s)" "succeeds (UpdateParticipantRole (demo_env True) 1 100 10 11 CallRoleCoHost) ?s"
    "part_of (st_db ?s) (100, 11) = Some (CallRoleParticipant, ParticipantStatusConnected)" by code_simp+
  show ?thesis using UpdateParticipantRole_changes_one_role [OF h(1,2)] h(3) by auto
qed

subsection \<open>Join tokens\<close>

text \<open>The grant of a permission: what a token for \<open>room\<close> has to carry to give the same rights.\<close>

definition permission_grant :: "RoomName \<Rightarrow> ParticipantPermission \<Rightarrow> VideoGrant" where
  "permission_grant room perm =
     \<lparr>VG_Room = room, VG_RoomJoin = True, VG_CanPublish = PP_CanPublish perm, VG_CanSubscribe = PP_CanSubscribe perm,
      VG_CanPublishData = PP_CanPublishData perm,
      VG_CanPublishSources = (if PP_CanPublish perm then Some (PP_CanPublishSources perm) else None)\<rparr>"

lemma grant_permission:
  assumes "resolveMemberPublish role st g = (canMic, canCam, canShare, canPublish)"
  shows "livekit_grant room canMic canCam canShare = permission_grant room (permissionForParticipant role st g)"
  using assms
  by (auto simp: livekit_grant_def permission_grant_def permissionForParticipant_def publishSources_def
      resolveMemberPublish_def Let_def split: if_splits)

text \<open>
  C23: the two paths that decide what somebody may publish agree. A join token is issued exactly
  to a connected participant of a deployment with LiveKit, and carries the grant of the very
  permission that \<open>updateLiveKitParticipantPermission\<close> would push for the participant's role,
  the call's settings and the screen-share flag; it is valid for the configured time.
\<close>

theorem join_token_carries_the_permission:
  "(IssueLiveKitJoinInfo env call u name s = Inr info) \<longleftrightarrow>
   (\<exists>p. e_livekit env \<and> GetParticipant env (Call_ID call) u s = Inr p \<and> CP_Status p = ParticipantStatusConnected \<and>
      e_toJWT env (permission_grant (MainRoom (Call_ID call))
        (permissionForParticipant (CP_Role p) (Call_Settings call) (CP_CanScreenShare p))) u name = Some (LJ_AccessToken info) \<and>
      LJ_URL info = e_livekitURL env \<and> LJ_ExpiresAt info = now_of env + e_tokenTTL env \<and>
      LJ_TokenExpiresAt info = LJ_ExpiresAt info \<and>
      LJ_RefreshAfter info = LJ_ExpiresAt info - (if e_tokenTTL env \<ge> 0 then e_tokenTTL env div 2 else - (- e_tokenTTL env div 2)))"
proof -
  have mint: "mintLiveKitToken env room u name m c sh = Inr info \<longleftrightarrow>
      e_toJWT env (livekit_grant room m c sh) u name = Some (LJ_AccessToken info) \<and>
      LJ_URL info = e_livekitURL env \<and> LJ_ExpiresAt info = now_of env + e_tokenTTL env \<and>
      LJ_TokenExpiresAt info = LJ_ExpiresAt info \<and>
      LJ_RefreshAfter info = LJ_ExpiresAt info - (if e_tokenTTL env \<ge> 0 then e_tokenTTL env div 2 else - (- e_tokenTTL env div 2))"
    for room m c sh
    by (cases info) (auto simp: mintLiveKitToken_def Let_def split: option.splits)
  show ?thesis
    unfolding IssueLiveKitJoinInfo_def issue_join_info_def participant_or_def
    by (auto simp: mint grant_permission split: sum.splits if_splits prod.splits)
qed

subsection \<open>Screen sharing\<close>

definition sharers :: "uuid \<Rightarrow> call_db \<Rightarrow> nat" where
  "sharers cid db = count_where (\<lambda>p. CP_CallID p = cid \<and> CP_ScreenSharing p \<and> CP_Status p = ParticipantStatusConnected) (db_parts db)"

definition share_limit :: "call_env \<Rightarrow> int" where
  "share_limit env = (if MC_MaxScreenSharesPerCall (e_media env) \<le> 0 then 1 else MC_MaxScreenSharesPerCall (e_media env))"

lemma count_where_mono: "(\<And>x. x \<in> set xs \<Longrightarrow> Q x \<Longrightarrow> P x) \<Longrightarrow> count_where Q xs \<le> count_where P xs"
  by (induction xs) (auto simp: le_SucI)

text \<open>An update of one row raises a count by at most one, and only from the count of the other rows.\<close>

lemma count_where_one_row:
  assumes "distinct (map key xs)" and "\<And>x. key (f x) = key x"
  shows "count_where Q (upd_where (\<lambda>x. key x = k) f xs) \<le> Suc (count_where (\<lambda>x. key x \<noteq> k \<and> Q x) xs)"
  using assms(1)
proof (induction xs)
  case Nil
  then show ?case by simp
next
  case (Cons x xs)
  show ?case
  proof (cases "key x = k")
    case True
    with Cons.prems have "key y \<noteq> k" if "y \<in> set xs" for y using that by (auto simp: image_iff)
    then have "upd_where (\<lambda>x. key x = k) f xs = xs" "count_where Q xs \<le> count_where (\<lambda>x. key x \<noteq> k \<and> Q x) xs"
      by (auto intro: upd_where_noop count_where_mono)
    with True show ?thesis by simp
  next
    case False
    with Cons show ?thesis by simp
  qed
qed

lemma ListParticipants_count:
  "ListParticipants env cid s = Inr ps \<Longrightarrow>
   count_where Q ps = count_where (\<lambda>p. CP_CallID p = cid \<and> Q p) (db_parts (st_db s))"
  by (auto simp: ListParticipants_def repo_query_def db_op_def count_where_def filter_sort conj_commute split: option.splits)

lemma checkScreenShareCapacity_Inr:
  "checkScreenShareCapacity env cid pid s = Inr () \<Longrightarrow>
   int (count_where (\<lambda>p. CP_ID p \<noteq> pid \<and> CP_CallID p = cid \<and> CP_ScreenSharing p \<and> CP_Status p = ParticipantStatusConnected)
     (db_parts (st_db s))) < share_limit env"
  by (auto simp: checkScreenShareCapacity_def share_limit_def Let_def ListParticipants_count conj_left_commute
      split: sum.splits if_splits)

lemma guarded_readM_Inr: "(if b then readM f else returnM ()) s = (Inr y, s') \<longleftrightarrow> s' = s \<and> (b \<longrightarrow> f s = Inr ())"
  by (auto simp: readM_def returnM_def)

text \<open>A successful \<open>UpdateMedia\<close> writes one row, and checks the limit when it turns sharing on.\<close>

lemma UpdateMedia_Inr:
  assumes "UpdateMedia env ws cid u am vm sc s = (Inr x, s')"
  obtains p where "GetParticipant env cid u s = Inr p"
    "sc = Some True \<and> \<not> CP_ScreenSharing p \<Longrightarrow> checkScreenShareCapacity env cid (CP_ID p) s = Inr ()"
    "sc = Some True \<and> \<not> CP_ScreenSharing p \<Longrightarrow> canShareScreen p"
    "db_parts (st_db s') = upd_where (\<lambda>q. CP_ID q = CP_ID p)
      (\<lambda>q. q\<lparr>CP_AudioMuted := overlay am (CP_AudioMuted p), CP_VideoMuted := overlay vm (CP_VideoMuted p),
             CP_ScreenSharing := overlay sc (CP_ScreenSharing p)\<rparr>) (db_parts (st_db s))"
proof -
  have "\<exists>call p q s1 y. GetParticipant env cid u s = Inr p \<and>
    (sc = Some True \<and> \<not> CP_ScreenSharing p \<longrightarrow> checkScreenShareCapacity env cid (CP_ID p) s = Inr () \<and> canShareScreen p) \<and>
    UpdateParticipantMedia env (CP_ID p) (overlay am (CP_AudioMuted p)) (overlay vm (CP_VideoMuted p))
        (overlay sc (CP_ScreenSharing p)) s = (Inr y, s1) \<and>
    publishParticipantEvent env TypeCallParticipantUpdated call q s1 = (Inr x, s')"
    using assms
    unfolding UpdateMedia_def Let_def bindM_Inr guarded_readM_Inr failIf_Inr readM_run mapErrM_Inr participant_or_Inr
    apply (elim exE conjE)
    apply hypsubst_thin
    apply (intro exI conjI)
    apply assumption
    prefer 2 apply assumption
    prefer 2 apply assumption
    by blast
  then obtain call p q s1 y where g: "GetParticipant env cid u s = Inr p"
    and c: "sc = Some True \<and> \<not> CP_ScreenSharing p \<longrightarrow> checkScreenShareCapacity env cid (CP_ID p) s = Inr () \<and> canShareScreen p"
    and w: "UpdateParticipantMedia env (CP_ID p) (overlay am (CP_AudioMuted p)) (overlay vm (CP_VideoMuted p))
        (overlay sc (CP_ScreenSharing p)) s = (Inr y, s1)"
    and e: "publishParticipantEvent env TypeCallParticipantUpdated call q s1 = (Inr x, s')" by blast
  from w have "db_parts (st_db s1) = upd_where (\<lambda>q. CP_ID q = CP_ID p)
      (\<lambda>q. q\<lparr>CP_AudioMuted := overlay am (CP_AudioMuted p), CP_VideoMuted := overlay vm (CP_VideoMuted p),
             CP_ScreenSharing := overlay sc (CP_ScreenSharing p)\<rparr>) (db_parts (st_db s))"
    by (auto simp: UpdateParticipantMedia_def repo_exec_Inr update_parts_def split: if_splits)
  with g c core_parts [OF quiet_run [OF publishers_quiet(2) e]] show thesis by (intro that) auto
qed

text \<open>
  \<open>UpdateMedia\<close> never takes a call past the deployment's screen-share limit: the number of
  connected participants who share their screen grows to at most the limit, and only a host, a
  co-host or somebody with a screen-share grant starts sharing.
\<close>

theorem UpdateMedia_respects_share_limit:
  assumes "keys_ok (st_db s)" and "succeeds (UpdateMedia env ws cid u am vm sc) s"
  shows "int (sharers cid (st_db (outcome (UpdateMedia env ws cid u am vm sc) s))) \<le>
      max (int (sharers cid (st_db s))) (share_limit env) \<and>
    (\<exists>p \<in> set (db_parts (st_db s)). CP_CallID p = cid \<and> CP_UserID p = u \<and>
      (sc = Some True \<longrightarrow> CP_ScreenSharing p \<or> canShareScreen p))"
proof -
  obtain x s' where run: "UpdateMedia env ws cid u am vm sc s = (Inr x, s')"
    and o: "outcome (UpdateMedia env ws cid u am vm sc) s = s'" using assms(2) by (rule succeeds_run)
  let ?Q = "\<lambda>p. CP_CallID p = cid \<and> CP_ScreenSharing p \<and> CP_Status p = ParticipantStatusConnected"
  from run show ?thesis
  proof (rule UpdateMedia_Inr)
    fix p :: CallParticipant
    let ?f = "\<lambda>q. q\<lparr>CP_AudioMuted := overlay am (CP_AudioMuted p), CP_VideoMuted := overlay vm (CP_VideoMuted p),
             CP_ScreenSharing := overlay sc (CP_ScreenSharing p)\<rparr>"
    assume g: "GetParticipant env cid u s = Inr p"
      and cap: "sc = Some True \<and> \<not> CP_ScreenSharing p \<Longrightarrow> checkScreenShareCapacity env cid (CP_ID p) s = Inr ()"
      and may: "sc = Some True \<and> \<not> CP_ScreenSharing p \<Longrightarrow> canShareScreen p"
      and s': "db_parts (st_db s') = upd_where (\<lambda>q. CP_ID q = CP_ID p) ?f (db_parts (st_db s))"
    have p: "p \<in> set (db_parts (st_db s))" "CP_CallID p = cid" "CP_UserID p = u" using GetParticipant_Inr [OF g] by auto
    have "int (sharers cid (st_db s')) \<le> max (int (sharers cid (st_db s))) (share_limit env)"
    proof (cases "sc = Some True \<and> \<not> CP_ScreenSharing p")
      case True
      have "sharers cid (st_db s') \<le> Suc (count_where (\<lambda>q. CP_ID q \<noteq> CP_ID p \<and> ?Q q) (db_parts (st_db s)))"
        unfolding sharers_def s' using assms(1) by (intro count_where_one_row) (simp_all add: keys_ok_def)
      with checkScreenShareCapacity_Inr [OF cap [OF True]] show ?thesis by simp
    next
      case False
      have "count_where ?Q (upd_where (\<lambda>q. CP_ID q = CP_ID p) ?f (db_parts (st_db s))) \<le> count_where ?Q (db_parts (st_db s))"
        using False same_id_row [OF assms(1) _ p(1)]
        unfolding upd_where_def count_where_def filter_map length_map comp_def
        by (fold count_where_def) (rule count_where_mono, auto simp: overlay_def split: if_splits option.splits)
      then show ?thesis by (simp add: sharers_def s')
    qed
    with p may o show ?thesis by auto
  qed
qed

theorem UpdateMedia_respects_share_limit_witness:
  "sharers 100 (st_db (outcome (UpdateMedia (demo_env True) 1 100 10 None None (Some True))
      (demo_state (demo_call CallStatusActive) [demo_part 102 11 CallRoleParticipant ParticipantStatusConnected]))) \<le> 1"
proof -
  let ?s = "demo_state (demo_call CallStatusActive) [demo_part 102 11 CallRoleParticipant ParticipantStatusConnected]"
  have h: "keys_ok (st_db ?s)" "succeeds (UpdateMedia (demo_env True) 1 100 10 None None (Some True)) ?s"
    "sharers 100 (st_db ?s) = 0" "share_limit (demo_env True) = 1" by code_simp+
  show ?thesis using UpdateMedia_respects_share_limit [OF h(1,2)] h(3,4) by simp
qed

subsection \<open>The audience of a private call\<close>

definition call_audience :: "Call \<Rightarrow> call_db \<Rightarrow> uuid set" where
  "call_audience call db =
     ({Call_CreatedBy call} \<union>
      CP_UserID ` {p \<in> set (db_parts db). CP_CallID p = Call_ID call \<and> event_audience p} \<union>
      {u. \<exists>b. (Call_ID call, u, b) \<in> set (db_invited db)}) - {uuid_Nil}"

lemma fold_add_recipient:
  "distinct rs \<Longrightarrow> distinct (foldl add_recipient rs us) \<and>
   set (foldl add_recipient rs us) = set rs \<union> (set us - {uuid_Nil})"
proof (induction us arbitrary: rs)
  case Nil
  then show ?case by simp
next
  case (Cons u us)
  then have "distinct (add_recipient rs u)" "set (add_recipient rs u) = set rs \<union> ({u} - {uuid_Nil})"
    by (auto simp: add_recipient_def)
  with Cons.IH [of "add_recipient rs u"] show ?case by auto
qed

lemma privateCallEventRecipients_Inr:
  assumes "privateCallEventRecipients env call s = Inr rs"
  shows "distinct rs \<and> set rs = call_audience call (st_db s)"
proof -
  from assms obtain ps ms where ps: "ListParticipants env (Call_ID call) s = Inr ps"
    and ms: "ListInvitedMembers env (Call_ID call) s = Inr ms"
    and rs: "rs = foldl add_recipient (foldl add_recipient (add_recipient [] (Call_CreatedBy call))
        (map CP_UserID (filter event_audience ps))) ms"
    by (auto simp: privateCallEventRecipients_def split: sum.splits)
  have "set ms = {u. \<exists>b. (Call_ID call, u, b) \<in> set (db_invited (st_db s))}"
    using ms by (force simp: ListInvitedMembers_def repo_query_Inr)
  moreover have "foldl add_recipient [] [Call_CreatedBy call] = add_recipient [] (Call_CreatedBy call)" by simp
  ultimately show ?thesis
    unfolding rs using ListParticipants_Inr [OF ps] fold_add_recipient [of "[]" "[Call_CreatedBy call]"]
    by (auto simp: fold_add_recipient call_audience_def)
qed

lemma forM_doPublish:
  "forM us (\<lambda>v. doPublish env ty (subj v) ws ch u pl) s =
   (Inr (), s\<lparr>st_published := st_published s @ map (\<lambda>v. \<lparr>Ev_Type = ty, Ev_Subject = subj v, Ev_WorkspaceID = ws,
     Ev_ChannelID = ch, Ev_UserID = u, Ev_Payload = pl\<rparr>) us\<rparr>)"
  by (induction us arbitrary: s) (simp_all add: doPublish_def monad_simps)


definition demo_private_call :: Call where
  "demo_private_call = (demo_call CallStatusActive)\<lparr>Call_AccessLevel := AccessLevelPrivate\<rparr>"


end
