(* ===== verification/BridgeTheorems.thy ===== *)
theory BridgeTheorems
  imports MediaTheorems
begin

text \<open>
  The LiveKit webhook bridge: an event that was processed once is never processed again, and a
  participant who leaves the main room for a breakout room stays in the call.
\<close>

subsection \<open>Processing leaves the claim table alone\<close>

definition claims_rel :: "call_state \<Rightarrow> call_state \<Rightarrow> bool" where
  "claims_rel s s' \<longleftrightarrow> db_webhooks (st_db s') = db_webhooks (st_db s)"

interpretation claims: run_relation claims_rel
  by unfold_locales (simp_all add: claims_rel_def)

named_theorems claims_intros \<open>operations that leave the webhook claims alone\<close>

lemmas claims_struct =
  claims.keeps_bindM claims.keeps_mapErrM claims.keeps_tryM claims.keeps_returnM claims.keeps_throwM
  claims.keeps_readM claims.keeps_getM claims.keeps_failIf claims.keeps_forM claims.keeps_foldM
  claims.keeps_If claims.keeps_case_option claims.keeps_case_sum

lemma claims_exec:
  assumes "\<And>db. db_webhooks (snd (f db)) = db_webhooks db"
  shows "keepsM claims_rel (repo_exec env op args wrap f)"
  by (rule keepsMI) (simp add: claims_rel_def repo_exec_snd assms split: option.splits)

lemma claims_modifyM: "(\<And>s. st_db (f s) = st_db s) \<Longrightarrow> keepsM claims_rel (modifyM f)"
  by (rule claims.keeps_modifyM) (simp add: claims_rel_def)

lemma claims_statements [claims_intros]:
  "keepsM claims_rel (EndWithReasonIfNotEnded env cid reason)" "keepsM claims_rel (ActivateRinging env cid)"
  "keepsM claims_rel (DisconnectParticipantIfConnectedWithReason env pid lr)"
  "keepsM claims_rel (SetPinnedParticipantUserID env cid u)" "keepsM claims_rel (SetFeaturedShareUserID env cid u)"
  "keepsM claims_rel (UpdateParticipantMedia env pid a v sc)" "keepsM claims_rel (UnassignParticipant env cid w)"
  "keepsM claims_rel (Rooms_CloseAllByCall env cid)"
  unfolding EndWithReasonIfNotEnded_def endCallAndDisconnect_def ActivateRinging_def
    DisconnectParticipantIfConnectedWithReason_def SetPinnedParticipantUserID_def SetFeaturedShareUserID_def
    UpdateParticipantMedia_def UnassignParticipant_def Rooms_CloseAllByCall_def
  by (rule claims_exec; simp add: end_call_statement_def update_parts_def update_call_row_def close_rooms_def)+

lemma claims_leaves [claims_intros]:
  "keepsM claims_rel (doPublish env t sj w c u p)" "keepsM claims_rel (lk_request env req)"
  "keepsM claims_rel (SFU_CloseRoom name)" "keepsM claims_rel (cancelBreakoutLiveKitDelete name)"
  "keepsM claims_rel (egress_request env er)"
  unfolding doPublish_def lk_request_def SFU_CloseRoom_def cancelBreakoutLiveKitDelete_def egress_request_def
  by ((intro claims_struct claims_modifyM | simp)+)

lemma claims_publish [claims_intros]:
  "keepsM claims_rel (publishCallScoped env t call ch u p)"
  unfolding publishCallScoped_def publishPrivateCallScoped_def by (intro claims_struct claims_intros)

lemma claims_publishers [claims_intros]:
  "keepsM claims_rel (publishCallEvent env t call u)" "keepsM claims_rel (publishParticipantEvent env t call p)"
  "keepsM claims_rel (publishCallControlEvent env t call u pl)" "keepsM claims_rel (publishShareEvent env t call u pl)"
  unfolding publishCallEvent_def publishParticipantEvent_def publishCallControlEvent_def publishShareEvent_def
  by (intro claims_struct claims_intros | rule claims_intros)+

lemma claims_helpers [claims_intros]:
  "keepsM claims_rel (removeLiveKitParticipantBestEffort env cid u)" "keepsM claims_rel (cleanupEndedMediaRooms env cid)"
  "keepsM claims_rel (clearPinnedParticipantIfMatches env call t a)" "keepsM claims_rel (found_or m g)"
  "keepsM claims_rel (stopActiveEgressForCallBestEffort env cid)" "keepsM claims_rel (handleLiveKitEgressEvent env cid nm info)"
  unfolding removeLiveKitParticipantBestEffort_def RemoveLiveKitParticipant_def cleanupEndedMediaRooms_def
    closeAllBreakoutSFURooms_def deleteLiveKitRoomBestEffort_def DeleteLiveKitRoom_def bestEffort_def closeSFURoom_def
    clearPinnedParticipantIfMatches_def found_or_def stopActiveEgressForCallBestEffort_def handleLiveKitEgressEvent_def Let_def
  by (intro claims_struct claims_intros)+

lemma claims_process: "keepsM claims_rel (processLiveKitWebhook env ev cid)"
  unfolding processLiveKitWebhook_def handleLiveKitRoomFinished_def handleLiveKitParticipantJoined_def
    handleLiveKitParticipantLeft_def handleLiveKitTrackChanged_def bridge_ended_def bridge_disconnect_def
    autoEndAfterLiveKitParticipantLeft_def clear_featured_share_def
  by (intro claims_struct claims_intros)

subsection \<open>Processed once\<close>

definition claim_keys_ok :: "call_db \<Rightarrow> bool" where
  "claim_keys_ok db = distinct (map WE_EventID (db_webhooks db))"

definition processed :: "string \<Rightarrow> call_db \<Rightarrow> bool" where
  "processed eid db = (\<exists>w \<in> set (db_webhooks db). WE_EventID w = eid \<and> WE_Processed w)"

lemma claim_processed:
  assumes "claim_keys_ok (st_db s)" and "processed (WE_EventID row) (st_db s)"
  shows "\<exists>r. ClaimLiveKitWebhookEvent env row s = (r, s) \<and> (\<forall>c. r = Inr c \<longrightarrow> c = LiveKitWebhookClaimDuplicate)"
proof -
  obtain w where w: "w \<in> set (db_webhooks (st_db s))" "WE_EventID w = WE_EventID row" "WE_Processed w"
    using assms(2) by (auto simp: processed_def)
  have f: "find (\<lambda>w. WE_EventID w = WE_EventID row) (db_webhooks (st_db s)) = Some w"
    using assms(1) w by (intro find_distinct_SomeI) (simp_all add: claim_keys_ok_def)
  have e: "\<exists>w \<in> set (db_webhooks (st_db s)). WE_EventID w = WE_EventID row" using w by blast
  show ?thesis
    using e w(3)
    by (simp add: ClaimLiveKitWebhookEvent_def claim_insert_def reclaimLiveKitWebhookEvent_def claim_load_def
        repo_exec_def repo_query_def db_op_def f monad_simps split: option.splits prod.splits)
qed

lemma processed_is_ignored:
  assumes "claim_keys_ok (st_db s)" and "processed (WH_Id ev) (st_db s)" and "WH_Id ev \<noteq> ''''"
    and "webhook_room ev = Some (MainRoom cid)"
  shows "outcome (HandleLiveKitWebhook env (Some ev)) s = s\<lparr>st_ids := Suc (st_ids s)\<rparr>"
proof -
  let ?s = "s\<lparr>st_ids := Suc (st_ids s)\<rparr>"
  let ?row = "\<lparr>WE_EventID = WH_Id ev, WE_CallID = cid, WE_EventType = WH_Event ev, WE_Processed = False,
                    WE_ClaimToken = e_id env (st_ids s), WE_ReceivedAt = now_of env,
                    WE_LeaseExpiresAt = Some (now_of env + liveKitWebhookClaimLease), WE_ProcessedAt = None\<rparr>"
  obtain r where "ClaimLiveKitWebhookEvent env ?row ?s = (r, ?s)" "\<forall>c. r = Inr c \<longrightarrow> c = LiveKitWebhookClaimDuplicate"
    using claim_processed [of ?s ?row env] assms(1,2) by auto
  then show ?thesis
    using assms(3,4)
    by (cases r) (simp_all add: HandleLiveKitWebhook_def claimLiveKitWebhookEvent_def outcome_def id_New_def monad_simps)
qed

lemma claim_keys_upd:
  "(\<And>w. WE_EventID (f w) = WE_EventID w) \<Longrightarrow>
   claim_keys_ok (db\<lparr>db_webhooks := upd_where P f (db_webhooks db)\<rparr>) = claim_keys_ok db"
  by (simp add: claim_keys_ok_def map_upd_where)

lemma claim_insert_Inr:
  "claim_insert env row s = (Inr b, s') \<Longrightarrow> claim_keys_ok (st_db s) \<Longrightarrow> claim_keys_ok (st_db s')"
  by (auto simp: claim_insert_def repo_exec_Inr claim_keys_ok_def split: if_splits)

lemma reclaim_Inr:
  assumes "reclaimLiveKitWebhookEvent env row s = (Inr c, s')" and "claim_keys_ok (st_db s)"
  shows "claim_keys_ok (st_db s') \<and> (c = LiveKitWebhookClaimDuplicate \<longrightarrow> processed (WE_EventID row) (st_db s'))"
proof -
  from assms(1) obtain r where load: "claim_load env (WE_EventID row) s = Inr r"
    and k: "(case r of None \<Rightarrow> returnM LiveKitWebhookClaimInProgress
     | Some w \<Rightarrow>
         if WE_Processed w then returnM LiveKitWebhookClaimDuplicate
         else if \<not> lease_expired (now_of env) (WE_LeaseExpiresAt w) then returnM LiveKitWebhookClaimInProgress
         else bindM (reclaim_update env row) (\<lambda>taken.
              returnM (if taken then LiveKitWebhookClaimProcess else LiveKitWebhookClaimInProgress))) s = (Inr c, s')"
    by (auto simp: reclaimLiveKitWebhookEvent_def run_Inr)
  have u: "claim_keys_ok (st_db s')" if "reclaim_update env row s = (Inr t, s')" for t
    using that assms(2) by (auto simp: reclaim_update_def repo_exec_Inr Let_def claim_keys_upd)
  have p: "processed (WE_EventID row) (st_db s)" if "r = Some w" "WE_Processed w" for w
    using load that by (auto simp: claim_load_def repo_query_Inr processed_def dest: find_SomeD)
  show ?thesis
    using k assms(2) u p by (auto simp: run_Inr split: option.splits if_splits)
qed

lemma claim_Inr:
  assumes "ClaimLiveKitWebhookEvent env row s = (Inr c, s')" and "claim_keys_ok (st_db s)"
  shows "claim_keys_ok (st_db s') \<and> (c = LiveKitWebhookClaimDuplicate \<longrightarrow> processed (WE_EventID row) (st_db s'))"
  using assms(1) claim_insert_Inr [OF _ assms(2)] reclaim_Inr
  by (fastforce simp: ClaimLiveKitWebhookEvent_def run_Inr split: if_splits)

lemma mark_Inr:
  assumes "MarkLiveKitWebhookEventProcessed env eid tok s = (Inr True, s')" and "claim_keys_ok (st_db s)"
  shows "claim_keys_ok (st_db s') \<and> processed eid (st_db s')"
proof -
  let ?mine = "\<lambda>w. WE_EventID w = eid \<and> WE_ClaimToken w = tok \<and> \<not> WE_Processed w"
  let ?f = "\<lambda>w. w\<lparr>WE_Processed := True, WE_ProcessedAt := Some (now_of env), WE_LeaseExpiresAt := None\<rparr>"
  from assms(1) obtain w where w: "w \<in> set (db_webhooks (st_db s))" "?mine w"
    and s': "db_webhooks (st_db s') = upd_where ?mine ?f (db_webhooks (st_db s))"
    by (auto simp: MarkLiveKitWebhookEventProcessed_def repo_exec_Inr Let_def)
  then have "?f w \<in> set (db_webhooks (st_db s'))" by (force simp: set_upd_where)
  moreover have "claim_keys_ok (st_db s')" using assms(2) by (simp add: claim_keys_ok_def s' map_upd_where)
  ultimately show ?thesis using w(2) unfolding processed_def by (intro conjI bexI [of _ "?f w"]) simp_all
qed

lemma handled_is_processed:
  assumes "claim_keys_ok (st_db s)" and "WH_Id ev \<noteq> ''''" and "webhook_room ev = Some (MainRoom cid)"
    and "HandleLiveKitWebhook env (Some ev) s = (Inr (), s')"
  shows "claim_keys_ok (st_db s') \<and> processed (WH_Id ev) (st_db s')"
proof -
  let ?row = "\<lparr>WE_EventID = WH_Id ev, WE_CallID = cid, WE_EventType = WH_Event ev, WE_Processed = False,
                    WE_ClaimToken = e_id env (st_ids s), WE_ReceivedAt = now_of env,
                    WE_LeaseExpiresAt = Some (now_of env + liveKitWebhookClaimLease), WE_ProcessedAt = None\<rparr>"
  from assms(2-4) obtain c s1 where
    c: "ClaimLiveKitWebhookEvent env ?row (s\<lparr>st_ids := Suc (st_ids s)\<rparr>) = (Inr c, s1)"
    and k: "(if c = LiveKitWebhookClaimDuplicate then returnM ()
             else bindM (failIf (fst (c, e_id env (st_ids s)) = LiveKitWebhookClaimInProgress) (Conflict ''livekit webhook event is already processing'')) (\<lambda>_.
                    bindM (processLiveKitWebhook env ev cid) (\<lambda>_.
                    markLiveKitWebhookEventProcessed env (WH_Id ev) (snd (c, e_id env (st_ids s)))))) s1 = (Inr (), s')"
    by (auto simp: HandleLiveKitWebhook_def claimLiveKitWebhookEvent_def run_Inr)
  have 1: "claim_keys_ok (st_db s1)" "c = LiveKitWebhookClaimDuplicate \<longrightarrow> processed (WH_Id ev) (st_db s1)"
    using claim_Inr [OF c] assms(1) by auto
  show ?thesis
  proof (cases "c = LiveKitWebhookClaimDuplicate")
    case True
    with k 1 show ?thesis by (simp add: run_Inr)
  next
    case False
    with k assms(2) obtain s2 where p: "processLiveKitWebhook env ev cid s1 = (Inr (), s2)"
      and m: "MarkLiveKitWebhookEventProcessed env (WH_Id ev) (e_id env (st_ids s)) s2 = (Inr True, s')"
      by (auto simp: run_Inr markLiveKitWebhookEventProcessed_def)
    have "claim_keys_ok (st_db s2)"
      using keepsMD [OF claims_process, of s1 env ev cid] p 1(1) by (simp add: claims_rel_def claim_keys_ok_def)
    with mark_Inr [OF m] show ?thesis by simp
  qed
qed


definition demo_left_event :: WebhookEvent where
  "demo_left_event = \<lparr>WH_Event = ''participant_left'', WH_Id = ''EV_1'', WH_RoomName = Some (MainRoom 100),
     WH_Participant = Some (UserIdentity 11), WH_Track = None, WH_EgressInfo = None\<rparr>"


text \<open>
  Somebody who moved to a breakout room leaves the main LiveKit room, and the bridge is told so;
  the event leaves the call, its participants and everything that was published as it is.
\<close>

theorem moving_to_a_breakout_is_no_leave:
  assumes "keys_ok (st_db s)" and "p \<in> set (db_parts (st_db s))" and "CP_BreakoutRoomID p \<noteq> None"
  shows "outcome (handleLiveKitParticipantLeft env (CP_CallID p) (Some (UserIdentity (CP_UserID p)))) s = s"
proof -
  have g: "GetParticipant env (CP_CallID p) (CP_UserID p) s = Inr q \<Longrightarrow> q = p" for q
    using find_part [OF assms(1,2)] by (auto dest: GetParticipant_Inr)
  show ?thesis
    using assms(3) g
    by (auto simp: handleLiveKitParticipantLeft_def found_or_def outcome_def monad_simps parse_identity_def
        split: sum.splits option.splits)
qed

theorem moving_to_a_breakout_is_no_leave_witness:
  "let p = (demo_part 102 11 CallRoleParticipant ParticipantStatusConnected)\<lparr>CP_BreakoutRoomID := Some 7\<rparr>;
       s = demo_state (demo_call CallStatusActive) [p]
   in outcome (handleLiveKitParticipantLeft (demo_env True) 100 (Some (UserIdentity 11))) s = s"
proof -
  let ?p = "(demo_part 102 11 CallRoleParticipant ParticipantStatusConnected)\<lparr>CP_BreakoutRoomID := Some 7\<rparr>"
  let ?s = "demo_state (demo_call CallStatusActive) [?p]"
  have h: "keys_ok (st_db ?s)" "?p \<in> set (db_parts (st_db ?s))" "CP_BreakoutRoomID ?p \<noteq> None"
    "CP_CallID ?p = 100" "CP_UserID ?p = 11" by code_simp+
  show ?thesis using moving_to_a_breakout_is_no_leave [OF h(1-3), of "demo_env True"] h(4,5) by (simp add: Let_def)
qed

end
