(* ===== verification/RoomTheorems.thy ===== *)
theory RoomTheorems
  imports BridgeTheorems
begin

text \<open>
  Breakout rooms and settings: closing leaves no room open, the deadline of a timed room is
  never early and never wraps, and a stricter publish policy is stored only after it has been
  enforced.
\<close>

subsection \<open>Closing\<close>

lemma db_doPublish: "keepsM db_rel (doPublish env t sj w c u p)"
  unfolding doPublish_def by (rule same_db.keeps_modifyM) (simp add: db_rel_def)

lemma db_publishBreakoutEvent: "keepsM db_rel (publishBreakoutEvent env t call pl)"
  unfolding publishBreakoutEvent_def publishCallScoped_def publishPrivateCallScoped_def
  by (intro db_struct same_db.keeps_forM db_doPublish)

lemma active_rooms_close_all: "active_rooms (close_rooms now (\<lambda>r. BR_CallID r = cid) db) cid = 0"
  by (auto simp: active_rooms_def close_rooms_def count_where_0_iff dest!: upd_where_elem split: if_splits)

lemma closeAllBreakoutRoomsForCall_Inr:
  assumes "closeAllBreakoutRoomsForCall env call s = (Inr x, s')"
  shows "active_rooms (st_db s') (Call_ID call) = 0"
proof -
  from assms obtain rooms where r: "Rooms_ListByCall env (Call_ID call) s = Inr rooms"
    and k: "\<not> hasActiveBreakoutRoom rooms \<and> s' = s \<or>
      (\<exists>s1 s2 y. Rooms_CloseAllByCall env (Call_ID call) s1 = (Inr y, s2) \<and>
        publishBreakoutEvent env TypeBreakoutRoomsAllClosed call (BreakoutRoomsAllClosedPayload (Call_ID call)) s2 = (Inr x, s'))"
    by (auto simp: closeAllBreakoutRoomsForCall_def Let_def run_Inr split: if_splits)
  from k show ?thesis
  proof
    assume "\<not> hasActiveBreakoutRoom rooms \<and> s' = s"
    with r show ?thesis
      by (auto simp: Rooms_ListByCall_def repo_query_Inr hasActiveBreakoutRoom_def active_rooms_def count_where_0_iff)
  next
    assume "\<exists>s1 s2 y. Rooms_CloseAllByCall env (Call_ID call) s1 = (Inr y, s2) \<and>
        publishBreakoutEvent env TypeBreakoutRoomsAllClosed call (BreakoutRoomsAllClosedPayload (Call_ID call)) s2 = (Inr x, s')"
    then obtain s1 s2 y where c: "Rooms_CloseAllByCall env (Call_ID call) s1 = (Inr y, s2)"
      and p: "publishBreakoutEvent env TypeBreakoutRoomsAllClosed call (BreakoutRoomsAllClosedPayload (Call_ID call)) s2 = (Inr x, s')"
      by blast
    have "st_db s' = st_db s2" using keepsMD [OF db_publishBreakoutEvent, of s2] p by (metis db_rel_def snd_conv)
    moreover have "active_rooms (st_db s2) (Call_ID call) = 0"
      using c by (auto simp: Rooms_CloseAllByCall_def repo_exec_Inr active_rooms_close_all)
    ultimately show ?thesis by simp
  qed
qed

text \<open>
  \<open>CloseAllBreakoutRooms\<close> is for hosts and co-hosts, and when it succeeds the call has no active
  breakout room left.
\<close>

theorem CloseAllBreakoutRooms_closes_all:
  assumes "succeeds (CloseAllBreakoutRooms env cid u) s"
  shows "active_rooms (st_db (outcome (CloseAllBreakoutRooms env cid u) s)) cid = 0 \<and>
    (\<exists>p \<in> set (db_parts (st_db s)). CP_CallID p = cid \<and> CP_UserID p = u \<and> (CP_Role p = CallRoleHost \<or> CP_Role p = CallRoleCoHost))"
proof -
  obtain x s' where run: "CloseAllBreakoutRooms env cid u s = (Inr x, s')" and o: "outcome (CloseAllBreakoutRooms env cid u) s = s'"
    using assms by (rule succeeds_run)
  from run obtain call where c: "Calls_GetByID env cid s = Inr call" "requireHostOrCoHost env cid u s = Inr ()"
    "closeAllBreakoutRoomsForCall env call s = (Inr x, s')"
    by (auto simp: CloseAllBreakoutRooms_def run_Inr)
  have "Call_ID call = cid" using Calls_GetByID_Inr [OF c(1)] by auto
  with closeAllBreakoutRoomsForCall_Inr [OF c(3)] o c(2) show ?thesis
    by (auto simp: requireHostOrCoHost_Inr dest!: GetParticipant_Inr)
qed

theorem CloseAllBreakoutRooms_closes_all_witness:
  "let s = outcome (CreateBreakoutRooms (demo_env True) 100 10 [\<lparr>BI_Name = ''a'', BI_TimeLimit = None, BI_ParticipantUserIDs = []\<rparr>])
         (demo_state (demo_call CallStatusActive) [])
   in active_rooms (st_db s) 100 = 1 \<and> active_rooms (st_db (outcome (CloseAllBreakoutRooms (demo_env True) 100 10) s)) 100 = 0"
proof -
  let ?s = "outcome (CreateBreakoutRooms (demo_env True) 100 10 [\<lparr>BI_Name = ''a'', BI_TimeLimit = None, BI_ParticipantUserIDs = []\<rparr>])
         (demo_state (demo_call CallStatusActive) [])"
  have h: "succeeds (CloseAllBreakoutRooms (demo_env True) 100 10) ?s" "active_rooms (st_db ?s) 100 = 1" by code_simp+
  show ?thesis using CloseAllBreakoutRooms_closes_all [OF h(1)] h(2) by (simp add: Let_def)
qed

subsection \<open>Deadlines\<close>

lemma max_time_limit_foldl:
  fixes m :: int and inputs :: "CreateBreakoutRoomInput list"
  defines "M \<equiv> foldl (\<lambda>m input. case BI_TimeLimit input of Some t \<Rightarrow> if t > m then t else m | None \<Rightarrow> m) m inputs"
  shows "m \<le> M \<and> (M = m \<or> (\<exists>i \<in> set inputs. BI_TimeLimit i = Some M)) \<and> (\<forall>i \<in> set inputs. \<forall>t. BI_TimeLimit i = Some t \<longrightarrow> t \<le> M)"
  unfolding M_def
proof (induction inputs arbitrary: m)
  case Nil
  then show ?case by simp
next
  case (Cons i inputs)
  let ?m = "case BI_TimeLimit i of Some t \<Rightarrow> if t > m then t else m | None \<Rightarrow> m"
  have "m \<le> ?m" "?m = m \<or> BI_TimeLimit i = Some ?m" "\<forall>t. BI_TimeLimit i = Some t \<longrightarrow> t \<le> ?m"
    by (auto split: option.splits)
  with Cons.IH [of ?m] show ?case by (auto intro: order_trans)
qed

lemma max_time_limit_bounds:
  assumes "\<forall>i \<in> set inputs. time_limit_fits (BI_TimeLimit i)" and "i \<in> set inputs" and "BI_TimeLimit i = Some t" and "0 < t"
  shows "t \<le> max_time_limit inputs" "0 < max_time_limit inputs" "max_time_limit inputs < 2 ^ 31"
proof -
  note b = max_time_limit_foldl [of 0 inputs, folded max_time_limit_def]
  show 1: "t \<le> max_time_limit inputs" "0 < max_time_limit inputs" using b assms(2-4) by fastforce+
  then obtain j where "j \<in> set inputs" "BI_TimeLimit j = Some (max_time_limit inputs)" using b by auto
  with assms(1) show "max_time_limit inputs < 2 ^ 31" by (fastforce simp: time_limit_fits_def)
qed

lemma wrap64_id: "0 \<le> x \<Longrightarrow> x < 2 ^ 63 \<Longrightarrow> wrap64 x = x"
  by (simp add: wrap64_def)

lemma CreateBreakoutRooms_Inr:
  assumes "CreateBreakoutRooms env cid u inputs s = (Inr rooms, s')"
  obtains s1 s2 s3 cap where "make_rooms env cid u inputs s = (Inr rooms, s1)"
    "CreateRoomsWithinCap env cid cap rooms s2 = (Inr (), s3)"
  using assms by (auto simp: CreateBreakoutRooms_def Let_def run_Inr)

lemma make_rooms_nth:
  assumes "make_rooms env cid u inputs s = (Inr rooms, s')"
  shows "length rooms = length inputs"
    and "i < length inputs \<Longrightarrow> \<exists>rid. rooms ! i = make_room env cid u (rooms_close_at env inputs) (inputs ! i) rid"
proof -
  have "\<exists>new. rooms = [] @ new \<and> length new = length inputs \<and>
    (\<forall>i < length inputs. \<exists>rid. new ! i = make_room env cid u (rooms_close_at env inputs) (inputs ! i) rid)"
    by (rule make_rooms_result) (use assms in \<open>simp add: make_rooms_def\<close>)
  then show "length rooms = length inputs"
    and "i < length inputs \<Longrightarrow> \<exists>rid. rooms ! i = make_room env cid u (rooms_close_at env inputs) (inputs ! i) rid" by auto
qed

text \<open>
  The rooms of one request share a deadline. A room with a positive time limit gets one that is
  never before its own limit has passed and never further than the longest limit the column
  holds: the 64-bit duration does not wrap. A room without a limit has no deadline.
\<close>

theorem breakout_deadlines_do_not_wrap:
  assumes "CreateBreakoutRooms env cid u inputs s = (Inr rooms, s')" and "r \<in> set rooms"
  shows "(if \<exists>t. BR_TimeLimit r = Some t \<and> 0 < t
     then \<exists>x. BR_ClosesAt r = Some x \<and> x = now_of env + max_time_limit inputs * time_Second \<and>
       now_of env + the (BR_TimeLimit r) * time_Second \<le> x \<and> x < now_of env + 2 ^ 31 * time_Second
     else BR_ClosesAt r = None)"
  using assms(1)
proof (rule CreateBreakoutRooms_Inr)
  fix s1 s2 s3 cap
  assume m: "make_rooms env cid u inputs s = (Inr rooms, s1)" and c: "CreateRoomsWithinCap env cid cap rooms s2 = (Inr (), s3)"
  have fit: "\<forall>r \<in> set rooms. time_limit_fits (BR_TimeLimit r)"
    using c by (auto simp: CreateRoomsWithinCap_def repo_exec_Inr split: if_splits option.splits dest: insert_rooms_Some)
  have "\<exists>rid. rooms ! i = make_room env cid u (rooms_close_at env inputs) (inputs ! i) rid" if "i < length inputs" for i
    using make_rooms_nth(2) [OF m that] .
  then have lim: "BR_TimeLimit (rooms ! i) = BI_TimeLimit (inputs ! i)" if "i < length inputs" for i
    using that by (fastforce simp: make_room_def)
  have fits: "\<forall>i \<in> set inputs. time_limit_fits (BI_TimeLimit i)"
    using fit lim make_rooms_nth(1) [OF m] by (metis in_set_conv_nth)
  obtain i where i: "i < length inputs" "r = rooms ! i" using assms(2) make_rooms_nth(1) [OF m] by (auto simp: in_set_conv_nth)
  then obtain rid where r: "r = make_room env cid u (rooms_close_at env inputs) (inputs ! i) rid"
    using make_rooms_nth(2) [OF m i(1)] by auto
  show ?thesis
  proof (cases "\<exists>t. BR_TimeLimit r = Some t \<and> 0 < t")
    case True
    then obtain t where t: "BI_TimeLimit (inputs ! i) = Some t" "0 < t" using r by (auto simp: make_room_def)
    note b = max_time_limit_bounds [OF fits nth_mem [OF i(1)] t]
    have w: "wrap64 (max_time_limit inputs * time_Second) = max_time_limit inputs * time_Second"
      using b by (intro wrap64_id) (simp_all add: time_Second_def)
    have "BR_ClosesAt r = Some (now_of env + max_time_limit inputs * time_Second)" "BR_TimeLimit r = Some t"
      using t b(2) w by (simp_all add: r make_room_def rooms_close_at_def Let_def)
    with b t(2) show ?thesis by (auto simp: time_Second_def)
  next
    case False
    then show ?thesis unfolding r make_room_def by (auto split: option.splits)
  qed
qed

theorem breakout_deadlines_do_not_wrap_witness:
  "\<exists>rooms s'. CreateBreakoutRooms (demo_env True) 100 10 [\<lparr>BI_Name = ''a'', BI_TimeLimit = Some 2147483647, BI_ParticipantUserIDs = []\<rparr>]
      (demo_state (demo_call CallStatusActive) []) = (Inr rooms, s') \<and>
    BR_ClosesAt (hd rooms) = Some (1000000000000 + 2147483647 * time_Second)"
proof -
  let ?m = "CreateBreakoutRooms (demo_env True) 100 10 [\<lparr>BI_Name = ''a'', BI_TimeLimit = Some 2147483647, BI_ParticipantUserIDs = []\<rparr>]
      (demo_state (demo_call CallStatusActive) [])"
  have c: "(case fst ?m of Inl _ \<Rightarrow> False | Inr rs \<Rightarrow> rs \<noteq> [] \<and> BR_TimeLimit (hd rs) = Some 2147483647)" by code_simp
  obtain rooms s' where run: "?m = (Inr rooms, s')" and r: "rooms \<noteq> []" "BR_TimeLimit (hd rooms) = Some 2147483647"
    using c by (cases ?m; cases "fst ?m") auto
  have "max_time_limit [\<lparr>BI_Name = ''a'', BI_TimeLimit = Some 2147483647, BI_ParticipantUserIDs = []\<rparr>] = 2147483647"
    "now_of (demo_env True) = 1000000000000" by code_simp+
  with breakout_deadlines_do_not_wrap [OF run, of "hd rooms"] r run show ?thesis by simp
qed

subsection \<open>Enforcing a stricter policy\<close>

text \<open>Requests to LiveKit are never forgotten.\<close>

definition lk_rel :: "call_state \<Rightarrow> call_state \<Rightarrow> bool" where
  "lk_rel s s' \<longleftrightarrow> set (st_lk s) \<subseteq> set (st_lk s')"

interpretation lk_log: run_relation lk_rel
  by unfold_locales (auto simp: lk_rel_def)

lemmas lk_struct =
  lk_log.keeps_bindM lk_log.keeps_mapErrM lk_log.keeps_tryM lk_log.keeps_returnM lk_log.keeps_throwM
  lk_log.keeps_readM lk_log.keeps_getM lk_log.keeps_failIf lk_log.keeps_forM lk_log.keeps_foldM
  lk_log.keeps_If lk_log.keeps_case_option lk_log.keeps_case_sum

lemma lk_exec: "keepsM lk_rel (repo_exec env op args wrap f)"
  by (rule keepsMI) (simp add: lk_rel_def repo_exec_snd split: option.splits)

lemma lk_WithinTx:
  assumes "keepsM lk_rel m"
  shows "keepsM lk_rel (WithinTx env m)"
proof (rule keepsMI)
  fix s
  show "lk_rel s (snd (WithinTx env m s))"
    using keepsMD [OF assms, of s] by (auto simp: WithinTx_def lk_rel_def split: option.splits prod.splits sum.splits)
qed

lemma lk_lk_request: "keepsM lk_rel (lk_request env req)"
  unfolding lk_request_def by (intro lk_struct lk_log.keeps_modifyM) (auto simp: lk_rel_def)

lemma lk_case_prod: "(\<And>x y. keepsM lk_rel (k x y)) \<Longrightarrow> keepsM lk_rel (case z of (x, y) \<Rightarrow> k x y)"
  by (cases z) simp

lemma lk_enforce_one: "keepsM lk_rel (enforce_one env cid st lk p)"
  unfolding enforce_one_def updateLiveKitParticipantPermission_def
  by (intro lk_struct lk_case_prod lk_lk_request)

lemma lk_persist: "keepsM lk_rel (persistCallSettingsAndAccess env call st lv u)"
  unfolding persistCallSettingsAndAccess_def SnapshotConnectedIntoInvited_def UpdateAccessLevel_def UpdateSettings_def Let_def
  by (intro lk_struct lk_WithinTx lk_exec)

lemma lk_publish: "keepsM lk_rel (publishCallSettingsChanged env call)"
proof -
  have "keepsM lk_rel (doPublish env t sj w c u p)" for t sj w c u p
    unfolding doPublish_def by (rule lk_log.keeps_modifyM) (simp add: lk_rel_def)
  then show ?thesis
    unfolding publishCallSettingsChanged_def publishCallScoped_def publishPrivateCallScoped_def by (intro lk_struct)
qed

lemma lk_reconcile: "keepsM lk_rel (reconcileMemberPublishPolicy env cid st)"
  unfolding reconcileMemberPublishPolicy_def enforceMemberPublishPolicy_def bestEffort_def
  by (intro lk_struct lk_enforce_one)

lemma enforce_one_Inr:
  assumes "enforce_one env cid st lk p s = (Inr x, s')" and "isPolicyEnforceableMember p" and "e_livekitRooms env"
  shows "LK_UpdateParticipant cid (CP_UserID p) (permissionForParticipant (CP_Role p) st (CP_CanScreenShare p)) \<in> set (st_lk s')"
proof -
  obtain canMic canCam canShare canPublish where r: "resolveMemberPublish (CP_Role p) st (CP_CanScreenShare p) = (canMic, canCam, canShare, canPublish)"
    by (cases "resolveMemberPublish (CP_Role p) st (CP_CanScreenShare p)") auto
  let ?req = "LK_UpdateParticipant cid (CP_UserID p) (permissionForParticipant (CP_Role p) st (CP_CanScreenShare p))"
  from assms r obtain s1 where u: "lk_request env ?req s = (Inr (), s1)"
    and m: "forM (indexLiveKitTracks lk (UserIdentity (CP_UserID p))) (\<lambda>track.
              if LT_Muted track \<or> \<not> sourceDenied (LT_Source track) canMic canCam canShare then returnM ()
              else lk_request env (LK_MutePublishedTrack (MainRoom cid) (CP_UserID p) (LT_Sid track))) s1 = (Inr x, s')"
    by (auto simp: enforce_one_def updateLiveKitParticipantPermission_def run_Inr)
  have "?req \<in> set (st_lk s1)" using u by (auto simp: lk_request_def run_Inr split: option.splits)
  moreover have keep: "keepsM lk_rel (forM (indexLiveKitTracks lk (UserIdentity (CP_UserID p))) (\<lambda>track.
              if LT_Muted track \<or> \<not> sourceDenied (LT_Source track) canMic canCam canShare then returnM ()
              else lk_request env (LK_MutePublishedTrack (MainRoom cid) (CP_UserID p) (LT_Sid track))))"
    by (intro lk_struct lk_lk_request)
  have "set (st_lk s1) \<subseteq> set (st_lk s')" using keepsMD [OF keep, of s1] m by (simp add: lk_rel_def)
  ultimately show ?thesis by blast
qed

lemma enforce_all_Inr:
  assumes "forM ps (enforce_one env cid st lk) s = (Inr x, s')" and "p \<in> set ps" and "isPolicyEnforceableMember p" and "e_livekitRooms env"
  shows "LK_UpdateParticipant cid (CP_UserID p) (permissionForParticipant (CP_Role p) st (CP_CanScreenShare p)) \<in> set (st_lk s')"
  using assms(1,2)
proof (induction ps arbitrary: s)
  case Nil
  then show ?case by simp
next
  case (Cons q ps)
  then obtain s1 where q: "enforce_one env cid st lk q s = (Inr (), s1)" and rest: "forM ps (enforce_one env cid st lk) s1 = (Inr x, s')"
    by (auto simp: run_Inr)
  have "set (st_lk s1) \<subseteq> set (st_lk s')"
    using keepsMD [OF lk_log.keeps_forM [of "enforce_one env cid st lk" ps, OF lk_enforce_one], of s1] rest by (simp add: lk_rel_def)
  with enforce_one_Inr [OF _ assms(3,4)] q rest Cons show ?case by auto
qed

text \<open>Closing the breakout rooms leaves the rows of those in the main room alone.\<close>

definition stays_rel :: "CallParticipant \<Rightarrow> call_state \<Rightarrow> call_state \<Rightarrow> bool" where
  "stays_rel p s s' \<longleftrightarrow> (p \<in> set (db_parts (st_db s)) \<longrightarrow> p \<in> set (db_parts (st_db s')))"

interpretation stays: run_relation "stays_rel p" for p
  by unfold_locales (auto simp: stays_rel_def)

lemmas stays_struct =
  stays.keeps_bindM stays.keeps_mapErrM stays.keeps_tryM stays.keeps_returnM stays.keeps_throwM
  stays.keeps_readM stays.keeps_getM stays.keeps_failIf stays.keeps_forM stays.keeps_foldM
  stays.keeps_If stays.keeps_case_option stays.keeps_case_sum

lemma quiet_stays: "quiet m \<Longrightarrow> keepsM (stays_rel p) m"
  by (rule keepsMI) (simp add: stays_rel_def core_parts [OF quietD])

lemma UnassignAllByRoom_stays:
  assumes "CP_BreakoutRoomID p = None"
  shows "keepsM (stays_rel p) (UnassignAllByRoom env rid)"
  by (rule keepsMI)
    (use assms in \<open>force simp: UnassignAllByRoom_def repo_exec_snd stays_rel_def update_parts_def set_upd_where image_iff split: option.splits\<close>)

lemma patch_breakout_rooms_stays:
  assumes "CP_BreakoutRoomID p = None"
  shows "keepsM (stays_rel p) (patch_breakout_rooms env cid u patch st)"
  unfolding patch_breakout_rooms_def CloseAllBreakoutRooms_def closeAllBreakoutRoomsForCall_def bestEffort_def derefSFU_def Let_def
  by (intro stays_struct UnassignAllByRoom_stays [OF assms]; rule quiet_stays; rule quiet_intros)

lemma UpdateCallSettings_tightened:
  assumes "UpdateCallSettings env cid u patch s = (Inr call', s')" and "Calls_GetByID env cid s = Inr call"
    and "publishRestrictionTightened (Call_Settings call) (Call_Settings call')"
  obtains st0 s1 s2 where "patch_breakout_rooms env cid u patch st0 s = (Inr (Call_Settings call'), s1)"
    "enforceMemberPublishPolicy env cid (Call_Settings call') s1 = (Inr (), s2)" "set (st_lk s2) \<subseteq> set (st_lk s')"
proof -
  have ne: "\<not> patch_empty patch"
    using assms(1-3) by (auto simp: UpdateCallSettings_def run_Inr publishRestrictionTightened_def)
  from assms(1,2) ne obtain st lv st1 s1 where p: "patch_breakout_rooms env cid u patch st1 s = (Inr st, s1)"
    and k: "(let persist = mapErrM wrapCallError (persistCallSettingsAndAccess env call st lv u);
                 call1 = call\<lparr>Call_Settings := st, Call_AccessLevel := lv\<rparr>
             in if publishRestrictionTightened (Call_Settings call) st
                then bindM (enforceMemberPublishPolicy env cid st) (\<lambda>_.
                     bindM persist (\<lambda>_.
                     bindM (publishCallSettingsChanged env call1) (\<lambda>_.
                     bindM (reconcileMemberPublishPolicy env cid st) (\<lambda>_.
                     returnM call1))))
                else bindM persist (\<lambda>_.
                     bindM (if publishAffectingChanged (Call_Settings call) st
                            then reconcileMemberPublishPolicy env cid st else returnM ()) (\<lambda>_.
                     bindM (publishCallSettingsChanged env call1) (\<lambda>_.
                     returnM call1)))) s1 = (Inr call', s')"
    unfolding UpdateCallSettings_def Let_def by (auto simp: run_Inr)
  have st: "Call_Settings call' = st" using k by (auto simp: Let_def run_Inr split: if_splits)
  with k assms(3) obtain s2 where e: "enforceMemberPublishPolicy env cid st s1 = (Inr (), s2)"
    and r: "(bindM (mapErrM wrapCallError (persistCallSettingsAndAccess env call st lv u)) (\<lambda>_.
             bindM (publishCallSettingsChanged env (call\<lparr>Call_Settings := st, Call_AccessLevel := lv\<rparr>)) (\<lambda>_.
             bindM (reconcileMemberPublishPolicy env cid st) (\<lambda>_.
             returnM (call\<lparr>Call_Settings := st, Call_AccessLevel := lv\<rparr>))))) s2 = (Inr call', s')"
    by (auto simp: Let_def bindM_Inr [of "enforceMemberPublishPolicy env cid st"])
  have keep: "keepsM lk_rel (bindM (mapErrM wrapCallError (persistCallSettingsAndAccess env call st lv u)) (\<lambda>_.
             bindM (publishCallSettingsChanged env (call\<lparr>Call_Settings := st, Call_AccessLevel := lv\<rparr>)) (\<lambda>_.
             bindM (reconcileMemberPublishPolicy env cid st) (\<lambda>_.
             returnM (call\<lparr>Call_Settings := st, Call_AccessLevel := lv\<rparr>)))))"
    by (intro lk_struct lk_persist lk_publish lk_reconcile)
  have "set (st_lk s2) \<subseteq> set (st_lk s')" using keepsMD [OF keep, of s2] r by (simp add: lk_rel_def)
  with p e st show thesis by (intro that) simp_all
qed


definition demo_patch :: CallSettingsPatch where
  "demo_patch = \<lparr>P_EntryMode = None, P_MuteOnJoin = None, P_BreakoutRooms = None, P_BreakoutCreation = None,
     P_MaxBreakoutRooms = None, P_AccessLevel = None, P_ScreenSharing = None, P_Chat = None,
     P_MembersCanUnmuteMic = Some False, P_MembersCanEnableCamera = None, P_WhoCanAddGuests = None\<rparr>"


end
