(* ===== verification/ChatTheorems.thy ===== *)
theory ChatTheorems
  imports RoomTheorems
begin

text \<open>
  The in-call chat and the call history: who may post and who may delete, what a deleted message
  leaves behind, and that paging through the history is bounded, sound and comes to an end.
\<close>

subsection \<open>Messages\<close>

text \<open>Handlers that only write events leave the message table alone.\<close>

definition msgs_rel :: "call_state \<Rightarrow> call_state \<Rightarrow> bool" where
  "msgs_rel s s' \<longleftrightarrow> db_callmsgs (st_db s') = db_callmsgs (st_db s)"

interpretation msgs: run_relation msgs_rel
  by unfold_locales (simp_all add: msgs_rel_def)

lemmas msgs_struct =
  msgs.keeps_bindM msgs.keeps_mapErrM msgs.keeps_tryM msgs.keeps_returnM msgs.keeps_throwM
  msgs.keeps_readM msgs.keeps_getM msgs.keeps_failIf msgs.keeps_forM msgs.keeps_foldM
  msgs.keeps_If msgs.keeps_case_option msgs.keeps_case_sum

lemma msgs_events:
  "keepsM msgs_rel (publishCallMessageEvent env t call m)" "keepsM msgs_rel (enqueueCallMessageEventTx env t call m)"
proof -
  have p: "keepsM msgs_rel (doPublish env t sj w c u pl)" for t sj w c u pl
    unfolding doPublish_def by (rule msgs.keeps_modifyM) (simp add: msgs_rel_def)
  have e: "keepsM msgs_rel (enqueueDurableEventTx env t sj w c u pl)" for t sj w c u pl
    by (rule keepsMI) (simp add: enqueueDurableEventTx_def EnqueueRealtime_def msgs_rel_def repo_exec_snd returnM_apply split: option.splits)
  show "keepsM msgs_rel (publishCallMessageEvent env t call m)" "keepsM msgs_rel (enqueueCallMessageEventTx env t call m)"
    unfolding publishCallMessageEvent_def publishCallScoped_def publishPrivateCallScoped_def enqueueCallMessageEventTx_def
      enqueueCallScopedEventTx_def
    by (intro msgs_struct p e)+
qed

lemma msgs_run: "keepsM msgs_rel m \<Longrightarrow> m s = (r, s') \<Longrightarrow> db_callmsgs (st_db s') = db_callmsgs (st_db s)"
  by (metis keepsMD msgs_rel_def snd_conv)

text \<open>
  A message gets into a call's chat only from a connected participant of a call that has not
  ended, with the chat switched on or as host or co-host, and with a body that is valid UTF-8,
  not blank and at most 2000 characters long after trimming. Then exactly that one message is
  appended.
\<close>

theorem SendCallMessage_appends_one:
  assumes "SendCallMessage env ws cid u body s = (Inr m, s')"
  shows "db_callmsgs (st_db s') = db_callmsgs (st_db s) @ [m] \<and>
    CM_CallID m = cid \<and> CM_SenderID m = u \<and> CM_Body m = body \<and> CM_DeletedAt m = None \<and>
    utf8_ValidString body \<and> TrimSpace body \<noteq> '''' \<and> utf8_RuneCountInString (TrimSpace body) \<le> callMessageMaxBody \<and>
    (\<exists>call p. requireCallAccess env ws cid u s = Inr call \<and> Call_Status call \<noteq> CallStatusEnded \<and>
      GetParticipant env cid u s = Inr p \<and> CP_Status p = ParticipantStatusConnected \<and>
      (CS_Chat (Call_Settings call) \<or> CP_Role p = CallRoleHost \<or> CP_Role p = CallRoleCoHost))"
proof -
  let ?m = "\<lparr>CM_ID = e_id env (st_ids s), CM_CallID = cid, CM_SenderID = u, CM_Body = body, CM_CreatedAt = now_of env, CM_DeletedAt = None\<rparr>"
  let ?s = "s\<lparr>st_ids := Suc (st_ids s)\<rparr>"
  from assms obtain call p s1 where v: "validateCallMessageBody body = Inr ()" and a: "requireCallAccess env ws cid u s = Inr call"
      "Call_Status call \<noteq> CallStatusEnded" "GetParticipant env cid u s = Inr p" "CP_Status p = ParticipantStatusConnected"
      "CS_Chat (Call_Settings call) \<or> CP_Role p = CallRoleHost \<or> CP_Role p = CallRoleCoHost"
    and m: "m = ?m"
    and w: "(if e_tx env then WithinTx env (bindM (CallMessages_Create env ?m) (\<lambda>_. enqueueCallMessageEventTx env TypeCallMessageCreated call ?m))
             else CallMessages_Create env ?m) ?s = (Inr (), s1)"
    and e: "(if e_tx env then returnM () else publishCallMessageEvent env TypeCallMessageCreated call ?m) s1 = (Inr (), s')"
    unfolding SendCallMessage_def Let_def by (auto simp: run_Inr participant_or_Inr)
  have create: "db_callmsgs (st_db t') = db_callmsgs (st_db t) @ [?m]" if "CallMessages_Create env ?m t = (Inr x, t')" for t t' x
    using that by (auto simp: CallMessages_Create_def repo_exec_Inr split: if_splits)
  have "db_callmsgs (st_db s1) = db_callmsgs (st_db s) @ [?m]"
    using w create by (auto simp: WithinTx_Inr run_Inr split: if_splits dest!: msgs_run [OF msgs_events(2)])
  moreover have "db_callmsgs (st_db s') = db_callmsgs (st_db s1)"
    using e msgs_run [OF msgs_events(1)] by (auto simp: run_Inr split: if_splits)
  ultimately show ?thesis
    using v a m by (auto simp: validateCallMessageBody_def Let_def split: if_splits)
qed

theorem SendCallMessage_appends_one_witness:
  "\<exists>m s'. SendCallMessage (demo_env True) 1 100 11 ''hi''
      (demo_state (demo_call CallStatusActive) [demo_part 102 11 CallRoleParticipant ParticipantStatusConnected]) = (Inr m, s') \<and>
    db_callmsgs (st_db s') = [m] \<and> CM_SenderID m = 11"
proof -
  let ?s = "demo_state (demo_call CallStatusActive) [demo_part 102 11 CallRoleParticipant ParticipantStatusConnected]"
  let ?m = "SendCallMessage (demo_env True) 1 100 11 ''hi'' ?s"
  have c: "succeeds (SendCallMessage (demo_env True) 1 100 11 ''hi'') ?s" "db_callmsgs (st_db ?s) = []" by code_simp+
  from c(1) obtain m s' where run: "?m = (Inr m, s')" by (rule succeeds_run)
  show ?thesis using SendCallMessage_appends_one [OF run] run c(2) by auto
qed

lemma ListCallMessages_live:
  "ListCallMessages env ws cid u params s = Inr ms \<Longrightarrow> m \<in> set ms \<Longrightarrow>
   m \<in> set (db_callmsgs (st_db s)) \<and> CM_CallID m = cid \<and> CM_DeletedAt m = None"
  by (auto simp: ListCallMessages_def CallMessages_ListByCall_def Let_def repo_query_Inr split: sum.splits if_splits
      dest!: in_set_takeD)

text \<open>
  A message is deleted only by its sender or by a host or co-host of its call. Exactly that
  message is marked, with the time of the deletion, and no later listing of the call's messages
  shows it, to anybody.
\<close>

theorem DeleteCallMessage_hides_one:
  assumes "succeeds (DeleteCallMessage env ws cid u mid) s"
  shows "(\<exists>m \<in> set (db_callmsgs (st_db s)). CM_ID m = mid \<and> CM_CallID m = cid \<and>
      (CM_SenderID m = u \<or> requireHostOrCoHost env cid u s = Inr ())) \<and>
    db_callmsgs (st_db (outcome (DeleteCallMessage env ws cid u mid) s)) =
      upd_where (\<lambda>m. CM_ID m = mid \<and> CM_CallID m = cid \<and> CM_DeletedAt m = None)
        (\<lambda>m. m\<lparr>CM_DeletedAt := Some (now_of env)\<rparr>) (db_callmsgs (st_db s)) \<and>
    (case ListCallMessages env' ws' cid v params (outcome (DeleteCallMessage env ws cid u mid) s) of
       Inl _ \<Rightarrow> True | Inr ms \<Rightarrow> mid \<notin> CM_ID ` set ms)"
proof -
  let ?upd = "upd_where (\<lambda>m. CM_ID m = mid \<and> CM_CallID m = cid \<and> CM_DeletedAt m = None) (\<lambda>m. m\<lparr>CM_DeletedAt := Some (now_of env)\<rparr>)"
  obtain x s' where run: "DeleteCallMessage env ws cid u mid s = (Inr x, s')"
    and o: "outcome (DeleteCallMessage env ws cid u mid) s = s'" using assms by (rule succeeds_run)
  from run obtain call m s1 where g: "CallMessages_GetByID env mid s = Inr m" "CM_CallID m = cid"
      "CM_SenderID m \<noteq> u \<longrightarrow> requireHostOrCoHost env cid u s = Inr ()"
    and w: "(if e_tx env then WithinTx env (bindM (CallMessages_SoftDelete env mid cid) (\<lambda>_. enqueueCallMessageEventTx env TypeCallMessageDeleted call m))
             else CallMessages_SoftDelete env mid cid) s = (Inr (), s1)"
    and e: "(if e_tx env then returnM () else publishCallMessageEvent env TypeCallMessageDeleted call m) s1 = (Inr x, s')"
    unfolding DeleteCallMessage_def by (auto simp: run_Inr guarded_readM_Inr)
  have del: "db_callmsgs (st_db t') = ?upd (db_callmsgs (st_db t))" if "CallMessages_SoftDelete env mid cid t = (Inr y, t')" for t t' y
    using that by (auto simp: CallMessages_SoftDelete_def repo_exec_Inr)
  have "db_callmsgs (st_db s1) = ?upd (db_callmsgs (st_db s))"
    using w del by (auto simp: WithinTx_Inr run_Inr split: if_splits dest!: msgs_run [OF msgs_events(2)])
  moreover have "db_callmsgs (st_db s') = db_callmsgs (st_db s1)"
    using e msgs_run [OF msgs_events(1)] by (auto simp: run_Inr split: if_splits)
  ultimately have t: "db_callmsgs (st_db s') = ?upd (db_callmsgs (st_db s))" by simp
  have ne: "CM_ID q \<noteq> mid" if "ListCallMessages env' ws' cid v params s' = Inr ms" "q \<in> set ms" for ms q
    using ListCallMessages_live [OF that] by (auto simp: t dest!: upd_where_elem split: if_splits)
  have hidden: "mid \<notin> CM_ID ` set ms" if "ListCallMessages env' ws' cid v params s' = Inr ms" for ms
    using ne [OF that] by blast
  have row: "m \<in> set (db_callmsgs (st_db s))" "CM_ID m = mid"
    using g(1) by (auto simp: CallMessages_GetByID_def dest!: find_SomeD split: option.splits)
  have "case ListCallMessages env' ws' cid v params s' of Inl _ \<Rightarrow> True | Inr ms \<Rightarrow> mid \<notin> CM_ID ` set ms"
    using hidden by (simp split: sum.splits)
  then show ?thesis unfolding o using row g t by blast
qed

definition demo_message :: CallMessage where
  "demo_message = \<lparr>CM_ID = 200, CM_CallID = 100, CM_SenderID = 11, CM_Body = ''hi'', CM_CreatedAt = 0, CM_DeletedAt = None\<rparr>"

theorem DeleteCallMessage_hides_one_witness:
  "let s = demo_state (demo_call CallStatusActive) [];
       s1 = s\<lparr>st_db := (st_db s)\<lparr>db_callmsgs := [demo_message]\<rparr>\<rparr>
   in map CM_DeletedAt (db_callmsgs (st_db (outcome (DeleteCallMessage (demo_env True) 1 100 10 200) s1))) = [Some 1000000000000]"
proof -
  let ?s = "(demo_state (demo_call CallStatusActive) [])\<lparr>st_db := (st_db (demo_state (demo_call CallStatusActive) []))\<lparr>db_callmsgs := [demo_message]\<rparr>\<rparr>"
  have c: "succeeds (DeleteCallMessage (demo_env True) 1 100 10 200) ?s" "db_callmsgs (st_db ?s) = [demo_message]"
    "now_of (demo_env True) = 1000000000000" by code_simp+
  show ?thesis using DeleteCallMessage_hides_one [OF c(1)] c(2,3) by (simp add: Let_def demo_message_def)
qed

subsection \<open>The call history\<close>

text \<open>A call on a page of the history: a stored call of the workspace, before the cursor, that the reader may see.\<close>

definition history_entry :: "call_env \<Rightarrow> uuid \<Rightarrow> uuid \<Rightarrow> gotime option \<Rightarrow> call_state \<Rightarrow> Call \<Rightarrow> bool" where
  "history_entry env ws u before s call \<longleftrightarrow>
     call \<in> load_call_projection ` set (calls_before ws before s) \<and> listable env u s call = Inr True"

lemma calls_before_mono:
  assumes "t \<le> the before \<or> before = None"
  shows "set (calls_before ws (Some t) s) \<subseteq> set (calls_before ws before s)"
  using assms by (auto simp: calls_before_def split: option.splits)

lemma recent_page_Inr:
  assumes "recent_page env u s n acc calls = Inr res" and "length acc \<le> n"
  shows "\<exists>new. res = acc @ new \<and> (\<forall>c \<in> set new. c \<in> set calls \<and> listable env u s c = Inr True) \<and> length res \<le> Suc n"
  using assms
proof (induction env u s n acc calls rule: recent_page.induct)
  case (1 env u s n acc)
  then show ?case by simp
next
  case (2 env u s n acc call calls)
  then obtain ok where ok: "listable env u s call = Inr ok" by (auto split: sum.splits)
  show ?case
  proof (cases "ok \<and> \<not> length (acc @ [call]) > n")
    case True
    with "2.IH"(2) [OF ok] "2.prems" ok obtain new where
      "res = (acc @ [call]) @ new" "\<forall>c \<in> set new. c \<in> set calls \<and> listable env u s c = Inr True" "length res \<le> Suc n"
      by fastforce
    with True ok show ?thesis by (intro exI [of _ "call # new"]) auto
  next
    case False
    with "2.IH"(1) [OF ok] "2.prems" ok show ?thesis by (cases ok) (fastforce+)
  qed
qed

lemma ListRecent_set:
  "ListRecentByWorkspace env ws limit before s = Inr calls \<Longrightarrow> set calls \<subseteq> load_call_projection ` set (calls_before ws before s)"
  by (auto dest!: ListRecent_Inr in_set_takeD)

lemma recent_loop_Inr:
  assumes "recent_loop env ws u s limit before acc hm = Inr (res, hm')" and "0 < limit"
    and "\<forall>c \<in> set acc. history_entry env ws u before0 s c" and "length acc \<le> nat limit"
    and "set (calls_before ws before s) \<subseteq> set (calls_before ws before0 s)"
  shows "(\<forall>c \<in> set res. history_entry env ws u before0 s c) \<and> length res \<le> Suc (nat limit)"
  using assms
proof (induction env ws u s limit before acc hm arbitrary: rule: recent_loop.induct)
  case (1 env ws u s limit before acc hm)
  note h = "1.prems"
  have short: "\<not> int (length acc) > limit" using h(2,4) by linarith
  have ih: "recent_loop env ws u s limit (Some (Call_CreatedAt (last calls))) f1 (hm \<or> int (length calls) > limit) = Inr (res, hm') \<Longrightarrow>
      \<forall>c \<in> set f1. history_entry env ws u before0 s c \<Longrightarrow> length f1 \<le> nat limit \<Longrightarrow>
      (\<forall>c \<in> set res. history_entry env ws u before0 s c) \<and> length res \<le> Suc (nat limit)"
    if l: "ListRecentByWorkspace env ws limit before s = Inr calls" "calls \<noteq> []"
      "recent_page env u s (nat limit) acc calls = Inr f1" "\<not> (int (length f1) > limit \<or> int (length calls) \<le> limit)" for calls f1
  proof -
    obtain c where c: "c \<in> set (calls_before ws before s)" "Call_CreatedAt c = Call_CreatedAt (last calls)"
      using ListRecent_last [OF l(1,2)] by blast
    have "set (calls_before ws (Some (Call_CreatedAt (last calls))) s) \<subseteq> set (calls_before ws before s)"
      by (rule calls_before_mono) (use c in \<open>auto simp: calls_before_def split: option.splits\<close>)
    with h(5) have sub: "set (calls_before ws (Some (Call_CreatedAt (last calls))) s) \<subseteq> set (calls_before ws before0 s)" by blast
    show "recent_loop env ws u s limit (Some (Call_CreatedAt (last calls))) f1 (hm \<or> int (length calls) > limit) = Inr (res, hm') \<Longrightarrow>
      \<forall>c \<in> set f1. history_entry env ws u before0 s c \<Longrightarrow> length f1 \<le> nat limit \<Longrightarrow> ?thesis"
      using "1.IH" [OF short l(1,2) refl l(3,4) _ h(2) _ _ sub] by blast
  qed
  have page: "(\<forall>c \<in> set f1. history_entry env ws u before0 s c) \<and> length f1 \<le> Suc (nat limit)"
    if l: "ListRecentByWorkspace env ws limit before s = Inr calls" "recent_page env u s (nat limit) acc calls = Inr f1" for calls f1
    using recent_page_Inr [OF l(2) h(4)] ListRecent_set [OF l(1)] h(3,5) unfolding history_entry_def by fastforce
  show ?case
    using h(1) ih page h(3,4)
    by (subst (asm) recent_loop.simps) (fastforce simp: Let_def split: if_splits sum.splits)
qed

definition cursor_time :: "Cursor \<Rightarrow> gotime option" where
  "cursor_time cursor = (case cursor of CursorAt t \<Rightarrow> Some t | _ \<Rightarrow> None)"

text \<open>How a page is cut from what the loop collected.\<close>

definition recent_result :: "int \<Rightarrow> Call list \<Rightarrow> bool \<Rightarrow> go_error + RecentCallsResult" where
  "recent_result limit filtered hasMore =
     (if int (length filtered) > limit
      then Inr \<lparr>RC_Calls = take (nat limit) filtered, RC_NextCursor = Some (Call_CreatedAt (filtered ! (nat limit - 1)))\<rparr>
      else if int (length filtered) = limit \<and> hasMore
      then Inr \<lparr>RC_Calls = filtered, RC_NextCursor = Some (Call_CreatedAt (filtered ! (nat limit - 1)))\<rparr>
      else Inr \<lparr>RC_Calls = filtered, RC_NextCursor = None\<rparr>)"

lemma recent_result_Inr:
  "recent_result limit res hm = Inr r \<Longrightarrow>
   RC_Calls r = take (nat limit) res \<and> (RC_NextCursor r = None \<or>
     nat limit \<le> length res \<and> RC_NextCursor r = Some (Call_CreatedAt (res ! (nat limit - 1))))"
  by (auto simp: recent_result_def split: if_splits)

text \<open>
  C27: a page of the call history has at most the requested number of calls, and never more than a
  hundred; each is a stored call of the workspace from before the cursor, and the calls that are
  private are ones the reader may see. The loop that fills the page ends although calls are
  filtered out, and so does following the cursors: each leaves strictly fewer calls to read.
\<close>

theorem ListRecentCalls_pages:
  assumes "ListRecentCalls env ws u limit0 cursor s = Inr r"
  shows "length (RC_Calls r) \<le> (if limit0 \<le> 0 then 20 else nat (min limit0 100)) \<and>
    (\<forall>c \<in> set (RC_Calls r). history_entry env ws u (cursor_time cursor) s c) \<and>
    (\<forall>t. RC_NextCursor r = Some t \<longrightarrow>
      length (calls_before ws (Some t) s) < length (calls_before ws (cursor_time cursor) s))"
proof -
  define limit where "limit = (if (if limit0 \<le> 0 then 20 else limit0) > 100 then 100 else (if limit0 \<le> 0 then 20 else limit0))"
  have l: "0 < limit" "nat limit = (if limit0 \<le> 0 then 20 else nat (min limit0 100))" by (auto simp: limit_def)
  have m: "requireWorkspaceMember env ws u = Inr ()" and c: "cursor \<noteq> BadCursor"
    using assms by (auto simp: ListRecentCalls_def Let_def split: sum.splits)
  have run: "(case recent_loop env ws u s limit (cursor_time cursor) [] False of
         Inl err \<Rightarrow> Inl err
       | Inr (filtered, hasMore) \<Rightarrow> recent_result limit filtered hasMore) = Inr r"
    using assms c unfolding ListRecentCalls_def m sum.case Let_def limit_def [symmetric] recent_result_def
    by (cases cursor) (simp_all only: Cursor.simps cursor_time_def simp_thms)
  then obtain res hm where loop: "recent_loop env ws u s limit (cursor_time cursor) [] False = Inr (res, hm)"
    and "recent_result limit res hm = Inr r"
    by (cases "recent_loop env ws u s limit (cursor_time cursor) [] False") auto
  note r = recent_result_Inr [OF this(2)]
  have res: "\<forall>c \<in> set res. history_entry env ws u (cursor_time cursor) s c"
    using recent_loop_Inr [OF loop l(1), of "cursor_time cursor"] by simp
  have "length (calls_before ws (Some t) s) < length (calls_before ws (cursor_time cursor) s)" if "RC_NextCursor r = Some t" for t
  proof -
    have "res ! (nat limit - 1) \<in> set res" "t = Call_CreatedAt (res ! (nat limit - 1))"
      using r that l(1) by auto
    with res obtain c where "c \<in> set (calls_before ws (cursor_time cursor) s)" "Call_CreatedAt c = t"
      by (auto simp: history_entry_def)
    then show ?thesis by (rule calls_before_shrinks)
  qed
  with r res l(2) show ?thesis by (auto dest: in_set_takeD)
qed

theorem ListRecentCalls_pages_witness:
  "\<exists>r. ListRecentCalls (demo_env True) 1 11 1 NoCursor (demo_state (demo_call CallStatusActive) []) = Inr r \<and>
    length (RC_Calls r) \<le> 1"
proof -
  let ?m = "ListRecentCalls (demo_env True) 1 11 1 NoCursor (demo_state (demo_call CallStatusActive) [])"
  have "\<not> isl ?m"
    by (simp add: ListRecentCalls_def recent_loop.simps ListRecentByWorkspace_def repo_query_def db_op_def
        requireWorkspaceMember_def Let_def demo_env_def demo_dir_def demo_state_def demo_call_def initial_state_def empty_db_def
        GetMember_def demo_member_def listable_def isPrivateChannelLessCall_def load_call_projection_def load_call_def
        AccessLevel_Resolved_def split: sum.splits)
  then obtain r where r: "?m = Inr r" by (cases ?m) auto
  show ?thesis using ListRecentCalls_pages [OF r] r by simp
qed

end
