(* ===== verification/AccessTheorems.thy ===== *)
theory AccessTheorems
  imports ChatTheorems
begin

text \<open>
  Access control from the outside: who reaches a private call, how far a guest of a call gets,
  what permission a member has, and what the channel list leaves out.
\<close>

subsection \<open>Calls\<close>

text \<open>
  C22: nobody reaches a private call without a channel but its creator, a holder of an unexpired
  guest grant for this very call, its hosts, co-hosts and connected participants, and the
  workspace members on its invitation list.
\<close>

theorem private_calls_are_closed:
  assumes "requireCallAccess env ws cid u s = Inr call" and "isPrivateChannelLessCall call"
  shows "private_call_member env (st_db s) call u \<and> Call_ID call = cid \<and> Call_WorkspaceID call = ws"
  using requireCallAccess_private [OF assms] getCallForWorkspace_Inr [OF requireCallAccess_call [OF assms(1)]]
  by (auto dest: Calls_GetByID_Inr)

theorem private_calls_are_closed_witness:
  "private_call_member (demo_env True) (st_db (demo_state demo_private_call [])) (load_call demo_private_call) 20"
proof -
  let ?s = "demo_state demo_private_call []"
  have "\<not> isl (requireCallAccess (demo_env True) 1 100 20 ?s)" by code_simp
  then obtain call where acc: "requireCallAccess (demo_env True) 1 100 20 ?s = Inr call"
    by (cases "requireCallAccess (demo_env True) 1 100 20 ?s") auto
  have k: "keys_ok (st_db ?s)" "demo_private_call \<in> set (db_calls (st_db ?s))" "Call_ID demo_private_call = 100" by code_simp+
  have c: "call = load_call demo_private_call" by (rule accessed_call(1) [OF k acc])
  have "isPrivateChannelLessCall (load_call demo_private_call)" by code_simp
  with private_calls_are_closed [OF acc] c show ?thesis by simp
qed

text \<open>
  A guest whose grants are all for calls stays in the calls: who is not a member of the
  workspace but only such a guest is refused the workspace, and no channel of it is ever opened
  to them as a guest.
\<close>

theorem call_guests_stay_in_their_calls:
  assumes "pc_guests c = Some (HasWorkspaceAccess hasGrants d, HasChannelAccess hasGrants d)" and "only_call_guest d ws u"
  shows "(isl (workspaceMember c d ws u) \<longrightarrow> isl (WorkspaceAccess c d ws u)) \<and>
    (\<forall>dec. Checker_Channel c d pw cid u cap = Inr dec \<longrightarrow> Ch_WorkspaceID (CD_Channel dec) = Some ws \<longrightarrow> CD_Subject dec \<noteq> SubjectGuest)"
proof -
  have "isl (WorkspaceAccess c d ws u)" if "workspaceMember c d ws u = Inl e" for e
    using guests.WorkspaceAccess_refused [OF assms that] by auto
  then show ?thesis
    using guests.Channel_not_as_guest [OF assms(1) _ _ assms(2)] by (auto simp: isl_def)
qed

theorem call_guests_stay_in_their_calls_witness:
  "isl (WorkspaceAccess \<lparr>pc_present = True, pc_workspaces = True,
     pc_guests = Some (HasWorkspaceAccess True demo_dir, HasChannelAccess True demo_dir), pc_collab = None\<rparr> demo_dir 1 20)"
proof -
  let ?c = "\<lparr>pc_present = True, pc_workspaces = True,
     pc_guests = Some (HasWorkspaceAccess True demo_dir, HasChannelAccess True demo_dir), pc_collab = None\<rparr>"
  have g: "only_call_guest demo_dir 1 20" by (auto simp: only_call_guest_def active_grants_def demo_dir_def)
  have m: "isl (workspaceMember ?c demo_dir 1 20)"
    by (simp add: workspaceMember_def GetMember_def db_op_def demo_dir_def demo_member_def)
  show ?thesis using call_guests_stay_in_their_calls [of ?c True demo_dir, OF _ g] m by simp
qed

text \<open>
  \<open>EvaluateCallAccess\<close>, which walks the grants once and stops early, answers what the two
  separate checks \<open>IsGuest\<close> and \<open>HasCallAccess\<close> answer, errors included.
\<close>

theorem EvaluateCallAccess_is_both_checks:
  "EvaluateCallAccess hasGrants d ws cid u =
     (case IsGuest hasGrants d ws u of
        Inl e \<Rightarrow> Inl e
      | Inr g \<Rightarrow> (case HasCallAccess hasGrants d ws cid u of Inl e \<Rightarrow> Inl e | Inr h \<Rightarrow> Inr (g, h)))"
  by (rule EvaluateCallAccess_pair)

subsection \<open>Permissions\<close>

text \<open>
  What \<open>Require\<close> lets through. A member has a permission when their workspace role has it by
  default, or when one of the custom roles assigned to them extends exactly that workspace role
  and parses to a definition with the permission; custom roles never take a default away, and a
  higher workspace role has every default permission of a lower one.
\<close>

theorem Require_grants_role_permissions:
  assumes "GetMember d ws u = Inr m" and "Require hasRoles d ws u p = Inr ()"
  shows "(Has (WM_Role m) p \<or>
      (hasRoles \<and> (\<exists>defs. ListAssignedDefinitions d ws u = Inr defs \<and>
        (\<exists>dn \<in> set defs. WRD_BaseRole dn = WM_Role m \<and>
          (\<exists>ov. RoleDefinitionFromEntity dn = Inr ov \<and> RoleDefinition_Has ov p))))) \<and>
    (role_rank (WM_Role m) \<le> role_rank higher \<longrightarrow> Has (WM_Role m) p \<longrightarrow> Has higher p)"
proof -
  from assms(2) obtain role where "Resolve hasRoles d ws u = Inr role" "RoleDefinition_Has role p"
    by (auto simp: Require_iff HasPermission_def split: sum.splits)
  with Resolve_Has [OF _ assms(1)] Has_mono show ?thesis by blast
qed

theorem Require_grants_role_permissions_witness: "Has WorkspaceRoleMember PermissionMessageSend"
proof -
  have m: "GetMember demo_dir 1 10 = Inr (demo_member 10)"
    by (simp add: GetMember_def db_op_def demo_dir_def demo_member_def)
  have r: "Require False demo_dir 1 10 PermissionMessageSend = Inr ()"
    by code_simp
  show ?thesis using Require_grants_role_permissions [OF m r] by (simp add: demo_member_def)
qed

text \<open>
  Permission strings round-trip. A permission parses back from its string; a list of strings
  that normalises is sorted and free of duplicates, holds exactly the trimmed inputs, each of
  which is a known permission, and normalises to itself.
\<close>

theorem permission_strings_roundtrip:
  assumes "NormalizePermissionStrings raw = Inr ns"
  shows "ParsePermission (Permission_str p) = Some p \<and> sorted ns \<and> distinct ns \<and> set ns = TrimSpace ` set raw \<and>
    (\<forall>r \<in> set raw. \<exists>q. ParsePermission r = Some q) \<and> NormalizePermissionStrings ns = Inr ns"
  using NormalizePermissionStrings_Inr [OF assms] NormalizePermissionStrings_idem [OF assms] by simp

theorem permission_strings_roundtrip_witness:
  "NormalizePermissionStrings [''channel.create'', ''message.send''] = Inr [''channel.create'', ''message.send'']"
proof -
  have e: "NormalizePermissionStrings ['' message.send'', ''channel.create'', ''message.send''] = Inr [''channel.create'', ''message.send'']"
    by code_simp
  show ?thesis using permission_strings_roundtrip [OF e] by blast
qed

subsection \<open>The channel list\<close>

text \<open>
  The channel list of a workspace never has more than a hundred entries and never reaches past
  the first hundred channels: the loop that was to read page after page stops after the first
  one, because a page is already cut to the limit it is compared with.
\<close>

theorem ListChannels_reads_one_page:
  assumes "cap \<noteq> CapabilityParticipate" and "ListChannels c d pw ws u cap = Inr res"
  shows "\<exists>page. ListByWorkspace d ws \<lparr>P_Cursor = 0, P_Limit = MaxLimit\<rparr> = Inr page \<and> length page \<le> 100 \<and>
    length res \<le> 100 \<and> (\<forall>ch \<in> set res. \<exists>q \<in> set page. \<exists>dec. Checker_Channel c d pw (Ch_ID q) u cap = Inr dec \<and> CD_Channel dec = ch)"
  using assms
proof (rule ListChannels_view)
  fix page
  let ?f = "\<lambda>ch. case Checker_Channel c d pw (Ch_ID ch) u cap of Inr dec \<Rightarrow> Some (CD_Channel dec) | Inl _ \<Rightarrow> None"
  assume p: "ListByWorkspace d ws \<lparr>P_Cursor = 0, P_Limit = MaxLimit\<rparr> = Inr page" and r: "res = dedupeChannels (List.map_filter ?f page)"
  have l: "length page \<le> 100" using ListByWorkspace_length [OF p] by (simp add: Normalize_def MaxLimit_def)
  moreover have "length res \<le> 100"
    using l map_filter_length [of ?f page] dedup_seen_length [of Ch_ID "[]" "List.map_filter ?f page"]
    unfolding r dedupeChannels_def by linarith
  moreover have "\<exists>q \<in> set page. \<exists>dec. Checker_Channel c d pw (Ch_ID q) u cap = Inr dec \<and> CD_Channel dec = ch" if "ch \<in> set res" for ch
  proof -
    have "ch \<in> set (List.map_filter ?f page)" using that dedupeChannels_props(2) r by blast
    then obtain q where q: "q \<in> set page" "?f q = Some ch" by (auto simp: List.map_filter_def)
    then obtain dec where "Checker_Channel c d pw (Ch_ID q) u cap = Inr dec" "CD_Channel dec = ch"
      by (cases "Checker_Channel c d pw (Ch_ID q) u cap") auto
    with q(1) show ?thesis by blast
  qed
  ultimately show ?thesis using p by blast
qed

definition demo_checker :: Checker where
  "demo_checker = \<lparr>pc_present = True, pc_workspaces = True, pc_guests = None, pc_collab = None\<rparr>"

theorem ListChannels_reads_one_page_witness:
  "\<exists>res. ListChannels demo_checker demo_dir 1 1 10 CapabilityView = Inr res \<and> length res \<le> 100"
proof -
  have "\<not> isl (ListChannels demo_checker demo_dir 1 1 10 CapabilityView)" by code_simp
  then obtain res where r: "ListChannels demo_checker demo_dir 1 1 10 CapabilityView = Inr res"
    by (cases "ListChannels demo_checker demo_dir 1 1 10 CapabilityView") auto
  from ListChannels_reads_one_page [OF _ r] r show ?thesis by auto
qed

end
