(* ===== verification/ChatStore.thy ===== *)
theory ChatStore
  imports CallState
begin

text \<open>
  The world of the chat service (\<open>internal/service/chat\<close>): its collaborators as an environment, its
  tables and what it published as a state, and one definition per statement of
  \<open>repository/postgres/channel.go\<close>, \<open>message.go\<close>, \<open>channel_access_grant.go\<close>,
  \<open>channel_access_state.go\<close>, of \<open>file.go\<close> as far as messages use it, and of the queue in \<open>search.go\<close>.

  The directory of access control is read here from the tables chat itself writes, so an access
  check sees the channels, members and grants of the current state.
\<close>

subsection \<open>Search documents\<close>

datatype ResourceType = ResourceTypeMessage | ResourceTypeFile | ResourceTypeChannel | ResourceTypeUser

text \<open>\<open>search.Document\<close>; the metadata, which the queue only stores, is left out.\<close>

record Document =
  SD_WorkspaceID :: uuid
  SD_ResourceID :: uuid
  SD_ChannelID :: "uuid option"
  SD_Type :: ResourceType
  SD_Title :: string
  SD_Content :: string
  SD_CreatedAt :: gotime
  SD_UpdatedAt :: gotime

text \<open>
  A row of \<open>search_index_jobs\<close>. Each enqueue makes the job pending again with no attempts, so the
  columns of the worker are left out.
\<close>

record search_job =
  SJ_WorkspaceID :: uuid
  SJ_Type :: ResourceType
  SJ_ResourceID :: uuid
  SJ_Delete :: bool
  SJ_ChannelID :: "uuid option"
  SJ_Title :: string
  SJ_Content :: string
  SJ_CreatedAt :: gotime
  SJ_UpdatedAt :: gotime

subsection \<open>Tables\<close>

record ChannelAccessState =
  CAS_ChannelID :: uuid
  CAS_UserID :: uuid
  CAS_LastReadAt :: gotime
  CAS_CreatedAt :: gotime
  CAS_UpdatedAt :: gotime

record LibraryFile =
  LF_ID :: uuid
  LF_UserID :: uuid
  LF_WorkspaceID :: uuid
  LF_Filename :: string
  LF_Extension :: string
  LF_MimeType :: string
  LF_Size :: int
  LF_DeletedAt :: "gotime option"

datatype FileShareTargetType = FileShareTargetChannel | FileShareTargetUser

record FileShare =
  FS_FileID :: uuid
  FS_Type :: FileShareTargetType
  FS_TargetID :: uuid
  FS_WorkspaceID :: uuid

record chat_db =
  cb_channels :: "Channel list"
  cb_members :: "ChannelMember list"
  cb_grants :: "ChannelAccessGrant list"
  cb_states :: "ChannelAccessState list"
  cb_messages :: "Message list"
  cb_reactions :: "Reaction list"
  cb_attachments :: "Attachment list"
  cb_files :: "LibraryFile list"
  cb_shares :: "FileShare list"
  cb_outbox :: "outbox_row list"
  cb_jobs :: "search_job list"

record chat_state =
  cs_db :: chat_db
  cs_published :: "Event list"
  cs_ids :: nat

text \<open>
  The environment. Each boolean says whether the collaborator is set (\<open>s.tx != nil\<close> and so on); a
  transaction manager has every repository, as \<open>cmd/server/main.go\<close> configures it, except perhaps the
  realtime outbox, the search queue and the file library. \<open>ce_presence\<close> is the presence service, \<open>ce_jsonValid\<close> the verdict of
  \<open>json.Unmarshal\<close> on a raw text, and \<open>ce_handleMatch u c\<close> the verdict of PostgreSQL on the two handle
  patterns of user \<open>u\<close> in the text \<open>c\<close>. \<open>ce_pathWorkspace\<close> is the workspace of the request path.
\<close>

record chat_env =
  ce_dir :: directory
  ce_users :: "User list"
  ce_tx :: bool
  ce_access :: bool
  ce_guests :: bool
  ce_collab :: bool
  ce_contacts :: bool
  ce_channelGrants :: bool
  ce_readStates :: bool
  ce_files :: bool
  ce_search :: bool
  ce_realtime :: bool
  ce_presence :: "(uuid \<Rightarrow> go_error + uuid list) option"
  ce_pathWorkspace :: uuid
  ce_id :: "nat \<Rightarrow> uuid"
  ce_jsonValid :: "string \<Rightarrow> bool"
  ce_handleMatch :: "User \<Rightarrow> string \<Rightarrow> bool"

type_synonym 'a chat_handler = "(chat_state, go_error, 'a) handler"

abbreviation (input) cnow :: "chat_env \<Rightarrow> gotime" where
  "cnow env \<equiv> d_now (ce_dir env)"

abbreviation (input) cfault :: "chat_env \<Rightarrow> fault_oracle" where
  "cfault env \<equiv> d_fault (ce_dir env)"

text \<open>The directory as access control finds it in this state.\<close>

definition chat_dir :: "chat_env \<Rightarrow> chat_state \<Rightarrow> directory" where
  "chat_dir env s =
     (ce_dir env)\<lparr>d_channels := cb_channels (cs_db s), d_channel_members := cb_members (cs_db s),
                  d_access_grants := cb_grants (cs_db s)\<rparr>"

definition chat_New :: "chat_env \<Rightarrow> uuid chat_handler" where
  "chat_New env = (\<lambda>s. (Inr (ce_id env (cs_ids s)), s\<lparr>cs_ids := Suc (cs_ids s)\<rparr>))"

definition chat_query :: "chat_env \<Rightarrow> string \<Rightarrow> uuid list \<Rightarrow> string \<Rightarrow> (chat_db \<Rightarrow> go_error + 'a) \<Rightarrow> chat_state \<Rightarrow> go_error + 'a" where
  "chat_query env op args wrap f s = db_op (cfault env) op args wrap (f (cs_db s))"

definition chat_exec :: "chat_env \<Rightarrow> string \<Rightarrow> uuid list \<Rightarrow> string \<Rightarrow> (chat_db \<Rightarrow> (go_error + 'a) \<times> chat_db) \<Rightarrow> 'a chat_handler" where
  "chat_exec env op args wrap f s =
     (case cfault env op args of
        Some d \<Rightarrow> (Inl (Wrapf wrap (driver_error d)), s)
      | None \<Rightarrow> (case f (cs_db s) of (r, db) \<Rightarrow> (r, s\<lparr>cs_db := db\<rparr>)))"

definition Chat_WithinTx :: "chat_env \<Rightarrow> 'a chat_handler \<Rightarrow> 'a chat_handler" where
  "Chat_WithinTx env fn s =
     (case cfault env ''TxManager.Begin'' [] of
        Some d \<Rightarrow> (Inl (Wrapf ''postgres: begin transaction'' (driver_error d)), s)
      | None \<Rightarrow>
          (case fn s of
             (Inl e, s') \<Rightarrow> (Inl e, s'\<lparr>cs_db := cs_db s\<rparr>)
           | (Inr x, s') \<Rightarrow>
               (case cfault env ''TxManager.Commit'' [] of
                  Some d \<Rightarrow> (Inl (Wrapf ''postgres: commit transaction'' (driver_error d)), s'\<lparr>cs_db := cs_db s\<rparr>)
                | None \<Rightarrow> (Inr x, s'))))"

text \<open>
  \<open>INSERT INTO t VALUES (row)\<close> under unique constraints: a row that clashes with one of the table is
  refused with code 23505, which the repositories turn into their own error.
\<close>

definition insert_row :: "('r \<Rightarrow> 'r \<Rightarrow> bool) \<Rightarrow> go_error \<Rightarrow> 'r \<Rightarrow> 'r list \<Rightarrow> go_error + 'r list" where
  "insert_row clash e row rows = (if \<exists>r \<in> set rows. clash row r then Inl e else Inr (rows @ [row]))"

text \<open>\<open>UPDATE t SET f WHERE P\<close> or \<open>DELETE FROM t WHERE P\<close> with the \<open>RowsAffected() == 0\<close> check.\<close>

definition update_rows :: "('r \<Rightarrow> bool) \<Rightarrow> ('r \<Rightarrow> 'r) \<Rightarrow> string \<Rightarrow> 'r list \<Rightarrow> go_error + 'r list" where
  "update_rows P f msg rows = (if \<exists>r \<in> set rows. P r then Inr (upd_where P f rows) else Inl (NotFound msg))"

definition delete_rows :: "('r \<Rightarrow> bool) \<Rightarrow> string \<Rightarrow> 'r list \<Rightarrow> go_error + 'r list" where
  "delete_rows P msg rows = (if \<exists>r \<in> set rows. P r then Inr (filter (\<lambda>r. \<not> P r) rows) else Inl (NotFound msg))"

text \<open>Running such a statement on one table of the database.\<close>

definition on_table :: "(chat_db \<Rightarrow> 'r list) \<Rightarrow> ('r list \<Rightarrow> chat_db \<Rightarrow> chat_db) \<Rightarrow> ('r list \<Rightarrow> go_error + 'r list) \<Rightarrow>
    chat_db \<Rightarrow> (go_error + unit) \<times> chat_db" where
  "on_table get put stmt db =
     (case stmt (get db) of Inl e \<Rightarrow> (Inl e, db) | Inr rows \<Rightarrow> (Inr (), put rows db))"

lemma Chat_WithinTx_Inr [run_Inr]:
  "Chat_WithinTx env fn s = (Inr x, s') \<longleftrightarrow>
   cfault env ''TxManager.Begin'' [] = None \<and> fn s = (Inr x, s') \<and> cfault env ''TxManager.Commit'' [] = None"
  by (auto simp: Chat_WithinTx_def split: option.splits prod.splits sum.splits)

lemma Chat_WithinTx_atomic: "Chat_WithinTx env fn s = (Inl e, s') \<Longrightarrow> cs_db s' = cs_db s"
  by (auto simp: Chat_WithinTx_def split: option.splits prod.splits sum.splits)

lemma chat_exec_Inr [run_Inr]:
  "chat_exec env op args wrap f s = (Inr x, s') \<longleftrightarrow>
   cfault env op args = None \<and> fst (f (cs_db s)) = Inr x \<and> s' = s\<lparr>cs_db := snd (f (cs_db s))\<rparr>"
  by (auto simp: chat_exec_def split: option.splits prod.splits)

lemma chat_New_Inr [run_Inr]:
  "chat_New env s = (Inr x, s') \<longleftrightarrow> x = ce_id env (cs_ids s) \<and> s' = s\<lparr>cs_ids := Suc (cs_ids s)\<rparr>"
  by (auto simp: chat_New_def)

lemma chat_query_Inr [simp]:
  "chat_query env op args wrap f s = Inr x \<longleftrightarrow> cfault env op args = None \<and> f (cs_db s) = Inr x"
  by (simp add: chat_query_def)

lemma chat_query_Inl_code:
  "chat_query env op args wrap f s = Inl e \<Longrightarrow> has_code c e \<Longrightarrow> cfault env op args = None \<and> f (cs_db s) = Inl e"
  by (auto simp: chat_query_def dest: db_op_Inl_code)

lemma insert_row_Inr [simp]:
  "insert_row clash e row rows = Inr rows' \<longleftrightarrow> (\<forall>r \<in> set rows. \<not> clash row r) \<and> rows' = rows @ [row]"
  by (auto simp: insert_row_def)

lemma update_rows_Inr [simp]:
  "update_rows P f msg rows = Inr rows' \<longleftrightarrow> (\<exists>r \<in> set rows. P r) \<and> rows' = upd_where P f rows"
  by (auto simp: update_rows_def)

lemma delete_rows_Inr [simp]:
  "delete_rows P msg rows = Inr rows' \<longleftrightarrow> (\<exists>r \<in> set rows. P r) \<and> rows' = filter (\<lambda>r. \<not> P r) rows"
  by (auto simp: delete_rows_def)

lemma on_table_fst_Inr [simp]: "fst (on_table get put stmt db) = Inr () \<longleftrightarrow> (\<exists>rows. stmt (get db) = Inr rows)"
  by (auto simp: on_table_def split: sum.splits)

lemma on_table_snd:
  "snd (on_table get put stmt db) = (case stmt (get db) of Inl e \<Rightarrow> db | Inr rows \<Rightarrow> put rows db)"
  by (auto simp: on_table_def split: sum.splits)

end
