(* ===== verification/Validate.thy ===== *)
theory Validate
  imports Cerrors Strings
begin

text \<open>
  \<open>pkg/validate\<close>, and how handlers translate the errors of the repositories they call.
\<close>

subsection \<open>Struct validation\<close>

text \<open>
  \<open>validate.Struct\<close> reports, in the order of the fields, the first failing tag of each field; \<open>min\<close> and \<open>max\<close>
  count the runes of a string. A field is checked by the list of its tags with their verdicts.
\<close>

definition field_failure :: "string \<Rightarrow> string \<Rightarrow> string" where
  "field_failure field tag = field @ '': failed on '' @ [CHR 0x27] @ tag @ [CHR 0x27]"

definition join_fields :: "string list \<Rightarrow> string" where
  "join_fields failed = (case failed of [] \<Rightarrow> '''' | f # fs \<Rightarrow> f @ concat (map (\<lambda>g. ''; '' @ g) fs))"

definition check_field :: "string \<Rightarrow> (string \<times> bool) list \<Rightarrow> string list" where
  "check_field field tags = (case find (\<lambda>(_, holds). \<not> holds) tags of None \<Rightarrow> [] | Some (tag, _) \<Rightarrow> [field_failure field tag])"

definition validate_Struct :: "string list \<Rightarrow> go_error + unit" where
  "validate_Struct failed = (if failed \<noteq> [] then Inl (InvalidInput (join_fields failed)) else Inr ())"

definition min_runes :: "int \<Rightarrow> string \<Rightarrow> bool" where
  "min_runes n s \<longleftrightarrow> n \<le> int (utf8_RuneCountInString s)"

definition max_runes :: "int \<Rightarrow> string \<Rightarrow> bool" where
  "max_runes n s \<longleftrightarrow> int (utf8_RuneCountInString s) \<le> n"

lemma check_field_Nil [simp]: "check_field field tags = [] \<longleftrightarrow> (\<forall>(t, holds) \<in> set tags. holds)"
  by (auto simp: check_field_def find_None_iff' split: option.splits dest!: find_SomeD)

lemma validate_Struct_Inr [simp]: "validate_Struct failed = Inr x \<longleftrightarrow> failed = []"
  by (simp add: validate_Struct_def)

subsection \<open>Translating errors\<close>

text \<open>\<open>if appErr, ok := cerrors.AsAppError(err); ok { return appErr }; return cerrors.Internal(msg, err)\<close>.\<close>

definition app_or_internal :: "string \<Rightarrow> go_error \<Rightarrow> go_error" where
  "app_or_internal msg err =
     (case AsAppError err of Some (c, m, e) \<Rightarrow> AppError c m e | None \<Rightarrow> Internal msg (Some err))"

definition internal :: "string \<Rightarrow> go_error \<Rightarrow> go_error" where
  "internal msg err = Internal msg (Some err)"

text \<open>\<open>if err is NotFound { return cerrors.NotFound(m) }; return cerrors.Internal(msg, err)\<close>.\<close>

definition notfound_or_internal :: "string \<Rightarrow> string \<Rightarrow> go_error \<Rightarrow> go_error" where
  "notfound_or_internal m msg err = (if has_code CodeNotFound err then NotFound m else Internal msg (Some err))"

definition forbidden_or_internal :: "string \<Rightarrow> string \<Rightarrow> go_error \<Rightarrow> go_error" where
  "forbidden_or_internal m msg err = (if has_code CodeNotFound err then Forbidden m else Internal msg (Some err))"

definition unauthorized_or_internal :: "string \<Rightarrow> string \<Rightarrow> go_error \<Rightarrow> go_error" where
  "unauthorized_or_internal m msg err = (if has_code CodeNotFound err then Unauthorized m else Internal msg (Some err))"

end
