(* ===== verification/ChatRepo.thy ===== *)
theory ChatRepo
  imports ChatStore Validate
begin

text \<open>
  The SQL of the chat service as operations on \<open>chat_db\<close>, one definition per repository method. Unique
  constraints and the foreign keys between the tables of \<open>chat_db\<close> are those of \<open>migrations/\<close>; a foreign key
  to a table chat does not write is a fault of the environment.
\<close>

subsection \<open>Channels and their members\<close>

definition normalizeDMRequestStatus :: "DMRequestStatus \<Rightarrow> DMRequestStatus" where
  "normalizeDMRequestStatus status =
     (if status = DMRequestStatusPending \<or> status = DMRequestStatusBlocked then status else DMRequestStatusAccepted)"

abbreviation (input) put_channels :: "Channel list \<Rightarrow> chat_db \<Rightarrow> chat_db" where
  "put_channels rows db \<equiv> db\<lparr>cb_channels := rows\<rparr>"

abbreviation (input) put_members :: "ChannelMember list \<Rightarrow> chat_db \<Rightarrow> chat_db" where
  "put_members rows db \<equiv> db\<lparr>cb_members := rows\<rparr>"

abbreviation (input) put_messages :: "Message list \<Rightarrow> chat_db \<Rightarrow> chat_db" where
  "put_messages rows db \<equiv> db\<lparr>cb_messages := rows\<rparr>"

abbreviation (input) put_reactions :: "Reaction list \<Rightarrow> chat_db \<Rightarrow> chat_db" where
  "put_reactions rows db \<equiv> db\<lparr>cb_reactions := rows\<rparr>"

text \<open>The columns of a channel row; the fields filled in for a response are not stored.\<close>

definition channel_row :: "Channel \<Rightarrow> Channel" where
  "channel_row ch = ch\<lparr>Ch_ArchivedAt := None, Ch_DMRequestStatus := None, Ch_LastActivityAt := None, Ch_Members := []\<rparr>"

definition channel_clash :: "Channel \<Rightarrow> Channel \<Rightarrow> bool" where
  "channel_clash a b \<longleftrightarrow> Ch_ID a = Ch_ID b \<or>
     (IsSelfChannel (Ch_Type a) \<and> IsSelfChannel (Ch_Type b) \<and> Ch_OwnerUserID a \<noteq> None \<and>
      Ch_OwnerUserID a = Ch_OwnerUserID b \<and> Ch_Type a = Ch_Type b \<and> Ch_WorkspaceID a = Ch_WorkspaceID b)"

definition Channels_Create :: "chat_env \<Rightarrow> Channel \<Rightarrow> unit chat_handler" where
  "Channels_Create env ch =
     chat_exec env ''ChannelRepo.Create'' [Ch_ID ch] ''postgres: create channel''
       (on_table cb_channels put_channels
          (insert_row channel_clash (AlreadyExists ''channel already exists'') (channel_row ch)))"

text \<open>\<open>Update\<close> also stamps \<open>updated_at\<close> on the caller's struct, which it returns here.\<close>

definition Channels_Update :: "chat_env \<Rightarrow> Channel \<Rightarrow> Channel chat_handler" where
  "Channels_Update env ch =
     bindM (chat_exec env ''ChannelRepo.Update'' [Ch_ID ch] ''postgres: update channel''
       (on_table cb_channels put_channels (update_rows (\<lambda>r. Ch_ID r = Ch_ID ch)
          (\<lambda>r. r\<lparr>Ch_Name := Ch_Name ch, Ch_Topic := Ch_Topic ch, Ch_Archived := Ch_Archived ch,
                 Ch_ArchivedAt := (if Ch_Archived ch
                                   then (case Ch_ArchivedAt r of None \<Rightarrow> Some (cnow env) | Some t \<Rightarrow> Some t)
                                   else None),
                 Ch_UpdatedAt := cnow env\<rparr>)
          ''channel not found''))) (\<lambda>_.
     returnM (ch\<lparr>Ch_UpdatedAt := cnow env\<rparr>))"

definition member_clash :: "ChannelMember \<Rightarrow> ChannelMember \<Rightarrow> bool" where
  "member_clash a b \<longleftrightarrow> ChM_ID a = ChM_ID b \<or> (ChM_ChannelID a = ChM_ChannelID b \<and> ChM_UserID a = ChM_UserID b)"

definition channel_exists :: "uuid \<Rightarrow> chat_db \<Rightarrow> bool" where
  "channel_exists cid db = (\<exists>ch \<in> set (cb_channels db). Ch_ID ch = cid)"

definition message_exists :: "uuid \<Rightarrow> chat_db \<Rightarrow> bool" where
  "message_exists mid db = (\<exists>m \<in> set (cb_messages db). Msg_ID m = mid)"

definition Channels_AddMember :: "chat_env \<Rightarrow> ChannelMember \<Rightarrow> unit chat_handler" where
  "Channels_AddMember env m =
     chat_exec env ''ChannelRepo.AddMember'' [ChM_ChannelID m, ChM_UserID m] ''postgres: add channel member''
       (\<lambda>db. if \<not> channel_exists (ChM_ChannelID m) db
             then (Inl (Wrapf ''postgres: add channel member'' (Opaque ''23503'')), db)
             else on_table cb_members put_members
               (insert_row member_clash (AlreadyExists ''member already exists in channel'')
                  (m\<lparr>ChM_DMRequestStatus := normalizeDMRequestStatus (ChM_DMRequestStatus m)\<rparr>)) db)"

definition Channels_ListMembers :: "chat_env \<Rightarrow> uuid \<Rightarrow> chat_state \<Rightarrow> go_error + ChannelMember list" where
  "Channels_ListMembers env channelID =
     chat_query env ''ChannelRepo.ListMembers'' [channelID] ''postgres: list channel members''
       (\<lambda>db. Inr (sort_key ChM_JoinedAt (filter (\<lambda>m. ChM_ChannelID m = channelID) (cb_members db))))"

definition member_of :: "uuid \<Rightarrow> uuid \<Rightarrow> ChannelMember \<Rightarrow> bool" where
  "member_of channelID userID m \<longleftrightarrow> ChM_ChannelID m = channelID \<and> ChM_UserID m = userID"

definition Channels_RemoveMember :: "chat_env \<Rightarrow> uuid \<Rightarrow> uuid \<Rightarrow> unit chat_handler" where
  "Channels_RemoveMember env channelID userID =
     chat_exec env ''ChannelRepo.RemoveMember'' [channelID, userID] ''postgres: remove channel member''
       (on_table cb_members put_members (delete_rows (member_of channelID userID) ''channel member not found''))"

definition UpdateDMRequestStatus :: "chat_env \<Rightarrow> uuid \<Rightarrow> uuid \<Rightarrow> DMRequestStatus \<Rightarrow> unit chat_handler" where
  "UpdateDMRequestStatus env channelID userID status =
     chat_exec env ''ChannelRepo.UpdateDMRequestStatus'' [channelID, userID] ''postgres: update DM request status''
       (on_table cb_members put_members (update_rows (member_of channelID userID)
          (\<lambda>m. m\<lparr>ChM_DMRequestStatus := normalizeDMRequestStatus status\<rparr>) ''channel member not found''))"

definition UpdateLastRead :: "chat_env \<Rightarrow> uuid \<Rightarrow> uuid \<Rightarrow> unit chat_handler" where
  "UpdateLastRead env channelID userID =
     chat_exec env ''ChannelRepo.UpdateLastRead'' [channelID, userID] ''postgres: update last read''
       (on_table cb_members put_members (update_rows (member_of channelID userID)
          (\<lambda>m. m\<lparr>ChM_LastReadAt := cnow env\<rparr>) ''channel member not found''))"

definition is_dm_of :: "chat_db \<Rightarrow> uuid \<Rightarrow> uuid \<Rightarrow> uuid \<Rightarrow> Channel \<Rightarrow> bool" where
  "is_dm_of db workspaceID userA userB c \<longleftrightarrow>
     Ch_WorkspaceID c = Some workspaceID \<and> Ch_Type c = ChannelTypeDM \<and>
     (\<exists>m \<in> set (cb_members db). member_of (Ch_ID c) userA m) \<and>
     (\<exists>m \<in> set (cb_members db). member_of (Ch_ID c) userB m)"

definition GetDMChannel :: "chat_env \<Rightarrow> uuid \<Rightarrow> uuid \<Rightarrow> uuid \<Rightarrow> chat_state \<Rightarrow> go_error + Channel" where
  "GetDMChannel env workspaceID userA userB =
     chat_query env ''ChannelRepo.GetDMChannel'' [workspaceID, userA, userB] ''postgres: get dm channel''
       (\<lambda>db. case find (is_dm_of db workspaceID userA userB) (cb_channels db) of
               None \<Rightarrow> Inl (NotFound ''dm channel not found'')
             | Some c \<Rightarrow> Inr c)"

subsection \<open>Grants and read states\<close>

definition CreateGrant :: "chat_env \<Rightarrow> ChannelAccessGrant \<Rightarrow> unit chat_handler" where
  "CreateGrant env grant =
     chat_exec env ''ChannelAccessGrantRepo.CreateGrant'' [AG_ChannelID grant, AG_UserID grant] ''postgres: create channel access grant''
       (\<lambda>db. if \<not> channel_exists (AG_ChannelID grant) db
             then (Inl (Wrapf ''postgres: create channel access grant'' (Opaque ''23503'')), db)
             else on_table cb_grants (\<lambda>rows db. db\<lparr>cb_grants := rows\<rparr>)
               (insert_row (\<lambda>a b. AG_ID a = AG_ID b \<or> (AG_ChannelID a = AG_ChannelID b \<and> AG_UserID a = AG_UserID b))
                  (AlreadyExists ''channel access grant already exists'') grant) db)"

definition GetGrant :: "chat_env \<Rightarrow> uuid \<Rightarrow> uuid \<Rightarrow> chat_state \<Rightarrow> go_error + ChannelAccessGrant" where
  "GetGrant env channelID userID =
     chat_query env ''ChannelAccessGrantRepo.GetGrant'' [channelID, userID] ''postgres: get channel access grant''
       (\<lambda>db. case find (\<lambda>g. AG_ChannelID g = channelID \<and> AG_UserID g = userID) (cb_grants db) of
               None \<Rightarrow> Inl (NotFound ''channel access grant not found'')
             | Some g \<Rightarrow> Inr g)"

definition GetState :: "chat_env \<Rightarrow> uuid \<Rightarrow> uuid \<Rightarrow> chat_state \<Rightarrow> go_error + ChannelAccessState" where
  "GetState env channelID userID =
     chat_query env ''ChannelAccessStateRepo.GetState'' [channelID, userID] ''postgres: get channel access state''
       (\<lambda>db. case find (\<lambda>r. CAS_ChannelID r = channelID \<and> CAS_UserID r = userID) (cb_states db) of
               None \<Rightarrow> Inl (NotFound ''channel access state not found'')
             | Some r \<Rightarrow> Inr r)"

text \<open>
  \<open>INSERT ... ON CONFLICT (channel_id, user_id) DO UPDATE\<close>: the read mark given, or the clock when it is
  the zero time; \<open>created_at\<close> survives.
\<close>

definition UpsertState :: "chat_env \<Rightarrow> uuid \<Rightarrow> uuid \<Rightarrow> gotime option \<Rightarrow> unit chat_handler" where
  "UpsertState env channelID userID lastReadAt0 =
     (let lastReadAt = (case lastReadAt0 of None \<Rightarrow> cnow env | Some t \<Rightarrow> t);
          key = (\<lambda>r. CAS_ChannelID r = channelID \<and> CAS_UserID r = userID)
      in chat_exec env ''ChannelAccessStateRepo.UpsertState'' [channelID, userID] ''postgres: upsert channel access state''
           (\<lambda>db. if \<not> channel_exists channelID db
                 then (Inl (Wrapf ''postgres: upsert channel access state'' (Opaque ''23503'')), db)
                 else if \<exists>r \<in> set (cb_states db). key r
                 then (Inr (), db\<lparr>cb_states := upd_where key
                         (\<lambda>r. r\<lparr>CAS_LastReadAt := lastReadAt, CAS_UpdatedAt := cnow env\<rparr>) (cb_states db)\<rparr>)
                 else (Inr (), db\<lparr>cb_states := cb_states db @
                         [\<lparr>CAS_ChannelID = channelID, CAS_UserID = userID, CAS_LastReadAt = lastReadAt,
                           CAS_CreatedAt = cnow env, CAS_UpdatedAt = cnow env\<rparr>]\<rparr>)))"

subsection \<open>Messages\<close>

text \<open>The columns of a message row.\<close>

definition message_row :: "Message \<Rightarrow> Message" where
  "message_row m = m\<lparr>Msg_Reactions := [], Msg_Mentions := [], Msg_Attachments := [], Msg_Files := [],
                     Msg_ClientMessageID := None\<rparr>"

text \<open>A read does not select \<open>mention_here_recipients\<close>.\<close>

definition load_message :: "Message \<Rightarrow> Message" where
  "load_message m = m\<lparr>Msg_HereRecipients := []\<rparr>"

definition ChatMessages_Create :: "chat_env \<Rightarrow> Message \<Rightarrow> unit chat_handler" where
  "ChatMessages_Create env msg =
     chat_exec env ''MessageRepo.Create'' [Msg_ID msg] ''postgres: create message''
       (\<lambda>db. if \<not> channel_exists (Msg_ChannelID msg) db \<or>
                (case Msg_ParentID msg of None \<Rightarrow> False | Some p \<Rightarrow> \<not> message_exists p db)
             then (Inl (Wrapf ''postgres: create message'' (Opaque ''23503'')), db)
             else on_table cb_messages put_messages
               (insert_row (\<lambda>a b. Msg_ID a = Msg_ID b) (Wrapf ''postgres: create message'' (Opaque ''23505'')) (message_row msg)) db)"

definition ChatMessages_GetByID :: "chat_env \<Rightarrow> uuid \<Rightarrow> chat_state \<Rightarrow> go_error + Message" where
  "ChatMessages_GetByID env mid =
     chat_query env ''MessageRepo.GetByID'' [mid] ''postgres: get message by id''
       (\<lambda>db. case find (\<lambda>m. Msg_ID m = mid) (cb_messages db) of
               None \<Rightarrow> Inl (NotFound ''message not found'')
             | Some m \<Rightarrow> Inr (load_message m))"

text \<open>
  The two keyset-paged lists: \<open>WHERE P AND id < cursor ORDER BY id DESC LIMIT limit+1\<close>, cut back to the
  limit; \<open>Normalize\<close> has clamped the limit first.
\<close>

definition message_page :: "(Message \<Rightarrow> bool) \<Rightarrow> Params \<Rightarrow> Message list \<Rightarrow> Message list" where
  "message_page P p0 rows =
     (let p = Normalize p0;
          messages = take (nat (P_Limit p + 1)) (rev (sort_key Msg_ID
                       (filter (\<lambda>m. P m \<and> (P_Cursor p \<noteq> uuid_Nil \<longrightarrow> Msg_ID m < P_Cursor p)) rows)))
      in map load_message (if int (length messages) > P_Limit p then take (nat (P_Limit p)) messages else messages))"

definition ChatMessages_ListByChannel :: "chat_env \<Rightarrow> uuid \<Rightarrow> Params \<Rightarrow> chat_state \<Rightarrow> go_error + Message list" where
  "ChatMessages_ListByChannel env channelID p =
     chat_query env ''MessageRepo.ListByChannel'' [channelID, P_Cursor p] ''postgres: list messages by channel''
       (\<lambda>db. Inr (message_page (\<lambda>m. Msg_ChannelID m = channelID) p (cb_messages db)))"

definition ListThreadReplies :: "chat_env \<Rightarrow> uuid \<Rightarrow> Params \<Rightarrow> chat_state \<Rightarrow> go_error + Message list" where
  "ListThreadReplies env parentID p =
     chat_query env ''MessageRepo.ListThreadReplies'' [parentID, P_Cursor p] ''postgres: list thread replies''
       (\<lambda>db. Inr (message_page (\<lambda>m. Msg_ParentID m = Some parentID) p (cb_messages db)))"

definition live_message :: "uuid \<Rightarrow> Message \<Rightarrow> bool" where
  "live_message mid m \<longleftrightarrow> Msg_ID m = mid \<and> Msg_DeletedAt m = None"

definition ChatMessages_Update :: "chat_env \<Rightarrow> Message \<Rightarrow> Message chat_handler" where
  "ChatMessages_Update env msg =
     bindM (chat_exec env ''MessageRepo.Update'' [Msg_ID msg] ''postgres: update message''
       (on_table cb_messages put_messages (update_rows (live_message (Msg_ID msg))
          (\<lambda>m. m\<lparr>Msg_Content := Msg_Content msg, Msg_Edited := True, Msg_EditedAt := Some (cnow env),
                 Msg_UpdatedAt := cnow env\<rparr>) ''message not found''))) (\<lambda>_.
     returnM (msg\<lparr>Msg_Edited := True, Msg_EditedAt := Some (cnow env), Msg_UpdatedAt := cnow env\<rparr>))"

definition UpdateFileIDs :: "chat_env \<Rightarrow> uuid \<Rightarrow> uuid list \<Rightarrow> unit chat_handler" where
  "UpdateFileIDs env mid fileIDs =
     chat_exec env ''MessageRepo.UpdateFileIDs'' [mid] ''postgres: update message file ids''
       (on_table cb_messages put_messages (update_rows (live_message mid)
          (\<lambda>m. m\<lparr>Msg_FileIDs := fileIDs, Msg_UpdatedAt := cnow env\<rparr>) ''message not found''))"

text \<open>The parent of a moved message obeys the same foreign key as that of a new one.\<close>

definition ChatMessages_Move :: "chat_env \<Rightarrow> Message \<Rightarrow> Message chat_handler" where
  "ChatMessages_Move env msg =
     bindM (chat_exec env ''MessageRepo.Move'' [Msg_ID msg] ''postgres: move message''
       (\<lambda>db. if \<not> channel_exists (Msg_ChannelID msg) db \<or>
                (case Msg_ParentID msg of None \<Rightarrow> False | Some p \<Rightarrow> \<not> message_exists p db)
             then (Inl (Wrapf ''postgres: move message'' (Opaque ''23503'')), db)
             else on_table cb_messages put_messages (update_rows (live_message (Msg_ID msg))
               (\<lambda>m. m\<lparr>Msg_ChannelID := Msg_ChannelID msg, Msg_ParentID := Msg_ParentID msg, Msg_Pinned := False,
                      Msg_PinnedBy := None, Msg_PinnedAt := None, Msg_UpdatedAt := cnow env\<rparr>) ''message not found'') db)) (\<lambda>_.
     returnM (msg\<lparr>Msg_Pinned := False, Msg_PinnedBy := None, Msg_PinnedAt := None, Msg_UpdatedAt := cnow env\<rparr>))"

definition soft_deleted :: "gotime \<Rightarrow> Message \<Rightarrow> Message" where
  "soft_deleted now m =
     m\<lparr>Msg_Content := '''', Msg_Edited := False, Msg_EditedAt := None, Msg_Pinned := False, Msg_PinnedBy := None,
       Msg_PinnedAt := None, Msg_ForwardedFrom := None, Msg_QuotedMessageID := None, Msg_QuotedSnapshot := None,
       Msg_ProfileShare := None, Msg_CallEvent := None, Msg_UpdatedAt := now, Msg_DeletedAt := Some now\<rparr>"

text \<open>
  \<open>jsonb_set(COALESCE(quoted_snapshot, '{}'), '{deleted}', 'true')\<close>; an empty object decodes to zero
  values.
\<close>

definition quote_deleted :: "QuotedSnapshot option \<Rightarrow> QuotedSnapshot option" where
  "quote_deleted q =
     Some (case q of
             None \<Rightarrow> \<lparr>QS_UserID = uuid_Nil, QS_ContentExcerpt = '''', QS_CreatedAt = time_Zero, QS_Deleted = Some True,
                       QS_ParentMessageID = None\<rparr>
           | Some snap \<Rightarrow> snap\<lparr>QS_Deleted := Some True\<rparr>)"

definition quotes :: "uuid \<Rightarrow> Message \<Rightarrow> bool" where
  "quotes mid m \<longleftrightarrow> Msg_QuotedMessageID m = Some mid"

definition cascade_quotes :: "gotime \<Rightarrow> uuid \<Rightarrow> Message list \<Rightarrow> Message list" where
  "cascade_quotes now mid =
     upd_where (quotes mid) (\<lambda>m. m\<lparr>Msg_QuotedSnapshot := quote_deleted (Msg_QuotedSnapshot m), Msg_UpdatedAt := now\<rparr>)"

text \<open>Two statements: the tombstone, then the cascade, whose rows are returned.\<close>

definition SoftDeleteWithCascade :: "chat_env \<Rightarrow> uuid \<Rightarrow> uuid list chat_handler" where
  "SoftDeleteWithCascade env mid =
     bindM (chat_exec env ''MessageRepo.SoftDelete'' [mid] ''postgres: soft delete message''
       (on_table cb_messages put_messages
          (update_rows (live_message mid) (soft_deleted (cnow env)) ''message not found''))) (\<lambda>_.
     chat_exec env ''MessageRepo.SoftDeleteCascade'' [mid] ''postgres: cascade quoted message soft delete''
       (\<lambda>db. (Inr (map Msg_ID (filter (quotes mid) (cb_messages db))),
              db\<lparr>cb_messages := cascade_quotes (cnow env) mid (cb_messages db)\<rparr>)))"

definition ChatMessages_Pin :: "chat_env \<Rightarrow> uuid \<Rightarrow> uuid \<Rightarrow> unit chat_handler" where
  "ChatMessages_Pin env messageID userID =
     chat_exec env ''MessageRepo.Pin'' [messageID] ''postgres: pin message''
       (on_table cb_messages put_messages (update_rows (live_message messageID)
          (\<lambda>m. m\<lparr>Msg_Pinned := True, Msg_PinnedBy := Some userID, Msg_PinnedAt := Some (cnow env),
                 Msg_UpdatedAt := cnow env\<rparr>) ''message not found''))"

definition ChatMessages_Unpin :: "chat_env \<Rightarrow> uuid \<Rightarrow> unit chat_handler" where
  "ChatMessages_Unpin env messageID =
     chat_exec env ''MessageRepo.Unpin'' [messageID] ''postgres: unpin message''
       (on_table cb_messages put_messages (update_rows (live_message messageID)
          (\<lambda>m. m\<lparr>Msg_Pinned := False, Msg_PinnedBy := None, Msg_PinnedAt := None, Msg_UpdatedAt := cnow env\<rparr>)
          ''message not found''))"

text \<open>\<open>ORDER BY pinned_at DESC\<close>: a pinned row has a \<open>pinned_at\<close>.\<close>

definition ListPinned :: "chat_env \<Rightarrow> uuid \<Rightarrow> chat_state \<Rightarrow> go_error + Message list" where
  "ListPinned env channelID =
     chat_query env ''MessageRepo.ListPinned'' [channelID] ''postgres: list pinned messages''
       (\<lambda>db. Inr (map load_message (sort_key (\<lambda>m. - (case Msg_PinnedAt m of None \<Rightarrow> 0 | Some t \<Rightarrow> t))
          (filter (\<lambda>m. Msg_ChannelID m = channelID \<and> Msg_Pinned m \<and> Msg_DeletedAt m = None) (cb_messages db)))))"

definition CountUnread :: "chat_env \<Rightarrow> uuid \<Rightarrow> uuid \<Rightarrow> gotime \<Rightarrow> chat_state \<Rightarrow> go_error + nat" where
  "CountUnread env channelID userID since =
     chat_query env ''MessageRepo.CountUnread'' [channelID, userID] ''postgres: count unread''
       (\<lambda>db. Inr (count_where (\<lambda>m. Msg_ChannelID m = channelID \<and> Msg_UserID m \<noteq> userID \<and>
                    Msg_CreatedAt m > since \<and> Msg_DeletedAt m = None) (cb_messages db)))"

text \<open>One row per membership of the user: the channel, its read mark and the messages after it.\<close>

record UnreadSummary =
  US_ChannelID :: uuid
  US_LastReadAt :: gotime
  US_Unread :: nat

definition BatchUnreadCounts :: "chat_env \<Rightarrow> uuid \<Rightarrow> uuid \<Rightarrow> chat_state \<Rightarrow> go_error + UnreadSummary list" where
  "BatchUnreadCounts env workspaceID userID =
     chat_query env ''MessageRepo.BatchUnreadCounts'' [workspaceID, userID] ''postgres: batch unread counts''
       (\<lambda>db. Inr (map (\<lambda>cm. \<lparr>US_ChannelID = ChM_ChannelID cm, US_LastReadAt = ChM_LastReadAt cm,
                               US_Unread = count_where (\<lambda>m. Msg_ChannelID m = ChM_ChannelID cm \<and> Msg_UserID m \<noteq> ChM_UserID cm \<and>
                                 Msg_CreatedAt m > ChM_LastReadAt cm \<and> Msg_DeletedAt m = None) (cb_messages db)\<rparr>)
          (filter (\<lambda>cm. ChM_UserID cm = userID \<and>
             (\<exists>c \<in> set (cb_channels db). Ch_ID c = ChM_ChannelID cm \<and> Ch_WorkspaceID c = Some workspaceID)) (cb_members db))))"

text \<open>\<open>SELECT channel_id, MAX(created_at) ... GROUP BY channel_id\<close>.\<close>

definition LastActivityByChannels :: "chat_env \<Rightarrow> uuid list \<Rightarrow> chat_state \<Rightarrow> go_error + (uuid \<Rightarrow> gotime option)" where
  "LastActivityByChannels env channelIDs =
     chat_query env ''MessageRepo.LastActivityByChannels'' channelIDs ''postgres: last activity by channels''
       (\<lambda>db. Inr (\<lambda>cid.
          let times = map Msg_CreatedAt (filter (\<lambda>m. Msg_ChannelID m = cid \<and> cid \<in> set channelIDs \<and> Msg_DeletedAt m = None)
                        (cb_messages db))
          in case times of [] \<Rightarrow> None | t # ts \<Rightarrow> Some (fold max ts t)))"

subsection \<open>Mentions\<close>

text \<open>The users a text mentions, among the members of the channel and not the author.\<close>

definition mentions_user :: "chat_env \<Rightarrow> string \<Rightarrow> User \<Rightarrow> bool" where
  "mentions_user env content u \<longleftrightarrow> ce_handleMatch env u content \<or> mention_match ''all'' content"

definition mention_candidates :: "chat_env \<Rightarrow> chat_db \<Rightarrow> uuid \<Rightarrow> uuid \<Rightarrow> User list" where
  "mention_candidates env db channelID authorID =
     filter (\<lambda>u. U_ID u \<noteq> authorID \<and>
         (\<exists>c \<in> set (cb_channels db). Ch_ID c = channelID \<and> \<not> IsSelfChannel (Ch_Type c)) \<and>
         (\<exists>m \<in> set (cb_members db). member_of channelID (U_ID u) m))
       (ce_users env)"

definition ResolveMentions :: "chat_env \<Rightarrow> uuid \<Rightarrow> uuid \<Rightarrow> string \<Rightarrow> chat_state \<Rightarrow> go_error + uuid list" where
  "ResolveMentions env channelID authorID content s =
     (if CHR ''@'' \<notin> set content then Inr []
      else chat_query env ''MessageRepo.ResolveMentions'' [channelID, authorID] ''postgres: resolve mentions''
             (\<lambda>db. Inr (sort (map U_ID (filter (mentions_user env content) (mention_candidates env db channelID authorID))))) s)"

definition row_mentions :: "chat_env \<Rightarrow> chat_db \<Rightarrow> Message \<Rightarrow> uuid list" where
  "row_mentions env db m =
     (if Msg_DeletedAt m = None \<and> (CHR ''@'' \<in> set (Msg_Content m) \<or> Msg_HereRecipients m \<noteq> [])
      then sort (map U_ID (filter (\<lambda>u. mentions_user env (Msg_Content m) u \<or> U_ID u \<in> set (Msg_HereRecipients m))
             (mention_candidates env db (Msg_ChannelID m) (Msg_UserID m))))
      else [])"

definition ResolveMentionsByMessageIDs :: "chat_env \<Rightarrow> uuid list \<Rightarrow> chat_state \<Rightarrow> go_error + (uuid \<Rightarrow> uuid list)" where
  "ResolveMentionsByMessageIDs env messageIDs s =
     (if messageIDs = [] then Inr (\<lambda>_. [])
      else chat_query env ''MessageRepo.ResolveMentionsByMessageIDs'' messageIDs ''postgres: resolve mentions by message ids''
             (\<lambda>db. Inr (\<lambda>mid. if mid \<notin> set messageIDs then []
                else case find (\<lambda>m. Msg_ID m = mid) (cb_messages db) of None \<Rightarrow> [] | Some m \<Rightarrow> row_mentions env db m)) s)"

subsection \<open>Reactions and attachments\<close>

definition reaction_key :: "uuid \<Rightarrow> uuid \<Rightarrow> string \<Rightarrow> Reaction \<Rightarrow> bool" where
  "reaction_key messageID userID emoji r \<longleftrightarrow> Re_MessageID r = messageID \<and> Re_UserID r = userID \<and> Re_Emoji r = emoji"

definition reaction_clash :: "Reaction \<Rightarrow> Reaction \<Rightarrow> bool" where
  "reaction_clash a b \<longleftrightarrow> Re_ID a = Re_ID b \<or> reaction_key (Re_MessageID a) (Re_UserID a) (Re_Emoji a) b"

definition Reactions_AddReaction :: "chat_env \<Rightarrow> Reaction \<Rightarrow> unit chat_handler" where
  "Reactions_AddReaction env reaction =
     chat_exec env ''MessageRepo.AddReaction'' [Re_MessageID reaction, Re_UserID reaction] ''postgres: add reaction''
       (\<lambda>db. if \<not> message_exists (Re_MessageID reaction) db
             then (Inl (Wrapf ''postgres: add reaction'' (Opaque ''23503'')), db)
             else on_table cb_reactions put_reactions
               (insert_row reaction_clash (AlreadyExists ''reaction already exists'') reaction) db)"

definition reaction_or_NotFound :: "Reaction option \<Rightarrow> go_error + Reaction" where
  "reaction_or_NotFound r = (case r of None \<Rightarrow> Inl (NotFound ''reaction not found'') | Some x \<Rightarrow> Inr x)"

definition GetReactionByID :: "chat_env \<Rightarrow> uuid \<Rightarrow> chat_state \<Rightarrow> go_error + Reaction" where
  "GetReactionByID env rid =
     chat_query env ''MessageRepo.GetReactionByID'' [rid] ''postgres: get reaction by id''
       (\<lambda>db. reaction_or_NotFound (find (\<lambda>r. Re_ID r = rid) (cb_reactions db)))"

definition GetReactionByMessageUserEmoji :: "chat_env \<Rightarrow> uuid \<Rightarrow> uuid \<Rightarrow> string \<Rightarrow> chat_state \<Rightarrow> go_error + Reaction" where
  "GetReactionByMessageUserEmoji env messageID userID emoji =
     chat_query env ''MessageRepo.GetReactionByMessageUserEmoji'' [messageID, userID] ''postgres: get reaction by message user emoji''
       (\<lambda>db. reaction_or_NotFound (find (reaction_key messageID userID emoji) (cb_reactions db)))"

definition Reactions_RemoveReaction :: "chat_env \<Rightarrow> uuid \<Rightarrow> uuid \<Rightarrow> string \<Rightarrow> unit chat_handler" where
  "Reactions_RemoveReaction env messageID userID emoji =
     chat_exec env ''MessageRepo.RemoveReaction'' [messageID, userID] ''postgres: remove reaction''
       (on_table cb_reactions put_reactions (delete_rows (reaction_key messageID userID emoji) ''reaction not found''))"

definition Reactions_RemoveReactionByID :: "chat_env \<Rightarrow> uuid \<Rightarrow> unit chat_handler" where
  "Reactions_RemoveReactionByID env rid =
     chat_exec env ''MessageRepo.RemoveReactionByID'' [rid] ''postgres: remove reaction by id''
       (on_table cb_reactions put_reactions (delete_rows (\<lambda>r. Re_ID r = rid) ''reaction not found''))"

definition ListReactionsByMessageIDs :: "chat_env \<Rightarrow> uuid list \<Rightarrow> chat_state \<Rightarrow> go_error + (uuid \<Rightarrow> Reaction list)" where
  "ListReactionsByMessageIDs env messageIDs s =
     (if messageIDs = [] then Inr (\<lambda>_. [])
      else chat_query env ''MessageRepo.ListReactionsByMessageIDs'' messageIDs ''postgres: list reactions by message ids''
             (\<lambda>db. Inr (\<lambda>mid. sort_key Re_CreatedAt
                (filter (\<lambda>r. Re_MessageID r = mid \<and> mid \<in> set messageIDs) (cb_reactions db)))) s)"

definition ListAttachments :: "chat_env \<Rightarrow> uuid \<Rightarrow> chat_state \<Rightarrow> go_error + Attachment list" where
  "ListAttachments env messageID =
     chat_query env ''MessageRepo.ListAttachments'' [messageID] ''postgres: list attachments''
       (\<lambda>db. Inr (sort_key At_CreatedAt (filter (\<lambda>a. At_MessageID a = messageID) (cb_attachments db))))"

definition ListAttachmentsByMessageIDs :: "chat_env \<Rightarrow> uuid list \<Rightarrow> chat_state \<Rightarrow> go_error + (uuid \<Rightarrow> Attachment list)" where
  "ListAttachmentsByMessageIDs env messageIDs s =
     (if messageIDs = [] then Inr (\<lambda>_. [])
      else chat_query env ''MessageRepo.ListAttachmentsByMessageIDs'' messageIDs ''postgres: list attachments by message ids''
             (\<lambda>db. Inr (\<lambda>mid. sort_key At_CreatedAt
                (filter (\<lambda>a. At_MessageID a = mid \<and> mid \<in> set messageIDs) (cb_attachments db)))) s)"

subsection \<open>Library files\<close>

text \<open>
  \<open>loadAccessibleFiles\<close> for one file: it is not deleted, and the user owns it, it is shared with the
  user, or with a channel the user is a member of.
\<close>

definition file_accessible :: "chat_db \<Rightarrow> uuid \<Rightarrow> LibraryFile \<Rightarrow> bool" where
  "file_accessible db userID f \<longleftrightarrow>
     LF_DeletedAt f = None \<and>
     (LF_UserID f = userID \<or>
      (\<exists>sh \<in> set (cb_shares db). FS_FileID sh = LF_ID f \<and>
         (FS_Type sh = FileShareTargetUser \<and> FS_TargetID sh = userID \<or>
          FS_Type sh = FileShareTargetChannel \<and> (\<exists>m \<in> set (cb_members db). member_of (FS_TargetID sh) userID m))))"

definition GetAccessibleFile :: "chat_env \<Rightarrow> uuid \<Rightarrow> uuid \<Rightarrow> chat_state \<Rightarrow> go_error + LibraryFile" where
  "GetAccessibleFile env fileID userID s =
     (case chat_query env ''FileRepo.loadAccessibleFiles'' [fileID, userID] ''postgres: load accessible library files''
             (\<lambda>db. Inr (find (\<lambda>f. LF_ID f = fileID \<and> file_accessible db userID f) (cb_files db))) s of
        Inl err \<Rightarrow> Inl err
      | Inr None \<Rightarrow> Inl (NotFound ''file not found'')
      | Inr (Some file) \<Rightarrow>
          db_op (cfault env) ''FileRepo.hydrateSharedTargets'' [fileID, userID] ''postgres: hydrate file shares'' (Inr file))"

text \<open>\<open>repository.FileShareOptions\<close> with the target a channel and \<open>OwnerOnly\<close> false, as chat passes it.\<close>

definition share_key :: "uuid \<Rightarrow> uuid \<Rightarrow> FileShare \<Rightarrow> bool" where
  "share_key fileID channelID sh \<longleftrightarrow> FS_FileID sh = fileID \<and> FS_Type sh = FileShareTargetChannel \<and> FS_TargetID sh = channelID"

definition ShareFile :: "chat_env \<Rightarrow> uuid \<Rightarrow> uuid \<Rightarrow> uuid \<Rightarrow> uuid \<Rightarrow> unit chat_handler" where
  "ShareFile env fileID channelID workspaceID0 actorID =
     bindM (readM (GetAccessibleFile env fileID actorID)) (\<lambda>file.
     let workspaceID = (if workspaceID0 = uuid_Nil then LF_WorkspaceID file else workspaceID0)
     in chat_exec env ''FileRepo.ShareFile'' [fileID, channelID] ''postgres: share library file''
          (\<lambda>db. (Inr (), if \<exists>sh \<in> set (cb_shares db). share_key fileID channelID sh then db
                         else db\<lparr>cb_shares := cb_shares db @ [\<lparr>FS_FileID = fileID, FS_Type = FileShareTargetChannel,
                                  FS_TargetID = channelID, FS_WorkspaceID = workspaceID\<rparr>]\<rparr>)))"

definition RevokeFileShare :: "chat_env \<Rightarrow> uuid \<Rightarrow> uuid \<Rightarrow> uuid \<Rightarrow> unit chat_handler" where
  "RevokeFileShare env fileID channelID actorID =
     bindM (readM (GetAccessibleFile env fileID actorID)) (\<lambda>_.
     chat_exec env ''FileRepo.RevokeFileShare'' [fileID, channelID] ''postgres: revoke library file share''
       (\<lambda>db. (Inr (), db\<lparr>cb_shares := filter (\<lambda>sh. \<not> share_key fileID channelID sh) (cb_shares db)\<rparr>)))"

text \<open>A deleted file is reduced to its id and the status; an unknown id is skipped.\<close>

definition message_file :: "LibraryFile \<Rightarrow> MessageFile" where
  "message_file f =
     (if LF_DeletedAt f \<noteq> None
      then \<lparr>MF_ID = LF_ID f, MF_Status = ''deleted'', MF_Filename = '''', MF_Extension = '''', MF_MimeType = '''', MF_Size = 0\<rparr>
      else \<lparr>MF_ID = LF_ID f, MF_Status = '''', MF_Filename = LF_Filename f, MF_Extension = LF_Extension f,
            MF_MimeType = LF_MimeType f, MF_Size = LF_Size f\<rparr>)"

definition ResolveMessageFiles :: "chat_env \<Rightarrow> uuid list \<Rightarrow> chat_state \<Rightarrow> go_error + MessageFile list" where
  "ResolveMessageFiles env fileIDs s =
     (if fileIDs = [] then Inr []
      else chat_query env ''FileRepo.ResolveMessageFiles'' fileIDs ''postgres: resolve message files''
             (\<lambda>db. Inr (List.map_filter (\<lambda>fid. map_option message_file (find (\<lambda>f. LF_ID f = fid) (cb_files db))) fileIDs)) s)"

subsection \<open>The search queue\<close>

definition job_key :: "uuid \<Rightarrow> ResourceType \<Rightarrow> uuid \<Rightarrow> search_job \<Rightarrow> bool" where
  "job_key workspaceID rtype rid j \<longleftrightarrow> SJ_WorkspaceID j = workspaceID \<and> SJ_Type j = rtype \<and> SJ_ResourceID j = rid"

definition EnqueueUpsert :: "chat_env \<Rightarrow> Document \<Rightarrow> unit chat_handler" where
  "EnqueueUpsert env doc =
     chat_exec env ''SearchRepo.EnqueueUpsert'' [SD_WorkspaceID doc, SD_ResourceID doc] ''postgres: enqueue search upsert''
       (\<lambda>db. let key = job_key (SD_WorkspaceID doc) (SD_Type doc) (SD_ResourceID doc);
                 job = \<lparr>SJ_WorkspaceID = SD_WorkspaceID doc, SJ_Type = SD_Type doc, SJ_ResourceID = SD_ResourceID doc,
                        SJ_Delete = False, SJ_ChannelID = SD_ChannelID doc, SJ_Title = SD_Title doc,
                        SJ_Content = SD_Content doc, SJ_CreatedAt = SD_CreatedAt doc, SJ_UpdatedAt = SD_UpdatedAt doc\<rparr>
             in (Inr (), db\<lparr>cb_jobs := (if \<exists>j \<in> set (cb_jobs db). key j then upd_where key (\<lambda>_. job) (cb_jobs db)
                                        else cb_jobs db @ [job])\<rparr>))"

definition EnqueueDelete :: "chat_env \<Rightarrow> uuid \<Rightarrow> ResourceType \<Rightarrow> uuid \<Rightarrow> unit chat_handler" where
  "EnqueueDelete env workspaceID rtype rid =
     chat_exec env ''SearchRepo.EnqueueDelete'' [workspaceID, rid] ''postgres: enqueue search delete''
       (\<lambda>db. let key = job_key workspaceID rtype rid;
                 job = \<lparr>SJ_WorkspaceID = workspaceID, SJ_Type = rtype, SJ_ResourceID = rid, SJ_Delete = True,
                        SJ_ChannelID = None, SJ_Title = '''', SJ_Content = '''', SJ_CreatedAt = cnow env, SJ_UpdatedAt = cnow env\<rparr>
             in (Inr (), db\<lparr>cb_jobs := (if \<exists>j \<in> set (cb_jobs db). key j
                                        then upd_where key (\<lambda>j. job\<lparr>SJ_CreatedAt := SJ_CreatedAt j\<rparr>) (cb_jobs db)
                                        else cb_jobs db @ [job])\<rparr>))"

text \<open>
  \<open>service/search\<close>: the indexing calls of the non-transactional path.
\<close>

definition IndexMessage :: "chat_env \<Rightarrow> uuid \<Rightarrow> uuid \<Rightarrow> uuid \<Rightarrow> string \<Rightarrow> gotime \<Rightarrow> unit chat_handler" where
  "IndexMessage env workspaceID channelID messageID content createdAt =
     EnqueueUpsert env \<lparr>SD_WorkspaceID = workspaceID, SD_ResourceID = messageID, SD_ChannelID = Some channelID,
       SD_Type = ResourceTypeMessage, SD_Title = '''', SD_Content = content, SD_CreatedAt = createdAt, SD_UpdatedAt = createdAt\<rparr>"

definition IndexChannel :: "chat_env \<Rightarrow> uuid \<Rightarrow> uuid \<Rightarrow> string \<Rightarrow> string \<Rightarrow> gotime \<Rightarrow> gotime \<Rightarrow> unit chat_handler" where
  "IndexChannel env workspaceID channelID name0 topic0 createdAt updatedAt =
     (let name = TrimSpace name0
      in if name = '''' then returnM ()
         else let topic = TrimSpace topic0
              in EnqueueUpsert env \<lparr>SD_WorkspaceID = workspaceID, SD_ResourceID = channelID, SD_ChannelID = Some channelID,
                   SD_Type = ResourceTypeChannel, SD_Title = name, SD_Content = TrimSpace (name @ '' '' @ topic),
                   SD_CreatedAt = createdAt, SD_UpdatedAt = updatedAt\<rparr>)"

subsection \<open>The outbox and the publisher\<close>

definition Chat_EnqueueRealtime :: "chat_env \<Rightarrow> Event \<Rightarrow> unit chat_handler" where
  "Chat_EnqueueRealtime env evt =
     (if \<not> ce_realtime env then returnM ()
      else chat_exec env ''RealtimeRepo.Enqueue'' [] ''postgres: enqueue realtime event''
             (\<lambda>db. (Inr (), db\<lparr>cb_outbox := cb_outbox db @
                [\<lparr>ob_Event = evt, ob_Replayable = Def_Replayable (DefinitionForType (Ev_Type evt))\<rparr>]\<rparr>)))"

definition chat_event :: "EventType \<Rightarrow> EventSubject \<Rightarrow> uuid \<Rightarrow> uuid \<Rightarrow> uuid \<Rightarrow> Payload \<Rightarrow> Event" where
  "chat_event evtType subject workspaceID channelID userID payload =
     \<lparr>Ev_Type = evtType, Ev_Subject = subject, Ev_WorkspaceID = workspaceID, Ev_ChannelID = channelID,
      Ev_UserID = userID, Ev_Payload = payload\<rparr>"

definition enqueueEventTx :: "chat_env \<Rightarrow> EventType \<Rightarrow> EventSubject \<Rightarrow> uuid \<Rightarrow> uuid \<Rightarrow> uuid \<Rightarrow> Payload \<Rightarrow> unit chat_handler" where
  "enqueueEventTx env evtType subject workspaceID channelID userID payload =
     Chat_EnqueueRealtime env (chat_event evtType subject workspaceID channelID userID payload)"

text \<open>A failed publish is only logged: \<open>cs_published\<close> is what the service handed to the publisher.\<close>

definition chat_doPublish :: "chat_env \<Rightarrow> EventType \<Rightarrow> EventSubject \<Rightarrow> uuid \<Rightarrow> uuid \<Rightarrow> uuid \<Rightarrow> Payload \<Rightarrow> unit chat_handler" where
  "chat_doPublish env evtType subject workspaceID channelID userID payload =
     modifyM (\<lambda>s. s\<lparr>cs_published := cs_published s @ [chat_event evtType subject workspaceID channelID userID payload]\<rparr>)"

definition publishEvent :: "chat_env \<Rightarrow> EventType \<Rightarrow> uuid \<Rightarrow> uuid \<Rightarrow> uuid \<Rightarrow> Payload \<Rightarrow> unit chat_handler" where
  "publishEvent env evtType workspaceID channelID userID payload =
     chat_doPublish env evtType (ChatSubject channelID) workspaceID channelID userID payload"

definition publishToWorkspace :: "chat_env \<Rightarrow> EventType \<Rightarrow> uuid \<Rightarrow> uuid \<Rightarrow> uuid \<Rightarrow> Payload \<Rightarrow> unit chat_handler" where
  "publishToWorkspace env evtType workspaceID channelID userID payload =
     chat_doPublish env evtType (WorkspaceSubject workspaceID) workspaceID channelID userID payload"

definition publishToUserEvents :: "chat_env \<Rightarrow> EventType \<Rightarrow> uuid \<Rightarrow> uuid \<Rightarrow> uuid \<Rightarrow> Payload \<Rightarrow> unit chat_handler" where
  "publishToUserEvents env evtType workspaceID channelID userID payload =
     chat_doPublish env evtType (WorkspaceUserEventsSubject workspaceID userID) workspaceID channelID userID payload"

end
