(* ===== verification/Channels.thy ===== *)
theory Channels
  imports ChatRepo
begin

text \<open>
  The channel half of \<open>service/chat/service.go\<close>: access to channels, creating and updating them,
  membership, direct messages and their request status, read marks and unread counts.
\<close>

subsection \<open>Small helpers\<close>

definition requireChannelWorkspaceID :: "Channel \<Rightarrow> go_error + uuid" where
  "requireChannelWorkspaceID ch =
     (case Ch_WorkspaceID ch of None \<Rightarrow> Inl (NotFound ''channel not found'') | Some ws \<Rightarrow> Inr ws)"

definition channelWorkspaceIDOrNil :: "Channel option \<Rightarrow> uuid" where
  "channelWorkspaceIDOrNil ch =
     (case ch of None \<Rightarrow> uuid_Nil | Some c \<Rightarrow> (case Ch_WorkspaceID c of None \<Rightarrow> uuid_Nil | Some ws \<Rightarrow> ws))"

definition requestWorkspaceIDForMessage :: "chat_env \<Rightarrow> Channel \<Rightarrow> go_error + uuid" where
  "requestWorkspaceIDForMessage env ch =
     (case Ch_WorkspaceID ch of
        Some ws \<Rightarrow> Inr ws
      | None \<Rightarrow>
          if Ch_Type ch = ChannelTypeSavedGlobal \<and> ce_pathWorkspace env \<noteq> uuid_Nil then Inr (ce_pathWorkspace env)
          else requireChannelWorkspaceID ch)"

definition derefTopicOrEmpty :: "string option \<Rightarrow> string" where
  "derefTopicOrEmpty topic = (case topic of None \<Rightarrow> '''' | Some t \<Rightarrow> t)"

definition initialChannelMemberIDs :: "ChannelMember \<Rightarrow> ChannelMember list \<Rightarrow> uuid list" where
  "initialChannelMemberIDs owner extraMembers = ChM_UserID owner # map ChM_UserID extraMembers"

definition channelMemberUserIDs :: "ChannelMember list \<Rightarrow> uuid list" where
  "channelMemberUserIDs members = map ChM_UserID members"

definition channelPayloadWithMembers :: "Channel \<Rightarrow> uuid list \<Rightarrow> Payload" where
  "channelPayloadWithMembers ch memberIDs =
     (if memberIDs = [] then ChannelPayload ch else ChannelPayload (ch\<lparr>Ch_Members := memberIDs\<rparr>))"

definition channelPayloadWithoutMembers :: "Channel \<Rightarrow> Payload" where
  "channelPayloadWithoutMembers ch = ChannelPayload (ch\<lparr>Ch_Members := []\<rparr>)"

definition isSearchableChannel :: "Channel \<Rightarrow> bool" where
  "isSearchableChannel ch =
     (if Ch_WorkspaceID ch = None \<or> Ch_Archived ch then False
      else if Ch_Type ch \<noteq> ChannelTypePublic \<and> Ch_Type ch \<noteq> ChannelTypePrivate then False
      else TrimSpace (Ch_Name ch) \<noteq> '''')"

definition uniqueUserIDs :: "uuid list \<Rightarrow> uuid list" where
  "uniqueUserIDs userIDs = dedup_seen id [] (filter (\<lambda>u. u \<noteq> uuid_Nil) userIDs)"

definition canManageChannelMembers :: "ChannelMember option \<Rightarrow> bool" where
  "canManageChannelMembers member =
     (case member of None \<Rightarrow> False | Some m \<Rightarrow> ChM_Role m = ChannelRoleOwner \<or> ChM_Role m = ChannelRoleAdmin)"

definition dmRequestStatusPtr :: "DMRequestStatus \<Rightarrow> DMRequestStatus option" where
  "dmRequestStatusPtr status = Some (normalizeDMRequestStatus status)"

text \<open>
  \<open>validate.Struct\<close> on \<open>CreateChannelInput\<close>. With a non-empty name \<open>required\<close> and \<open>min=1\<close> hold.
\<close>

definition CreateChannelInput_failures :: "string \<Rightarrow> string \<Rightarrow> string list" where
  "CreateChannelInput_failures name topic =
     check_field ''Name'' [(''required'', name \<noteq> []), (''max'', max_runes 80 name)] @
     check_field ''Topic'' [(''max'', max_runes 250 topic)]"

definition validate_CreateChannelInput :: "string \<Rightarrow> string \<Rightarrow> go_error + unit" where
  "validate_CreateChannelInput name topic = validate_Struct (CreateChannelInput_failures name topic)"

subsection \<open>Access\<close>

text \<open>The access policy of \<open>cmd/server/main.go\<close>, over the tables of the current state.\<close>

definition chat_checker :: "chat_env \<Rightarrow> chat_state \<Rightarrow> Checker" where
  "chat_checker env s =
     (let d = chat_dir env s
      in \<lparr>pc_present = True, pc_workspaces = True,
          pc_guests = (if ce_guests env then Some (HasWorkspaceAccess True d, HasChannelAccess True d) else None),
          pc_collab = (if ce_collab env then Some (AuthorizeChannel True d) else None)\<rparr>)"

definition CanAccessWorkspace :: "chat_env \<Rightarrow> uuid \<Rightarrow> uuid \<Rightarrow> chat_state \<Rightarrow> go_error + unit" where
  "CanAccessWorkspace env workspaceID userID s =
     (case GetMember (chat_dir env s) workspaceID userID of
        Inr _ \<Rightarrow> Inr ()
      | Inl err \<Rightarrow>
          if has_code CodeNotFound err then Inl (Forbidden ''user is not a member of this workspace'')
          else Inl (Internal ''failed to verify workspace membership'' (Some err)))"

definition ensureCollaborationChannelAccess :: "chat_env \<Rightarrow> Channel \<Rightarrow> uuid \<Rightarrow> chat_state \<Rightarrow> go_error + bool" where
  "ensureCollaborationChannelAccess env ch userID s =
     (if Ch_Type ch \<noteq> ChannelTypeDM \<and> Ch_Type ch \<noteq> ChannelTypeGroupDM then Inr True
      else if \<not> ce_collab env then Inr True
      else (case AuthorizeChannel True (chat_dir env s) (Ch_ID ch) userID of
              Inl err \<Rightarrow> Inl err
            | Inr decision \<Rightarrow> if \<not> Managed decision then Inr True else Inr (Allowed decision)))"

text \<open>The branch of \<open>GetAccessibleChannel\<close> for a user who is no workspace member.\<close>

definition outsider_channel :: "chat_env \<Rightarrow> Channel \<Rightarrow> uuid \<Rightarrow> uuid \<Rightarrow> chat_state \<Rightarrow> go_error + Channel" where
  "outsider_channel env ch workspaceID userID s =
     (let refuse = Inl (Forbidden ''you do not have access to this channel'');
          collaborator =
            (if Ch_Type ch = ChannelTypeDM \<or> Ch_Type ch = ChannelTypeGroupDM
             then (case Channel_GetMember (chat_dir env s) (Ch_ID ch) userID of
                     Inr _ \<Rightarrow>
                       (case ensureCollaborationChannelAccess env ch userID s of
                          Inl err \<Rightarrow> Inl err
                        | Inr allowed \<Rightarrow> if allowed then Inr ch else refuse)
                   | Inl err \<Rightarrow>
                       if \<not> has_code CodeNotFound err then Inl (Internal ''failed to check channel membership'' (Some err))
                       else refuse)
             else refuse)
      in if ce_guests env
         then (case HasChannelAccess True (chat_dir env s) workspaceID (Ch_ID ch) userID of
                 Inl err \<Rightarrow> Inl err
               | Inr allowed \<Rightarrow> if allowed then Inr ch else collaborator)
         else collaborator)"

definition GetAccessibleChannel :: "chat_env \<Rightarrow> uuid \<Rightarrow> uuid \<Rightarrow> chat_state \<Rightarrow> go_error + Channel" where
  "GetAccessibleChannel env channelID userID s =
     (if ce_access env
      then (case Checker_Channel (chat_checker env s) (chat_dir env s) (ce_pathWorkspace env) channelID userID CapabilityView of
              Inl err \<Rightarrow> Inl err
            | Inr decision \<Rightarrow> Inr (CD_Channel decision))
      else (case Channel_GetByID (chat_dir env s) channelID of
         Inl err \<Rightarrow>
           if has_code CodeNotFound err then Inl (NotFound ''channel not found'')
           else Inl (Internal ''failed to get channel'' (Some err))
       | Inr ch \<Rightarrow>
           (case requireChannelWorkspaceID ch of
              Inl err \<Rightarrow> Inl err
            | Inr workspaceID \<Rightarrow>
                (case CanAccessWorkspace env workspaceID userID s of
                   Inl _ \<Rightarrow> outsider_channel env ch workspaceID userID s
                 | Inr _ \<Rightarrow>
                     (case (if Ch_Type ch \<noteq> ChannelTypePublic
                            then (case Channel_GetMember (chat_dir env s) channelID userID of
                                    Inr _ \<Rightarrow> Inr ()
                                  | Inl err \<Rightarrow>
                                      if has_code CodeNotFound err
                                      then Inl (Forbidden ''you do not have access to this channel'')
                                      else Inl (Internal ''failed to check channel membership'' (Some err)))
                            else Inr ()) of
                        Inl err \<Rightarrow> Inl err
                      | Inr _ \<Rightarrow>
                          (case ensureCollaborationChannelAccess env ch userID s of
                             Inl err \<Rightarrow> Inl err
                           | Inr allowed \<Rightarrow>
                               if \<not> allowed
                               then Inl (Forbidden ''you do not have access to this collaboration channel'')
                               else Inr ch))))))"

definition CanAccessChannel :: "chat_env \<Rightarrow> uuid \<Rightarrow> uuid \<Rightarrow> chat_state \<Rightarrow> go_error + unit" where
  "CanAccessChannel env channelID userID s =
     (case GetAccessibleChannel env channelID userID s of Inl err \<Rightarrow> Inl err | Inr _ \<Rightarrow> Inr ())"

definition authorizeChannel :: "chat_env \<Rightarrow> uuid \<Rightarrow> uuid \<Rightarrow> Capability \<Rightarrow> chat_state \<Rightarrow> go_error + ChannelDecision" where
  "authorizeChannel env channelID userID capability s =
     (if ce_access env
      then Checker_Channel (chat_checker env s) (chat_dir env s) (ce_pathWorkspace env) channelID userID capability
      else (case GetAccessibleChannel env channelID userID s of
         Inl err \<Rightarrow> Inl err
       | Inr ch \<Rightarrow>
           let decide = (\<lambda>member. Inr \<lparr>CD_Subject = SubjectMember, CD_Channel = ch,
                                       CD_WorkspaceMember = None, CD_ChannelMember = member\<rparr>)
           in case Channel_GetMember (chat_dir env s) channelID userID of
                Inr member \<Rightarrow> decide (Some member)
              | Inl err \<Rightarrow>
                  if capability = CapabilityParticipate
                  then (if has_code CodeNotFound err then Inl (Forbidden ''user is not a member of this channel'')
                        else Inl (Internal ''failed to check membership'' (Some err)))
                  else decide None))"

subsection \<open>Search and events\<close>

definition enqueueSearch :: "chat_env \<Rightarrow> unit chat_handler \<Rightarrow> unit chat_handler" where
  "enqueueSearch env fn = (if \<not> ce_search env then returnM () else bindM (tryM fn) (\<lambda>_. returnM ()))"

definition enqueueChannelSearchTx :: "chat_env \<Rightarrow> Channel \<Rightarrow> unit chat_handler" where
  "enqueueChannelSearchTx env ch =
     (if \<not> ce_search env \<or> \<not> isSearchableChannel ch then returnM ()
      else EnqueueUpsert env \<lparr>SD_WorkspaceID = channelWorkspaceIDOrNil (Some ch), SD_ResourceID = Ch_ID ch,
             SD_ChannelID = Some (Ch_ID ch), SD_Type = ResourceTypeChannel, SD_Title = Ch_Name ch,
             SD_Content = derefTopicOrEmpty (Ch_Topic ch), SD_CreatedAt = Ch_CreatedAt ch, SD_UpdatedAt = Ch_UpdatedAt ch\<rparr>)"

definition enqueueChannelSearchSyncTx :: "chat_env \<Rightarrow> Channel \<Rightarrow> unit chat_handler" where
  "enqueueChannelSearchSyncTx env ch =
     (if \<not> ce_search env then returnM ()
      else if isSearchableChannel ch then enqueueChannelSearchTx env ch
      else if channelWorkspaceIDOrNil (Some ch) = uuid_Nil then returnM ()
      else EnqueueDelete env (channelWorkspaceIDOrNil (Some ch)) ResourceTypeChannel (Ch_ID ch))"

definition enqueueChannelSearchSync :: "chat_env \<Rightarrow> uuid \<Rightarrow> Channel \<Rightarrow> unit chat_handler" where
  "enqueueChannelSearchSync env workspaceID ch =
     (if isSearchableChannel ch
      then enqueueSearch env (IndexChannel env workspaceID (Ch_ID ch) (Ch_Name ch) (derefTopicOrEmpty (Ch_Topic ch))
             (Ch_CreatedAt ch) (Ch_UpdatedAt ch))
      else enqueueSearch env (EnqueueDelete env workspaceID ResourceTypeChannel (Ch_ID ch)))"

text \<open>
  Who learns of a new channel: the workspace for a public one, each member for a private one. The
  transactional and the direct version differ in how an event leaves.
\<close>

definition visibility_events :: "(EventSubject \<Rightarrow> Payload \<Rightarrow> unit chat_handler) \<Rightarrow> uuid \<Rightarrow> Channel \<Rightarrow> uuid list \<Rightarrow> Payload \<Rightarrow> unit chat_handler" where
  "visibility_events emit workspaceID ch targetUserIDs privatePayload =
     (if Ch_Type ch = ChannelTypePublic then emit (WorkspaceSubject workspaceID) (channelPayloadWithoutMembers ch)
      else if Ch_Type ch = ChannelTypePrivate
      then forM (uniqueUserIDs targetUserIDs) (\<lambda>targetUserID. emit (WorkspaceUserEventsSubject workspaceID targetUserID) privatePayload)
      else returnM ())"

definition enqueueChannelCreatedVisibilityEventsTx :: "chat_env \<Rightarrow> uuid \<Rightarrow> uuid \<Rightarrow> Channel \<Rightarrow> uuid list \<Rightarrow> Payload \<Rightarrow> unit chat_handler" where
  "enqueueChannelCreatedVisibilityEventsTx env workspaceID actorID ch targetUserIDs privatePayload =
     visibility_events (\<lambda>subject payload. enqueueEventTx env TypeChannelCreated subject workspaceID (Ch_ID ch) actorID payload)
       workspaceID ch targetUserIDs privatePayload"

definition publishChannelCreatedVisibilityEvents :: "chat_env \<Rightarrow> uuid \<Rightarrow> uuid \<Rightarrow> Channel \<Rightarrow> uuid list \<Rightarrow> Payload \<Rightarrow> unit chat_handler" where
  "publishChannelCreatedVisibilityEvents env workspaceID actorID ch targetUserIDs privatePayload =
     visibility_events (\<lambda>subject payload. chat_doPublish env TypeChannelCreated subject workspaceID (Ch_ID ch) actorID payload)
       workspaceID ch targetUserIDs privatePayload"

subsection \<open>Creating and updating channels\<close>

definition new_channel :: "uuid \<Rightarrow> uuid \<Rightarrow> string \<Rightarrow> string option \<Rightarrow> ChannelType \<Rightarrow> uuid \<Rightarrow> gotime \<Rightarrow> Channel" where
  "new_channel cid workspaceID name topic chType userID now =
     \<lparr>Ch_ID = cid, Ch_WorkspaceID = Some workspaceID, Ch_Name = name, Ch_Topic = topic, Ch_Type = chType,
      Ch_CreatedBy = userID, Ch_OwnerUserID = None, Ch_Archived = False, Ch_ArchivedAt = None,
      Ch_CreatedAt = now, Ch_UpdatedAt = now, Ch_DMRequestStatus = None, Ch_LastActivityAt = None, Ch_Members = []\<rparr>"

text \<open>An unset \<open>DMRequestStatus\<close> is the empty string.\<close>

definition new_member :: "uuid \<Rightarrow> uuid \<Rightarrow> uuid \<Rightarrow> ChannelRole \<Rightarrow> gotime \<Rightarrow> DMRequestStatus \<Rightarrow> ChannelMember" where
  "new_member mid channelID userID role now status =
     \<lparr>ChM_ID = mid, ChM_ChannelID = channelID, ChM_UserID = userID, ChM_Role = role,
      ChM_LastReadAt = now, ChM_JoinedAt = now, ChM_DMRequestStatus = status\<rparr>"

definition buildInitialChannelMembers :: "chat_env \<Rightarrow> uuid \<Rightarrow> uuid \<Rightarrow> uuid \<Rightarrow> uuid list \<Rightarrow> ChannelMember list chat_handler" where
  "buildInitialChannelMembers env workspaceID creatorID channelID extraMemberIDs =
     bindM (foldM (\<lambda>acc memberID.
         if memberID = uuid_Nil \<or> memberID \<in> set (fst acc) then returnM acc
         else bindM (mapErrM (forbidden_or_internal ''selected user is not a member of this workspace''
                                 ''failed to verify selected channel member'')
                      (readM (\<lambda>s. GetMember (chat_dir env s) workspaceID memberID))) (\<lambda>_.
              bindM (chat_New env) (\<lambda>newID.
              returnM (memberID # fst acc,
                       snd acc @ [new_member newID channelID memberID ChannelRoleMember (cnow env) (DMRequestStatusOther '''')]))))
       ([creatorID], []) extraMemberIDs) (\<lambda>acc.
     returnM (snd acc))"

definition CreateChannel :: "chat_env \<Rightarrow> uuid \<Rightarrow> uuid \<Rightarrow> string \<Rightarrow> string \<Rightarrow> ChannelType \<Rightarrow> uuid list \<Rightarrow> Channel chat_handler" where
  "CreateChannel env workspaceID userID name topic chType extraMemberIDs =
     bindM (readM (\<lambda>_. validate_CreateChannelInput name topic)) (\<lambda>_.
     bindM (readM (CanAccessWorkspace env workspaceID userID)) (\<lambda>_.
     bindM (chat_New env) (\<lambda>chID.
     bindM (chat_New env) (\<lambda>memberID.
     let ch = new_channel chID workspaceID name (Some topic) chType userID (cnow env);
         member = new_member memberID chID userID ChannelRoleOwner (cnow env) (DMRequestStatusOther '''')
     in bindM (buildInitialChannelMembers env workspaceID userID chID extraMemberIDs) (\<lambda>extraMembers.
     let initialMemberIDs = initialChannelMemberIDs member extraMembers;
         payload = channelPayloadWithMembers ch initialMemberIDs
     in bindM (if ce_tx env
          then mapErrM (internal ''failed to create channel'') (Chat_WithinTx env (
                 bindM (Channels_Create env ch) (\<lambda>_.
                 bindM (Channels_AddMember env member) (\<lambda>_.
                 bindM (forM extraMembers (Channels_AddMember env)) (\<lambda>_.
                 bindM (enqueueChannelSearchTx env ch) (\<lambda>_.
                 bindM (enqueueEventTx env TypeChannelCreated (ChatSubject chID) workspaceID chID userID payload) (\<lambda>_.
                 enqueueChannelCreatedVisibilityEventsTx env workspaceID userID ch initialMemberIDs payload)))))))
          else
            bindM (mapErrM (internal ''failed to create channel'') (Channels_Create env ch)) (\<lambda>_.
            bindM (mapErrM (internal ''failed to add channel owner'') (Channels_AddMember env member)) (\<lambda>_.
            bindM (mapErrM (internal ''failed to add initial channel member'') (forM extraMembers (Channels_AddMember env))) (\<lambda>_.
            bindM (if isSearchableChannel ch
                   then enqueueSearch env (IndexChannel env workspaceID chID name topic (Ch_CreatedAt ch) (Ch_UpdatedAt ch))
                   else returnM ()) (\<lambda>_.
            bindM (publishEvent env TypeChannelCreated workspaceID chID userID payload) (\<lambda>_.
            publishChannelCreatedVisibilityEvents env workspaceID userID ch initialMemberIDs payload)))))) (\<lambda>_.
     returnM ch))))))"

text \<open>The permission of \<open>UpdateChannel\<close>: a channel owner or admin, or a workspace owner or admin.\<close>

definition may_update_channel :: "chat_env \<Rightarrow> Channel \<Rightarrow> uuid \<Rightarrow> chat_state \<Rightarrow> go_error + unit" where
  "may_update_channel env ch userID s =
     (case Channel_GetMember (chat_dir env s) (Ch_ID ch) userID of
        Inl err \<Rightarrow> Inl (forbidden_or_internal ''user is not a member of this channel'' ''failed to verify channel membership'' err)
      | Inr channelMember \<Rightarrow>
          if ChM_Role channelMember \<noteq> ChannelRoleOwner \<and> ChM_Role channelMember \<noteq> ChannelRoleAdmin
          then (case requireChannelWorkspaceID ch of
                  Inl err \<Rightarrow> Inl err
                | Inr workspaceID \<Rightarrow>
                    (case GetMember (chat_dir env s) workspaceID userID of
                       Inl err \<Rightarrow> Inl (Internal ''failed to verify workspace membership'' (Some err))
                     | Inr wsMember \<Rightarrow>
                         if WM_Role wsMember \<noteq> WorkspaceRoleOwner \<and> WM_Role wsMember \<noteq> WorkspaceRoleAdmin
                         then Inl (Forbidden ''insufficient permission to update channel'')
                         else Inr ()))
          else Inr ())"

definition UpdateChannel :: "chat_env \<Rightarrow> uuid \<Rightarrow> uuid \<Rightarrow> string \<Rightarrow> string \<Rightarrow> bool option \<Rightarrow> Channel chat_handler" where
  "UpdateChannel env channelID userID name topic archived =
     bindM (readM (authorizeChannel env channelID userID CapabilityManage)) (\<lambda>decision.
     let ch0 = CD_Channel decision;
         isUnarchive = (archived = Some False \<and> Ch_Archived ch0)
     in bindM (readM (\<lambda>_. if \<not> isUnarchive then validate_CreateChannelInput name topic else Inr ())) (\<lambda>_.
     bindM (failIf (Ch_Type ch0 = ChannelTypeDM) (Forbidden ''direct messages cannot be renamed'')) (\<lambda>_.
     bindM (failIf (Ch_Archived ch0 \<and> \<not> isUnarchive) (Forbidden ''cannot update an archived channel'')) (\<lambda>_.
     bindM (readM (may_update_channel env ch0 userID)) (\<lambda>_.
     let ch1 = (if \<not> isUnarchive then ch0\<lparr>Ch_Name := name, Ch_Topic := Some topic\<rparr> else ch0);
         ch = (case archived of None \<Rightarrow> ch1 | Some b \<Rightarrow> ch1\<lparr>Ch_Archived := b\<rparr>)
     in bindM (readM (\<lambda>_. requireChannelWorkspaceID ch)) (\<lambda>workspaceID.
     if ce_tx env
     then mapErrM (app_or_internal ''failed to update channel'') (Chat_WithinTx env (
            bindM (Channels_Update env ch) (\<lambda>ch'.
            bindM (enqueueChannelSearchSyncTx env ch') (\<lambda>_.
            bindM (enqueueEventTx env TypeChannelUpdated (ChatSubject (Ch_ID ch')) workspaceID (Ch_ID ch') userID (ChannelPayload ch')) (\<lambda>_.
            returnM ch')))))
     else
       bindM (mapErrM (app_or_internal ''failed to update channel'') (Channels_Update env ch)) (\<lambda>ch'.
       bindM (enqueueChannelSearchSync env workspaceID ch') (\<lambda>_.
       bindM (publishEvent env TypeChannelUpdated workspaceID (Ch_ID ch') userID (ChannelPayload ch')) (\<lambda>_.
       returnM ch')))))))))"

subsection \<open>Listing channels\<close>

definition hydrate_dm :: "chat_env \<Rightarrow> Channel \<Rightarrow> chat_state \<Rightarrow> go_error + Channel" where
  "hydrate_dm env ch s =
     (if Ch_Type ch \<noteq> ChannelTypeDM \<and> Ch_Type ch \<noteq> ChannelTypeGroupDM then Inr ch
      else (case Channels_ListMembers env (Ch_ID ch) s of
              Inl err \<Rightarrow> Inl (Internal ''failed to list DM channel members'' (Some err))
            | Inr members \<Rightarrow> Inr (ch\<lparr>Ch_Members := map ChM_UserID members\<rparr>)))"

fun hydrateDMMembers :: "chat_env \<Rightarrow> Channel list \<Rightarrow> chat_state \<Rightarrow> go_error + Channel list" where
  "hydrateDMMembers env [] s = Inr []"
| "hydrateDMMembers env (ch # chs) s =
     (case hydrate_dm env ch s of
        Inl err \<Rightarrow> Inl err
      | Inr ch' \<Rightarrow> (case hydrateDMMembers env chs s of Inl err \<Rightarrow> Inl err | Inr chs' \<Rightarrow> Inr (ch' # chs')))"

definition GetChannel :: "chat_env \<Rightarrow> uuid \<Rightarrow> uuid \<Rightarrow> chat_state \<Rightarrow> go_error + Channel" where
  "GetChannel env channelID userID s =
     (case GetAccessibleChannel env channelID userID s of
        Inl err \<Rightarrow> Inl err
      | Inr ch \<Rightarrow> hydrate_dm env ch s)"

text \<open>A failed lookup leaves the timestamps unset.\<close>

definition stampLastActivity :: "chat_env \<Rightarrow> Channel list \<Rightarrow> chat_state \<Rightarrow> Channel list" where
  "stampLastActivity env channels s =
     (if channels = [] then channels
      else (case LastActivityByChannels env (map Ch_ID channels) s of
              Inl _ \<Rightarrow> channels
            | Inr activity \<Rightarrow>
                map (\<lambda>ch. case activity (Ch_ID ch) of None \<Rightarrow> ch | Some t \<Rightarrow> ch\<lparr>Ch_LastActivityAt := Some t\<rparr>) channels))"

text \<open>The loop that keeps the channels the policy lets the user view.\<close>

fun filter_viewable :: "(Channel \<Rightarrow> go_error + ChannelDecision) \<Rightarrow> Channel list \<Rightarrow> go_error + Channel list" where
  "filter_viewable decide [] = Inr []"
| "filter_viewable decide (ch # chs) =
     (case decide ch of
        Inr _ \<Rightarrow> (case filter_viewable decide chs of Inl err \<Rightarrow> Inl err | Inr chs' \<Rightarrow> Inr (ch # chs'))
      | Inl err \<Rightarrow>
          if \<not> has_code CodeForbidden err \<and> \<not> has_code CodeNotFound err then Inl err
          else filter_viewable decide chs)"

definition list_channels_raw :: "chat_env \<Rightarrow> uuid \<Rightarrow> uuid \<Rightarrow> chat_state \<Rightarrow> go_error + Channel list" where
  "list_channels_raw env workspaceID userID s =
     (let d = chat_dir env s;
          byUser = (case ListByUser d workspaceID userID of
                      Inl err \<Rightarrow> Inl (Internal ''failed to list channels'' (Some err))
                    | Inr result \<Rightarrow> Inr result)
      in if \<not> ce_access env then byUser
         else (case WorkspaceAccess (chat_checker env s) d workspaceID userID of
                 Inr SubjectMember \<Rightarrow>
                   (case byUser of
                      Inl err \<Rightarrow> Inl err
                    | Inr result \<Rightarrow>
                        filter_viewable (\<lambda>ch. Checker_Channel (chat_checker env s) d (ce_pathWorkspace env) (Ch_ID ch) userID CapabilityView) result)
               | Inr _ \<Rightarrow> ListChannels (chat_checker env s) d (ce_pathWorkspace env) workspaceID userID CapabilityView
               | Inl accessErr \<Rightarrow>
                   if \<not> has_code CodeForbidden accessErr then Inl accessErr
                   else ListChannels (chat_checker env s) d (ce_pathWorkspace env) workspaceID userID CapabilityView))"

definition Chat_ListChannels :: "chat_env \<Rightarrow> uuid \<Rightarrow> uuid \<Rightarrow> chat_state \<Rightarrow> go_error + Channel list" where
  "Chat_ListChannels env workspaceID userID s =
     (case list_channels_raw env workspaceID userID s of
        Inl err \<Rightarrow> Inl err
      | Inr channels \<Rightarrow>
          (case hydrateDMMembers env (filter (\<lambda>ch. \<not> Ch_Archived ch) channels) s of
             Inl err \<Rightarrow> Inl err
           | Inr visible \<Rightarrow> Inr (stampLastActivity env visible s)))"

subsection \<open>Membership\<close>

definition JoinChannel :: "chat_env \<Rightarrow> uuid \<Rightarrow> uuid \<Rightarrow> unit chat_handler" where
  "JoinChannel env channelID userID =
     bindM (mapErrM (notfound_or_internal ''channel not found'' ''failed to get channel'')
             (readM (\<lambda>s. Channel_GetByID (chat_dir env s) channelID))) (\<lambda>ch.
     bindM (failIf (Ch_Type ch \<noteq> ChannelTypePublic) (Forbidden ''can only join public channels'')) (\<lambda>_.
     bindM (readM (\<lambda>_. requireChannelWorkspaceID ch)) (\<lambda>workspaceID.
     bindM (readM (CanAccessWorkspace env workspaceID userID)) (\<lambda>_.
     bindM (failIf (Ch_Archived ch) (Forbidden ''cannot join an archived channel'')) (\<lambda>_.
     bindM (readM (\<lambda>s. case Channel_GetMember (chat_dir env s) channelID userID of
               Inr _ \<Rightarrow> Inl (AlreadyExists ''user is already a member of this channel'')
             | Inl err \<Rightarrow> if \<not> has_code CodeNotFound err then Inl (Internal ''failed to check channel membership'' (Some err))
                          else Inr ())) (\<lambda>_.
     bindM (chat_New env) (\<lambda>memberID.
     let member = new_member memberID channelID userID ChannelRoleMember (cnow env) (DMRequestStatusOther '''');
         payload = MemberPayload channelID userID
     in if ce_tx env
        then mapErrM (app_or_internal ''failed to add channel member'') (Chat_WithinTx env (
               bindM (Channels_AddMember env member) (\<lambda>_.
               enqueueEventTx env TypeMemberJoined (ChatSubject channelID) workspaceID channelID userID payload)))
        else
          bindM (mapErrM (internal ''failed to add channel member'') (Channels_AddMember env member)) (\<lambda>_.
          publishEvent env TypeMemberJoined workspaceID channelID userID payload))))))))"

definition LeaveChannel :: "chat_env \<Rightarrow> uuid \<Rightarrow> uuid \<Rightarrow> unit chat_handler" where
  "LeaveChannel env channelID userID =
     bindM (mapErrM (notfound_or_internal ''channel not found'' ''failed to get channel'')
             (readM (\<lambda>s. Channel_GetByID (chat_dir env s) channelID))) (\<lambda>ch.
     bindM (readM (\<lambda>_. requireChannelWorkspaceID ch)) (\<lambda>workspaceID.
     let payload = MemberPayload channelID userID;
         onErr = notfound_or_internal ''user is not a member of this channel'' ''failed to remove channel member''
     in if ce_tx env
        then mapErrM onErr (Chat_WithinTx env (
               bindM (Channels_RemoveMember env channelID userID) (\<lambda>_.
               bindM (enqueueEventTx env TypeMemberLeft (ChatSubject channelID) workspaceID channelID userID payload) (\<lambda>_.
               enqueueEventTx env TypeMemberLeft (WorkspaceUserEventsSubject workspaceID userID) workspaceID channelID userID payload))))
        else
          bindM (mapErrM onErr (Channels_RemoveMember env channelID userID)) (\<lambda>_.
          bindM (publishEvent env TypeMemberLeft workspaceID channelID userID payload) (\<lambda>_.
          publishToUserEvents env TypeMemberLeft workspaceID channelID userID payload))))"

definition ListChannelMembers :: "chat_env \<Rightarrow> uuid \<Rightarrow> uuid \<Rightarrow> chat_state \<Rightarrow> go_error + ChannelMember list" where
  "ListChannelMembers env channelID userID s =
     (case authorizeChannel env channelID userID CapabilityView s of
        Inl err \<Rightarrow> Inl err
      | Inr _ \<Rightarrow>
          (case Channels_ListMembers env channelID s of
             Inl err \<Rightarrow> Inl (Internal ''failed to list channel members'' (Some err))
           | Inr members \<Rightarrow> Inr members))"

definition currentChannelMemberIDs :: "chat_env \<Rightarrow> uuid \<Rightarrow> chat_state \<Rightarrow> go_error + uuid list" where
  "currentChannelMemberIDs env channelID s =
     (case Channels_ListMembers env channelID s of Inl err \<Rightarrow> Inl err | Inr members \<Rightarrow> Inr (map ChM_UserID members))"

text \<open>The guards \<open>AddChannelMembers\<close> and \<open>RemoveChannelMember\<close> share.\<close>

definition require_member_manager :: "chat_env \<Rightarrow> uuid \<Rightarrow> uuid \<Rightarrow> string \<Rightarrow> chat_state \<Rightarrow> go_error + ChannelDecision \<times> uuid" where
  "require_member_manager env channelID actorID refusal s =
     (case authorizeChannel env channelID actorID CapabilityParticipate s of
        Inl err \<Rightarrow> Inl err
      | Inr decision \<Rightarrow>
          if \<not> canManageChannelMembers (CD_ChannelMember decision) then Inl (Forbidden refusal)
          else if Ch_Type (CD_Channel decision) \<noteq> ChannelTypePublic \<and> Ch_Type (CD_Channel decision) \<noteq> ChannelTypePrivate
          then Inl (Forbidden ''members can only be managed for workspace channels'')
          else (case requireChannelWorkspaceID (CD_Channel decision) of
                  Inl err \<Rightarrow> Inl err
                | Inr workspaceID \<Rightarrow> Inr (decision, workspaceID)))"

text \<open>
  The loop that selects the members to add: nil and repeated ids, the actor and existing members are
  skipped, a user who is no workspace member stops it.
\<close>

definition select_new_members :: "chat_env \<Rightarrow> uuid \<Rightarrow> uuid \<Rightarrow> uuid \<Rightarrow> uuid list \<Rightarrow> ChannelMember list chat_handler" where
  "select_new_members env workspaceID channelID actorID targetIDs =
     bindM (foldM (\<lambda>acc targetID.
         if targetID = uuid_Nil \<or> targetID \<in> set (fst acc) then returnM acc
         else if targetID = actorID then returnM (targetID # fst acc, snd acc)
         else bindM (mapErrM (forbidden_or_internal ''selected user is not a member of this workspace''
                                 ''failed to verify selected channel member'')
                      (readM (\<lambda>s. GetMember (chat_dir env s) workspaceID targetID))) (\<lambda>_.
              bindM (tryM (readM (\<lambda>s. Channel_GetMember (chat_dir env s) channelID targetID))) (\<lambda>existing.
              case existing of
                Inr _ \<Rightarrow> returnM (targetID # fst acc, snd acc)
              | Inl err \<Rightarrow>
                  if \<not> has_code CodeNotFound err then throwM (Internal ''failed to check existing channel member'' (Some err))
                  else bindM (chat_New env) (\<lambda>newID.
                       returnM (targetID # fst acc,
                         snd acc @ [new_member newID channelID targetID ChannelRoleMember (cnow env) (DMRequestStatusOther '''')])))))
       ([], []) targetIDs) (\<lambda>acc.
     returnM (snd acc))"

definition AddChannelMembers :: "chat_env \<Rightarrow> uuid \<Rightarrow> uuid \<Rightarrow> uuid list \<Rightarrow> ChannelMember list chat_handler" where
  "AddChannelMembers env channelID actorID targetIDs =
     bindM (readM (require_member_manager env channelID actorID ''only channel owners and admins can add members'')) (\<lambda>dw.
     let decision = fst dw; workspaceID = snd dw
     in bindM (select_new_members env workspaceID channelID actorID targetIDs) (\<lambda>members.
     if members = [] then returnM []
     else bindM
       (if ce_tx env
        then mapErrM (app_or_internal ''failed to add channel members'') (Chat_WithinTx env (
               bindM (forM members (Channels_AddMember env)) (\<lambda>_.
               bindM (forM members (\<lambda>member.
                 enqueueEventTx env TypeMemberJoined (ChatSubject channelID) workspaceID channelID (ChM_UserID member)
                   (MemberPayload channelID (ChM_UserID member)))) (\<lambda>_.
               bindM (readM (currentChannelMemberIDs env channelID)) (\<lambda>memberIDs.
               enqueueChannelCreatedVisibilityEventsTx env workspaceID actorID (CD_Channel decision) (channelMemberUserIDs members)
                 (channelPayloadWithMembers (CD_Channel decision) memberIDs))))))
        else
          bindM (mapErrM (internal ''failed to add channel members'') (forM members (Channels_AddMember env))) (\<lambda>_.
          bindM (mapErrM (internal ''failed to list channel members'') (readM (currentChannelMemberIDs env channelID))) (\<lambda>memberIDs.
          bindM (forM members (\<lambda>member.
            publishEvent env TypeMemberJoined workspaceID channelID (ChM_UserID member)
              (MemberPayload channelID (ChM_UserID member)))) (\<lambda>_.
          publishChannelCreatedVisibilityEvents env workspaceID actorID (CD_Channel decision) (channelMemberUserIDs members)
            (channelPayloadWithMembers (CD_Channel decision) memberIDs))))) (\<lambda>_.
     returnM members)))"

definition RemoveChannelMember :: "chat_env \<Rightarrow> uuid \<Rightarrow> uuid \<Rightarrow> uuid \<Rightarrow> unit chat_handler" where
  "RemoveChannelMember env channelID actorID targetID =
     bindM (failIf (actorID = targetID) (Forbidden ''use leave channel to remove yourself'')) (\<lambda>_.
     bindM (readM (require_member_manager env channelID actorID ''only channel owners and admins can remove members'')) (\<lambda>dw.
     let workspaceID = snd dw
     in bindM (mapErrM (notfound_or_internal ''channel member not found'' ''failed to get channel member'')
                (readM (\<lambda>s. Channel_GetMember (chat_dir env s) channelID targetID))) (\<lambda>targetMember.
     bindM (failIf (ChM_Role targetMember = ChannelRoleOwner) (Forbidden ''channel owner cannot be removed'')) (\<lambda>_.
     let payload = MemberPayload channelID targetID
     in if ce_tx env
        then mapErrM (app_or_internal ''failed to remove channel member'') (Chat_WithinTx env (
               bindM (Channels_RemoveMember env channelID targetID) (\<lambda>_.
               bindM (enqueueEventTx env TypeMemberLeft (ChatSubject channelID) workspaceID channelID targetID payload) (\<lambda>_.
               enqueueEventTx env TypeMemberLeft (WorkspaceUserEventsSubject workspaceID targetID) workspaceID channelID targetID payload))))
        else
          bindM (mapErrM (notfound_or_internal ''channel member not found'' ''failed to remove channel member'')
                  (Channels_RemoveMember env channelID targetID)) (\<lambda>_.
          bindM (publishEvent env TypeMemberLeft workspaceID channelID targetID payload) (\<lambda>_.
          publishToUserEvents env TypeMemberLeft workspaceID channelID targetID payload))))))"

subsection \<open>Direct messages\<close>

definition new_grant :: "chat_env \<Rightarrow> uuid \<Rightarrow> uuid \<Rightarrow> uuid \<Rightarrow> uuid \<Rightarrow> uuid \<Rightarrow> uuid \<Rightarrow> bool \<Rightarrow> ChannelAccessGrant" where
  "new_grant env gid channelID workspaceID remoteWorkspaceID sourceUserID targetUserID allowCalls =
     \<lparr>AG_ID = gid, AG_ChannelID = channelID, AG_WorkspaceID = workspaceID, AG_UserID = targetUserID,
      AG_SourceUserID = sourceUserID, AG_RemoteWorkspaceID = remoteWorkspaceID,
      AG_Kind = ChannelAccessGrantKindCollaborationDM, AG_AllowCalls = allowCalls, AG_CreatedAt = cnow env\<rparr>"

definition ensureChannelAccessGrant :: "chat_env \<Rightarrow> uuid \<Rightarrow> uuid \<Rightarrow> uuid \<Rightarrow> uuid \<Rightarrow> uuid \<Rightarrow> bool \<Rightarrow> unit chat_handler" where
  "ensureChannelAccessGrant env channelID workspaceID remoteWorkspaceID sourceUserID targetUserID allowCalls =
     bindM (tryM (readM (GetGrant env channelID targetUserID))) (\<lambda>r.
     case r of
       Inr _ \<Rightarrow> returnM ()
     | Inl err \<Rightarrow>
         if \<not> has_code CodeNotFound err then throwM (Internal ''failed to verify collaboration access'' (Some err))
         else bindM (chat_New env) (\<lambda>gid.
              mapErrM (internal ''failed to create collaboration access'')
                (CreateGrant env (new_grant env gid channelID workspaceID remoteWorkspaceID sourceUserID targetUserID allowCalls))))"

definition ensureChannelAccessGrantTx :: "chat_env \<Rightarrow> uuid \<Rightarrow> uuid \<Rightarrow> uuid \<Rightarrow> uuid \<Rightarrow> uuid \<Rightarrow> bool \<Rightarrow> unit chat_handler" where
  "ensureChannelAccessGrantTx env channelID workspaceID remoteWorkspaceID sourceUserID targetUserID allowCalls =
     bindM (tryM (readM (GetGrant env channelID targetUserID))) (\<lambda>r.
     case r of
       Inr _ \<Rightarrow> returnM ()
     | Inl err \<Rightarrow>
         if \<not> has_code CodeNotFound err then throwM err
         else bindM (chat_New env) (\<lambda>gid.
              CreateGrant env (new_grant env gid channelID workspaceID remoteWorkspaceID sourceUserID targetUserID allowCalls)))"

definition stampDMRequestStatus :: "chat_env \<Rightarrow> Channel \<Rightarrow> uuid \<Rightarrow> chat_state \<Rightarrow> go_error + Channel" where
  "stampDMRequestStatus env ch userID s =
     (if Ch_Type ch \<noteq> ChannelTypeDM then Inr ch
      else (case Channel_GetMember (chat_dir env s) (Ch_ID ch) userID of
              Inl err \<Rightarrow> if has_code CodeNotFound err then Inr ch
                         else Inl (Internal ''failed to load DM request status'' (Some err))
            | Inr member \<Rightarrow> Inr (ch\<lparr>Ch_DMRequestStatus := dmRequestStatusPtr (normalizeDMRequestStatus (ChM_DMRequestStatus member))\<rparr>)))"

text \<open>Who may open a direct message with whom; the answer is the other side's workspace.\<close>

definition dm_remote_workspace :: "chat_env \<Rightarrow> uuid \<Rightarrow> uuid \<Rightarrow> uuid \<Rightarrow> uuid option \<Rightarrow> chat_state \<Rightarrow> go_error + uuid" where
  "dm_remote_workspace env workspaceID userA userB targetWorkspaceID s =
     (let remoteWorkspaceID = (case targetWorkspaceID of None \<Rightarrow> workspaceID
                               | Some t \<Rightarrow> if t \<noteq> uuid_Nil then t else workspaceID)
      in if remoteWorkspaceID = workspaceID
         then (case CanAccessWorkspace env workspaceID userB s of
                 Inl _ \<Rightarrow> Inl (Forbidden ''target user is not a member of this workspace'')
               | Inr _ \<Rightarrow> Inr remoteWorkspaceID)
         else (case CanAccessWorkspace env remoteWorkspaceID userB s of
                 Inl _ \<Rightarrow> Inl (Forbidden ''target user is not a member of the target workspace'')
               | Inr _ \<Rightarrow>
                   if \<not> ce_contacts env \<or> \<not> ce_channelGrants env
                   then Inl (Unavailable ''cross-workspace collaboration is unavailable'')
                   else (case CanShareChannel (chat_dir env s) workspaceID remoteWorkspaceID userA userB of
                           Inl err \<Rightarrow> Inl err
                         | Inr _ \<Rightarrow> Inr remoteWorkspaceID)))"

text \<open>The branch of \<open>GetOrCreateDM\<close> that creates the channel.\<close>

definition create_dm :: "chat_env \<Rightarrow> uuid \<Rightarrow> uuid \<Rightarrow> uuid \<Rightarrow> uuid \<Rightarrow> Channel chat_handler" where
  "create_dm env workspaceID remoteWorkspaceID userA userB =
     bindM (chat_New env) (\<lambda>chID.
     bindM (chat_New env) (\<lambda>idA.
     bindM (chat_New env) (\<lambda>idB.
     let crossWorkspace = (remoteWorkspaceID \<noteq> workspaceID);
         ch = (new_channel chID workspaceID '''' None ChannelTypeDM userA (cnow env))
                \<lparr>Ch_Members := [userA, userB], Ch_DMRequestStatus := Some DMRequestStatusAccepted\<rparr>;
         members = [new_member idA chID userA ChannelRoleMember (cnow env) DMRequestStatusAccepted,
                    new_member idB chID userB ChannelRoleMember (cnow env) DMRequestStatusPending];
         recipientChannel = ch\<lparr>Ch_DMRequestStatus := dmRequestStatusPtr DMRequestStatusPending\<rparr>;
         recipientPayload = channelPayloadWithMembers recipientChannel (Ch_Members ch)
     in bindM (if ce_tx env
          then mapErrM (internal ''failed to create DM channel'') (Chat_WithinTx env (
                 bindM (Channels_Create env ch) (\<lambda>_.
                 bindM (forM members (Channels_AddMember env)) (\<lambda>_.
                 bindM (if crossWorkspace then ensureChannelAccessGrantTx env chID workspaceID remoteWorkspaceID userA userB True
                        else returnM ()) (\<lambda>_.
                 bindM (enqueueChannelSearchTx env ch) (\<lambda>_.
                 enqueueEventTx env TypeChannelCreated (WorkspaceUserEventsSubject workspaceID userB) workspaceID chID userA recipientPayload))))))
          else
            bindM (mapErrM (internal ''failed to create DM channel'') (Channels_Create env ch)) (\<lambda>_.
            bindM (mapErrM (internal ''failed to add DM member'') (forM members (Channels_AddMember env))) (\<lambda>_.
            bindM (if crossWorkspace then ensureChannelAccessGrant env chID workspaceID remoteWorkspaceID userA userB True
                   else returnM ()) (\<lambda>_.
            bindM (enqueueSearch env (IndexChannel env workspaceID chID (Ch_Name ch) (derefTopicOrEmpty (Ch_Topic ch))
                     (Ch_CreatedAt ch) (Ch_UpdatedAt ch))) (\<lambda>_.
            chat_doPublish env TypeChannelCreated (WorkspaceUserEventsSubject workspaceID userB) workspaceID chID userA recipientPayload))))) (\<lambda>_.
     returnM ch))))"

definition GetOrCreateDM :: "chat_env \<Rightarrow> uuid \<Rightarrow> uuid \<Rightarrow> uuid \<Rightarrow> uuid option \<Rightarrow> Channel chat_handler" where
  "GetOrCreateDM env workspaceID userA userB targetWorkspaceID =
     bindM (failIf (userA = userB) (InvalidInput ''cannot create a DM with yourself'')) (\<lambda>_.
     bindM (readM (CanAccessWorkspace env workspaceID userA)) (\<lambda>_.
     bindM (readM (dm_remote_workspace env workspaceID userA userB targetWorkspaceID)) (\<lambda>remoteWorkspaceID.
     bindM (tryM (readM (GetDMChannel env workspaceID userA userB))) (\<lambda>r.
     case r of
       Inl err \<Rightarrow>
         if \<not> has_code CodeNotFound err then throwM (Internal ''failed to look up DM channel'' (Some err))
         else create_dm env workspaceID remoteWorkspaceID userA userB
     | Inr ch \<Rightarrow>
         bindM (if remoteWorkspaceID \<noteq> workspaceID
                then ensureChannelAccessGrant env (Ch_ID ch) workspaceID remoteWorkspaceID userA userB True
                else returnM ()) (\<lambda>_.
         bindM (readM (stampDMRequestStatus env ch userA)) (\<lambda>ch1.
         readM (hydrate_dm env ch1)))))))"

definition updateDMRequestStatus :: "chat_env \<Rightarrow> uuid \<Rightarrow> uuid \<Rightarrow> uuid \<Rightarrow> DMRequestStatus \<Rightarrow> Channel chat_handler" where
  "updateDMRequestStatus env workspaceID channelID userID status =
     bindM (readM (authorizeChannel env channelID userID CapabilityView)) (\<lambda>decision.
     case CD_ChannelMember decision of
       None \<Rightarrow> throwM (NotFound ''dm request not found'')
     | Some member \<Rightarrow>
         bindM (failIf (Ch_Type (CD_Channel decision) \<noteq> ChannelTypeDM) (Forbidden ''only DM requests can be managed'')) (\<lambda>_.
         bindM (readM (\<lambda>_. requireChannelWorkspaceID (CD_Channel decision))) (\<lambda>channelWorkspaceID.
         bindM (failIf (channelWorkspaceID \<noteq> workspaceID) (NotFound ''channel not found'')) (\<lambda>_.
         bindM (if normalizeDMRequestStatus (ChM_DMRequestStatus member) \<noteq> status
                then mapErrM (app_or_internal ''failed to update DM request status'') (UpdateDMRequestStatus env channelID userID status)
                else returnM ()) (\<lambda>_.
         bindM (readM (hydrate_dm env ((CD_Channel decision)\<lparr>Ch_DMRequestStatus := dmRequestStatusPtr status\<rparr>))) (\<lambda>channel.
         bindM (publishEvent env TypeChannelUpdated workspaceID channelID userID (ChannelPayload channel)) (\<lambda>_.
         bindM (publishToUserEvents env TypeChannelUpdated workspaceID channelID userID (ChannelPayload channel)) (\<lambda>_.
         returnM channel))))))))"

definition AcceptDMRequest :: "chat_env \<Rightarrow> uuid \<Rightarrow> uuid \<Rightarrow> uuid \<Rightarrow> Channel chat_handler" where
  "AcceptDMRequest env workspaceID channelID userID =
     updateDMRequestStatus env workspaceID channelID userID DMRequestStatusAccepted"

definition BlockDMRequest :: "chat_env \<Rightarrow> uuid \<Rightarrow> uuid \<Rightarrow> uuid \<Rightarrow> Channel chat_handler" where
  "BlockDMRequest env workspaceID channelID userID =
     updateDMRequestStatus env workspaceID channelID userID DMRequestStatusBlocked"

subsection \<open>Read marks\<close>

definition updateLastRead :: "chat_env \<Rightarrow> ChannelDecision \<Rightarrow> uuid \<Rightarrow> unit chat_handler" where
  "updateLastRead env decision userID =
     (if CD_Subject decision = SubjectMember \<and> CD_ChannelMember decision \<noteq> None
      then UpdateLastRead env (Ch_ID (CD_Channel decision)) userID
      else if \<not> ce_readStates env then returnM ()
      else UpsertState env (Ch_ID (CD_Channel decision)) userID (Some (cnow env)))"

definition MarkRead :: "chat_env \<Rightarrow> uuid \<Rightarrow> uuid \<Rightarrow> unit chat_handler" where
  "MarkRead env channelID userID =
     bindM (readM (authorizeChannel env channelID userID CapabilityParticipate)) (\<lambda>decision.
     bindM (mapErrM (internal ''failed to mark as read'') (updateLastRead env decision userID)) (\<lambda>_.
     case Ch_WorkspaceID (CD_Channel decision) of
       None \<Rightarrow> returnM ()
     | Some ws \<Rightarrow> publishEvent env TypeChannelRead ws channelID userID (ChannelReadPayload channelID userID (cnow env))))"

definition lastReadAt :: "chat_env \<Rightarrow> uuid \<Rightarrow> uuid \<Rightarrow> chat_state \<Rightarrow> go_error + gotime" where
  "lastReadAt env channelID userID s =
     (case Channel_GetMember (chat_dir env s) channelID userID of
        Inr member \<Rightarrow> Inr (ChM_LastReadAt member)
      | Inl err \<Rightarrow>
          if \<not> has_code CodeNotFound err then Inl err
          else if \<not> ce_readStates env then Inr time_Zero
          else (case GetState env channelID userID s of
                  Inl err' \<Rightarrow> if has_code CodeNotFound err' then Inr time_Zero else Inl err'
                | Inr st \<Rightarrow> Inr (CAS_LastReadAt st)))"

definition listChannelsForUnread :: "chat_env \<Rightarrow> uuid \<Rightarrow> uuid \<Rightarrow> chat_state \<Rightarrow> go_error + Channel list" where
  "listChannelsForUnread env workspaceID userID s =
     (if ce_access env
      then ListChannels (chat_checker env s) (chat_dir env s) (ce_pathWorkspace env) workspaceID userID CapabilityParticipate
      else Chat_ListChannels env workspaceID userID s)"

record UnreadCount =
  UC_ChannelID :: uuid
  UC_UnreadCount :: nat
  UC_LastReadAt :: gotime

text \<open>
  The batch covers the memberships; a channel it does not cover falls back to one query, and a failing
  fallback drops the channel. \<open>covered\<close> is a map, so the last summary of a channel wins.
\<close>

definition unread_of :: "chat_env \<Rightarrow> UnreadSummary list \<Rightarrow> uuid \<Rightarrow> chat_state \<Rightarrow> Channel \<Rightarrow> UnreadCount option" where
  "unread_of env summaries userID s ch =
     (case find (\<lambda>u. US_ChannelID u = Ch_ID ch) (rev summaries) of
        Some u \<Rightarrow>
          if US_Unread u > 0
          then Some \<lparr>UC_ChannelID = Ch_ID ch, UC_UnreadCount = US_Unread u, UC_LastReadAt = US_LastReadAt u\<rparr> else None
      | None \<Rightarrow>
          (case lastReadAt env (Ch_ID ch) userID s of
             Inl _ \<Rightarrow> None
           | Inr since \<Rightarrow>
               (case CountUnread env (Ch_ID ch) userID since s of
                  Inl _ \<Rightarrow> None
                | Inr unread \<Rightarrow>
                    if unread > 0 then Some \<lparr>UC_ChannelID = Ch_ID ch, UC_UnreadCount = unread, UC_LastReadAt = since\<rparr> else None)))"

definition GetUnreadCounts :: "chat_env \<Rightarrow> uuid \<Rightarrow> uuid \<Rightarrow> chat_state \<Rightarrow> go_error + UnreadCount list" where
  "GetUnreadCounts env workspaceID userID s =
     (case listChannelsForUnread env workspaceID userID s of
        Inl err \<Rightarrow> Inl err
      | Inr channels \<Rightarrow>
          (case BatchUnreadCounts env workspaceID userID s of
             Inl err \<Rightarrow> Inl (Internal ''failed to count unread'' (Some err))
           | Inr summaries \<Rightarrow> Inr (List.map_filter (unread_of env summaries userID s) channels)))"

end
