(* ===== verification/Messages.thy ===== *)
theory Messages
  imports Channels
begin

text \<open>
  The message half of \<open>service/chat/service.go\<close>: sending, editing, moving and deleting messages, files and
  profile cards on them, reactions, pins, and the paged reads with their hydration.
\<close>

subsection \<open>Access to a message\<close>

definition requireMessageAccessWithCapability :: "chat_env \<Rightarrow> uuid \<Rightarrow> uuid \<Rightarrow> Capability \<Rightarrow> chat_state \<Rightarrow> go_error + Message \<times> Channel" where
  "requireMessageAccessWithCapability env messageID userID capability s =
     (case ChatMessages_GetByID env messageID s of
        Inl err \<Rightarrow> Inl (notfound_or_internal ''message not found'' ''failed to get message'' err)
      | Inr msg \<Rightarrow>
          if Msg_DeletedAt msg \<noteq> None then Inl (NotFound ''message has been deleted'')
          else (case authorizeChannel env (Msg_ChannelID msg) userID capability s of
                  Inl err \<Rightarrow> Inl err
                | Inr decision \<Rightarrow> Inr (msg, CD_Channel decision)))"

definition requireMessageAccess :: "chat_env \<Rightarrow> uuid \<Rightarrow> uuid \<Rightarrow> chat_state \<Rightarrow> go_error + Message \<times> Channel" where
  "requireMessageAccess env messageID userID = requireMessageAccessWithCapability env messageID userID CapabilityView"

definition requireOwnMessageAccess :: "chat_env \<Rightarrow> uuid \<Rightarrow> uuid \<Rightarrow> Capability \<Rightarrow> chat_state \<Rightarrow> go_error + Message \<times> Channel" where
  "requireOwnMessageAccess env messageID userID capability s =
     (case requireMessageAccessWithCapability env messageID userID capability s of
        Inl err \<Rightarrow> Inl err
      | Inr (msg, ch) \<Rightarrow>
          if Msg_UserID msg \<noteq> userID then Inl (Forbidden ''can only modify your own messages'') else Inr (msg, ch))"

subsection \<open>Mentions\<close>

definition mergeUniqueUUIDs :: "uuid list \<Rightarrow> uuid list \<Rightarrow> uuid list" where
  "mergeUniqueUUIDs base extras = base @ dedup_seen id base extras"

text \<open>A failing presence lookup is logged and counts as nobody online.\<close>

definition resolveHereRecipients :: "chat_env \<Rightarrow> Message \<Rightarrow> Channel \<Rightarrow> chat_state \<Rightarrow> go_error + uuid list" where
  "resolveHereRecipients env msg ch s =
     (case (ce_presence env, Ch_WorkspaceID ch) of
        (Some onlineMemberIDs, Some ws) \<Rightarrow>
          if \<not> mention_match ''here'' (Msg_Content msg) then Inr []
          else (case onlineMemberIDs ws of
                  Inl _ \<Rightarrow> Inr []
                | Inr online \<Rightarrow>
                    if online = [] then Inr []
                    else (case Channels_ListMembers env (Msg_ChannelID msg) s of
                            Inl err \<Rightarrow> Inl (Internal ''failed to list channel members for @here'' (Some err))
                          | Inr members \<Rightarrow>
                              Inr (filter (\<lambda>u. u \<noteq> Msg_UserID msg \<and> u \<in> set online) (map ChM_UserID members))))
      | _ \<Rightarrow> Inr [])"

definition hydrateMessageMentions :: "chat_env \<Rightarrow> Message \<Rightarrow> Channel \<Rightarrow> chat_state \<Rightarrow> go_error + Message" where
  "hydrateMessageMentions env msg0 ch s =
     (let msg = msg0\<lparr>Msg_Mentions := []\<rparr>
      in if IsSelfChannel (Ch_Type ch) \<or> CHR ''@'' \<notin> set (Msg_Content msg) then Inr msg
         else (case ResolveMentions env (Msg_ChannelID msg) (Msg_UserID msg) (Msg_Content msg) s of
                 Inl err \<Rightarrow> Inl (Internal ''failed to resolve message mentions'' (Some err))
               | Inr mentions \<Rightarrow>
                   (case resolveHereRecipients env msg ch s of
                      Inl err \<Rightarrow> Inl err
                    | Inr here \<Rightarrow>
                        if here \<noteq> []
                        then Inr (msg\<lparr>Msg_HereRecipients := here, Msg_Mentions := mergeUniqueUUIDs mentions here\<rparr>)
                        else Inr (msg\<lparr>Msg_Mentions := mentions\<rparr>))))"

subsection \<open>Sending\<close>

record ParsedQuotedSnapshotInput =
  PQ_UserID :: uuid
  PQ_ContentExcerpt :: string
  PQ_CreatedAt :: gotime
  PQ_ParentMessageID :: "uuid option"

text \<open>\<open>SMI_ProfileShare\<close> is the user id of the optional \<open>ProfileShareInput\<close>.\<close>

record SendMessageInput =
  SMI_Content :: string
  SMI_Type :: string
  SMI_ParentID :: "uuid option"
  SMI_ForwardedFrom :: "string option"
  SMI_QuotedMessageID :: "uuid option"
  SMI_QuotedSnapshot :: "ParsedQuotedSnapshotInput option"
  SMI_ProfileShare :: "uuid option"
  SMI_FileIDs :: "uuid list"
  SMI_ClientMessageID :: "string option"

definition resolveSendMessageType :: "string \<Rightarrow> go_error + MessageType" where
  "resolveSendMessageType raw =
     (if raw = '''' \<or> raw = ''text'' then Inr MessageTypeText
      else if raw = ''file'' then Inr MessageTypeFile
      else Inl (InvalidInput (''type must be '' @ [CHR 0x27] @ ''text'' @ [CHR 0x27] @ '' or '' @ [CHR 0x27] @ ''file'' @ [CHR 0x27])))"

definition canSendProfileShareToChannel :: "ChannelType \<Rightarrow> bool" where
  "canSendProfileShareToChannel t \<longleftrightarrow>
     t = ChannelTypeDM \<or> t = ChannelTypeGroupDM \<or> t = ChannelTypePublic \<or> t = ChannelTypePrivate"

text \<open>\<open>GetMember\<close> joins the user row, so the member of a row always has one; without it the join is empty.\<close>

definition buildProfileShare :: "chat_env \<Rightarrow> Channel \<Rightarrow> uuid \<Rightarrow> uuid option \<Rightarrow> chat_state \<Rightarrow> go_error + ProfileShare option" where
  "buildProfileShare env ch workspaceID input s =
     (case input of
        None \<Rightarrow> Inr None
      | Some userID \<Rightarrow>
          if userID = uuid_Nil then Inl (InvalidInput ''profile_share.user_id is required'')
          else if \<not> canSendProfileShareToChannel (Ch_Type ch) then Inl (Forbidden ''profile shares cannot be sent to this channel'')
          else (case GetMember (chat_dir env s) workspaceID userID of
                  Inl err \<Rightarrow> Inl (forbidden_or_internal ''shared profile is not a member of this workspace'' ''failed to verify shared profile'' err)
                | Inr member \<Rightarrow>
                    (case find (\<lambda>u. U_ID u = WM_UserID member) (ce_users env) of
                       None \<Rightarrow> Inl (Forbidden ''shared profile is not a member of this workspace'')
                     | Some user \<Rightarrow>
                         if U_Status user \<noteq> UserStatusActive then Inl (Forbidden ''shared profile is not active'')
                         else Inr (Some \<lparr>PS_UserID = WM_UserID member, PS_WorkspaceID = workspaceID,
                                PS_Snapshot = \<lparr>PSS_DisplayName = U_DisplayName user, PSS_AvatarURL = U_AvatarURL user,
                                  PSS_AvatarColor = U_AvatarColor user, PSS_Role = WM_Role member,
                                  PSS_Position = U_Position user, PSS_Department = U_Department user\<rparr>\<rparr>))))"

text \<open>The checks of \<open>SendMessage\<close> on the input alone.\<close>

definition check_send_input :: "chat_env \<Rightarrow> SendMessageInput \<Rightarrow> go_error + MessageType \<times> QuotedSnapshot option" where
  "check_send_input env inp =
     (case resolveSendMessageType (SMI_Type inp) of
        Inl err \<Rightarrow> Inl err
      | Inr msgType \<Rightarrow>
          let contentLen = int (utf8_RuneCountInString (SMI_Content inp));
              forwarded = (case SMI_ForwardedFrom inp of None \<Rightarrow> False | Some raw \<Rightarrow> raw \<noteq> '''')
          in if msgType \<noteq> MessageTypeFile \<and> \<not> forwarded \<and> SMI_QuotedSnapshot inp = None \<and> SMI_ProfileShare inp = None \<and>
                SMI_FileIDs inp = [] \<and> contentLen < 1
             then Inl (InvalidInput ''content is required'')
             else if contentLen > 40000 then Inl (InvalidInput ''content must be at most 40000 characters'')
             else if forwarded \<and> \<not> ce_jsonValid env (the (SMI_ForwardedFrom inp))
             then Inl (InvalidInput ''forwarded_from must be valid JSON'')
             else if (SMI_QuotedMessageID inp = None) \<noteq> (SMI_QuotedSnapshot inp = None)
             then Inl (InvalidInput ''quoted_message_id and quoted_snapshot must be set together'')
             else (case SMI_QuotedSnapshot inp of
                     None \<Rightarrow> Inr (msgType, None)
                   | Some q \<Rightarrow>
                       if int (utf8_RuneCountInString (PQ_ContentExcerpt q)) > 200
                       then Inl (InvalidInput ''quoted_snapshot.content_excerpt must be at most 200 characters'')
                       else Inr (msgType, Some \<lparr>QS_UserID = PQ_UserID q, QS_ContentExcerpt = PQ_ContentExcerpt q,
                              QS_CreatedAt = PQ_CreatedAt q, QS_Deleted = None, QS_ParentMessageID = PQ_ParentMessageID q\<rparr>)))"

definition check_parent :: "chat_env \<Rightarrow> uuid \<Rightarrow> uuid option \<Rightarrow> chat_state \<Rightarrow> go_error + unit" where
  "check_parent env channelID parentID s =
     (case parentID of
        None \<Rightarrow> Inr ()
      | Some p \<Rightarrow>
          (case ChatMessages_GetByID env p s of
             Inl err \<Rightarrow> Inl (notfound_or_internal ''parent message not found'' ''failed to get parent message'' err)
           | Inr parent \<Rightarrow>
               if Msg_ChannelID parent \<noteq> channelID then Inl (InvalidInput ''parent message does not belong to this channel'')
               else Inr ()))"

definition enqueueMessageSearchTx :: "chat_env \<Rightarrow> uuid \<Rightarrow> uuid \<Rightarrow> Message \<Rightarrow> unit chat_handler" where
  "enqueueMessageSearchTx env workspaceID channelID msg =
     (if \<not> ce_search env then returnM ()
      else EnqueueUpsert env \<lparr>SD_WorkspaceID = workspaceID, SD_ResourceID = Msg_ID msg, SD_ChannelID = Some channelID,
             SD_Type = ResourceTypeMessage, SD_Title = '''', SD_Content = Msg_Content msg,
             SD_CreatedAt = Msg_CreatedAt msg, SD_UpdatedAt = Msg_UpdatedAt msg\<rparr>)"

definition share_files :: "chat_env \<Rightarrow> string \<Rightarrow> uuid list \<Rightarrow> uuid \<Rightarrow> uuid \<Rightarrow> uuid \<Rightarrow> unit chat_handler" where
  "share_files env unavailable fileIDs workspaceID channelID userID =
     (if fileIDs = [] then returnM ()
      else if \<not> ce_files env then throwM (Unavailable unavailable)
      else forM fileIDs (\<lambda>fileID.
             if fileID = uuid_Nil then throwM (InvalidInput ''file_ids must contain valid ids'')
             else ShareFile env fileID channelID workspaceID userID))"

definition shareMessageFilesTx :: "chat_env \<Rightarrow> uuid list \<Rightarrow> uuid \<Rightarrow> uuid \<Rightarrow> uuid \<Rightarrow> unit chat_handler" where
  "shareMessageFilesTx env = share_files env ''file transaction scope is not configured''"

definition shareMessageFiles :: "chat_env \<Rightarrow> uuid list \<Rightarrow> uuid \<Rightarrow> uuid \<Rightarrow> uuid \<Rightarrow> unit chat_handler" where
  "shareMessageFiles env = share_files env ''file library is not configured''"

definition revokeMessageFileSharesBestEffort :: "chat_env \<Rightarrow> uuid list \<Rightarrow> uuid \<Rightarrow> uuid \<Rightarrow> unit chat_handler" where
  "revokeMessageFileSharesBestEffort env fileIDs channelID userID =
     (if fileIDs = [] \<or> \<not> ce_files env then returnM ()
      else forM fileIDs (\<lambda>fileID. bindM (tryM (RevokeFileShare env fileID channelID userID)) (\<lambda>_. returnM ())))"

definition resolve_files :: "chat_env \<Rightarrow> string \<Rightarrow> Message \<Rightarrow> chat_state \<Rightarrow> go_error + Message" where
  "resolve_files env unavailable msg s =
     (if Msg_FileIDs msg = [] then Inr msg
      else if \<not> ce_files env then Inl (Unavailable unavailable)
      else (case ResolveMessageFiles env (Msg_FileIDs msg) s of
              Inl err \<Rightarrow> Inl (Internal ''failed to resolve message files'' (Some err))
            | Inr files \<Rightarrow> Inr (msg\<lparr>Msg_Files := files\<rparr>)))"

definition hydrateMessageFilesTx :: "chat_env \<Rightarrow> Message \<Rightarrow> chat_state \<Rightarrow> go_error + Message" where
  "hydrateMessageFilesTx env = resolve_files env ''file transaction scope is not configured''"

definition hydrateMessageFilesForSend :: "chat_env \<Rightarrow> Message \<Rightarrow> chat_state \<Rightarrow> go_error + Message" where
  "hydrateMessageFilesForSend env = resolve_files env ''file library is not configured''"

text \<open>An event on the channel subject and on the workspace subject, queued or published.\<close>

definition enqueue_both :: "chat_env \<Rightarrow> EventType \<Rightarrow> uuid \<Rightarrow> uuid \<Rightarrow> uuid \<Rightarrow> Payload \<Rightarrow> unit chat_handler" where
  "enqueue_both env evtType workspaceID channelID userID payload =
     bindM (enqueueEventTx env evtType (ChatSubject channelID) workspaceID channelID userID payload) (\<lambda>_.
     enqueueEventTx env evtType (WorkspaceSubject workspaceID) workspaceID channelID userID payload)"

definition publish_both :: "chat_env \<Rightarrow> EventType \<Rightarrow> uuid \<Rightarrow> uuid \<Rightarrow> uuid \<Rightarrow> Payload \<Rightarrow> unit chat_handler" where
  "publish_both env evtType workspaceID channelID userID payload =
     bindM (publishEvent env evtType workspaceID channelID userID payload) (\<lambda>_.
     publishToWorkspace env evtType workspaceID channelID userID payload)"

text \<open>The guards of \<open>SendMessage\<close> on the channel: the channel, its workspace and the profile card.\<close>

definition send_target :: "chat_env \<Rightarrow> uuid \<Rightarrow> uuid \<Rightarrow> SendMessageInput \<Rightarrow> chat_state \<Rightarrow> go_error + Channel \<times> uuid \<times> ProfileShare option" where
  "send_target env channelID userID inp s =
     (case authorizeChannel env channelID userID CapabilityParticipate s of
        Inl err \<Rightarrow> Inl err
      | Inr decision \<Rightarrow>
          let ch = CD_Channel decision
          in case requestWorkspaceIDForMessage env ch of
               Inl err \<Rightarrow> Inl err
             | Inr workspaceID \<Rightarrow>
                 if Ch_Archived ch then Inl (Forbidden ''cannot send messages to an archived channel'')
                 else (case buildProfileShare env ch workspaceID (SMI_ProfileShare inp) s of
                         Inl err \<Rightarrow> Inl err
                       | Inr profileShare \<Rightarrow>
                           (case check_parent env channelID (SMI_ParentID inp) s of
                              Inl err \<Rightarrow> Inl err
                            | Inr _ \<Rightarrow> Inr (ch, workspaceID, profileShare))))"

definition new_message :: "chat_env \<Rightarrow> uuid \<Rightarrow> uuid \<Rightarrow> uuid \<Rightarrow> SendMessageInput \<Rightarrow> MessageType \<Rightarrow> QuotedSnapshot option \<Rightarrow> ProfileShare option \<Rightarrow> Message" where
  "new_message env mid channelID userID inp msgType quotedSnapshot profileShare =
     Message_zero\<lparr>Msg_ID := mid, Msg_ChannelID := channelID, Msg_UserID := userID, Msg_ParentID := SMI_ParentID inp,
       Msg_Content := SMI_Content inp, Msg_Type := msgType, Msg_ForwardedFrom := SMI_ForwardedFrom inp,
       Msg_QuotedMessageID := SMI_QuotedMessageID inp, Msg_QuotedSnapshot := quotedSnapshot, Msg_ProfileShare := profileShare,
       Msg_FileIDs := SMI_FileIDs inp, Msg_CreatedAt := cnow env, Msg_UpdatedAt := cnow env,
       Msg_ClientMessageID := SMI_ClientMessageID inp\<rparr>"

definition SendMessage :: "chat_env \<Rightarrow> uuid \<Rightarrow> uuid \<Rightarrow> SendMessageInput \<Rightarrow> Message chat_handler" where
  "SendMessage env channelID userID inp =
     bindM (readM (\<lambda>_. check_send_input env inp)) (\<lambda>checked.
     bindM (readM (send_target env channelID userID inp)) (\<lambda>tgt.
     let ch = fst tgt; workspaceID = fst (snd tgt)
     in bindM (chat_New env) (\<lambda>mid.
     bindM (readM (hydrateMessageMentions env
              (new_message env mid channelID userID inp (fst checked) (snd checked) (snd (snd tgt))) ch)) (\<lambda>msg0.
     if ce_tx env
     then mapErrM (app_or_internal ''failed to create message'') (Chat_WithinTx env (
            bindM (shareMessageFilesTx env (Msg_FileIDs msg0) workspaceID channelID userID) (\<lambda>_.
            bindM (readM (hydrateMessageFilesTx env msg0)) (\<lambda>msg.
            bindM (ChatMessages_Create env msg) (\<lambda>_.
            bindM (enqueueMessageSearchTx env workspaceID channelID msg) (\<lambda>_.
            bindM (enqueue_both env TypeMessageCreated workspaceID channelID userID (NewMessagePayload msg (Some ch))) (\<lambda>_.
            returnM msg)))))))
     else
       bindM (shareMessageFiles env (Msg_FileIDs msg0) workspaceID channelID userID) (\<lambda>_.
       bindM (readM (hydrateMessageFilesForSend env msg0)) (\<lambda>msg.
       bindM (tryM (ChatMessages_Create env msg)) (\<lambda>created.
       case created of
         Inl err \<Rightarrow>
           bindM (revokeMessageFileSharesBestEffort env (Msg_FileIDs msg) channelID userID) (\<lambda>_.
           throwM (Internal ''failed to create message'' (Some err)))
       | Inr _ \<Rightarrow>
           bindM (enqueueSearch env (IndexMessage env workspaceID channelID (Msg_ID msg) (Msg_Content msg) (Msg_CreatedAt msg))) (\<lambda>_.
           bindM (publish_both env TypeMessageCreated workspaceID channelID userID (NewMessagePayload msg (Some ch))) (\<lambda>_.
           returnM msg)))))))))"

subsection \<open>Reading\<close>

definition deleted :: "Message \<Rightarrow> bool" where
  "deleted m \<longleftrightarrow> Msg_DeletedAt m \<noteq> None"

definition hydrateMessageReactions :: "chat_env \<Rightarrow> Message list \<Rightarrow> chat_state \<Rightarrow> go_error + Message list" where
  "hydrateMessageReactions env items s =
     (let cleared = map (\<lambda>m. if deleted m then m\<lparr>Msg_Reactions := []\<rparr> else m) items;
          messageIDs = map Msg_ID (filter (\<lambda>m. \<not> deleted m) items)
      in if messageIDs = [] then Inr cleared
         else (case ListReactionsByMessageIDs env messageIDs s of
                 Inl err \<Rightarrow> Inl (Internal ''failed to list message reactions'' (Some err))
               | Inr byID \<Rightarrow> Inr (map (\<lambda>m. if deleted m then m else m\<lparr>Msg_Reactions := byID (Msg_ID m)\<rparr>) cleared)))"

definition hydrateMessageAttachments :: "chat_env \<Rightarrow> Message list \<Rightarrow> chat_state \<Rightarrow> go_error + Message list" where
  "hydrateMessageAttachments env items s =
     (let cleared = map (\<lambda>m. if deleted m then m\<lparr>Msg_Attachments := []\<rparr> else m) items;
          messageIDs = map Msg_ID (filter (\<lambda>m. \<not> deleted m) items)
      in if messageIDs = [] then Inr cleared
         else (case ListAttachmentsByMessageIDs env messageIDs s of
                 Inl err \<Rightarrow> Inl (Internal ''failed to list message attachments'' (Some err))
               | Inr byID \<Rightarrow> Inr (map (\<lambda>m. if deleted m then m else m\<lparr>Msg_Attachments := byID (Msg_ID m)\<rparr>) cleared)))"

fun hydrateMessageFiles :: "chat_env \<Rightarrow> Message list \<Rightarrow> chat_state \<Rightarrow> go_error + Message list" where
  "hydrateMessageFiles env [] s = Inr []"
| "hydrateMessageFiles env (m # items) s =
     (if \<not> ce_files env then Inr (m # items)
      else (case (if deleted m \<or> Msg_FileIDs m = [] then Inr (m\<lparr>Msg_Files := []\<rparr>)
                  else (case ResolveMessageFiles env (Msg_FileIDs m) s of
                          Inl err \<Rightarrow> Inl (Internal ''failed to resolve message files'' (Some err))
                        | Inr files \<Rightarrow> Inr (m\<lparr>Msg_Files := files\<rparr>))) of
              Inl err \<Rightarrow> Inl err
            | Inr m' \<Rightarrow> (case hydrateMessageFiles env items s of Inl err \<Rightarrow> Inl err | Inr items' \<Rightarrow> Inr (m' # items'))))"

definition hydrateMessageMentionsForRead :: "chat_env \<Rightarrow> Message list \<Rightarrow> chat_state \<Rightarrow> go_error + Message list" where
  "hydrateMessageMentionsForRead env items s =
     (let cleared = map (\<lambda>m. m\<lparr>Msg_Mentions := []\<rparr>) items;
          messageIDs = dedup_seen id [] (map Msg_ID (filter (\<lambda>m. \<not> deleted m \<and> CHR ''@'' \<in> set (Msg_Content m)) items))
      in if messageIDs = [] then Inr cleared
         else (case ResolveMentionsByMessageIDs env messageIDs s of
                 Inl err \<Rightarrow> Inl (Internal ''failed to resolve message mentions'' (Some err))
               | Inr byID \<Rightarrow> Inr (map (\<lambda>m. if deleted m then m else m\<lparr>Msg_Mentions := byID (Msg_ID m)\<rparr>) cleared)))"

text \<open>The hydration every read applies; attachments are loaded twice.\<close>

definition hydrate_messages :: "chat_env \<Rightarrow> Message list \<Rightarrow> chat_state \<Rightarrow> go_error + Message list" where
  "hydrate_messages env items s =
     (case hydrateMessageReactions env items s of
        Inl err \<Rightarrow> Inl err
      | Inr a \<Rightarrow>
          (case hydrateMessageMentionsForRead env a s of
             Inl err \<Rightarrow> Inl err
           | Inr b \<Rightarrow>
               (case hydrateMessageAttachments env b s of
                  Inl err \<Rightarrow> Inl err
                | Inr c \<Rightarrow>
                    (case hydrateMessageFiles env c s of
                       Inl err \<Rightarrow> Inl err
                     | Inr d \<Rightarrow> hydrateMessageAttachments env d s))))"

definition redactDeletedMessage :: "Message \<Rightarrow> Message" where
  "redactDeletedMessage msg =
     (if \<not> deleted msg then msg
      else msg\<lparr>Msg_Content := '''', Msg_Edited := False, Msg_EditedAt := None, Msg_Pinned := False, Msg_PinnedBy := None,
             Msg_PinnedAt := None, Msg_ForwardedFrom := None, Msg_QuotedMessageID := None, Msg_QuotedSnapshot := None,
             Msg_ProfileShare := None, Msg_Reactions := [], Msg_Mentions := [], Msg_Attachments := [], Msg_FileIDs := [],
             Msg_Files := []\<rparr>)"

definition redactDeletedMessages :: "Message list \<Rightarrow> Message list" where
  "redactDeletedMessages items = map redactDeletedMessage items"

text \<open>\<open>EncodeCursor\<close> maps the nil id to the empty string: the cursor is the id itself.\<close>

record MessagePage =
  MPg_Items :: "Message list"
  MPg_NextCursor :: uuid
  MPg_HasMore :: bool

definition buildMessagePage :: "Message list \<Rightarrow> int \<Rightarrow> MessagePage" where
  "buildMessagePage items0 limit =
     (let hasMore = (int (length items0) > limit);
          items = (if hasMore then take (nat limit) items0 else items0)
      in \<lparr>MPg_Items = items, MPg_NextCursor = (if hasMore \<and> items \<noteq> [] then Msg_ID (last items) else uuid_Nil),
          MPg_HasMore = hasMore\<rparr>)"

text \<open>What \<open>GetMessages\<close> and \<open>GetThreadReplies\<close> do with the fetched rows.\<close>

definition finish_page :: "chat_env \<Rightarrow> Message list \<Rightarrow> int \<Rightarrow> chat_state \<Rightarrow> go_error + MessagePage" where
  "finish_page env items limit s =
     (let page = buildMessagePage items limit
      in case hydrate_messages env (MPg_Items page) s of
           Inl err \<Rightarrow> Inl err
         | Inr hydrated \<Rightarrow> Inr (page\<lparr>MPg_Items := redactDeletedMessages hydrated\<rparr>))"

definition GetMessage :: "chat_env \<Rightarrow> uuid \<Rightarrow> uuid \<Rightarrow> chat_state \<Rightarrow> go_error + Message" where
  "GetMessage env messageID userID s =
     (case requireMessageAccess env messageID userID s of
        Inl err \<Rightarrow> Inl err
      | Inr (msg, _) \<Rightarrow>
          (case hydrate_messages env [msg] s of
             Inl err \<Rightarrow> Inl err
           | Inr items \<Rightarrow> Inr (hd items)))"

definition GetMessages :: "chat_env \<Rightarrow> uuid \<Rightarrow> uuid \<Rightarrow> Params \<Rightarrow> chat_state \<Rightarrow> go_error + MessagePage" where
  "GetMessages env channelID userID p0 s =
     (let p = Normalize p0
      in case GetAccessibleChannel env channelID userID s of
           Inl err \<Rightarrow> Inl err
         | Inr _ \<Rightarrow>
             (case ChatMessages_ListByChannel env channelID \<lparr>P_Cursor = P_Cursor p, P_Limit = P_Limit p + 1\<rparr> s of
                Inl err \<Rightarrow> Inl (Internal ''failed to list messages'' (Some err))
              | Inr items \<Rightarrow> finish_page env items (P_Limit p) s))"

definition GetThreadReplies :: "chat_env \<Rightarrow> uuid \<Rightarrow> uuid \<Rightarrow> Params \<Rightarrow> chat_state \<Rightarrow> go_error + MessagePage" where
  "GetThreadReplies env parentID userID p0 s =
     (let p = Normalize p0
      in case requireMessageAccess env parentID userID s of
           Inl err \<Rightarrow> Inl err
         | Inr _ \<Rightarrow>
             (case ListThreadReplies env parentID \<lparr>P_Cursor = P_Cursor p, P_Limit = P_Limit p + 1\<rparr> s of
                Inl err \<Rightarrow> Inl (Internal ''failed to list thread replies'' (Some err))
              | Inr items \<Rightarrow> finish_page env items (P_Limit p) s))"

definition GetPinnedMessages :: "chat_env \<Rightarrow> uuid \<Rightarrow> uuid \<Rightarrow> chat_state \<Rightarrow> go_error + Message list" where
  "GetPinnedMessages env channelID userID s =
     (case GetAccessibleChannel env channelID userID s of
        Inl err \<Rightarrow> Inl err
      | Inr _ \<Rightarrow>
          (case ListPinned env channelID s of
             Inl err \<Rightarrow> Inl (Internal ''failed to list pinned messages'' (Some err))
           | Inr items \<Rightarrow> hydrate_messages env items s))"

subsection \<open>Editing, moving and deleting\<close>

definition validate_EditMessageInput :: "string \<Rightarrow> go_error + unit" where
  "validate_EditMessageInput content =
     validate_Struct (check_field ''Content'' [(''required'', content \<noteq> []), (''max'', max_runes 40000 content)])"

definition EditMessage :: "chat_env \<Rightarrow> uuid \<Rightarrow> uuid \<Rightarrow> string \<Rightarrow> Message chat_handler" where
  "EditMessage env messageID userID content =
     bindM (readM (\<lambda>_. validate_EditMessageInput content)) (\<lambda>_.
     bindM (readM (requireOwnMessageAccess env messageID userID CapabilityParticipate)) (\<lambda>mc.
     let ch = snd mc; workspaceID = channelWorkspaceIDOrNil (Some ch);
         edited = (fst mc)\<lparr>Msg_Content := content, Msg_Edited := True, Msg_EditedAt := Some (cnow env), Msg_UpdatedAt := cnow env\<rparr>
     in bindM (readM (hydrateMessageMentions env edited ch)) (\<lambda>msg0.
     if ce_tx env
     then mapErrM (internal ''failed to update message'') (Chat_WithinTx env (
            bindM (ChatMessages_Update env msg0) (\<lambda>msg.
            bindM (if workspaceID \<noteq> uuid_Nil then enqueueMessageSearchTx env workspaceID (Msg_ChannelID msg) msg else returnM ()) (\<lambda>_.
            bindM (enqueue_both env TypeMessageUpdated workspaceID (Msg_ChannelID msg) userID (NewMessagePayload msg (Some ch))) (\<lambda>_.
            returnM msg)))))
     else
       bindM (mapErrM (internal ''failed to update message'') (ChatMessages_Update env msg0)) (\<lambda>msg.
       bindM (enqueueSearch env (if workspaceID = uuid_Nil then returnM ()
                else IndexMessage env workspaceID (Msg_ChannelID msg) (Msg_ID msg) (Msg_Content msg) (Msg_CreatedAt msg))) (\<lambda>_.
       bindM (publish_both env TypeMessageUpdated workspaceID (Msg_ChannelID msg) userID (NewMessagePayload msg (Some ch))) (\<lambda>_.
       returnM msg))))))"

text \<open>\<open>movedMessageDeleteRef\<close> is what the source channel is told; the target gets the message.\<close>

definition move_events :: "(EventType \<Rightarrow> uuid \<Rightarrow> uuid \<Rightarrow> Payload \<Rightarrow> unit chat_handler) \<Rightarrow> uuid \<Rightarrow> uuid \<Rightarrow> uuid \<Rightarrow> Message \<Rightarrow> Channel \<Rightarrow> gotime \<Rightarrow> unit chat_handler" where
  "move_events emit originalChannelID sourceWorkspaceID targetWorkspaceID msg targetCh movedAt =
     (if originalChannelID = Msg_ChannelID msg
      then emit TypeMessageUpdated targetWorkspaceID (Msg_ChannelID msg) (NewMessagePayload msg (Some targetCh))
      else bindM (emit TypeMessageDeleted sourceWorkspaceID originalChannelID
                    (MovedMessagePayload (Msg_ID msg) originalChannelID movedAt)) (\<lambda>_.
           emit TypeMessageCreated targetWorkspaceID (Msg_ChannelID msg) (NewMessagePayload msg (Some targetCh))))"

definition enqueueMoveEventsTx :: "chat_env \<Rightarrow> uuid \<Rightarrow> uuid \<Rightarrow> uuid \<Rightarrow> Message \<Rightarrow> Channel \<Rightarrow> uuid \<Rightarrow> gotime \<Rightarrow> unit chat_handler" where
  "enqueueMoveEventsTx env originalChannelID sourceWorkspaceID targetWorkspaceID msg targetCh userID movedAt =
     move_events (\<lambda>evtType workspaceID channelID payload. enqueue_both env evtType workspaceID channelID userID payload)
       originalChannelID sourceWorkspaceID targetWorkspaceID msg targetCh movedAt"

definition publishMoveEvents :: "chat_env \<Rightarrow> uuid \<Rightarrow> uuid \<Rightarrow> uuid \<Rightarrow> Message \<Rightarrow> Channel \<Rightarrow> uuid \<Rightarrow> gotime \<Rightarrow> unit chat_handler" where
  "publishMoveEvents env originalChannelID sourceWorkspaceID targetWorkspaceID msg targetCh userID movedAt =
     move_events (\<lambda>evtType workspaceID channelID payload. publish_both env evtType workspaceID channelID userID payload)
       originalChannelID sourceWorkspaceID targetWorkspaceID msg targetCh movedAt"

text \<open>The target of a move: its channel, and that source and target lie in one workspace.\<close>

definition move_target :: "chat_env \<Rightarrow> Channel \<Rightarrow> uuid \<Rightarrow> uuid \<Rightarrow> uuid option \<Rightarrow> chat_state \<Rightarrow> go_error + Channel \<times> uuid \<times> uuid" where
  "move_target env sourceCh userID targetChannelID parentID s =
     (case authorizeChannel env targetChannelID userID CapabilityParticipate s of
        Inl err \<Rightarrow> Inl err
      | Inr targetDecision \<Rightarrow>
          let targetCh = CD_Channel targetDecision
          in if Ch_Archived targetCh then Inl (Forbidden ''cannot move messages to an archived channel'')
             else (case requestWorkspaceIDForMessage env sourceCh of
                Inl err \<Rightarrow> Inl err
              | Inr sourceWorkspaceID \<Rightarrow>
                  (case requestWorkspaceIDForMessage env targetCh of
                     Inl err \<Rightarrow> Inl err
                   | Inr targetWorkspaceID \<Rightarrow>
                       if sourceWorkspaceID \<noteq> targetWorkspaceID then Inl (InvalidInput ''message cannot be moved across workspaces'')
                       else (case parentID of
                               None \<Rightarrow> Inr (targetCh, sourceWorkspaceID, targetWorkspaceID)
                             | Some p \<Rightarrow>
                                 (case ChatMessages_GetByID env p s of
                                    Inl err \<Rightarrow> Inl (notfound_or_internal ''parent message not found'' ''failed to get parent message'' err)
                                  | Inr parent \<Rightarrow>
                                      if deleted parent then Inl (NotFound ''parent message has been deleted'')
                                      else if Msg_ChannelID parent \<noteq> targetChannelID
                                      then Inl (InvalidInput ''parent message does not belong to target channel'')
                                      else Inr (targetCh, sourceWorkspaceID, targetWorkspaceID))))))"

definition MoveMessage :: "chat_env \<Rightarrow> uuid \<Rightarrow> uuid \<Rightarrow> uuid \<Rightarrow> uuid \<Rightarrow> uuid option \<Rightarrow> Message chat_handler" where
  "MoveMessage env sourceChannelID messageID userID targetChannelID parentID =
     bindM (readM (requireOwnMessageAccess env messageID userID CapabilityParticipate)) (\<lambda>mc.
     bindM (failIf (Msg_ChannelID (fst mc) \<noteq> sourceChannelID) (NotFound ''message not found'')) (\<lambda>_.
     bindM (failIf (parentID = Some messageID) (InvalidInput ''message cannot be moved under itself'')) (\<lambda>_.
     bindM (readM (move_target env (snd mc) userID targetChannelID parentID)) (\<lambda>tgt.
     let targetCh = fst tgt; sourceWorkspaceID = fst (snd tgt); targetWorkspaceID = snd (snd tgt);
         originalChannelID = Msg_ChannelID (fst mc);
         moved = (fst mc)\<lparr>Msg_ChannelID := targetChannelID, Msg_ParentID := parentID, Msg_Pinned := False,
                   Msg_PinnedBy := None, Msg_PinnedAt := None, Msg_UpdatedAt := cnow env\<rparr>
     in bindM (readM (hydrateMessageMentions env moved targetCh)) (\<lambda>msg0.
     if ce_tx env
     then mapErrM (internal ''failed to move message'') (Chat_WithinTx env (
            bindM (ChatMessages_Move env msg0) (\<lambda>msg.
            bindM (if sourceWorkspaceID \<noteq> uuid_Nil \<and> ce_search env
                   then EnqueueDelete env sourceWorkspaceID ResourceTypeMessage (Msg_ID msg) else returnM ()) (\<lambda>_.
            bindM (if targetWorkspaceID \<noteq> uuid_Nil
                   then enqueueMessageSearchTx env targetWorkspaceID targetChannelID msg else returnM ()) (\<lambda>_.
            bindM (enqueueMoveEventsTx env originalChannelID sourceWorkspaceID targetWorkspaceID msg targetCh userID (cnow env)) (\<lambda>_.
            returnM msg))))))
     else
       bindM (mapErrM (internal ''failed to move message'') (ChatMessages_Move env msg0)) (\<lambda>msg.
       bindM (enqueueSearch env (if sourceWorkspaceID = uuid_Nil then returnM ()
                else EnqueueDelete env sourceWorkspaceID ResourceTypeMessage (Msg_ID msg))) (\<lambda>_.
       bindM (enqueueSearch env (if targetWorkspaceID = uuid_Nil then returnM ()
                else IndexMessage env targetWorkspaceID targetChannelID (Msg_ID msg) (Msg_Content msg) (Msg_CreatedAt msg))) (\<lambda>_.
       bindM (publishMoveEvents env originalChannelID sourceWorkspaceID targetWorkspaceID msg targetCh userID (cnow env)) (\<lambda>_.
       returnM msg)))))))))"

text \<open>Each message that quoted the deleted one is announced again.\<close>

definition enqueueCascadeQuoteUpdateEventsTx :: "chat_env \<Rightarrow> uuid list \<Rightarrow> uuid \<Rightarrow> unit chat_handler" where
  "enqueueCascadeQuoteUpdateEventsTx env affectedQuoteRows userID =
     forM affectedQuoteRows (\<lambda>rowID.
       bindM (readM (ChatMessages_GetByID env rowID)) (\<lambda>updated.
       bindM (readM (\<lambda>s. Channel_GetByID (chat_dir env s) (Msg_ChannelID updated))) (\<lambda>ch.
       enqueueEventTx env TypeMessageUpdated (ChatSubject (Msg_ChannelID updated)) (channelWorkspaceIDOrNil (Some ch))
         (Msg_ChannelID updated) userID (NewMessagePayload updated (Some ch)))))"

definition publishCascadeQuoteUpdateEvents :: "chat_env \<Rightarrow> uuid list \<Rightarrow> uuid \<Rightarrow> unit chat_handler" where
  "publishCascadeQuoteUpdateEvents env affectedQuoteRows userID =
     forM affectedQuoteRows (\<lambda>rowID.
       bindM (tryM (readM (ChatMessages_GetByID env rowID))) (\<lambda>r.
       case r of
         Inl _ \<Rightarrow> returnM ()
       | Inr updated \<Rightarrow>
           bindM (tryM (readM (\<lambda>s. Channel_GetByID (chat_dir env s) (Msg_ChannelID updated)))) (\<lambda>rc.
           case rc of
             Inl _ \<Rightarrow> returnM ()
           | Inr ch \<Rightarrow>
               publishEvent env TypeMessageUpdated (channelWorkspaceIDOrNil (Some ch)) (Msg_ChannelID updated) userID
                 (NewMessagePayload updated (Some ch)))))"

definition DeleteMessage :: "chat_env \<Rightarrow> uuid \<Rightarrow> uuid \<Rightarrow> unit chat_handler" where
  "DeleteMessage env messageID userID =
     bindM (readM (requireOwnMessageAccess env messageID userID CapabilityParticipate)) (\<lambda>mc.
     let ch = snd mc; workspaceID = channelWorkspaceIDOrNil (Some ch)
     in if ce_tx env
     then mapErrM (internal ''failed to delete message'') (Chat_WithinTx env (
            bindM (SoftDeleteWithCascade env messageID) (\<lambda>affectedQuoteRows.
            bindM (readM (ChatMessages_GetByID env messageID)) (\<lambda>deletedMsg.
            let msg = redactDeletedMessage deletedMsg
            in bindM (if workspaceID \<noteq> uuid_Nil
                 then bindM (if ce_search env then EnqueueDelete env workspaceID ResourceTypeMessage messageID else returnM ()) (\<lambda>_.
                      bindM (readM (ListAttachments env messageID)) (\<lambda>attachments.
                      forM attachments (\<lambda>a. if ce_search env then EnqueueDelete env workspaceID ResourceTypeFile (At_ID a) else returnM ())))
                 else returnM ()) (\<lambda>_.
            bindM (enqueue_both env TypeMessageDeleted workspaceID (Msg_ChannelID msg) userID (NewMessagePayload msg (Some ch))) (\<lambda>_.
            enqueueCascadeQuoteUpdateEventsTx env affectedQuoteRows userID))))))
     else
       bindM (mapErrM (internal ''failed to delete message'') (SoftDeleteWithCascade env messageID)) (\<lambda>affectedQuoteRows.
       bindM (mapErrM (internal ''failed to delete message'') (readM (ChatMessages_GetByID env messageID))) (\<lambda>deletedMsg.
       let msg = redactDeletedMessage deletedMsg
       in bindM (enqueueSearch env (if workspaceID = uuid_Nil then returnM ()
                   else EnqueueDelete env workspaceID ResourceTypeMessage messageID)) (\<lambda>_.
       bindM (if workspaceID \<noteq> uuid_Nil
              then bindM (tryM (readM (ListAttachments env messageID))) (\<lambda>r.
                   case r of
                     Inl _ \<Rightarrow> returnM ()
                   | Inr attachments \<Rightarrow>
                       forM attachments (\<lambda>a. enqueueSearch env (EnqueueDelete env workspaceID ResourceTypeFile (At_ID a))))
              else returnM ()) (\<lambda>_.
       bindM (publish_both env TypeMessageDeleted workspaceID (Msg_ChannelID msg) userID (NewMessagePayload msg (Some ch))) (\<lambda>_.
       publishCascadeQuoteUpdateEvents env affectedQuoteRows userID))))))"

text \<open>The result is \<open>None\<close> when the message was deleted because nothing remained of it.\<close>

definition RemoveMessageFile :: "chat_env \<Rightarrow> uuid \<Rightarrow> uuid \<Rightarrow> uuid \<Rightarrow> Message option chat_handler" where
  "RemoveMessageFile env messageID fileID userID =
     bindM (readM (requireOwnMessageAccess env messageID userID CapabilityParticipate)) (\<lambda>mc.
     let msg0 = fst mc; ch = snd mc; remaining = filter (\<lambda>i. i \<noteq> fileID) (Msg_FileIDs msg0)
     in bindM (failIf (fileID \<notin> set (Msg_FileIDs msg0)) (NotFound ''file is not attached to this message'')) (\<lambda>_.
     if remaining = [] \<and> TrimSpace (Msg_Content msg0) = ''''
     then bindM (DeleteMessage env messageID userID) (\<lambda>_. returnM None)
     else
       let msg1 = msg0\<lparr>Msg_FileIDs := remaining\<rparr>; workspaceID = channelWorkspaceIDOrNil (Some ch)
       in if ce_tx env
       then mapErrM (internal ''failed to remove message file'') (Chat_WithinTx env (
              bindM (UpdateFileIDs env (Msg_ID msg1) remaining) (\<lambda>_.
              bindM (readM (hydrateMessageFilesTx env msg1)) (\<lambda>msg.
              bindM (enqueue_both env TypeMessageUpdated workspaceID (Msg_ChannelID msg) userID (NewMessagePayload msg (Some ch))) (\<lambda>_.
              returnM (Some msg))))))
       else
         bindM (mapErrM (internal ''failed to remove message file'') (UpdateFileIDs env (Msg_ID msg1) remaining)) (\<lambda>_.
         bindM (readM (hydrateMessageFilesForSend env msg1)) (\<lambda>msg.
         bindM (publish_both env TypeMessageUpdated workspaceID (Msg_ChannelID msg) userID (NewMessagePayload msg (Some ch))) (\<lambda>_.
         returnM (Some msg))))))"

subsection \<open>Reactions and pins\<close>

definition validateEmoji :: "string \<Rightarrow> go_error + unit" where
  "validateEmoji emoji =
     (if emoji = '''' then Inl (InvalidInput ''emoji is required'')
      else if int (length emoji) > 32 then Inl (InvalidInput ''emoji must be at most 32 bytes'')
      else if \<not> utf8_ValidString emoji then Inl (InvalidInput ''emoji must be valid UTF-8'')
      else Inr ())"

definition AddReaction :: "chat_env \<Rightarrow> uuid \<Rightarrow> uuid \<Rightarrow> string \<Rightarrow> Reaction chat_handler" where
  "AddReaction env messageID userID emoji =
     bindM (readM (\<lambda>_. validateEmoji emoji)) (\<lambda>_.
     bindM (readM (requireMessageAccessWithCapability env messageID userID CapabilityParticipate)) (\<lambda>mc.
     bindM (chat_New env) (\<lambda>rid.
     let reaction = \<lparr>Re_ID = rid, Re_MessageID = messageID, Re_UserID = userID, Re_Emoji = emoji, Re_CreatedAt = cnow env\<rparr>;
         workspaceID = channelWorkspaceIDOrNil (Some (snd mc))
     in bindM (tryM (Reactions_AddReaction env reaction)) (\<lambda>added.
     case added of
       Inl err \<Rightarrow>
         if has_code CodeAlreadyExists err
         then mapErrM (app_or_internal ''failed to get existing reaction'')
                (readM (GetReactionByMessageUserEmoji env messageID userID emoji))
         else throwM (app_or_internal ''failed to add reaction'' err)
     | Inr _ \<Rightarrow>
         bindM (publish_both env TypeReactionAdded workspaceID (Msg_ChannelID (fst mc)) userID (ReactionPayload reaction)) (\<lambda>_.
         returnM reaction)))))"

definition RemoveReaction :: "chat_env \<Rightarrow> uuid \<Rightarrow> uuid \<Rightarrow> string \<Rightarrow> unit chat_handler" where
  "RemoveReaction env messageID userID emoji =
     bindM (readM (\<lambda>_. validateEmoji emoji)) (\<lambda>_.
     bindM (readM (requireMessageAccessWithCapability env messageID userID CapabilityParticipate)) (\<lambda>mc.
     bindM (mapErrM (app_or_internal ''failed to get reaction'')
             (readM (GetReactionByMessageUserEmoji env messageID userID emoji))) (\<lambda>reaction.
     bindM (mapErrM (app_or_internal ''failed to remove reaction'') (Reactions_RemoveReaction env messageID userID emoji)) (\<lambda>_.
     publish_both env TypeReactionRemoved (channelWorkspaceIDOrNil (Some (snd mc))) (Msg_ChannelID (fst mc)) userID
       (ReactionPayload reaction)))))"

definition RemoveReactionByID :: "chat_env \<Rightarrow> uuid \<Rightarrow> uuid \<Rightarrow> unit chat_handler" where
  "RemoveReactionByID env reactionID userID =
     bindM (mapErrM (app_or_internal ''failed to get reaction'') (readM (GetReactionByID env reactionID))) (\<lambda>reaction.
     bindM (readM (requireMessageAccessWithCapability env (Re_MessageID reaction) userID CapabilityParticipate)) (\<lambda>mc.
     bindM (failIf (Re_UserID reaction \<noteq> userID) (Forbidden (''cannot remove another user'' @ [CHR 0x27] @ ''s reaction''))) (\<lambda>_.
     bindM (mapErrM (app_or_internal ''failed to remove reaction'') (Reactions_RemoveReactionByID env reactionID)) (\<lambda>_.
     publish_both env TypeReactionRemoved (channelWorkspaceIDOrNil (Some (snd mc))) (Msg_ChannelID (fst mc)) userID
       (ReactionPayload reaction)))))"

text \<open>\<open>ch, _ := s.channels.GetByID(...)\<close>: a failed lookup leaves the nil channel.\<close>

definition channel_or_none :: "chat_env \<Rightarrow> uuid \<Rightarrow> chat_state \<Rightarrow> Channel option" where
  "channel_or_none env channelID s =
     (case Channel_GetByID (chat_dir env s) channelID of Inl _ \<Rightarrow> None | Inr ch \<Rightarrow> Some ch)"

definition PinMessage :: "chat_env \<Rightarrow> uuid \<Rightarrow> uuid \<Rightarrow> unit chat_handler" where
  "PinMessage env messageID userID =
     bindM (mapErrM (notfound_or_internal ''message not found'' ''failed to get message'')
             (readM (ChatMessages_GetByID env messageID))) (\<lambda>msg.
     bindM (failIf (Msg_Pinned msg) (AlreadyExists ''message is already pinned'')) (\<lambda>_.
     bindM (readM (authorizeChannel env (Msg_ChannelID msg) userID CapabilityParticipate)) (\<lambda>_.
     bindM (mapErrM (internal ''failed to pin message'') (ChatMessages_Pin env messageID userID)) (\<lambda>_.
     bindM (getM (channel_or_none env (Msg_ChannelID msg))) (\<lambda>ch.
     publish_both env TypeMessagePinned (channelWorkspaceIDOrNil ch) (Msg_ChannelID msg) userID
       (PinPayload messageID (Msg_ChannelID msg) userID))))))"

definition UnpinMessage :: "chat_env \<Rightarrow> uuid \<Rightarrow> uuid \<Rightarrow> unit chat_handler" where
  "UnpinMessage env messageID userID =
     bindM (mapErrM (notfound_or_internal ''message not found'' ''failed to get message'')
             (readM (ChatMessages_GetByID env messageID))) (\<lambda>msg.
     bindM (failIf (\<not> Msg_Pinned msg) (InvalidInput ''message is not pinned'')) (\<lambda>_.
     bindM (readM (authorizeChannel env (Msg_ChannelID msg) userID CapabilityParticipate)) (\<lambda>_.
     bindM (mapErrM (internal ''failed to unpin message'') (ChatMessages_Unpin env messageID)) (\<lambda>_.
     bindM (getM (channel_or_none env (Msg_ChannelID msg))) (\<lambda>ch.
     publish_both env TypeMessageUnpinned (channelWorkspaceIDOrNil ch) (Msg_ChannelID msg) userID
       (PinPayload messageID (Msg_ChannelID msg) userID))))))"

end
