(* ===== verification/ChatSystem.thy ===== *)
theory ChatSystem
  imports Messages
begin

text \<open>
  The chat service as a system. The two interfaces below say what a relation on states needs so that
  whole handlers, requests and executions stay within it: \<open>chat_updates\<close> asks for the statements that change
  rows of existing channels, \<open>chat_writes\<close> also for those that create channels, memberships and grants. Every
  handler is composed once, inside the interfaces; the theories after this one interpret them.
\<close>

subsection \<open>Relations on the core tables\<close>

text \<open>The tables whose rows the theorems speak of.\<close>

definition chat_core :: "chat_state \<Rightarrow> Channel list \<times> ChannelMember list \<times> ChannelAccessGrant list \<times> Message list \<times> Reaction list" where
  "chat_core s = (cb_channels (cs_db s), cb_members (cs_db s), cb_grants (cs_db s), cb_messages (cs_db s), cb_reactions (cs_db s))"

lemma chat_exec_snd:
  "snd (chat_exec env op args wrap f s) =
   (case cfault env op args of Some d \<Rightarrow> s | None \<Rightarrow> s\<lparr>cs_db := snd (f (cs_db s))\<rparr>)"
  by (simp add: chat_exec_def split: option.splits prod.splits)

lemma chat_New_core [simp]: "chat_core (snd (chat_New env s)) = chat_core s"
  by (simp add: chat_New_def chat_core_def)

locale chat_relation = run_relation R for R :: "chat_state \<Rightarrow> chat_state \<Rightarrow> bool" +
  assumes same_core: "chat_core s' = chat_core s \<Longrightarrow> R s s'"
begin

lemma keeps_readM_bind: "(\<And>s x. f s = Inr x \<Longrightarrow> keepsM R (k x)) \<Longrightarrow> keepsM R (bindM (readM f) k)"
  by (rule keepsMI, rule at_bindM) (auto simp: readM_def keepsM_def)

lemma keeps_Let: "keepsM R (k x) \<Longrightarrow> keepsM R (let y = x in k y)"
  by simp

lemma exec_quiet:
  assumes "\<And>db s. chat_core (s\<lparr>cs_db := snd (f db)\<rparr>) = chat_core (s\<lparr>cs_db := db\<rparr>)"
  shows "keepsM R (chat_exec env op args wrap f)"
proof (rule keepsMI)
  fix s
  have "chat_core (s\<lparr>cs_db := snd (f (cs_db s))\<rparr>) = chat_core s"
    using assms [where s = s and db = "cs_db s"] by simp
  then show "R s (snd (chat_exec env op args wrap f s))"
    by (auto simp: chat_exec_snd intro: same_core split: option.splits)
qed

lemma Chat_WithinTx_keeps:
  assumes "keepsM R fn"
  shows "keepsM R (Chat_WithinTx env fn)"
proof (rule keepsMI)
  fix s
  have "R s (s'\<lparr>cs_db := cs_db s\<rparr>)" for s'
    by (rule same_core) (simp add: chat_core_def)
  then show "R s (snd (Chat_WithinTx env fn s))"
    using keepsMD [OF assms, of s]
    by (auto simp: Chat_WithinTx_def split: option.splits prod.splits sum.splits)
qed

lemma New_keeps: "keepsM R (chat_New env)"
  by (rule keepsMI) (simp add: same_core)

lemma publish_keeps:
  "keepsM R (chat_doPublish env t sub w c u p)" "keepsM R (publishEvent env t w c u p)"
  "keepsM R (publishToWorkspace env t w c u p)" "keepsM R (publishToUserEvents env t w c u p)"
  unfolding chat_doPublish_def publishEvent_def publishToWorkspace_def publishToUserEvents_def
  by (rule keeps_modifyM, rule same_core, simp add: chat_core_def)+

lemma enqueue_keeps:
  "keepsM R (Chat_EnqueueRealtime env evt)" "keepsM R (enqueueEventTx env t sub w c u p)"
  unfolding enqueueEventTx_def Chat_EnqueueRealtime_def
  by (rule keeps_If, rule keeps_returnM, rule exec_quiet, simp add: chat_core_def)+

lemma search_keeps:
  "keepsM R (EnqueueUpsert env doc)" "keepsM R (EnqueueDelete env w rt rid)"
  "keepsM R (IndexMessage env w c m ct ca)" "keepsM R (IndexChannel env w c n tp ca ua)"
  unfolding IndexMessage_def IndexChannel_def EnqueueUpsert_def EnqueueDelete_def Let_def
  by (intro keeps_If keeps_returnM exec_quiet; simp add: chat_core_def)+

lemma files_keep: "keepsM R (ShareFile env f c w a)" "keepsM R (RevokeFileShare env f c a)"
  unfolding ShareFile_def RevokeFileShare_def Let_def
  by (intro keeps_bindM keeps_readM exec_quiet; simp add: chat_core_def)+

lemma UpsertState_keeps: "keepsM R (UpsertState env c u t)"
  unfolding UpsertState_def Let_def by (rule exec_quiet) (simp add: chat_core_def)

lemmas steps =
  keeps_bindM keeps_mapErrM keeps_tryM keeps_returnM keeps_throwM keeps_readM keeps_getM keeps_failIf keeps_forM
  keeps_foldM keeps_If keeps_case_option keeps_case_sum Chat_WithinTx_keeps New_keeps publish_keeps enqueue_keeps
  search_keeps files_keep UpsertState_keeps

lemma enqueueSearch_keeps: "keepsM R fn \<Longrightarrow> keepsM R (enqueueSearch env fn)"
  unfolding enqueueSearch_def by (intro steps)

lemma channel_search_keeps:
  "keepsM R (enqueueChannelSearchTx env ch)" "keepsM R (enqueueChannelSearchSyncTx env ch)"
  "keepsM R (enqueueChannelSearchSync env w ch)"
  unfolding enqueueChannelSearchSyncTx_def enqueueChannelSearchSync_def enqueueChannelSearchTx_def
  by (intro steps enqueueSearch_keeps)+

lemma visibility_keeps:
  "keepsM R (enqueueChannelCreatedVisibilityEventsTx env w a ch us p)"
  "keepsM R (publishChannelCreatedVisibilityEvents env w a ch us p)"
  unfolding enqueueChannelCreatedVisibilityEventsTx_def publishChannelCreatedVisibilityEvents_def visibility_events_def
  by (intro steps)+

lemma message_events_keep:
  "keepsM R (enqueueMessageSearchTx env w c m)" "keepsM R (share_files env msg fs w c u)"
  "keepsM R (shareMessageFilesTx env fs w c u)" "keepsM R (shareMessageFiles env fs w c u)"
  "keepsM R (revokeMessageFileSharesBestEffort env fs c u)"
  "keepsM R (enqueue_both env t w c u p)" "keepsM R (publish_both env t w c u p)"
  unfolding enqueueMessageSearchTx_def share_files_def shareMessageFilesTx_def shareMessageFiles_def
    revokeMessageFileSharesBestEffort_def enqueue_both_def publish_both_def
  by (intro steps)+

lemma move_events_keep:
  "keepsM R (enqueueMoveEventsTx env oc sw tw m tc u t)" "keepsM R (publishMoveEvents env oc sw tw m tc u t)"
  "keepsM R (enqueueCascadeQuoteUpdateEventsTx env ids u)" "keepsM R (publishCascadeQuoteUpdateEvents env ids u)"
  unfolding enqueueMoveEventsTx_def publishMoveEvents_def move_events_def enqueueCascadeQuoteUpdateEventsTx_def
    publishCascadeQuoteUpdateEvents_def
  by (intro steps message_events_keep)+

lemmas quiet = steps enqueueSearch_keeps channel_search_keeps visibility_keeps message_events_keep move_events_keep

lemma selection_keeps:
  "keepsM R (buildInitialChannelMembers env w cr c us)" "keepsM R (select_new_members env w c a us)"
  unfolding buildInitialChannelMembers_def select_new_members_def by (intro quiet)+

end

subsection \<open>Handlers that work on existing channels\<close>

text \<open>What a new message of the service has in common with every other one.\<close>

definition fresh_message :: "Message \<Rightarrow> bool" where
  "fresh_message m \<longleftrightarrow> Msg_DeletedAt m = None \<and> \<not> Msg_Pinned m \<and> Msg_PinnedBy m = None \<and> Msg_PinnedAt m = None \<and>
     \<not> Msg_Edited m \<and> Msg_EditedAt m = None"

lemma new_message_fresh [simp]: "fresh_message (new_message env mid c u inp t q p)"
  by (simp add: fresh_message_def new_message_def Message_zero_def)

lemma hydrateMessageMentions_fresh:
  "hydrateMessageMentions env m ch s = Inr m' \<Longrightarrow> fresh_message m' = fresh_message m"
  by (auto simp: hydrateMessageMentions_def Let_def fresh_message_def split: if_splits sum.splits)

lemma resolve_files_fresh:
  "hydrateMessageFilesTx env m s = Inr m' \<Longrightarrow> fresh_message m' = fresh_message m"
  "hydrateMessageFilesForSend env m s = Inr m' \<Longrightarrow> fresh_message m' = fresh_message m"
  by (auto simp: hydrateMessageFilesTx_def hydrateMessageFilesForSend_def resolve_files_def fresh_message_def
      split: if_splits sum.splits)

locale chat_updates = chat_relation R for R :: "chat_state \<Rightarrow> chat_state \<Rightarrow> bool" +
  assumes Channels_Update: "keepsM R (Channels_Update env ch)"
    and RemoveMember: "keepsM R (Channels_RemoveMember env c u)"
    and UpdateDMRequestStatus: "keepsM R (UpdateDMRequestStatus env c u st)"
    and UpdateLastRead: "keepsM R (UpdateLastRead env c u)"
    and Messages_Create: "fresh_message m \<Longrightarrow> keepsM R (ChatMessages_Create env m)"
    and Messages_Update: "keepsM R (ChatMessages_Update env m)"
    and UpdateFileIDs: "keepsM R (UpdateFileIDs env mid fs)"
    and Messages_Move: "keepsM R (ChatMessages_Move env m)"
    and SoftDeleteWithCascade: "keepsM R (SoftDeleteWithCascade env mid)"
    and Messages_Pin: "keepsM R (ChatMessages_Pin env mid u)"
    and Messages_Unpin: "keepsM R (ChatMessages_Unpin env mid)"
    and Reactions_Add: "keepsM R (Reactions_AddReaction env r)"
    and Reactions_Remove: "keepsM R (Reactions_RemoveReaction env mid u e)"
    and Reactions_RemoveByID: "keepsM R (Reactions_RemoveReactionByID env rid)"
begin

lemmas statements =
  Channels_Update RemoveMember UpdateDMRequestStatus UpdateLastRead Messages_Update UpdateFileIDs Messages_Move
  SoftDeleteWithCascade Messages_Pin Messages_Unpin Reactions_Add Reactions_Remove Reactions_RemoveByID

lemma UpdateChannel_keeps: "keepsM R (UpdateChannel env c u n t ar)"
  unfolding UpdateChannel_def Let_def by (intro quiet statements)

lemma LeaveChannel_keeps: "keepsM R (LeaveChannel env c u)"
  unfolding LeaveChannel_def Let_def by (intro quiet statements)

lemma RemoveChannelMember_keeps: "keepsM R (RemoveChannelMember env c a t)"
  unfolding RemoveChannelMember_def Let_def by (intro quiet statements)

lemma DMRequest_keeps: "keepsM R (AcceptDMRequest env w c u)" "keepsM R (BlockDMRequest env w c u)"
  unfolding AcceptDMRequest_def BlockDMRequest_def updateDMRequestStatus_def by (intro quiet statements)+

lemma MarkRead_keeps: "keepsM R (MarkRead env c u)"
  unfolding MarkRead_def updateLastRead_def by (intro quiet statements)

lemma SendMessage_keeps: "keepsM R (SendMessage env c u inp)"
  unfolding SendMessage_def Let_def
  by (intro keeps_readM_bind quiet keeps_bindM [OF New_keeps] keeps_bindM [OF message_events_keep(3)]
      keeps_bindM [OF message_events_keep(4)] Messages_Create)
    (simp_all add: resolve_files_fresh hydrateMessageMentions_fresh)

lemma EditMessage_keeps: "keepsM R (EditMessage env m u ct)"
  unfolding EditMessage_def Let_def by (intro quiet statements)

lemma MoveMessage_keeps: "keepsM R (MoveMessage env c m u t p)"
  unfolding MoveMessage_def Let_def by (intro quiet statements)

lemma DeleteMessage_keeps: "keepsM R (DeleteMessage env m u)"
  unfolding DeleteMessage_def Let_def by (intro quiet statements)

lemma RemoveMessageFile_keeps: "keepsM R (RemoveMessageFile env m f u)"
  unfolding RemoveMessageFile_def Let_def by (intro quiet statements DeleteMessage_keeps)

lemma reactions_keep:
  "keepsM R (AddReaction env m u e)" "keepsM R (RemoveReaction env m u e)" "keepsM R (RemoveReactionByID env r u)"
  unfolding AddReaction_def RemoveReaction_def RemoveReactionByID_def Let_def by (intro quiet statements)+

lemma pins_keep: "keepsM R (PinMessage env m u)" "keepsM R (UnpinMessage env m u)"
  unfolding PinMessage_def UnpinMessage_def by (intro quiet statements)+

lemmas update_handlers =
  UpdateChannel_keeps LeaveChannel_keeps RemoveChannelMember_keeps DMRequest_keeps MarkRead_keeps SendMessage_keeps
  EditMessage_keeps MoveMessage_keeps DeleteMessage_keeps RemoveMessageFile_keeps reactions_keep pins_keep

end

subsection \<open>Handlers that create channels, memberships and grants\<close>

locale chat_writes = chat_updates R for R :: "chat_state \<Rightarrow> chat_state \<Rightarrow> bool" +
  assumes Channels_Create: "\<not> Ch_Archived ch \<Longrightarrow> keepsM R (Channels_Create env ch)"
    and AddMember: "keepsM R (Channels_AddMember env m)"
    and CreateGrant: "keepsM R (CreateGrant env g)"
begin

lemma ensure_grant_keeps:
  "keepsM R (ensureChannelAccessGrant env c w rw su tu b)" "keepsM R (ensureChannelAccessGrantTx env c w rw su tu b)"
  unfolding ensureChannelAccessGrant_def ensureChannelAccessGrantTx_def by (intro quiet CreateGrant)+

lemma CreateChannel_keeps: "keepsM R (CreateChannel env w u n t ty us)"
  unfolding CreateChannel_def Let_def
  by (intro quiet selection_keeps Channels_Create AddMember) (simp_all add: new_channel_def)

lemma JoinChannel_keeps: "keepsM R (JoinChannel env c u)"
  unfolding JoinChannel_def Let_def by (intro quiet AddMember)

lemma AddChannelMembers_keeps: "keepsM R (AddChannelMembers env c a ts)"
  unfolding AddChannelMembers_def Let_def by (intro quiet selection_keeps AddMember)

lemma create_dm_keeps: "keepsM R (create_dm env w rw a b)"
  unfolding create_dm_def Let_def
  by (intro quiet ensure_grant_keeps Channels_Create AddMember) (simp_all add: new_channel_def)

lemma GetOrCreateDM_keeps: "keepsM R (GetOrCreateDM env w a b t)"
  unfolding GetOrCreateDM_def by (intro quiet ensure_grant_keeps create_dm_keeps)

lemmas all_handlers =
  update_handlers CreateChannel_keeps JoinChannel_keeps AddChannelMembers_keeps GetOrCreateDM_keeps

end

subsection \<open>Requests and executions\<close>

text \<open>
  One constructor per state-changing operation of the service; the HTTP handlers call exactly these. Each
  request comes with an environment of its own: clock, directory, faults, configuration.
\<close>

datatype messaging_request =
    CreateChannelReq uuid uuid string string ChannelType "uuid list"
  | UpdateChannelReq uuid uuid string string "bool option"
  | JoinChannelReq uuid uuid
  | LeaveChannelReq uuid uuid
  | AddMembersReq uuid uuid "uuid list"
  | RemoveMemberReq uuid uuid uuid
  | OpenDMReq uuid uuid uuid "uuid option"
  | AcceptDMReq uuid uuid uuid
  | BlockDMReq uuid uuid uuid
  | MarkReadReq uuid uuid
  | PostReq uuid uuid SendMessageInput
  | EditReq uuid uuid string
  | MoveReq uuid uuid uuid uuid "uuid option"
  | RemovePostReq uuid uuid
  | RemoveFileReq uuid uuid uuid
  | ReactReq uuid uuid string
  | UnreactReq uuid uuid string
  | UnreactByIDReq uuid uuid
  | PinMessageReq uuid uuid
  | UnpinMessageReq uuid uuid

text \<open>The state a handler leaves behind, and whether it returned an error.\<close>

definition after :: "'a chat_handler \<Rightarrow> chat_state \<Rightarrow> chat_state" where
  "after m s = snd (m s)"

definition returns :: "'a chat_handler \<Rightarrow> chat_state \<Rightarrow> bool" where
  "returns m s = (\<not> isl (fst (m s)))"

primrec messaging_serve :: "chat_env \<Rightarrow> messaging_request \<Rightarrow> chat_state \<Rightarrow> chat_state" where
  "messaging_serve env (CreateChannelReq w u n t ty us) = after (CreateChannel env w u n t ty us)"
| "messaging_serve env (UpdateChannelReq c u n t a) = after (UpdateChannel env c u n t a)"
| "messaging_serve env (JoinChannelReq c u) = after (JoinChannel env c u)"
| "messaging_serve env (LeaveChannelReq c u) = after (LeaveChannel env c u)"
| "messaging_serve env (AddMembersReq c a ts) = after (AddChannelMembers env c a ts)"
| "messaging_serve env (RemoveMemberReq c a t) = after (RemoveChannelMember env c a t)"
| "messaging_serve env (OpenDMReq w a b t) = after (GetOrCreateDM env w a b t)"
| "messaging_serve env (AcceptDMReq w c u) = after (AcceptDMRequest env w c u)"
| "messaging_serve env (BlockDMReq w c u) = after (BlockDMRequest env w c u)"
| "messaging_serve env (MarkReadReq c u) = after (MarkRead env c u)"
| "messaging_serve env (PostReq c u inp) = after (SendMessage env c u inp)"
| "messaging_serve env (EditReq m u ct) = after (EditMessage env m u ct)"
| "messaging_serve env (MoveReq c m u t p) = after (MoveMessage env c m u t p)"
| "messaging_serve env (RemovePostReq m u) = after (DeleteMessage env m u)"
| "messaging_serve env (RemoveFileReq m f u) = after (RemoveMessageFile env m f u)"
| "messaging_serve env (ReactReq m u e) = after (AddReaction env m u e)"
| "messaging_serve env (UnreactReq m u e) = after (RemoveReaction env m u e)"
| "messaging_serve env (UnreactByIDReq r u) = after (RemoveReactionByID env r u)"
| "messaging_serve env (PinMessageReq m u) = after (PinMessage env m u)"
| "messaging_serve env (UnpinMessageReq m u) = after (UnpinMessage env m u)"

fun messaging_execute :: "(chat_env \<times> messaging_request) list \<Rightarrow> chat_state \<Rightarrow> chat_state" where
  "messaging_execute [] s = s"
| "messaging_execute ((env, req) # reqs) s = messaging_execute reqs (messaging_serve env req s)"

definition empty_chat_db :: chat_db where
  "empty_chat_db = \<lparr>cb_channels = [], cb_members = [], cb_grants = [], cb_states = [], cb_messages = [], cb_reactions = [],
     cb_attachments = [], cb_files = [], cb_shares = [], cb_outbox = [], cb_jobs = []\<rparr>"

definition initial_chat :: chat_state where
  "initial_chat = \<lparr>cs_db = empty_chat_db, cs_published = [], cs_ids = 0\<rparr>"

lemma after_keeps: "keepsM R m \<Longrightarrow> R s (after m s)"
  by (simp add: after_def keepsM_def)

lemma returnsE:
  assumes "returns m s"
  obtains x where "m s = (Inr x, after m s)"
  using assms by (cases "m s"; cases "fst (m s)") (auto simp: returns_def after_def)

lemma messaging_execute_append:
  "messaging_execute (rs @ rs') s = messaging_execute rs' (messaging_execute rs s)"
  by (induction rs s rule: messaging_execute.induct) simp_all

text \<open>Requests of one kind: \<open>good\<close> says which requests, in which state, stay within the relation.\<close>

locale messaging_relation = run_relation R for R :: "chat_state \<Rightarrow> chat_state \<Rightarrow> bool" +
  fixes good :: "messaging_request \<Rightarrow> bool"
  assumes messaging_serve: "good req \<Longrightarrow> R s (messaging_serve env req s)"
begin

lemma messaging_execute: "list_all (\<lambda>(_, req). good req) reqs \<Longrightarrow> R s (messaging_execute reqs s)"
proof (induction reqs arbitrary: s)
  case Nil
  then show ?case by simp
next
  case (Cons r reqs)
  obtain env req where r: "r = (env, req)" by (cases r)
  with Cons.prems have "good req" "list_all (\<lambda>(_, req). good req) reqs" by simp_all
  with Cons.IH [of "messaging_serve env req s"] messaging_serve [of req s env] r show ?case
    by (simp add: R_trans)
qed

end

sublocale chat_writes \<subseteq> requests: messaging_relation R "\<lambda>_. True"
proof
  fix req s env
  show "R s (messaging_serve env req s)"
    by (cases req; simp only: messaging_serve.simps; rule after_keeps; rule all_handlers)
qed

end
