(* ===== verification/ChatInvariant.thy ===== *)
theory ChatInvariant
  imports ChatSystem
begin

text \<open>
  What the tables of the chat service satisfy in every reachable state, and what they never lose: keys are
  unique, references resolve, a tombstone is blank, and a message keeps its id, author and date for ever.
\<close>

subsection \<open>Well-formed tables\<close>

definition channel_wf :: "Channel \<Rightarrow> bool" where
  "channel_wf c \<longleftrightarrow> (Ch_Archived c \<longleftrightarrow> Ch_ArchivedAt c \<noteq> None)"

definition member_wf :: "ChannelMember \<Rightarrow> bool" where
  "member_wf m \<longleftrightarrow> ChM_DMRequestStatus m \<in> {DMRequestStatusAccepted, DMRequestStatusPending, DMRequestStatusBlocked}"

text \<open>The edit and pin stamps go with their flags; nothing of a deleted message's body is left.\<close>

definition tombstone :: "Message \<Rightarrow> bool" where
  "tombstone m \<longleftrightarrow> Msg_Content m = '''' \<and> \<not> Msg_Edited m \<and> \<not> Msg_Pinned m \<and> Msg_ForwardedFrom m = None \<and>
     Msg_QuotedMessageID m = None \<and> Msg_QuotedSnapshot m = None \<and> Msg_ProfileShare m = None \<and> Msg_CallEvent m = None"

definition message_wf :: "Message \<Rightarrow> bool" where
  "message_wf m \<longleftrightarrow> (Msg_Edited m \<longleftrightarrow> Msg_EditedAt m \<noteq> None) \<and> (Msg_Pinned m \<longleftrightarrow> Msg_PinnedAt m \<noteq> None) \<and>
     (Msg_Pinned m \<longleftrightarrow> Msg_PinnedBy m \<noteq> None) \<and> (Msg_DeletedAt m \<noteq> None \<longrightarrow> tombstone m)"

definition member_key :: "ChannelMember \<Rightarrow> uuid \<times> uuid" where
  "member_key m = (ChM_ChannelID m, ChM_UserID m)"

definition grant_key :: "ChannelAccessGrant \<Rightarrow> uuid \<times> uuid" where
  "grant_key g = (AG_ChannelID g, AG_UserID g)"

definition reaction_keys :: "Reaction \<Rightarrow> uuid \<times> uuid \<times> string" where
  "reaction_keys r = (Re_MessageID r, Re_UserID r, Re_Emoji r)"

definition channels_ok :: "chat_db \<Rightarrow> bool" where
  "channels_ok db \<longleftrightarrow> distinct (map Ch_ID (cb_channels db)) \<and> list_all channel_wf (cb_channels db)"

definition members_ok :: "chat_db \<Rightarrow> bool" where
  "members_ok db \<longleftrightarrow> distinct (map member_key (cb_members db)) \<and>
     list_all (\<lambda>m. member_wf m \<and> channel_exists (ChM_ChannelID m) db) (cb_members db)"

definition grants_ok :: "chat_db \<Rightarrow> bool" where
  "grants_ok db \<longleftrightarrow> distinct (map grant_key (cb_grants db)) \<and>
     list_all (\<lambda>g. channel_exists (AG_ChannelID g) db) (cb_grants db)"

definition messages_ok :: "chat_db \<Rightarrow> bool" where
  "messages_ok db \<longleftrightarrow> distinct (map Msg_ID (cb_messages db)) \<and>
     list_all (\<lambda>m. message_wf m \<and> channel_exists (Msg_ChannelID m) db \<and>
        (case Msg_ParentID m of None \<Rightarrow> True | Some p \<Rightarrow> message_exists p db)) (cb_messages db)"

definition reactions_ok :: "chat_db \<Rightarrow> bool" where
  "reactions_ok db \<longleftrightarrow> distinct (map Re_ID (cb_reactions db)) \<and> distinct (map reaction_keys (cb_reactions db)) \<and>
     list_all (\<lambda>r. message_exists (Re_MessageID r) db) (cb_reactions db)"

definition chat_ok :: "chat_db \<Rightarrow> bool" where
  "chat_ok db \<longleftrightarrow> channels_ok db \<and> members_ok db \<and> grants_ok db \<and> messages_ok db \<and> reactions_ok db"

lemmas chat_ok_defs = chat_ok_def channels_ok_def members_ok_def grants_ok_def messages_ok_def reactions_ok_def

subsection \<open>What is never lost\<close>

definition same_channel :: "Channel \<Rightarrow> Channel \<Rightarrow> bool" where
  "same_channel c c' \<longleftrightarrow> Ch_ID c' = Ch_ID c \<and> Ch_WorkspaceID c' = Ch_WorkspaceID c \<and> Ch_Type c' = Ch_Type c \<and>
     Ch_CreatedBy c' = Ch_CreatedBy c \<and> Ch_OwnerUserID c' = Ch_OwnerUserID c \<and> Ch_CreatedAt c' = Ch_CreatedAt c"

definition later_message :: "Message \<Rightarrow> Message \<Rightarrow> bool" where
  "later_message m m' \<longleftrightarrow> Msg_ID m' = Msg_ID m \<and> Msg_UserID m' = Msg_UserID m \<and> Msg_Type m' = Msg_Type m \<and>
     Msg_CreatedAt m' = Msg_CreatedAt m \<and> Msg_SavedFrom m' = Msg_SavedFrom m \<and> (Msg_DeletedAt m \<noteq> None \<longrightarrow> m' = m)"

definition chat_history :: "chat_db \<Rightarrow> chat_db \<Rightarrow> bool" where
  "chat_history db db' \<longleftrightarrow> (\<forall>c \<in> set (cb_channels db). \<exists>c' \<in> set (cb_channels db'). same_channel c c') \<and>
     (\<forall>m \<in> set (cb_messages db). \<exists>m' \<in> set (cb_messages db'). later_message m m')"

definition chat_rel :: "chat_state \<Rightarrow> chat_state \<Rightarrow> bool" where
  "chat_rel s s' \<longleftrightarrow> (chat_ok (cs_db s) \<longrightarrow> chat_ok (cs_db s') \<and> chat_history (cs_db s) (cs_db s'))"

lemma same_channel_refl [simp]: "same_channel c c"
  by (simp add: same_channel_def)

lemma same_channel_trans: "same_channel a b \<Longrightarrow> same_channel b c \<Longrightarrow> same_channel a c"
  by (simp add: same_channel_def)

lemma later_message_refl [simp]: "later_message m m"
  by (simp add: later_message_def)

lemma later_message_trans: "later_message a b \<Longrightarrow> later_message b c \<Longrightarrow> later_message a c"
  by (auto simp: later_message_def)

lemma chat_history_trans: "chat_history a b \<Longrightarrow> chat_history b c \<Longrightarrow> chat_history a c"
  unfolding chat_history_def by (meson same_channel_trans later_message_trans)

lemma chat_history_same:
  "cb_channels db' = cb_channels db \<Longrightarrow> cb_messages db' = cb_messages db \<Longrightarrow> chat_history db db'"
  by (auto simp: chat_history_def intro: same_channel_refl later_message_refl)

lemma chat_ok_core: "chat_core s' = chat_core s \<Longrightarrow> chat_ok (cs_db s') = chat_ok (cs_db s)"
  by (simp add: chat_core_def chat_ok_defs channel_exists_def message_exists_def cong: option.case_cong)

subsection \<open>Statements on one table\<close>

lemma chat_rel_exec:
  assumes "\<And>db. chat_ok db \<Longrightarrow> chat_ok (snd (f db)) \<and> chat_history db (snd (f db))"
  shows "keepsM chat_rel (chat_exec env op args wrap f)"
  by (rule keepsMI) (simp add: chat_rel_def chat_exec_snd assms chat_history_same split: option.splits)

lemma on_table_cases:
  assumes "\<And>rows. stmt (get db) = Inr rows \<Longrightarrow> P (put rows db)" and "P db"
  shows "P (snd (on_table get put stmt db))"
  using assms by (simp add: on_table_snd split: sum.splits)

lemma distinct_map_snoc: "distinct (map key rows) \<Longrightarrow> (\<And>r. r \<in> set rows \<Longrightarrow> key r \<noteq> key x) \<Longrightarrow> distinct (map key (rows @ [x]))"
  by force

lemma distinct_map_upd:
  "distinct (map key rows) \<Longrightarrow> (\<And>r. P r \<Longrightarrow> key (f r) = key r) \<Longrightarrow> distinct (map key (upd_where P f rows))"
  by (simp add: map_upd_where)

lemma list_all_upd:
  "list_all Q rows \<Longrightarrow> (\<And>r. r \<in> set rows \<Longrightarrow> Q r \<Longrightarrow> P r \<Longrightarrow> Q (f r)) \<Longrightarrow> list_all Q (upd_where P f rows)"
  by (auto simp: list_all_iff set_upd_where)

lemma upd_related:
  assumes "\<And>r. R r r" and "\<And>r. r \<in> set rows \<Longrightarrow> P r \<Longrightarrow> R r (f r)"
  shows "\<forall>r \<in> set rows. \<exists>r' \<in> set (upd_where P f rows). R r r'"
proof
  fix r assume r: "r \<in> set rows"
  with assms have "R r (if P r then f r else r)" by simp
  with r show "\<exists>r' \<in> set (upd_where P f rows). R r r'" unfolding set_upd_where by blast
qed

lemma exists_upd:
  "(\<And>r. P r \<Longrightarrow> key (f r) = key r) \<Longrightarrow> (\<exists>r \<in> set (upd_where P f rows). key r = k) \<longleftrightarrow> (\<exists>r \<in> set rows. key r = k)"
  by (auto simp: set_upd_where)

lemma channel_exists_simps [simp]:
  "channel_exists c (db\<lparr>cb_members := ms\<rparr>) = channel_exists c db"
  "channel_exists c (db\<lparr>cb_grants := gs\<rparr>) = channel_exists c db"
  "channel_exists c (db\<lparr>cb_messages := xs\<rparr>) = channel_exists c db"
  "channel_exists c (db\<lparr>cb_reactions := rs\<rparr>) = channel_exists c db"
  by (simp_all add: channel_exists_def)

lemma message_exists_simps [simp]:
  "message_exists c (db\<lparr>cb_channels := cs\<rparr>) = message_exists c db"
  "message_exists c (db\<lparr>cb_members := ms\<rparr>) = message_exists c db"
  "message_exists c (db\<lparr>cb_grants := gs\<rparr>) = message_exists c db"
  "message_exists c (db\<lparr>cb_reactions := rs\<rparr>) = message_exists c db"
  by (simp_all add: message_exists_def)

text \<open>A new version of a table that keeps the keys others refer to.\<close>

lemma put_channels_ok:
  assumes "chat_ok db" and "channels_ok (db\<lparr>cb_channels := rows\<rparr>)"
    and "\<forall>c \<in> set (cb_channels db). \<exists>c' \<in> set rows. same_channel c c'"
  shows "chat_ok (db\<lparr>cb_channels := rows\<rparr>) \<and> chat_history db (db\<lparr>cb_channels := rows\<rparr>)"
proof -
  have "channel_exists c db \<Longrightarrow> channel_exists c (db\<lparr>cb_channels := rows\<rparr>)" for c
    using assms(3) by (force simp: channel_exists_def same_channel_def)
  with assms show ?thesis
    by (auto simp: chat_ok_defs chat_history_def list_all_iff intro: later_message_refl split: option.splits)
qed

lemma put_members_ok:
  "chat_ok db \<Longrightarrow> members_ok (db\<lparr>cb_members := rows\<rparr>) \<Longrightarrow>
   chat_ok (db\<lparr>cb_members := rows\<rparr>) \<and> chat_history db (db\<lparr>cb_members := rows\<rparr>)"
  by (simp add: chat_ok_defs chat_history_same cong: option.case_cong)

lemma put_grants_ok:
  "chat_ok db \<Longrightarrow> grants_ok (db\<lparr>cb_grants := rows\<rparr>) \<Longrightarrow>
   chat_ok (db\<lparr>cb_grants := rows\<rparr>) \<and> chat_history db (db\<lparr>cb_grants := rows\<rparr>)"
  by (simp add: chat_ok_defs chat_history_same cong: option.case_cong)

lemma put_reactions_ok:
  "chat_ok db \<Longrightarrow> reactions_ok (db\<lparr>cb_reactions := rows\<rparr>) \<Longrightarrow>
   chat_ok (db\<lparr>cb_reactions := rows\<rparr>) \<and> chat_history db (db\<lparr>cb_reactions := rows\<rparr>)"
  by (simp add: chat_ok_defs chat_history_same cong: option.case_cong)

lemma put_messages_ok:
  assumes "chat_ok db" and "messages_ok (db\<lparr>cb_messages := rows\<rparr>)"
    and "\<forall>m \<in> set (cb_messages db). \<exists>m' \<in> set rows. later_message m m'"
  shows "chat_ok (db\<lparr>cb_messages := rows\<rparr>) \<and> chat_history db (db\<lparr>cb_messages := rows\<rparr>)"
proof -
  have "message_exists m db \<Longrightarrow> message_exists m (db\<lparr>cb_messages := rows\<rparr>)" for m
    using assms(3) by (force simp: message_exists_def later_message_def)
  with assms show ?thesis
    by (auto simp: chat_ok_defs chat_history_def list_all_iff intro: same_channel_refl)
qed

text \<open>An update of message rows by a function that keeps them well formed.\<close>

definition keeps_message :: "chat_db \<Rightarrow> (Message \<Rightarrow> bool) \<Rightarrow> (Message \<Rightarrow> Message) \<Rightarrow> bool" where
  "keeps_message db P f \<longleftrightarrow> (\<forall>m \<in> set (cb_messages db). message_wf m \<longrightarrow> P m \<longrightarrow>
     message_wf (f m) \<and> later_message m (f m) \<and> channel_exists (Msg_ChannelID (f m)) db \<and>
     (case Msg_ParentID (f m) of None \<Rightarrow> True | Some p \<Rightarrow> message_exists p db))"

lemma upd_messages_ok:
  assumes ok: "chat_ok db" and keeps: "keeps_message db P f" and key: "\<And>m. P m \<Longrightarrow> Msg_ID (f m) = Msg_ID m"
  shows "chat_ok (db\<lparr>cb_messages := upd_where P f (cb_messages db)\<rparr>) \<and>
    chat_history db (db\<lparr>cb_messages := upd_where P f (cb_messages db)\<rparr>)"
proof (rule put_messages_ok [OF ok])
  have ex: "message_exists p (db\<lparr>cb_messages := upd_where P f (cb_messages db)\<rparr>) = message_exists p db" for p
    using exists_upd [of P Msg_ID f "cb_messages db" p] key by (simp add: message_exists_def)
  have "list_all (\<lambda>m. message_wf m \<and> channel_exists (Msg_ChannelID m) db \<and>
      (case Msg_ParentID m of None \<Rightarrow> True | Some p \<Rightarrow> message_exists p db)) (upd_where P f (cb_messages db))"
    using ok keeps by (intro list_all_upd) (simp_all add: chat_ok_defs keeps_message_def)
  then show "messages_ok (db\<lparr>cb_messages := upd_where P f (cb_messages db)\<rparr>)"
    unfolding messages_ok_def ex using ok key by (simp add: chat_ok_defs distinct_map_upd)
  show "\<forall>m \<in> set (cb_messages db). \<exists>m' \<in> set (upd_where P f (cb_messages db)). later_message m m'"
    using ok keeps by (intro upd_related) (auto simp: keeps_message_def chat_ok_defs list_all_iff)
qed

text \<open>One statement on one table, with and without the check of a foreign key before it.\<close>

lemma table_rel:
  assumes "\<And>db rows. chat_ok db \<Longrightarrow> stmt (get db) = Inr rows \<Longrightarrow> chat_ok (put rows db) \<and> chat_history db (put rows db)"
  shows "keepsM chat_rel (chat_exec env op args wrap (on_table get put stmt))"
  by (rule chat_rel_exec, rule on_table_cases) (simp_all add: assms chat_history_same)

lemma guarded_rel:
  assumes "\<And>db rows. chat_ok db \<Longrightarrow> \<not> bad db \<Longrightarrow> stmt (get db) = Inr rows \<Longrightarrow>
    chat_ok (put rows db) \<and> chat_history db (put rows db)"
  shows "keepsM chat_rel (chat_exec env op args wrap (\<lambda>db. if bad db then (Inl e, db) else on_table get put stmt db))"
proof (rule chat_rel_exec)
  fix db assume ok: "chat_ok db"
  show "chat_ok (snd (if bad db then (Inl e, db) else on_table get put stmt db)) \<and>
    chat_history db (snd (if bad db then (Inl e, db) else on_table get put stmt db))"
  proof (cases "bad db")
    case True
    with ok show ?thesis by (simp add: chat_history_same)
  next
    case False
    have "chat_ok (snd (on_table get put stmt db)) \<and> chat_history db (snd (on_table get put stmt db))"
      by (rule on_table_cases) (simp_all add: assms ok False chat_history_same)
    with False show ?thesis by simp
  qed
qed

lemma update_messages_rel:
  assumes "\<And>db. chat_ok db \<Longrightarrow> keeps_message db P f" and "\<And>m. P m \<Longrightarrow> Msg_ID (f m) = Msg_ID m"
  shows "keepsM chat_rel (chat_exec env op args wrap (on_table cb_messages put_messages (update_rows P f msg)))"
  by (rule table_rel) (use assms in \<open>auto simp: upd_messages_ok dest: upd_messages_ok\<close>)

subsection \<open>The statements\<close>

lemma keeps_message_body:
  assumes "chat_ok db" and "\<And>m. Msg_ChannelID (f m) = Msg_ChannelID m \<and> Msg_ParentID (f m) = Msg_ParentID m"
    and "\<And>m. message_wf m \<Longrightarrow> P m \<Longrightarrow> message_wf (f m) \<and> later_message m (f m)"
  shows "keeps_message db P f"
  using assms by (auto simp: keeps_message_def chat_ok_defs list_all_iff)

interpretation tables: chat_relation chat_rel
proof
  show "chat_rel s s" for s
    by (simp add: chat_rel_def chat_history_same)
  show "chat_rel s t \<Longrightarrow> chat_rel t u \<Longrightarrow> chat_rel s u" for s t u
    by (auto simp: chat_rel_def intro: chat_history_trans)
  show "chat_core s' = chat_core s \<Longrightarrow> chat_rel s s'" for s s'
    using chat_ok_core [of s' s] by (simp add: chat_rel_def chat_core_def chat_history_same)
qed

lemma Messages_Update_rel: "keepsM chat_rel (ChatMessages_Update env m)"
  unfolding ChatMessages_Update_def
  by (intro tables.keeps_bindM tables.keeps_returnM update_messages_rel keeps_message_body)
    (auto simp: message_wf_def later_message_def live_message_def)

lemma UpdateFileIDs_rel: "keepsM chat_rel (UpdateFileIDs env mid fs)"
  unfolding UpdateFileIDs_def
  by (intro update_messages_rel keeps_message_body) (auto simp: message_wf_def later_message_def live_message_def)

lemma Messages_Pin_rel: "keepsM chat_rel (ChatMessages_Pin env mid u)" "keepsM chat_rel (ChatMessages_Unpin env mid)"
  unfolding ChatMessages_Pin_def ChatMessages_Unpin_def
  by (rule update_messages_rel, rule keeps_message_body; auto simp: message_wf_def later_message_def live_message_def)+

lemma Messages_Move_rel: "keepsM chat_rel (ChatMessages_Move env msg)"
proof -
  define f :: "Message \<Rightarrow> Message" where
    "f = (\<lambda>m. m\<lparr>Msg_ChannelID := Msg_ChannelID msg, Msg_ParentID := Msg_ParentID msg, Msg_Pinned := False,
       Msg_PinnedBy := None, Msg_PinnedAt := None, Msg_UpdatedAt := cnow env\<rparr>)"
  have "channel_exists (Msg_ChannelID msg) db \<Longrightarrow>
      \<not> (case Msg_ParentID msg of None \<Rightarrow> False | Some p \<Rightarrow> \<not> message_exists p db) \<Longrightarrow>
      keeps_message db (live_message (Msg_ID msg)) f" for db
    by (auto simp: keeps_message_def f_def message_wf_def later_message_def live_message_def split: option.splits)
  moreover have "Msg_ID (f m) = Msg_ID m" for m by (simp add: f_def)
  ultimately show ?thesis
    unfolding ChatMessages_Move_def f_def [symmetric]
    by (intro tables.keeps_bindM tables.keeps_returnM guarded_rel) (clarsimp simp: upd_messages_ok)
qed

lemma cascade_ok:
  assumes "chat_ok db"
  shows "chat_ok (db\<lparr>cb_messages := cascade_quotes now mid (cb_messages db)\<rparr>) \<and>
    chat_history db (db\<lparr>cb_messages := cascade_quotes now mid (cb_messages db)\<rparr>)"
  unfolding cascade_quotes_def
  by (intro upd_messages_ok assms keeps_message_body [OF assms])
    (auto simp: message_wf_def later_message_def quotes_def tombstone_def)

lemma SoftDeleteWithCascade_rel: "keepsM chat_rel (SoftDeleteWithCascade env mid)"
  unfolding SoftDeleteWithCascade_def
proof (intro tables.keeps_bindM update_messages_rel keeps_message_body)
  show "keepsM chat_rel (chat_exec env op args wrap (\<lambda>db. (Inr (ids db), db\<lparr>cb_messages := cascade_quotes now mid (cb_messages db)\<rparr>)))"
    for op args wrap ids now by (rule chat_rel_exec) (simp add: cascade_ok)
qed (simp_all add: message_wf_def later_message_def live_message_def soft_deleted_def tombstone_def)

lemma Messages_Create_rel:
  assumes "fresh_message m"
  shows "keepsM chat_rel (ChatMessages_Create env m)"
proof -
  have wf: "message_wf (message_row m)"
    using assms by (simp add: fresh_message_def message_wf_def message_row_def)
  have new: "chat_ok (db\<lparr>cb_messages := cb_messages db @ [message_row m]\<rparr>) \<and>
      chat_history db (db\<lparr>cb_messages := cb_messages db @ [message_row m]\<rparr>)"
    if ok: "chat_ok db" and channel: "channel_exists (Msg_ChannelID m) db"
      and parent: "\<not> (case Msg_ParentID m of None \<Rightarrow> False | Some p \<Rightarrow> \<not> message_exists p db)"
      and fresh: "\<forall>r \<in> set (cb_messages db). Msg_ID (message_row m) \<noteq> Msg_ID r" for db
  proof (rule put_messages_ok [OF ok])
    have ex: "message_exists p db \<Longrightarrow> message_exists p (db\<lparr>cb_messages := cb_messages db @ [message_row m]\<rparr>)" for p
      by (auto simp: message_exists_def)
    have "distinct (map Msg_ID (cb_messages db @ [message_row m]))"
      using ok fresh by (intro distinct_map_snoc) (auto simp: chat_ok_defs)
    moreover have "channel_exists (Msg_ChannelID (message_row m)) db"
      "case Msg_ParentID (message_row m) of None \<Rightarrow> True | Some p \<Rightarrow> message_exists p db"
      using channel parent by (auto simp: message_row_def split: option.splits)
    ultimately show "messages_ok (db\<lparr>cb_messages := cb_messages db @ [message_row m]\<rparr>)"
      using ok wf ex by (auto simp: messages_ok_def chat_ok_def list_all_iff split: option.splits)
  qed (auto intro: later_message_refl)
  show ?thesis
    unfolding ChatMessages_Create_def by (rule guarded_rel) (use new in auto)
qed

lemma Channels_Update_rel: "keepsM chat_rel (Channels_Update env ch)"
proof -
  define f :: "Channel \<Rightarrow> Channel" where
    "f = (\<lambda>r. r\<lparr>Ch_Name := Ch_Name ch, Ch_Topic := Ch_Topic ch, Ch_Archived := Ch_Archived ch,
       Ch_ArchivedAt := (if Ch_Archived ch then (case Ch_ArchivedAt r of None \<Rightarrow> Some (cnow env) | Some t \<Rightarrow> Some t) else None),
       Ch_UpdatedAt := cnow env\<rparr>)"
  have same: "same_channel r (f r)" "channel_wf (f r)" for r
    by (auto simp: f_def same_channel_def channel_wf_def split: option.splits)
  have key: "Ch_ID (f r) = Ch_ID r" for r by (simp add: f_def)
  have "chat_ok (db\<lparr>cb_channels := upd_where P f (cb_channels db)\<rparr>) \<and>
      chat_history db (db\<lparr>cb_channels := upd_where P f (cb_channels db)\<rparr>)" if "chat_ok db" for db P
  proof (rule put_channels_ok [OF that])
    show "channels_ok (db\<lparr>cb_channels := upd_where P f (cb_channels db)\<rparr>)"
      using that same key by (auto simp: chat_ok_defs intro!: distinct_map_upd list_all_upd)
    show "\<forall>c \<in> set (cb_channels db). \<exists>c' \<in> set (upd_where P f (cb_channels db)). same_channel c c'"
      by (rule upd_related) (simp_all add: same)
  qed
  then show ?thesis
    unfolding Channels_Update_def f_def [symmetric]
    by (intro tables.keeps_bindM tables.keeps_returnM table_rel) simp
qed

lemma Channels_Create_rel:
  assumes "\<not> Ch_Archived ch"
  shows "keepsM chat_rel (Channels_Create env ch)"
  unfolding Channels_Create_def
proof (rule table_rel)
  fix db rows
  assume ok: "chat_ok db" and ins: "insert_row channel_clash (AlreadyExists ''channel already exists'') (channel_row ch) (cb_channels db) = Inr rows"
  have rows: "rows = cb_channels db @ [channel_row ch]" "\<forall>r \<in> set (cb_channels db). Ch_ID r \<noteq> Ch_ID (channel_row ch)"
    using ins by (auto simp: channel_clash_def)
  have "channels_ok (db\<lparr>cb_channels := rows\<rparr>)"
    using ok rows assms by (auto simp: chat_ok_defs channel_wf_def channel_row_def intro!: distinct_map_snoc)
  with ok rows show "chat_ok (db\<lparr>cb_channels := rows\<rparr>) \<and> chat_history db (db\<lparr>cb_channels := rows\<rparr>)"
    by (intro put_channels_ok) (auto intro: same_channel_refl)
qed

lemma normalized_wf [simp]: "member_wf (m\<lparr>ChM_DMRequestStatus := normalizeDMRequestStatus st\<rparr>)"
  by (auto simp: member_wf_def normalizeDMRequestStatus_def)

lemma AddMember_rel: "keepsM chat_rel (Channels_AddMember env m)"
  unfolding Channels_AddMember_def
proof (rule guarded_rel)
  let ?m = "m\<lparr>ChM_DMRequestStatus := normalizeDMRequestStatus (ChM_DMRequestStatus m)\<rparr>"
  fix db rows
  assume ok: "chat_ok db" and ch: "\<not> \<not> channel_exists (ChM_ChannelID m) db"
    and ins: "insert_row member_clash (AlreadyExists ''member already exists in channel'') ?m (cb_members db) = Inr rows"
  have rows: "rows = cb_members db @ [?m]" "\<forall>r \<in> set (cb_members db). member_key r \<noteq> member_key ?m"
    using ins by (auto simp: member_clash_def member_key_def)
  then have "distinct (map member_key rows)"
    using ok by (auto simp: chat_ok_defs intro!: distinct_map_snoc)
  with rows(1) ok ch have "members_ok (db\<lparr>cb_members := rows\<rparr>)"
    by (simp add: chat_ok_defs)
  with ok show "chat_ok (db\<lparr>cb_members := rows\<rparr>) \<and> chat_history db (db\<lparr>cb_members := rows\<rparr>)"
    by (rule put_members_ok)
qed

lemma member_update_rel:
  assumes "\<And>m. member_key (f m) = member_key m" and "\<And>m. member_wf m \<Longrightarrow> member_wf (f m)"
  shows "keepsM chat_rel (chat_exec env op args wrap (on_table cb_members put_members (update_rows P f msg)))"
proof (rule table_rel)
  fix db rows
  assume ok: "chat_ok db" and "update_rows P f msg (cb_members db) = Inr rows"
  then have rows: "rows = upd_where P f (cb_members db)" by simp
  have "ChM_ChannelID (f m) = ChM_ChannelID m" for m using assms(1) [of m] by (simp add: member_key_def)
  then have "members_ok (db\<lparr>cb_members := rows\<rparr>)"
    using ok assms unfolding rows by (auto simp: chat_ok_defs intro!: distinct_map_upd list_all_upd)
  with ok show "chat_ok (db\<lparr>cb_members := rows\<rparr>) \<and> chat_history db (db\<lparr>cb_members := rows\<rparr>)"
    by (rule put_members_ok)
qed

lemma member_statements_rel:
  "keepsM chat_rel (UpdateDMRequestStatus env c u st)" "keepsM chat_rel (UpdateLastRead env c u)"
  unfolding UpdateDMRequestStatus_def UpdateLastRead_def
  by (rule member_update_rel; simp add: member_key_def member_wf_def normalizeDMRequestStatus_def)+

lemma RemoveMember_rel: "keepsM chat_rel (Channels_RemoveMember env c u)"
  unfolding Channels_RemoveMember_def
  by (rule table_rel, rule put_members_ok) (auto simp: chat_ok_defs list_all_iff distinct_map_filter)

lemma CreateGrant_rel: "keepsM chat_rel (CreateGrant env g)"
  unfolding CreateGrant_def
  by (rule guarded_rel, rule put_grants_ok) (auto simp: chat_ok_defs grant_key_def)

lemma reaction_statements_rel:
  "keepsM chat_rel (Reactions_AddReaction env r)" "keepsM chat_rel (Reactions_RemoveReaction env mid u e)"
  "keepsM chat_rel (Reactions_RemoveReactionByID env rid)"
proof -
  show "keepsM chat_rel (Reactions_AddReaction env r)"
    unfolding Reactions_AddReaction_def
    by (rule guarded_rel, rule put_reactions_ok)
      (auto simp: chat_ok_defs reaction_keys_def reaction_clash_def reaction_key_def)
qed (unfold Reactions_RemoveReaction_def Reactions_RemoveReactionByID_def;
    rule table_rel, rule put_reactions_ok; auto simp: chat_ok_defs list_all_iff distinct_map_filter)+

interpretation chat: chat_writes chat_rel
  by unfold_locales
    (simp_all add: Channels_Update_rel RemoveMember_rel member_statements_rel Messages_Create_rel Messages_Update_rel
      UpdateFileIDs_rel Messages_Move_rel SoftDeleteWithCascade_rel Messages_Pin_rel reaction_statements_rel
      Channels_Create_rel AddMember_rel CreateGrant_rel)

lemma execution_rel: "chat_rel s (messaging_execute reqs s)"
  by (rule chat.requests.messaging_execute) (simp add: list_all_iff)

lemma initial_chat_ok: "chat_ok (cs_db initial_chat)"
  by (simp add: initial_chat_def empty_chat_db_def chat_ok_defs)

end
