(* ===== verification/Paging.thy ===== *)
theory Paging
  imports ChatInvariant Scenario
begin

text \<open>
  Reading the messages of a channel page by page: what one page holds, and what a client sees that follows
  the cursors. Also the workspace the chat theorems are instantiated on.
\<close>

subsection \<open>A workspace with a conversation\<close>

definition demo_chat_env :: "bool \<Rightarrow> chat_env" where
  "demo_chat_env tx =
     \<lparr>ce_dir = demo_dir, ce_users = [], ce_tx = tx, ce_access = True, ce_guests = True, ce_collab = False, ce_contacts = False,
      ce_channelGrants = True, ce_readStates = True, ce_files = True, ce_search = True, ce_realtime = True, ce_presence = None,
      ce_pathWorkspace = 1, ce_id = Suc, ce_jsonValid = (\<lambda>_. True), ce_handleMatch = (\<lambda>_ _. False)\<rparr>"

definition demo_text :: "string \<Rightarrow> SendMessageInput" where
  "demo_text t = \<lparr>SMI_Content = t, SMI_Type = ''text'', SMI_ParentID = None, SMI_ForwardedFrom = None, SMI_QuotedMessageID = None,
     SMI_QuotedSnapshot = None, SMI_ProfileShare = None, SMI_FileIDs = [], SMI_ClientMessageID = None\<rparr>"

definition demo_channel :: "uuid \<Rightarrow> string \<Rightarrow> ChannelType \<Rightarrow> Channel" where
  "demo_channel cid name t = channel_row (new_channel cid 1 name (Some '''') t 10 0)"

definition demo_post :: "uuid \<Rightarrow> uuid \<Rightarrow> string \<Rightarrow> uuid option \<Rightarrow> Message" where
  "demo_post mid userID t parentID =
     Message_zero\<lparr>Msg_ID := mid, Msg_ChannelID := 3, Msg_UserID := userID, Msg_ParentID := parentID, Msg_Content := t,
       Msg_Type := MessageTypeText, Msg_CreatedAt := int mid, Msg_UpdatedAt := int mid\<rparr>"

text \<open>
  The private channel 3 of the users 10, its owner, and 11; the public channel 4 of user 10; in channel 3 two
  messages and a reply of user 11 to the first one.
\<close>

definition demo_chat_db :: chat_db where
  "demo_chat_db = empty_chat_db\<lparr>
     cb_channels := [demo_channel 3 ''plans'' ChannelTypePrivate, demo_channel 4 ''news'' ChannelTypePublic],
     cb_members := [new_member 1 3 10 ChannelRoleOwner 0 DMRequestStatusAccepted,
                    new_member 2 3 11 ChannelRoleMember 0 DMRequestStatusAccepted,
                    new_member 3 4 10 ChannelRoleOwner 0 DMRequestStatusAccepted],
     cb_messages := [demo_post 5 10 ''first'' None, demo_post 6 11 ''second'' None, demo_post 7 11 ''a reply'' (Some 5)]\<rparr>"

definition demo_chat :: chat_state where
  "demo_chat = \<lparr>cs_db = demo_chat_db, cs_published = [], cs_ids = 8\<rparr>"

lemma demo_chat_ok: "chat_ok (cs_db demo_chat)"
  by code_simp

subsection \<open>Hydration keeps the rows\<close>

lemma hydrateReactions_ids: "hydrateMessageReactions env xs s = Inr ys \<Longrightarrow> map Msg_ID ys = map Msg_ID xs"
  by (auto simp: hydrateMessageReactions_def Let_def comp_def split: if_splits sum.splits)

lemma hydrateAttachments_ids: "hydrateMessageAttachments env xs s = Inr ys \<Longrightarrow> map Msg_ID ys = map Msg_ID xs"
  by (auto simp: hydrateMessageAttachments_def Let_def comp_def split: if_splits sum.splits)

lemma hydrateMentions_ids: "hydrateMessageMentionsForRead env xs s = Inr ys \<Longrightarrow> map Msg_ID ys = map Msg_ID xs"
  by (auto simp: hydrateMessageMentionsForRead_def Let_def comp_def split: if_splits sum.splits)

lemma hydrateFiles_ids: "hydrateMessageFiles env xs s = Inr ys \<Longrightarrow> map Msg_ID ys = map Msg_ID xs"
  by (induction env xs s arbitrary: ys rule: hydrateMessageFiles.induct) (auto split: if_splits sum.splits)

lemma hydrate_messages_ids: "hydrate_messages env xs s = Inr ys \<Longrightarrow> map Msg_ID ys = map Msg_ID xs"
  by (auto simp: hydrate_messages_def split: sum.splits
      dest!: hydrateReactions_ids hydrateAttachments_ids hydrateMentions_ids hydrateFiles_ids)

lemma redact_ids [simp]: "map Msg_ID (redactDeletedMessages xs) = map Msg_ID xs"
  by (simp add: redactDeletedMessages_def redactDeletedMessage_def comp_def)

lemma load_message_ID [simp]: "Msg_ID (load_message m) = Msg_ID m"
  by (simp add: load_message_def)

text \<open>Without faults every read of the repositories succeeds, and so does hydration.\<close>

definition no_faults :: "chat_env \<Rightarrow> bool" where
  "no_faults env \<longleftrightarrow> (\<forall>op args. cfault env op args = None)"

lemma chat_query_no_faults: "no_faults env \<Longrightarrow> chat_query env op args wrap f s = f (cs_db s)"
  by (simp add: chat_query_def db_op_def no_faults_def)

lemma hydrateFiles_total: "no_faults env \<Longrightarrow> \<exists>ys. hydrateMessageFiles env xs s = Inr ys"
  by (induction xs) (auto simp: ResolveMessageFiles_def chat_query_no_faults split: sum.splits)

lemma hydrateAttachments_total: "no_faults env \<Longrightarrow> \<exists>ys. hydrateMessageAttachments env xs s = Inr ys"
  by (simp add: hydrateMessageAttachments_def Let_def ListAttachmentsByMessageIDs_def chat_query_no_faults)

lemma hydrateMentions_total: "no_faults env \<Longrightarrow> \<exists>ys. hydrateMessageMentionsForRead env xs s = Inr ys"
  by (simp add: hydrateMessageMentionsForRead_def Let_def ResolveMentionsByMessageIDs_def chat_query_no_faults)

lemma hydrateReactions_total: "no_faults env \<Longrightarrow> \<exists>ys. hydrateMessageReactions env xs s = Inr ys"
  by (simp add: hydrateMessageReactions_def Let_def ListReactionsByMessageIDs_def chat_query_no_faults)

lemma hydrate_messages_total:
  assumes "no_faults env"
  shows "\<exists>ys. hydrate_messages env xs s = Inr ys"
proof -
  obtain a where a: "hydrateMessageReactions env xs s = Inr a" using hydrateReactions_total [OF assms] by blast
  obtain b where b: "hydrateMessageMentionsForRead env a s = Inr b" using hydrateMentions_total [OF assms] by blast
  obtain c where c: "hydrateMessageAttachments env b s = Inr c" using hydrateAttachments_total [OF assms] by blast
  obtain d where d: "hydrateMessageFiles env c s = Inr d" using hydrateFiles_total [OF assms] by blast
  show ?thesis using a b c d hydrateAttachments_total [OF assms, of d s] by (simp add: hydrate_messages_def)
qed

subsection \<open>One page\<close>

text \<open>The ids of a channel's messages before the cursor, newest first.\<close>

definition window :: "uuid \<Rightarrow> uuid \<Rightarrow> Message list \<Rightarrow> uuid list" where
  "window channelID cursor rows =
     rev (sort (map Msg_ID (filter (\<lambda>m. Msg_ChannelID m = channelID \<and> (cursor \<noteq> uuid_Nil \<longrightarrow> Msg_ID m < cursor)) rows)))"

lemma map_insort_key: "map f (insort_key f x xs) = insort (f x) (map f xs)"
  by (induction xs) simp_all

lemma map_sort_key: "map f (sort_key f xs) = sort (map f xs)"
  by (induction xs) (simp_all add: map_insort_key)

lemma message_page_ids:
  assumes "1 \<le> P_Limit p" and "P_Limit p \<le> MaxLimit"
  shows "map Msg_ID (message_page P p rows) =
    take (nat (P_Limit p)) (rev (sort (map Msg_ID (filter (\<lambda>m. P m \<and> (P_Cursor p \<noteq> uuid_Nil \<longrightarrow> Msg_ID m < P_Cursor p)) rows))))"
proof -
  let ?xs = "rev (sort_key Msg_ID (filter (\<lambda>m. P m \<and> (P_Cursor p \<noteq> uuid_Nil \<longrightarrow> Msg_ID m < P_Cursor p)) rows))"
  have "message_page P p rows = map load_message (take (nat (P_Limit p)) ?xs)"
    unfolding message_page_def Normalize_id [OF assms] Let_def using assms(1)
    by (auto simp: nat_add_distrib min_def)
  then show ?thesis by (simp add: take_map [symmetric] rev_map [symmetric] map_sort_key comp_def)
qed

lemma GetMessages_Inr:
  assumes "GetMessages env c u p s = Inr page"
  obtains ch items where "GetAccessibleChannel env c u s = Inr ch"
    "items = message_page (\<lambda>m. Msg_ChannelID m = c) \<lparr>P_Cursor = P_Cursor (Normalize p), P_Limit = P_Limit (Normalize p) + 1\<rparr> (cb_messages (cs_db s))"
    "finish_page env items (P_Limit (Normalize p)) s = Inr page"
  using assms by (auto simp: GetMessages_def ChatMessages_ListByChannel_def Let_def split: sum.splits)

lemma finish_page_Inr:
  assumes "finish_page env items limit s = Inr page"
  shows "map Msg_ID (MPg_Items page) = map Msg_ID (MPg_Items (buildMessagePage items limit)) \<and>
    MPg_HasMore page = MPg_HasMore (buildMessagePage items limit) \<and>
    MPg_NextCursor page = MPg_NextCursor (buildMessagePage items limit)"
  using assms by (auto simp: finish_page_def Let_def dest!: hydrate_messages_ids split: sum.splits)

lemma buildMessagePage_ids:
  assumes "map Msg_ID items = take (Suc n) w" and "1 \<le> n"
  shows "map Msg_ID (MPg_Items (buildMessagePage items (int n))) = take n w \<and>
    (MPg_HasMore (buildMessagePage items (int n)) \<longleftrightarrow> n < length w) \<and>
    MPg_NextCursor (buildMessagePage items (int n)) = (if n < length w then w ! (n - 1) else uuid_Nil)"
proof -
  have len: "length items = min (Suc n) (length w)"
    using arg_cong [OF assms(1), of length] by simp
  show ?thesis
  proof (cases "n < length w")
    case True
    then have cut: "map Msg_ID (take n items) = take n w" and ne: "items \<noteq> []" "take n items \<noteq> []"
      using assms len by (auto simp: take_map [symmetric] min_def)
    have "Msg_ID (last (take n items)) = last (take n w)"
      using cut ne(2) by (metis last_map)
    moreover have "last (take n w) = w ! (n - 1)"
      using True assms(2) by (subst last_conv_nth) auto
    ultimately show ?thesis using True len cut ne assms(2) by (auto simp: buildMessagePage_def Let_def)
  next
    case False
    with len assms(1) show ?thesis by (simp add: buildMessagePage_def)
  qed
qed

lemma GetMessages_page:
  assumes "GetMessages env c u p s = Inr page" and "P_Limit (Normalize p) < MaxLimit"
  shows "let n = nat (P_Limit (Normalize p)); w = window c (P_Cursor p) (cb_messages (cs_db s)) in
    map Msg_ID (MPg_Items page) = take n w \<and> (MPg_HasMore page \<longleftrightarrow> n < length w) \<and>
    MPg_NextCursor page = (if n < length w then w ! (n - 1) else uuid_Nil)"
proof -
  let ?n = "nat (P_Limit (Normalize p))" and ?w = "window c (P_Cursor p) (cb_messages (cs_db s))"
  have n: "1 \<le> ?n" "P_Limit (Normalize p) = int ?n" using Normalize_Limit [of p] by auto
  have cur: "P_Cursor (Normalize p) = P_Cursor p" by (simp add: Normalize_def Let_def)
  from assms(1) obtain items where
      items: "items = message_page (\<lambda>m. Msg_ChannelID m = c) \<lparr>P_Cursor = P_Cursor (Normalize p), P_Limit = P_Limit (Normalize p) + 1\<rparr> (cb_messages (cs_db s))"
    and fin: "finish_page env items (P_Limit (Normalize p)) s = Inr page"
    by (rule GetMessages_Inr)
  have "map Msg_ID items = take (Suc ?n) ?w"
    unfolding items using assms(2) n
    by (subst message_page_ids) (simp_all add: window_def cur nat_add_distrib)
  from buildMessagePage_ids [OF this n(1)] finish_page_Inr [OF fin] show ?thesis
    unfolding Let_def n(2) [symmetric] by argo
qed

subsection \<open>Following the cursors\<close>

text \<open>A client that starts at the newest message and asks for the next page while there is one.\<close>

fun scroll :: "nat \<Rightarrow> chat_env \<Rightarrow> uuid \<Rightarrow> uuid \<Rightarrow> int \<Rightarrow> uuid \<Rightarrow> chat_state \<Rightarrow> (go_error + Message list) option" where
  "scroll 0 env channelID userID limit cursor s = None"
| "scroll (Suc k) env channelID userID limit cursor s =
     (case GetMessages env channelID userID \<lparr>P_Cursor = cursor, P_Limit = limit\<rparr> s of
        Inl err \<Rightarrow> Some (Inl err)
      | Inr page \<Rightarrow>
          if \<not> MPg_HasMore page then Some (Inr (MPg_Items page))
          else (case scroll k env channelID userID limit (MPg_NextCursor page) s of
                  Some (Inr rest) \<Rightarrow> Some (Inr (MPg_Items page @ rest))
                | r \<Rightarrow> r))"

lemma window_decreasing:
  assumes "distinct (map Msg_ID rows)"
  shows "sorted_wrt (>) (window c cursor rows)"
proof -
  have "distinct (map Msg_ID (filter P rows))" for P
    using assms by (rule distinct_map_filter)
  then show ?thesis
    by (simp add: window_def sorted_wrt_rev strict_sorted_iff del: distinct_map)
qed

lemma filter_decreasing:
  "sorted_wrt (>) (xs :: nat list) \<Longrightarrow> 0 < n \<Longrightarrow> n \<le> length xs \<Longrightarrow> filter (\<lambda>x. x < xs ! (n - 1)) xs = drop n xs"
proof (induction xs arbitrary: n)
  case Nil
  then show ?case by simp
next
  case (Cons x xs)
  show ?case
  proof (cases "n = 1")
    case True
    with Cons.prems show ?thesis by (auto simp: filter_id_conv)
  next
    case False
    then obtain k where n: "n = Suc k" "0 < k" using Cons.prems(2) by (cases n) auto
    with Cons.prems have "xs ! (k - 1) \<in> set xs" by simp
    with Cons.prems have "\<not> x < xs ! (k - 1)" by auto
    with Cons.IH [of k] Cons.prems n show ?thesis by (simp add: nth_Cons')
  qed
qed

lemma window_filter:
  "window c cursor rows = filter (\<lambda>i. cursor \<noteq> uuid_Nil \<longrightarrow> i < cursor) (window c uuid_Nil rows)"
  by (simp add: window_def rev_filter [symmetric] filter_sort filter_map comp_def)

lemma window_next:
  assumes "distinct (map Msg_ID rows)" and w: "w = window c cursor rows" and "0 < n" "n < length w"
  shows "window c (w ! (n - 1)) rows = drop n w" and "w ! (n - 1) \<noteq> uuid_Nil"
proof -
  have dec: "sorted_wrt (>) w" using window_decreasing [OF assms(1)] w by simp
  then have "w ! n < w ! (n - 1)" using assms(3,4) by (simp add: sorted_wrt_iff_nth_less)
  then show nz: "w ! (n - 1) \<noteq> uuid_Nil" by simp
  have "w ! (n - 1) \<in> set w" using assms(4) by simp
  then have "cursor \<noteq> uuid_Nil \<longrightarrow> w ! (n - 1) < cursor"
    unfolding w by (subst (asm) window_filter) simp
  then have "window c (w ! (n - 1)) rows = filter (\<lambda>i. i < w ! (n - 1)) w"
    using nz unfolding w window_filter [of c cursor rows] window_filter [of c "_ ! _" rows]
    by (auto intro: filter_cong)
  with filter_decreasing [OF dec assms(3)] assms(4) show "window c (w ! (n - 1)) rows = drop n w" by simp
qed

lemma scroll_reads_window:
  assumes ok: "distinct (map Msg_ID (cb_messages (cs_db s)))" and limit: "1 \<le> limit" "limit < MaxLimit"
    and total: "\<And>cursor. \<exists>page. GetMessages env c u \<lparr>P_Cursor = cursor, P_Limit = limit\<rparr> s = Inr page"
    and "length (window c cursor (cb_messages (cs_db s))) < k"
  shows "\<exists>items. scroll k env c u limit cursor s = Some (Inr items) \<and> map Msg_ID items = window c cursor (cb_messages (cs_db s))"
  using assms(5)
proof (induction k arbitrary: cursor)
  case 0
  then show ?case by simp
next
  case (Suc k)
  let ?w = "window c cursor (cb_messages (cs_db s))" and ?n = "nat limit"
  have n: "0 < ?n" using limit by simp
  have norm: "Normalize \<lparr>P_Cursor = cursor, P_Limit = limit\<rparr> = \<lparr>P_Cursor = cursor, P_Limit = limit\<rparr>"
    using limit by (simp add: Normalize_id)
  obtain page where page: "GetMessages env c u \<lparr>P_Cursor = cursor, P_Limit = limit\<rparr> s = Inr page"
    using total by blast
  from GetMessages_page [OF page] limit have p: "map Msg_ID (MPg_Items page) = take ?n ?w" "MPg_HasMore page \<longleftrightarrow> ?n < length ?w"
      "MPg_NextCursor page = (if ?n < length ?w then ?w ! (?n - 1) else uuid_Nil)"
    by (simp_all only: norm Let_def) auto
  show ?case
  proof (cases "?n < length ?w")
    case False
    with page p show ?thesis by simp
  next
    case True
    have rest: "window c (?w ! (?n - 1)) (cb_messages (cs_db s)) = drop ?n ?w"
      by (rule window_next(1) [OF ok refl n True])
    with Suc.prems n True have "length (window c (?w ! (?n - 1)) (cb_messages (cs_db s))) < k" by simp
    from Suc.IH [OF this] obtain items where
      "scroll k env c u limit (?w ! (?n - 1)) s = Some (Inr items)" "map Msg_ID items = drop ?n ?w"
      unfolding rest by blast
    with page p True show ?thesis by simp
  qed
qed

lemma window_length: "length (window c cursor rows) \<le> length rows"
  by (simp add: window_def)

lemma GetMessages_total:
  assumes "no_faults env" and "GetAccessibleChannel env c u s = Inr ch"
  shows "\<exists>page. GetMessages env c u p s = Inr page"
proof -
  have "\<exists>page. finish_page env items limit s = Inr page" for items limit
    using hydrate_messages_total [OF assms(1), of "MPg_Items (buildMessagePage items limit)" s]
    by (auto simp: finish_page_def Let_def)
  then show ?thesis
    using assms by (simp add: GetMessages_def Let_def ChatMessages_ListByChannel_def chat_query_no_faults)
qed

end
