(* ===== verification/MessagingTheorems.thy ===== *)
theory MessagingTheorems
  imports Paging
begin

text \<open>
  Messages from the outside: what sending, editing and deleting do to the table, what a page of a channel
  holds, and that nothing of a deleted message is read again.
\<close>

subsection \<open>Every execution\<close>

text \<open>
  C6: the tables of the chat service are well formed in every execution: ids and keys are unique, every membership,
  grant, message, parent and reaction refers to a row that exists, request states are one of the three
  states, archive, edit and pin stamps go with their flags, and a deleted message holds no content.
\<close>

theorem chat_tables_well_formed: "chat_ok (cs_db (messaging_execute reqs initial_chat))"
  using execution_rel [of initial_chat reqs] initial_chat_ok by (simp add: chat_rel_def)


definition talk :: "(chat_env \<times> messaging_request) list" where
  "talk = [(demo_chat_env True, CreateChannelReq 1 10 ''x'' '''' ChannelTypePrivate [11]), (demo_chat_env True, PostReq 1 10 (demo_text ''hi''))]"


subsection \<open>Access\<close>

lemma Channel_GetByID_state:
  "Channel_GetByID (chat_dir env s) cid = Inr ch \<Longrightarrow> ch \<in> set (cb_channels (cs_db s)) \<and> Ch_ID ch = cid"
  by (drule Channel_GetByID_Inr) (simp add: chat_dir_def)

lemma ChatMessages_GetByID_Inr:
  "ChatMessages_GetByID env mid s = Inr m \<Longrightarrow>
   \<exists>row \<in> set (cb_messages (cs_db s)). Msg_ID row = mid \<and> m = load_message row"
  by (auto simp: ChatMessages_GetByID_def dest!: find_SomeD split: option.splits)

lemma requireOwn_Inr:
  assumes "requireOwnMessageAccess env mid u cap s = Inr (m, ch)"
  shows "\<exists>row \<in> set (cb_messages (cs_db s)). Msg_ID row = mid \<and> m = load_message row \<and> Msg_UserID row = u \<and>
    Msg_DeletedAt row = None \<and> (\<exists>dec. authorizeChannel env (Msg_ChannelID row) u cap s = Inr dec \<and> ch = CD_Channel dec)"
  using assms
  by (auto simp: requireOwnMessageAccess_def requireMessageAccessWithCapability_def load_message_def
      split: sum.splits if_splits dest!: ChatMessages_GetByID_Inr)

subsection \<open>What the quiet statements leave alone\<close>

text \<open>The equality of the core tables is itself a relation the interface accepts.\<close>

definition core_kept :: "chat_state \<Rightarrow> chat_state \<Rightarrow> bool" where
  "core_kept s s' \<longleftrightarrow> chat_core s' = chat_core s"

interpretation core: chat_relation core_kept
  by unfold_locales (simp_all add: core_kept_def)

lemma chat_quiet_run: "keepsM core_kept m \<Longrightarrow> m s = (r, s') \<Longrightarrow> chat_core s' = chat_core s"
  using keepsMD [of core_kept m s] by (simp add: core_kept_def)

lemmas quiet_runs =
  core.message_events_keep [THEN chat_quiet_run] core.enqueueSearch_keeps [THEN chat_quiet_run] core.search_keeps [THEN chat_quiet_run]
  core.publish_keeps [THEN chat_quiet_run] core.enqueue_keeps [THEN chat_quiet_run] core.move_events_keep [THEN chat_quiet_run]

lemma core_messages: "chat_core s' = chat_core s \<Longrightarrow> cb_messages (cs_db s') = cb_messages (cs_db s)"
  by (simp add: chat_core_def)

subsection \<open>Sending\<close>

lemma ChatMessages_Create_run:
  assumes "ChatMessages_Create env m s = (Inr x, s')"
  shows "s' = s\<lparr>cs_db := (cs_db s)\<lparr>cb_messages := cb_messages (cs_db s) @ [message_row m]\<rparr>\<rparr>"
  using assms
  by (auto simp: ChatMessages_Create_def chat_exec_Inr on_table_snd insert_row_def split: if_splits sum.splits)

text \<open>What the two branches of \<open>SendMessage\<close> have in common once the message is prepared.\<close>

definition appended :: "chat_state \<Rightarrow> Message \<Rightarrow> chat_state \<Rightarrow> bool" where
  "appended s msg s' \<longleftrightarrow>
     chat_core s' = chat_core (s\<lparr>cs_db := (cs_db s)\<lparr>cb_messages := cb_messages (cs_db s) @ [message_row msg]\<rparr>\<rparr>)"

lemma appended_step:
  assumes "ChatMessages_Create env m s1 = (Inr x, s2)" and "chat_core s1 = chat_core s" and "chat_core s' = chat_core s2"
  shows "appended s m s'"
  using assms(2,3) unfolding ChatMessages_Create_run [OF assms(1)] by (simp add: appended_def chat_core_def)

lemma hydrateMentions_fields:
  "hydrateMessageMentions env m ch s = Inr m' \<Longrightarrow>
   \<exists>h ms. m' = m\<lparr>Msg_HereRecipients := h, Msg_Mentions := ms\<rparr>"
  by (auto simp: hydrateMessageMentions_def Let_def split: if_splits sum.splits
      intro: exI [where x = "Msg_HereRecipients m"]) (metis Message.surjective Message.update_convs(21,23))+

lemma resolve_files_fields:
  "resolve_files env e m s = Inr m' \<Longrightarrow> \<exists>fs. m' = m\<lparr>Msg_Files := fs\<rparr>"
  by (auto simp: resolve_files_def split: if_splits sum.splits) (metis Message.surjective Message.update_convs(26))

lemma SendMessage_tx_body:
  assumes "bindM (shareMessageFilesTx env fs ws c u) (\<lambda>_. bindM (readM (hydrateMessageFilesTx env msg0)) (\<lambda>msg.
      bindM (ChatMessages_Create env msg) (\<lambda>_. bindM (enqueueMessageSearchTx env ws c msg) (\<lambda>_.
      bindM (enqueue_both env t ws c u (p msg)) (\<lambda>_. returnM msg))))) s = (Inr msg, s')"
  shows "(\<exists>files. msg = msg0\<lparr>Msg_Files := files\<rparr>) \<and> appended s msg s'"
proof -
  from assms obtain s1 s2 s3 where run: "shareMessageFilesTx env fs ws c u s = (Inr (), s1)"
      "hydrateMessageFilesTx env msg0 s1 = Inr msg" "ChatMessages_Create env msg s1 = (Inr (), s2)"
      "enqueueMessageSearchTx env ws c msg s2 = (Inr (), s3)" "enqueue_both env t ws c u (p msg) s3 = (Inr (), s')"
    by (auto simp: bindM_Inr readM_run returnM_Inr)
  have "chat_core s1 = chat_core s" "chat_core s' = chat_core s2"
    using run(1,4,5) by (metis quiet_runs)+
  with appended_step [OF run(3)] resolve_files_fields run(2) show ?thesis
    unfolding hydrateMessageFilesTx_def by blast
qed

lemma SendMessage_direct_body:
  assumes "bindM (shareMessageFiles env fs ws c u) (\<lambda>_. bindM (readM (hydrateMessageFilesForSend env msg0)) (\<lambda>msg.
      bindM (tryM (ChatMessages_Create env msg)) (\<lambda>created. case created of
        Inl err \<Rightarrow> bindM (revokeMessageFileSharesBestEffort env (Msg_FileIDs msg) c u) (\<lambda>_. throwM (e err))
      | Inr _ \<Rightarrow> bindM (enqueueSearch env (IndexMessage env ws c (Msg_ID msg) (Msg_Content msg) (Msg_CreatedAt msg))) (\<lambda>_.
          bindM (publish_both env t ws c u (p msg)) (\<lambda>_. returnM msg))))) s = (Inr msg, s')"
  shows "(\<exists>files. msg = msg0\<lparr>Msg_Files := files\<rparr>) \<and> appended s msg s'"
proof -
  from assms obtain s1 s2 s3 where run: "shareMessageFiles env fs ws c u s = (Inr (), s1)"
      "hydrateMessageFilesForSend env msg0 s1 = Inr msg" "ChatMessages_Create env msg s1 = (Inr (), s2)"
      "enqueueSearch env (IndexMessage env ws c (Msg_ID msg) (Msg_Content msg) (Msg_CreatedAt msg)) s2 = (Inr (), s3)"
      "publish_both env t ws c u (p msg) s3 = (Inr (), s')"
    by (auto simp: bindM_Inr readM_run returnM_Inr tryM_Inr throwM_Inr split: sum.splits) (metis (full_types) old.unit.exhaust sum.exhaust)
  have "chat_core s1 = chat_core s" using run(1) by (metis quiet_runs)
  moreover have "chat_core s3 = chat_core s2"
    by (rule chat_quiet_run [OF core.enqueueSearch_keeps [OF core.search_keeps(3)] run(4)])
  moreover have "chat_core s' = chat_core s3" using run(5) by (metis quiet_runs)
  ultimately show ?thesis
    using appended_step [OF run(3)] resolve_files_fields run(2) unfolding hydrateMessageFilesForSend_def by metis
qed

lemma SendMessage_run:
  assumes "SendMessage env c u inp s = (Inr msg, s')"
  obtains t q ch ws ps h ms fs where "check_send_input env inp = Inr (t, q)" "send_target env c u inp s = Inr (ch, ws, ps)"
    "msg = (new_message env (ce_id env (cs_ids s)) c u inp t q ps)\<lparr>Msg_HereRecipients := h, Msg_Mentions := ms, Msg_Files := fs\<rparr>"
    "appended s msg s'"
proof -
  let ?s1 = "s\<lparr>cs_ids := Suc (cs_ids s)\<rparr>"
  from assms obtain t q ch ws ps msg0 where chk: "check_send_input env inp = Inr (t, q)"
    and tgt: "send_target env c u inp s = Inr (ch, ws, ps)"
    and hyd: "hydrateMessageMentions env (new_message env (ce_id env (cs_ids s)) c u inp t q ps) ch ?s1 = Inr msg0"
    and body: "(\<exists>files. msg = msg0\<lparr>Msg_Files := files\<rparr>) \<and> appended ?s1 msg s'"
    unfolding SendMessage_def Let_def bindM_Inr [of "readM _"] bindM_Inr [of "chat_New _"] readM_run chat_New_Inr
    by (fastforce simp: mapErrM_Inr Chat_WithinTx_Inr split: if_splits
        dest: SendMessage_tx_body SendMessage_direct_body)
  from hydrateMentions_fields [OF hyd] obtain h ms where
    "msg0 = (new_message env (ce_id env (cs_ids s)) c u inp t q ps)\<lparr>Msg_HereRecipients := h, Msg_Mentions := ms\<rparr>" by blast
  with body obtain fs where
    "msg = (new_message env (ce_id env (cs_ids s)) c u inp t q ps)\<lparr>Msg_HereRecipients := h, Msg_Mentions := ms, Msg_Files := fs\<rparr>" by auto
  moreover have "appended s msg s'" using body by (simp add: appended_def chat_core_def)
  ultimately show ?thesis using that chk tgt by blast
qed

lemma check_send_input_Inr:
  assumes "check_send_input env inp = Inr (t, q)"
  shows "int (utf8_RuneCountInString (SMI_Content inp)) \<le> 40000" "t = MessageTypeText \<or> t = MessageTypeFile"
    "q = None \<longleftrightarrow> SMI_QuotedMessageID inp = None"
  using assms
  by (auto simp: check_send_input_def resolveSendMessageType_def Let_def split: sum.splits if_splits option.splits)

lemma send_target_Inr:
  assumes "send_target env c u inp s = Inr (ch, ws, ps)"
  shows "\<exists>dec. authorizeChannel env c u CapabilityParticipate s = Inr dec \<and> CD_Channel dec = ch" "\<not> Ch_Archived ch"
    "\<And>p. SMI_ParentID inp = Some p \<Longrightarrow> \<exists>par \<in> set (cb_messages (cs_db s)). Msg_ID par = p \<and> Msg_ChannelID par = c"
  using assms
  by (auto simp: send_target_def check_parent_def Let_def load_message_def split: sum.splits if_splits option.splits
      dest!: ChatMessages_GetByID_Inr)

text \<open>
  C28: sending a message. Who gets a message through has the right to participate in the channel, which is
  not archived; the text has at most 40000 runes and a reply's parent is in the same channel. Exactly
  one row is appended, by that author, in that channel, with that text and the clock's time; no other
  row of any of the core tables changes.
\<close>

theorem SendMessage_appends_one:
  assumes "returns (SendMessage env c u inp) s"
  shows "\<exists>msg. fst (SendMessage env c u inp s) = Inr msg \<and> appended s msg (after (SendMessage env c u inp) s) \<and>
    Msg_ChannelID msg = c \<and> Msg_UserID msg = u \<and> Msg_Content msg = SMI_Content inp \<and> Msg_ParentID msg = SMI_ParentID inp \<and>
    Msg_CreatedAt msg = cnow env \<and> fresh_message msg \<and>
    int (utf8_RuneCountInString (SMI_Content inp)) \<le> 40000 \<and>
    (\<exists>dec. authorizeChannel env c u CapabilityParticipate s = Inr dec \<and> \<not> Ch_Archived (CD_Channel dec)) \<and>
    (\<forall>p. SMI_ParentID inp = Some p \<longrightarrow> (\<exists>par \<in> set (cb_messages (cs_db s)). Msg_ID par = p \<and> Msg_ChannelID par = c))"
proof -
  from assms obtain msg where run: "SendMessage env c u inp s = (Inr msg, after (SendMessage env c u inp) s)"
    by (rule returnsE)
  from run show ?thesis
  proof (rule SendMessage_run)
    fix t q ch ws ps h ms fs
    assume chk: "check_send_input env inp = Inr (t, q)" and tgt: "send_target env c u inp s = Inr (ch, ws, ps)"
      and msg: "msg = (new_message env (ce_id env (cs_ids s)) c u inp t q ps)\<lparr>Msg_HereRecipients := h, Msg_Mentions := ms, Msg_Files := fs\<rparr>"
      and app: "appended s msg (after (SendMessage env c u inp) s)"
    have "fresh_message msg" unfolding msg by (simp add: fresh_message_def new_message_def Message_zero_def)
    with run app msg check_send_input_Inr [OF chk] send_target_Inr [OF tgt] show ?thesis
      by (intro exI [where x = msg]) (auto simp: new_message_def)
  qed
qed

theorem SendMessage_appends_one_witness:
  "\<exists>msg. appended demo_chat msg (after (SendMessage (demo_chat_env True) 3 11 (demo_text ''hello'')) demo_chat) \<and>
    Msg_UserID msg = 11 \<and> Msg_Content msg = ''hello''"
proof -
  have "returns (SendMessage (demo_chat_env True) 3 11 (demo_text ''hello'')) demo_chat" by code_simp
  from SendMessage_appends_one [OF this] show ?thesis by (auto simp: demo_text_def)
qed

subsection \<open>Editing and deleting\<close>

lemma update_messages_run:
  assumes "chat_exec env op args wrap (on_table cb_messages put_messages (update_rows P f msg)) s = (Inr x, s')"
  shows "s' = s\<lparr>cs_db := (cs_db s)\<lparr>cb_messages := upd_where P f (cb_messages (cs_db s))\<rparr>\<rparr>"
  using assms by (auto simp: chat_exec_Inr on_table_snd update_rows_def split: if_splits sum.splits)

text \<open>The state with another message table, up to the tables the theorems do not speak of.\<close>

definition rewritten :: "chat_state \<Rightarrow> (Message list \<Rightarrow> Message list) \<Rightarrow> chat_state \<Rightarrow> bool" where
  "rewritten s f s' \<longleftrightarrow> chat_core s' = chat_core (s\<lparr>cs_db := (cs_db s)\<lparr>cb_messages := f (cb_messages (cs_db s))\<rparr>\<rparr>)"

definition edit_text :: "gotime \<Rightarrow> string \<Rightarrow> Message \<Rightarrow> Message" where
  "edit_text now content m = m\<lparr>Msg_Content := content, Msg_Edited := True, Msg_EditedAt := Some now, Msg_UpdatedAt := now\<rparr>"

lemma ChatMessages_Update_run:
  assumes "ChatMessages_Update env m s = (Inr m', s1)" and "chat_core s' = chat_core s1"
  shows "rewritten s (upd_where (live_message (Msg_ID m)) (edit_text (cnow env) (Msg_Content m))) s'"
  using assms
  by (auto simp: ChatMessages_Update_def bindM_Inr returnM_Inr rewritten_def chat_core_def edit_text_def [abs_def]
      dest!: update_messages_run)

text \<open>A statement followed by quiet ones, in a transaction or without.\<close>

lemma then_quiet:
  assumes "bindM m k s = (Inr y, s')" and "\<And>x. keepsM core_kept (k x)"
  shows "\<exists>x s1. m s = (Inr x, s1) \<and> chat_core s' = chat_core s1"
  using assms by (auto simp: bindM_Inr dest: chat_quiet_run)

lemma either_quiet:
  assumes "(if b then mapErrM h (Chat_WithinTx env (bindM m k)) else bindM (mapErrM h' m) k') s = (Inr y, s')"
    and "\<And>x. keepsM core_kept (k x)" and "\<And>x. keepsM core_kept (k' x)"
  shows "\<exists>x s1. m s = (Inr x, s1) \<and> chat_core s' = chat_core s1"
proof (cases b)
  case True
  with assms(1) have "bindM m k s = (Inr y, s')" by (simp add: mapErrM_Inr Chat_WithinTx_Inr)
  then show ?thesis by (rule then_quiet) (rule assms)
next
  case False
  with assms(1) have "bindM (mapErrM h' m) k' s = (Inr y, s')" by simp
  from then_quiet [OF this assms(3)] show ?thesis by (simp add: mapErrM_Inr)
qed

lemma EditMessage_run:
  assumes "EditMessage env mid u ct s = (Inr msg, s')"
  shows "\<exists>m ch. requireOwnMessageAccess env mid u CapabilityParticipate s = Inr (m, ch) \<and> validate_EditMessageInput ct = Inr () \<and>
    rewritten s (upd_where (live_message mid) (edit_text (cnow env) ct)) s'"
proof -
  have "\<exists>x mc m0. validate_EditMessageInput ct = Inr x \<and>
      requireOwnMessageAccess env mid u CapabilityParticipate s = Inr mc \<and>
      hydrateMessageMentions env ((fst mc)\<lparr>Msg_Content := ct, Msg_Edited := True, Msg_EditedAt := Some (cnow env), Msg_UpdatedAt := cnow env\<rparr>)
        (snd mc) s = Inr m0 \<and>
      (\<exists>m1 s1. ChatMessages_Update env m0 s = (Inr m1, s1) \<and> chat_core s' = chat_core s1)"
    using assms unfolding EditMessage_def Let_def bindM_Inr [of "readM _"] readM_run
    apply -
    apply (elim exE conjE)
    apply hypsubst_thin
    apply (drule either_quiet)
    apply (intro core.quiet)+
    apply (elim exE conjE)
    apply (intro exI conjI)
    apply assumption+
    done
  then obtain mc m0 where val: "validate_EditMessageInput ct = Inr ()"
    and own: "requireOwnMessageAccess env mid u CapabilityParticipate s = Inr mc"
    and hyd: "hydrateMessageMentions env ((fst mc)\<lparr>Msg_Content := ct, Msg_Edited := True, Msg_EditedAt := Some (cnow env), Msg_UpdatedAt := cnow env\<rparr>)
        (snd mc) s = Inr m0"
    and upd: "\<exists>m1 s1. ChatMessages_Update env m0 s = (Inr m1, s1) \<and> chat_core s' = chat_core s1"
    by auto
  obtain m ch where mc: "mc = (m, ch)" by (cases mc)
  note own = own [unfolded mc]
  have "Msg_ID m = mid" using requireOwn_Inr [OF own] by (auto simp: load_message_def)
  with hydrateMentions_fields [OF hyd] mc have "Msg_ID m0 = mid" "Msg_Content m0 = ct" by auto
  with ChatMessages_Update_run upd own val show ?thesis by metis
qed



text \<open>The row of a deleted message, then the quotes of it.\<close>

definition delete_message :: "gotime \<Rightarrow> uuid \<Rightarrow> Message list \<Rightarrow> Message list" where
  "delete_message now mid rows = cascade_quotes now mid (upd_where (live_message mid) (soft_deleted now) rows)"

lemma SoftDeleteWithCascade_run:
  assumes "SoftDeleteWithCascade env mid s = (Inr ids, s1)" and "chat_core s' = chat_core s1"
  shows "rewritten s (delete_message (cnow env) mid) s'"
  using assms
  by (auto simp: SoftDeleteWithCascade_def bindM_Inr chat_exec_Inr rewritten_def chat_core_def delete_message_def
      on_table_snd update_rows_def split: if_splits sum.splits)

lemma DeleteMessage_run:
  assumes "DeleteMessage env mid u s = (Inr x, s')"
  shows "\<exists>m ch. requireOwnMessageAccess env mid u CapabilityParticipate s = Inr (m, ch) \<and>
    rewritten s (delete_message (cnow env) mid) s'"
proof -
  have "\<exists>mc. requireOwnMessageAccess env mid u CapabilityParticipate s = Inr mc \<and>
      (\<exists>ids s1. SoftDeleteWithCascade env mid s = (Inr ids, s1) \<and> chat_core s' = chat_core s1)"
    using assms unfolding DeleteMessage_def Let_def bindM_Inr [of "readM (requireOwnMessageAccess _ _ _ _)"] readM_run
    apply -
    apply (elim exE conjE)
    apply hypsubst_thin
    apply (drule either_quiet)
    apply (intro core.quiet)+
    apply (elim exE conjE)
    apply (intro exI conjI)
    apply assumption+
    done
  then obtain mc where own: "requireOwnMessageAccess env mid u CapabilityParticipate s = Inr mc"
    and del: "\<exists>ids s1. SoftDeleteWithCascade env mid s = (Inr ids, s1) \<and> chat_core s' = chat_core s1" by blast
  obtain m ch where "mc = (m, ch)" by (cases mc)
  with own del SoftDeleteWithCascade_run show ?thesis by blast
qed

lemma delete_message_rows:
  assumes ok: "distinct (map Msg_ID rows)" and row: "row \<in> set rows" "Msg_ID row = mid" "Msg_DeletedAt row = None" "\<not> quotes mid row"
  shows "soft_deleted now row \<in> set (delete_message now mid rows)"
    and "m' \<in> set (delete_message now mid rows) \<Longrightarrow> Msg_ID m' \<noteq> mid \<Longrightarrow>
      \<exists>m \<in> set rows. m' = (if quotes mid m then m\<lparr>Msg_QuotedSnapshot := quote_deleted (Msg_QuotedSnapshot m), Msg_UpdatedAt := now\<rparr> else m)"
proof -
  have live: "x \<in> set rows \<Longrightarrow> live_message mid x \<longleftrightarrow> x = row" for x
    using row ok by (auto simp: live_message_def dest: distinct_key_eq)
  show "soft_deleted now row \<in> set (delete_message now mid rows)"
    using row live by (force simp: delete_message_def cascade_quotes_def set_upd_where soft_deleted_def quotes_def image_iff)
  show "\<exists>m \<in> set rows. m' = (if quotes mid m then m\<lparr>Msg_QuotedSnapshot := quote_deleted (Msg_QuotedSnapshot m), Msg_UpdatedAt := now\<rparr> else m)"
    if "m' \<in> set (delete_message now mid rows)" "Msg_ID m' \<noteq> mid"
    using that row live
    by (auto simp: delete_message_def cascade_quotes_def set_upd_where soft_deleted_def quotes_def live_message_def split: if_splits)
qed

text \<open>
  C30: deleting a message. Only its author deletes it, while it is not deleted and they may participate in
  its channel. Its row becomes a tombstone: no text, no edit or pin stamp, no forward, quote, profile
  card or call event. Every other row is kept, except that each message that quotes the deleted one has
  the copy in its quote marked deleted.
\<close>

theorem DeleteMessage_blanks_and_cascades:
  assumes "returns (DeleteMessage env mid u) s" and "chat_ok (cs_db s)"
  shows "\<exists>m \<in> set (cb_messages (cs_db s)). Msg_ID m = mid \<and> Msg_UserID m = u \<and> Msg_DeletedAt m = None \<and>
    \<not> isl (authorizeChannel env (Msg_ChannelID m) u CapabilityParticipate s) \<and>
    rewritten s (delete_message (cnow env) mid) (after (DeleteMessage env mid u) s) \<and>
    (\<not> quotes mid m \<longrightarrow> soft_deleted (cnow env) m \<in> set (cb_messages (cs_db (after (DeleteMessage env mid u) s))) \<and>
      tombstone (soft_deleted (cnow env) m) \<and>
      (\<forall>m' \<in> set (cb_messages (cs_db (after (DeleteMessage env mid u) s))). Msg_ID m' \<noteq> mid \<longrightarrow>
        (if quotes mid m' then (\<exists>q. Msg_QuotedSnapshot m' = Some q \<and> QS_Deleted q = Some True) else m' \<in> set (cb_messages (cs_db s)))))"
proof -
  let ?s' = "after (DeleteMessage env mid u) s"
  from assms(1) obtain x where "DeleteMessage env mid u s = (Inr x, ?s')" by (rule returnsE)
  from DeleteMessage_run [OF this] obtain m ch where own: "requireOwnMessageAccess env mid u CapabilityParticipate s = Inr (m, ch)"
    and re: "rewritten s (delete_message (cnow env) mid) ?s'" by blast
  from requireOwn_Inr [OF own] obtain row where row: "row \<in> set (cb_messages (cs_db s))" "Msg_ID row = mid" "Msg_UserID row = u"
    "Msg_DeletedAt row = None" "\<not> isl (authorizeChannel env (Msg_ChannelID row) u CapabilityParticipate s)" by auto
  have msgs: "cb_messages (cs_db ?s') = delete_message (cnow env) mid (cb_messages (cs_db s))"
    using re by (simp add: rewritten_def chat_core_def)
  have ok: "distinct (map Msg_ID (cb_messages (cs_db s)))" using assms(2) by (simp add: chat_ok_defs)
  have "if quotes mid m' then \<exists>q. Msg_QuotedSnapshot m' = Some q \<and> QS_Deleted q = Some True else m' \<in> set (cb_messages (cs_db s))"
    if noquote: "\<not> quotes mid row" and m': "m' \<in> set (cb_messages (cs_db ?s'))" "Msg_ID m' \<noteq> mid" for m'
  proof -
    obtain m0 where "m0 \<in> set (cb_messages (cs_db s))"
      "m' = (if quotes mid m0 then m0\<lparr>Msg_QuotedSnapshot := quote_deleted (Msg_QuotedSnapshot m0), Msg_UpdatedAt := cnow env\<rparr> else m0)"
      using delete_message_rows(2) [OF ok row(1,2,4) noquote m'(1) [unfolded msgs] m'(2)] by blast
    then show ?thesis by (cases "quotes mid m0") (auto simp: quotes_def quote_deleted_def split: option.splits)
  qed
  with row re delete_message_rows(1) [OF ok row(1,2,4)] show ?thesis
    unfolding msgs by (intro bexI [of _ row]) (auto simp: tombstone_def soft_deleted_def)
qed

theorem DeleteMessage_blanks_and_cascades_witness:
  "soft_deleted 1000000000000 (demo_post 6 11 ''second'' None)
     \<in> set (cb_messages (cs_db (after (DeleteMessage (demo_chat_env True) 6 11) demo_chat)))"
proof -
  have "returns (DeleteMessage (demo_chat_env True) 6 11) demo_chat" by code_simp
  moreover have "m = demo_post 6 11 ''second'' None" if "m \<in> set (cb_messages (cs_db demo_chat))" "Msg_ID m = 6" for m
    using that by (auto simp: demo_chat_def demo_chat_db_def demo_post_def)
  moreover have "cnow (demo_chat_env True) = 1000000000000" "\<not> quotes 6 (demo_post 6 11 ''second'' None)" by code_simp+
  ultimately show ?thesis using DeleteMessage_blanks_and_cascades [OF _ demo_chat_ok] by metis
qed

subsection \<open>Reading\<close>



text \<open>
  With the maximal page size a channel cannot be scrolled. A request for 100 or more messages fetches at
  most 100 rows, one less than \<open>HasMore\<close> needs, so the page always claims to be the last one and has no
  cursor, whatever the channel holds.
\<close>

theorem GetMessages_full_page_ends_the_scroll:
  assumes "GetMessages env c u p s = Inr page" and "100 \<le> P_Limit p"
  shows "\<not> MPg_HasMore page \<and> MPg_NextCursor page = uuid_Nil \<and> length (MPg_Items page) \<le> 100 \<and>
    map Msg_ID (MPg_Items page) = take 100 (window c (P_Cursor p) (cb_messages (cs_db s)))"
proof -
  have lim: "P_Limit (Normalize p) = 100" "P_Cursor (Normalize p) = P_Cursor p"
    using assms(2) by (simp_all add: Normalize_def Let_def MaxLimit_def)
  from assms(1) obtain items where
      items: "items = message_page (\<lambda>m. Msg_ChannelID m = c) \<lparr>P_Cursor = P_Cursor p, P_Limit = 101\<rparr> (cb_messages (cs_db s))"
    and fin: "finish_page env items 100 s = Inr page"
    by (rule GetMessages_Inr) (simp add: lim)
  have "message_page P \<lparr>P_Cursor = cur, P_Limit = 101\<rparr> rows = message_page P \<lparr>P_Cursor = cur, P_Limit = 100\<rparr> rows" for P cur rows
    by (simp add: message_page_def Normalize_def MaxLimit_def)
  then have ids: "map Msg_ID items = take 100 (window c (P_Cursor p) (cb_messages (cs_db s)))"
    unfolding items by (simp add: message_page_ids MaxLimit_def window_def)
  then have "length items \<le> 100" by (metis length_map length_take min.cobounded2)
  with finish_page_Inr [OF fin] ids have page: "\<not> MPg_HasMore page" "MPg_NextCursor page = uuid_Nil"
      "map Msg_ID (MPg_Items page) = take 100 (window c (P_Cursor p) (cb_messages (cs_db s)))"
    by (simp_all add: buildMessagePage_def)
  from page(3) have "length (MPg_Items page) \<le> 100" by (metis length_map length_take min.cobounded2)
  with page show ?thesis by simp
qed

theorem GetMessages_full_page_ends_the_scroll_witness:
  "\<exists>page. GetMessages (demo_chat_env True) 3 10 \<lparr>P_Cursor = 0, P_Limit = 200\<rparr> demo_chat = Inr page \<and> \<not> MPg_HasMore page"
proof -
  have "\<not> isl (GetAccessibleChannel (demo_chat_env True) 3 10 demo_chat)" by code_simp
  then obtain ch where acc: "GetAccessibleChannel (demo_chat_env True) 3 10 demo_chat = Inr ch"
    by (cases "GetAccessibleChannel (demo_chat_env True) 3 10 demo_chat") auto
  have nf: "no_faults (demo_chat_env True)" by (simp add: no_faults_def demo_chat_env_def demo_dir_def)
  obtain page where page: "GetMessages (demo_chat_env True) 3 10 \<lparr>P_Cursor = 0, P_Limit = 200\<rparr> demo_chat = Inr page"
    using GetMessages_total [OF nf acc] by blast
  with GetMessages_full_page_ends_the_scroll [OF page] show ?thesis by simp
qed

text \<open>What a reader of a deleted message gets: where it was and who wrote it, and nothing of its content.\<close>

definition blank :: "Message \<Rightarrow> bool" where
  "blank m \<longleftrightarrow> Msg_Content m = '''' \<and> \<not> Msg_Edited m \<and> \<not> Msg_Pinned m \<and> Msg_ForwardedFrom m = None \<and> Msg_QuotedMessageID m = None \<and>
     Msg_QuotedSnapshot m = None \<and> Msg_ProfileShare m = None \<and> Msg_Reactions m = [] \<and> Msg_Mentions m = [] \<and>
     Msg_Attachments m = [] \<and> Msg_FileIDs m = [] \<and> Msg_Files m = []"

lemma redact_blank: "m \<in> set (redactDeletedMessages ms) \<Longrightarrow> Msg_DeletedAt m \<noteq> None \<Longrightarrow> blank m"
  by (auto simp: redactDeletedMessages_def redactDeletedMessage_def deleted_def blank_def split: if_splits)

lemma finish_page_blank:
  "finish_page env items limit s = Inr page \<Longrightarrow> m \<in> set (MPg_Items page) \<Longrightarrow> Msg_DeletedAt m \<noteq> None \<Longrightarrow> blank m"
  by (auto simp: finish_page_def Let_def redact_blank split: sum.splits)



subsection \<open>Reactions\<close>

lemma Reactions_AddReaction_run:
  assumes "Reactions_AddReaction env r s = (res, s')"
  shows "(case res of
      Inl e \<Rightarrow> s' = s
    | Inr _ \<Rightarrow> chat_core s' = chat_core (s\<lparr>cs_db := (cs_db s)\<lparr>cb_reactions := cb_reactions (cs_db s) @ [r]\<rparr>\<rparr>) \<and>
        (\<forall>x \<in> set (cb_reactions (cs_db s)). \<not> reaction_key (Re_MessageID r) (Re_UserID r) (Re_Emoji r) x))"
  using assms
  by (auto simp: Reactions_AddReaction_def chat_exec_def on_table_def insert_row_def chat_core_def reaction_clash_def
      split: option.splits sum.splits if_splits prod.splits)

lemma AddReaction_run:
  assumes "AddReaction env mid u e s = (Inr r, s')"
  shows "validateEmoji e = Inr () \<and> (\<exists>mc. requireMessageAccessWithCapability env mid u CapabilityParticipate s = Inr mc) \<and>
    ((chat_core s' = chat_core (s\<lparr>cs_db := (cs_db s)\<lparr>cb_reactions := cb_reactions (cs_db s) @ [r]\<rparr>\<rparr>) \<and> reaction_key mid u e r \<and>
      (\<forall>x \<in> set (cb_reactions (cs_db s)). \<not> reaction_key mid u e x)) \<or>
     (chat_core s' = chat_core s \<and> find (reaction_key mid u e) (cb_reactions (cs_db s)) = Some r))"
proof -
  let ?s1 = "s\<lparr>cs_ids := Suc (cs_ids s)\<rparr>" and ?r = "\<lparr>Re_ID = ce_id env (cs_ids s), Re_MessageID = mid, Re_UserID = u, Re_Emoji = e, Re_CreatedAt = cnow env\<rparr>"
  from assms obtain x mc res s2 where val: "validateEmoji e = Inr x" and acc: "requireMessageAccessWithCapability env mid u CapabilityParticipate s = Inr mc"
    and add: "Reactions_AddReaction env ?r ?s1 = (res, s2)"
    and rest: "(case res of Inl err \<Rightarrow> if has_code CodeAlreadyExists err
         then mapErrM (app_or_internal ''failed to get existing reaction'') (readM (GetReactionByMessageUserEmoji env mid u e))
         else throwM (app_or_internal ''failed to add reaction'' err)
     | Inr _ \<Rightarrow> bindM (publish_both env TypeReactionAdded (channelWorkspaceIDOrNil (Some (snd mc))) (Msg_ChannelID (fst mc)) u (ReactionPayload ?r)) (\<lambda>_.
         returnM ?r)) s2 = (Inr r, s')"
    unfolding AddReaction_def Let_def bindM_Inr [of "readM _"] bindM_Inr [of "chat_New _"] bindM_Inr [of "tryM _"] readM_run chat_New_Inr tryM_Inr
    by blast
  note run = Reactions_AddReaction_run [OF add]
  show ?thesis
  proof (cases res)
    case (Inl err)
    with run rest have "s' = ?s1" "find (reaction_key mid u e) (cb_reactions (cs_db s)) = Some r"
      by (auto simp: mapErrM_Inr readM_run throwM_Inr GetReactionByMessageUserEmoji_def reaction_or_NotFound_def
          split: if_splits option.splits)
    with val acc show ?thesis by (auto simp: chat_core_def)
  next
    case (Inr y)
    with rest have "r = ?r" "chat_core s' = chat_core s2"
      by (auto simp: bindM_Inr returnM_Inr dest: quiet_runs)
    with Inr run val acc show ?thesis by (auto simp: chat_core_def reaction_key_def)
  qed
qed

text \<open>
  Reacting is idempotent. Who may participate in the message's channel and sends a valid emoji of at most 32
  bytes ends up with exactly one such reaction: the new one, or the one that was there, which is
  returned. All other reactions and all other core tables stay as they were.
\<close>

theorem AddReaction_adds_once:
  assumes "returns (AddReaction env mid u e) s" and "chat_ok (cs_db s)"
  shows "\<exists>r. fst (AddReaction env mid u e s) = Inr r \<and>
    filter (reaction_key mid u e) (cb_reactions (cs_db (after (AddReaction env mid u e) s))) = [r] \<and>
    filter (\<lambda>x. \<not> reaction_key mid u e x) (cb_reactions (cs_db (after (AddReaction env mid u e) s))) =
      filter (\<lambda>x. \<not> reaction_key mid u e x) (cb_reactions (cs_db s)) \<and>
    cb_messages (cs_db (after (AddReaction env mid u e) s)) = cb_messages (cs_db s) \<and>
    e \<noteq> '''' \<and> int (length e) \<le> 32 \<and> utf8_ValidString e \<and>
    \<not> isl (requireMessageAccessWithCapability env mid u CapabilityParticipate s)"
proof -
  let ?s' = "after (AddReaction env mid u e) s" and ?P = "reaction_key mid u e"
  from assms(1) obtain r where run: "AddReaction env mid u e s = (Inr r, ?s')" by (rule returnsE)
  note R = AddReaction_run [OF run]
  have one: "filter ?P rows = [r]" if "distinct (map reaction_keys rows)" "find ?P rows = Some r" for rows
    using that
  proof (induction rows)
    case (Cons x rows)
    show ?case
    proof (cases "?P x")
      case True
      then have "\<not> ?P y" if "y \<in> set rows" for y
        using Cons.prems(1) that by (auto simp: reaction_keys_def reaction_key_def image_iff)
      with True Cons.prems show ?thesis by (simp add: filter_empty_conv)
    qed (use Cons in simp)
  qed simp
  have "filter ?P (cb_reactions (cs_db ?s')) = [r] \<and>
      filter (\<lambda>x. \<not> ?P x) (cb_reactions (cs_db ?s')) = filter (\<lambda>x. \<not> ?P x) (cb_reactions (cs_db s)) \<and>
      cb_messages (cs_db ?s') = cb_messages (cs_db s)"
    using R assms(2) one [of "cb_reactions (cs_db s)"] by (auto simp: chat_core_def chat_ok_defs filter_empty_conv)
  with R run show ?thesis by (auto simp: validateEmoji_def isl_def split: if_splits)
qed

theorem AddReaction_adds_once_witness:
  "length (cb_reactions (cs_db (after (AddReaction (demo_chat_env True) 6 10 ''+1'') demo_chat))) = 1"
proof -
  have "returns (AddReaction (demo_chat_env True) 6 10 ''+1'') demo_chat" by code_simp
  from AddReaction_adds_once [OF this demo_chat_ok] obtain r where
    "filter (reaction_key 6 10 ''+1'') (cb_reactions (cs_db (after (AddReaction (demo_chat_env True) 6 10 ''+1'') demo_chat))) = [r]"
    "filter (\<lambda>x. \<not> reaction_key 6 10 ''+1'' x) (cb_reactions (cs_db (after (AddReaction (demo_chat_env True) 6 10 ''+1'') demo_chat))) = []"
    by (auto simp: demo_chat_def demo_chat_db_def empty_chat_db_def)
  then show ?thesis by (metis One_nat_def length_Cons list.size(3) sum_length_filter_compl add.right_neutral)
qed

end
