(* ===== verification/ChannelTheorems.thy ===== *)
theory ChannelTheorems
  imports MessagingTheorems
begin

text \<open>
  Channels from the outside: who reads and writes a channel that is not public, how its membership grows,
  and what becomes of direct messages and of moved threads.
\<close>

subsection \<open>Who reaches a closed channel\<close>

definition closed_type :: "ChannelType \<Rightarrow> bool" where
  "closed_type t \<longleftrightarrow> t = ChannelTypePrivate \<or> t = ChannelTypeDM \<or> t = ChannelTypeGroupDM"

text \<open>A member of the channel, or a guest of the workspace whose unexpired grant covers the channel.\<close>

definition insider :: "chat_env \<Rightarrow> chat_db \<Rightarrow> Channel \<Rightarrow> uuid \<Rightarrow> bool" where
  "insider env db ch u \<longleftrightarrow>
     (\<exists>m \<in> set (cb_members db). member_of (Ch_ID ch) u m) \<or>
     (ce_guests env \<and> (\<exists>ws. Ch_WorkspaceID ch = Some ws \<and>
        (\<exists>g \<in> active_grants (ce_dir env) ws u. GuestAccessGrant_AllowsChannel g (Ch_ID ch))))"

lemma active_grants_chat_dir [simp]: "active_grants (chat_dir env s) ws u = active_grants (ce_dir env) ws u"
  by (simp add: active_grants_def chat_dir_def)

lemma channel_member_insider:
  "Channel_GetMember (chat_dir env s) (Ch_ID ch) u = Inr m \<Longrightarrow> insider env (cs_db s) ch u"
  by (drule Channel_GetMember_Inr) (auto simp: chat_dir_def insider_def member_of_def)

lemma guest_insider:
  "HasChannelAccess True (chat_dir env s) ws (Ch_ID ch) u = Inr True \<Longrightarrow> ce_guests env \<Longrightarrow> Ch_WorkspaceID ch = Some ws \<Longrightarrow>
   insider env (cs_db s) ch u"
  by (drule HasChannelAccess_Inr) (auto simp: insider_def)

lemma Checker_Channel_channel:
  "Checker_Channel ck d pw c u cap = Inr dec \<Longrightarrow> Channel_GetByID d c = Inr (CD_Channel dec)"
  by (auto simp: Checker_Channel_def selfChannelDecision_def channelDecisionForWorkspaceMember_def
      channelDecisionForCollaborator_def Let_def split: sum.splits if_splits option.splits ChannelType.splits)

lemma Checker_Channel_guest:
  assumes "Checker_Channel ck d pw c u cap = Inr dec" and "CD_Subject dec = SubjectGuest"
  shows "\<exists>ws hw hc. Ch_WorkspaceID (CD_Channel dec) = Some ws \<and> pc_guests ck = Some (hw, hc) \<and> hc ws (Ch_ID (CD_Channel dec)) u = Inr True"
  using assms
  by (auto simp: Checker_Channel_def selfChannelDecision_def channelDecisionForWorkspaceMember_def
      channelDecisionForCollaborator_def Let_def split: sum.splits if_splits option.splits ChannelType.splits)

lemma policy_closed:
  assumes "Checker_Channel (chat_checker env s) (chat_dir env s) pw c u cap = Inr dec" and "closed_type (Ch_Type (CD_Channel dec))"
  shows "Ch_ID (CD_Channel dec) = c \<and> CD_Channel dec \<in> set (cb_channels (cs_db s)) \<and> insider env (cs_db s) (CD_Channel dec) u"
proof -
  have ch: "CD_Channel dec \<in> set (cb_channels (cs_db s))" "Ch_ID (CD_Channel dec) = c"
    using Channel_GetByID_state [OF Checker_Channel_channel [OF assms(1)]] by simp_all
  have "CD_Subject dec = SubjectGuest \<or> (\<exists>m. Channel_GetMember (chat_dir env s) c u = Inr m)"
    using assms by (intro Checker_Channel_private) (auto simp: closed_type_def)
  moreover have "insider env (cs_db s) (CD_Channel dec) u" if "CD_Subject dec = SubjectGuest"
    using Checker_Channel_guest [OF assms(1) that] guest_insider
    by (fastforce simp: chat_checker_def Let_def split: if_splits)
  ultimately show ?thesis using ch channel_member_insider by blast
qed

lemma GetAccessibleChannel_closed:
  assumes "GetAccessibleChannel env c u s = Inr ch" and "closed_type (Ch_Type ch)"
  shows "Ch_ID ch = c \<and> ch \<in> set (cb_channels (cs_db s)) \<and> insider env (cs_db s) ch u"
proof (cases "ce_access env")
  case True
  with assms policy_closed show ?thesis
    by (auto simp: GetAccessibleChannel_def split: sum.splits)
next
  case False
  have get: "Channel_GetByID (chat_dir env s) c = Inr ch"
    using assms(1) False by (auto simp: GetAccessibleChannel_def outsider_channel_def Let_def split: sum.splits if_splits)
  then have id: "Ch_ID ch = c" by (simp add: Channel_GetByID_state)
  have "(\<exists>m. Channel_GetMember (chat_dir env s) c u = Inr m) \<or>
      (\<exists>ws. Ch_WorkspaceID ch = Some ws \<and> ce_guests env \<and> HasChannelAccess True (chat_dir env s) ws c u = Inr True)"
    using assms False get id
    by (auto simp: GetAccessibleChannel_def outsider_channel_def requireChannelWorkspaceID_def closed_type_def Let_def
        split: sum.splits if_splits option.splits)
  with id Channel_GetByID_state [OF get] channel_member_insider guest_insider show ?thesis by metis
qed

lemma authorizeChannel_closed:
  assumes "authorizeChannel env c u cap s = Inr dec" and "closed_type (Ch_Type (CD_Channel dec))"
  shows "Ch_ID (CD_Channel dec) = c \<and> CD_Channel dec \<in> set (cb_channels (cs_db s)) \<and> insider env (cs_db s) (CD_Channel dec) u"
proof (cases "ce_access env")
  case True
  with assms policy_closed show ?thesis by (simp add: authorizeChannel_def)
next
  case False
  with assms(1) have "GetAccessibleChannel env c u s = Inr (CD_Channel dec)"
    by (auto simp: authorizeChannel_def Let_def split: sum.splits if_splits)
  with assms(2) GetAccessibleChannel_closed show ?thesis by blast
qed

lemma GetAccessibleChannel_channel:
  "GetAccessibleChannel env c u s = Inr ch \<Longrightarrow> Channel_GetByID (chat_dir env s) c = Inr ch"
  by (auto simp: GetAccessibleChannel_def outsider_channel_def Let_def Checker_Channel_channel split: sum.splits if_splits)

lemma authorizeChannel_channel:
  "authorizeChannel env c u cap s = Inr dec \<Longrightarrow> Channel_GetByID (chat_dir env s) c = Inr (CD_Channel dec)"
  by (auto simp: authorizeChannel_def Let_def dest: Checker_Channel_channel GetAccessibleChannel_channel split: sum.splits if_splits)



subsection \<open>Threads\<close>

text \<open>
  A moved thread leaks. \<open>MoveMessage\<close> moves the first message of a thread and leaves its replies in the old
  channel, while \<open>GetThreadReplies\<close> asks only for access to the first message. After user 10 moved a
  message of the private channel 3 to the public channel 4, user 12 reads the reply that user 11 wrote
  in channel 3, although 12 is refused that channel and that very message.
\<close>

theorem moved_thread_leaks_private_replies:
  "let s' = messaging_serve (demo_chat_env True) (MoveReq 3 5 10 4 None) demo_chat in
   isl (GetMessages (demo_chat_env True) 3 12 \<lparr>P_Cursor = 0, P_Limit = 1\<rparr> s') \<and>
   isl (GetMessage (demo_chat_env True) 7 12 s') \<and>
   isl (GetThreadReplies (demo_chat_env True) 5 12 \<lparr>P_Cursor = 0, P_Limit = 1\<rparr> demo_chat) \<and>
   (case GetThreadReplies (demo_chat_env True) 5 12 \<lparr>P_Cursor = 0, P_Limit = 1\<rparr> s' of
      Inl _ \<Rightarrow> False
    | Inr page \<Rightarrow> map (\<lambda>m. (Msg_ID m, Msg_ChannelID m, Msg_UserID m, Msg_Content m)) (MPg_Items page) = [(7, 3, 11, ''a reply'')])"
  by code_simp

text \<open>
  Where a thread is not moved the same question is answered by the first message's channel alone: who
  reads the replies may view that channel.
\<close>

lemma GetThreadReplies_parent_access:
  assumes "GetThreadReplies env par u p s = Inr page"
  shows "\<exists>m \<in> set (cb_messages (cs_db s)). Msg_ID m = par \<and> Msg_DeletedAt m = None \<and>
    \<not> isl (authorizeChannel env (Msg_ChannelID m) u CapabilityView s)"
  using assms
  by (auto simp: GetThreadReplies_def Let_def requireMessageAccess_def requireMessageAccessWithCapability_def load_message_def
      split: sum.splits if_splits dest!: ChatMessages_GetByID_Inr)

end
