(* ===== verification/Membership.thy ===== *)
theory Membership
  imports ChannelTheorems
begin

text \<open>
  How the channels and their memberships grow. The relation \<open>grows\<close> bounds what may be new after a handler: the
  channels, and the members of one channel. It interprets the interface of the updating handlers; the
  handlers that add channels or members are bounded one by one.
\<close>

subsection \<open>Facts from earlier statements\<close>

context run_relation begin

lemma keeps_bindM_fact:
  assumes "keepsM R m" and "\<And>s x s'. m s = (Inr x, s') \<Longrightarrow> keepsM R (k x)"
  shows "keepsM R (bindM m k)"
proof (rule keepsMI, rule at_bindM)
  show "R s (snd (m s))" for s using assms(1) by (rule keepsMD)
  show "R s' (snd (k x s'))" if "m s = (Inr x, s')" for s x s' using assms(2) [OF that] by (rule keepsMD)
qed

lemma keeps_forM_in: "(\<And>x. x \<in> set xs \<Longrightarrow> keepsM R (f x)) \<Longrightarrow> keepsM R (forM xs f)"
  by (induction xs) auto

end

text \<open>A property of the accumulator that every iteration keeps.\<close>

lemma foldM_invariant:
  assumes "foldM f acc xs s = (Inr r, s')" and "I acc"
    and "\<And>a x s a' s'. I a \<Longrightarrow> x \<in> set xs \<Longrightarrow> f a x s = (Inr a', s') \<Longrightarrow> I a'"
  shows "I r"
  using assms
proof (induction xs arbitrary: acc s)
  case Nil
  then show ?case by (simp add: returnM_Inr)
next
  case (Cons x xs)
  from Cons.prems(1) obtain a1 s1 where first: "f acc x s = (Inr a1, s1)" and rest: "foldM f a1 xs s1 = (Inr r, s')"
    by (auto simp: bindM_Inr)
  have "I a1" by (rule Cons.prems(3) [OF Cons.prems(2) _ first]) simp
  show ?case
  proof (rule Cons.IH [OF rest \<open>I a1\<close>])
    fix a y t a' t'
    assume "I a" "y \<in> set xs" "f a y t = (Inr a', t')"
    then show "I a'" using Cons.prems(3) [of a y t a' t'] by simp
  qed
qed

subsection \<open>The relation\<close>

definition channel_key :: "Channel \<Rightarrow> uuid \<times> uuid option \<times> ChannelType" where
  "channel_key c = (Ch_ID c, Ch_WorkspaceID c, Ch_Type c)"

definition is_member :: "chat_db \<Rightarrow> uuid \<Rightarrow> uuid \<Rightarrow> bool" where
  "is_member db c u \<longleftrightarrow> (\<exists>m \<in> set (cb_members db). member_of c u m)"

text \<open>New channels satisfy \<open>P\<close>, and new members of the channel \<open>c\<close>, if it was there before, are in \<open>T\<close>.\<close>

definition grows_db :: "(uuid \<times> uuid option \<times> ChannelType \<Rightarrow> bool) \<Rightarrow> uuid \<Rightarrow> uuid set \<Rightarrow> chat_db \<Rightarrow> chat_db \<Rightarrow> bool" where
  "grows_db P c T db db' \<longleftrightarrow>
     (\<forall>x \<in> set (cb_channels db'). channel_key x \<in> channel_key ` set (cb_channels db) \<or> P (channel_key x)) \<and>
     (channel_exists c db \<longrightarrow> channel_exists c db' \<and> (\<forall>u. is_member db' c u \<longrightarrow> is_member db c u \<or> u \<in> T))"

definition grows :: "(uuid \<times> uuid option \<times> ChannelType \<Rightarrow> bool) \<Rightarrow> uuid \<Rightarrow> uuid set \<Rightarrow> chat_state \<Rightarrow> chat_state \<Rightarrow> bool" where
  "grows P c T s s' = grows_db P c T (cs_db s) (cs_db s')"

lemma grows_same:
  "cb_channels db' = cb_channels db \<Longrightarrow> cb_members db' = cb_members db \<Longrightarrow> grows_db P c T db db'"
  by (simp add: grows_db_def is_member_def channel_exists_def)

lemma grows_trans:
  assumes "grows_db P c T a b" and "grows_db P c T b d"
  shows "grows_db P c T a d"
  unfolding grows_db_def
proof (intro conjI ballI impI)
  fix x assume "x \<in> set (cb_channels d)"
  with assms(2) consider y where "y \<in> set (cb_channels b)" "channel_key x = channel_key y" | "P (channel_key x)"
    by (auto simp: grows_db_def)
  then show "channel_key x \<in> channel_key ` set (cb_channels a) \<or> P (channel_key x)"
    using assms(1) by cases (auto simp: grows_db_def)
qed (use assms in \<open>auto simp: grows_db_def\<close>)

lemma grows_exec:
  "(\<And>db. grows_db P c T db (snd (f db))) \<Longrightarrow> keepsM (grows P c T) (chat_exec env op args wrap f)"
  by (rule keepsMI) (simp add: grows_def chat_exec_snd grows_same split: option.splits)

lemma grows_table:
  assumes "\<And>db rows. stmt (get db) = Inr rows \<Longrightarrow> grows_db P c T db (put rows db)"
  shows "keepsM (grows P c T) (chat_exec env op args wrap (on_table get put stmt))"
  by (rule grows_exec) (simp add: on_table_snd assms grows_same split: sum.splits)

lemma grows_guarded:
  assumes "\<And>db rows. stmt (get db) = Inr rows \<Longrightarrow> grows_db P c T db (put rows db)"
  shows "keepsM (grows P c T) (chat_exec env op args wrap (\<lambda>db. if bad db then (Inl e, db) else on_table get put stmt db))"
  by (rule grows_exec) (simp add: on_table_snd assms grows_same split: sum.splits)

text \<open>Fewer members, or members in the same places.\<close>

lemma grows_members:
  assumes "\<And>m. m \<in> set rows \<Longrightarrow> \<exists>m0 \<in> set (cb_members db). member_key m = member_key m0"
  shows "grows_db P c T db (db\<lparr>cb_members := rows\<rparr>)"
  using assms by (fastforce simp: grows_db_def is_member_def member_of_def member_key_def channel_exists_def)

lemma channel_exists_keys: "channel_exists c db \<longleftrightarrow> c \<in> fst ` channel_key ` set (cb_channels db)"
  by (auto simp: channel_exists_def channel_key_def image_iff)

lemma grows_channels:
  assumes "map channel_key rows = map channel_key (cb_channels db)"
  shows "grows_db P c T db (db\<lparr>cb_channels := rows\<rparr>)"
proof -
  have keys: "channel_key ` set rows = channel_key ` set (cb_channels db)"
    using assms by (metis set_map)
  then show ?thesis by (auto simp: grows_db_def is_member_def channel_exists_keys)
qed

interpretation growth: chat_relation "grows P c T" for P c T
proof
  show "grows P c T s s" for s by (simp add: grows_def grows_same)
  show "grows P c T s t \<Longrightarrow> grows P c T t u \<Longrightarrow> grows P c T s u" for s t u
    unfolding grows_def by (rule grows_trans)
  show "chat_core s' = chat_core s \<Longrightarrow> grows P c T s s'" for s s'
    by (simp add: grows_def grows_same chat_core_def)
qed

lemma message_statements_grow:
  "keepsM (grows P c T) (ChatMessages_Create env m)" "keepsM (grows P c T) (ChatMessages_Update env m)"
  "keepsM (grows P c T) (UpdateFileIDs env mid fs)" "keepsM (grows P c T) (ChatMessages_Move env m)"
  "keepsM (grows P c T) (SoftDeleteWithCascade env mid)"
  "keepsM (grows P c T) (ChatMessages_Pin env mid u)" "keepsM (grows P c T) (ChatMessages_Unpin env mid)"
  "keepsM (grows P c T) (Reactions_AddReaction env r)" "keepsM (grows P c T) (Reactions_RemoveReaction env mid u e)"
  "keepsM (grows P c T) (Reactions_RemoveReactionByID env rid)"
  unfolding ChatMessages_Create_def ChatMessages_Update_def UpdateFileIDs_def ChatMessages_Move_def SoftDeleteWithCascade_def
    ChatMessages_Pin_def ChatMessages_Unpin_def Reactions_AddReaction_def Reactions_RemoveReaction_def Reactions_RemoveReactionByID_def
  by (intro growth.keeps_bindM growth.keeps_returnM grows_guarded grows_table grows_exec; simp add: grows_same)+

lemma channel_statements_grow:
  "keepsM (grows P c T) (Channels_RemoveMember env c' u)" "keepsM (grows P c T) (UpdateDMRequestStatus env c' u st)"
  "keepsM (grows P c T) (UpdateLastRead env c' u)" "keepsM (grows P c T) (CreateGrant env g)"
  unfolding Channels_RemoveMember_def UpdateDMRequestStatus_def UpdateLastRead_def CreateGrant_def
  by ((rule grows_table grows_guarded, (rule grows_members)?; auto simp: set_upd_where member_key_def grows_same)+)

lemma Channels_Update_grows: "keepsM (grows P c T) (Channels_Update env ch)"
  unfolding Channels_Update_def
  by (intro growth.keeps_bindM growth.keeps_returnM grows_table grows_channels) (auto intro!: map_upd_where simp: channel_key_def)

interpretation updates: chat_updates "grows P c T" for P c T
  by unfold_locales (rule message_statements_grow channel_statements_grow Channels_Update_grows)+

subsection \<open>Handlers that add\<close>

lemma AddMember_grows:
  assumes "ChM_ChannelID m = c \<Longrightarrow> ChM_UserID m \<in> T"
  shows "keepsM (grows P c T) (Channels_AddMember env m)"
  unfolding Channels_AddMember_def
  by (rule grows_guarded) (use assms in \<open>auto simp: grows_db_def is_member_def member_of_def channel_exists_def\<close>)

text \<open>After the creation of a channel only the other channels need a bound: the new one was not there before.\<close>

lemma create_then:
  assumes "P (channel_key ch)" and "\<And>x. Ch_ID ch \<noteq> c \<Longrightarrow> keepsM (grows P c T) (k x)" and "\<And>x. keepsM (grows P c UNIV) (k x)"
  shows "keepsM (grows P c T) (bindM (Channels_Create env ch) k)"
proof (rule keepsMI)
  fix s
  show "grows P c T s (snd (bindM (Channels_Create env ch) k s))"
  proof (cases "Channels_Create env ch s")
    case (Pair r s1)
    have row: "channel_key (channel_row ch) = channel_key ch" by (simp add: channel_key_def channel_row_def)
    have fail: "r = Inl e \<Longrightarrow> s1 = s" for e
      using Pair by (auto simp: Channels_Create_def chat_exec_def on_table_def split: option.splits sum.splits prod.splits)
    have ok: "r = Inr x \<Longrightarrow> s1 = s\<lparr>cs_db := (cs_db s)\<lparr>cb_channels := cb_channels (cs_db s) @ [channel_row ch]\<rparr>\<rparr> \<and>
        \<not> channel_exists (Ch_ID ch) (cs_db s)" for x
      using Pair
      by (auto simp: Channels_Create_def chat_exec_Inr on_table_def insert_row_def channel_clash_def channel_exists_def channel_row_def
          split: sum.splits if_splits)
    have step: "r = Inr x \<Longrightarrow> grows P c T s s1" for x
      using ok [of x] assms(1) row by (auto simp: grows_def grows_db_def is_member_def channel_exists_def)
    show ?thesis
    proof (cases r)
      case (Inl e)
      with Pair fail show ?thesis by (simp add: bindM_def grows_def grows_same)
    next
      case (Inr x)
      have k: "grows P c UNIV s1 (snd (k x s1))" using assms(3) by (rule keepsMD)
      have "grows P c T s (snd (k x s1))"
      proof (cases "Ch_ID ch = c")
        case True
        with ok Inr have "\<not> channel_exists c (cs_db s)" by simp
        have "grows P c UNIV s s1" using step [OF Inr] by (auto simp: grows_def grows_db_def)
        with k have "grows P c UNIV s (snd (k x s1))" by (rule growth.R_trans [rotated])
        with \<open>\<not> channel_exists c (cs_db s)\<close> show ?thesis by (simp add: grows_def grows_db_def)
      next
        case False
        from growth.R_trans [OF step [OF Inr] keepsMD [OF assms(2) [OF False]]] show ?thesis .
      qed
      with Pair Inr show ?thesis by (simp add: bindM_def)
    qed
  qed
qed

lemma create_then':
  fixes h :: "go_error \<Rightarrow> go_error"
  assumes "P (channel_key ch)" and "\<And>x. Ch_ID ch \<noteq> c \<Longrightarrow> keepsM (grows P c T) (k x)" and "\<And>x. keepsM (grows P c UNIV) (k x)"
  shows "keepsM (grows P c T) (bindM (mapErrM h (Channels_Create env ch)) k)"
proof -
  have "bindM (mapErrM h (Channels_Create env ch)) k s =
    (case Channels_Create env ch s of (Inl e, s') \<Rightarrow> (Inl (h e), s') | (Inr x, s') \<Rightarrow> k x s')" for s
    by (simp add: bindM_def mapErrM_def split: prod.splits sum.splits)
  moreover have "bindM (Channels_Create env ch) k s =
    (case Channels_Create env ch s of (Inl e, s') \<Rightarrow> (Inl e, s') | (Inr x, s') \<Rightarrow> k x s')" for s
    by (simp add: bindM_def)
  ultimately have "snd (bindM (mapErrM h (Channels_Create env ch)) k s) = snd (bindM (Channels_Create env ch) k s)" for s
    by (simp split: prod.splits sum.splits)
  with create_then [OF assms] show ?thesis by (simp add: keepsM_def)
qed

lemma buildInitialChannelMembers_channel:
  assumes "buildInitialChannelMembers env w cr cid us s = (Inr ms, s')" and "m \<in> set ms"
  shows "ChM_ChannelID m = cid"
proof -
  from assms(1) obtain acc s1 where run: "foldM (\<lambda>acc memberID.
         if memberID = uuid_Nil \<or> memberID \<in> set (fst acc) then returnM acc
         else bindM (mapErrM (forbidden_or_internal ''selected user is not a member of this workspace''
                                 ''failed to verify selected channel member'')
                      (readM (\<lambda>s. GetMember (chat_dir env s) w memberID))) (\<lambda>_.
              bindM (chat_New env) (\<lambda>newID.
              returnM (memberID # fst acc,
                       snd acc @ [new_member newID cid memberID ChannelRoleMember (cnow env) (DMRequestStatusOther '''')]))))
       ([cr], []) us s = (Inr acc, s1)" and ms: "ms = snd acc"
    by (auto simp: buildInitialChannelMembers_def bindM_Inr returnM_Inr)
  have "\<forall>m \<in> set (snd acc). ChM_ChannelID m = cid"
    by (rule foldM_invariant [OF run, where I = "\<lambda>a. \<forall>m \<in> set (snd a). ChM_ChannelID m = cid"])
      (auto simp: run_Inr new_member_def split: if_splits)
  with ms assms(2) show ?thesis by simp
qed

text \<open>Whom the selection of \<open>AddChannelMembers\<close> takes: workspace members among the targets.\<close>

definition may_be_added :: "chat_env \<Rightarrow> uuid \<Rightarrow> uuid list \<Rightarrow> uuid \<Rightarrow> bool" where
  "may_be_added env ws targetIDs u \<longleftrightarrow>
     u \<in> set targetIDs \<and> (\<exists>wm \<in> set (d_members (ce_dir env)). WM_WorkspaceID wm = ws \<and> WM_UserID wm = u)"

lemma select_new_members_added:
  assumes "select_new_members env w cid a us s = (Inr ms, s')" and "m \<in> set ms"
  shows "ChM_ChannelID m = cid \<and> may_be_added env w us (ChM_UserID m)"
proof -
  let ?I = "\<lambda>acc. \<forall>m \<in> set (snd acc). ChM_ChannelID m = cid \<and> may_be_added env w us (ChM_UserID m)"
  from assms(1) obtain acc s1 where run: "foldM (\<lambda>acc targetID.
         if targetID = uuid_Nil \<or> targetID \<in> set (fst acc) then returnM acc
         else if targetID = a then returnM (targetID # fst acc, snd acc)
         else bindM (mapErrM (forbidden_or_internal ''selected user is not a member of this workspace''
                                 ''failed to verify selected channel member'')
                      (readM (\<lambda>s. GetMember (chat_dir env s) w targetID))) (\<lambda>_.
              bindM (tryM (readM (\<lambda>s. Channel_GetMember (chat_dir env s) cid targetID))) (\<lambda>existing.
              case existing of
                Inr _ \<Rightarrow> returnM (targetID # fst acc, snd acc)
              | Inl err \<Rightarrow>
                  if \<not> has_code CodeNotFound err then throwM (Internal ''failed to check existing channel member'' (Some err))
                  else bindM (chat_New env) (\<lambda>newID.
                       returnM (targetID # fst acc,
                         snd acc @ [new_member newID cid targetID ChannelRoleMember (cnow env) (DMRequestStatusOther '''')])))))
       ([], []) us s = (Inr acc, s1)" and ms: "ms = snd acc"
    by (auto simp: select_new_members_def bindM_Inr returnM_Inr)
  have "?I acc"
    by (rule foldM_invariant [OF run, where I = ?I])
      (auto simp: run_Inr new_member_def may_be_added_def chat_dir_def dest!: GetMember_Inr split: if_splits sum.splits)
  with ms assms(2) show ?thesis by blast
qed

lemmas grow_steps =
  growth.keeps_bindM growth.keeps_mapErrM growth.keeps_tryM growth.keeps_returnM growth.keeps_throwM growth.keeps_readM
  growth.keeps_failIf growth.keeps_If growth.keeps_case_option growth.keeps_case_sum growth.keeps_forM_in
  growth.Chat_WithinTx_keeps growth.New_keeps growth.publish_keeps growth.enqueue_keeps growth.search_keeps
  growth.enqueueSearch_keeps growth.channel_search_keeps growth.visibility_keeps

lemma CreateChannel_grows: "keepsM (grows (\<lambda>(i, ws, t). t = ty) c {}) (CreateChannel env w u n tp ty us)"
  unfolding CreateChannel_def Let_def
  apply (intro growth.keeps_bindM [OF growth.keeps_readM] growth.keeps_bindM [OF growth.New_keeps])
  apply (rule growth.keeps_bindM_fact [OF growth.selection_keeps(1)])
  apply (rule growth.keeps_bindM [OF _ growth.keeps_returnM], rule growth.keeps_If)
   apply (rule growth.keeps_mapErrM, rule growth.Chat_WithinTx_keeps, rule create_then)
     apply (simp add: channel_key_def new_channel_def)
    apply (intro grow_steps AddMember_grows; simp add: new_channel_def new_member_def buildInitialChannelMembers_channel)
   apply (intro grow_steps AddMember_grows UNIV_I)
  apply (rule create_then')
    apply (simp add: channel_key_def new_channel_def)
   apply (intro grow_steps AddMember_grows; simp add: new_channel_def new_member_def buildInitialChannelMembers_channel)
  apply (intro grow_steps AddMember_grows UNIV_I)
  done

lemma JoinChannel_grows:
  assumes "cid = c \<Longrightarrow> \<forall>ch \<in> set (cb_channels (cs_db s)). Ch_ID ch = c \<longrightarrow> Ch_Type ch \<noteq> ChannelTypePublic"
  shows "grows P c {} s (snd (JoinChannel env cid u s))"
proof (cases "cid = c")
  case True
  have "snd (JoinChannel env cid u s) = s"
  proof (cases "Channel_GetByID (chat_dir env s) cid")
    case (Inl e)
    then show ?thesis by (simp add: JoinChannel_def monad_simps)
  next
    case (Inr ch)
    with Channel_GetByID_state [OF Inr] assms True have "Ch_Type ch \<noteq> ChannelTypePublic" by blast
    with Inr show ?thesis by (simp add: JoinChannel_def monad_simps)
  qed
  then show ?thesis by simp
next
  case False
  have "keepsM (grows P c {}) (JoinChannel env cid u)"
    unfolding JoinChannel_def Let_def
    by (intro grow_steps AddMember_grows; use False in \<open>simp add: new_member_def\<close>)
  then show ?thesis by (rule keepsMD)
qed

lemma bindM_readM_apply: "bindM (readM f) k s = (case f s of Inl e \<Rightarrow> (Inl e, s) | Inr x \<Rightarrow> k x s)"
  by (simp add: bindM_def readM_def split: sum.splits)

lemma Checker_Channel_member:
  assumes "Checker_Channel ck d pw c u cap = Inr dec" and "CD_ChannelMember dec = Some m"
  shows "Channel_GetMember d c u = Inr m"
proof -
  have "Ch_ID (CD_Channel dec) = c"
    using Channel_GetByID_Inr [OF Checker_Channel_channel [OF assms(1)]] by simp
  with assms show ?thesis
    by (auto simp: Checker_Channel_def selfChannelDecision_def channelDecisionForWorkspaceMember_def
        channelDecisionForCollaborator_def Let_def dest: Channel_GetByID_Inr
        split: sum.splits if_splits option.splits ChannelType.splits)
qed

lemma authorizeChannel_member:
  "authorizeChannel env c u cap s = Inr dec \<Longrightarrow> CD_ChannelMember dec = Some m \<Longrightarrow> Channel_GetMember (chat_dir env s) c u = Inr m"
  by (auto simp: authorizeChannel_def Let_def dest: Checker_Channel_member split: sum.splits if_splits)

lemma Channel_GetMember_state:
  "Channel_GetMember (chat_dir env s) c u = Inr m \<Longrightarrow> m \<in> set (cb_members (cs_db s)) \<and> member_of c u m"
  by (drule Channel_GetMember_Inr) (simp add: chat_dir_def member_of_def)

text \<open>The actor of \<open>AddChannelMembers\<close> manages a public or private channel of the workspace \<open>ws\<close>.\<close>

definition manages :: "chat_state \<Rightarrow> uuid \<Rightarrow> uuid \<Rightarrow> uuid \<Rightarrow> bool" where
  "manages s c a ws \<longleftrightarrow>
     (\<exists>m \<in> set (cb_members (cs_db s)). member_of c a m \<and> (ChM_Role m = ChannelRoleOwner \<or> ChM_Role m = ChannelRoleAdmin)) \<and>
     (\<exists>ch \<in> set (cb_channels (cs_db s)). Ch_ID ch = c \<and> Ch_WorkspaceID ch = Some ws \<and>
        (Ch_Type ch = ChannelTypePublic \<or> Ch_Type ch = ChannelTypePrivate))"

lemma require_member_manager_manages:
  assumes "require_member_manager env c a msg s = Inr (dec, ws)"
  shows "manages s c a ws"
proof -
  from assms obtain m where dec: "authorizeChannel env c a CapabilityParticipate s = Inr dec" "CD_ChannelMember dec = Some m"
    and role: "ChM_Role m = ChannelRoleOwner \<or> ChM_Role m = ChannelRoleAdmin"
    and ch: "Ch_Type (CD_Channel dec) = ChannelTypePublic \<or> Ch_Type (CD_Channel dec) = ChannelTypePrivate"
      "Ch_WorkspaceID (CD_Channel dec) = Some ws"
    by (auto simp: require_member_manager_def canManageChannelMembers_def requireChannelWorkspaceID_def
        split: sum.splits if_splits option.splits)
  from Channel_GetMember_state [OF authorizeChannel_member [OF dec]] Channel_GetByID_state [OF authorizeChannel_channel [OF dec(1)]]
    role ch show ?thesis unfolding manages_def by blast
qed

lemma AddChannelMembers_grows:
  "\<exists>T. grows P c T s (snd (AddChannelMembers env cid a ts s)) \<and>
    (\<forall>u \<in> T. cid = c \<and> (\<exists>ws. manages s c a ws \<and> may_be_added env ws ts u))"
proof (cases "require_member_manager env cid a ''only channel owners and admins can add members'' s")
  case (Inl e)
  then have "snd (AddChannelMembers env cid a ts s) = s"
    by (simp add: AddChannelMembers_def monad_simps)
  then show ?thesis by (intro exI [where x = "{}"]) simp
next
  case (Inr dw)
  obtain dec ws where dw: "dw = (dec, ws)" by (cases dw)
  let ?T = "{u. cid = c \<and> may_be_added env ws ts u}"
  have body: "keepsM (grows P c ?T) (bindM (select_new_members env ws cid a ts) (\<lambda>members. k members))"
    if "\<And>ms. (\<And>m. m \<in> set ms \<Longrightarrow> ChM_ChannelID m = cid \<and> may_be_added env ws ts (ChM_UserID m)) \<Longrightarrow> keepsM (grows P c ?T) (k ms)"
    for k :: "ChannelMember list \<Rightarrow> ChannelMember list chat_handler"
    by (rule growth.keeps_bindM_fact [OF growth.selection_keeps(2)], rule that, rule select_new_members_added)
  have "grows P c ?T s (snd (AddChannelMembers env cid a ts s))"
    unfolding AddChannelMembers_def Let_def
    apply (subst bindM_readM_apply)
    apply (simp only: Inr dw sum.case fst_conv snd_conv)
    apply (rule keepsMD, rule body)
    apply (intro grow_steps AddMember_grows; auto)
    done
  moreover have "manages s c a ws" if "cid = c"
    using require_member_manager_manages [OF Inr [unfolded dw]] that by simp
  ultimately show ?thesis by (intro exI [where x = ?T]) auto
qed

lemma ensure_grant_grows:
  "keepsM (grows P c T) (ensureChannelAccessGrant env cid w rw su tu b)"
  "keepsM (grows P c T) (ensureChannelAccessGrantTx env cid w rw su tu b)"
  unfolding ensureChannelAccessGrant_def ensureChannelAccessGrantTx_def
  by (intro grow_steps channel_statements_grow)+

definition dm_key :: "uuid \<Rightarrow> uuid \<times> uuid option \<times> ChannelType \<Rightarrow> bool" where
  "dm_key w = (\<lambda>(i, ws, t). ws = Some w \<and> t = ChannelTypeDM)"

lemma create_dm_grows: "keepsM (grows (dm_key w) c {}) (create_dm env w rw a b)"
  unfolding create_dm_def Let_def
  apply (intro growth.keeps_bindM [OF growth.New_keeps])
  apply (rule growth.keeps_bindM [OF _ growth.keeps_returnM], rule growth.keeps_If)
   apply (rule growth.keeps_mapErrM, rule growth.Chat_WithinTx_keeps, rule create_then)
     apply (simp add: channel_key_def new_channel_def dm_key_def)
    apply (intro grow_steps ensure_grant_grows AddMember_grows; auto simp: new_channel_def new_member_def)
   apply (intro grow_steps ensure_grant_grows AddMember_grows UNIV_I)
  apply (rule create_then')
    apply (simp add: channel_key_def new_channel_def dm_key_def)
   apply (intro grow_steps ensure_grant_grows AddMember_grows; auto simp: new_channel_def new_member_def)
  apply (intro grow_steps ensure_grant_grows AddMember_grows UNIV_I)
  done

lemma GetOrCreateDM_grows: "keepsM (grows (dm_key w) c {}) (GetOrCreateDM env w a b t)"
  unfolding GetOrCreateDM_def by (intro grow_steps ensure_grant_grows create_dm_grows)

subsection \<open>One request\<close>

text \<open>Which channels a request may create.\<close>

definition new_channels :: "messaging_request \<Rightarrow> uuid \<times> uuid option \<times> ChannelType \<Rightarrow> bool" where
  "new_channels req = (case req of
     CreateChannelReq w u n tp ty us \<Rightarrow> (\<lambda>(i, ws, t). t = ty)
   | OpenDMReq w a b t \<Rightarrow> dm_key w
   | _ \<Rightarrow> (\<lambda>_. False))"

definition may_join :: "chat_env \<Rightarrow> chat_state \<Rightarrow> messaging_request \<Rightarrow> uuid \<Rightarrow> uuid \<Rightarrow> bool" where
  "may_join env s req c u \<longleftrightarrow>
     (\<exists>a ts ws. req = AddMembersReq c a ts \<and> manages s c a ws \<and> may_be_added env ws ts u)"

lemma serve_grows:
  assumes "\<forall>ch \<in> set (cb_channels (cs_db s)). Ch_ID ch = c \<longrightarrow> Ch_Type ch \<noteq> ChannelTypePublic"
  shows "grows (new_channels req) c {u. may_join env s req c u} s (messaging_serve env req s)"
proof -
  have mono: "grows P c {} s s' \<Longrightarrow> grows P c T s s'" for P s' T by (auto simp: grows_def grows_db_def)
  show ?thesis
  proof (cases req)
    case (CreateChannelReq w u n tp ty us)
    then show ?thesis
      by (simp add: new_channels_def) (rule mono, rule after_keeps, rule CreateChannel_grows)
  next
    case (JoinChannelReq cid u)
    then show ?thesis using JoinChannel_grows [of cid c s] assms by (simp add: new_channels_def after_def mono)
  next
    case (AddMembersReq cid a ts)
    from AddChannelMembers_grows [of "\<lambda>_. False" c s env cid a ts] obtain T where
      T: "grows (\<lambda>_. False) c T s (snd (AddChannelMembers env cid a ts s))"
        "\<forall>u \<in> T. cid = c \<and> (\<exists>ws. manages s c a ws \<and> may_be_added env ws ts u)" by blast
    then have "T \<subseteq> {u. may_join env s req c u}" using AddMembersReq by (auto simp: may_join_def)
    with T(1) AddMembersReq show ?thesis by (auto simp: new_channels_def after_def grows_def grows_db_def)
  next
    case (OpenDMReq w a b t)
    then show ?thesis by (simp add: new_channels_def) (rule mono, rule after_keeps, rule GetOrCreateDM_grows)
  qed (simp_all only: messaging_serve.simps, (rule after_keeps, rule updates.update_handlers)+)
qed

text \<open>
  C9: how a channel that is not public gains a member. One request lets a user into an existing private channel
  only by \<open>AddChannelMembers\<close> on this channel: the actor is its owner or admin, the user is among the targets and
  a member of the channel's workspace. Nobody ever joins an existing direct message.
\<close>

theorem closed_channels_grow_by_invitation:
  assumes "chat_ok (cs_db s)" and "ch \<in> set (cb_channels (cs_db s))" and "Ch_Type ch \<noteq> ChannelTypePublic"
    and "\<not> is_member (cs_db s) (Ch_ID ch) u" and "is_member (cs_db (messaging_serve env req s)) (Ch_ID ch) u"
  shows "Ch_Type ch = ChannelTypePrivate \<and>
    (\<exists>a ts. req = AddMembersReq (Ch_ID ch) a ts \<and> u \<in> set ts \<and>
      (\<exists>m \<in> set (cb_members (cs_db s)). member_of (Ch_ID ch) a m \<and> (ChM_Role m = ChannelRoleOwner \<or> ChM_Role m = ChannelRoleAdmin)) \<and>
      (\<exists>wm \<in> set (d_members (ce_dir env)). Some (WM_WorkspaceID wm) = Ch_WorkspaceID ch \<and> WM_UserID wm = u))"
proof -
  have same: "x \<in> set (cb_channels (cs_db s)) \<Longrightarrow> Ch_ID x = Ch_ID ch \<Longrightarrow> x = ch" for x
    using assms(1,2) by (auto simp: chat_ok_defs dest: distinct_key_eq)
  have "grows (new_channels req) (Ch_ID ch) {u. may_join env s req (Ch_ID ch) u} s (messaging_serve env req s)"
    using same assms(3) by (intro serve_grows) blast
  moreover have "channel_exists (Ch_ID ch) (cs_db s)" using assms(2) by (auto simp: channel_exists_def)
  ultimately have "may_join env s req (Ch_ID ch) u"
    using assms(4,5) by (auto simp: grows_def grows_db_def)
  then obtain a ts ws x where j: "req = AddMembersReq (Ch_ID ch) a ts" "may_be_added env ws ts u"
      "\<exists>m \<in> set (cb_members (cs_db s)). member_of (Ch_ID ch) a m \<and> (ChM_Role m = ChannelRoleOwner \<or> ChM_Role m = ChannelRoleAdmin)"
    and x: "x \<in> set (cb_channels (cs_db s))" "Ch_ID x = Ch_ID ch" "Ch_WorkspaceID x = Some ws"
      "Ch_Type x = ChannelTypePublic \<or> Ch_Type x = ChannelTypePrivate"
    unfolding may_join_def manages_def by blast
  from same [OF x(1,2)] x(3,4) assms(3) j show ?thesis by (auto simp: may_be_added_def)
qed

theorem closed_channels_grow_by_invitation_witness:
  "\<exists>a ts. AddMembersReq 3 10 [12] = AddMembersReq 3 a ts \<and> 12 \<in> set ts \<and>
     is_member (cs_db (messaging_serve (demo_chat_env True) (AddMembersReq 3 10 [12]) demo_chat)) 3 12"
proof -
  let ?ch = "demo_channel 3 ''plans'' ChannelTypePrivate"
  have c: "?ch \<in> set (cb_channels (cs_db demo_chat))" by (simp add: demo_chat_def demo_chat_db_def)
  have e: "Ch_Type ?ch \<noteq> ChannelTypePublic" "\<not> is_member (cs_db demo_chat) (Ch_ID ?ch) 12" "Ch_ID ?ch = 3"
    "is_member (cs_db (messaging_serve (demo_chat_env True) (AddMembersReq 3 10 [12]) demo_chat)) (Ch_ID ?ch) 12" by code_simp+
  from closed_channels_grow_by_invitation [OF demo_chat_ok c e(1,2,4)] e(3,4) show ?thesis by auto
qed

end
