(* ===== verification/DirectMessages.thy ===== *)
theory DirectMessages
  imports Membership
begin

text \<open>
  Direct messages: at most one channel per pair of users and workspace, and the two ways around it.
\<close>

subsection \<open>One channel per pair\<close>

lemma is_dm_of_alt:
  "is_dm_of db ws a b c \<longleftrightarrow> Ch_WorkspaceID c = Some ws \<and> Ch_Type c = ChannelTypeDM \<and> is_member db (Ch_ID c) a \<and> is_member db (Ch_ID c) b"
  by (simp add: is_dm_of_def is_member_def)

definition dm_unique :: "chat_db \<Rightarrow> bool" where
  "dm_unique db \<longleftrightarrow> (\<forall>c \<in> set (cb_channels db). \<forall>c' \<in> set (cb_channels db). \<forall>ws a b.
     a \<noteq> b \<longrightarrow> is_dm_of db ws a b c \<longrightarrow> is_dm_of db ws a b c' \<longrightarrow> c = c')"

text \<open>New members of one channel, whether it was there before or not.\<close>

definition within :: "uuid \<Rightarrow> uuid set \<Rightarrow> chat_state \<Rightarrow> chat_state \<Rightarrow> bool" where
  "within c T s s' \<longleftrightarrow> (\<forall>u. is_member (cs_db s') c u \<longrightarrow> is_member (cs_db s) c u \<or> u \<in> T)"

interpretation within: chat_relation "within c T" for c T
  by unfold_locales (auto simp: within_def, simp add: is_member_def chat_core_def)

lemma within_exec:
  "(\<And>db u. is_member (snd (f db)) c u \<Longrightarrow> is_member db c u \<or> u \<in> T) \<Longrightarrow> keepsM (within c T) (chat_exec env op args wrap f)"
  by (rule keepsMI) (auto simp: within_def chat_exec_snd split: option.splits)

lemma create_statements_within:
  "keepsM (within c T) (Channels_Create env ch)" "keepsM (within c T) (CreateGrant env g)"
  unfolding Channels_Create_def CreateGrant_def
  by (rule within_exec; auto simp: on_table_snd is_member_def split: if_splits sum.splits)+

lemma AddMember_within: "ChM_UserID m \<in> T \<Longrightarrow> keepsM (within c T) (Channels_AddMember env m)"
  unfolding Channels_AddMember_def
  by (rule within_exec) (auto simp: on_table_snd is_member_def member_of_def split: if_splits sum.splits)

lemma ensure_grant_within:
  "keepsM (within c T) (ensureChannelAccessGrant env cid w rw su tu b)"
  "keepsM (within c T) (ensureChannelAccessGrantTx env cid w rw su tu b)"
  unfolding ensureChannelAccessGrant_def ensureChannelAccessGrantTx_def
  by (intro within.quiet create_statements_within)+

lemma create_dm_within: "keepsM (within c {a, b}) (create_dm env w rw a b)"
  unfolding create_dm_def Let_def forM.simps
  by (intro within.quiet create_statements_within ensure_grant_within AddMember_within) (simp_all add: new_member_def)

text \<open>The new channel has the first id drawn.\<close>

abbreviation (input) new_dm_key :: "chat_env \<Rightarrow> chat_state \<Rightarrow> uuid \<Rightarrow> uuid \<times> uuid option \<times> ChannelType" where
  "new_dm_key env s w \<equiv> (ce_id env (cs_ids s), Some w, ChannelTypeDM)"

lemma create_dm_new: "grows (\<lambda>k. k = new_dm_key env s w) c {} s (snd (create_dm env w rw a b s))"
  unfolding create_dm_def Let_def
  apply (rule growth.at_bindM)
   apply (rule keepsMD, rule growth.New_keeps)
  apply (simp only: chat_New_Inr, elim conjE, hypsubst, rule keepsMD [where R = "grows (\<lambda>k. k = new_dm_key env s w) c {}"])
  apply (intro growth.keeps_bindM [OF growth.New_keeps])
  apply (rule growth.keeps_bindM [OF _ growth.keeps_returnM], rule growth.keeps_If)
   apply (rule growth.keeps_mapErrM, rule growth.Chat_WithinTx_keeps, rule create_then)
     apply (simp add: channel_key_def new_channel_def)
    apply (intro grow_steps ensure_grant_grows AddMember_grows; auto simp: new_channel_def new_member_def)
   apply (intro grow_steps ensure_grant_grows AddMember_grows UNIV_I)
  apply (rule create_then')
    apply (simp add: channel_key_def new_channel_def)
   apply (intro grow_steps ensure_grant_grows AddMember_grows; auto simp: new_channel_def new_member_def)
  apply (intro grow_steps ensure_grant_grows AddMember_grows UNIV_I)
  done

lemma create_dm_new_within: "within c {a, b} s (snd (create_dm env w rw a b s))"
  by (rule keepsMD) (rule create_dm_within)

text \<open>\<open>GetOrCreateDM\<close> either adds no channel, or the pair had none.\<close>

lemma GetDMChannel_NotFound:
  assumes "GetDMChannel env w a b s = Inl e" and "has_code CodeNotFound e"
  shows "\<forall>c \<in> set (cb_channels (cs_db s)). \<not> is_dm_of (cs_db s) w a b c"
proof -
  from chat_query_Inl_code [OF assms [unfolded GetDMChannel_def]]
  have "find (is_dm_of (cs_db s) w a b) (cb_channels (cs_db s)) = None" by (auto split: option.splits)
  then show ?thesis by (simp add: find_None_iff')
qed

lemma bindM_try_apply: "bindM (tryM (readM f)) k s = k (f s) s"
  by (simp add: bindM_def tryM_def readM_def)

lemma bindM_failIf_apply: "bindM (failIf b e) k s = (if b then (Inl e, s) else k () s)"
  by (simp add: bindM_def failIf_def throwM_def returnM_def)

lemma GetOrCreateDM_run:
  obtains (stop) "snd (GetOrCreateDM env w a b t s) = s"
  | (found) ch rw where "snd (GetOrCreateDM env w a b t s) = snd (bindM (if rw \<noteq> w
                then ensureChannelAccessGrant env (Ch_ID ch) w rw a b True else returnM ()) (\<lambda>_.
         bindM (readM (stampDMRequestStatus env ch a)) (\<lambda>ch1. readM (hydrate_dm env ch1))) s)"
  | (create) rw e where "snd (GetOrCreateDM env w a b t s) = snd (create_dm env w rw a b s)"
    "GetDMChannel env w a b s = Inl e" "has_code CodeNotFound e"
proof (cases "a = b \<or> isl (CanAccessWorkspace env w a s) \<or> isl (dm_remote_workspace env w a b t s)")
  case True
  then have "snd (GetOrCreateDM env w a b t s) = s"
    by (auto simp: GetOrCreateDM_def bindM_failIf_apply bindM_readM_apply isl_def split: sum.splits)
  then show ?thesis by (rule stop)
next
  case False
  then obtain x rw where ok: "a \<noteq> b" "CanAccessWorkspace env w a s = Inr x" "dm_remote_workspace env w a b t s = Inr rw"
    by (cases "CanAccessWorkspace env w a s"; cases "dm_remote_workspace env w a b t s") simp_all
  then have run: "GetOrCreateDM env w a b t s = (case GetDMChannel env w a b s of
       Inl err \<Rightarrow>
         if \<not> has_code CodeNotFound err then throwM (Internal ''failed to look up DM channel'' (Some err))
         else create_dm env w rw a b
     | Inr ch \<Rightarrow>
         bindM (if rw \<noteq> w then ensureChannelAccessGrant env (Ch_ID ch) w rw a b True else returnM ()) (\<lambda>_.
         bindM (readM (stampDMRequestStatus env ch a)) (\<lambda>ch1. readM (hydrate_dm env ch1)))) s"
    by (simp add: GetOrCreateDM_def bindM_failIf_apply bindM_readM_apply bindM_try_apply)
  show ?thesis
  proof (cases "GetDMChannel env w a b s")
    case (Inr ch)
    with run show ?thesis by (intro found) simp
  next
    case (Inl e)
    show ?thesis
    proof (cases "has_code CodeNotFound e")
      case True
      with run Inl show ?thesis by (intro create [of rw e]) simp_all
    next
      case False
      with run Inl show ?thesis by (intro stop) (simp add: throwM_apply)
    qed
  qed
qed

lemma GetOrCreateDM_cases:
  obtains (old) "\<And>c. grows (\<lambda>_. False) c {} s (snd (GetOrCreateDM env w a b t s))"
  | (new) "\<And>c. grows (\<lambda>k. k = new_dm_key env s w) c {} s (snd (GetOrCreateDM env w a b t s))"
    "\<And>c. within c {a, b} s (snd (GetOrCreateDM env w a b t s))"
    "\<forall>c \<in> set (cb_channels (cs_db s)). \<not> is_dm_of (cs_db s) w a b c"
proof (cases rule: GetOrCreateDM_run [of env w a b t s])
  case stop
  then show ?thesis by (intro old) simp
next
  case (found ch rw)
  have "grows (\<lambda>_. False) c {} s (snd (GetOrCreateDM env w a b t s))" for c
    unfolding found by (rule keepsMD) (intro grow_steps ensure_grant_grows)
  then show ?thesis by (rule old)
next
  case (create rw e)
  show ?thesis
    by (rule new) (simp_all add: create(1) create_dm_new create_dm_new_within GetDMChannel_NotFound [OF create(2,3)])
qed

text \<open>
  Requests that keep pairs unique: all but the creation of a channel of type \<open>dm\<close> by \<open>CreateChannel\<close>.
\<close>

definition no_raw_dm :: "messaging_request \<Rightarrow> bool" where
  "no_raw_dm req = (case req of CreateChannelReq w u n tp ty us \<Rightarrow> ty \<noteq> ChannelTypeDM | _ \<Rightarrow> True)"

definition dm_rel :: "chat_state \<Rightarrow> chat_state \<Rightarrow> bool" where
  "dm_rel s s' \<longleftrightarrow> (chat_ok (cs_db s) \<and> dm_unique (cs_db s) \<longrightarrow> chat_ok (cs_db s') \<and> dm_unique (cs_db s'))"

text \<open>A direct message that was there has its members from before.\<close>

lemma old_dm:
  assumes ok: "chat_ok (cs_db s)" and c: "c \<in> set (cb_channels (cs_db s'))" "channel_key c \<in> channel_key ` set (cb_channels (cs_db s))"
    and members: "\<And>u. channel_exists (Ch_ID c) (cs_db s) \<Longrightarrow> is_member (cs_db s') (Ch_ID c) u \<Longrightarrow> is_member (cs_db s) (Ch_ID c) u"
    and dm: "is_dm_of (cs_db s') ws a b c"
  shows "\<exists>c0 \<in> set (cb_channels (cs_db s)). Ch_ID c0 = Ch_ID c \<and> is_dm_of (cs_db s) ws a b c0"
proof -
  from c(2) obtain c0 where c0: "c0 \<in> set (cb_channels (cs_db s))" "channel_key c0 = channel_key c" by force
  then have "channel_exists (Ch_ID c) (cs_db s)" by (auto simp: channel_exists_def channel_key_def)
  with members dm c0 show ?thesis by (intro bexI [OF _ c0(1)]) (auto simp: is_dm_of_alt channel_key_def)
qed

lemma dm_unique_same_id:
  assumes "chat_ok db" and "c \<in> set (cb_channels db)" and "c' \<in> set (cb_channels db)" and "Ch_ID c = Ch_ID c'"
  shows "c = c'"
  using assms by (auto simp: chat_ok_defs dest: distinct_key_eq)

lemma old_dms_unique:
  assumes "chat_ok (cs_db s)" and "chat_ok (cs_db s')" and uniq: "dm_unique (cs_db s)"
    and keys: "\<And>c. c \<in> set (cb_channels (cs_db s')) \<Longrightarrow> Ch_Type c = ChannelTypeDM \<Longrightarrow> channel_key c \<in> channel_key ` set (cb_channels (cs_db s))"
    and members: "\<And>c u. c \<in> set (cb_channels (cs_db s')) \<Longrightarrow> Ch_Type c = ChannelTypeDM \<Longrightarrow> channel_exists (Ch_ID c) (cs_db s) \<Longrightarrow>
      is_member (cs_db s') (Ch_ID c) u \<Longrightarrow> is_member (cs_db s) (Ch_ID c) u"
  shows "dm_unique (cs_db s')"
  unfolding dm_unique_def
proof (intro ballI allI impI)
  fix c c' ws a b
  assume c: "c \<in> set (cb_channels (cs_db s'))" "c' \<in> set (cb_channels (cs_db s'))" and ab: "(a :: uuid) \<noteq> b"
    and dm: "is_dm_of (cs_db s') ws a b c" "is_dm_of (cs_db s') ws a b c'"
  then have t: "Ch_Type c = ChannelTypeDM" "Ch_Type c' = ChannelTypeDM" by (simp_all add: is_dm_of_alt)
  from old_dm [OF assms(1) c(1) keys [OF c(1) t(1)] members [OF c(1) t(1)] dm(1)] obtain c0 where
    c0: "c0 \<in> set (cb_channels (cs_db s))" "Ch_ID c0 = Ch_ID c" "is_dm_of (cs_db s) ws a b c0" by blast
  from old_dm [OF assms(1) c(2) keys [OF c(2) t(2)] members [OF c(2) t(2)] dm(2)] obtain c1 where
    c1: "c1 \<in> set (cb_channels (cs_db s))" "Ch_ID c1 = Ch_ID c'" "is_dm_of (cs_db s) ws a b c1" by blast
  have "c0 = c1" using uniq c0 c1 ab by (auto simp: dm_unique_def)
  with c0 c1 c show "c = c'" by (intro dm_unique_same_id [OF assms(2)]) auto
qed

text \<open>No request adds a member to an existing direct message.\<close>

lemma serve_members:
  assumes "chat_ok (cs_db s)" and "chat_rel s (messaging_serve env req s)"
    and "c \<in> set (cb_channels (cs_db (messaging_serve env req s)))" and "Ch_Type c = ChannelTypeDM" and "channel_exists (Ch_ID c) (cs_db s)"
    and "is_member (cs_db (messaging_serve env req s)) (Ch_ID c) u"
  shows "is_member (cs_db s) (Ch_ID c) u"
proof (rule ccontr)
  assume no: "\<not> is_member (cs_db s) (Ch_ID c) u"
  let ?s' = "messaging_serve env req s"
  from assms(5) obtain ch where ch: "ch \<in> set (cb_channels (cs_db s))" "Ch_ID ch = Ch_ID c" by (auto simp: channel_exists_def)
  from assms(1,2) ch(1) obtain ch' where ch': "ch' \<in> set (cb_channels (cs_db ?s'))" "same_channel ch ch'" and ok': "chat_ok (cs_db ?s')"
    by (auto simp: chat_rel_def chat_history_def)
  then have "ch' = c" using ch assms(3) by (intro dm_unique_same_id [OF ok']) (auto simp: same_channel_def)
  with ch' have t: "Ch_Type ch = ChannelTypeDM" using assms(4) by (simp add: same_channel_def)
  have same: "x \<in> set (cb_channels (cs_db s)) \<Longrightarrow> Ch_ID x = Ch_ID c \<Longrightarrow> x = ch" for x
    using ch by (intro dm_unique_same_id [OF assms(1)]) auto
  have "grows (new_channels req) (Ch_ID c) {u. may_join env s req (Ch_ID c) u} s ?s'"
    using same t by (intro serve_grows) auto
  with no assms(5,6) have "may_join env s req (Ch_ID c) u" by (auto simp: grows_def grows_db_def)
  then show False using same t by (auto simp: may_join_def manages_def)
qed

lemma serve_channels:
  assumes "chat_ok (cs_db s)" and "chat_rel s (messaging_serve env req s)"
    and "c \<in> set (cb_channels (cs_db (messaging_serve env req s)))" and "Ch_Type c = ChannelTypeDM"
  shows "channel_key c \<in> channel_key ` set (cb_channels (cs_db s)) \<or> new_channels req (channel_key c)"
proof -
  let ?s' = "messaging_serve env req s"
  have "Ch_Type ch \<noteq> ChannelTypePublic" if ch: "ch \<in> set (cb_channels (cs_db s))" "Ch_ID ch = Ch_ID c" for ch
  proof -
    from assms(1,2) ch(1) obtain ch' where ch': "ch' \<in> set (cb_channels (cs_db ?s'))" "same_channel ch ch'" and ok': "chat_ok (cs_db ?s')"
      by (auto simp: chat_rel_def chat_history_def)
    then have "ch' = c" using ch assms(3) by (intro dm_unique_same_id [OF ok']) (auto simp: same_channel_def)
    with ch' assms(4) show ?thesis by (simp add: same_channel_def)
  qed
  then have "grows (new_channels req) (Ch_ID c) {u. may_join env s req (Ch_ID c) u} s ?s'" by (intro serve_grows) auto
  with assms(3) show ?thesis by (auto simp: grows_def grows_db_def)
qed

text \<open>The new channel of \<open>GetOrCreateDM\<close> is one more direct message, for a pair that had none.\<close>

lemma new_dm_unique:
  assumes ok: "chat_ok (cs_db s)" "chat_ok (cs_db s')" and hist: "chat_history (cs_db s) (cs_db s')" and uniq: "dm_unique (cs_db s)"
    and grow: "\<And>c. grows (\<lambda>k. k = (nid, Some w, ChannelTypeDM)) c {} s s'" and win: "within nid {a, b} s s'"
    and none: "\<forall>c \<in> set (cb_channels (cs_db s)). \<not> is_dm_of (cs_db s) w a b c"
  shows "dm_unique (cs_db s')"
proof -
  have members: "is_member (cs_db s) (Ch_ID c) u" if "channel_exists (Ch_ID c) (cs_db s)" "is_member (cs_db s') (Ch_ID c) u" for c u
    using grow [of "Ch_ID c"] that by (auto simp: grows_def grows_db_def)
  have keys: "channel_key c \<in> channel_key ` set (cb_channels (cs_db s)) \<or> channel_key c = (nid, Some w, ChannelTypeDM)"
    if "c \<in> set (cb_channels (cs_db s'))" for c
    using grow [of 0] that by (auto simp: grows_def grows_db_def)
  have kept: "channel_key c \<in> channel_key ` set (cb_channels (cs_db s))"
    if c: "c \<in> set (cb_channels (cs_db s'))" and ex: "channel_exists (Ch_ID c) (cs_db s)" for c
  proof -
    from ex obtain ch where ch: "ch \<in> set (cb_channels (cs_db s))" "Ch_ID ch = Ch_ID c" by (auto simp: channel_exists_def)
    with hist obtain ch' where ch': "ch' \<in> set (cb_channels (cs_db s'))" "same_channel ch ch'" by (auto simp: chat_history_def)
    then have "ch' = c" using ch c by (intro dm_unique_same_id [OF ok(2)]) (auto simp: same_channel_def)
    with ch' have "channel_key c = channel_key ch" by (simp add: channel_key_def same_channel_def)
    with ch(1) show ?thesis by blast
  qed
  have absent: "x \<in> {a, b}" if "\<not> channel_exists nid (cs_db s)" "is_member (cs_db s') nid x" for x
  proof -
    have "\<not> is_member (cs_db s) nid x"
      using that(1) ok(1) by (auto simp: is_member_def member_of_def chat_ok_defs list_all_iff)
    with win that(2) show ?thesis by (auto simp: within_def)
  qed
  show ?thesis
    unfolding dm_unique_def
  proof (intro ballI allI impI)
    fix c c' ws x y
    assume c: "c \<in> set (cb_channels (cs_db s'))" "c' \<in> set (cb_channels (cs_db s'))" and xy: "(x :: uuid) \<noteq> y"
      and dm: "is_dm_of (cs_db s') ws x y c" "is_dm_of (cs_db s') ws x y c'"
    have old: "\<exists>c0 \<in> set (cb_channels (cs_db s)). Ch_ID c0 = Ch_ID d \<and> is_dm_of (cs_db s) ws x y c0"
      if "d \<in> set (cb_channels (cs_db s'))" "channel_exists (Ch_ID d) (cs_db s)" "is_dm_of (cs_db s') ws x y d" for d
      by (rule old_dm [OF ok(1) that(1) kept [OF that(1,2)] members that(3)])
    have new: "Ch_ID d = nid \<and> ws = w \<and> {x, y} = {a, b}"
      if d: "d \<in> set (cb_channels (cs_db s'))" "\<not> channel_exists (Ch_ID d) (cs_db s)" "is_dm_of (cs_db s') ws x y d" for d
    proof -
      have "channel_key d \<notin> channel_key ` set (cb_channels (cs_db s))"
        using d(2) by (auto simp: channel_exists_def channel_key_def)
      with keys [OF d(1)] have k: "Ch_ID d = nid" "Ch_WorkspaceID d = Some w" by (auto simp: channel_key_def)
      with d absent [of x] absent [of y] xy show ?thesis by (auto simp: is_dm_of_alt)
    qed
    have mixed: False if "d \<in> set (cb_channels (cs_db s'))" "\<not> channel_exists (Ch_ID d) (cs_db s)" "is_dm_of (cs_db s') ws x y d"
      "e \<in> set (cb_channels (cs_db s'))" "channel_exists (Ch_ID e) (cs_db s)" "is_dm_of (cs_db s') ws x y e" for d e
    proof -
      from new [OF that(1-3)] have "ws = w" "x = a \<and> y = b \<or> x = b \<and> y = a" by (auto simp: doubleton_eq_iff)
      with old [OF that(4-6)] none show False by (auto simp: is_dm_of_alt)
    qed
    show "c = c'"
    proof (cases "channel_exists (Ch_ID c) (cs_db s)"; cases "channel_exists (Ch_ID c') (cs_db s)")
      assume "channel_exists (Ch_ID c) (cs_db s)" "channel_exists (Ch_ID c') (cs_db s)"
      with old [OF c(1) _ dm(1)] old [OF c(2) _ dm(2)] obtain c0 c1 where
        "c0 \<in> set (cb_channels (cs_db s))" "Ch_ID c0 = Ch_ID c" "is_dm_of (cs_db s) ws x y c0"
        "c1 \<in> set (cb_channels (cs_db s))" "Ch_ID c1 = Ch_ID c'" "is_dm_of (cs_db s) ws x y c1" by blast
      moreover from this uniq xy have "c0 = c1" unfolding dm_unique_def by blast
      ultimately show "c = c'" using c by (intro dm_unique_same_id [OF ok(2)]) auto
    next
      assume "\<not> channel_exists (Ch_ID c) (cs_db s)" "\<not> channel_exists (Ch_ID c') (cs_db s)"
      with new [OF c(1) _ dm(1)] new [OF c(2) _ dm(2)] c show "c = c'" by (intro dm_unique_same_id [OF ok(2)]) auto
    qed (use c dm mixed in blast)+
  qed
qed

lemma serve_dm:
  assumes "no_raw_dm req"
  shows "dm_rel s (messaging_serve env req s)"
  unfolding dm_rel_def
proof (intro impI, elim conjE)
  let ?s' = "messaging_serve env req s"
  assume ok: "chat_ok (cs_db s)" and uniq: "dm_unique (cs_db s)"
  have rel: "chat_rel s ?s'" by (rule chat.requests.messaging_serve) simp
  with ok have ok': "chat_ok (cs_db ?s')" and hist: "chat_history (cs_db s) (cs_db ?s')" by (simp_all add: chat_rel_def)
  have old: "dm_unique (cs_db ?s')" if "\<And>k. snd (snd k) = ChannelTypeDM \<Longrightarrow> \<not> new_channels req k"
    by (rule old_dms_unique [OF ok ok' uniq])
      (use serve_channels [OF ok rel] serve_members [OF ok rel] that in \<open>auto simp: channel_key_def\<close>)
  have "dm_unique (cs_db ?s')"
  proof (cases "\<exists>w a b t. req = OpenDMReq w a b t")
    case True
    then obtain w a b t where "req = OpenDMReq w a b t" by blast
    then have s': "?s' = snd (GetOrCreateDM env w a b t s)" by (simp add: after_def)
    show ?thesis
    proof (cases rule: GetOrCreateDM_cases [of s env w a b t])
      case old
      then have "\<And>c. grows (\<lambda>_. False) c {} s ?s'" unfolding s' by simp
      then show ?thesis
        by (intro old_dms_unique [OF ok ok' uniq]) (auto simp: grows_def grows_db_def)
    next
      case new
      then show ?thesis
        by (intro new_dm_unique [OF ok ok' hist uniq, where nid = "ce_id env (cs_ids s)" and w = w and a = a and b = b]) (simp_all add: s')
    qed
  next
    case False
    with assms show ?thesis
      by (intro old) (auto simp: new_channels_def no_raw_dm_def split: messaging_request.splits)
  qed
  with ok' show "chat_ok (cs_db ?s') \<and> dm_unique (cs_db ?s')" by simp
qed

interpretation dms: messaging_relation dm_rel no_raw_dm
  by unfold_locales (auto simp: dm_rel_def serve_dm [unfolded dm_rel_def])

text \<open>
  C12: a pair of users has at most one direct message in a workspace. In every execution in which nobody passes the
  type \<open>dm\<close> to \<open>CreateChannel\<close>, no two direct messages of a workspace have the same two members; what
  \<open>GetOrCreateDM\<close> finds is therefore the only one.
\<close>

theorem direct_messages_are_unique:
  assumes "list_all (\<lambda>(_, req). no_raw_dm req) reqs" and "a \<noteq> b"
    and "c \<in> set (cb_channels (cs_db (messaging_execute reqs initial_chat)))"
    and "c' \<in> set (cb_channels (cs_db (messaging_execute reqs initial_chat)))"
    and "is_dm_of (cs_db (messaging_execute reqs initial_chat)) ws a b c"
    and "is_dm_of (cs_db (messaging_execute reqs initial_chat)) ws a b c'"
  shows "c = c'"
proof -
  have "dm_unique (cs_db initial_chat)" by (simp add: initial_chat_def empty_chat_db_def dm_unique_def)
  with dms.messaging_execute [OF assms(1), of initial_chat] initial_chat_ok
  have "dm_unique (cs_db (messaging_execute reqs initial_chat))" by (simp add: dm_rel_def)
  with assms(2-6) show ?thesis unfolding dm_unique_def by blast
qed

definition dm_requests :: "(chat_env \<times> messaging_request) list" where
  "dm_requests = [(demo_chat_env True, OpenDMReq 1 10 11 None), (demo_chat_env True, OpenDMReq 1 11 10 None)]"

theorem direct_messages_are_unique_witness:
  "\<exists>c. \<forall>x \<in> set (cb_channels (cs_db (messaging_execute dm_requests initial_chat))). Ch_Type x = ChannelTypeDM \<and>
     is_dm_of (cs_db (messaging_execute dm_requests initial_chat)) 1 10 11 x \<and> x = c"
proof -
  let ?db = "cs_db (messaging_execute dm_requests initial_chat)"
  have e: "list_all (\<lambda>(_, req). no_raw_dm req) dm_requests" "(10 :: uuid) \<noteq> 11" "cb_channels ?db \<noteq> []"
    "\<forall>x \<in> set (cb_channels ?db). Ch_Type x = ChannelTypeDM \<and> is_dm_of ?db 1 10 11 x"
    by code_simp+
  from e(3) have hd: "hd (cb_channels ?db) \<in> set (cb_channels ?db)" by simp
  with e(4) have "is_dm_of ?db 1 10 11 (hd (cb_channels ?db))" by blast
  with direct_messages_are_unique [OF e(1,2) _ hd] e(4) show ?thesis by blast
qed

subsection \<open>Around the request\<close>

text \<open>
  \<open>CreateChannel\<close> does not look at the type. A workspace member who asks it for a channel of type
  \<open>dm\<close> gets one, although a direct message of the two users exists and its recipient blocked it: the second one
  has the recipient as an accepted member, and both belong to the pair.
\<close>

definition blocked_dm :: chat_state where
  "blocked_dm = messaging_execute [(demo_chat_env True, OpenDMReq 1 10 11 None), (demo_chat_env True, BlockDMReq 1 1 11)] initial_chat"

theorem CreateChannel_bypasses_blocked_dm:
  "let db = cs_db blocked_dm; db' = cs_db (messaging_serve (demo_chat_env True) (CreateChannelReq 1 10 ''x'' '''' ChannelTypeDM [11]) blocked_dm);
       dms = (\<lambda>db. filter (is_dm_of db 1 10 11) (cb_channels db)) in
   map Ch_ID (dms db) = [1] \<and>
   (\<exists>m \<in> set (cb_members db). member_of 1 11 m \<and> ChM_DMRequestStatus m = DMRequestStatusBlocked) \<and>
   length (dms db') = 2 \<and>
   (\<exists>c \<in> set (dms db'). Ch_ID c \<noteq> 1 \<and>
     (\<exists>m \<in> set (cb_members db'). member_of (Ch_ID c) 11 m \<and> ChM_DMRequestStatus m = DMRequestStatusAccepted))"
  by code_simp

end
