(* ===== verification/AuthStore.thy ===== *)
theory AuthStore
  imports Directory Validate
begin

text \<open>
  The world of the authentication service (\<open>internal/service/auth\<close>): accounts and workspaces in PostgreSQL,
  sessions in Redis, and the libraries for hashes and tokens. One definition per statement of
  \<open>repository/postgres/user.go\<close> and \<open>workspace.go\<close> that the service uses, and per Redis command of
  \<open>service/auth/session.go\<close>.
\<close>

subsection \<open>Sessions in Redis\<close>

record sessionStorable =
  Ss_ID :: string
  Ss_UserID :: string
  Ss_RefreshTokenHash :: string
  Ss_DeviceInfo :: string
  Ss_IPAddress :: string
  Ss_CreatedAt :: gotime
  Ss_ExpiresAt :: gotime
  Ss_LastActiveAt :: gotime

record Session =
  Se_ID :: string
  Se_UserID :: string
  Se_DeviceInfo :: string
  Se_IPAddress :: string
  Se_CreatedAt :: gotime
  Se_ExpiresAt :: gotime
  Se_LastActiveAt :: gotime

definition toSession :: "sessionStorable \<Rightarrow> Session" where
  "toSession s =
     \<lparr>Se_ID = Ss_ID s, Se_UserID = Ss_UserID s, Se_DeviceInfo = Ss_DeviceInfo s, Se_IPAddress = Ss_IPAddress s,
      Se_CreatedAt = Ss_CreatedAt s, Se_ExpiresAt = Ss_ExpiresAt s, Se_LastActiveAt = Ss_LastActiveAt s\<rparr>"

record rotationGraceRecord =
  Gr_SessionID :: string
  Gr_NewToken :: string

text \<open>
  The four families of keys: \<open>session:<id>\<close>, \<open>refresh:<hash>\<close>, \<open>refresh_grace:<hash>\<close> and the sets
  \<open>user_sessions:<user>\<close>. A key holds its value, which stands for its JSON text, and the instant it
  expires, if it does. \<open>rd_version\<close> counts the changes of a refresh key: what \<open>WATCH\<close> compares.
\<close>

type_synonym 'v keys = "string \<rightharpoonup> 'v \<times> gotime option"

record redis =
  rd_sessions :: "sessionStorable keys"
  rd_refresh :: "string keys"
  rd_grace :: "rotationGraceRecord keys"
  rd_users :: "string \<Rightarrow> string list"
  rd_version :: "string \<Rightarrow> nat"

text \<open>An entry is gone once its expiry is reached; \<open>SET\<close> without a positive lifetime never expires.\<close>

definition redis_expiry :: "gotime \<Rightarrow> int \<Rightarrow> gotime option" where
  "redis_expiry now ttl = (if ttl > 0 then Some (now + ttl) else None)"

definition redis_get :: "gotime \<Rightarrow> 'v keys \<Rightarrow> string \<Rightarrow> 'v option" where
  "redis_get now m k =
     (case m k of
        Some (v, None) \<Rightarrow> Some v
      | Some (v, Some t) \<Rightarrow> if now < t then Some v else None
      | None \<Rightarrow> None)"

definition set_session :: "gotime \<Rightarrow> string \<Rightarrow> sessionStorable \<Rightarrow> int \<Rightarrow> redis \<Rightarrow> redis" where
  "set_session now sid st ttl r = r\<lparr>rd_sessions := (rd_sessions r)(sid \<mapsto> (st, redis_expiry now ttl))\<rparr>"

definition del_session :: "string \<Rightarrow> redis \<Rightarrow> redis" where
  "del_session sid r = r\<lparr>rd_sessions := (rd_sessions r)(sid := None)\<rparr>"

definition set_refresh :: "gotime \<Rightarrow> string \<Rightarrow> string \<Rightarrow> int \<Rightarrow> redis \<Rightarrow> redis" where
  "set_refresh now h sid ttl r =
     r\<lparr>rd_refresh := (rd_refresh r)(h \<mapsto> (sid, redis_expiry now ttl)), rd_version := (rd_version r)(h := Suc (rd_version r h))\<rparr>"

definition del_refresh :: "string \<Rightarrow> redis \<Rightarrow> redis" where
  "del_refresh h r =
     (if rd_refresh r h = None then r
      else r\<lparr>rd_refresh := (rd_refresh r)(h := None), rd_version := (rd_version r)(h := Suc (rd_version r h))\<rparr>)"

definition set_grace :: "gotime \<Rightarrow> string \<Rightarrow> rotationGraceRecord \<Rightarrow> int \<Rightarrow> redis \<Rightarrow> redis" where
  "set_grace now h rec ttl r = r\<lparr>rd_grace := (rd_grace r)(h \<mapsto> (rec, redis_expiry now ttl))\<rparr>"

definition add_user_session :: "string \<Rightarrow> string \<Rightarrow> redis \<Rightarrow> redis" where
  "add_user_session u sid r =
     (if sid \<in> set (rd_users r u) then r else r\<lparr>rd_users := (rd_users r)(u := rd_users r u @ [sid])\<rparr>)"

definition rem_user_session :: "string \<Rightarrow> string \<Rightarrow> redis \<Rightarrow> redis" where
  "rem_user_session u sid r = r\<lparr>rd_users := (rd_users r)(u := filter (\<lambda>x. x \<noteq> sid) (rd_users r u))\<rparr>"

definition del_user_sessions :: "string \<Rightarrow> redis \<Rightarrow> redis" where
  "del_user_sessions u r = r\<lparr>rd_users := (rd_users r)(u := [])\<rparr>"

subsection \<open>Environment and state\<close>

text \<open>The claims of an access token, and the signing method its header names.\<close>

record tokenClaims =
  Tc_Subject :: string
  Tc_ExpiresAt :: gotime
  Tc_IssuedAt :: gotime
  Tc_SessionID :: string

datatype jwt_method = HS256 | HS384 | HS512 | OtherMethod string

text \<open>The classes of \<open>package unicode\<close> that the password policy tells apart.\<close>

datatype rune_class = ClassUpper | ClassLower | ClassDigit | ClassSpecial | ClassNone

text \<open>
  Collaborators outside the repository are functions: \<open>ae_fault\<close> says which SQL statement fails, \<open>ae_redis\<close> which
  Redis command or pipeline does, and how many of its commands took effect before; \<open>ae_rand n\<close> is the hex
  text of the \<open>n\<close>-th 32 random bytes, \<open>ae_sha256\<close> the hex digest, \<open>ae_bcryptHash\<close>, \<open>ae_bcryptCompare\<close>, \<open>ae_sign\<close>,
  \<open>ae_parseJWT\<close> and \<open>ae_verifyJWT\<close> the libraries for passwords and tokens under the configured secret,
  \<open>ae_uuidString\<close> and \<open>ae_uuidParse\<close> \<open>google/uuid\<close>, \<open>ae_isEmail\<close> the validator's \<open>email\<close> tag, \<open>ae_lower\<close> PostgreSQL's
  \<open>LOWER\<close>, and \<open>ae_runeClass\<close> the Unicode tables beyond ASCII.
  \<open>ae_rotationGrace\<close> is the argument of \<open>SetRotationGrace\<close>, if it was called.
\<close>

record auth_env =
  ae_now :: gotime
  ae_fault :: fault_oracle
  ae_redis :: "string \<Rightarrow> string list \<Rightarrow> (nat \<times> driver_error) option"
  ae_maxSessions :: int
  ae_refreshTTL :: int
  ae_accessTTL :: int
  ae_rotationGrace :: "int option"
  ae_seeder :: bool
  ae_search :: bool
  ae_notifier :: bool
  ae_ownerCreator :: bool
  ae_commonChannels :: "(uuid \<Rightarrow> uuid \<Rightarrow> uuid \<Rightarrow> go_error + Channel list) option"
  ae_id :: "nat \<Rightarrow> uuid"
  ae_sessionID :: "nat \<Rightarrow> string"
  ae_rand :: "nat \<Rightarrow> go_error + string"
  ae_sha256 :: "string \<Rightarrow> string"
  ae_bcryptHash :: "string \<Rightarrow> go_error + string"
  ae_bcryptCompare :: "string \<Rightarrow> string \<Rightarrow> bool"
  ae_sign :: "tokenClaims \<Rightarrow> go_error + string"
  ae_parseJWT :: "string \<Rightarrow> (jwt_method \<times> tokenClaims) option"
  ae_verifyJWT :: "jwt_method \<Rightarrow> string \<Rightarrow> bool"
  ae_uuidString :: "uuid \<Rightarrow> string"
  ae_uuidParse :: "string \<Rightarrow> go_error + uuid"
  ae_isEmail :: "string \<Rightarrow> bool"
  ae_lower :: "string \<Rightarrow> string"
  ae_runeClass :: "nat \<Rightarrow> rune_class"

text \<open>
  \<open>au_events\<close> is what the notifier was told, \<open>au_index\<close> what was enqueued for the search index and \<open>au_seeded\<close> whom
  the demo seeder was called for; the three can fail, which is only logged. The counters are the draws from the
  generators of identifiers, session identifiers and random bytes.
\<close>

record auth_state =
  au_users :: "User list"
  au_workspaces :: "Workspace list"
  au_members :: "WorkspaceMember list"
  au_redis :: redis
  au_pending :: "string list"
  au_events :: "(string \<times> uuid) list"
  au_index :: "(uuid \<times> uuid) list"
  au_seeded :: "uuid list"
  au_ids :: nat
  au_sids :: nat
  au_rands :: nat

type_synonym 'a auth_handler = "(auth_state, go_error, 'a) handler"

definition auth_New :: "auth_env \<Rightarrow> uuid auth_handler" where
  "auth_New env = (\<lambda>s. (Inr (ae_id env (au_ids s)), s\<lparr>au_ids := Suc (au_ids s)\<rparr>))"

definition session_New :: "auth_env \<Rightarrow> string auth_handler" where
  "session_New env = (\<lambda>s. (Inr (ae_sessionID env (au_sids s)), s\<lparr>au_sids := Suc (au_sids s)\<rparr>))"

definition rand_Read :: "auth_env \<Rightarrow> string auth_handler" where
  "rand_Read env = (\<lambda>s. (ae_rand env (au_rands s), s\<lparr>au_rands := Suc (au_rands s)\<rparr>))"

text \<open>A read command: \<open>None\<close> is \<open>redis.Nil\<close>. A pipeline that fails has run a prefix of its commands.\<close>

definition redis_read :: "auth_env \<Rightarrow> string \<Rightarrow> string list \<Rightarrow> (redis \<Rightarrow> 'a) \<Rightarrow> auth_state \<Rightarrow> go_error + 'a" where
  "redis_read env op args f s =
     (case ae_redis env op args of Some (_, d) \<Rightarrow> Inl (driver_error d) | None \<Rightarrow> Inr (f (au_redis s)))"

definition get_session :: "auth_env \<Rightarrow> string \<Rightarrow> auth_state \<Rightarrow> go_error + sessionStorable option" where
  "get_session env sid = redis_read env ''GET session'' [sid] (\<lambda>r. redis_get (ae_now env) (rd_sessions r) sid)"

definition get_refresh :: "auth_env \<Rightarrow> string \<Rightarrow> auth_state \<Rightarrow> go_error + string option" where
  "get_refresh env h = redis_read env ''GET refresh'' [h] (\<lambda>r. redis_get (ae_now env) (rd_refresh r) h)"

definition get_grace :: "auth_env \<Rightarrow> string \<Rightarrow> auth_state \<Rightarrow> go_error + rotationGraceRecord option" where
  "get_grace env h = redis_read env ''GET refresh_grace'' [h] (\<lambda>r. redis_get (ae_now env) (rd_grace r) h)"

definition get_user_sessions :: "auth_env \<Rightarrow> string \<Rightarrow> auth_state \<Rightarrow> go_error + string list" where
  "get_user_sessions env u = redis_read env ''SMEMBERS user_sessions'' [u] (\<lambda>r. rd_users r u)"

definition redis_write :: "auth_env \<Rightarrow> string \<Rightarrow> string list \<Rightarrow> (redis \<Rightarrow> redis) list \<Rightarrow> unit auth_handler" where
  "redis_write env op args cmds = (\<lambda>s.
     (case ae_redis env op args of
        None \<Rightarrow> (Inr (), s\<lparr>au_redis := fold (\<lambda>c. c) cmds (au_redis s)\<rparr>)
      | Some (n, d) \<Rightarrow> (Inl (driver_error d), s\<lparr>au_redis := fold (\<lambda>c. c) (take n cmds) (au_redis s)\<rparr>)))"

text \<open>
  \<open>EXEC\<close> after \<open>WATCH\<close> of the refresh key \<open>h\<close> at version \<open>v\<close>: nothing runs when the key has changed. A lost reply
  leaves it open whether the transaction ran, but it ran as a whole or not at all.
\<close>

definition redis_TxFailedErr :: sentinel where
  "redis_TxFailedErr = ErrNamed ''redis: transaction failed''"

definition redis_exec :: "auth_env \<Rightarrow> string \<Rightarrow> nat \<Rightarrow> (redis \<Rightarrow> redis) list \<Rightarrow> unit auth_handler" where
  "redis_exec env h v cmds = (\<lambda>s.
     if rd_version (au_redis s) h \<noteq> v then (Inl (Sentinel redis_TxFailedErr), s)
     else (case ae_redis env ''EXEC'' [h] of
             None \<Rightarrow> (Inr (), s\<lparr>au_redis := fold (\<lambda>c. c) cmds (au_redis s)\<rparr>)
           | Some (n, d) \<Rightarrow>
               (Inl (driver_error d), if n = 0 then s else s\<lparr>au_redis := fold (\<lambda>c. c) cmds (au_redis s)\<rparr>)))"

end
