(* ===== verification/Names.thy ===== *)
theory Names
  imports Strings "HOL-Library.Word"
begin

text \<open>
  Names people and workspaces get: the avatar colour of a display name (\<open>domain/entity/avatar_color.go\<close>) and
  the slug of a workspace name (\<open>service/auth/service.go\<close>).
\<close>

unbundle bit_operations_syntax

subsection \<open>Avatar colours\<close>

definition AvatarColorPalette :: "string list" where
  "AvatarColorPalette =
     [''#C92642'', ''#298113'', ''#2D75BE'', ''#A926C9'', ''#CA4E2F'', ''#18813F'', ''#1D2DBF'', ''#CA2FB1'', ''#976817'',
      ''#1F847C'', ''#5729D6'', ''#B11B52'', ''#5E8118'', ''#15638A'', ''#9235D0'', ''#B11B1B'', ''#1F8427'', ''#295DD6'',
      ''#AC1BB1'', ''#B05D21'', ''#13815C'', ''#4D41D2'', ''#C9268E'', ''#84771F'', ''#1C8292'', ''#571BB1'']"

text \<open>\<open>hash/fnv.New32a\<close>: FNV-1a on 32 bits; the product wraps.\<close>

definition fnv32a :: "nat list \<Rightarrow> 32 word" where
  "fnv32a bs = fold (\<lambda>b h. (h XOR of_nat b) * 16777619) bs 2166136261"

text \<open>
  \<open>unicode.ToUpper\<close> of the first rune, as far as the result is a letter from A to Z: besides the ASCII letters only
  U+0131 and U+017F have such an upper case, I and S.
\<close>

definition upper_initial :: "nat list \<Rightarrow> nat option" where
  "upper_initial bs =
     (case bs of
        [] \<Rightarrow> None
      | b # rest \<Rightarrow>
          if in_range 65 90 b then Some b
          else if in_range 97 122 b then Some (b - 32)
          else if take 2 bs = [196, 177] then Some 73
          else if take 2 bs = [197, 191] then Some 83
          else None)"

definition AvatarColorForDisplayName :: "string \<Rightarrow> string" where
  "AvatarColorForDisplayName displayName =
     (let trimmedName = TrimSpace displayName
      in if trimmedName = '''' then AvatarColorPalette ! 0
         else (case upper_initial (bytes trimmedName) of
                 Some upperRune \<Rightarrow> AvatarColorPalette ! (upperRune - 65)
               | None \<Rightarrow> AvatarColorPalette ! unat (fnv32a (bytes trimmedName) mod of_nat (length AvatarColorPalette))))"

lemma length_palette [simp]: "length AvatarColorPalette = 26"
  by (simp add: AvatarColorPalette_def)

lemma upper_initial_range: "upper_initial bs = Some u \<Longrightarrow> 65 \<le> u \<and> u \<le> 90"
  by (auto simp: upper_initial_def in_range_def split: list.splits if_splits)

lemma AvatarColor_in_palette: "AvatarColorForDisplayName n \<in> set AvatarColorPalette"
proof -
  have "unat (h mod (26 :: 32 word)) < 26" for h
    by (simp add: unat_mod)
  then show ?thesis
    by (auto simp: AvatarColorForDisplayName_def Let_def intro!: nth_mem dest: upper_initial_range split: option.splits)
qed

subsection \<open>Slugs\<close>

text \<open>
  The runes of \<open>strings.ToLower(s)\<close>, with 128 for every rune that is not ASCII: besides ASCII only U+0130 and
  U+212A have an ASCII lower case, i and k, and a byte that starts no valid rune becomes U+FFFD.
\<close>

fun lower_runes :: "nat list \<Rightarrow> nat list" where
  "lower_runes [] = []"
| "lower_runes (b # bs) =
     (case rune_tail b bs of
        None \<Rightarrow> 128 # lower_runes bs
      | Some k \<Rightarrow>
          (if b < 128 then (if in_range 65 90 b then b + 32 else b)
           else if take (Suc k) (b # bs) = [196, 176] then 105
           else if take (Suc k) (b # bs) = [226, 132, 170] then 107
           else 128) # lower_runes (drop k bs))"

definition slug_rune :: "nat \<Rightarrow> bool" where
  "slug_rune r \<longleftrightarrow> in_range 97 122 r \<or> in_range 48 57 r"

text \<open>The loop of \<open>slugify\<close>: what is built so far, newest byte first, and whether it ends in a hyphen.\<close>

fun slug_loop :: "nat list \<Rightarrow> nat list \<Rightarrow> bool \<Rightarrow> nat list" where
  "slug_loop [] b lastHyphen = b"
| "slug_loop (r # rs) b lastHyphen =
     (if slug_rune r then slug_loop rs (r # b) False
      else if b = [] \<or> lastHyphen then slug_loop rs b lastHyphen
      else slug_loop rs (45 # b) True)"

text \<open>\<open>strings.Trim(s, "-")\<close>.\<close>

definition trim_hyphens :: "string \<Rightarrow> string" where
  "trim_hyphens s = rev (dropWhile (\<lambda>c. c = CHR ''-'') (rev (dropWhile (\<lambda>c. c = CHR ''-'') s)))"

definition slugify :: "string \<Rightarrow> string" where
  "slugify value = trim_hyphens (map char_of (rev (slug_loop (lower_runes (bytes (TrimSpace value))) [] False)))"

text \<open>\<open>slugify\<close> or a default, cut to 80 bytes: the base of \<open>uniqueWorkspaceSlug\<close>.\<close>

definition slug_base :: "string \<Rightarrow> string" where
  "slug_base raw =
     (let base0 = slugify raw;
          base1 = (if base0 = '''' then ''workspace'' else base0);
          base2 = (if length base1 > 80 then trim_hyphens (take 80 base1) else base1)
      in if base2 = '''' then ''workspace'' else base2)"

text \<open>\<open>fmt.Sprintf("%d", n)\<close> for a natural number.\<close>

fun decimal :: "nat \<Rightarrow> string" where
  "decimal n = (if n < 10 then [char_of (48 + n)] else decimal (n div 10) @ [char_of (48 + n mod 10)])"

declare decimal.simps [simp del]

text \<open>The candidate of the round after \<open>i\<close>.\<close>

definition slug_candidate :: "string \<Rightarrow> nat \<Rightarrow> string" where
  "slug_candidate base i =
     (let candidate = base @ ''-'' @ decimal (i + 1)
      in if length candidate > 80 then trim_hyphens (take 80 candidate) else candidate)"

subsection \<open>What a slug looks like\<close>

definition slug_ok :: "string \<Rightarrow> bool" where
  "slug_ok s \<longleftrightarrow> list_all (\<lambda>c. slug_rune (of_char c) \<or> c = CHR ''-'') s \<and>
     (s = [] \<or> hd s \<noteq> CHR ''-'' \<and> last s \<noteq> CHR ''-'') \<and>
     successively (\<lambda>a b. \<not> (a = CHR ''-'' \<and> b = CHR ''-'')) s"

text \<open>The same of what the loop has built, in reverse and before trimming.\<close>

definition built_ok :: "nat list \<Rightarrow> bool" where
  "built_ok b \<longleftrightarrow> (\<forall>r \<in> set b. slug_rune r \<or> r = 45) \<and> successively (\<lambda>x y. \<not> (x = 45 \<and> y = 45)) b \<and>
     (b \<noteq> [] \<longrightarrow> last b \<noteq> 45)"

lemma slug_rune_bounds: "slug_rune r \<Longrightarrow> r < 128 \<and> r \<noteq> 45"
  by (auto simp: slug_rune_def in_range_def)

lemma slug_loop_built:
  "built_ok b \<Longrightarrow> lastHyphen = (b \<noteq> [] \<and> hd b = 45) \<Longrightarrow> built_ok (slug_loop rs b lastHyphen)"
proof (induction rs b lastHyphen rule: slug_loop.induct)
  case (2 r rs b lastHyphen)
  have a: "built_ok (r # b)" if "slug_rune r"
    using 2(4) slug_rune_bounds [OF that] that by (cases b) (auto simp: built_ok_def)
  have h: "built_ok (45 # b)" if "b \<noteq> []" "\<not> lastHyphen"
    using 2(4,5) that by (cases b) (auto simp: built_ok_def)
  show ?case
    using 2 a h slug_rune_bounds [of r] by auto
qed simp

lemma successively_dropWhile: "successively P xs \<Longrightarrow> successively P (dropWhile Q xs)"
proof (induction xs)
  case (Cons x xs)
  then show ?case by (cases xs) auto
qed simp

lemma trim_hyphens_ok:
  assumes "list_all (\<lambda>c. slug_rune (of_char c) \<or> c = CHR ''-'') s"
    and "successively (\<lambda>a b. \<not> (a = CHR ''-'' \<and> b = CHR ''-'')) s"
  shows "slug_ok (trim_hyphens s)"
proof -
  let ?h = "\<lambda>c. c = CHR ''-''"
  define t where "t = dropWhile ?h s"
  define u where "u = dropWhile ?h (rev t)"
  have t: "list_all (\<lambda>c. slug_rune (of_char c) \<or> c = CHR ''-'') t" "successively (\<lambda>a b. \<not> (a = CHR ''-'' \<and> b = CHR ''-'')) t"
    "t = [] \<or> \<not> ?h (hd t)"
    using assms hd_dropWhile [of ?h s] by (auto simp: t_def list_all_iff successively_dropWhile dest!: set_dropWhileD)
  have "\<exists>p. rev t = p @ u" unfolding u_def by (metis takeWhile_dropWhile_id)
  then obtain p where p: "rev t = p @ u" by blast
  have sym: "successively (\<lambda>a b. \<not> (a = CHR ''-'' \<and> b = CHR ''-'')) (rev xs)
      \<longleftrightarrow> successively (\<lambda>a b. \<not> (a = CHR ''-'' \<and> b = CHR ''-'')) xs" for xs
    unfolding successively_rev by (rule arg_cong [where f = "\<lambda>P. successively P xs"]) auto
  have "last u = hd t" if "u \<noteq> []" using p that by (metis last_append last_rev)
  moreover have "successively (\<lambda>a b. \<not> (a = CHR ''-'' \<and> b = CHR ''-'')) u"
    using t(2) sym [of t] by (simp add: u_def successively_dropWhile)
  moreover have "u = [] \<or> \<not> ?h (hd u)" using hd_dropWhile [of ?h "rev t"] by (auto simp: u_def)
  moreover have "t = [] \<Longrightarrow> u = []" by (simp add: u_def)
  moreover have "list_all (\<lambda>c. slug_rune (of_char c) \<or> c = CHR ''-'') u"
    using t(1) p by (auto simp: list_all_iff) (metis Un_iff set_append set_rev)
  ultimately have "slug_ok (rev u)"
    using t(3) sym [of u] by (auto simp: slug_ok_def list_all_iff hd_rev last_rev)
  then show ?thesis by (simp add: trim_hyphens_def t_def u_def)
qed

lemma slugify_ok: "slug_ok (slugify value)"
proof -
  let ?b = "slug_loop (lower_runes (bytes (TrimSpace value))) [] False"
  have b: "built_ok ?b" by (rule slug_loop_built) (simp_all add: built_ok_def)
  have c: "of_char (char_of r :: char) = (r :: nat)" if "r \<in> set ?b" for r
    using b that slug_rune_bounds [of r] by (auto simp: built_ok_def)
  have "CHR ''-'' = char_of (45 :: nat)" "of_char CHR ''-'' = (45 :: nat)" by code_simp+
  then have e: "char_of r = CHR ''-'' \<longleftrightarrow> r = (45 :: nat)" if "r \<in> set ?b" for r
    using c [OF that] by auto
  show ?thesis unfolding slugify_def
  proof (rule trim_hyphens_ok)
    show "list_all (\<lambda>c. slug_rune (of_char c) \<or> c = CHR ''-'') (map char_of (rev ?b))"
      using b c e by (auto simp: list_all_iff built_ok_def)
    have "successively (\<lambda>x y. \<not> (x = 45 \<and> y = 45)) (rev ?b)"
      using b unfolding built_ok_def successively_rev
      by (auto elim: successively_mono)
    then show "successively (\<lambda>a b. \<not> (a = CHR ''-'' \<and> b = CHR ''-'')) (map char_of (rev ?b))"
      unfolding successively_map by (rule successively_mono) (use e in auto)
  qed
qed

lemma of_char_hyphen: "of_char CHR ''-'' = (45 :: nat)"
  by code_simp

text \<open>A slug is its own slug: nothing is trimmed, and the loop copies it.\<close>

lemma strip_front_slug:
  assumes "list_all (\<lambda>w. w = [] \<or> \<not> slug_rune (of_char (hd w))) ws" and "s = [] \<or> slug_rune (of_char (hd s))"
  shows "strip_front ws s = s"
proof (rule strip_front_none)
  show "find (\<lambda>w. w \<noteq> [] \<and> prefix w s) ws = None"
    using assms by (fastforce simp: find_None_iff' list_all_iff prefix_def)
qed

lemma TrimSpace_slug:
  assumes "s = [] \<or> slug_rune (of_char (hd s)) \<and> slug_rune (of_char (last s))"
  shows "TrimSpace s = s"
proof -
  have f: "list_all (\<lambda>w. w = [] \<or> \<not> slug_rune (of_char (hd w))) space_encodings"
    "list_all (\<lambda>w. w = [] \<or> \<not> slug_rune (of_char (hd w))) (map rev space_encodings)"
    by code_simp+
  show ?thesis
    unfolding TrimSpace_def using assms strip_front_slug [OF f(1), of s] strip_front_slug [OF f(2), of "rev s"]
    by (auto simp: hd_rev)
qed

lemma slug_ascii: "slug_rune r \<or> r = 45 \<Longrightarrow> r < 128 \<and> \<not> in_range 65 90 r"
  by (auto simp: slug_rune_def in_range_def)

lemma lower_runes_slug: "\<forall>r \<in> set bs. slug_rune r \<or> r = 45 \<Longrightarrow> lower_runes bs = bs"
proof (induction bs)
  case (Cons b bs)
  then show ?case using slug_ascii [of b] by (simp add: rune_tail_def)
qed simp

lemma slug_loop_copies:
  assumes "\<forall>r \<in> set rs. slug_rune r \<or> r = 45"
    and "successively (\<lambda>x y. \<not> (x = 45 \<and> y = 45)) rs"
    and "rs \<noteq> [] \<and> hd rs = 45 \<longrightarrow> b \<noteq> [] \<and> \<not> lastHyphen"
  shows "slug_loop rs b lastHyphen = rev rs @ b"
  using assms
proof (induction rs b lastHyphen rule: slug_loop.induct)
  case (2 r rs b lastHyphen)
  then show ?case using slug_rune_bounds [of r] by (cases rs) auto
qed simp

lemma trim_hyphens_id:
  assumes "s = [] \<or> hd s \<noteq> CHR ''-'' \<and> last s \<noteq> CHR ''-''"
  shows "trim_hyphens s = s"
proof (cases "s = []")
  case False
  then have "dropWhile (\<lambda>c. c = CHR ''-'') s = s" "dropWhile (\<lambda>c. c = CHR ''-'') (rev s) = rev s"
    using assms hd_rev [of s] by (simp_all add: dropWhile_eq_self_iff)
  then show ?thesis by (simp add: trim_hyphens_def)
qed (simp add: trim_hyphens_def)

lemma slugify_id: "slug_ok s \<Longrightarrow> slugify s = s"
proof -
  assume s: "slug_ok s"
  have h: "of_char c = (45 :: nat) \<longleftrightarrow> c = CHR ''-''" for c :: char
    by (metis char_of_char [of c] char_of_char [of "CHR ''-''"] of_char_hyphen)
  have r: "\<forall>r \<in> set (bytes s). slug_rune r \<or> r = 45"
    using s h by (auto simp: bytes_def slug_ok_def list_all_iff)
  have e: "s = [] \<or> slug_rune (of_char (hd s)) \<and> slug_rune (of_char (last s))"
    using s by (auto simp: slug_ok_def list_all_iff)
  have "slug_loop (bytes s) [] False = rev (bytes s)"
  proof -
    have "successively (\<lambda>x y. \<not> (x = 45 \<and> y = 45)) (bytes s)"
      using s unfolding bytes_def successively_map slug_ok_def by (auto simp: h elim: successively_mono)
    moreover have "\<not> (bytes s \<noteq> [] \<and> hd (bytes s) = 45)"
      using e slug_rune_bounds by (auto simp: bytes_def hd_map)
    ultimately show ?thesis using slug_loop_copies [OF r, of "[]" False] by simp
  qed
  then have "slugify s = trim_hyphens (map char_of (bytes s))"
    by (simp add: slugify_def TrimSpace_slug [OF e] lower_runes_slug [OF r])
  also have "map char_of (bytes s) = s" by (simp add: bytes_def comp_def)
  finally show ?thesis using s by (simp add: trim_hyphens_id slug_ok_def)
qed

subsection \<open>Slugs of bounded length\<close>

lemma length_trim_hyphens: "length (trim_hyphens s) \<le> length s"
proof -
  have "length (dropWhile P (rev (dropWhile P s))) \<le> length s" for P :: "char \<Rightarrow> bool"
    using length_dropWhile_le [of P "rev (dropWhile P s)"] length_dropWhile_le [of P s] by simp
  then show ?thesis by (simp add: trim_hyphens_def)
qed

lemma trim_hyphens_nonempty:
  assumes "s \<noteq> []" and "hd s \<noteq> CHR ''-''"
  shows "trim_hyphens s \<noteq> []"
proof -
  have "dropWhile (\<lambda>c. c = CHR ''-'') s = s" using assms by (simp add: dropWhile_eq_self_iff)
  moreover have "dropWhile (\<lambda>c. c = CHR ''-'') (rev s) \<noteq> []"
  proof
    assume "dropWhile (\<lambda>c. c = CHR ''-'') (rev s) = []"
    moreover have "hd s \<in> set (rev s)" using assms(1) by simp
    ultimately have "hd s = CHR ''-''" by (simp only: dropWhile_eq_Nil_conv)
    with assms(2) show False ..
  qed
  ultimately show ?thesis by (simp add: trim_hyphens_def)
qed

lemma slug_ok_take:
  assumes "list_all (\<lambda>c. slug_rune (of_char c) \<or> c = CHR ''-'') s" and "successively (\<lambda>a b. \<not> (a = CHR ''-'' \<and> b = CHR ''-'')) s"
  shows "slug_ok (trim_hyphens (take n s))"
proof (rule trim_hyphens_ok)
  show "list_all (\<lambda>c. slug_rune (of_char c) \<or> c = CHR ''-'') (take n s)"
    using assms(1) by (auto simp: list_all_iff dest: in_set_takeD)
  show "successively (\<lambda>a b. \<not> (a = CHR ''-'' \<and> b = CHR ''-'')) (take n s)"
    using assms(2) by (metis append_take_drop_id successively_append_iff)
qed

lemma slug_base_ok: "slug_ok (slug_base raw)" "slug_base raw \<noteq> []" "length (slug_base raw) \<le> 80"
proof -
  define base where "base = (if slugify raw = '''' then ''workspace'' else slugify raw)"
  have ws: "slug_ok ''workspace''" by code_simp
  then have base: "slug_ok base" "base \<noteq> []" using slugify_ok [of raw] by (auto simp: base_def)
  then have hd: "hd base \<noteq> CHR ''-''" by (auto simp: slug_ok_def)
  have cut: "slug_ok (trim_hyphens (take 80 base))" "trim_hyphens (take 80 base) \<noteq> []" "length (trim_hyphens (take 80 base)) \<le> 80"
    using slug_ok_take [of base 80] base trim_hyphens_nonempty [of "take 80 base"] hd length_trim_hyphens [of "take 80 base"]
    by (auto simp: slug_ok_def)
  have eq: "slug_base raw = (if length base > 80 then trim_hyphens (take 80 base) else base)"
    using cut(2) base(2) by (simp add: slug_base_def Let_def base_def)
  show "slug_ok (slug_base raw)" "slug_base raw \<noteq> []" "length (slug_base raw) \<le> 80"
    unfolding eq using base cut by auto
qed

lemma decimal_digits: "decimal n \<noteq> [] \<and> list_all (\<lambda>c. slug_rune (of_char c) \<and> c \<noteq> CHR ''-'') (decimal n)"
proof (induction n rule: decimal.induct)
  case (1 n)
  have digit: "slug_rune (of_char (char_of (48 + k) :: char)) \<and> (char_of (48 + k) :: char) \<noteq> CHR ''-''" if "k < 10" for k :: nat
  proof -
    have code: "of_char (char_of (48 + k) :: char) = 48 + k" using that by simp
    then have "slug_rune (of_char (char_of (48 + k) :: char))" using that by (simp add: slug_rune_def in_range_def)
    moreover have "(char_of (48 + k) :: char) \<noteq> CHR ''-''" using code of_char_hyphen by (metis add_leD1 eval_nat_numeral(1) numeral_le_iff semiring_norm(69) le_add1 slug_rune_bounds calculation)
    ultimately show ?thesis by simp
  qed
  show ?case
  proof (cases "n < 10")
    case True
    then show ?thesis using digit [of n] decimal.simps [of n] by simp
  next
    case False
    with 1 digit [of "n mod 10"] decimal.simps [of n] show ?thesis by simp
  qed
qed

lemma slug_candidate_ok:
  assumes "slug_ok base" and "base \<noteq> []"
  shows "slug_ok (slug_candidate base i)" "slug_candidate base i \<noteq> []" "length (slug_candidate base i) \<le> 80"
proof -
  let ?d = "decimal (i + 1)" and ?c = "base @ ''-'' @ decimal (i + 1)"
  have d: "?d \<noteq> []" "list_all (\<lambda>c. slug_rune (of_char c) \<and> c \<noteq> CHR ''-'') ?d" using decimal_digits by auto
  have ends: "hd base \<noteq> CHR ''-''" "last base \<noteq> CHR ''-''" using assms by (auto simp: slug_ok_def)
  have chars: "list_all (\<lambda>c. slug_rune (of_char c) \<or> c = CHR ''-'') ?c"
    using assms(1) d(2) by (auto simp: slug_ok_def list_all_iff)
  have digits: "successively (\<lambda>a b. \<not> (a = CHR ''-'' \<and> b = CHR ''-'')) xs" if "list_all (\<lambda>c. c \<noteq> CHR ''-'') xs" for xs
    using that by (induction xs rule: induct_list012) auto
  have "successively (\<lambda>a b. \<not> (a = CHR ''-'' \<and> b = CHR ''-'')) ?d"
    by (rule digits) (use d(2) in \<open>auto simp: list_all_iff\<close>)
  moreover have "hd ?d \<noteq> CHR ''-''" "last ?d \<noteq> CHR ''-''" using d by (auto simp: list_all_iff)
  ultimately have succ: "successively (\<lambda>a b. \<not> (a = CHR ''-'' \<and> b = CHR ''-'')) ?c"
    using assms(1) ends by (auto simp: slug_ok_def successively_append_iff successively_Cons)
  have whole: "slug_ok ?c"
    using chars succ ends assms(2) \<open>last ?d \<noteq> CHR ''-''\<close> d(1) by (simp add: slug_ok_def)
  have "slug_ok (trim_hyphens (take 80 ?c))" by (rule slug_ok_take [OF chars succ])
  moreover have "trim_hyphens (take 80 ?c) \<noteq> []"
    by (rule trim_hyphens_nonempty) (use assms(2) ends(1) in \<open>auto simp: hd_append\<close>)
  moreover have "length (trim_hyphens (take 80 ?c)) \<le> 80" using length_trim_hyphens [of "take 80 ?c"] by simp
  ultimately show "slug_ok (slug_candidate base i)" "slug_candidate base i \<noteq> []" "length (slug_candidate base i) \<le> 80"
    using whole by (auto simp: slug_candidate_def Let_def)
qed

end
