(* ===== verification/AuthRepo.thy ===== *)
theory AuthRepo
  imports AuthStore Names
begin

text \<open>
  The SQL of the authentication service: \<open>repository/postgres/user.go\<close> and \<open>workspace.go\<close>, one definition per
  method, with the unique constraints and foreign keys of \<open>migrations/\<close>.
\<close>

definition auth_query :: "auth_env \<Rightarrow> string \<Rightarrow> uuid list \<Rightarrow> string \<Rightarrow> (auth_state \<Rightarrow> go_error + 'a) \<Rightarrow> auth_state \<Rightarrow> go_error + 'a" where
  "auth_query env op args wrap f s = db_op (ae_fault env) op args wrap (f s)"

definition auth_exec :: "auth_env \<Rightarrow> string \<Rightarrow> uuid list \<Rightarrow> string \<Rightarrow> (auth_state \<Rightarrow> go_error + auth_state) \<Rightarrow> unit auth_handler" where
  "auth_exec env op args wrap f = (\<lambda>s.
     (case ae_fault env op args of
        Some d \<Rightarrow> (Inl (Wrapf wrap (driver_error d)), s)
      | None \<Rightarrow> (case f s of Inl e \<Rightarrow> (Inl e, s) | Inr s' \<Rightarrow> (Inr (), s'))))"

definition row_or :: "string \<Rightarrow> 'r option \<Rightarrow> go_error + 'r" where
  "row_or msg r = (case r of None \<Rightarrow> Inl (NotFound msg) | Some x \<Rightarrow> Inr x)"

subsection \<open>Users\<close>

text \<open>The defaults \<open>Create\<close> and \<open>Update\<close> fill into the caller's struct.\<close>

definition user_defaults :: "User \<Rightarrow> User" where
  "user_defaults u =
     u\<lparr>U_SavedMessagesMode := (if U_SavedMessagesMode u = SavedMessagesModeOther '''' then SavedMessagesModePerWorkspace
                              else U_SavedMessagesMode u),
       U_AvatarColor := (if U_AvatarColor u = '''' then AvatarColorForDisplayName (U_DisplayName u) else U_AvatarColor u)\<rparr>"

definition Users_Create :: "auth_env \<Rightarrow> User \<Rightarrow> User auth_handler" where
  "Users_Create env user =
     bindM (auth_exec env ''UserRepo.Create'' [U_ID user] ''postgres: create user''
       (\<lambda>s. if \<exists>u \<in> set (au_users s). U_ID u = U_ID user \<or> U_Email u = U_Email user
            then Inl (AlreadyExists ''user already exists'')
            else Inr (s\<lparr>au_users := au_users s @ [user_defaults user]\<rparr>))) (\<lambda>_.
     returnM (user_defaults user))"

definition Users_GetByID :: "auth_env \<Rightarrow> uuid \<Rightarrow> auth_state \<Rightarrow> go_error + User" where
  "Users_GetByID env uid =
     auth_query env ''UserRepo.GetByID'' [uid] ''postgres: get user by id''
       (\<lambda>s. row_or ''user not found'' (find (\<lambda>u. U_ID u = uid) (au_users s)))"

definition GetByEmail :: "auth_env \<Rightarrow> string \<Rightarrow> auth_state \<Rightarrow> go_error + User" where
  "GetByEmail env email =
     auth_query env ''UserRepo.GetByEmail'' [] ''postgres: get user by email''
       (\<lambda>s. row_or ''user not found'' (find (\<lambda>u. ae_lower env (U_Email u) = ae_lower env email) (au_users s)))"

text \<open>The columns \<open>UPDATE users\<close> sets: not the email, not the password hash, and not the locale.\<close>

definition update_user_row :: "User \<Rightarrow> User \<Rightarrow> User" where
  "update_user_row user u =
     u\<lparr>U_DisplayName := U_DisplayName user, U_AvatarURL := U_AvatarURL user, U_AvatarColor := U_AvatarColor user,
       U_Position := U_Position user, U_Department := U_Department user, U_Phone := U_Phone user,
       U_Timezone := U_Timezone user, U_Status := U_Status user, U_DeactivatedAt := U_DeactivatedAt user,
       U_SavedMessagesMode := U_SavedMessagesMode user, U_UpdatedAt := U_UpdatedAt user\<rparr>"

definition Users_Update :: "auth_env \<Rightarrow> User \<Rightarrow> User auth_handler" where
  "Users_Update env user0 =
     (let user = (user_defaults user0)\<lparr>U_UpdatedAt := ae_now env\<rparr>
      in bindM (auth_exec env ''UserRepo.Update'' [U_ID user] ''postgres: update user''
           (\<lambda>s. if \<exists>u \<in> set (au_users s). U_ID u = U_ID user
                then Inr (s\<lparr>au_users := upd_where (\<lambda>u. U_ID u = U_ID user) (update_user_row user) (au_users s)\<rparr>)
                else Inl (NotFound ''user not found''))) (\<lambda>_.
         returnM user))"

subsection \<open>Workspaces and their members\<close>

text \<open>\<open>kind\<close> is no column.\<close>

definition workspace_row :: "Workspace \<Rightarrow> Workspace" where
  "workspace_row ws = ws\<lparr>W_Kind := WorkspaceKindOther ''''\<rparr>"

definition insert_workspace :: "Workspace \<Rightarrow> auth_state \<Rightarrow> go_error + auth_state" where
  "insert_workspace ws s =
     (if \<exists>w \<in> set (au_workspaces s). W_ID w = W_ID ws \<or> W_Slug w = W_Slug ws
      then Inl (AlreadyExists ''workspace already exists'')
      else Inr (s\<lparr>au_workspaces := au_workspaces s @ [workspace_row ws]\<rparr>))"

definition insert_workspace_member :: "string \<Rightarrow> go_error \<Rightarrow> WorkspaceMember \<Rightarrow> auth_state \<Rightarrow> go_error + auth_state" where
  "insert_workspace_member wrap clash m s =
     (if \<not> (\<exists>w \<in> set (au_workspaces s). W_ID w = WM_WorkspaceID m) \<or> \<not> (\<exists>u \<in> set (au_users s). U_ID u = WM_UserID m)
      then Inl (Wrapf wrap (Opaque ''23503''))
      else if \<exists>r \<in> set (au_members s). WM_WorkspaceID r = WM_WorkspaceID m \<and> WM_UserID r = WM_UserID m then Inl clash
      else Inr (s\<lparr>au_members := au_members s @ [m]\<rparr>))"

definition Workspaces_Create :: "auth_env \<Rightarrow> Workspace \<Rightarrow> unit auth_handler" where
  "Workspaces_Create env ws =
     auth_exec env ''WorkspaceRepo.Create'' [W_ID ws] ''postgres: create workspace'' (insert_workspace ws)"

text \<open>Two inserts in one transaction.\<close>

definition CreateWithOwner :: "auth_env \<Rightarrow> Workspace \<Rightarrow> WorkspaceMember \<Rightarrow> unit auth_handler" where
  "CreateWithOwner env ws owner =
     auth_exec env ''WorkspaceRepo.CreateWithOwner'' [W_ID ws, WM_UserID owner] ''postgres: create workspace in tx''
       (\<lambda>s. case insert_workspace ws s of
              Inl e \<Rightarrow> Inl e
            | Inr s1 \<Rightarrow>
                insert_workspace_member ''postgres: create workspace owner in tx''
                  (Wrapf ''postgres: create workspace owner in tx'' (Opaque ''23505'')) owner s1)"

definition Workspaces_AddMember :: "auth_env \<Rightarrow> WorkspaceMember \<Rightarrow> unit auth_handler" where
  "Workspaces_AddMember env m =
     auth_exec env ''WorkspaceRepo.AddMember'' [WM_WorkspaceID m, WM_UserID m] ''postgres: add workspace member''
       (insert_workspace_member ''postgres: add workspace member'' (AlreadyExists ''member already exists in workspace'') m)"

definition Workspaces_GetByID :: "auth_env \<Rightarrow> uuid \<Rightarrow> auth_state \<Rightarrow> go_error + Workspace" where
  "Workspaces_GetByID env wid =
     auth_query env ''WorkspaceRepo.GetByID'' [wid] ''postgres: get workspace by id''
       (\<lambda>s. row_or ''workspace not found'' (find (\<lambda>w. W_ID w = wid) (au_workspaces s)))"

definition GetBySlug :: "auth_env \<Rightarrow> string \<Rightarrow> auth_state \<Rightarrow> go_error + Workspace" where
  "GetBySlug env slug =
     auth_query env ''WorkspaceRepo.GetBySlug'' [] ''postgres: get workspace by slug''
       (\<lambda>s. row_or ''workspace not found'' (find (\<lambda>w. W_Slug w = slug) (au_workspaces s)))"

definition Workspaces_ListByUser :: "auth_env \<Rightarrow> uuid \<Rightarrow> auth_state \<Rightarrow> go_error + Workspace list" where
  "Workspaces_ListByUser env userID =
     auth_query env ''WorkspaceRepo.ListByUser'' [userID] ''postgres: list workspaces by user''
       (\<lambda>s. Inr (sort_key W_Name (filter (\<lambda>w. \<exists>m \<in> set (au_members s). WM_WorkspaceID m = W_ID w \<and> WM_UserID m = userID)
          (au_workspaces s))))"

text \<open>The join with \<open>users\<close> finds no member without an account.\<close>

definition Workspaces_GetMember :: "auth_env \<Rightarrow> uuid \<Rightarrow> uuid \<Rightarrow> auth_state \<Rightarrow> go_error + WorkspaceMember" where
  "Workspaces_GetMember env workspaceID userID =
     auth_query env ''WorkspaceRepo.GetMember'' [workspaceID, userID] ''postgres: get workspace member''
       (\<lambda>s. row_or ''workspace member not found''
          (find (\<lambda>m. WM_WorkspaceID m = workspaceID \<and> WM_UserID m = userID \<and> (\<exists>u \<in> set (au_users s). U_ID u = WM_UserID m))
             (au_members s)))"

end
