(* ===== verification/Sessions.thy ===== *)
theory Sessions
  imports AuthStore
begin

text \<open>
  \<open>service/auth/session.go\<close>: the \<open>SessionManager\<close>, method by method. \<open>RotateRefreshToken\<close> is the composition of
  what happens before \<open>EXEC\<close> and \<open>EXEC\<close> itself, and \<open>flushTouches\<close> of its two rounds, so that
  \<open>SessionRaces\<close> can interleave them with other requests.
\<close>

subsection \<open>Configuration\<close>

definition DefaultRotationGrace :: int where
  "DefaultRotationGrace = 10 * time_Second"

definition maxRotationGrace :: int where
  "maxRotationGrace = 2 * time_Minute"

definition maxGraceChainHops :: nat where
  "maxGraceChainHops = 8"

definition SetRotationGrace :: "int \<Rightarrow> int" where
  "SetRotationGrace grace = (if grace > maxRotationGrace then maxRotationGrace else grace)"

text \<open>What \<open>NewSessionManager\<close> and \<open>SetRotationGrace\<close> leave in the manager.\<close>

definition NewSessionManager_maxSessions :: "int \<Rightarrow> int" where
  "NewSessionManager_maxSessions maxSessions = (if maxSessions \<le> 0 then 5 else maxSessions)"

abbreviation (input) max_sessions :: "auth_env \<Rightarrow> int" where
  "max_sessions env \<equiv> NewSessionManager_maxSessions (ae_maxSessions env)"

definition rotationGrace :: "auth_env \<Rightarrow> int" where
  "rotationGrace env = (case ae_rotationGrace env of None \<Rightarrow> DefaultRotationGrace | Some g \<Rightarrow> SetRotationGrace g)"

definition ErrRefreshTokenNotFound :: go_error where
  "ErrRefreshTokenNotFound = Sentinel (ErrNamed ''refresh token not found or expired'')"

definition ErrNoRotationGrace :: go_error where
  "ErrNoRotationGrace = Sentinel (ErrNamed ''no rotation grace for refresh token'')"

definition ErrRotationSuperseded :: go_error where
  "ErrRotationSuperseded = Sentinel (ErrNamed ''refresh token rotation superseded'')"

text \<open>\<open>errors.Is(err, ErrX)\<close> for one of the three.\<close>

definition is_error :: "go_error \<Rightarrow> go_error \<Rightarrow> bool" where
  "is_error err target = (case target of Sentinel t \<Rightarrow> errors_Is err t | _ \<Rightarrow> False)"

definition hashToken :: "auth_env \<Rightarrow> string \<Rightarrow> string" where
  "hashToken env token = ae_sha256 env token"

definition generateRefreshToken :: "auth_env \<Rightarrow> (string \<times> string) auth_handler" where
  "generateRefreshToken env =
     bindM (mapErrM (Wrapf ''generate random bytes'') (rand_Read env)) (\<lambda>token.
     returnM (token, hashToken env token))"

subsection \<open>Revoking\<close>

text \<open>The notifier's event names the session and the user; a user id that does not parse is only logged.\<close>

definition SessionRevoked :: "auth_env \<Rightarrow> string \<Rightarrow> string \<Rightarrow> unit auth_handler" where
  "SessionRevoked env sid user =
     (case ae_uuidParse env user of
        Inl _ \<Rightarrow> returnM ()
      | Inr userID \<Rightarrow>
          if sid = '''' \<or> userID = uuid_Nil then returnM ()
          else modifyM (\<lambda>s. s\<lparr>au_events := au_events s @ [(sid, userID)]\<rparr>))"

definition Revoke :: "auth_env \<Rightarrow> string \<Rightarrow> unit auth_handler" where
  "Revoke env sid =
     bindM (mapErrM (Wrapf ''lookup session for revocation'') (readM (get_session env sid))) (\<lambda>data.
     case data of
       None \<Rightarrow> returnM ()
     | Some st \<Rightarrow>
         bindM (mapErrM (Wrapf ''revoke session in redis'') (redis_write env ''Revoke'' [sid]
           [del_session sid, del_refresh (Ss_RefreshTokenHash st), rem_user_session (Ss_UserID st) sid])) (\<lambda>_.
         if ae_notifier env then SessionRevoked env sid (Ss_UserID st) else returnM ()))"

text \<open>A failure that is only logged.\<close>

definition ignore :: "unit auth_handler \<Rightarrow> unit auth_handler" where
  "ignore m = bindM (tryM m) (\<lambda>_. returnM ())"

subsection \<open>Creating\<close>

text \<open>
  One round of the loading loop: an expired id leaves the set, one that cannot be read is skipped.
\<close>

definition load_session_age :: "auth_env \<Rightarrow> string \<Rightarrow> (string \<times> gotime) list \<Rightarrow> string \<Rightarrow> (string \<times> gotime) list auth_handler" where
  "load_session_age env userID acc sid =
     bindM (tryM (readM (get_session env sid))) (\<lambda>data.
     case data of
       Inr None \<Rightarrow> bindM (ignore (redis_write env ''SREM user_sessions'' [sid] [rem_user_session userID sid])) (\<lambda>_. returnM acc)
     | Inl _ \<Rightarrow> returnM acc
     | Inr (Some st) \<Rightarrow> returnM (acc @ [(sid, Ss_CreatedAt st)]))"

definition enforceMaxSessions :: "auth_env \<Rightarrow> string \<Rightarrow> unit auth_handler" where
  "enforceMaxSessions env userID =
     bindM (mapErrM (Wrapf ''list user sessions'') (readM (get_user_sessions env userID))) (\<lambda>sessionIDs.
     if int (length sessionIDs) \<le> max_sessions env then returnM ()
     else bindM (foldM (load_session_age env userID) [] sessionIDs) (\<lambda>sessions.
       if int (length sessions) \<le> max_sessions env then returnM ()
       else forM (take (nat (int (length sessions) - max_sessions env)) (sort_key snd sessions))
              (\<lambda>(sid, _). ignore (Revoke env sid))))"

definition Sessions_Create :: "auth_env \<Rightarrow> string \<Rightarrow> string \<Rightarrow> string \<Rightarrow> (Session \<times> string) auth_handler" where
  "Sessions_Create env userID deviceInfo ipAddress =
     bindM (mapErrM (Wrapf ''generate refresh token'') (generateRefreshToken env)) (\<lambda>(token, tokenHash).
     bindM (session_New env) (\<lambda>sid.
     let now = ae_now env;
         storable = \<lparr>Ss_ID = sid, Ss_UserID = userID, Ss_RefreshTokenHash = tokenHash, Ss_DeviceInfo = deviceInfo,
                     Ss_IPAddress = ipAddress, Ss_CreatedAt = now, Ss_ExpiresAt = now + ae_refreshTTL env,
                     Ss_LastActiveAt = now\<rparr>
     in bindM (mapErrM (Wrapf ''store session in redis'') (redis_write env ''Create'' [sid]
          [set_session now sid storable (ae_refreshTTL env), set_refresh now tokenHash sid (ae_refreshTTL env),
           add_user_session userID sid])) (\<lambda>_.
        bindM (ignore (enforceMaxSessions env userID)) (\<lambda>_.
        returnM (toSession storable, token)))))"

subsection \<open>Validating and rotating\<close>

text \<open>\<open>fmt.Errorf\<close> without an operand.\<close>

definition ValidateRefreshToken :: "auth_env \<Rightarrow> string \<Rightarrow> Session auth_handler" where
  "ValidateRefreshToken env refreshToken =
     bindM (mapErrM (Wrapf ''lookup refresh token'') (readM (get_refresh env (hashToken env refreshToken)))) (\<lambda>owner.
     case owner of
       None \<Rightarrow> throwM ErrRefreshTokenNotFound
     | Some sid \<Rightarrow>
         bindM (mapErrM (Wrapf ''lookup session'') (readM (get_session env sid))) (\<lambda>data.
         case data of
           None \<Rightarrow> throwM (Opaque ''session not found or expired'')
         | Some st \<Rightarrow>
             if ae_now env > Ss_ExpiresAt st
             then bindM (ignore (Revoke env sid)) (\<lambda>_. throwM (Opaque ''session expired''))
             else let touched = st\<lparr>Ss_LastActiveAt := ae_now env\<rparr>;
                      ttl = Ss_ExpiresAt st - ae_now env
                  in bindM (if ttl > 0
                            then mapErrM (Wrapf ''touch session'')
                                   (redis_write env ''SET session'' [sid] [set_session (ae_now env) sid touched ttl])
                            else returnM ()) (\<lambda>_.
                     returnM (toSession touched))))"

text \<open>What \<open>RotateRefreshToken\<close> has decided when it reaches \<open>EXEC\<close>: the watched key and its version, and the writes.\<close>

record rotation =
  ro_SessionID :: string
  ro_OldHash :: string
  ro_Version :: nat
  ro_Session :: sessionStorable
  ro_TTL :: int
  ro_Token :: string

definition rotate_prepare :: "auth_env \<Rightarrow> string \<Rightarrow> string \<Rightarrow> rotation auth_handler" where
  "rotate_prepare env sid expectedOldHash =
     bindM (getM (\<lambda>s. rd_version (au_redis s) expectedOldHash)) (\<lambda>version.
     bindM (mapErrM (Wrapf ''lookup refresh token'') (readM (get_refresh env expectedOldHash))) (\<lambda>owner.
     bindM (failIf (owner \<noteq> Some sid) ErrRotationSuperseded) (\<lambda>_.
     bindM (mapErrM (Wrapf ''lookup session'') (readM (get_session env sid))) (\<lambda>data.
     case data of
       None \<Rightarrow> throwM ErrRotationSuperseded
     | Some st \<Rightarrow>
         let ttl = Ss_ExpiresAt st - ae_now env
         in bindM (failIf (ttl \<le> 0) (Opaque ''session expired'')) (\<lambda>_.
            bindM (mapErrM (Wrapf ''generate new refresh token'') (generateRefreshToken env)) (\<lambda>(token, newHash).
            returnM \<lparr>ro_SessionID = sid, ro_OldHash = expectedOldHash, ro_Version = version,
                     ro_Session = st\<lparr>Ss_RefreshTokenHash := newHash, Ss_LastActiveAt := ae_now env\<rparr>,
                     ro_TTL = ttl, ro_Token = token\<rparr>))))))"

definition rotation_cmds :: "auth_env \<Rightarrow> rotation \<Rightarrow> (redis \<Rightarrow> redis) list" where
  "rotation_cmds env ro =
     (let graceTTL = (if rotationGrace env > ro_TTL ro then ro_TTL ro else rotationGrace env)
      in (if rotationGrace env > 0
          then [set_grace (ae_now env) (ro_OldHash ro) \<lparr>Gr_SessionID = ro_SessionID ro, Gr_NewToken = ro_Token ro\<rparr> graceTTL]
          else []) @
         [set_session (ae_now env) (ro_SessionID ro) (ro_Session ro) (ro_TTL ro),
          set_refresh (ae_now env) (Ss_RefreshTokenHash (ro_Session ro)) (ro_SessionID ro) (ro_TTL ro),
          del_refresh (ro_OldHash ro)])"

definition rotate_commit :: "auth_env \<Rightarrow> rotation \<Rightarrow> string auth_handler" where
  "rotate_commit env ro =
     mapErrM (\<lambda>err. if errors_Is err redis_TxFailedErr then ErrRotationSuperseded else err)
       (bindM (redis_exec env (ro_OldHash ro) (ro_Version ro) (rotation_cmds env ro)) (\<lambda>_. returnM (ro_Token ro)))"

definition RotateRefreshToken :: "auth_env \<Rightarrow> string \<Rightarrow> string \<Rightarrow> string auth_handler" where
  "RotateRefreshToken env sid expectedOldHash = bindM (rotate_prepare env sid expectedOldHash) (rotate_commit env)"

text \<open>The loop along the grace records; the counter is \<open>maxGraceChainHops\<close> minus \<open>hop\<close>.\<close>

fun grace_chain :: "auth_env \<Rightarrow> nat \<Rightarrow> string \<Rightarrow> string \<Rightarrow> auth_state \<Rightarrow> go_error + string" where
  "grace_chain env 0 sid successor s = Inl ErrNoRotationGrace"
| "grace_chain env (Suc hops) sid successor s =
     (case get_refresh env (hashToken env successor) s of
        Inl err \<Rightarrow> Inl (Wrapf ''lookup successor token'' err)
      | Inr owner \<Rightarrow>
          if owner = Some sid then Inr successor
          else (case get_grace env (hashToken env successor) s of
                  Inl err \<Rightarrow> Inl (Wrapf ''follow rotation grace chain'' err)
                | Inr None \<Rightarrow> Inl ErrNoRotationGrace
                | Inr (Some next) \<Rightarrow>
                    if Gr_SessionID next \<noteq> sid then Inl ErrNoRotationGrace
                    else grace_chain env hops sid (Gr_NewToken next) s))"

definition ReplayRotation :: "auth_env \<Rightarrow> string \<Rightarrow> auth_state \<Rightarrow> go_error + Session \<times> string" where
  "ReplayRotation env refreshToken s =
     (case get_grace env (hashToken env refreshToken) s of
        Inl err \<Rightarrow> Inl (Wrapf ''lookup rotation grace'' err)
      | Inr None \<Rightarrow> Inl ErrNoRotationGrace
      | Inr (Some record0) \<Rightarrow>
          (case get_session env (Gr_SessionID record0) s of
             Inl err \<Rightarrow> Inl (Wrapf ''lookup session for rotation grace'' err)
           | Inr None \<Rightarrow> Inl ErrNoRotationGrace
           | Inr (Some st) \<Rightarrow>
               if ae_now env > Ss_ExpiresAt st then Inl ErrNoRotationGrace
               else (case grace_chain env maxGraceChainHops (Gr_SessionID record0) (Gr_NewToken record0) s of
                       Inl err \<Rightarrow> Inl err
                     | Inr successor \<Rightarrow> Inr (toSession st, successor))))"

subsection \<open>Looking up, listing and bulk revocation\<close>

definition SessionBelongsToUser :: "auth_env \<Rightarrow> string \<Rightarrow> string \<Rightarrow> auth_state \<Rightarrow> go_error + bool" where
  "SessionBelongsToUser env userID sid s =
     (case get_session env sid s of
        Inl err \<Rightarrow> Inl (Wrapf ''lookup session for ownership check'' err)
      | Inr None \<Rightarrow> Inr False
      | Inr (Some st) \<Rightarrow> Inr (Ss_UserID st = userID))"

definition Sessions_UserIDForSession :: "auth_env \<Rightarrow> string \<Rightarrow> auth_state \<Rightarrow> go_error + uuid" where
  "Sessions_UserIDForSession env sid s =
     (case get_session env sid s of
        Inl err \<Rightarrow> Inl (Wrapf ''lookup session for user resolution'' err)
      | Inr None \<Rightarrow> Inr uuid_Nil
      | Inr (Some st) \<Rightarrow>
          (case ae_uuidParse env (Ss_UserID st) of
             Inl err \<Rightarrow> Inl (Wrapf ''parse session user id'' err)
           | Inr userID \<Rightarrow> Inr userID))"

text \<open>A session that cannot be revoked is logged and skipped; the set goes in any case.\<close>

definition RevokeAllUserSessions :: "auth_env \<Rightarrow> string \<Rightarrow> unit auth_handler" where
  "RevokeAllUserSessions env userID =
     bindM (mapErrM (Wrapf ''list user sessions'') (readM (get_user_sessions env userID))) (\<lambda>sessionIDs.
     bindM (forM sessionIDs (\<lambda>sid. ignore (Revoke env sid))) (\<lambda>_.
     mapErrM (Wrapf ''delete user session set'') (redis_write env ''DEL user_sessions'' [userID] [del_user_sessions userID])))"

text \<open>Here the failures are collected and joined.\<close>

definition RevokeAllUserSessionsExcept :: "auth_env \<Rightarrow> string \<Rightarrow> string \<Rightarrow> unit auth_handler" where
  "RevokeAllUserSessionsExcept env userID keepSessionID =
     bindM (mapErrM (Wrapf ''list user sessions'') (readM (get_user_sessions env userID))) (\<lambda>sessionIDs.
     bindM (foldM (\<lambda>errs sid.
         if sid = keepSessionID then returnM errs
         else bindM (tryM (Revoke env sid)) (\<lambda>r.
              case r of Inl err \<Rightarrow> returnM (errs @ [Wrapf ''revoke'' err]) | Inr _ \<Rightarrow> returnM errs)) [] sessionIDs) (\<lambda>errs.
     failIf (errs \<noteq> []) (Join errs)))"

definition list_one :: "auth_env \<Rightarrow> string \<Rightarrow> Session list \<Rightarrow> string \<Rightarrow> Session list auth_handler" where
  "list_one env userID acc sid =
     bindM (tryM (readM (get_session env sid))) (\<lambda>data.
     case data of
       Inr None \<Rightarrow> bindM (ignore (redis_write env ''SREM user_sessions'' [sid] [rem_user_session userID sid])) (\<lambda>_. returnM acc)
     | Inl _ \<Rightarrow> returnM acc
     | Inr (Some st) \<Rightarrow>
         if ae_now env > Ss_ExpiresAt st then bindM (ignore (Revoke env sid)) (\<lambda>_. returnM acc)
         else returnM (acc @ [toSession st]))"

definition ListUserSessions :: "auth_env \<Rightarrow> string \<Rightarrow> Session list auth_handler" where
  "ListUserSessions env userID =
     bindM (mapErrM (Wrapf ''list user sessions'') (readM (get_user_sessions env userID))) (\<lambda>sessionIDs.
     bindM (foldM (list_one env userID) [] sessionIDs) (\<lambda>sessions.
     returnM (sort_key (\<lambda>se. - Se_LastActiveAt se) sessions)))"

definition IsSessionValid :: "auth_env \<Rightarrow> string \<Rightarrow> auth_state \<Rightarrow> go_error + bool" where
  "IsSessionValid env sid s =
     (case get_session env sid s of
        Inl err \<Rightarrow> Inl (Wrapf ''check session validity'' err)
      | Inr None \<Rightarrow> Inr False
      | Inr (Some st) \<Rightarrow> Inr (\<not> ae_now env > Ss_ExpiresAt st))"

subsection \<open>Touching\<close>

text \<open>\<open>GET\<close> of a missing key is \<open>redis.Nil\<close>, here an error like any other.\<close>

definition TouchSession :: "auth_env \<Rightarrow> string \<Rightarrow> unit auth_handler" where
  "TouchSession env sid =
     bindM (mapErrM (Wrapf ''lookup session for touch'') (readM (get_session env sid))) (\<lambda>data.
     case data of
       None \<Rightarrow> throwM (Wrapf ''lookup session for touch'' (Sentinel (ErrNamed ''redis: nil'')))
     | Some st \<Rightarrow>
         let ttl = Ss_ExpiresAt st - ae_now env
         in bindM (failIf (ttl \<le> 0) (Opaque ''session expired'')) (\<lambda>_.
            redis_write env ''SET session'' [sid]
              [set_session (ae_now env) sid (st\<lparr>Ss_LastActiveAt := ae_now env\<rparr>) ttl]))"

definition DeferTouch :: "string \<Rightarrow> unit auth_handler" where
  "DeferTouch sid = modifyM (\<lambda>s. s\<lparr>au_pending := (if sid \<in> set (au_pending s) then au_pending s else au_pending s @ [sid])\<rparr>)"

text \<open>
  The first round: the pending ids are taken, their sessions fetched in one pipeline; on failure they are pending
  again. The second round writes back, with the time of the second round, what the first one fetched.
\<close>

definition flush_fetch :: "auth_env \<Rightarrow> (string \<times> sessionStorable) list auth_handler" where
  "flush_fetch env =
     bindM (getM au_pending) (\<lambda>ids.
     bindM (modifyM (\<lambda>s. s\<lparr>au_pending := []\<rparr>)) (\<lambda>_.
     if ids = [] then returnM []
     else bindM (tryM (readM (redis_read env ''GET sessions'' ids
            (\<lambda>r. List.map_filter (\<lambda>sid. map_option (Pair sid) (redis_get (ae_now env) (rd_sessions r) sid)) ids)))) (\<lambda>gets.
          case gets of
            Inl _ \<Rightarrow> bindM (modifyM (\<lambda>s. s\<lparr>au_pending := ids\<rparr>)) (\<lambda>_. returnM [])
          | Inr found \<Rightarrow> returnM found)))"

definition flush_write :: "auth_env \<Rightarrow> (string \<times> sessionStorable) list \<Rightarrow> unit auth_handler" where
  "flush_write env found =
     (let writes = map (\<lambda>(sid, st). set_session (ae_now env) sid (st\<lparr>Ss_LastActiveAt := ae_now env\<rparr>) (Ss_ExpiresAt st - ae_now env))
                     (filter (\<lambda>(sid, st). Ss_ExpiresAt st - ae_now env > 0) found)
      in if writes = [] then returnM ()
         else ignore (redis_write env ''SET sessions'' (map fst found) writes))"

definition flushTouches :: "auth_env \<Rightarrow> unit auth_handler" where
  "flushTouches env = bindM (flush_fetch env) (flush_write env)"

end
