(* ===== verification/Auth.thy ===== *)
theory Auth
  imports AuthRepo Sessions
begin

text \<open>
  \<open>service/auth/service.go\<close>: passwords, accounts, personal and other workspaces, login, token refresh and logout.
  \<open>ListWorkspaceMembers\<close>, a search for display, is not modelled. What the seeder of the demo workspace writes
  itself is not modelled; the state records for whom it was called.
\<close>

subsection \<open>Passwords\<close>

text \<open>The runes of a string as a \<open>for range\<close> loop sees them; a byte that starts no valid rune is U+FFFD.\<close>

definition rune_value :: "nat \<Rightarrow> nat list \<Rightarrow> nat" where
  "rune_value b tail =
     (case tail of
        [] \<Rightarrow> b
      | [c] \<Rightarrow> (b - 192) * 64 + (c - 128)
      | [c, d] \<Rightarrow> (b - 224) * 4096 + (c - 128) * 64 + (d - 128)
      | c # d # e # _ \<Rightarrow> (b - 240) * 262144 + (c - 128) * 4096 + (d - 128) * 64 + (e - 128))"

fun runes :: "nat list \<Rightarrow> nat list" where
  "runes [] = []"
| "runes (b # bs) =
     (case rune_tail b bs of
        None \<Rightarrow> 65533 # runes bs
      | Some k \<Rightarrow> rune_value b (take k bs) # runes (drop k bs))"

definition rune_class_of :: "auth_env \<Rightarrow> nat \<Rightarrow> rune_class" where
  "rune_class_of env r =
     (if r \<ge> 128 then ae_runeClass env r
      else if in_range 65 90 r then ClassUpper
      else if in_range 97 122 r then ClassLower
      else if in_range 48 57 r then ClassDigit
      else if in_range 33 126 r then ClassSpecial
      else ClassNone)"

definition validatePasswordPolicy :: "auth_env \<Rightarrow> string \<Rightarrow> go_error + unit" where
  "validatePasswordPolicy env password =
     (let classes = map (rune_class_of env) (runes (bytes password))
      in if int (length password) < 8 then Inl (InvalidInput ''password must be at least 8 characters'')
         else if int (length password) > 128 then Inl (InvalidInput ''password must be at most 128 characters'')
         else if ClassUpper \<notin> set classes then Inl (InvalidInput ''password must contain at least one uppercase letter'')
         else if ClassLower \<notin> set classes then Inl (InvalidInput ''password must contain at least one lowercase letter'')
         else if ClassDigit \<notin> set classes then Inl (InvalidInput ''password must contain at least one digit'')
         else if ClassSpecial \<notin> set classes then Inl (InvalidInput ''password must contain at least one special character'')
         else Inr ())"

definition hashPassword :: "auth_env \<Rightarrow> string \<Rightarrow> go_error + string" where
  "hashPassword env password = ae_bcryptHash env (ae_sha256 env password)"

definition verifyPassword :: "auth_env \<Rightarrow> string \<Rightarrow> string \<Rightarrow> bool" where
  "verifyPassword env password storedHash = ae_bcryptCompare env storedHash (ae_sha256 env password)"

subsection \<open>Accounts\<close>

definition validate_RegisterInput :: "auth_env \<Rightarrow> string \<Rightarrow> string \<Rightarrow> string \<Rightarrow> go_error + unit" where
  "validate_RegisterInput env email password displayName =
     validate_Struct
       (check_field ''Email'' [(''required'', email \<noteq> ''''), (''email'', ae_isEmail env email), (''max'', max_runes 255 email)] @
        check_field ''Password'' [(''required'', password \<noteq> ''''), (''min'', min_runes 8 password), (''max'', max_runes 128 password)] @
        check_field ''DisplayName'' [(''required'', displayName \<noteq> ''''), (''max'', max_runes 100 displayName)])"

definition validate_LoginInput :: "auth_env \<Rightarrow> string \<Rightarrow> string \<Rightarrow> go_error + unit" where
  "validate_LoginInput env email password =
     validate_Struct
       (check_field ''Email'' [(''required'', email \<noteq> ''''), (''email'', ae_isEmail env email)] @
        check_field ''Password'' [(''required'', password \<noteq> '''')])"

definition new_user :: "auth_env \<Rightarrow> uuid \<Rightarrow> string \<Rightarrow> string \<Rightarrow> string \<Rightarrow> User" where
  "new_user env uid email displayName passwordHash =
     \<lparr>U_ID = uid, U_Email = email, U_DisplayName = displayName, U_AvatarURL = '''',
      U_AvatarColor = AvatarColorForDisplayName displayName, U_Position = None, U_Department = None, U_Phone = None,
      U_Timezone = None, U_PasswordHash = passwordHash, U_Status = UserStatusActive, U_DeactivatedAt = None,
      U_SavedMessagesMode = SavedMessagesModeOther '''', U_Locale = ''en'', U_CreatedAt = ae_now env, U_UpdatedAt = ae_now env\<rparr>"

definition Register :: "auth_env \<Rightarrow> string \<Rightarrow> string \<Rightarrow> string \<Rightarrow> User auth_handler" where
  "Register env email password displayName =
     bindM (readM (\<lambda>_. validate_RegisterInput env email password displayName)) (\<lambda>_.
     bindM (readM (\<lambda>_. validatePasswordPolicy env password)) (\<lambda>_.
     bindM (readM (\<lambda>s. case GetByEmail env email s of
               Inr _ \<Rightarrow> Inl (AlreadyExists ''user with this email already exists'')
             | Inl err \<Rightarrow> if has_code CodeNotFound err then Inr ()
                          else Inl (Internal ''failed to check existing user'' (Some err)))) (\<lambda>_.
     bindM (mapErrM (internal ''failed to hash password'') (readM (\<lambda>_. hashPassword env password))) (\<lambda>passwordHash.
     bindM (auth_New env) (\<lambda>uid.
     bindM (mapErrM (internal ''failed to create user'') (Users_Create env (new_user env uid email displayName passwordHash))) (\<lambda>user.
     bindM (if ae_seeder env then modifyM (\<lambda>s. s\<lparr>au_seeded := au_seeded s @ [U_ID user]\<rparr>) else returnM ()) (\<lambda>_.
     returnM user)))))))"

definition GetUser :: "auth_env \<Rightarrow> uuid \<Rightarrow> auth_state \<Rightarrow> go_error + User" where
  "GetUser env userID s =
     (case Users_GetByID env userID s of
        Inl err \<Rightarrow> Inl (notfound_or_internal ''user not found'' ''failed to fetch user'' err)
      | Inr user \<Rightarrow> Inr user)"

text \<open>A failed enqueue is only logged.\<close>

definition IndexUser :: "auth_env \<Rightarrow> uuid \<Rightarrow> uuid \<Rightarrow> unit auth_handler" where
  "IndexUser env workspaceID userID =
     (if ae_search env then modifyM (\<lambda>s. s\<lparr>au_index := au_index s @ [(workspaceID, userID)]\<rparr>) else returnM ())"

record UpdateProfileInput =
  UP_DisplayName :: "string option"
  UP_AvatarURL :: "string option"
  UP_Position :: "string option"
  UP_Department :: "string option"
  UP_Locale :: "string option"

definition at_most :: "int \<Rightarrow> string \<Rightarrow> string \<Rightarrow> go_error + unit" where
  "at_most n msg s = (if int (length s) > n then Inl (InvalidInput msg) else Inr ())"

definition nonempty :: "string \<Rightarrow> string option" where
  "nonempty s = (if s = '''' then None else Some s)"

definition set_display_name :: "string option \<Rightarrow> User \<Rightarrow> User auth_handler" where
  "set_display_name field user =
     (case field of None \<Rightarrow> returnM user | Some raw \<Rightarrow>
        let name = TrimSpace raw
        in bindM (failIf (name = '''') (InvalidInput ''display_name cannot be empty'')) (\<lambda>_.
           bindM (readM (\<lambda>_. at_most 100 ''display_name must be at most 100 characters'' name)) (\<lambda>_.
           returnM (user\<lparr>U_DisplayName := name, U_AvatarColor := AvatarColorForDisplayName name\<rparr>))))"

definition set_avatar_url :: "string option \<Rightarrow> User \<Rightarrow> User auth_handler" where
  "set_avatar_url field user =
     (case field of None \<Rightarrow> returnM user | Some raw \<Rightarrow>
        bindM (readM (\<lambda>_. at_most 2048 ''avatar_url must be at most 2048 characters'' (TrimSpace raw))) (\<lambda>_.
        returnM (user\<lparr>U_AvatarURL := TrimSpace raw\<rparr>)))"

definition set_position :: "string option \<Rightarrow> User \<Rightarrow> User auth_handler" where
  "set_position field user =
     (case field of None \<Rightarrow> returnM user | Some raw \<Rightarrow>
        bindM (readM (\<lambda>_. at_most 200 ''position must be at most 200 characters'' (TrimSpace raw))) (\<lambda>_.
        returnM (user\<lparr>U_Position := nonempty (TrimSpace raw)\<rparr>)))"

definition set_department :: "string option \<Rightarrow> User \<Rightarrow> User auth_handler" where
  "set_department field user =
     (case field of None \<Rightarrow> returnM user | Some raw \<Rightarrow>
        bindM (readM (\<lambda>_. at_most 120 ''department must be at most 120 characters'' (TrimSpace raw))) (\<lambda>_.
        returnM (user\<lparr>U_Department := nonempty (TrimSpace raw)\<rparr>)))"

definition set_locale :: "string option \<Rightarrow> User \<Rightarrow> User auth_handler" where
  "set_locale field user =
     (case field of None \<Rightarrow> returnM user | Some raw \<Rightarrow>
        bindM (failIf (int (length (TrimSpace raw)) < 2 \<or> int (length (TrimSpace raw)) > 16)
                 (InvalidInput ''locale must be between 2 and 16 characters'')) (\<lambda>_.
        returnM (user\<lparr>U_Locale := TrimSpace raw\<rparr>)))"

definition reindex_user :: "auth_env \<Rightarrow> User \<Rightarrow> unit auth_handler" where
  "reindex_user env user =
     (if \<not> ae_search env then returnM ()
      else bindM (tryM (readM (Workspaces_ListByUser env (U_ID user)))) (\<lambda>workspaces.
           case workspaces of
             Inl _ \<Rightarrow> returnM ()
           | Inr ws \<Rightarrow> forM ws (\<lambda>w. IndexUser env (W_ID w) (U_ID user))))"

definition UpdateProfile :: "auth_env \<Rightarrow> uuid \<Rightarrow> UpdateProfileInput \<Rightarrow> User auth_handler" where
  "UpdateProfile env userID inp =
     bindM (failIf (UP_DisplayName inp = None \<and> UP_AvatarURL inp = None \<and> UP_Position inp = None \<and>
                    UP_Department inp = None \<and> UP_Locale inp = None)
              (InvalidInput ''at least one profile field must be provided'')) (\<lambda>_.
     bindM (readM (GetUser env userID)) (\<lambda>u0.
     bindM (set_display_name (UP_DisplayName inp) u0) (\<lambda>u1.
     bindM (set_avatar_url (UP_AvatarURL inp) u1) (\<lambda>u2.
     bindM (set_position (UP_Position inp) u2) (\<lambda>u3.
     bindM (set_department (UP_Department inp) u3) (\<lambda>u4.
     bindM (set_locale (UP_Locale inp) u4) (\<lambda>u5.
     bindM (mapErrM (internal ''failed to update user profile'') (Users_Update env (u5\<lparr>U_UpdatedAt := ae_now env\<rparr>))) (\<lambda>user.
     bindM (reindex_user env user) (\<lambda>_.
     returnM user)))))))))"

definition UpdateSavedMessagesMode :: "auth_env \<Rightarrow> uuid \<Rightarrow> SavedMessagesMode \<Rightarrow> User auth_handler" where
  "UpdateSavedMessagesMode env userID mode =
     bindM (failIf (mode \<noteq> SavedMessagesModePerWorkspace \<and> mode \<noteq> SavedMessagesModeGlobal)
              (InvalidInput ''invalid saved_messages_mode'')) (\<lambda>_.
     bindM (readM (GetUser env userID)) (\<lambda>user.
     mapErrM (internal ''failed to update saved messages mode'')
       (Users_Update env (user\<lparr>U_SavedMessagesMode := mode, U_UpdatedAt := ae_now env\<rparr>))))"

subsection \<open>Workspaces\<close>

record CreateWorkspaceInput =
  CW_Name :: string
  CW_Slug :: string
  CW_AvatarURL :: string

definition validate_CreateWorkspaceInput :: "CreateWorkspaceInput \<Rightarrow> go_error + unit" where
  "validate_CreateWorkspaceInput inp =
     validate_Struct
       (check_field ''Name'' [(''required'', CW_Name inp \<noteq> ''''), (''max'', max_runes 120 (CW_Name inp))] @
        check_field ''Slug'' [(''min'', CW_Slug inp = '''' \<or> min_runes 3 (CW_Slug inp)),
                              (''max'', CW_Slug inp = '''' \<or> max_runes 80 (CW_Slug inp))] @
        check_field ''AvatarURL'' [(''max'', CW_AvatarURL inp = '''' \<or> max_runes 2048 (CW_AvatarURL inp))])"

text \<open>The rounds that are left, and the round.\<close>

fun slug_rounds :: "auth_env \<Rightarrow> string \<Rightarrow> nat \<Rightarrow> nat \<Rightarrow> string \<Rightarrow> auth_state \<Rightarrow> go_error + string" where
  "slug_rounds env base 0 i candidate s = Inl (Conflict ''unable to generate a unique workspace slug'')"
| "slug_rounds env base (Suc rounds) i candidate s =
     (case GetBySlug env candidate s of
        Inr _ \<Rightarrow> slug_rounds env base rounds (i + 1) (slug_candidate base i) s
      | Inl err \<Rightarrow>
          if has_code CodeNotFound err then Inr candidate
          else Inl (Internal ''failed to verify workspace slug'' (Some err)))"

definition uniqueWorkspaceSlug :: "auth_env \<Rightarrow> string \<Rightarrow> auth_state \<Rightarrow> go_error + string" where
  "uniqueWorkspaceSlug env raw = slug_rounds env (slug_base raw) 25 1 (slug_base raw)"

definition personalWorkspaceSlug :: "auth_env \<Rightarrow> uuid \<Rightarrow> string" where
  "personalWorkspaceSlug env userID = ''personal-'' @ filter (\<lambda>c. c \<noteq> CHR ''-'') (ae_uuidString env userID)"

definition workspaceKind :: "auth_env \<Rightarrow> Workspace \<Rightarrow> uuid \<Rightarrow> WorkspaceKind" where
  "workspaceKind env workspace userID =
     (if W_Slug workspace = personalWorkspaceSlug env userID \<and> W_CreatedBy workspace = userID
      then WorkspaceKindPersonal else WorkspaceKindOrganization)"

definition createWorkspaceWithKind :: "auth_env \<Rightarrow> User \<Rightarrow> CreateWorkspaceInput \<Rightarrow> WorkspaceKind \<Rightarrow> Workspace auth_handler" where
  "createWorkspaceWithKind env user inp kind0 =
     (let kind = (if kind0 = WorkspaceKindOther '''' then WorkspaceKindOrganization else kind0);
          name = TrimSpace (CW_Name inp);
          baseSlug = (if TrimSpace (CW_Slug inp) = '''' then name else TrimSpace (CW_Slug inp))
      in bindM (failIf (name = '''') (InvalidInput ''name is required'')) (\<lambda>_.
         bindM (readM (uniqueWorkspaceSlug env baseSlug)) (\<lambda>slug.
         bindM (auth_New env) (\<lambda>wid.
         let workspace = \<lparr>W_ID = wid, W_Name = name, W_Slug = slug, W_Kind = kind, W_AvatarURL = TrimSpace (CW_AvatarURL inp),
                          W_CreatedBy = U_ID user, W_CreatedAt = ae_now env, W_UpdatedAt = ae_now env\<rparr>;
             owner = \<lparr>WM_WorkspaceID = wid, WM_UserID = U_ID user, WM_Role = WorkspaceRoleOwner\<rparr>
         in bindM (if ae_ownerCreator env
                   then mapErrM (app_or_internal ''failed to create workspace'') (CreateWithOwner env workspace owner)
                   else bindM (mapErrM (app_or_internal ''failed to create workspace'') (Workspaces_Create env workspace)) (\<lambda>_.
                        mapErrM (internal ''failed to add workspace owner'') (Workspaces_AddMember env owner))) (\<lambda>_.
            bindM (IndexUser env wid (U_ID user)) (\<lambda>_.
            returnM workspace))))))"

text \<open>The found workspace is made the user's again when the membership is gone.\<close>

definition restore_membership :: "auth_env \<Rightarrow> User \<Rightarrow> uuid \<Rightarrow> unit auth_handler" where
  "restore_membership env user workspaceID =
     bindM (tryM (readM (Workspaces_GetMember env workspaceID (U_ID user)))) (\<lambda>member.
     case member of
       Inr _ \<Rightarrow> returnM ()
     | Inl err \<Rightarrow>
         if has_code CodeNotFound err
         then bindM (mapErrM (internal ''failed to restore personal workspace membership'') (Workspaces_AddMember env
                \<lparr>WM_WorkspaceID = workspaceID, WM_UserID = U_ID user, WM_Role = WorkspaceRoleOwner\<rparr>)) (\<lambda>_.
              IndexUser env workspaceID (U_ID user))
         else throwM (Internal ''failed to verify personal workspace membership'' (Some err)))"

definition GetOrCreatePersonalWorkspace :: "auth_env \<Rightarrow> uuid \<Rightarrow> Workspace auth_handler" where
  "GetOrCreatePersonalWorkspace env userID =
     bindM (readM (GetUser env userID)) (\<lambda>user.
     bindM (failIf (U_Status user \<noteq> UserStatusActive) (Forbidden ''account is not active'')) (\<lambda>_.
     bindM (tryM (readM (GetBySlug env (personalWorkspaceSlug env userID)))) (\<lambda>found.
     case found of
       Inr workspace \<Rightarrow>
         bindM (restore_membership env user (W_ID workspace)) (\<lambda>_.
         returnM (workspace\<lparr>W_Kind := WorkspaceKindPersonal\<rparr>))
     | Inl err \<Rightarrow>
         if \<not> has_code CodeNotFound err then throwM (Internal ''failed to fetch personal workspace'' (Some err))
         else createWorkspaceWithKind env user
                \<lparr>CW_Name = U_DisplayName user @ [CHR 0x27] @ ''s Space'', CW_Slug = personalWorkspaceSlug env userID, CW_AvatarURL = ''''\<rparr>
                WorkspaceKindPersonal)))"

definition GetOrCreatePersonalWorkspaceID :: "auth_env \<Rightarrow> uuid \<Rightarrow> uuid auth_handler" where
  "GetOrCreatePersonalWorkspaceID env userID = bindM (GetOrCreatePersonalWorkspace env userID) (\<lambda>w. returnM (W_ID w))"

definition CreateWorkspace :: "auth_env \<Rightarrow> uuid \<Rightarrow> CreateWorkspaceInput \<Rightarrow> Workspace auth_handler" where
  "CreateWorkspace env userID inp =
     bindM (readM (\<lambda>_. validate_CreateWorkspaceInput inp)) (\<lambda>_.
     bindM (readM (GetUser env userID)) (\<lambda>user.
     bindM (failIf (U_Status user \<noteq> UserStatusActive) (Forbidden ''account is not active'')) (\<lambda>_.
     createWorkspaceWithKind env user inp WorkspaceKindOrganization)))"

definition ListWorkspaces :: "auth_env \<Rightarrow> uuid \<Rightarrow> Workspace list auth_handler" where
  "ListWorkspaces env userID =
     bindM (readM (GetUser env userID)) (\<lambda>_.
     bindM (GetOrCreatePersonalWorkspace env userID) (\<lambda>_.
     bindM (mapErrM (internal ''failed to list workspaces'') (readM (Workspaces_ListByUser env userID))) (\<lambda>workspaces.
     returnM (map (\<lambda>w. w\<lparr>W_Kind := workspaceKind env w userID\<rparr>) workspaces))))"

definition require_workspace_member :: "auth_env \<Rightarrow> uuid \<Rightarrow> uuid \<Rightarrow> auth_state \<Rightarrow> go_error + unit" where
  "require_workspace_member env workspaceID userID s =
     (case Workspaces_GetMember env workspaceID userID s of
        Inl err \<Rightarrow> Inl (forbidden_or_internal ''user is not a member of this workspace'' ''failed to verify workspace membership'' err)
      | Inr _ \<Rightarrow> Inr ())"

definition ListCommonChannels :: "auth_env \<Rightarrow> uuid \<Rightarrow> uuid \<Rightarrow> uuid \<Rightarrow> auth_state \<Rightarrow> go_error + Channel list" where
  "ListCommonChannels env workspaceID actorID targetID s =
     (case ae_commonChannels env of
        None \<Rightarrow> Inl (Internal ''common channels not configured'' None)
      | Some lister \<Rightarrow>
          (case require_workspace_member env workspaceID actorID s of
             Inl err \<Rightarrow> Inl err
           | Inr _ \<Rightarrow> lister workspaceID actorID targetID))"

definition GetWorkspace :: "auth_env \<Rightarrow> uuid \<Rightarrow> uuid \<Rightarrow> auth_state \<Rightarrow> go_error + Workspace" where
  "GetWorkspace env workspaceID userID s =
     (case require_workspace_member env workspaceID userID s of
        Inl err \<Rightarrow> Inl err
      | Inr _ \<Rightarrow>
          (case Workspaces_GetByID env workspaceID s of
             Inl err \<Rightarrow> Inl (notfound_or_internal ''workspace not found'' ''failed to fetch workspace'' err)
           | Inr workspace \<Rightarrow> Inr (workspace\<lparr>W_Kind := workspaceKind env workspace userID\<rparr>)))"

subsection \<open>Access tokens\<close>

text \<open>\<open>jwt.NewNumericDate\<close> truncates to seconds.\<close>

definition NumericDate :: "gotime \<Rightarrow> gotime" where
  "NumericDate t = t - t mod time_Second"

definition token_claims :: "auth_env \<Rightarrow> uuid \<Rightarrow> string \<Rightarrow> tokenClaims" where
  "token_claims env userID sid =
     \<lparr>Tc_Subject = ae_uuidString env userID, Tc_ExpiresAt = NumericDate (ae_now env + ae_accessTTL env),
      Tc_IssuedAt = NumericDate (ae_now env), Tc_SessionID = sid\<rparr>"

definition generateToken :: "auth_env \<Rightarrow> uuid \<Rightarrow> string \<Rightarrow> go_error + string" where
  "generateToken env userID sid =
     (case ae_sign env (token_claims env userID sid) of
        Inl err \<Rightarrow> Inl (Wrapf ''sign token'' err)
      | Inr tok \<Rightarrow> Inr tok)"

text \<open>
  The key function refuses every method but HS256 before the signature is looked at; \<open>ParseWithClaims\<close> then checks the
  signature and that the token has not expired.
\<close>

definition parseToken :: "auth_env \<Rightarrow> string \<Rightarrow> go_error + uuid \<times> string" where
  "parseToken env tokenString =
     (case ae_parseJWT env tokenString of
        None \<Rightarrow> Inl (Wrapf ''invalid token'' (Opaque ''malformed''))
      | Some (meth, claims) \<Rightarrow>
          if meth \<noteq> HS256 then Inl (Wrapf ''invalid token'' (Opaque ''unexpected signing method''))
          else if \<not> ae_verifyJWT env meth tokenString then Inl (Wrapf ''invalid token'' (Opaque ''signature is invalid''))
          else if \<not> ae_now env < Tc_ExpiresAt claims then Inl (Wrapf ''invalid token'' (Opaque ''token is expired''))
          else (case ae_uuidParse env (Tc_Subject claims) of
                  Inl err \<Rightarrow> Inl (Wrapf ''invalid user ID in token subject'' err)
                | Inr userID \<Rightarrow>
                    if Tc_SessionID claims = '''' then Inl (Opaque ''missing session ID in token'')
                    else Inr (userID, Tc_SessionID claims)))"

subsection \<open>Login and refresh\<close>

record LoginResult =
  LR_AccessToken :: string
  LR_RefreshToken :: string
  LR_SessionID :: string
  LR_ExpiresIn :: int

text \<open>\<open>int(s.accessTTL.Seconds())\<close>.\<close>

definition whole_seconds :: "int \<Rightarrow> int" where
  "whole_seconds d = (if d \<ge> 0 then d div time_Second else - ((- d) div time_Second))"

definition login_result :: "auth_env \<Rightarrow> string \<Rightarrow> string \<Rightarrow> string \<Rightarrow> LoginResult" where
  "login_result env accessToken refreshToken sid =
     \<lparr>LR_AccessToken = accessToken, LR_RefreshToken = refreshToken, LR_SessionID = sid,
      LR_ExpiresIn = whole_seconds (ae_accessTTL env)\<rparr>"

text \<open>The end of \<open>Login\<close> and of \<open>CreateSessionForUser\<close>: without an access token the session is revoked again.\<close>

definition open_session :: "auth_env \<Rightarrow> uuid \<Rightarrow> string \<Rightarrow> string \<Rightarrow> LoginResult auth_handler" where
  "open_session env userID deviceInfo ipAddress =
     bindM (mapErrM (internal ''failed to create session'')
              (Sessions_Create env (ae_uuidString env userID) deviceInfo ipAddress)) (\<lambda>(session, refreshToken).
     case generateToken env userID (Se_ID session) of
       Inl err \<Rightarrow> bindM (ignore (Revoke env (Se_ID session))) (\<lambda>_. throwM (Internal ''failed to generate access token'' (Some err)))
     | Inr accessToken \<Rightarrow> returnM (login_result env accessToken refreshToken (Se_ID session)))"

definition check_credentials :: "auth_env \<Rightarrow> string \<Rightarrow> string \<Rightarrow> auth_state \<Rightarrow> go_error + User" where
  "check_credentials env email password s =
     (case validate_LoginInput env email password of
        Inl err \<Rightarrow> Inl err
      | Inr _ \<Rightarrow>
          (case GetByEmail env email s of
             Inl err \<Rightarrow> Inl (unauthorized_or_internal ''invalid email or password'' ''failed to fetch user'' err)
           | Inr user \<Rightarrow>
               if \<not> verifyPassword env password (U_PasswordHash user) then Inl (Unauthorized ''invalid email or password'')
               else if U_Status user = UserStatusSuspended then Inl AccountSuspended
               else Inr user))"

definition Login :: "auth_env \<Rightarrow> string \<Rightarrow> string \<Rightarrow> string \<Rightarrow> string \<Rightarrow> LoginResult auth_handler" where
  "Login env email password deviceInfo ipAddress =
     bindM (readM (check_credentials env email password)) (\<lambda>user.
     bindM (failIf (U_Status user = UserStatusDeactivated) AccountDeactivated) (\<lambda>_.
     bindM (failIf (U_Status user \<noteq> UserStatusActive) (Forbidden ''account is not active'')) (\<lambda>_.
     open_session env (U_ID user) deviceInfo ipAddress)))"

definition CreateSessionForUser :: "auth_env \<Rightarrow> uuid \<Rightarrow> string \<Rightarrow> string \<Rightarrow> LoginResult auth_handler" where
  "CreateSessionForUser env userID deviceInfo ipAddress =
     bindM (mapErrM (notfound_or_internal ''user not found'' ''failed to fetch user'') (readM (Users_GetByID env userID))) (\<lambda>user.
     bindM (failIf (U_Status user \<noteq> UserStatusActive) (Forbidden ''account is not active'')) (\<lambda>_.
     open_session env (U_ID user) deviceInfo ipAddress))"

text \<open>The user of a session, who must be active.\<close>

definition active_session_user :: "auth_env \<Rightarrow> Session \<Rightarrow> auth_state \<Rightarrow> go_error + uuid" where
  "active_session_user env session s =
     (case ae_uuidParse env (Se_UserID session) of
        Inl err \<Rightarrow> Inl (Internal ''invalid user ID in session'' (Some err))
      | Inr userID \<Rightarrow>
          (case Users_GetByID env userID s of
             Inl err \<Rightarrow> Inl (unauthorized_or_internal ''user not found'' ''failed to fetch user'' err)
           | Inr user \<Rightarrow>
               if U_Status user \<noteq> UserStatusActive then Inl (Forbidden ''account is not active'') else Inr userID))"

definition replayRotatedRefresh :: "auth_env \<Rightarrow> string \<Rightarrow> auth_state \<Rightarrow> go_error + LoginResult" where
  "replayRotatedRefresh env refreshToken s =
     (case ReplayRotation env refreshToken s of
        Inl err \<Rightarrow> Inl err
      | Inr (session, successor) \<Rightarrow>
          (case active_session_user env session s of
             Inl err \<Rightarrow> Inl err
           | Inr userID \<Rightarrow>
               (case generateToken env userID (Se_ID session) of
                  Inl err \<Rightarrow> Inl (Internal ''failed to generate access token'' (Some err))
                | Inr accessToken \<Rightarrow> Inr (login_result env accessToken successor (Se_ID session)))))"

text \<open>\<open>graceReplay\<close> and what \<open>RefreshToken\<close> makes of its errors.\<close>

definition graceReplay :: "auth_env \<Rightarrow> string \<Rightarrow> auth_state \<Rightarrow> go_error + LoginResult" where
  "graceReplay env refreshToken = replayRotatedRefresh env refreshToken"

definition replay_or_unauthorized :: "auth_env \<Rightarrow> string \<Rightarrow> auth_state \<Rightarrow> go_error + LoginResult" where
  "replay_or_unauthorized env refreshToken s =
     (case graceReplay env refreshToken s of
        Inr result \<Rightarrow> Inr result
      | Inl graceErr \<Rightarrow>
          if is_error graceErr ErrNoRotationGrace then Inl (Unauthorized ''invalid refresh token'') else Inl graceErr)"

definition RefreshToken :: "auth_env \<Rightarrow> string \<Rightarrow> LoginResult auth_handler" where
  "RefreshToken env refreshToken =
     bindM (tryM (ValidateRefreshToken env refreshToken)) (\<lambda>validated.
     case validated of
       Inl err \<Rightarrow>
         if is_error err ErrRefreshTokenNotFound then readM (replay_or_unauthorized env refreshToken)
         else throwM (Unauthorized ''invalid refresh token'')
     | Inr session \<Rightarrow>
         bindM (readM (active_session_user env session)) (\<lambda>userID.
         bindM (tryM (RotateRefreshToken env (Se_ID session) (hashToken env refreshToken))) (\<lambda>rotated.
         case rotated of
           Inl err \<Rightarrow>
             if is_error err ErrRotationSuperseded then readM (replay_or_unauthorized env refreshToken)
             else throwM (Internal ''failed to rotate refresh token'' (Some err))
         | Inr newRefreshToken \<Rightarrow>
             bindM (mapErrM (internal ''failed to generate access token'')
                      (readM (\<lambda>_. generateToken env userID (Se_ID session)))) (\<lambda>newAccessToken.
             returnM (login_result env newAccessToken newRefreshToken (Se_ID session))))))"

definition ValidateToken :: "auth_env \<Rightarrow> string \<Rightarrow> (uuid \<times> string) auth_handler" where
  "ValidateToken env tokenString =
     (case parseToken env tokenString of
        Inl _ \<Rightarrow> throwM (Unauthorized ''invalid token'')
      | Inr (userID, sid) \<Rightarrow>
          bindM (mapErrM (\<lambda>_. Unauthorized ''session validation failed'') (readM (IsSessionValid env sid))) (\<lambda>valid.
          bindM (failIf (\<not> valid) (Unauthorized ''session revoked or expired'')) (\<lambda>_.
          bindM (DeferTouch sid) (\<lambda>_.
          returnM (userID, sid)))))"

subsection \<open>Logout, deactivation, reactivation\<close>

definition UserIDForSession :: "auth_env \<Rightarrow> string \<Rightarrow> auth_state \<Rightarrow> go_error + uuid" where
  "UserIDForSession env sid = Sessions_UserIDForSession env sid"

definition LogoutSessionForUser :: "auth_env \<Rightarrow> string \<Rightarrow> string \<Rightarrow> unit auth_handler" where
  "LogoutSessionForUser env userID targetSessionID =
     bindM (mapErrM (internal ''session ownership check failed'') (readM (SessionBelongsToUser env userID targetSessionID))) (\<lambda>ok.
     bindM (failIf (\<not> ok) (NotFound ''session not found'')) (\<lambda>_.
     mapErrM (internal ''failed to revoke session'') (Revoke env targetSessionID)))"

definition LogoutAll :: "auth_env \<Rightarrow> string \<Rightarrow> unit auth_handler" where
  "LogoutAll env userID = mapErrM (internal ''failed to revoke sessions'') (RevokeAllUserSessions env userID)"

definition LogoutOthers :: "auth_env \<Rightarrow> string \<Rightarrow> string \<Rightarrow> unit auth_handler" where
  "LogoutOthers env userID keepSessionID =
     mapErrM (internal ''failed to revoke other sessions'') (RevokeAllUserSessionsExcept env userID keepSessionID)"

definition Deactivate :: "auth_env \<Rightarrow> uuid \<Rightarrow> unit auth_handler" where
  "Deactivate env userID =
     bindM (readM (GetUser env userID)) (\<lambda>user.
     bindM (failIf (U_Status user = UserStatusSuspended) (Forbidden ''suspended accounts cannot self-deactivate'')) (\<lambda>_.
     if U_Status user = UserStatusDeactivated then returnM ()
     else bindM (LogoutAll env (ae_uuidString env userID)) (\<lambda>_.
          bindM (mapErrM (internal ''failed to deactivate user'') (Users_Update env
            (user\<lparr>U_Status := UserStatusDeactivated, U_DeactivatedAt := Some (ae_now env), U_UpdatedAt := ae_now env\<rparr>))) (\<lambda>_.
          returnM ()))))"

definition ReactivateAndLogin :: "auth_env \<Rightarrow> string \<Rightarrow> string \<Rightarrow> string \<Rightarrow> string \<Rightarrow> LoginResult auth_handler" where
  "ReactivateAndLogin env email password deviceInfo ipAddress =
     bindM (readM (check_credentials env email password)) (\<lambda>user0.
     bindM (failIf (U_Status user0 = UserStatusActive) NotDeactivated) (\<lambda>_.
     bindM (failIf (U_Status user0 \<noteq> UserStatusDeactivated) (Forbidden ''account is not in a reactivatable state'')) (\<lambda>_.
     bindM (mapErrM (internal ''failed to reactivate user'') (Users_Update env
       (user0\<lparr>U_Status := UserStatusActive, U_DeactivatedAt := None, U_UpdatedAt := ae_now env\<rparr>))) (\<lambda>user.
     bindM (tryM (CreateSessionForUser env (U_ID user) deviceInfo ipAddress)) (\<lambda>result.
     case result of
       Inr r \<Rightarrow> returnM r
     | Inl err \<Rightarrow>
         bindM (tryM (Users_Update env
           (user\<lparr>U_Status := UserStatusDeactivated, U_DeactivatedAt := Some (ae_now env), U_UpdatedAt := ae_now env\<rparr>))) (\<lambda>_.
         throwM err))))))"

definition ListSessions :: "auth_env \<Rightarrow> string \<Rightarrow> Session list auth_handler" where
  "ListSessions env userID = mapErrM (internal ''failed to list sessions'') (ListUserSessions env userID)"

end
