(* ===== verification/AuthSystem.thy ===== *)
theory AuthSystem
  imports Auth
begin

text \<open>
  The authentication service as a system: its requests, the touch worker among them, and what a relation on
  states needs so that every request stays within it. Handlers are composed once, inside the interface.
\<close>

subsection \<open>Relations that all handlers keep\<close>

text \<open>
  What a handler may do besides talking to Redis: accounts, workspaces and logs change, identifiers are drawn.
\<close>

definition same_sessions :: "auth_state \<Rightarrow> auth_state \<Rightarrow> bool" where
  "same_sessions s s' \<longleftrightarrow> au_redis s' = au_redis s \<and> au_sids s' = au_sids s \<and> au_rands s' = au_rands s"

text \<open>
  \<open>W\<close> selects the environments: the relation may ask that the random generators do not repeat themselves. The five
  methods that write sessions are the interface; removing from the sets of session ids is always harmless.
\<close>

locale session_writes = run_relation R for R :: "auth_state \<Rightarrow> auth_state \<Rightarrow> bool" +
  fixes W :: "auth_env \<Rightarrow> bool"
  assumes same: "same_sessions s s' \<Longrightarrow> R s s'"
    and Revoke_keeps: "W env \<Longrightarrow> keepsM R (Revoke env sid)"
    and SREM_keeps: "W env \<Longrightarrow> keepsM R (redis_write env ''SREM user_sessions'' [sid] [rem_user_session u sid])"
    and DEL_keeps: "W env \<Longrightarrow> keepsM R (redis_write env ''DEL user_sessions'' [u] [del_user_sessions u])"
    and Create_keeps: "W env \<Longrightarrow> keepsM R (Sessions_Create env u d i)"
    and Validate_keeps: "W env \<Longrightarrow> keepsM R (ValidateRefreshToken env tok)"
    and Rotate_keeps: "W env \<Longrightarrow> keepsM R (RotateRefreshToken env sid h)"
    and Touch_keeps: "W env \<Longrightarrow> keepsM R (TouchSession env sid)"
    and Flush_keeps: "W env \<Longrightarrow> keepsM R (flushTouches env)"
begin

lemma exec_keeps: "(\<And>s s'. f s = Inr s' \<Longrightarrow> same_sessions s s') \<Longrightarrow> keepsM R (auth_exec env op args wrap f)"
  by (rule keepsMI) (auto simp: auth_exec_def intro: same split: option.splits sum.splits)

lemma modify_keeps: "(\<And>s. same_sessions s (f s)) \<Longrightarrow> keepsM R (modifyM f)"
  by (rule keeps_modifyM) (rule same)

lemma New_keeps: "keepsM R (auth_New env)"
  by (rule keepsMI) (auto simp: auth_New_def same_sessions_def intro: same)

lemma statements_keep:
  "keepsM R (Users_Create env user)" "keepsM R (Users_Update env user)" "keepsM R (Workspaces_Create env ws)"
  "keepsM R (CreateWithOwner env ws m)" "keepsM R (Workspaces_AddMember env m)"
  unfolding Users_Create_def Users_Update_def Workspaces_Create_def CreateWithOwner_def Workspaces_AddMember_def Let_def
  by (intro keeps_bindM keeps_returnM exec_keeps;
      auto simp: same_sessions_def insert_workspace_def insert_workspace_member_def split: if_splits sum.splits)+

lemmas steps =
  keeps_bindM keeps_mapErrM keeps_tryM keeps_returnM keeps_throwM keeps_readM keeps_getM keeps_failIf keeps_forM
  keeps_foldM keeps_If keeps_case_option keeps_case_sum New_keeps statements_keep

lemma ignore_keeps: "keepsM R m \<Longrightarrow> keepsM R (ignore m)"
  unfolding ignore_def by (intro steps)

lemma logs_keep: "keepsM R (IndexUser env w u)" "keepsM R (DeferTouch sid)"
  unfolding IndexUser_def DeferTouch_def
  by (intro steps modify_keeps; simp add: same_sessions_def)+

lemmas session_steps = Revoke_keeps SREM_keeps DEL_keeps Create_keeps Validate_keeps Rotate_keeps Touch_keeps Flush_keeps

lemma account_handlers:
  "keepsM R (Register env e p n)" "keepsM R (UpdateProfile env u inp)" "keepsM R (UpdateSavedMessagesMode env u mode)"
  unfolding Register_def UpdateProfile_def UpdateSavedMessagesMode_def set_display_name_def set_avatar_url_def
    set_position_def set_department_def set_locale_def reindex_user_def Let_def
  by (intro steps logs_keep modify_keeps; simp add: same_sessions_def)+

lemma workspace_handlers:
  "keepsM R (createWorkspaceWithKind env user inp2 k)" "keepsM R (restore_membership env user w)"
  "keepsM R (GetOrCreatePersonalWorkspace env u)" "keepsM R (GetOrCreatePersonalWorkspaceID env u)"
  "keepsM R (CreateWorkspace env u inp2)" "keepsM R (ListWorkspaces env u)"
  unfolding GetOrCreatePersonalWorkspaceID_def CreateWorkspace_def ListWorkspaces_def GetOrCreatePersonalWorkspace_def
    createWorkspaceWithKind_def restore_membership_def Let_def
  by (intro steps logs_keep)+

lemma keeps_case_prod: "(\<And>a b. keepsM R (k a b)) \<Longrightarrow> keepsM R (case z of (a, b) \<Rightarrow> k a b)"
  by (cases z) simp

lemma session_handlers:
  assumes "W env"
  shows "keepsM R (open_session env u d i)" "keepsM R (Login env e p d i)" "keepsM R (CreateSessionForUser env u d i)"
    "keepsM R (RefreshToken env tok)" "keepsM R (ValidateToken env tok)" "keepsM R (ReactivateAndLogin env e p d i)"
  using assms unfolding Login_def ReactivateAndLogin_def CreateSessionForUser_def open_session_def RefreshToken_def ValidateToken_def
  by (intro steps session_steps ignore_keeps logs_keep keeps_case_prod; assumption)+

lemma logout_handlers:
  assumes "W env"
  shows "keepsM R (LogoutSessionForUser env us sid)" "keepsM R (LogoutAll env us)" "keepsM R (LogoutOthers env us sid)"
    "keepsM R (Deactivate env u)" "keepsM R (ListSessions env us)"
  using assms unfolding LogoutSessionForUser_def Deactivate_def LogoutAll_def LogoutOthers_def ListSessions_def
    RevokeAllUserSessions_def RevokeAllUserSessionsExcept_def ListUserSessions_def list_one_def
  by (intro steps session_steps ignore_keeps logs_keep keeps_case_prod; assumption)+

end

subsection \<open>Requests\<close>

datatype auth_request =
    RegisterReq string string string
  | UpdateProfileReq uuid UpdateProfileInput
  | SavedMessagesModeReq uuid SavedMessagesMode
  | ListWorkspacesReq uuid
  | PersonalWorkspaceReq uuid
  | CreateWorkspaceReq uuid CreateWorkspaceInput
  | LoginReq string string string string
  | CreateSessionReq uuid string string
  | RefreshReq string
  | ValidateReq string
  | LogoutReq string string
  | LogoutAllReq string
  | LogoutOthersReq string string
  | DeactivateReq uuid
  | ReactivateReq string string string string
  | ListSessionsReq string
  | TouchReq string
  | FlushReq

fun auth_serve :: "auth_env \<Rightarrow> auth_request \<Rightarrow> auth_state \<Rightarrow> auth_state" where
  "auth_serve env (RegisterReq e p n) s = snd (Register env e p n s)"
| "auth_serve env (UpdateProfileReq u inp) s = snd (UpdateProfile env u inp s)"
| "auth_serve env (SavedMessagesModeReq u mode) s = snd (UpdateSavedMessagesMode env u mode s)"
| "auth_serve env (ListWorkspacesReq u) s = snd (ListWorkspaces env u s)"
| "auth_serve env (PersonalWorkspaceReq u) s = snd (GetOrCreatePersonalWorkspaceID env u s)"
| "auth_serve env (CreateWorkspaceReq u inp) s = snd (CreateWorkspace env u inp s)"
| "auth_serve env (LoginReq e p d i) s = snd (Login env e p d i s)"
| "auth_serve env (CreateSessionReq u d i) s = snd (CreateSessionForUser env u d i s)"
| "auth_serve env (RefreshReq tok) s = snd (RefreshToken env tok s)"
| "auth_serve env (ValidateReq tok) s = snd (ValidateToken env tok s)"
| "auth_serve env (LogoutReq us sid) s = snd (LogoutSessionForUser env us sid s)"
| "auth_serve env (LogoutAllReq us) s = snd (LogoutAll env us s)"
| "auth_serve env (LogoutOthersReq us sid) s = snd (LogoutOthers env us sid s)"
| "auth_serve env (DeactivateReq u) s = snd (Deactivate env u s)"
| "auth_serve env (ReactivateReq e p d i) s = snd (ReactivateAndLogin env e p d i s)"
| "auth_serve env (ListSessionsReq us) s = snd (ListSessions env us s)"
| "auth_serve env (TouchReq sid) s = snd (TouchSession env sid s)"
| "auth_serve env FlushReq s = snd (flushTouches env s)"

fun auth_execute :: "(auth_env \<times> auth_request) list \<Rightarrow> auth_state \<Rightarrow> auth_state" where
  "auth_execute [] s = s"
| "auth_execute ((env, req) # reqs) s = auth_execute reqs (auth_serve env req s)"

lemma auth_execute_append: "auth_execute (xs @ ys) s = auth_execute ys (auth_execute xs s)"
  by (induction xs s rule: auth_execute.induct) simp_all

definition empty_redis :: redis where
  "empty_redis =
     \<lparr>rd_sessions = Map.empty, rd_refresh = Map.empty, rd_grace = Map.empty, rd_users = (\<lambda>_. []), rd_version = (\<lambda>_. 0)\<rparr>"

definition initial_auth :: auth_state where
  "initial_auth =
     \<lparr>au_users = [], au_workspaces = [], au_members = [], au_redis = empty_redis, au_pending = [], au_events = [],
      au_index = [], au_seeded = [], au_ids = 0, au_sids = 0, au_rands = 0\<rparr>"

context session_writes
begin

lemmas request_handlers = account_handlers workspace_handlers session_handlers logout_handlers Touch_keeps Flush_keeps

lemma serve: "W env \<Longrightarrow> R s (auth_serve env req s)"
  by (cases req; simp only: auth_serve.simps; rule keepsMD [where R = R]; rule request_handlers)

lemma execution: "list_all (\<lambda>(env, _). W env) reqs \<Longrightarrow> R s (auth_execute reqs s)"
  by (induction reqs s rule: auth_execute.induct) (auto intro: R_trans serve)

end

end
