(* ===== verification/TokenInvariant.thy ===== *)
theory TokenInvariant
  imports AuthSystem
begin

text \<open>
  What every request keeps of the refresh tokens: a key \<open>refresh:<hash>\<close> is only ever created for a token just drawn,
  so a token that was rotated away or revoked never comes back, and its grace record stays what the rotation left.
\<close>

subsection \<open>Environments whose generators do not repeat themselves\<close>

text \<open>
  \<open>w\<close> fixes the generators: session identifiers are distinct, and so are the digests of the random tokens.
\<close>

definition fresh_world :: "auth_env \<Rightarrow> bool" where
  "fresh_world w \<longleftrightarrow> inj (ae_sessionID w) \<and>
     (\<forall>m n t u. ae_rand w m = Inr t \<longrightarrow> ae_rand w n = Inr u \<longrightarrow> ae_sha256 w t = ae_sha256 w u \<longrightarrow> m = n)"

definition same_world :: "auth_env \<Rightarrow> auth_env \<Rightarrow> bool" where
  "same_world w env \<longleftrightarrow> fresh_world w \<and> ae_sessionID env = ae_sessionID w \<and> ae_rand env = ae_rand w \<and> ae_sha256 env = ae_sha256 w"

definition issued_hash :: "auth_env \<Rightarrow> nat \<Rightarrow> string \<Rightarrow> bool" where
  "issued_hash w n h \<longleftrightarrow> (\<exists>k<n. \<exists>t. ae_rand w k = Inr t \<and> h = ae_sha256 w t)"

lemma issued_hash_mono: "issued_hash w m h \<Longrightarrow> m \<le> n \<Longrightarrow> issued_hash w n h"
  by (auto simp: issued_hash_def intro: less_le_trans)

lemma issued_hash_new: "same_world w env \<Longrightarrow> ae_rand env n = Inr t \<Longrightarrow> issued_hash w (Suc n) (hashToken env t)"
  unfolding issued_hash_def same_world_def hashToken_def by auto

lemma fresh_hash:
  assumes "same_world w env" and "ae_rand env n = Inr t"
  shows "\<not> issued_hash w n (hashToken env t)"
proof
  assume "issued_hash w n (hashToken env t)"
  then obtain k u where "k < n" and "ae_rand w k = Inr u" and "ae_sha256 w t = ae_sha256 w u"
    using assms(1) unfolding issued_hash_def same_world_def hashToken_def by auto
  with assms show False
    unfolding same_world_def fresh_world_def by (metis nat_neq_iff)
qed

lemma generate_run:
  assumes "generateRefreshToken env s = (Inr (token, h), s')"
  shows "ae_rand env (au_rands s) = Inr token" and "h = hashToken env token" and "s' = s\<lparr>au_rands := Suc (au_rands s)\<rparr>"
  using assms by (auto simp: generateRefreshToken_def rand_Read_def run_Inr)

subsection \<open>Pipelines\<close>

lemma redis_write_prefix:
  obtains k where "snd (redis_write env op args cmds s) = s\<lparr>au_redis := fold (\<lambda>c. c) (take k cmds) (au_redis s)\<rparr>"
proof (cases "ae_redis env op args")
  case None
  with that [of "length cmds"] show ?thesis by (simp add: redis_write_def)
next
  case (Some nd)
  then obtain n d where "ae_redis env op args = Some (n, d)" by (cases nd) simp
  with that [of n] show ?thesis by (simp add: redis_write_def)
qed

lemma fold_prefix:
  assumes "\<And>r. Q r r" and "\<And>r s t. Q r s \<Longrightarrow> Q s t \<Longrightarrow> Q r t" and "\<And>c r. c \<in> set cmds \<Longrightarrow> Q r (c r)"
  shows "Q r (fold (\<lambda>c. c) (take k cmds) r)"
proof -
  have "Q r (fold (\<lambda>c. c) cs r)" if "set cs \<subseteq> set cmds" for cs
    using that
  proof (induction cs arbitrary: r)
    case Nil
    then show ?case by (simp add: assms(1))
  next
    case (Cons c cs)
    then have "Q r (c r)" and "Q (c r) (fold (\<lambda>c. c) cs (c r))" using assms(3) by simp_all
    then show ?case by (simp add: assms(2))
  qed
  then show ?thesis by (simp add: set_take_subset)
qed

subsection \<open>The refresh keys from one state to the next\<close>

text \<open>
  Of the tokens drawn before the count was \<open>m\<close>, none whose key is gone gets it back; the keys that are there belong to
  tokens drawn before the count was \<open>n\<close>. An unchanged version means an unchanged key, which \<open>WATCH\<close> relies on.
\<close>

definition refresh_issued :: "auth_env \<Rightarrow> nat \<Rightarrow> redis \<Rightarrow> bool" where
  "refresh_issued w n r \<longleftrightarrow> (\<forall>h. rd_refresh r h \<noteq> None \<longrightarrow> issued_hash w n h)"

definition versions_grow :: "redis \<Rightarrow> redis \<Rightarrow> bool" where
  "versions_grow r r' \<longleftrightarrow>
     (\<forall>h. rd_version r h \<le> rd_version r' h \<and> (rd_version r' h = rd_version r h \<longrightarrow> rd_refresh r' h = rd_refresh r h))"

definition spent_stay :: "auth_env \<Rightarrow> nat \<Rightarrow> redis \<Rightarrow> redis \<Rightarrow> bool" where
  "spent_stay w m r r' \<longleftrightarrow>
     (\<forall>h. issued_hash w m h \<longrightarrow> rd_refresh r h = None \<longrightarrow> rd_refresh r' h = None \<and> rd_grace r' h = rd_grace r h)"

definition refresh_step :: "auth_env \<Rightarrow> nat \<Rightarrow> nat \<Rightarrow> redis \<Rightarrow> redis \<Rightarrow> bool" where
  "refresh_step w m n r r' \<longleftrightarrow>
     versions_grow r r' \<and> spent_stay w m r r' \<and> (refresh_issued w n r \<longrightarrow> refresh_issued w n r')"

definition refresh_later :: "auth_env \<Rightarrow> auth_state \<Rightarrow> auth_state \<Rightarrow> bool" where
  "refresh_later w s s' \<longleftrightarrow> au_rands s \<le> au_rands s' \<and> versions_grow (au_redis s) (au_redis s') \<and>
     spent_stay w (au_rands s) (au_redis s) (au_redis s') \<and>
     (refresh_issued w (au_rands s) (au_redis s) \<longrightarrow> refresh_issued w (au_rands s') (au_redis s'))"

lemma versions_grow_refl [simp]: "versions_grow r r"
  by (simp add: versions_grow_def)

lemma versions_grow_trans: "versions_grow r s \<Longrightarrow> versions_grow s t \<Longrightarrow> versions_grow r t"
  unfolding versions_grow_def by (metis le_antisym le_trans)

lemma spent_stay_trans: "m \<le> n \<Longrightarrow> spent_stay w m r s \<Longrightarrow> spent_stay w n s t \<Longrightarrow> spent_stay w m r t"
  unfolding spent_stay_def by (metis issued_hash_mono)

lemma refresh_step_refl: "refresh_step w m n r r"
  by (simp add: refresh_step_def spent_stay_def)

lemma refresh_step_trans: "refresh_step w m n r s \<Longrightarrow> refresh_step w m n s t \<Longrightarrow> refresh_step w m n r t"
  unfolding refresh_step_def by (meson versions_grow_trans spent_stay_trans order_refl)

lemma refresh_issued_mono: "refresh_issued w m r \<Longrightarrow> m \<le> n \<Longrightarrow> refresh_issued w n r"
  unfolding refresh_issued_def by (meson issued_hash_mono)

lemma refresh_laterI:
  "refresh_step w (au_rands s) (au_rands s') (au_redis s) (au_redis s') \<Longrightarrow> au_rands s \<le> au_rands s' \<Longrightarrow> refresh_later w s s'"
  unfolding refresh_step_def refresh_later_def by (meson refresh_issued_mono)

text \<open>A redis that only differs in sessions and sets of session ids.\<close>

lemma refresh_step_same:
  "rd_refresh r' = rd_refresh r \<Longrightarrow> rd_grace r' = rd_grace r \<Longrightarrow> rd_version r' = rd_version r \<Longrightarrow> refresh_step w m n r r'"
  by (simp add: refresh_step_def versions_grow_def spent_stay_def refresh_issued_def)

lemma harmless_steps:
  "refresh_step w m n r (set_session now sid st ttl r)" "refresh_step w m n r (del_session sid r)"
  "refresh_step w m n r (add_user_session u sid r)" "refresh_step w m n r (rem_user_session u sid r)"
  "refresh_step w m n r (del_user_sessions u r)"
  by (rule refresh_step_same; simp add: set_session_def del_session_def add_user_session_def rem_user_session_def
      del_user_sessions_def)+

lemma del_refresh_step: "refresh_step w m n r (del_refresh h r)"
  by (auto simp: refresh_step_def versions_grow_def spent_stay_def refresh_issued_def del_refresh_def)

lemma set_refresh_step:
  "issued_hash w n h \<Longrightarrow> \<not> issued_hash w m h \<Longrightarrow> refresh_step w m n r (set_refresh now h sid ttl r)"
  by (auto simp: refresh_step_def versions_grow_def spent_stay_def refresh_issued_def set_refresh_def)

lemma set_grace_step: "rd_refresh r h \<noteq> None \<Longrightarrow> refresh_step w m n r (set_grace now h rec ttl r)"
  by (auto simp: refresh_step_def versions_grow_def spent_stay_def refresh_issued_def set_grace_def)

lemmas command_steps = harmless_steps del_refresh_step

interpretation refresh_run: run_relation "refresh_later w" for w
proof
  fix s show "refresh_later w s s" by (simp add: refresh_laterI refresh_step_refl)
next
  fix s t u assume "refresh_later w s t" and "refresh_later w t u"
  then show "refresh_later w s u"
    unfolding refresh_later_def by (meson le_trans versions_grow_trans spent_stay_trans)
qed

lemma write_counters [simp]:
  "au_rands (snd (redis_write env op args cmds s)) = au_rands s" "au_sids (snd (redis_write env op args cmds s)) = au_sids s"
  by (simp_all add: redis_write_def split: option.splits)

lemma write_rel:
  assumes "\<And>r. Q r r" and "\<And>r s t. Q r s \<Longrightarrow> Q s t \<Longrightarrow> Q r t" and "\<And>c r. c \<in> set cmds \<Longrightarrow> Q r (c r)"
  shows "Q (au_redis s) (au_redis (snd (redis_write env op args cmds s)))"
proof -
  obtain k where "snd (redis_write env op args cmds s) = s\<lparr>au_redis := fold (\<lambda>c. c) (take k cmds) (au_redis s)\<rparr>"
    by (rule redis_write_prefix)
  moreover have "Q (au_redis s) (fold (\<lambda>c. c) (take k cmds) (au_redis s))"
    by (rule fold_prefix [where Q = Q]) (rule assms(1), rule assms(2), assumption+, rule assms(3))
  ultimately show ?thesis by simp
qed

lemma write_later:
  assumes "\<And>c r. c \<in> set cmds \<Longrightarrow> refresh_step w m n r (c r)"
  shows "refresh_step w m n (au_redis s) (au_redis (snd (redis_write env op args cmds s)))"
  by (rule write_rel [where Q = "refresh_step w m n"]) (rule refresh_step_refl, rule refresh_step_trans, assumption+, rule assms)

lemma keeps_write:
  assumes "\<And>c n r. c \<in> set cmds \<Longrightarrow> refresh_step w n n r (c r)"
  shows "keepsM (refresh_later w) (redis_write env op args cmds)"
proof (rule keepsMI)
  fix s :: auth_state
  show "refresh_later w s (snd (redis_write env op args cmds s))"
    by (rule refresh_laterI) (simp_all add: write_later assms)
qed

subsection \<open>The session manager\<close>

lemma same_later: "same_sessions s s' \<Longrightarrow> refresh_later w s s'"
  by (rule refresh_laterI) (simp_all add: same_sessions_def refresh_step_refl)

lemma rands_later: "au_rands s \<le> n \<Longrightarrow> refresh_later w s (s\<lparr>au_rands := n\<rparr>)"
  by (rule refresh_laterI) (simp_all add: refresh_step_refl)

lemmas later_steps =
  refresh_run.keeps_bindM refresh_run.keeps_mapErrM refresh_run.keeps_tryM refresh_run.keeps_returnM refresh_run.keeps_throwM
  refresh_run.keeps_readM refresh_run.keeps_getM refresh_run.keeps_failIf refresh_run.keeps_forM refresh_run.keeps_foldM
  refresh_run.keeps_If refresh_run.keeps_case_option refresh_run.keeps_case_sum

lemma Revoke_later: "keepsM (refresh_later w) (Revoke env sid)"
  unfolding Revoke_def SessionRevoked_def
  by (intro later_steps keeps_write refresh_run.keeps_modifyM same_later) (auto intro: command_steps simp: same_sessions_def)

lemma ignore_later: "keepsM (refresh_later w) m \<Longrightarrow> keepsM (refresh_later w) (ignore m)"
  unfolding ignore_def by (intro later_steps)

lemma keeps_pair_later: "(\<And>a b. keepsM (refresh_later w) (k a b)) \<Longrightarrow> keepsM (refresh_later w) (case z of (a, b) \<Rightarrow> k a b)"
  by (cases z) simp

lemma enforce_later: "keepsM (refresh_later w) (enforceMaxSessions env u)"
  unfolding enforceMaxSessions_def load_session_age_def
  by (intro later_steps ignore_later keeps_pair_later Revoke_later keeps_write) (auto intro: command_steps)

lemma Validate_later: "keepsM (refresh_later w) (ValidateRefreshToken env tok)"
  unfolding ValidateRefreshToken_def Let_def
  by (intro later_steps ignore_later Revoke_later keeps_write) (auto intro: command_steps)

lemma Touch_later: "keepsM (refresh_later w) (TouchSession env sid)"
  unfolding TouchSession_def Let_def
  by (intro later_steps keeps_write) (auto intro: command_steps)

lemma flush_fetch_later: "keepsM (refresh_later w) (flush_fetch env)"
  unfolding flush_fetch_def
  by (intro later_steps refresh_run.keeps_modifyM same_later) (auto simp: same_sessions_def)

lemma flush_write_later: "keepsM (refresh_later w) (flush_write env found)"
  unfolding flush_write_def Let_def
  by (intro later_steps ignore_later keeps_write) (auto intro: command_steps)

text \<open>What \<open>Create\<close> stores and the pipeline that stores it, once the token \<open>t\<close> and the identifier are drawn.\<close>

definition created :: "auth_env \<Rightarrow> string \<Rightarrow> string \<Rightarrow> string \<Rightarrow> string \<Rightarrow> string \<Rightarrow> sessionStorable" where
  "created env u d i t sid =
     \<lparr>Ss_ID = sid, Ss_UserID = u, Ss_RefreshTokenHash = hashToken env t, Ss_DeviceInfo = d, Ss_IPAddress = i,
      Ss_CreatedAt = ae_now env, Ss_ExpiresAt = ae_now env + ae_refreshTTL env, Ss_LastActiveAt = ae_now env\<rparr>"

definition create_cmds :: "auth_env \<Rightarrow> string \<Rightarrow> string \<Rightarrow> string \<Rightarrow> string \<Rightarrow> string \<Rightarrow> (redis \<Rightarrow> redis) list" where
  "create_cmds env u d i t sid =
     [set_session (ae_now env) sid (created env u d i t sid) (ae_refreshTTL env),
      set_refresh (ae_now env) (hashToken env t) sid (ae_refreshTTL env), add_user_session u sid]"

lemma Create_run:
  assumes "ae_rand env (au_rands s) = Inr t" and "sid = ae_sessionID env (au_sids s)"
  shows "Sessions_Create env u d i s =
      bindM (mapErrM (Wrapf ''store session in redis'') (redis_write env ''Create'' [sid] (create_cmds env u d i t sid))) (\<lambda>_.
        bindM (ignore (enforceMaxSessions env u)) (\<lambda>_. returnM (toSession (created env u d i t sid), t)))
        (s\<lparr>au_rands := Suc (au_rands s), au_sids := Suc (au_sids s)\<rparr>)"
proof -
  have token: "mapErrM (Wrapf ''generate refresh token'') (generateRefreshToken env) s =
      (Inr (t, hashToken env t), s\<lparr>au_rands := Suc (au_rands s)\<rparr>)"
    by (simp add: generateRefreshToken_def rand_Read_def assms(1) monad_simps)
  have draw: "session_New env (s\<lparr>au_rands := Suc (au_rands s)\<rparr>) =
      (Inr sid, s\<lparr>au_rands := Suc (au_rands s), au_sids := Suc (au_sids s)\<rparr>)"
    by (simp add: session_New_def assms(2))
  show ?thesis
    by (simp add: Sessions_Create_def bindM_step [where m = "mapErrM _ _", OF token] bindM_step [where m = "session_New _", OF draw] Let_def create_cmds_def created_def)
qed

lemma Create_fails:
  "ae_rand env (au_rands s) = Inl e \<Longrightarrow> snd (Sessions_Create env u d i s) = s\<lparr>au_rands := Suc (au_rands s)\<rparr>"
  by (simp add: Sessions_Create_def generateRefreshToken_def rand_Read_def monad_simps)

lemma Create_later:
  assumes "same_world w env"
  shows "keepsM (refresh_later w) (Sessions_Create env u d i)"
proof (rule keepsMI)
  fix s :: auth_state
  show "refresh_later w s (snd (Sessions_Create env u d i s))"
  proof (cases "ae_rand env (au_rands s)")
    case (Inl e)
    then show ?thesis by (simp add: Create_fails rands_later)
  next
    case (Inr t)
    let ?s1 = "s\<lparr>au_rands := Suc (au_rands s), au_sids := Suc (au_sids s)\<rparr>"
    let ?sid = "ae_sessionID env (au_sids s)"
    have "refresh_step w (au_rands s) (Suc (au_rands s)) r (c r)" if "c \<in> set (create_cmds env u d i t ?sid)" for c r
      using that unfolding create_cmds_def
      by (auto intro: command_steps set_refresh_step issued_hash_new [OF assms Inr] simp: fresh_hash [OF assms Inr])
    then have "refresh_later w s (snd (mapErrM (Wrapf ''store session in redis'')
        (redis_write env ''Create'' [?sid] (create_cmds env u d i t ?sid)) ?s1))"
      unfolding snd_mapErrM by (intro refresh_laterI) (simp_all add: write_later [where s = ?s1, simplified])
    then show ?thesis
      unfolding Create_run [OF Inr refl]
      by (rule refresh_run.after_bindM) (intro later_steps ignore_later enforce_later)
  qed
qed

subsection \<open>Rotation\<close>

lemma redis_getD: "redis_get now m k = Some v \<Longrightarrow> \<exists>e. m k = Some (v, e)"
  by (auto simp: redis_get_def split: option.splits if_splits)

lemma redis_read_Inr: "redis_read env op args f s = Inr x \<longleftrightarrow> ae_redis env op args = None \<and> x = f (au_redis s)"
  by (auto simp: redis_read_def split: option.splits)

lemmas redis_reads = get_session_def get_refresh_def get_grace_def get_user_sessions_def redis_read_Inr

lemma prepare_run:
  assumes "rotate_prepare env sid h s = (Inr ro, s')"
  obtains st where "redis_get (ae_now env) (rd_refresh (au_redis s)) h = Some sid"
    and "redis_get (ae_now env) (rd_sessions (au_redis s)) sid = Some st"
    and "ae_now env < Ss_ExpiresAt st"
    and "ae_rand env (au_rands s) = Inr (ro_Token ro)"
    and "ro = \<lparr>ro_SessionID = sid, ro_OldHash = h, ro_Version = rd_version (au_redis s) h,
               ro_Session = st\<lparr>Ss_RefreshTokenHash := hashToken env (ro_Token ro), Ss_LastActiveAt := ae_now env\<rparr>,
               ro_TTL = Ss_ExpiresAt st - ae_now env, ro_Token = ro_Token ro\<rparr>"
    and "s' = s\<lparr>au_rands := Suc (au_rands s)\<rparr>"
  using assms
  by (auto simp: rotate_prepare_def run_Inr redis_reads Let_def generateRefreshToken_def rand_Read_def split: option.splits)

text \<open>Up to \<open>EXEC\<close> nothing changes but the number of random tokens drawn.\<close>

definition only_rands :: "auth_state \<Rightarrow> auth_state \<Rightarrow> bool" where
  "only_rands s s' \<longleftrightarrow> (\<exists>n \<ge> au_rands s. s' = s\<lparr>au_rands := n\<rparr>)"

interpretation draws: run_relation only_rands
proof
  fix s show "only_rands s s" by (auto simp: only_rands_def intro: exI [of _ "au_rands s"])
next
  fix s t u assume "only_rands s t" and "only_rands t u"
  then obtain m n where "au_rands s \<le> m" "m \<le> n" "u = s\<lparr>au_rands := n\<rparr>"
    by (auto simp: only_rands_def)
  then show "only_rands s u" unfolding only_rands_def by (intro exI [of _ n]) simp
qed

lemma generate_rands: "keepsM only_rands (generateRefreshToken env)"
  unfolding generateRefreshToken_def
proof (intro draws.keeps_bindM draws.keeps_mapErrM draws.keeps_returnM keepsMI)
  fix s show "only_rands s (snd (rand_Read env s))"
    by (auto simp: rand_Read_def only_rands_def intro: exI [of _ "Suc (au_rands s)"])
qed

lemma prepare_rands: "keepsM only_rands (rotate_prepare env sid h)"
  unfolding rotate_prepare_def Let_def split_def
  by (intro draws.keeps_bindM draws.keeps_mapErrM draws.keeps_getM draws.keeps_readM draws.keeps_failIf draws.keeps_case_option
      draws.keeps_throwM draws.keeps_returnM generate_rands)

lemma prepare_later: "keepsM (refresh_later w) (rotate_prepare env sid h)"
  using prepare_rands [of env sid h] rands_later unfolding keepsM_def only_rands_def by metis

definition rotated :: "auth_env \<Rightarrow> rotation \<Rightarrow> redis \<Rightarrow> redis" where
  "rotated env ro r = fold (\<lambda>c. c) (rotation_cmds env ro) r"

lemma commit_state:
  "snd (rotate_commit env ro s) = s \<or>
   rd_version (au_redis s) (ro_OldHash ro) = ro_Version ro \<and> snd (rotate_commit env ro s) = s\<lparr>au_redis := rotated env ro (au_redis s)\<rparr>"
  by (auto simp: rotate_commit_def rotated_def redis_exec_def monad_simps split: option.splits)

lemma commit_run:
  assumes "rotate_commit env ro s = (Inr tok, s')"
  shows "rd_version (au_redis s) (ro_OldHash ro) = ro_Version ro" and "tok = ro_Token ro"
    and "s' = s\<lparr>au_redis := rotated env ro (au_redis s)\<rparr>"
  using assms by (auto simp: rotate_commit_def rotated_def redis_exec_def run_Inr split: if_splits option.splits)

lemma rotated_step:
  assumes "rd_refresh r (ro_OldHash ro) \<noteq> None" and "issued_hash w n (Ss_RefreshTokenHash (ro_Session ro))"
    and "\<not> issued_hash w m (Ss_RefreshTokenHash (ro_Session ro))"
  shows "refresh_step w m n r (rotated env ro r)"
proof -
  let ?T = "\<lambda>q. del_refresh (ro_OldHash ro) (set_refresh (ae_now env) (Ss_RefreshTokenHash (ro_Session ro)) (ro_SessionID ro)
      (ro_TTL ro) (set_session (ae_now env) (ro_SessionID ro) (ro_Session ro) (ro_TTL ro) q))"
  have tail: "refresh_step w m n q (?T q)" for q
    by (rule refresh_step_trans [OF harmless_steps(1) refresh_step_trans [OF set_refresh_step del_refresh_step]]) (rule assms)+
  then show ?thesis
    using refresh_step_trans [OF set_grace_step tail] assms(1) by (simp add: rotated_def rotation_cmds_def Let_def)
qed

lemma RotateRefreshToken_later:
  assumes "same_world w env"
  shows "keepsM (refresh_later w) (RotateRefreshToken env sid h)"
proof (rule keepsMI)
  fix s :: auth_state
  obtain res s1 where prepared: "rotate_prepare env sid h s = (res, s1)" by (cases "rotate_prepare env sid h s")
  have later: "refresh_later w s s1"
    using keepsMD [where R = "refresh_later w", OF prepare_later, of s env sid h] prepared by simp
  show "refresh_later w s (snd (RotateRefreshToken env sid h s))"
  proof (cases res)
    case (Inl e)
    with prepared later show ?thesis by (simp add: RotateRefreshToken_def bindM_def)
  next
    case (Inr ro)
    with prepared have snd_rotate: "snd (RotateRefreshToken env sid h s) = snd (rotate_commit env ro s1)"
      by (simp add: RotateRefreshToken_def bindM_def)
    from prepared Inr have run: "rotate_prepare env sid h s = (Inr ro, s1)" by simp
    obtain st where st: "redis_get (ae_now env) (rd_refresh (au_redis s)) h = Some sid"
      "ae_rand env (au_rands s) = Inr (ro_Token ro)" "s1 = s\<lparr>au_rands := Suc (au_rands s)\<rparr>"
      "ro = \<lparr>ro_SessionID = sid, ro_OldHash = h, ro_Version = rd_version (au_redis s) h,
               ro_Session = st\<lparr>Ss_RefreshTokenHash := hashToken env (ro_Token ro), Ss_LastActiveAt := ae_now env\<rparr>,
               ro_TTL = Ss_ExpiresAt st - ae_now env, ro_Token = ro_Token ro\<rparr>"
      using run by (rule prepare_run)
    have "ro_OldHash ro = h" "Ss_RefreshTokenHash (ro_Session ro) = hashToken env (ro_Token ro)"
      using arg_cong [OF st(4), of ro_OldHash] arg_cong [OF st(4), of ro_Session] by simp_all
    then have "refresh_step w (au_rands s) (Suc (au_rands s)) (au_redis s) (rotated env ro (au_redis s))"
      using redis_getD [OF st(1)] issued_hash_new [OF assms st(2)] fresh_hash [OF assms st(2)] by (intro rotated_step) auto
    then have "refresh_later w s (s1\<lparr>au_redis := rotated env ro (au_redis s1)\<rparr>)"
      by (intro refresh_laterI) (simp_all add: st(3))
    then show ?thesis
      using commit_state [of env ro s1] later unfolding snd_rotate by auto
  qed
qed

interpretation tokens: session_writes "refresh_later w" "same_world w" for w
proof unfold_locales
  show "keepsM (refresh_later w) (redis_write env ''SREM user_sessions'' [sid] [rem_user_session u sid])" for env sid u
    by (rule keeps_write) (auto intro: command_steps)
  show "keepsM (refresh_later w) (redis_write env ''DEL user_sessions'' [u] [del_user_sessions u])" for env u
    by (rule keeps_write) (auto intro: command_steps)
  show "keepsM (refresh_later w) (flushTouches env)" for env
    unfolding flushTouches_def by (intro later_steps flush_fetch_later flush_write_later)
qed (auto intro: same_later Revoke_later Create_later Validate_later RotateRefreshToken_later Touch_later)

end
