(* ===== verification/SessionInvariant.thy ===== *)
theory SessionInvariant
  imports TokenInvariant
begin

text \<open>
  What every request keeps of the sessions: each is stored under its own identifier, its user's set and its only
  refresh key point to it, and an identifier that was given out and whose session is gone never gets one again.
\<close>

subsection \<open>The invariant\<close>

definition issued_sid :: "auth_env \<Rightarrow> nat \<Rightarrow> string \<Rightarrow> bool" where
  "issued_sid w n sid \<longleftrightarrow> (\<exists>k<n. sid = ae_sessionID w k)"

lemma issued_sid_mono: "issued_sid w m sid \<Longrightarrow> m \<le> n \<Longrightarrow> issued_sid w n sid"
  by (auto simp: issued_sid_def intro: less_le_trans)

lemma fresh_sid: "same_world w env \<Longrightarrow> \<not> issued_sid w n (ae_sessionID env n)"
  by (auto simp: issued_sid_def same_world_def fresh_world_def inj_def)

lemma new_sid: "same_world w env \<Longrightarrow> issued_sid w (Suc n) (ae_sessionID env n)"
  by (auto simp: issued_sid_def same_world_def)

text \<open>The keys without their expiry.\<close>

definition stored :: "redis \<Rightarrow> string \<Rightarrow> sessionStorable option" where
  "stored r sid = map_option fst (rd_sessions r sid)"

definition owner_of :: "redis \<Rightarrow> string \<Rightarrow> string option" where
  "owner_of r h = map_option fst (rd_refresh r h)"

lemma views [simp]:
  "stored (set_session now sid st ttl r) = (stored r)(sid \<mapsto> st)"
  "stored (del_session sid r) = (stored r)(sid := None)"
  "stored (set_refresh now h sid ttl r) = stored r" "stored (del_refresh h r) = stored r"
  "stored (set_grace now h g ttl r) = stored r" "stored (add_user_session u sid r) = stored r"
  "stored (rem_user_session u sid r) = stored r" "stored (del_user_sessions u r) = stored r"
  "owner_of (set_refresh now h sid ttl r) = (owner_of r)(h \<mapsto> sid)"
  "owner_of (del_refresh h r) = (owner_of r)(h := None)"
  "owner_of (set_session now sid st ttl r) = owner_of r" "owner_of (del_session sid r) = owner_of r"
  "owner_of (set_grace now h g ttl r) = owner_of r" "owner_of (add_user_session u sid r) = owner_of r"
  "owner_of (rem_user_session u sid r) = owner_of r" "owner_of (del_user_sessions u r) = owner_of r"
  "rd_users (set_session now sid st ttl r) = rd_users r" "rd_users (del_session sid r) = rd_users r"
  "rd_users (set_refresh now h sid ttl r) = rd_users r" "rd_users (del_refresh h r) = rd_users r"
  "rd_users (set_grace now h g ttl r) = rd_users r"
  by (auto simp: stored_def owner_of_def set_session_def del_session_def set_refresh_def del_refresh_def set_grace_def
      add_user_session_def rem_user_session_def del_user_sessions_def intro!: ext)

lemma users_views:
  "rd_users (add_user_session u sid r) u' =
     (if u' = u \<and> sid \<notin> set (rd_users r u) then rd_users r u @ [sid] else rd_users r u')"
  "rd_users (rem_user_session u sid r) u' = (if u' = u then filter (\<lambda>x. x \<noteq> sid) (rd_users r u) else rd_users r u')"
  "rd_users (del_user_sessions u r) u' = (if u' = u then [] else rd_users r u')"
  by (auto simp: add_user_session_def rem_user_session_def del_user_sessions_def)

text \<open>Sessions under their identifiers; refresh keys; the sets of the users.\<close>

definition sessions_ok :: "auth_env \<Rightarrow> nat \<Rightarrow> redis \<Rightarrow> bool" where
  "sessions_ok w n r \<longleftrightarrow> (\<forall>sid st. stored r sid = Some st \<longrightarrow> issued_sid w n sid \<and> Ss_ID st = sid)"

definition refresh_ok :: "auth_env \<Rightarrow> nat \<Rightarrow> redis \<Rightarrow> bool" where
  "refresh_ok w n r \<longleftrightarrow>
     (\<forall>h sid. owner_of r h = Some sid \<longrightarrow> issued_sid w n sid \<and>
        (\<forall>st. stored r sid = Some st \<longrightarrow> Ss_RefreshTokenHash st = h))"

definition users_ok :: "auth_env \<Rightarrow> nat \<Rightarrow> redis \<Rightarrow> bool" where
  "users_ok w n r \<longleftrightarrow>
     (\<forall>u. distinct (rd_users r u) \<and>
        (\<forall>sid \<in> set (rd_users r u). issued_sid w n sid \<and> (\<forall>st. stored r sid = Some st \<longrightarrow> Ss_UserID st = u)))"

definition redis_ok :: "auth_env \<Rightarrow> nat \<Rightarrow> redis \<Rightarrow> bool" where
  "redis_ok w n r \<longleftrightarrow> sessions_ok w n r \<and> refresh_ok w n r \<and> users_ok w n r"

definition session_inv :: "auth_env \<Rightarrow> auth_state \<Rightarrow> bool" where
  "session_inv w s \<longleftrightarrow> redis_ok w (au_sids s) (au_redis s)"

definition gone_stay :: "auth_env \<Rightarrow> nat \<Rightarrow> redis \<Rightarrow> redis \<Rightarrow> bool" where
  "gone_stay w m r r' \<longleftrightarrow> (\<forall>sid. issued_sid w m sid \<longrightarrow> stored r sid = None \<longrightarrow> stored r' sid = None)"

definition session_step :: "auth_env \<Rightarrow> nat \<Rightarrow> nat \<Rightarrow> redis \<Rightarrow> redis \<Rightarrow> bool" where
  "session_step w m n r r' \<longleftrightarrow> gone_stay w m r r' \<and> (redis_ok w n r \<longrightarrow> redis_ok w n r')"

definition session_later :: "auth_env \<Rightarrow> auth_state \<Rightarrow> auth_state \<Rightarrow> bool" where
  "session_later w s s' \<longleftrightarrow> au_sids s \<le> au_sids s' \<and> gone_stay w (au_sids s) (au_redis s) (au_redis s') \<and>
     (session_inv w s \<longrightarrow> session_inv w s')"

lemmas redis_ok_defs = redis_ok_def sessions_ok_def refresh_ok_def users_ok_def

lemma ok_views:
  "stored r' = stored r \<Longrightarrow> sessions_ok w n r' = sessions_ok w n r"
  "stored r' = stored r \<Longrightarrow> owner_of r' = owner_of r \<Longrightarrow> refresh_ok w n r' = refresh_ok w n r"
  "stored r' = stored r \<Longrightarrow> rd_users r' = rd_users r \<Longrightarrow> users_ok w n r' = users_ok w n r"
  by (simp_all only: sessions_ok_def refresh_ok_def users_ok_def)

lemma refresh_okI:
  "(\<And>h sid. owner_of r h = Some sid \<Longrightarrow> issued_sid w n sid) \<Longrightarrow>
   (\<And>h sid st. owner_of r h = Some sid \<Longrightarrow> stored r sid = Some st \<Longrightarrow> Ss_RefreshTokenHash st = h) \<Longrightarrow> refresh_ok w n r"
  by (simp add: refresh_ok_def)

lemma refresh_okD:
  assumes "refresh_ok w n r" and "owner_of r h = Some sid"
  shows "issued_sid w n sid" and "stored r sid = Some st \<Longrightarrow> Ss_RefreshTokenHash st = h"
  using assms unfolding refresh_ok_def by blast+

lemma users_okI:
  "(\<And>u. distinct (rd_users r u)) \<Longrightarrow> (\<And>u sid. sid \<in> set (rd_users r u) \<Longrightarrow> issued_sid w n sid) \<Longrightarrow>
   (\<And>u sid st. sid \<in> set (rd_users r u) \<Longrightarrow> stored r sid = Some st \<Longrightarrow> Ss_UserID st = u) \<Longrightarrow> users_ok w n r"
  by (simp add: users_ok_def)

lemma users_okD:
  assumes "users_ok w n r"
  shows "distinct (rd_users r u)" and "sid \<in> set (rd_users r u) \<Longrightarrow> issued_sid w n sid"
    and "sid \<in> set (rd_users r u) \<Longrightarrow> stored r sid = Some st \<Longrightarrow> Ss_UserID st = u"
  using assms unfolding users_ok_def by blast+

lemma redis_ok_mono: "redis_ok w m r \<Longrightarrow> m \<le> n \<Longrightarrow> redis_ok w n r"
  unfolding redis_ok_defs by (meson issued_sid_mono)

lemma gone_stay_refl [simp]: "gone_stay w m r r"
  by (simp add: gone_stay_def)

lemma gone_stay_trans: "m \<le> n \<Longrightarrow> gone_stay w m r s \<Longrightarrow> gone_stay w n s t \<Longrightarrow> gone_stay w m r t"
  unfolding gone_stay_def by (meson issued_sid_mono)

lemma session_step_refl: "session_step w m n r r"
  by (simp add: session_step_def)

lemma session_step_trans: "session_step w m n r s \<Longrightarrow> session_step w m n s t \<Longrightarrow> session_step w m n r t"
  unfolding session_step_def by (meson gone_stay_trans order_refl)

lemma session_laterI:
  "session_step w (au_sids s) (au_sids s') (au_redis s) (au_redis s') \<Longrightarrow> au_sids s \<le> au_sids s' \<Longrightarrow> session_later w s s'"
  unfolding session_step_def session_later_def session_inv_def by (meson redis_ok_mono)

interpretation session_run: run_relation "session_later w" for w
proof
  fix s show "session_later w s s" by (simp add: session_laterI session_step_refl)
next
  fix s t u assume "session_later w s t" and "session_later w t u"
  then show "session_later w s u"
    unfolding session_later_def by (meson le_trans gone_stay_trans)
qed

subsection \<open>Commands\<close>

text \<open>Redis may lose sessions, refresh keys and members of the sets at any time.\<close>

lemma fewer_step:
  assumes "\<And>sid. stored r' sid = stored r sid \<or> stored r' sid = None"
    and "\<And>h. owner_of r' h = owner_of r h \<or> owner_of r' h = None"
    and "\<And>u. set (rd_users r' u) \<subseteq> set (rd_users r u) \<and> (distinct (rd_users r u) \<longrightarrow> distinct (rd_users r' u))"
  shows "session_step w m n r r'"
proof -
  have st: "stored r' sid = Some st \<Longrightarrow> stored r sid = Some st" for sid st
    using assms(1) [of sid] by auto
  have ow: "owner_of r' h = Some sid \<Longrightarrow> owner_of r h = Some sid" for h sid
    using assms(2) [of h] by auto
  have "gone_stay w m r r'" unfolding gone_stay_def using st by (metis not_Some_eq)
  moreover have "sessions_ok w n r \<Longrightarrow> sessions_ok w n r'" unfolding sessions_ok_def using st by blast
  moreover have "refresh_ok w n r \<Longrightarrow> refresh_ok w n r'" unfolding refresh_ok_def using st ow by blast
  moreover have "users_ok w n r \<Longrightarrow> users_ok w n r'" unfolding users_ok_def using st assms(3) by blast
  ultimately show ?thesis by (simp add: session_step_def redis_ok_def)
qed

lemma removals:
  "session_step w m n r (del_session sid r)" "session_step w m n r (del_refresh h r)"
  "session_step w m n r (rem_user_session u sid r)" "session_step w m n r (del_user_sessions u r)"
  by (rule fewer_step; auto simp: users_views split: if_splits)+

text \<open>A session may be overwritten by one with the same identifier, user and token hash.\<close>

definition same_session :: "redis \<Rightarrow> string \<Rightarrow> sessionStorable \<Rightarrow> bool" where
  "same_session r sid st \<longleftrightarrow>
     (\<exists>st0. stored r sid = Some st0 \<and> Ss_ID st0 = Ss_ID st \<and> Ss_UserID st0 = Ss_UserID st \<and>
        Ss_RefreshTokenHash st0 = Ss_RefreshTokenHash st)"

lemma overwrite_step:
  assumes "same_session r sid st"
  shows "session_step w m n r (set_session now sid st ttl r)"
proof -
  obtain st0 where st0: "stored r sid = Some st0" "Ss_ID st0 = Ss_ID st" "Ss_UserID st0 = Ss_UserID st"
    "Ss_RefreshTokenHash st0 = Ss_RefreshTokenHash st"
    using assms by (auto simp: same_session_def)
  have "gone_stay w m r (set_session now sid st ttl r)" using st0(1) by (auto simp: gone_stay_def)
  moreover have "sessions_ok w n r \<Longrightarrow> sessions_ok w n (set_session now sid st ttl r)"
    using st0 by (auto simp: sessions_ok_def)
  moreover have "refresh_ok w n (set_session now sid st ttl r)" if ok: "refresh_ok w n r"
  proof (rule refresh_okI; unfold views)
    show "issued_sid w n sid'" if "owner_of r h = Some sid'" for h sid' using ok that by (rule refresh_okD)
    show "Ss_RefreshTokenHash st' = h" if "owner_of r h = Some sid'" "((stored r)(sid \<mapsto> st)) sid' = Some st'" for h sid' st'
      using that st0(1,4) refresh_okD(2) [OF ok that(1), of st0] refresh_okD(2) [OF ok that(1), of st'] by (cases "sid' = sid") auto
  qed
  moreover have "users_ok w n (set_session now sid st ttl r)" if ok: "users_ok w n r"
  proof (rule users_okI; unfold views)
    show "Ss_UserID st' = u" if "sid' \<in> set (rd_users r u)" "((stored r)(sid \<mapsto> st)) sid' = Some st'" for u sid' st'
      using that st0(1,3) users_okD(3) [OF ok that(1), of st0] users_okD(3) [OF ok that(1), of st'] by (cases "sid' = sid") auto
  qed (rule users_okD [OF ok], assumption?)+
  ultimately show ?thesis by (simp add: session_step_def redis_ok_def)
qed

lemma same_session_overwritten:
  "same_session r sid st \<Longrightarrow> same_session r sid' st' \<Longrightarrow> same_session (set_session now sid st ttl r) sid' st'"
  by (auto simp: same_session_def)

lemma overwrite_steps:
  assumes "\<And>sid st. (sid, st) \<in> set ws \<Longrightarrow> same_session r sid (g st)"
  shows "session_step w m n r (fold (\<lambda>c. c) (map (\<lambda>(sid, st). set_session now sid (g st) (ttl st)) ws) r)"
  using assms
proof (induction ws arbitrary: r)
  case Nil
  then show ?case by (simp add: session_step_refl)
next
  case (Cons p ws)
  obtain sid st where p: "p = (sid, st)" by (cases p)
  let ?r = "set_session now sid (g st) (ttl st) r"
  have "same_session ?r sid' (g st')" if "(sid', st') \<in> set ws" for sid' st'
    using Cons.prems that p by (auto intro: same_session_overwritten)
  from Cons.IH [OF this] have "session_step w m n ?r (fold (\<lambda>c. c) (map (\<lambda>(sid, st). set_session now sid (g st) (ttl st)) ws) ?r)" .
  moreover have "session_step w m n r ?r"
    using Cons.prems p by (auto intro: overwrite_step)
  ultimately show ?case
    using p by (auto intro: session_step_trans)
qed

text \<open>The three commands of \<open>Create\<close>, whatever prefix of them ran, for an identifier not given out before.\<close>

lemma create_steps:
  assumes ok: "redis_ok w m r" and "\<not> issued_sid w m sid" and "issued_sid w n sid" and "m \<le> n" and "Ss_ID st = sid"
    and "h = Ss_RefreshTokenHash st" and "u = Ss_UserID st"
  shows "redis_ok w n (set_session now sid st ttl r)"
    and "redis_ok w n (set_refresh now h sid ttl (set_session now sid st ttl r))"
    and "redis_ok w n (add_user_session u sid (set_refresh now h sid ttl (set_session now sid st ttl r)))"
proof -
  have fresh: "owner_of r h' \<noteq> Some sid" "sid \<notin> set (rd_users r u')" for h' u'
    using ok assms(2) by (auto simp: redis_ok_defs)
  have r: "redis_ok w n r" using ok assms(4) by (rule redis_ok_mono)
  let ?a = "set_session now sid st ttl r" and ?b = "set_refresh now h sid ttl (set_session now sid st ttl r)"
  have "sessions_ok w n ?a" using r assms(3,5) by (auto simp: redis_ok_def sessions_ok_def)
  moreover have "users_ok w n ?a" using r fresh(2) by (auto simp: redis_ok_def users_ok_def)
  moreover have "refresh_ok w n ?a"
  proof (rule refresh_okI; unfold views)
    show "issued_sid w n sid'" if "owner_of r h' = Some sid'" for h' sid'
      using r that by (auto simp: redis_ok_def intro: refresh_okD(1))
    show "Ss_RefreshTokenHash st' = h'" if "owner_of r h' = Some sid'" "((stored r)(sid \<mapsto> st)) sid' = Some st'" for h' sid' st'
      using that fresh(1) [of h'] refresh_okD(2) [OF _ that(1)] r by (cases "sid' = sid") (auto simp: redis_ok_def)
  qed
  ultimately show a: "redis_ok w n ?a" by (simp add: redis_ok_def)
  have "refresh_ok w n ?b"
  proof (rule refresh_okI; unfold views)
    show "issued_sid w n sid'" if "((owner_of r)(h \<mapsto> sid)) h' = Some sid'" for h' sid'
      using r that assms(3) by (cases "h' = h") (auto simp: redis_ok_def intro: refresh_okD(1))
    show "Ss_RefreshTokenHash st' = h'"
      if "((owner_of r)(h \<mapsto> sid)) h' = Some sid'" "((stored r)(sid \<mapsto> st)) sid' = Some st'" for h' sid' st'
    proof (cases "h' = h")
      case True
      with that have "sid' = sid" by simp
      with that have "st' = st" by simp
      then show ?thesis using assms(6) True by (rule_tac sym) simp
    next
      case False
      with that(1) have own: "owner_of r h' = Some sid'" by simp
      with fresh(1) [of h'] have "sid' \<noteq> sid" by metis
      with that(2) have "stored r sid' = Some st'" by simp
      with r own show ?thesis unfolding redis_ok_def by (blast intro: refresh_okD(2))
    qed
  qed
  then show b: "redis_ok w n ?b"
    using a ok_views(1,3) [of ?b ?a] by (simp add: redis_ok_def)
  have "users_ok w n (add_user_session u sid ?b)"
  proof (rule users_okI)
    have ok: "users_ok w n r" using r by (simp add: redis_ok_def)
    show "distinct (rd_users (add_user_session u sid ?b) u')" for u'
      using users_okD(1) [OF ok] by (simp add: users_views)
    show "issued_sid w n sid'" if "sid' \<in> set (rd_users (add_user_session u sid ?b) u')" for u' sid'
      using that users_okD(2) [OF ok] assms(3) by (auto simp: users_views split: if_splits)
    show "Ss_UserID st' = u'"
      if "sid' \<in> set (rd_users (add_user_session u sid ?b) u')" "stored (add_user_session u sid ?b) sid' = Some st'" for u' sid' st'
    proof (cases "sid' = sid")
      case True
      with that fresh(2) [of u'] assms(7) show ?thesis by (auto simp: users_views split: if_splits)
    next
      case False
      with that have "sid' \<in> set (rd_users r u')" "stored r sid' = Some st'" by (auto simp: users_views split: if_splits)
      then show ?thesis by (rule users_okD(3) [OF ok])
    qed
  qed
  then show "redis_ok w n (add_user_session u sid ?b)"
    using b ok_views(1,2) [of "add_user_session u sid ?b" ?b] by (simp add: redis_ok_def)
qed

text \<open>The transaction of a rotation.\<close>

lemma rotated_views:
  "stored (rotated env ro r) = (stored r)(ro_SessionID ro \<mapsto> ro_Session ro)"
  "owner_of (rotated env ro r) = (owner_of r)(Ss_RefreshTokenHash (ro_Session ro) \<mapsto> ro_SessionID ro, ro_OldHash ro := None)"
  "rd_users (rotated env ro r) = rd_users r"
  by (simp_all add: rotated_def rotation_cmds_def Let_def)

lemma rotated_owner:
  assumes "owner_of (rotated env ro r) h = Some sid"
  shows "h = Ss_RefreshTokenHash (ro_Session ro) \<and> sid = ro_SessionID ro \<or> h \<noteq> ro_OldHash ro \<and> owner_of r h = Some sid"
  using assms by (simp add: rotated_views split: if_splits)

lemma rotated_session_step:
  assumes st0: "stored r (ro_SessionID ro) = Some st0" "Ss_ID st0 = Ss_ID (ro_Session ro)" "Ss_UserID st0 = Ss_UserID (ro_Session ro)"
    and own: "owner_of r (ro_OldHash ro) = Some (ro_SessionID ro)"
  shows "session_step w m n r (rotated env ro r)"
proof -
  have "gone_stay w m r (rotated env ro r)"
    using st0(1) by (auto simp: gone_stay_def rotated_views)
  moreover have "redis_ok w n (rotated env ro r)" if ok: "redis_ok w n r"
  proof -
    from ok have oks: "sessions_ok w n r" "refresh_ok w n r" "users_ok w n r" by (simp_all add: redis_ok_def)
    have "sessions_ok w n (rotated env ro r)"
      using oks(1) st0(1,2) by (auto simp: sessions_ok_def rotated_views)
    moreover have "refresh_ok w n (rotated env ro r)"
    proof (rule refresh_okI)
      fix h sid assume "owner_of (rotated env ro r) h = Some sid"
      then show "issued_sid w n sid"
        using rotated_owner refresh_okD(1) [OF oks(2)] own by blast
    next
      fix h sid st assume "owner_of (rotated env ro r) h = Some sid" and st: "stored (rotated env ro r) sid = Some st"
      then consider "h = Ss_RefreshTokenHash (ro_Session ro)" "sid = ro_SessionID ro"
        | "h \<noteq> ro_OldHash ro" "owner_of r h = Some sid"
        using rotated_owner by blast
      then show "Ss_RefreshTokenHash st = h"
      proof cases
        case 1
        with st show ?thesis by (simp add: rotated_views)
      next
        case 2
        have "sid \<noteq> ro_SessionID ro"
          using refresh_okD(2) [OF oks(2) 2(2), of st0] refresh_okD(2) [OF oks(2) own st0(1)] st0(1) 2(1) by blast
        with st have "stored r sid = Some st" by (simp add: rotated_views)
        then show ?thesis by (rule refresh_okD(2) [OF oks(2) 2(2)])
      qed
    qed
    moreover have "users_ok w n (rotated env ro r)"
    proof (rule users_okI; unfold rotated_views)
      show "Ss_UserID st = u" if "sid \<in> set (rd_users r u)" "((stored r)(ro_SessionID ro \<mapsto> ro_Session ro)) sid = Some st" for u sid st
        using that st0(1,3) users_okD(3) [OF oks(3) that(1), of st0] users_okD(3) [OF oks(3) that(1), of st]
        by (cases "sid = ro_SessionID ro") auto
    qed (rule users_okD [OF oks(3)], assumption?)+
    ultimately show ?thesis by (simp add: redis_ok_def)
  qed
  ultimately show ?thesis by (simp add: session_step_def)
qed

subsection \<open>The session manager\<close>

lemma same_session_later: "same_sessions s s' \<Longrightarrow> session_later w s s'"
  by (rule session_laterI) (simp_all add: same_sessions_def session_step_refl)

lemma keeps_write_session:
  assumes "\<And>c n r. c \<in> set cmds \<Longrightarrow> session_step w n n r (c r)"
  shows "keepsM (session_later w) (redis_write env op args cmds)"
proof (rule keepsMI)
  fix s :: auth_state
  have "session_step w (au_sids s) (au_sids s) (au_redis s) (au_redis (snd (redis_write env op args cmds s)))"
    by (rule write_rel [where Q = "session_step w (au_sids s) (au_sids s)"])
      (rule session_step_refl, rule session_step_trans, assumption+, rule assms)
  then show "session_later w s (snd (redis_write env op args cmds s))"
    by (intro session_laterI) simp_all
qed

lemmas session_later_steps =
  session_run.keeps_bindM session_run.keeps_mapErrM session_run.keeps_tryM session_run.keeps_returnM session_run.keeps_throwM
  session_run.keeps_readM session_run.keeps_getM session_run.keeps_failIf session_run.keeps_forM session_run.keeps_foldM
  session_run.keeps_If session_run.keeps_case_option session_run.keeps_case_sum

lemma Revoke_session: "keepsM (session_later w) (Revoke env sid)"
  unfolding Revoke_def SessionRevoked_def
  by (intro session_later_steps keeps_write_session session_run.keeps_modifyM same_session_later)
    (auto intro: removals simp: same_sessions_def)

lemma ignore_session: "keepsM (session_later w) m \<Longrightarrow> keepsM (session_later w) (ignore m)"
  unfolding ignore_def by (intro session_later_steps)

lemma keeps_pair_session: "(\<And>a b. keepsM (session_later w) (k a b)) \<Longrightarrow> keepsM (session_later w) (case z of (a, b) \<Rightarrow> k a b)"
  by (cases z) simp

lemma enforce_session: "keepsM (session_later w) (enforceMaxSessions env u)"
  unfolding enforceMaxSessions_def load_session_age_def
  by (intro session_later_steps ignore_session keeps_pair_session Revoke_session keeps_write_session) (auto intro: removals)

text \<open>Writing back what was just read.\<close>

lemma overwrite_later:
  assumes "\<And>sid st. (sid, st) \<in> set ws \<Longrightarrow> same_session (au_redis s) sid (g st)"
  shows "session_later w s (snd (redis_write env op args (map (\<lambda>(sid, st). set_session now sid (g st) (ttl st)) ws) s))"
proof -
  let ?cmds = "map (\<lambda>(sid, st). set_session now sid (g st) (ttl st)) ws"
  obtain k where k: "snd (redis_write env op args ?cmds s) = s\<lparr>au_redis := fold (\<lambda>c. c) (take k ?cmds) (au_redis s)\<rparr>"
    by (rule redis_write_prefix)
  have "session_step w (au_sids s) (au_sids s) (au_redis s) (fold (\<lambda>c. c) (take k ?cmds) (au_redis s))"
    unfolding take_map by (rule overwrite_steps) (meson assms in_set_takeD)
  then show ?thesis
    unfolding k by (intro session_laterI) simp_all
qed

lemma same_sessionI:
  "redis_get now (rd_sessions r) sid = Some st0 \<Longrightarrow> Ss_ID st = Ss_ID st0 \<Longrightarrow> Ss_UserID st = Ss_UserID st0 \<Longrightarrow>
   Ss_RefreshTokenHash st = Ss_RefreshTokenHash st0 \<Longrightarrow> same_session r sid st"
  by (auto simp: same_session_def stored_def dest: redis_getD)

lemma overwrite_one:
  assumes "same_session (au_redis s) sid st"
  shows "session_later w s (snd (redis_write env op args [set_session now sid st ttl] s))"
  using overwrite_later [where ws = "[(sid, st)]" and g = id and ttl = "\<lambda>_. ttl", of s w env op args now] assms by simp

lemma Create_write_session:
  assumes "same_world w env" and "sid = ae_sessionID env (au_sids s)"
  shows "session_later w s (snd (redis_write env ''Create'' [sid] (create_cmds env u d i t sid)
    (s\<lparr>au_rands := Suc (au_rands s), au_sids := Suc (au_sids s)\<rparr>)))"
proof -
  let ?s1 = "s\<lparr>au_rands := Suc (au_rands s), au_sids := Suc (au_sids s)\<rparr>"
  note fresh = fresh_sid [OF assms(1), of "au_sids s", folded assms(2)] and new = new_sid [OF assms(1), of "au_sids s", folded assms(2)]
  obtain k where k: "snd (redis_write env ''Create'' [sid] (create_cmds env u d i t sid) ?s1) =
      ?s1\<lparr>au_redis := fold (\<lambda>c. c) (take k (create_cmds env u d i t sid)) (au_redis ?s1)\<rparr>"
    by (rule redis_write_prefix)
  let ?r = "fold (\<lambda>c. c) (take k (create_cmds env u d i t sid)) (au_redis s)"
  consider "k = 0" | "k = 1" | "k = 2" | j where "k = Suc (Suc (Suc j))"
    by (metis One_nat_def not0_implies_Suc numeral_2_eq_2)
  note k_cases = this
  have "redis_ok w (Suc (au_sids s)) ?r" if ok: "redis_ok w (au_sids s) (au_redis s)"
  proof -
    note steps = create_steps [OF ok fresh new, where st = "created env u d i t sid"
        and h = "hashToken env t" and u = u and now = "ae_now env" and ttl = "ae_refreshTTL env"]
    have fields: "Ss_ID (created env u d i t sid) = sid" "hashToken env t = Ss_RefreshTokenHash (created env u d i t sid)"
      "u = Ss_UserID (created env u d i t sid)" "au_sids s \<le> Suc (au_sids s)"
      by (simp_all add: created_def)
    show ?thesis
      using steps(1) [OF fields(4,1,2,3)] steps(2) [OF fields(4,1,2,3)] steps(3) [OF fields(4,1,2,3)]
        redis_ok_mono [OF ok fields(4)]
      by (cases rule: k_cases) (simp_all only: create_cmds_def numeral_2_eq_2 One_nat_def take_Suc_Cons take_0 take_Nil
        fold_simps id_apply comp_def)
  qed
  moreover have "gone_stay w (au_sids s) (au_redis s) ?r"
    using fresh unfolding gone_stay_def
    by (cases rule: k_cases) (auto simp: create_cmds_def numeral_2_eq_2)
  ultimately show ?thesis
    unfolding k by (simp add: session_later_def session_inv_def)
qed

lemma Create_session:
  assumes "same_world w env"
  shows "keepsM (session_later w) (Sessions_Create env u d i)"
proof (rule keepsMI)
  fix s :: auth_state
  show "session_later w s (snd (Sessions_Create env u d i s))"
  proof (cases "ae_rand env (au_rands s)")
    case (Inl e)
    then show ?thesis by (simp add: Create_fails session_laterI session_step_refl)
  next
    case (Inr t)
    show ?thesis
      unfolding Create_run [OF Inr refl]
      by (rule session_run.after_bindM, simp only: snd_mapErrM, rule Create_write_session [OF assms refl])
        (intro session_later_steps ignore_session enforce_session)
  qed
qed

lemma Validate_session: "keepsM (session_later w) (ValidateRefreshToken env tok)"
proof (rule keepsMI)
  fix s :: auth_state
  show "session_later w s (snd (ValidateRefreshToken env tok s))"
    unfolding ValidateRefreshToken_def Let_def
  proof (rule session_run.at_read, goal_cases)
    case (1 owner)
    show ?case
    proof (cases owner)
      case None
      then show ?thesis by (simp add: throwM_def)
    next
      case (Some sid)
      show ?thesis
        unfolding Some option.case
      proof (rule session_run.at_read, goal_cases)
        case (1 data)
        show ?case
        proof (cases data)
          case None
          then show ?thesis by (simp add: throwM_def)
        next
          case (Some st)
          have "same_session (au_redis s) sid (st\<lparr>Ss_LastActiveAt := ae_now env\<rparr>)"
            using 1 Some by (intro same_sessionI) (auto simp: get_session_def redis_read_Inr)
          then have touched: "session_later w s (snd (redis_write env ''SET session'' [sid]
              [set_session (ae_now env) sid (st\<lparr>Ss_LastActiveAt := ae_now env\<rparr>) (Ss_ExpiresAt st - ae_now env)] s))"
            by (rule overwrite_one)
          show ?thesis
          proof (cases "ae_now env > Ss_ExpiresAt st")
            case True
            with Some show ?thesis
              by simp (rule session_run.at_keeps, intro session_later_steps ignore_session Revoke_session)
          next
            case False
            show ?thesis
              unfolding Some option.case if_not_P [OF False]
              by (rule session_run.after_bindM) (simp_all add: touched snd_mapErrM returnM_def keepsM_def)
          qed
        qed
      qed
    qed
  qed
qed

lemma Touch_session: "keepsM (session_later w) (TouchSession env sid)"
proof (rule keepsMI)
  fix s :: auth_state
  show "session_later w s (snd (TouchSession env sid s))"
    unfolding TouchSession_def Let_def
  proof (rule session_run.at_read, goal_cases)
    case (1 data)
    show ?case
    proof (cases data)
      case None
      then show ?thesis by (simp add: throwM_def)
    next
      case (Some st)
      have "same_session (au_redis s) sid (st\<lparr>Ss_LastActiveAt := ae_now env\<rparr>)"
        using 1 Some by (intro same_sessionI) (auto simp: get_session_def redis_read_Inr)
      then show ?thesis
        unfolding Some option.case by (intro session_run.at_failIf overwrite_one)
    qed
  qed
qed

lemma prepare_session: "keepsM (session_later w) (rotate_prepare env sid h)"
proof (rule keepsMI)
  fix s :: auth_state
  obtain n where "snd (rotate_prepare env sid h s) = s\<lparr>au_rands := n\<rparr>"
    using keepsMD [where R = only_rands, OF prepare_rands, of s env sid h] by (auto simp: only_rands_def)
  then show "session_later w s (snd (rotate_prepare env sid h s))"
    by (intro session_laterI) (simp_all add: session_step_refl)
qed

lemma RotateRefreshToken_session: "keepsM (session_later w) (RotateRefreshToken env sid h)"
proof (rule keepsMI)
  fix s :: auth_state
  show "session_later w s (snd (RotateRefreshToken env sid h s))"
    unfolding RotateRefreshToken_def
  proof (rule session_run.at_bindM, rule session_run.at_keeps, rule prepare_session)
    fix ro s1 assume prepared: "rotate_prepare env sid h s = (Inr ro, s1)"
    obtain st where st: "redis_get (ae_now env) (rd_refresh (au_redis s)) h = Some sid"
      "redis_get (ae_now env) (rd_sessions (au_redis s)) sid = Some st" "s1 = s\<lparr>au_rands := Suc (au_rands s)\<rparr>"
      "ro = \<lparr>ro_SessionID = sid, ro_OldHash = h, ro_Version = rd_version (au_redis s) h,
               ro_Session = st\<lparr>Ss_RefreshTokenHash := hashToken env (ro_Token ro), Ss_LastActiveAt := ae_now env\<rparr>,
               ro_TTL = Ss_ExpiresAt st - ae_now env, ro_Token = ro_Token ro\<rparr>"
      using prepared by (rule prepare_run)
    have ro: "ro_SessionID ro = sid" "ro_OldHash ro = h" "Ss_ID st = Ss_ID (ro_Session ro)" "Ss_UserID st = Ss_UserID (ro_Session ro)"
      using arg_cong [OF st(4), of ro_SessionID] arg_cong [OF st(4), of ro_OldHash] arg_cong [OF st(4), of ro_Session] by simp_all
    have "session_step w (au_sids s1) (au_sids s1) (au_redis s1) (rotated env ro (au_redis s1))"
      using redis_getD [OF st(1)] redis_getD [OF st(2)]
      by (intro rotated_session_step [where ?st0.0 = st]) (auto simp: stored_def owner_of_def st(3) ro)
    then have "session_later w s1 (s1\<lparr>au_redis := rotated env ro (au_redis s1)\<rparr>)"
      by (intro session_laterI) simp_all
    then show "session_later w s1 (snd (rotate_commit env ro s1))"
      using commit_state [of env ro s1] by auto
  qed
qed

lemma flush_fetch_session: "keepsM (session_later w) (flush_fetch env)"
  unfolding flush_fetch_def
  by (intro session_later_steps session_run.keeps_modifyM same_session_later) (auto simp: same_sessions_def)

lemma flush_fetch_run:
  assumes "flush_fetch env s = (Inr found, s')" and "(sid, st) \<in> set found"
  shows "redis_get (ae_now env) (rd_sessions (au_redis s')) sid = Some st"
  using assms
  by (auto simp: flush_fetch_def run_Inr redis_read_Inr List.map_filter_def split: if_splits sum.splits)

lemma snd_ignore: "snd (ignore m s) = snd (m s)"
  by (simp add: ignore_def bindM_def tryM_def returnM_def split: prod.splits)

lemma flushTouches_session: "keepsM (session_later w) (flushTouches env)"
proof (rule keepsMI)
  fix s :: auth_state
  show "session_later w s (snd (flushTouches env s))"
    unfolding flushTouches_def
  proof (rule session_run.at_bindM, rule session_run.at_keeps, rule flush_fetch_session)
    fix found s1 assume fetched: "flush_fetch env s = (Inr found, s1)"
    show "session_later w s1 (snd (flush_write env found s1))"
    proof (cases "filter (\<lambda>(sid, st). Ss_ExpiresAt st - ae_now env > 0) found = []")
      case True
      then show ?thesis by (simp add: flush_write_def Let_def returnM_def)
    next
      case False
      then have "flush_write env found = ignore (redis_write env ''SET sessions'' (map fst found)
          (map (\<lambda>(sid, st). set_session (ae_now env) sid (st\<lparr>Ss_LastActiveAt := ae_now env\<rparr>) (Ss_ExpiresAt st - ae_now env))
             (filter (\<lambda>(sid, st). Ss_ExpiresAt st - ae_now env > 0) found)))"
        by (simp add: flush_write_def Let_def)
      moreover have "same_session (au_redis s1) sid (st\<lparr>Ss_LastActiveAt := ae_now env\<rparr>)"
        if "(sid, st) \<in> set (filter (\<lambda>(sid, st). Ss_ExpiresAt st - ae_now env > 0) found)" for sid st
        using that flush_fetch_run [OF fetched] by (intro same_sessionI) auto
      ultimately show ?thesis
        unfolding snd_ignore by (simp only: snd_ignore) (rule overwrite_later)
    qed
  qed
qed

interpretation sessions: session_writes "session_later w" "same_world w" for w
proof unfold_locales
  show "keepsM (session_later w) (redis_write env ''SREM user_sessions'' [sid] [rem_user_session u sid])" for env sid u
    by (rule keeps_write_session) (auto intro: removals)
  show "keepsM (session_later w) (redis_write env ''DEL user_sessions'' [u] [del_user_sessions u])" for env u
    by (rule keeps_write_session) (auto intro: removals)
qed (auto intro: same_session_later Revoke_session Create_session Validate_session RotateRefreshToken_session Touch_session
  flushTouches_session)

lemma initial_inv: "session_inv w initial_auth"
  by (simp add: session_inv_def redis_ok_defs initial_auth_def empty_redis_def stored_def owner_of_def)

end
