(* ===== verification/SessionRaces.thy ===== *)
theory SessionRaces
  imports SessionInvariant
begin

text \<open>
  Requests that overlap. A rotation reads under \<open>WATCH\<close> and writes with \<open>EXEC\<close>, the touch worker reads all its
  sessions before it writes them: between the two halves other requests are served. Everything else runs in one
  step.
\<close>

record race =
  rc_auth :: auth_state
  rc_flight :: "rotation list"
  rc_fetched :: "(string \<times> sessionStorable) list list"
  rc_done :: "(string \<times> string) list"

text \<open>\<open>rc_done\<close> logs the refresh hashes rotated away and the token each gave.\<close>

inductive race_step :: "auth_env \<Rightarrow> race \<Rightarrow> race \<Rightarrow> bool" for w where
  serve: "same_world w env \<Longrightarrow> race_step w c (c\<lparr>rc_auth := auth_serve env req (rc_auth c)\<rparr>)"
| prepare: "same_world w env \<Longrightarrow> rotate_prepare env sid h (rc_auth c) = (Inr ro, s) \<Longrightarrow>
    race_step w c (c\<lparr>rc_auth := s, rc_flight := ro # rc_flight c\<rparr>)"
| refuse: "same_world w env \<Longrightarrow> rotate_prepare env sid h (rc_auth c) = (Inl e, s) \<Longrightarrow> race_step w c (c\<lparr>rc_auth := s\<rparr>)"
| commit: "same_world w env \<Longrightarrow> rc_flight c = xs @ ro # ys \<Longrightarrow> rotate_commit env ro (rc_auth c) = (Inr tok, s) \<Longrightarrow>
    race_step w c (c\<lparr>rc_auth := s, rc_flight := xs @ ys, rc_done := (ro_OldHash ro, tok) # rc_done c\<rparr>)"
| abort: "same_world w env \<Longrightarrow> rc_flight c = xs @ ro # ys \<Longrightarrow> rotate_commit env ro (rc_auth c) = (Inl e, s) \<Longrightarrow>
    race_step w c (c\<lparr>rc_auth := s, rc_flight := xs @ ys\<rparr>)"
| fetch: "same_world w env \<Longrightarrow> flush_fetch env (rc_auth c) = (Inr found, s) \<Longrightarrow>
    race_step w c (c\<lparr>rc_auth := s, rc_fetched := found # rc_fetched c\<rparr>)"
| flush: "same_world w env \<Longrightarrow> found \<in> set (rc_fetched c) \<Longrightarrow>
    race_step w c (c\<lparr>rc_auth := snd (flush_write env found (rc_auth c))\<rparr>)"

definition initial_race :: "auth_state \<Rightarrow> race" where
  "initial_race s = \<lparr>rc_auth = s, rc_flight = [], rc_fetched = [], rc_done = []\<rparr>"

subsection \<open>The invariant\<close>

text \<open>
  The hash of a token in flight was drawn for it alone and is not in use; as long as the watched version has not
  moved, the key of the old token is there. Hashes rotated away are gone.
\<close>

definition new_hash :: "rotation \<Rightarrow> string" where
  "new_hash ro = Ss_RefreshTokenHash (ro_Session ro)"

definition flight_ok :: "auth_env \<Rightarrow> auth_state \<Rightarrow> string list \<Rightarrow> rotation \<Rightarrow> bool" where
  "flight_ok w s spent ro \<longleftrightarrow>
     issued_hash w (au_rands s) (new_hash ro) \<and> rd_refresh (au_redis s) (new_hash ro) = None \<and> new_hash ro \<notin> set spent \<and>
     ro_Version ro \<le> rd_version (au_redis s) (ro_OldHash ro) \<and>
     (rd_version (au_redis s) (ro_OldHash ro) = ro_Version ro \<longrightarrow> rd_refresh (au_redis s) (ro_OldHash ro) \<noteq> None)"

definition spent_ok :: "auth_env \<Rightarrow> auth_state \<Rightarrow> string \<Rightarrow> bool" where
  "spent_ok w s h \<longleftrightarrow> issued_hash w (au_rands s) h \<and> rd_refresh (au_redis s) h = None"

definition race_inv :: "auth_env \<Rightarrow> race \<Rightarrow> bool" where
  "race_inv w c \<longleftrightarrow>
     refresh_issued w (au_rands (rc_auth c)) (au_redis (rc_auth c)) \<and>
     distinct (map new_hash (rc_flight c)) \<and> distinct (map fst (rc_done c)) \<and>
     list_all (flight_ok w (rc_auth c) (map fst (rc_done c))) (rc_flight c) \<and>
     list_all (spent_ok w (rc_auth c)) (map fst (rc_done c))"

lemma flight_ok_later:
  assumes "refresh_later w s s'" and "flight_ok w s spent ro"
  shows "flight_ok w s' spent ro"
proof -
  have grow: "rd_version (au_redis s) (ro_OldHash ro) \<le> rd_version (au_redis s') (ro_OldHash ro)"
    "rd_version (au_redis s') (ro_OldHash ro) = rd_version (au_redis s) (ro_OldHash ro) \<Longrightarrow>
     rd_refresh (au_redis s') (ro_OldHash ro) = rd_refresh (au_redis s) (ro_OldHash ro)"
    using assms(1) by (simp_all add: refresh_later_def versions_grow_def)
  have "issued_hash w (au_rands s') (new_hash ro)" "rd_refresh (au_redis s') (new_hash ro) = None"
    using assms by (auto simp: refresh_later_def flight_ok_def spent_stay_def intro: issued_hash_mono)
  with grow assms(2) show ?thesis
    unfolding flight_ok_def by (metis le_antisym le_trans)
qed

lemma spent_ok_later: "refresh_later w s s' \<Longrightarrow> spent_ok w s h \<Longrightarrow> spent_ok w s' h"
  by (auto simp: refresh_later_def spent_ok_def spent_stay_def intro: issued_hash_mono)

lemma race_inv_later:
  assumes "race_inv w c" and "refresh_later w (rc_auth c) s"
  shows "race_inv w (c\<lparr>rc_auth := s\<rparr>)"
  using assms flight_ok_later [OF assms(2)] spent_ok_later [OF assms(2)]
  by (auto simp: race_inv_def refresh_later_def list_all_iff)

lemma race_inv_prepare:
  assumes inv: "race_inv w c" and "same_world w env" and prepared: "rotate_prepare env sid h (rc_auth c) = (Inr ro, s)"
  shows "race_inv w (c\<lparr>rc_auth := s, rc_flight := ro # rc_flight c\<rparr>)"
proof -
  let ?s = "rc_auth c"
  obtain st where st: "redis_get (ae_now env) (rd_refresh (au_redis ?s)) h = Some sid"
    "ae_rand env (au_rands ?s) = Inr (ro_Token ro)" "s = ?s\<lparr>au_rands := Suc (au_rands ?s)\<rparr>"
    "ro = \<lparr>ro_SessionID = sid, ro_OldHash = h, ro_Version = rd_version (au_redis ?s) h,
             ro_Session = st\<lparr>Ss_RefreshTokenHash := hashToken env (ro_Token ro), Ss_LastActiveAt := ae_now env\<rparr>,
             ro_TTL = Ss_ExpiresAt st - ae_now env, ro_Token = ro_Token ro\<rparr>"
    using prepared by (rule prepare_run)
  have ro: "ro_OldHash ro = h" "ro_Version ro = rd_version (au_redis ?s) h" "new_hash ro = hashToken env (ro_Token ro)"
    using arg_cong [OF st(4), of ro_OldHash] arg_cong [OF st(4), of ro_Version] arg_cong [OF st(4), of ro_Session]
    by (simp_all add: new_hash_def)
  note fresh = fresh_hash [OF assms(2) st(2), folded ro(3)] and issued = issued_hash_new [OF assms(2) st(2), folded ro(3)]
  have "refresh_later w ?s s" unfolding st(3) by (rule rands_later) simp
  with inv have inv': "race_inv w (c\<lparr>rc_auth := s\<rparr>)" by (rule race_inv_later)
  have "rd_refresh (au_redis ?s) (new_hash ro) = None"
    using inv fresh unfolding race_inv_def refresh_issued_def by blast
  moreover have "new_hash ro \<notin> set (map fst (rc_done c))"
    using inv fresh by (auto simp: race_inv_def list_all_iff spent_ok_def)
  moreover have "new_hash ro \<notin> set (map new_hash (rc_flight c))"
    using inv fresh by (fastforce simp: race_inv_def list_all_iff flight_ok_def)
  ultimately show ?thesis
    using inv' issued redis_getD [OF st(1)] by (auto simp: race_inv_def flight_ok_def ro st(3))
qed

text \<open>The transaction ran: the old hash is gone, the new one is in use.\<close>

lemma rotated_refresh:
  "rd_refresh (rotated env ro r) h =
     (if h = ro_OldHash ro then None
      else if h = new_hash ro then Some (ro_SessionID ro, redis_expiry (ae_now env) (ro_TTL ro)) else rd_refresh r h)"
  by (auto simp: rotated_def rotation_cmds_def Let_def del_refresh_def set_refresh_def set_session_def set_grace_def new_hash_def)

lemma race_inv_rotated:
  assumes inv: "race_inv w c" and flight: "rc_flight c = xs @ ro # ys"
    and version: "rd_version (au_redis (rc_auth c)) (ro_OldHash ro) = ro_Version ro"
    and s: "s = (rc_auth c)\<lparr>au_redis := rotated env ro (au_redis (rc_auth c))\<rparr>"
  shows "race_inv w (c\<lparr>rc_auth := s, rc_flight := xs @ ys\<rparr>)" and "spent_ok w s (ro_OldHash ro)"
    and "ro_OldHash ro \<notin> set (map fst (rc_done c))" and "ro_OldHash ro \<notin> set (map new_hash (xs @ ys))"
proof -
  let ?r = "au_redis (rc_auth c)" and ?n = "au_rands (rc_auth c)"
  have flights: "flight_ok w (rc_auth c) (map fst (rc_done c)) ro'" if "ro' \<in> set (rc_flight c)" for ro'
    using inv that by (simp add: race_inv_def list_all_iff)
  have this_ok: "flight_ok w (rc_auth c) (map fst (rc_done c)) ro" using flights flight by simp
  then have old: "rd_refresh ?r (ro_OldHash ro) \<noteq> None" and new: "rd_refresh ?r (new_hash ro) = None"
    "issued_hash w ?n (new_hash ro)" "new_hash ro \<notin> set (map fst (rc_done c))"
    using version by (auto simp: flight_ok_def)
  have step: "refresh_step w 0 ?n ?r (rotated env ro ?r)"
    using old new(2) by (intro rotated_step) (auto simp: new_hash_def issued_hash_def)
  then have grow: "versions_grow ?r (rotated env ro ?r)" and issued: "refresh_issued w ?n (rotated env ro ?r)"
    using inv by (auto simp: refresh_step_def race_inv_def)
  have "distinct (map new_hash (xs @ ro # ys))" using inv unfolding race_inv_def flight by blast
  then have others: "new_hash ro' \<noteq> new_hash ro" if "ro' \<in> set (xs @ ys)" for ro'
    using that by auto (metis imageI)+
  have old_issued: "issued_hash w ?n (ro_OldHash ro)" using inv old by (auto simp: race_inv_def refresh_issued_def)
  then show "spent_ok w s (ro_OldHash ro)" by (simp add: spent_ok_def s rotated_refresh)
  show "ro_OldHash ro \<notin> set (map fst (rc_done c))"
    using inv old by (auto simp: race_inv_def list_all_iff spent_ok_def)
  show "ro_OldHash ro \<notin> set (map new_hash (xs @ ys))"
    using flights old by (fastforce simp: flight flight_ok_def)
  have "flight_ok w s (map fst (rc_done c)) ro'" if ro': "ro' \<in> set (xs @ ys)" for ro'
  proof -
    have "flight_ok w (rc_auth c) (map fst (rc_done c)) ro'" using flights ro' flight by simp
    moreover have "rd_version ?r (ro_OldHash ro') \<le> rd_version (rotated env ro ?r) (ro_OldHash ro')"
      "rd_version (rotated env ro ?r) (ro_OldHash ro') = rd_version ?r (ro_OldHash ro') \<Longrightarrow>
       rd_refresh (rotated env ro ?r) (ro_OldHash ro') = rd_refresh ?r (ro_OldHash ro')"
      using grow by (simp_all add: versions_grow_def)
    ultimately show ?thesis
      using others [OF ro'] by (auto simp: flight_ok_def s rotated_refresh [where h = "new_hash ro'"])
  qed
  moreover have "spent_ok w s h" if "h \<in> set (map fst (rc_done c))" for h
  proof -
    have "spent_ok w (rc_auth c) h" using inv that by (auto simp: race_inv_def list_all_iff)
    moreover have "h \<noteq> new_hash ro" using new(3) that by blast
    ultimately show ?thesis by (simp add: spent_ok_def s rotated_refresh)
  qed
  ultimately show "race_inv w (c\<lparr>rc_auth := s, rc_flight := xs @ ys\<rparr>)"
    using inv issued by (auto simp: race_inv_def list_all_iff s flight)
qed

text \<open>The invariant survives every step.\<close>

lemma race_later:
  "same_world w env \<Longrightarrow> refresh_later w s (auth_serve env req s)"
  "rotate_prepare env sid h s = (res, s') \<Longrightarrow> refresh_later w s s'"
  "flush_fetch env s = (got, s') \<Longrightarrow> refresh_later w s s'"
  "refresh_later w s (snd (flush_write env found s))"
  using tokens.serve keepsMD [where R = "refresh_later w", OF prepare_later, of s env sid h]
    keepsMD [where R = "refresh_later w", OF flush_fetch_later, of s env]
    keepsMD [where R = "refresh_later w", OF flush_write_later, of s env found]
  by simp_all

lemma race_inv_fields:
  "race_inv w (c\<lparr>rc_fetched := fs\<rparr>) = race_inv w c"
  by (simp add: race_inv_def)

lemma race_inv_drop:
  "race_inv w c \<Longrightarrow> rc_flight c = xs @ ro # ys \<Longrightarrow> race_inv w (c\<lparr>rc_flight := xs @ ys\<rparr>)"
  by (auto simp: race_inv_def)

lemma race_inv_done:
  "race_inv w c \<Longrightarrow> spent_ok w (rc_auth c) h \<Longrightarrow> h \<notin> set (map fst (rc_done c)) \<Longrightarrow> h \<notin> set (map new_hash (rc_flight c)) \<Longrightarrow>
   race_inv w (c\<lparr>rc_done := (h, tok) # rc_done c\<rparr>)"
  by (auto simp: race_inv_def list_all_iff flight_ok_def)

lemma race_inv_step:
  assumes "race_step w c c'" and "race_inv w c"
  shows "race_inv w c'"
  using assms(1)
proof cases
  case (serve env req)
  then show ?thesis using race_inv_later [OF assms(2)] race_later(1) by simp
next
  case (prepare env sid h ro s)
  then show ?thesis using race_inv_prepare [OF assms(2)] by simp
next
  case (refuse env sid h e s)
  then show ?thesis using race_inv_later [OF assms(2)] race_later(2) by simp
next
  case (commit env xs ro ys tok s)
  note rot = race_inv_rotated [OF assms(2) commit(3) commit_run(1) [OF commit(4)] commit_run(3) [OF commit(4)]]
  show ?thesis
    using race_inv_done [OF rot(1), of "ro_OldHash ro" tok] rot(2-4) unfolding commit(1) by simp
next
  case (abort env xs ro ys e s)
  then have "snd (rotate_commit env ro (rc_auth c)) = s" by simp
  then consider "s = rc_auth c" | "rd_version (au_redis (rc_auth c)) (ro_OldHash ro) = ro_Version ro"
      "s = (rc_auth c)\<lparr>au_redis := rotated env ro (au_redis (rc_auth c))\<rparr>"
    using commit_state [of env ro "rc_auth c"] by metis
  then show ?thesis
  proof cases
    case 1
    with race_inv_drop [OF assms(2) abort(3)] show ?thesis by (simp add: abort(1))
  next
    case 2
    with race_inv_rotated(1) [OF assms(2) abort(3)] show ?thesis by (simp add: abort(1))
  qed
next
  case (fetch env found s)
  then show ?thesis using race_inv_later [OF assms(2) race_later(3)] by (simp add: race_inv_def)
next
  case (flush env found)
  then show ?thesis using race_inv_later [OF assms(2) race_later(4)] by simp
qed

lemma race_inv_run: "(race_step w)\<^sup>*\<^sup>* c c' \<Longrightarrow> race_inv w c \<Longrightarrow> race_inv w c'"
  by (induction rule: rtranclp_induct) (auto intro: race_inv_step)

lemma initial_race_inv: "refresh_issued w (au_rands s) (au_redis s) \<Longrightarrow> race_inv w (initial_race s)"
  by (simp add: race_inv_def initial_race_def)

end
