(* ===== verification/TokenFlow.thy ===== *)
theory TokenFlow
  imports SessionRaces
begin

text \<open>
  The refresh of a token, read backwards from its result, and what a replay of the same token finds. Also the logout
  of a session and the creation of one, for Redis without faults.
\<close>

definition faultless :: "auth_env \<Rightarrow> bool" where
  "faultless env \<longleftrightarrow> (\<forall>op args. ae_redis env op args = None) \<and> (\<forall>n. \<exists>t. ae_rand env n = Inr t)"

lemma faultless_writes: "faultless env \<Longrightarrow> redis_write env op args cmds s = (Inr (), s\<lparr>au_redis := fold (\<lambda>c. c) cmds (au_redis s)\<rparr>)"
  by (simp add: faultless_def redis_write_def)

lemma faultless_reads:
  "faultless env \<Longrightarrow> get_session env sid s = Inr (redis_get (ae_now env) (rd_sessions (au_redis s)) sid)"
  "faultless env \<Longrightarrow> get_refresh env h s = Inr (redis_get (ae_now env) (rd_refresh (au_redis s)) h)"
  "faultless env \<Longrightarrow> get_grace env h s = Inr (redis_get (ae_now env) (rd_grace (au_redis s)) h)"
  "faultless env \<Longrightarrow> get_user_sessions env u s = Inr (rd_users (au_redis s) u)"
  by (simp_all add: faultless_def get_session_def get_refresh_def get_grace_def get_user_sessions_def redis_read_def)

lemma is_error_simps [simp]:
  "is_error ErrRefreshTokenNotFound ErrRefreshTokenNotFound" "is_error ErrNoRotationGrace ErrNoRotationGrace"
  "\<not> is_error (Opaque m) t" "is_error (Wrapf m e) t = is_error e t"
  by (auto simp: is_error_def ErrRefreshTokenNotFound_def ErrNoRotationGrace_def split: go_error.splits)

subsection \<open>Validating a token that is there\<close>

lemma Validate_gone:
  "faultless env \<Longrightarrow> redis_get (ae_now env) (rd_refresh (au_redis s)) (hashToken env tok) = None \<Longrightarrow>
   ValidateRefreshToken env tok s = (Inl ErrRefreshTokenNotFound, s)"
  by (simp add: ValidateRefreshToken_def monad_simps faultless_reads)

lemma Validate_live:
  assumes "faultless env" and "redis_get (ae_now env) (rd_refresh (au_redis s)) (hashToken env tok) = Some sid"
    and "ValidateRefreshToken env tok s = (Inl err, s1)"
  shows "\<not> is_error err t"
  using assms(3)
  by (auto simp: ValidateRefreshToken_def monad_simps faultless_reads [OF assms(1)] assms(2) faultless_writes [OF assms(1)]
      Let_def ignore_def split: option.splits if_splits sum.splits prod.splits)

lemma Validate_run:
  assumes "faultless env" and "ValidateRefreshToken env tok s = (Inr session, s1)"
  obtains sid st where "redis_get (ae_now env) (rd_refresh (au_redis s)) (hashToken env tok) = Some sid"
    and "redis_get (ae_now env) (rd_sessions (au_redis s)) sid = Some st"
    and "session = toSession (st\<lparr>Ss_LastActiveAt := ae_now env\<rparr>)" and "ae_now env \<le> Ss_ExpiresAt st"
    and "s1 = (if ae_now env < Ss_ExpiresAt st
               then s\<lparr>au_redis := set_session (ae_now env) sid (st\<lparr>Ss_LastActiveAt := ae_now env\<rparr>) (Ss_ExpiresAt st - ae_now env)
                        (au_redis s)\<rparr>
               else s)"
  using assms(2)
  by (auto simp: ValidateRefreshToken_def run_Inr faultless_reads [OF assms(1)] faultless_writes [OF assms(1)] Let_def
      split: option.splits if_splits)

subsection \<open>Rotating\<close>

lemma Rotate_fails:
  assumes "faultless env" and "redis_get (ae_now env) (rd_refresh (au_redis s)) h = Some sid"
    and "redis_get (ae_now env) (rd_sessions (au_redis s)) sid = Some st"
    and "RotateRefreshToken env sid h s = (Inl err, s1)"
  shows "\<not> is_error err t"
proof -
  obtain token where "ae_rand env (au_rands s) = Inr token" using assms(1) unfolding faultless_def by blast
  then show ?thesis
    using assms(1,4)
    by (auto simp: RotateRefreshToken_def rotate_prepare_def rotate_commit_def monad_simps faultless_reads assms(2,3)
        generateRefreshToken_def rand_Read_def Let_def redis_exec_def faultless_def split: if_splits)
qed

lemma Rotate_run:
  assumes "RotateRefreshToken env sid h s = (Inr token, s')"
  obtains ro st where "redis_get (ae_now env) (rd_refresh (au_redis s)) h = Some sid"
    and "redis_get (ae_now env) (rd_sessions (au_redis s)) sid = Some st" and "ae_now env < Ss_ExpiresAt st"
    and "ae_rand env (au_rands s) = Inr token"
    and "ro = \<lparr>ro_SessionID = sid, ro_OldHash = h, ro_Version = rd_version (au_redis s) h,
               ro_Session = st\<lparr>Ss_RefreshTokenHash := hashToken env token, Ss_LastActiveAt := ae_now env\<rparr>,
               ro_TTL = Ss_ExpiresAt st - ae_now env, ro_Token = token\<rparr>"
    and "s' = s\<lparr>au_rands := Suc (au_rands s), au_redis := rotated env ro (au_redis s)\<rparr>"
proof -
  obtain ro s1 where prepared: "rotate_prepare env sid h s = (Inr ro, s1)" and committed: "rotate_commit env ro s1 = (Inr token, s')"
    using assms by (auto simp: RotateRefreshToken_def run_Inr)
  note finished = commit_run [OF committed]
  show ?thesis
    by (rule prepare_run [OF prepared]) (rule that [of _ ro], assumption+, simp_all add: finished)
qed

definition fresh_session :: "auth_env \<Rightarrow> sessionStorable \<Rightarrow> string \<Rightarrow> sessionStorable" where
  "fresh_session env st token = st\<lparr>Ss_RefreshTokenHash := hashToken env token, Ss_LastActiveAt := ae_now env\<rparr>"

definition rotation_of :: "auth_env \<Rightarrow> redis \<Rightarrow> string \<Rightarrow> string \<Rightarrow> sessionStorable \<Rightarrow> string \<Rightarrow> rotation" where
  "rotation_of env r sid h st token =
     \<lparr>ro_SessionID = sid, ro_OldHash = h, ro_Version = rd_version r h, ro_Session = fresh_session env st token,
      ro_TTL = Ss_ExpiresAt st - ae_now env, ro_Token = token\<rparr>"

lemma active_user_same:
  "active_session_user env (toSession (st\<lparr>Ss_LastActiveAt := t\<rparr>)) (s\<lparr>au_redis := r\<rparr>) = active_session_user env (toSession st) s"
  by (cases "ae_uuidParse env (Ss_UserID st)") (simp_all add: active_session_user_def toSession_def Users_GetByID_def auth_query_def)

lemma RefreshToken_run:
  assumes up: "faultless env" and inv: "session_inv w s"
    and live: "redis_get (ae_now env) (rd_refresh (au_redis s)) (hashToken env tok) = Some sid"
    and run: "RefreshToken env tok s = (Inr result, s')"
  obtains st userID r where "redis_get (ae_now env) (rd_sessions (au_redis s)) sid = Some st" and "ae_now env < Ss_ExpiresAt st"
    and "LR_SessionID result = sid" and "ae_rand env (au_rands s) = Inr (LR_RefreshToken result)"
    and "r = set_session (ae_now env) sid (st\<lparr>Ss_LastActiveAt := ae_now env\<rparr>) (Ss_ExpiresAt st - ae_now env) (au_redis s)"
    and "s' = s\<lparr>au_rands := Suc (au_rands s),
               au_redis := rotated env (rotation_of env r sid (hashToken env tok) st (LR_RefreshToken result)) r\<rparr>"
    and "active_session_user env (toSession st) s = Inr userID" and "generateToken env userID sid = Inr (LR_AccessToken result)"
proof -
  let ?h = "hashToken env tok"
  obtain v s1 where v: "ValidateRefreshToken env tok s = (v, s1)" by (cases "ValidateRefreshToken env tok s")
  obtain session where session: "v = Inr session"
    using run v Validate_live [OF up live] by (cases v) (auto simp: RefreshToken_def monad_simps)
  obtain sid' st where valid: "redis_get (ae_now env) (rd_refresh (au_redis s)) ?h = Some sid'"
    "redis_get (ae_now env) (rd_sessions (au_redis s)) sid' = Some st"
    "session = toSession (st\<lparr>Ss_LastActiveAt := ae_now env\<rparr>)" "ae_now env \<le> Ss_ExpiresAt st"
    "s1 = (if ae_now env < Ss_ExpiresAt st
           then s\<lparr>au_redis := set_session (ae_now env) sid' (st\<lparr>Ss_LastActiveAt := ae_now env\<rparr>) (Ss_ExpiresAt st - ae_now env)
                    (au_redis s)\<rparr>
           else s)"
    using v unfolding session by (rule Validate_run [OF up])
  have sid: "sid' = sid" using valid(1) live by simp
  have "Ss_ID st = sid"
    using inv redis_getD [OF valid(2)] by (auto simp: session_inv_def redis_ok_def sessions_ok_def stored_def sid)
  then have id: "Se_ID session = sid" by (simp add: valid(3) toSession_def)
  have live1: "redis_get (ae_now env) (rd_refresh (au_redis s1)) ?h = Some sid"
    using live by (simp add: valid(5) set_session_def)
  have stored1: "\<exists>st1. redis_get (ae_now env) (rd_sessions (au_redis s1)) sid = Some st1"
    using valid(2) by (auto simp: valid(5) sid set_session_def redis_get_def redis_expiry_def)
  obtain userID where user: "active_session_user env session s1 = Inr userID"
    using run v session by (cases "active_session_user env session s1") (auto simp: RefreshToken_def monad_simps)
  obtain rot s2 where rot: "RotateRefreshToken env sid ?h s1 = (rot, s2)" by (cases "RotateRefreshToken env sid ?h s1")
  have "isl rot \<Longrightarrow> False"
    using run v session user rot id Rotate_fails [OF up live1 _] stored1
    by (cases rot) (auto simp: RefreshToken_def monad_simps)
  then obtain token where token: "rot = Inr token" by (cases rot) auto
  obtain ro st1 where ro: "redis_get (ae_now env) (rd_sessions (au_redis s1)) sid = Some st1" "ae_now env < Ss_ExpiresAt st1"
    "ae_rand env (au_rands s1) = Inr token"
    "ro = \<lparr>ro_SessionID = sid, ro_OldHash = ?h, ro_Version = rd_version (au_redis s1) ?h,
           ro_Session = st1\<lparr>Ss_RefreshTokenHash := hashToken env token, Ss_LastActiveAt := ae_now env\<rparr>,
           ro_TTL = Ss_ExpiresAt st1 - ae_now env, ro_Token = token\<rparr>"
    "s2 = s1\<lparr>au_rands := Suc (au_rands s1), au_redis := rotated env ro (au_redis s1)\<rparr>"
    using rot unfolding token by (rule Rotate_run)
  have later: "ae_now env < Ss_ExpiresAt st"
    using ro(1,2) valid(2,4) by (auto simp: valid(5) sid split: if_splits)
  then have s1: "s1 = s\<lparr>au_redis := set_session (ae_now env) sid (st\<lparr>Ss_LastActiveAt := ae_now env\<rparr>) (Ss_ExpiresAt st - ae_now env)
      (au_redis s)\<rparr>" by (simp add: valid(5) sid)
  have st1: "st1 = st\<lparr>Ss_LastActiveAt := ae_now env\<rparr>"
    using ro(1) later by (simp add: s1 set_session_def redis_get_def redis_expiry_def split: if_splits)
  have res: "generateToken env userID sid = Inr (LR_AccessToken result)" "LR_RefreshToken result = token" "LR_SessionID result = sid"
    "s' = s2"
    using run v session user rot token id
    by (auto simp: RefreshToken_def monad_simps login_result_def split: sum.splits)
  have "ro = rotation_of env (au_redis s1) sid ?h st token"
    by (simp add: ro(4) rotation_of_def fresh_session_def st1)
  moreover have "active_session_user env (toSession st) s = Inr userID"
    using user by (simp add: s1 valid(3) active_user_same)
  ultimately show ?thesis
    using valid(2) later res(1-3) ro(3,5) by (intro that) (simp_all add: sid s1 res(4))
qed

subsection \<open>Reachable states\<close>

definition auth_reachable :: "auth_env \<Rightarrow> auth_state \<Rightarrow> bool" where
  "auth_reachable w s \<longleftrightarrow> (\<exists>reqs. list_all (\<lambda>(env, _). same_world w env) reqs \<and> s = auth_execute reqs initial_auth)"

lemma reachable_inv:
  assumes "auth_reachable w s"
  shows "session_inv w s" and "refresh_issued w (au_rands s) (au_redis s)"
proof -
  obtain reqs where reqs: "list_all (\<lambda>(env, _). same_world w env) reqs" "s = auth_execute reqs initial_auth"
    using assms by (auto simp: auth_reachable_def)
  show "session_inv w s"
    using sessions.execution [OF reqs(1)] initial_inv by (simp add: session_later_def reqs(2))
  have "refresh_issued w (au_rands initial_auth) (au_redis initial_auth)"
    by (simp add: refresh_issued_def initial_auth_def empty_redis_def)
  then show "refresh_issued w (au_rands s) (au_redis s)"
    using tokens.execution [OF reqs(1)] unfolding refresh_later_def reqs(2) by blast
qed

lemma reachable_execute:
  assumes "auth_reachable w s" and "list_all (\<lambda>(env, _). same_world w env) reqs"
  shows "auth_reachable w (auth_execute reqs s)"
proof -
  obtain reqs0 where "list_all (\<lambda>(env, _). same_world w env) reqs0" "s = auth_execute reqs0 initial_auth"
    using assms(1) by (auto simp: auth_reachable_def)
  then show ?thesis
    using assms(2) auth_execute_append [of reqs0 reqs initial_auth]
    unfolding auth_reachable_def by (intro exI [of _ "reqs0 @ reqs"]) simp
qed

lemma reachable_serve: "auth_reachable w s \<Longrightarrow> same_world w env \<Longrightarrow> auth_reachable w (auth_serve env req s)"
  using reachable_execute [of w s "[(env, req)]"] by simp

lemma RefreshToken_reachable: "auth_reachable w s \<Longrightarrow> same_world w env \<Longrightarrow> RefreshToken env tok s = (r, s') \<Longrightarrow> auth_reachable w s'"
  using reachable_serve [of w s env "RefreshReq tok"] by simp

subsection \<open>After a rotation\<close>

lemma rotated_grace:
  "0 < rotationGrace env \<Longrightarrow>
   rd_grace (rotated env ro r) (ro_OldHash ro) =
     Some (\<lparr>Gr_SessionID = ro_SessionID ro, Gr_NewToken = ro_Token ro\<rparr>,
       redis_expiry (ae_now env) (min (rotationGrace env) (ro_TTL ro)))"
  by (simp add: rotated_def rotation_cmds_def Let_def del_refresh_def set_refresh_def set_session_def set_grace_def min_def)

lemma rotated_sessions:
  "rd_sessions (rotated env ro r) =
     (rd_sessions r)(ro_SessionID ro \<mapsto> (ro_Session ro, redis_expiry (ae_now env) (ro_TTL ro)))"
  by (simp add: rotated_def rotation_cmds_def Let_def del_refresh_def set_refresh_def set_session_def set_grace_def)

text \<open>The keys as a successful refresh leaves them.\<close>

lemma after_refresh:
  assumes "faultless env" and "session_inv w s" and "0 < rotationGrace env"
    and "redis_get (ae_now env) (rd_refresh (au_redis s)) (hashToken env tok) = Some sid"
    and "RefreshToken env tok s = (Inr result, s')"
    and "hashToken env (LR_RefreshToken result) \<noteq> hashToken env tok"
  obtains st where "LR_SessionID result = sid" and "ae_now env < Ss_ExpiresAt st" and "Ss_ID st = sid"
    and "rd_refresh (au_redis s') (hashToken env tok) = None"
    and "rd_grace (au_redis s') (hashToken env tok) =
         Some (\<lparr>Gr_SessionID = sid, Gr_NewToken = LR_RefreshToken result\<rparr>,
               Some (ae_now env + min (rotationGrace env) (Ss_ExpiresAt st - ae_now env)))"
    and "rd_refresh (au_redis s') (hashToken env (LR_RefreshToken result)) = Some (sid, Some (Ss_ExpiresAt st))"
    and "rd_sessions (au_redis s') sid = Some (fresh_session env st (LR_RefreshToken result), Some (Ss_ExpiresAt st))"
proof -
  obtain st userID r where st: "redis_get (ae_now env) (rd_sessions (au_redis s)) sid = Some st" "ae_now env < Ss_ExpiresAt st"
    "LR_SessionID result = sid"
    "s' = s\<lparr>au_rands := Suc (au_rands s),
            au_redis := rotated env (rotation_of env r sid (hashToken env tok) st (LR_RefreshToken result)) r\<rparr>"
    by (rule RefreshToken_run [OF assms(1,2,4,5)]) metis
  let ?ro = "rotation_of env r sid (hashToken env tok) st (LR_RefreshToken result)"
  have ro: "ro_OldHash ?ro = hashToken env tok" "ro_SessionID ?ro = sid" "new_hash ?ro = hashToken env (LR_RefreshToken result)"
    "ro_TTL ?ro = Ss_ExpiresAt st - ae_now env" "ro_Token ?ro = LR_RefreshToken result"
    "ro_Session ?ro = fresh_session env st (LR_RefreshToken result)"
    by (simp_all add: rotation_of_def new_hash_def fresh_session_def)
  have "Ss_ID st = sid"
    using assms(2) redis_getD [OF st(1)] by (auto simp: session_inv_def redis_ok_def sessions_ok_def stored_def)
  moreover have "redis_expiry (ae_now env) (Ss_ExpiresAt st - ae_now env) = Some (Ss_ExpiresAt st)"
    "redis_expiry (ae_now env) (min (rotationGrace env) (Ss_ExpiresAt st - ae_now env)) =
     Some (ae_now env + min (rotationGrace env) (Ss_ExpiresAt st - ae_now env))"
    using st(2) assms(3) by (simp_all add: redis_expiry_def)
  ultimately show ?thesis
    using st(2,3) assms(6) rotated_grace [OF assms(3), of ?ro r] rotated_sessions [of env ?ro r]
    by (intro that) (simp_all add: st(4) rotated_refresh ro)
qed

subsection \<open>Logging out\<close>

lemma get_session_stored:
  assumes "get_session env sid s = Inr (Some st)"
  shows "stored (au_redis s) sid = Some st"
proof -
  have "redis_get (ae_now env) (rd_sessions (au_redis s)) sid = Some st"
    using assms by (auto simp: get_session_def redis_read_Inr)
  then show ?thesis by (auto simp: stored_def dest: redis_getD)
qed

lemma Revoke_run:
  assumes "Revoke env sid s = (Inr (), s1)" and "get_session env sid s = Inr (Some st)"
  shows "au_redis s1 = rem_user_session (Ss_UserID st) sid (del_refresh (Ss_RefreshTokenHash st) (del_session sid (au_redis s)))"
    and "au_sids s1 = au_sids s"
  using assms
  by (auto simp: Revoke_def run_Inr redis_write_def SessionRevoked_def split: option.splits if_splits sum.splits)

lemma Logout_run:
  assumes "LogoutSessionForUser env user sid s = (Inr (), s1)" and "session_inv w s"
  shows "stored (au_redis s1) sid = None" and "issued_sid w (au_sids s1) sid"
proof -
  have owned: "SessionBelongsToUser env user sid s = Inr True" and revoked: "Revoke env sid s = (Inr (), s1)"
    using assms(1) by (auto simp: LogoutSessionForUser_def run_Inr)
  obtain st where st: "get_session env sid s = Inr (Some st)"
    using owned by (auto simp: SessionBelongsToUser_def split: sum.splits option.splits)
  then have "stored (au_redis s) sid = Some st"
    by (rule get_session_stored)
  then show "issued_sid w (au_sids s1) sid"
    using assms(2) Revoke_run(2) [OF revoked st] by (auto simp: session_inv_def redis_ok_def sessions_ok_def)
  show "stored (au_redis s1) sid = None"
    unfolding Revoke_run(1) [OF revoked st] by simp
qed

text \<open>A session that is gone is neither validated nor replayed.\<close>

lemma read_session_id:
  "session_inv w s \<Longrightarrow> get_session env sid s = Inr (Some st) \<Longrightarrow> Ss_ID st = sid \<and> stored (au_redis s) sid = Some st"
  by (drule get_session_stored) (simp add: session_inv_def redis_ok_def sessions_ok_def)

lemma Validate_found:
  assumes "ValidateRefreshToken env tok s = (Inr session, s1)" and "session_inv w s"
  shows "stored (au_redis s) (Se_ID session) \<noteq> None"
  using assms(1) read_session_id [OF assms(2)]
  by (auto simp: ValidateRefreshToken_def run_Inr Let_def toSession_def split: option.splits if_splits)

lemma replay_found:
  assumes "replay_or_unauthorized env tok s = Inr result" and "session_inv w s"
  shows "stored (au_redis s) (LR_SessionID result) \<noteq> None"
proof -
  obtain session successor where replay: "ReplayRotation env tok s = Inr (session, successor)" "LR_SessionID result = Se_ID session"
    using assms(1)
    by (auto simp: replay_or_unauthorized_def graceReplay_def replayRotatedRefresh_def login_result_def
        split: sum.splits if_splits prod.splits)
  then obtain sid st where "get_session env sid s = Inr (Some st)" "session = toSession st"
    by (auto simp: ReplayRotation_def split: sum.splits option.splits if_splits)
  then show ?thesis
    using read_session_id [OF assms(2)] by (auto simp: replay(2) toSession_def)
qed

lemma RefreshToken_not_gone:
  assumes "same_world w env" and "session_inv w s" and "issued_sid w (au_sids s) sid" and "stored (au_redis s) sid = None"
    and "RefreshToken env tok s = (Inr result, s')"
  shows "LR_SessionID result \<noteq> sid"
proof -
  have gone: "session_inv w t \<and> stored (au_redis t) sid = None" if "session_later w s t" for t
    using that assms(2-4) by (auto simp: session_later_def gone_stay_def)
  obtain v s1 where v: "ValidateRefreshToken env tok s = (v, s1)" by (cases "ValidateRefreshToken env tok s")
  have later1: "session_later w s s1"
    using keepsMD [where R = "session_later w", OF Validate_session, of s env tok] v by simp
  show ?thesis
  proof (cases v)
    case (Inl err)
    then have "replay_or_unauthorized env tok s1 = Inr result"
      using assms(5) v by (auto simp: RefreshToken_def monad_simps split: if_splits)
    then show ?thesis using replay_found gone [OF later1] by metis
  next
    case (Inr session)
    obtain rot s2 where rot: "RotateRefreshToken env (Se_ID session) (hashToken env tok) s1 = (rot, s2)"
      by (cases "RotateRefreshToken env (Se_ID session) (hashToken env tok) s1")
    have later2: "session_later w s s2"
      using session_run.R_trans [OF later1] keepsMD [where R = "session_later w", OF RotateRefreshToken_session] rot by (metis snd_conv)
    have "LR_SessionID result = Se_ID session \<or> replay_or_unauthorized env tok s2 = Inr result"
      using assms(5) v Inr rot
      by (auto simp: RefreshToken_def monad_simps login_result_def split: sum.splits if_splits)
    moreover have "Se_ID session \<noteq> sid"
      using Validate_found [of env tok s session s1] v Inr assms(2,4) by auto
    ultimately show ?thesis
      using replay_found gone [OF later2] by metis
  qed
qed

subsection \<open>The number of sessions\<close>

lemma redis_get_rem [simp]: "rd_sessions (rem_user_session u sid r) = rd_sessions r"
  by (simp add: rem_user_session_def)

text \<open>The loading loop: which sessions it returns, which members it removes.\<close>

definition live_ages :: "auth_env \<Rightarrow> redis \<Rightarrow> string list \<Rightarrow> (string \<times> gotime) list" where
  "live_ages env r sids = List.map_filter (\<lambda>sid. map_option (\<lambda>st. (sid, Ss_CreatedAt st)) (redis_get (ae_now env) (rd_sessions r) sid)) sids"

lemma load_run:
  assumes "faultless env"
  shows "foldM (load_session_age env u) acc sids s =
    (Inr (acc @ live_ages env (au_redis s) sids),
     s\<lparr>au_redis := fold (rem_user_session u) (filter (\<lambda>sid. redis_get (ae_now env) (rd_sessions (au_redis s)) sid = None) sids)
        (au_redis s)\<rparr>)"
proof (induction sids arbitrary: acc s)
  case Nil
  then show ?case by (simp add: live_ages_def List.map_filter_def monad_simps)
next
  case (Cons sid sids)
  show ?case
  proof (cases "redis_get (ae_now env) (rd_sessions (au_redis s)) sid")
    case None
    then have "load_session_age env u acc sid s = (Inr acc, s\<lparr>au_redis := rem_user_session u sid (au_redis s)\<rparr>)"
      by (simp add: load_session_age_def monad_simps faultless_reads [OF assms] faultless_writes [OF assms] ignore_def)
    then show ?thesis
      using Cons None by (simp add: bindM_def live_ages_def List.map_filter_def)
  next
    case (Some st)
    then have "load_session_age env u acc sid s = (Inr (acc @ [(sid, Ss_CreatedAt st)]), s)"
      by (simp add: load_session_age_def monad_simps faultless_reads [OF assms])
    then show ?thesis
      using Cons Some by (simp add: bindM_def live_ages_def List.map_filter_def)
  qed
qed

lemma rem_users_fold:
  "rd_users (fold (rem_user_session u) sids r) u = filter (\<lambda>x. x \<notin> set sids) (rd_users r u)"
  "rd_sessions (fold (rem_user_session u) sids r) = rd_sessions r"
  by (induction sids arbitrary: r) (simp_all add: users_views filter_filter conj_commute)

text \<open>The revoking loop.\<close>

lemma Revoke_live:
  assumes "faultless env" and "redis_get (ae_now env) (rd_sessions (au_redis s)) sid = Some st"
  shows "rd_users (au_redis (snd (Revoke env sid s))) = rd_users (rem_user_session (Ss_UserID st) sid (au_redis s))"
    and "rd_sessions (au_redis (snd (Revoke env sid s))) = (rd_sessions (au_redis s))(sid := None)"
    and "fst (ignore (Revoke env sid) s) = Inr ()"
  using assms
  by (auto simp: Revoke_def monad_simps faultless_reads faultless_writes SessionRevoked_def ignore_def del_session_def
      del_refresh_def rem_user_session_def split: option.splits sum.splits)

lemma revoke_loop:
  assumes "faultless env" and "distinct (map fst xs)"
    and "\<And>sid c. (sid, c) \<in> set xs \<Longrightarrow> \<exists>st. redis_get (ae_now env) (rd_sessions (au_redis s)) sid = Some st \<and> Ss_UserID st = u"
  shows "rd_users (au_redis (snd (forM xs (\<lambda>(sid, _). ignore (Revoke env sid)) s))) u =
    filter (\<lambda>x. x \<notin> set (map fst xs)) (rd_users (au_redis s) u)"
  using assms(2,3)
proof (induction xs arbitrary: s)
  case Nil
  then show ?case by (simp add: monad_simps)
next
  case (Cons p xs)
  obtain sid c where p: "p = (sid, c)" by (cases p)
  obtain st where st: "redis_get (ae_now env) (rd_sessions (au_redis s)) sid = Some st" "Ss_UserID st = u"
    using Cons.prems(2) p by (meson list.set_intros(1))
  let ?s = "snd (Revoke env sid s)"
  note revoked = Revoke_live [OF assms(1) st(1)]
  have "ignore (Revoke env sid) s = (Inr (), ?s)"
    using revoked(3) snd_ignore [of "Revoke env sid" s] by (metis prod.collapse)
  then have step: "snd (forM (p # xs) (\<lambda>(sid, _). ignore (Revoke env sid)) s) = snd (forM xs (\<lambda>(sid, _). ignore (Revoke env sid)) ?s)"
    by (simp add: p bindM_def)
  have "\<exists>st. redis_get (ae_now env) (rd_sessions (au_redis ?s)) sid' = Some st \<and> Ss_UserID st = u" if "(sid', c') \<in> set xs" for sid' c'
  proof -
    have "sid' \<noteq> sid" using that Cons.prems(1) p by force
    then show ?thesis using Cons.prems(2) [of sid' c'] that by (simp add: revoked(2) redis_get_def)
  qed
  with Cons.IH [of ?s] Cons.prems(1) show ?case
    unfolding step by (simp add: revoked(1) users_views p st(2) filter_filter conj_commute)
qed

lemma length_filter_out:
  assumes "distinct ys" and "distinct xs" and "set xs \<subseteq> set ys"
  shows "length (filter (\<lambda>x. x \<notin> set xs) ys) = length ys - length xs"
proof -
  have "length (filter (\<lambda>x. x \<notin> set xs) ys) = card (set ys - set xs)"
    using assms(1) by (metis distinct_card distinct_filter set_filter set_diff_eq)
  also have "\<dots> = length ys - length xs"
    using assms by (simp add: card_Diff_subset distinct_card)
  finally show ?thesis .
qed

lemma max_sessions_pos: "0 < max_sessions env"
  by (simp add: NewSessionManager_maxSessions_def)

lemma live_ages_fst:
  "map fst (live_ages env r sids) = filter (\<lambda>sid. redis_get (ae_now env) (rd_sessions r) sid \<noteq> None) sids"
  by (induction sids) (auto simp: live_ages_def List.map_filter_def)

lemma enforce_bounds:
  assumes "faultless env" and inv: "session_inv w s"
  shows "int (length (rd_users (au_redis (snd (enforceMaxSessions env u s))) u)) \<le> max_sessions env"
proof -
  let ?max = "max_sessions env" and ?r = "au_redis s"
  let ?ids = "rd_users ?r u"
  let ?live = "\<lambda>sid. redis_get (ae_now env) (rd_sessions ?r) sid"
  let ?ages = "live_ages env ?r ?ids"
  let ?s1 = "s\<lparr>au_redis := fold (rem_user_session u) (filter (\<lambda>sid. ?live sid = None) ?ids) ?r\<rparr>"
  have users: "users_ok w (au_sids s) ?r" using inv by (simp add: session_inv_def redis_ok_def)
  have ids1: "rd_users (au_redis ?s1) u = map fst ?ages"
    by (simp add: rem_users_fold live_ages_fst) (rule filter_cong, auto)
  have dist: "distinct (map fst ?ages)" using users_okD(1) [OF users, of u] by (simp add: live_ages_fst)
  show ?thesis
  proof (cases "int (length ?ids) \<le> ?max")
    case True
    then show ?thesis by (simp add: enforceMaxSessions_def monad_simps faultless_reads [OF assms(1)])
  next
    case many: False
    show ?thesis
    proof (cases "int (length ?ages) \<le> ?max")
      case True
      with many have "snd (enforceMaxSessions env u s) = ?s1"
        by (simp add: enforceMaxSessions_def monad_simps faultless_reads [OF assms(1)] load_run [OF assms(1)])
      with True show ?thesis using ids1 by simp
    next
      case False
      let ?xs = "take (nat (int (length ?ages) - ?max)) (sort_key snd ?ages)"
      have end_state: "snd (enforceMaxSessions env u s) = snd (forM ?xs (\<lambda>(sid, _). ignore (Revoke env sid)) ?s1)"
        using many False by (simp add: enforceMaxSessions_def monad_simps faultless_reads [OF assms(1)] load_run [OF assms(1)])
      have sub: "set ?xs \<subseteq> set ?ages" by (metis set_sort set_take_subset)
      have "distinct (map fst (sort_key snd ?ages))"
        using dist by (simp add: distinct_map)
      then have dxs: "distinct (map fst ?xs)" by (metis distinct_take take_map)
      have found: "\<exists>st. redis_get (ae_now env) (rd_sessions (au_redis ?s1)) sid = Some st \<and> Ss_UserID st = u"
        if "(sid, c) \<in> set ?xs" for sid c
      proof -
        have "sid \<in> set (map fst ?ages)" using that sub by force
        then obtain st where st: "?live sid = Some st" "sid \<in> set ?ids" by (auto simp: live_ages_fst)
        then show ?thesis
          using users_okD(3) [OF users st(2)] redis_getD [OF st(1)] by (auto simp: rem_users_fold stored_def)
      qed
      have "rd_users (au_redis (snd (enforceMaxSessions env u s))) u = filter (\<lambda>x. x \<notin> set (map fst ?xs)) (map fst ?ages)"
        unfolding end_state ids1 [symmetric] by (rule revoke_loop [OF assms(1) dxs]) (rule found)
      moreover have "set (map fst ?xs) \<subseteq> set (map fst ?ages)" using sub by auto
      ultimately have "length (rd_users (au_redis (snd (enforceMaxSessions env u s))) u) = length (map fst ?ages) - length (map fst ?xs)"
        using length_filter_out [OF dist dxs] by metis
      then show ?thesis using False max_sessions_pos [of env] by simp
    qed
  qed
qed

lemma Create_bounds:
  assumes "faultless env" and "same_world w env" and "session_inv w s" and "Sessions_Create env u d i s = (Inr r, s')"
  shows "int (length (rd_users (au_redis s') u)) \<le> max_sessions env"
proof -
  obtain t where t: "ae_rand env (au_rands s) = Inr t" using assms(1) unfolding faultless_def by blast
  let ?s1 = "s\<lparr>au_rands := Suc (au_rands s), au_sids := Suc (au_sids s)\<rparr>" and ?sid = "ae_sessionID env (au_sids s)"
  let ?cmds = "create_cmds env u d i t ?sid"
  let ?s2 = "?s1\<lparr>au_redis := fold (\<lambda>c. c) ?cmds (au_redis s)\<rparr>"
  have "s' = snd (enforceMaxSessions env u ?s2)"
    using assms(4) unfolding Create_run [OF t refl] by (auto simp: run_Inr faultless_writes [OF assms(1)] ignore_def)
  moreover have "session_inv w ?s2"
    using Create_write_session [OF assms(2) refl, of s u d i t] assms(3) faultless_writes [OF assms(1), of "''Create''" "[?sid]" ?cmds ?s1]
    by (simp add: session_later_def)
  ultimately show ?thesis using enforce_bounds [OF assms(1)] by simp
qed

lemma Create_run_room:
  assumes "faultless env" and "ae_rand env (au_rands s) = Inr t" and "Sessions_Create env u d i s = (Inr (session, token), s')"
    and "int (length (rd_users (au_redis s) u)) < max_sessions env" and "0 < ae_refreshTTL env"
  shows "Se_ID session = ae_sessionID env (au_sids s)"
    and "rd_sessions (au_redis s') (ae_sessionID env (au_sids s)) =
      Some (created env u d i t (ae_sessionID env (au_sids s)), Some (ae_now env + ae_refreshTTL env))"
    and "au_users s' = au_users s"
proof -
  let ?s1 = "s\<lparr>au_rands := Suc (au_rands s), au_sids := Suc (au_sids s)\<rparr>" and ?sid = "ae_sessionID env (au_sids s)"
  let ?cmds = "create_cmds env u d i t ?sid"
  let ?s2 = "?s1\<lparr>au_redis := fold (\<lambda>c. c) ?cmds (au_redis s)\<rparr>"
  have "int (length (rd_users (au_redis ?s2) u)) \<le> max_sessions env"
    using assms(4) by (simp add: create_cmds_def users_views)
  then have "enforceMaxSessions env u ?s2 = (Inr (), ?s2)"
    by (simp add: enforceMaxSessions_def monad_simps faultless_reads [OF assms(1)])
  then have run: "session = toSession (created env u d i t ?sid)" "s' = ?s2"
    using assms(3) unfolding Create_run [OF assms(2) refl]
    by (auto simp: run_Inr faultless_writes [OF assms(1)] ignore_def)
  show "Se_ID session = ?sid" by (simp add: run(1) toSession_def created_def)
  show "rd_sessions (au_redis s') ?sid = Some (created env u d i t ?sid, Some (ae_now env + ae_refreshTTL env))"
    using assms(5) unfolding run(2)
    by (simp add: create_cmds_def set_session_def set_refresh_def add_user_session_def redis_expiry_def)
  show "au_users s' = au_users s" by (simp add: run(2))
qed

subsection \<open>Accounts\<close>

lemma open_session_run:
  assumes "open_session env u d i s = (Inr result, s1)"
  shows "\<exists>session token. Sessions_Create env (ae_uuidString env u) d i s = (Inr (session, token), s1) \<and>
    generateToken env u (Se_ID session) = Inr (LR_AccessToken result) \<and> LR_SessionID result = Se_ID session"
proof -
  obtain session token s2 where created: "Sessions_Create env (ae_uuidString env u) d i s = (Inr (session, token), s2)"
    and rest: "(case generateToken env u (Se_ID session) of
        Inl err \<Rightarrow> bindM (ignore (Revoke env (Se_ID session))) (\<lambda>_. throwM (Internal ''failed to generate access token'' (Some err)))
      | Inr accessToken \<Rightarrow> returnM (login_result env accessToken token (Se_ID session))) s2 = (Inr result, s1)"
    using assms by (auto simp: open_session_def run_Inr)
  then show ?thesis
    by (cases "generateToken env u (Se_ID session)") (auto simp: run_Inr login_result_def)
qed

lemma Register_redis: "au_redis (snd (Register env e p n s)) = au_redis s"
  by (auto simp: Register_def monad_simps auth_New_def Users_Create_def auth_exec_def split: sum.splits option.splits)

lemma Create_succeeds:
  assumes "faultless env"
  shows "\<not> isl (fst (Sessions_Create env u d i s))"
proof -
  obtain t where t: "ae_rand env (au_rands s) = Inr t" using assms unfolding faultless_def by blast
  show ?thesis
    unfolding Create_run [OF t refl] by (simp add: monad_simps faultless_writes [OF assms] ignore_def split: prod.splits)
qed

lemma has_code_driver: "\<not> has_code c (Wrapf m (driver_error d))"
  by (cases d) (simp_all add: has_code_def driver_error_def)

lemma Register_run:
  assumes "Register env email password name s = (Inr user, s')"
  obtains h err where "hashPassword env password = Inr h" and "GetByEmail env email s = Inl err" and "has_code CodeNotFound err"
    and "user = user_defaults (new_user env (ae_id env (au_ids s)) email name h)" and "au_users s' = au_users s @ [user]"
proof -
  obtain h s1 where h: "hashPassword env password = Inr h"
    and free: "(case GetByEmail env email s of Inr _ \<Rightarrow> Inl (AlreadyExists ''user with this email already exists'')
             | Inl err \<Rightarrow> if has_code CodeNotFound err then Inr ()
                          else Inl (Internal ''failed to check existing user'' (Some err))) = Inr ()"
    and created: "Users_Create env (new_user env (ae_id env (au_ids s)) email name h) (s\<lparr>au_ids := Suc (au_ids s)\<rparr>) = (Inr user, s1)"
    and s': "au_users s' = au_users s1"
    using assms by (auto simp: Register_def run_Inr auth_New_def split: if_splits)
  obtain err where "GetByEmail env email s = Inl err" "has_code CodeNotFound err"
    using free by (auto split: sum.splits if_splits)
  moreover have "user = user_defaults (new_user env (ae_id env (au_ids s)) email name h)" "au_users s1 = au_users s @ [user]"
    using created by (auto simp: Users_Create_def run_Inr auth_exec_def split: option.splits if_splits)
  ultimately show ?thesis
    using that h s' by simp
qed

text \<open>Bulk revocation without faults.\<close>

lemma Revoke_dead:
  assumes "faultless env"
  shows "redis_get (ae_now env) (rd_sessions (au_redis (snd (Revoke env sid s)))) sid' =
      (if sid' = sid then None else redis_get (ae_now env) (rd_sessions (au_redis s)) sid')"
    and "fst (ignore (Revoke env sid) s) = Inr ()"
proof -
  show "redis_get (ae_now env) (rd_sessions (au_redis (snd (Revoke env sid s)))) sid' =
      (if sid' = sid then None else redis_get (ae_now env) (rd_sessions (au_redis s)) sid')"
  proof (cases "redis_get (ae_now env) (rd_sessions (au_redis s)) sid")
    case None
    then have "snd (Revoke env sid s) = s" by (simp add: Revoke_def monad_simps faultless_reads [OF assms])
    with None show ?thesis by simp
  next
    case (Some st)
    then show ?thesis by (simp add: Revoke_live(2) [OF assms] redis_get_def)
  qed
  show "fst (ignore (Revoke env sid) s) = Inr ()"
    by (simp add: ignore_def monad_simps)
qed

lemma revoke_each:
  assumes "faultless env"
  shows "fst (forM sids (\<lambda>sid. ignore (Revoke env sid)) s) = Inr ()"
    and "redis_get (ae_now env) (rd_sessions (au_redis (snd (forM sids (\<lambda>sid. ignore (Revoke env sid)) s)))) sid' =
      (if sid' \<in> set sids then None else redis_get (ae_now env) (rd_sessions (au_redis s)) sid')"
proof (induction sids arbitrary: s)
  case Nil
  { case 1 show ?case by (simp add: monad_simps) }
  { case 2 show ?case by (simp add: monad_simps) }
next
  case (Cons sid sids)
  have "ignore (Revoke env sid) s = (Inr (), snd (Revoke env sid s))" for s
    using Revoke_dead(2) [OF assms, of sid s] snd_ignore [of "Revoke env sid" s] by (metis prod.collapse)
  note step = this
  { case 1 show ?case by (simp add: bindM_def step Cons(1)) }
  { case 2 show ?case by (simp add: bindM_def step Cons(2) Revoke_dead(1) [OF assms]) }
qed

lemma RevokeAll_run:
  assumes "faultless env" and "RevokeAllUserSessions env u s = (Inr (), s')"
  shows "sid \<in> set (rd_users (au_redis s) u) \<Longrightarrow> redis_get (ae_now env) (rd_sessions (au_redis s')) sid = None"
    and "rd_users (au_redis s') u = []"
proof -
  let ?s1 = "snd (forM (rd_users (au_redis s) u) (\<lambda>sid. ignore (Revoke env sid)) s)"
  have s': "au_redis s' = del_user_sessions u (au_redis ?s1)"
    using assms(2) by (auto simp: RevokeAllUserSessions_def run_Inr faultless_reads [OF assms(1)] faultless_writes [OF assms(1)])
  then show "sid \<in> set (rd_users (au_redis s) u) \<Longrightarrow> redis_get (ae_now env) (rd_sessions (au_redis s')) sid = None"
    using revoke_each(2) [OF assms(1)] by (simp add: del_user_sessions_def)
  show "rd_users (au_redis s') u = []" by (simp add: s' users_views)
qed

lemma Users_Update_run:
  assumes "Users_Update env user s = (Inr r, s')"
  shows "au_redis s' = au_redis s"
    and "\<exists>row. find (\<lambda>u. U_ID u = U_ID user) (au_users s') = Some row \<and> U_Status row = U_Status user"
    and "map U_Locale (au_users s') = map U_Locale (au_users s)"
proof -
  let ?user = "(user_defaults user)\<lparr>U_UpdatedAt := ae_now env\<rparr>"
  have ids: "U_ID ?user = U_ID user" "U_Status ?user = U_Status user" by (simp_all add: user_defaults_def)
  have s': "\<exists>u \<in> set (au_users s). U_ID u = U_ID user"
    "s' = s\<lparr>au_users := upd_where (\<lambda>u. U_ID u = U_ID user) (update_user_row ?user) (au_users s)\<rparr>"
    using assms by (auto simp: Users_Update_def Let_def run_Inr auth_exec_def ids split: option.splits if_splits)
  show "au_redis s' = au_redis s" by (simp add: s'(2))
  obtain row where "find (\<lambda>u. U_ID u = U_ID user) (au_users s) = Some row"
    using s'(1) by (cases "find (\<lambda>u. U_ID u = U_ID user) (au_users s)") (auto simp: find_None_iff')
  then have "find (\<lambda>u. U_ID u = U_ID user) (au_users s') = Some (update_user_row ?user row)"
    by (auto simp: s'(2) find_upd_where update_user_row_def dest: find_SomeD)
  then show "\<exists>row. find (\<lambda>u. U_ID u = U_ID user) (au_users s') = Some row \<and> U_Status row = U_Status user"
    by (simp add: update_user_row_def ids(2))
  show "map U_Locale (au_users s') = map U_Locale (au_users s)"
    by (simp add: s'(2) map_upd_where update_user_row_def)
qed

subsection \<open>Slugs of new workspaces\<close>

lemma slug_rounds_free:
  "slug_rounds env base k i c s = Inr slug \<Longrightarrow> \<forall>w \<in> set (au_workspaces s). W_Slug w \<noteq> slug"
proof (induction env base k i c s rule: slug_rounds.induct)
  case (2 env base k i c s)
  show ?case
  proof (cases "GetBySlug env c s")
    case (Inr w)
    with 2 show ?thesis by simp
  next
    case (Inl err)
    with 2(2) have "has_code CodeNotFound err" "slug = c" by (auto split: if_splits)
    with Inl show ?thesis
      by (auto simp: GetBySlug_def auth_query_def db_op_def row_or_def has_code_driver find_None_iff' split: option.splits)
  qed
qed simp

lemma slug_rounds_shape:
  "slug_rounds env base k i c s = Inr slug \<Longrightarrow> slug = c \<or> (\<exists>j. slug = slug_candidate base j)"
proof (induction env base k i c s rule: slug_rounds.induct)
  case (2 env base k i c s)
  then show ?case by (auto split: sum.splits if_splits)
qed simp

lemma setters_keep_state:
  "set_display_name f u s = (Inr u', s') \<Longrightarrow> s' = s" "set_avatar_url f u s = (Inr u', s') \<Longrightarrow> s' = s"
  "set_position f u s = (Inr u', s') \<Longrightarrow> s' = s" "set_department f u s = (Inr u', s') \<Longrightarrow> s' = s"
  "set_locale f u s = (Inr u', s') \<Longrightarrow> s' = s"
  by (auto simp: set_display_name_def set_avatar_url_def set_position_def set_department_def set_locale_def run_Inr Let_def
      split: option.splits)

lemma IndexUser_users: "IndexUser env w u s = (r, s') \<Longrightarrow> au_users s' = au_users s"
  by (auto simp: IndexUser_def monad_simps split: if_splits)

lemma index_loop_users: "forM ws (\<lambda>w. IndexUser env (W_ID w) u) s = (r, s') \<Longrightarrow> au_users s' = au_users s"
proof (induction ws arbitrary: s)
  case (Cons w ws)
  obtain r1 s1 where first: "IndexUser env (W_ID w) u s = (r1, s1)" by (cases "IndexUser env (W_ID w) u s")
  have "r1 = Inr ()" using first by (auto simp: IndexUser_def monad_simps split: if_splits)
  then show ?case
    using Cons.prems Cons.IH first IndexUser_users [OF first] by (simp add: bindM_def)
qed (simp add: monad_simps)

lemma reindex_users: "reindex_user env user s = (r, s') \<Longrightarrow> au_users s' = au_users s"
  by (auto simp: reindex_user_def monad_simps dest: index_loop_users split: if_splits sum.splits)

lemma UpdateProfile_run:
  assumes "UpdateProfile env u inp s = (Inr user, s')"
  obtains row r s1 where "Users_Update env row s = (Inr r, s1)" and "au_users s' = au_users s1"
proof -
  obtain u0 u1 u2 u3 u4 u5 r t1 t2 t3 t4 t5 t6 t7 where steps:
    "set_display_name (UP_DisplayName inp) u0 s = (Inr u1, t1)" "set_avatar_url (UP_AvatarURL inp) u1 t1 = (Inr u2, t2)"
    "set_position (UP_Position inp) u2 t2 = (Inr u3, t3)" "set_department (UP_Department inp) u3 t3 = (Inr u4, t4)"
    "set_locale (UP_Locale inp) u4 t4 = (Inr u5, t5)" "Users_Update env (u5\<lparr>U_UpdatedAt := ae_now env\<rparr>) t5 = (Inr r, t6)"
    "reindex_user env r t6 = (Inr (), t7)" "s' = t7"
    using assms unfolding UpdateProfile_def run_Inr by auto
  note same = setters_keep_state(1) [OF steps(1)] setters_keep_state(2) [OF steps(2)] setters_keep_state(3) [OF steps(3)]
    setters_keep_state(4) [OF steps(4)] setters_keep_state(5) [OF steps(5)]
  show ?thesis
    using that [of _ r t6] steps(6) reindex_users [OF steps(7)] unfolding steps(8) same by blast
qed

end
