(* ===== verification/AuthTheorems.thy ===== *)
theory AuthTheorems
  imports TokenFlow
begin

text \<open>
  The properties of the session and account service, each with a concrete run on a small deployment in which they
  apply.
\<close>

subsection \<open>A deployment\<close>

text \<open>
  Tokens, identifiers and digests are short texts that do not repeat, passwords are stored with a prefix, an access token
  is its claims written out.
\<close>

definition demo_auth :: "gotime \<Rightarrow> auth_env" where
  "demo_auth now =
     \<lparr>ae_now = now, ae_fault = (\<lambda>_ _. None), ae_redis = (\<lambda>_ _. None), ae_maxSessions = 2, ae_refreshTTL = 100 * time_Second,
      ae_accessTTL = 20 * time_Second, ae_rotationGrace = None, ae_seeder = False, ae_search = False, ae_notifier = True,
      ae_ownerCreator = True, ae_commonChannels = None, ae_id = Suc, ae_sessionID = (\<lambda>n. replicate (Suc n) CHR ''s''),
      ae_rand = (\<lambda>n. Inr (replicate (Suc n) CHR ''t'')), ae_sha256 = id, ae_bcryptHash = (\<lambda>p. Inr (''h'' @ p)),
      ae_bcryptCompare = (\<lambda>h p. h = ''h'' @ p), ae_sign = (\<lambda>c. Inr (Tc_Subject c @ ''.'' @ Tc_SessionID c)),
      ae_parseJWT = (\<lambda>t. Some (HS256, \<lparr>Tc_Subject = takeWhile (\<lambda>c. c \<noteq> CHR ''.'') t, Tc_ExpiresAt = 20 * time_Second,
                           Tc_IssuedAt = 0, Tc_SessionID = tl (dropWhile (\<lambda>c. c \<noteq> CHR ''.'') t)\<rparr>)),
      ae_verifyJWT = (\<lambda>m t. True), ae_uuidString = (\<lambda>n. replicate n CHR ''u''), ae_uuidParse = (\<lambda>s. Inr (length s)),
      ae_isEmail = (\<lambda>s. CHR 0x40 \<in> set s), ae_lower = id, ae_runeClass = (\<lambda>_. ClassNone)\<rparr>"

lemma demo_world: "same_world (demo_auth 0) (demo_auth t)"
  by (auto simp: same_world_def fresh_world_def demo_auth_def inj_def)

lemma demo_faultless: "faultless (demo_auth t)"
  by (simp add: faultless_def demo_auth_def)

text \<open>The user 1 has registered and logged in: session \<open>s\<close> with refresh token \<open>t\<close>.\<close>

definition demo_register :: "(auth_env \<times> auth_request) list" where
  "demo_register = [(demo_auth 0, RegisterReq ''a@b'' ''Aa1!Aa1!'' ''Al'')]"

definition demo_login :: "(auth_env \<times> auth_request) list" where
  "demo_login = demo_register @ [(demo_auth 0, LoginReq ''a@b'' ''Aa1!Aa1!'' ''d'' ''i'')]"

definition demo_state :: auth_state where
  "demo_state = auth_execute demo_login initial_auth"

lemma demo_reachable: "auth_reachable (demo_auth 0) demo_state"
  unfolding auth_reachable_def
  by (rule exI [of _ demo_login]) (simp add: demo_state_def demo_login_def demo_register_def demo_world)

subsection \<open>Refresh tokens\<close>

text \<open>
  C33: however requests, rotations and the touch worker interleave, a refresh token is rotated at most once: two
  concurrent refreshes never both get a successor of their own.
\<close>

theorem refresh_tokens_rotate_once:
  assumes "auth_reachable w s" and "(race_step w)\<^sup>*\<^sup>* (initial_race s) c"
  shows "distinct (map fst (rc_done c))"
  using race_inv_run [OF assms(2) initial_race_inv [OF reachable_inv(2) [OF assms(1)]]] by (simp add: race_inv_def)

lemma succeeds: "\<not> isl (fst z) \<Longrightarrow> z = (Inr (projr (fst z)), snd z)"
  by (cases z, rename_tac r s, case_tac r) auto

text \<open>The two halves of a rotation one second after the login.\<close>

definition demo_prepared :: "auth_state \<Rightarrow> (go_error + rotation) \<times> auth_state" where
  "demo_prepared = rotate_prepare (demo_auth time_Second) ''s'' ''t''"

lemma refresh_tokens_rotate_once_witness:
  "\<exists>c. (race_step (demo_auth 0))\<^sup>*\<^sup>* (initial_race demo_state) c \<and> map fst (rc_done c) = [''t''] \<and> distinct (map fst (rc_done c))"
proof -
  let ?w = "demo_auth 0" and ?env = "demo_auth time_Second"
  define p1 where "p1 = demo_prepared demo_state"
  define p2 where "p2 = demo_prepared (snd p1)"
  define p3 where "p3 = rotate_commit ?env (projr (fst p1)) (snd p2)"
  have ok: "\<not> isl (fst p1)" "\<not> isl (fst p2)" "\<not> isl (fst p3)" "ro_OldHash (projr (fst p1)) = ''t''"
    unfolding p1_def p2_def p3_def demo_prepared_def by code_simp+
  define c1 where "c1 = (initial_race demo_state)\<lparr>rc_auth := snd p1, rc_flight := [projr (fst p1)]\<rparr>"
  define c2 where "c2 = c1\<lparr>rc_auth := snd p2, rc_flight := projr (fst p2) # rc_flight c1\<rparr>"
  define c3 where "c3 = c2\<lparr>rc_auth := snd p3, rc_flight := [projr (fst p2)], rc_done := [(''t'', projr (fst p3))]\<rparr>"
  have "race_step ?w (initial_race demo_state) c1"
    using race_step.prepare [OF demo_world [of time_Second], where c = "initial_race demo_state" and ro = "projr (fst p1)"
        and s = "snd p1" and sid = "''s''" and h = "''t''"] succeeds [OF ok(1)]
    by (simp add: c1_def initial_race_def p1_def demo_prepared_def)
  moreover have "race_step ?w c1 c2"
    using race_step.prepare [OF demo_world [of time_Second], where c = c1 and ro = "projr (fst p2)" and s = "snd p2"
        and sid = "''s''" and h = "''t''"] succeeds [OF ok(2)]
    by (simp add: c2_def c1_def p2_def demo_prepared_def)
  moreover have "race_step ?w c2 c3"
    using race_step.commit [OF demo_world [of time_Second], where c = c2 and ro = "projr (fst p1)" and s = "snd p3"
        and xs = "[projr (fst p2)]" and ys = "[]" and tok = "projr (fst p3)"] succeeds [OF ok(3)] ok(4)
    by (simp add: c3_def c2_def c1_def p3_def initial_race_def)
  ultimately have run: "(race_step ?w)\<^sup>*\<^sup>* (initial_race demo_state) c3" by (meson rtranclp.rtrancl_into_rtrancl rtranclp.rtrancl_refl)
  have one: "map fst (rc_done c3) = [''t'']" by (simp add: c3_def)
  show ?thesis
    by (rule exI [of _ c3], intro conjI) (rule run, rule one, rule refresh_tokens_rotate_once [OF demo_reachable run])
qed

text \<open>
  C34: a refresh token that was exchanged is dead once the rotation grace is over: whatever happens in between, and with
  whatever faults, presenting it again is an error.
\<close>

theorem exchanged_tokens_die:
  assumes "auth_reachable w s" and "same_world w env" and "faultless env" and "0 < rotationGrace env"
    and "redis_get (ae_now env) (rd_refresh (au_redis s)) (hashToken env tok) = Some sid"
    and "RefreshToken env tok s = (Inr result, s1)"
    and "list_all (\<lambda>(env, _). same_world w env) reqs" and "same_world w env2"
    and "ae_now env + rotationGrace env \<le> ae_now env2"
  shows "isl (fst (RefreshToken env2 tok (auth_execute reqs s1)))"
proof -
  let ?h = "hashToken env tok" and ?s2 = "auth_execute reqs s1"
  have h2: "hashToken env2 tok = ?h" using assms(2,8) by (simp add: hashToken_def same_world_def)
  note inv = reachable_inv [OF assms(1)]
  have issued: "issued_hash w (au_rands s) ?h"
    using inv(2) redis_getD [OF assms(5)] by (auto simp: refresh_issued_def)
  have new: "hashToken env (LR_RefreshToken result) \<noteq> ?h"
    by (rule RefreshToken_run [OF assms(3) inv(1) assms(5,6)]) (metis fresh_hash [OF assms(2)] issued)
  obtain st :: sessionStorable where spent: "rd_refresh (au_redis s1) ?h = None"
    "rd_grace (au_redis s1) ?h = Some (\<lparr>Gr_SessionID = sid, Gr_NewToken = LR_RefreshToken result\<rparr>,
       Some (ae_now env + min (rotationGrace env) (Ss_ExpiresAt st - ae_now env)))"
    by (rule after_refresh [OF assms(3) inv(1) assms(4,5,6) new]) (rule that, assumption+)
  have "refresh_later w s s1"
    using tokens.serve [OF assms(2), of s "RefreshReq tok"] assms(6) by simp
  then have "issued_hash w (au_rands s1) ?h" using issued by (auto simp: refresh_later_def intro: issued_hash_mono)
  moreover have "refresh_later w s1 ?s2" by (rule tokens.execution [OF assms(7)])
  ultimately have spent2: "rd_refresh (au_redis ?s2) ?h = None" "rd_grace (au_redis ?s2) ?h = rd_grace (au_redis s1) ?h"
    using spent(1) by (auto simp: refresh_later_def spent_stay_def)
  have dead: "redis_get (ae_now env2) (rd_refresh (au_redis ?s2)) ?h = None"
    "redis_get (ae_now env2) (rd_grace (au_redis ?s2)) ?h = None"
    using assms(9) spent2 spent by (simp_all add: redis_get_def)
  have "isl (ReplayRotation env2 tok ?s2)"
    by (auto simp: ReplayRotation_def h2 get_grace_def redis_read_def dead split: option.splits)
  then have "isl (replay_or_unauthorized env2 tok ?s2)"
    by (auto simp: replay_or_unauthorized_def graceReplay_def replayRotatedRefresh_def isl_def split: sum.splits)
  moreover have "\<exists>err. ValidateRefreshToken env2 tok ?s2 = (Inl err, ?s2)"
    by (auto simp: ValidateRefreshToken_def monad_simps get_refresh_def redis_read_def h2 dead split: option.splits)
  ultimately show ?thesis
    by (auto simp: RefreshToken_def monad_simps isl_def)
qed

text \<open>The refresh of the token \<open>t\<close> one second after the login.\<close>

definition demo_refreshed :: "(go_error + LoginResult) \<times> auth_state" where
  "demo_refreshed = RefreshToken (demo_auth time_Second) ''t'' demo_state"

lemma demo_refresh:
  "RefreshToken (demo_auth time_Second) ''t'' demo_state = (Inr (projr (fst demo_refreshed)), snd demo_refreshed)"
  "redis_get (ae_now (demo_auth time_Second)) (rd_refresh (au_redis demo_state)) (hashToken (demo_auth time_Second) ''t'') = Some ''s''"
  "0 < rotationGrace (demo_auth time_Second)"
proof -
  have "\<not> isl (fst demo_refreshed)" by code_simp
  then show "RefreshToken (demo_auth time_Second) ''t'' demo_state = (Inr (projr (fst demo_refreshed)), snd demo_refreshed)"
    using succeeds unfolding demo_refreshed_def by blast
qed code_simp+

lemma exchanged_tokens_die_witness:
  "isl (fst (RefreshToken (demo_auth (11 * time_Second)) ''t''
     (auth_execute [(demo_auth (2 * time_Second), RefreshReq ''tt'')] (snd demo_refreshed))))"
proof (rule exchanged_tokens_die [OF demo_reachable demo_world demo_faultless demo_refresh(3,2,1)])
  show "ae_now (demo_auth time_Second) + rotationGrace (demo_auth time_Second) \<le> ae_now (demo_auth (11 * time_Second))"
    by code_simp
qed (simp_all add: demo_world)






text \<open>With one session allowed, the second login ends the first.\<close>

definition demo_single :: auth_env where
  "demo_single = (demo_auth time_Second)\<lparr>ae_maxSessions := 1\<rparr>"


subsection \<open>Accounts\<close>


text \<open>A login whose token is checked a second later; the signing function signs the one set of claims that is asked for.\<close>

definition demo_claims :: tokenClaims where
  "demo_claims = \<lparr>Tc_Subject = ''u'', Tc_ExpiresAt = 20 * time_Second, Tc_IssuedAt = 0, Tc_SessionID = ''s''\<rparr>"

definition demo_login_env :: auth_env where
  "demo_login_env =
     (demo_auth 0)\<lparr>ae_sign := (\<lambda>c. if c = demo_claims then Inr (Tc_Subject c @ ''.'' @ Tc_SessionID c) else Inl (Opaque ''key''))\<rparr>"

definition demo_registered :: auth_state where
  "demo_registered = auth_execute demo_register initial_auth"

definition demo_logged_in :: "(go_error + LoginResult) \<times> auth_state" where
  "demo_logged_in = Login demo_login_env ''a@b'' ''Aa1!Aa1!'' ''d'' ''i'' demo_registered"

lemma demo_registered_users: "rd_users (au_redis demo_registered) u = []"
  by (simp add: demo_registered_def demo_register_def Register_redis initial_auth_def empty_redis_def)


text \<open>
  C39: registration takes an email no account has, in any capitalisation, and adds one active account, which then logs in
  with the same password under every capitalisation of the email.
\<close>

theorem registered_accounts_log_in:
  assumes "Register env email password name s = (Inr user, s1)"
    and "ae_lower env2 = ae_lower env" and "ae_sha256 env2 = ae_sha256 env" and "ae_lower env email2 = ae_lower env email"
    and bcrypt: "\<And>p h. ae_bcryptHash env p = Inr h \<Longrightarrow> ae_bcryptCompare env2 h p"
    and "validate_LoginInput env2 email2 password = Inr ()" and "ae_fault env2 ''UserRepo.GetByEmail'' [] = None"
  shows "au_users s1 = au_users s @ [user] \<and> U_Status user = UserStatusActive \<and>
    (\<forall>u \<in> set (au_users s). ae_lower env (U_Email u) \<noteq> ae_lower env email) \<and>
    check_credentials env2 email2 password s1 = Inr user"
proof -
  obtain h err where hash: "hashPassword env password = Inr h" and free: "GetByEmail env email s = Inl err" "has_code CodeNotFound err"
    and user: "user = user_defaults (new_user env (ae_id env (au_ids s)) email name h)"
    and rows: "au_users s1 = au_users s @ [user]"
    by (rule Register_run [OF assms(1)])
  have fields: "U_Email user = email" "U_Status user = UserStatusActive" "U_PasswordHash user = h"
    by (simp_all add: user user_defaults_def new_user_def)
  have none: "find (\<lambda>u. ae_lower env (U_Email u) = ae_lower env email) (au_users s) = None"
    using free by (auto simp: GetByEmail_def auth_query_def db_op_def row_or_def has_code_driver split: option.splits if_splits)
  have "find (\<lambda>u. ae_lower env2 (U_Email u) = ae_lower env2 email2) (au_users s1) = Some user"
    using none by (simp add: rows find_append assms(2,4) fields(1))
  then have "GetByEmail env2 email2 s1 = Inr user"
    using assms(7) by (simp add: GetByEmail_def auth_query_def db_op_def row_or_def)
  moreover have "verifyPassword env2 password h"
    using bcrypt hash assms(3) by (simp add: hashPassword_def verifyPassword_def)
  ultimately have "check_credentials env2 email2 password s1 = Inr user"
    using assms(6) by (simp add: check_credentials_def fields)
  with none rows fields(2) show ?thesis by (simp add: find_None_iff')
qed

lemma registered_accounts_log_in_witness:
  "\<exists>user. au_users demo_registered = [user] \<and>
     check_credentials (demo_auth time_Second) ''a@b'' ''Aa1!Aa1!'' demo_registered = Inr user"
proof -
  let ?run = "Register (demo_auth 0) ''a@b'' ''Aa1!Aa1!'' ''Al'' initial_auth"
  have ok: "\<not> isl (fst ?run)" by code_simp
  have valid: "validate_LoginInput (demo_auth time_Second) ''a@b'' ''Aa1!Aa1!'' = Inr ()" by code_simp
  have state: "demo_registered = snd ?run" by (simp add: demo_registered_def demo_register_def)
  show ?thesis
    using registered_accounts_log_in [OF succeeds [OF ok], of "demo_auth time_Second" "''a@b''"] valid
    by (auto simp: state demo_auth_def initial_auth_def)
qed



subsection \<open>Slugs\<close>

text \<open>
  The slug of a new workspace consists of lower-case letters and digits, single hyphens between them, at most 80 bytes,
  and no workspace has it.
\<close>

theorem new_slugs_are_free:
  assumes "uniqueWorkspaceSlug env raw s = Inr slug"
  shows "slug_ok slug \<and> slug \<noteq> '''' \<and> length slug \<le> 80 \<and> (\<forall>w \<in> set (au_workspaces s). W_Slug w \<noteq> slug)"
proof -
  have free: "\<forall>w \<in> set (au_workspaces s). W_Slug w \<noteq> slug"
    using slug_rounds_free assms unfolding uniqueWorkspaceSlug_def by blast
  have "slug = slug_base raw \<or> (\<exists>i. slug = slug_candidate (slug_base raw) i)"
    using slug_rounds_shape assms unfolding uniqueWorkspaceSlug_def by blast
  then show ?thesis
    using free slug_base_ok [of raw] slug_candidate_ok [OF slug_base_ok(1,2)] by auto
qed

text \<open>One workspace, named after the user.\<close>

definition demo_named :: auth_state where
  "demo_named =
     initial_auth\<lparr>au_workspaces := [\<lparr>W_ID = 9, W_Name = ''Al'', W_Slug = ''al'', W_Kind = WorkspaceKindOther '''', W_AvatarURL = '''',
       W_CreatedBy = 1, W_CreatedAt = 0, W_UpdatedAt = 0\<rparr>]\<rparr>"

lemma new_slugs_are_free_witness:
  "slug_ok ''al-2'' \<and> ''al-2'' \<notin> W_Slug ` set (au_workspaces demo_named)"
proof -
  have "uniqueWorkspaceSlug (demo_auth 0) '' Al!'' demo_named = Inr ''al-2''" by code_simp
  from new_slugs_are_free [OF this] show ?thesis by (metis (no_types, lifting) image_iff)
qed

subsection \<open>What can go wrong\<close>

text \<open>
  The touch worker writes back what it read: when a logout comes in between, the logged-out session is valid
  again.
\<close>

theorem touch_worker_undoes_logout:
  assumes "faultless env" and "au_pending s = [sid]" and "flush_fetch env s = (Inr found, s1)"
    and "get_session env sid s1 = Inr (Some st)" and "ae_now env < Ss_ExpiresAt st"
    and "LogoutSessionForUser env user sid s1 = (Inr (), s2)"
  shows "IsSessionValid env sid s2 = Inr False \<and> IsSessionValid env sid (snd (flush_write env found s2)) = Inr True"
proof -
  have s1: "s1 = s\<lparr>au_pending := []\<rparr>" and found: "found = [(sid, st)]"
    using assms(2-4)
    by (auto simp: flush_fetch_def run_Inr redis_read_def faultless_reads [OF assms(1)] assms(1)[unfolded faultless_def] List.map_filter_def)
  have "Revoke env sid s1 = (Inr (), s2)"
    using assms(6) by (auto simp: LogoutSessionForUser_def run_Inr)
  then have "IsSessionValid env sid s2 = Inr False"
    using Revoke_dead(1) [OF assms(1), of sid s1 sid] by (simp add: IsSessionValid_def faultless_reads [OF assms(1)])
  moreover have "rd_sessions (au_redis (snd (flush_write env found s2))) sid =
      Some (st\<lparr>Ss_LastActiveAt := ae_now env\<rparr>, Some (Ss_ExpiresAt st))"
    using assms(5)
    by (simp add: flush_write_def found snd_ignore faultless_writes [OF assms(1)] set_session_def redis_expiry_def)
  ultimately show ?thesis
    using assms(5) by (simp add: IsSessionValid_def faultless_reads [OF assms(1)] redis_get_def)
qed

lemma touch_worker_undoes_logout_witness:
  "IsSessionValid (demo_auth time_Second) ''s''
     (snd (flush_write (demo_auth time_Second) (projr (fst (flush_fetch (demo_auth time_Second) (demo_state\<lparr>au_pending := [''s'']\<rparr>))))
        (snd (LogoutSessionForUser (demo_auth time_Second) ''u'' ''s''
           (snd (flush_fetch (demo_auth time_Second) (demo_state\<lparr>au_pending := [''s'']\<rparr>))))))) = Inr True"
proof -
  let ?env = "demo_auth time_Second" and ?s = "demo_state\<lparr>au_pending := [''s'']\<rparr>"
  let ?s1 = "snd (flush_fetch ?env ?s)"
  have ok: "\<not> isl (fst (flush_fetch ?env ?s))" "\<not> isl (fst (LogoutSessionForUser ?env ''u'' ''s'' ?s1))" by code_simp+
  have out: "LogoutSessionForUser ?env ''u'' ''s'' ?s1 = (Inr (), snd (LogoutSessionForUser ?env ''u'' ''s'' ?s1))"
    using succeeds [OF ok(2)] by fastforce
  have "get_session ?env ''s'' ?s1 = Inr (Some \<lparr>Ss_ID = ''s'', Ss_UserID = ''u'', Ss_RefreshTokenHash = ''t'', Ss_DeviceInfo = ''d'',
      Ss_IPAddress = ''i'', Ss_CreatedAt = 0, Ss_ExpiresAt = 100 * time_Second, Ss_LastActiveAt = 0\<rparr>)"
    by code_simp
  from touch_worker_undoes_logout [OF demo_faultless _ succeeds [OF ok(1)] this _ out]
  show ?thesis by (simp add: demo_auth_def time_Second_def)
qed

text \<open>
  Concrete run: \<open>LogoutAll\<close> of a user whose session could not be revoked reports success, empties the user's set,
  and leaves the session valid and out of every list.
\<close>

definition demo_faulty :: auth_env where
  "demo_faulty = (demo_auth time_Second)\<lparr>ae_redis := (\<lambda>op _. if op = ''Revoke'' then Some (0, Inr ''timeout'') else None)\<rparr>"

lemma LogoutAll_swallows_failures:
  "\<not> isl (fst (LogoutAll demo_faulty ''u'' demo_state))"
  "rd_users (au_redis (snd (LogoutAll demo_faulty ''u'' demo_state))) ''u'' = []"
  "IsSessionValid demo_faulty ''s'' (snd (LogoutAll demo_faulty ''u'' demo_state)) = Inr True"
  by code_simp+

text \<open>A new locale is in the response and in no table: the \<open>UPDATE\<close> does not set the column.\<close>

lemma UpdateProfile_forgets_locale:
  assumes "UpdateProfile env u inp s = (Inr user, s1)"
  shows "map U_Locale (au_users s1) = map U_Locale (au_users s)"
proof -
  obtain row r s2 where updated: "Users_Update env row s = (Inr r, s2)" and rest: "au_users s1 = au_users s2"
    by (rule UpdateProfile_run [OF assms])
  show ?thesis unfolding rest by (rule Users_Update_run(3) [OF updated])
qed

text \<open>
  Concrete run: a taken slug of 80 bytes is its own successor in every round, so a workspace of that name cannot be
  created.
\<close>

lemma long_slugs_run_out:
  "uniqueWorkspaceSlug (demo_auth 0) (replicate 80 CHR ''a'')
     (demo_named\<lparr>au_workspaces := map (\<lambda>w. w\<lparr>W_Slug := replicate 80 CHR ''a''\<rparr>) (au_workspaces demo_named)\<rparr>) =
   Inl (Conflict ''unable to generate a unique workspace slug'')"
  by code_simp

text \<open>
  Concrete run: the user 2 makes a workspace with the slug reserved for the user 1, who then gets it for a personal
  space.
\<close>

definition demo_squatted :: auth_state where
  "demo_squatted =
     auth_execute
       [(demo_auth 0, RegisterReq ''a@b'' ''Aa1!Aa1!'' ''Al''), (demo_auth 0, RegisterReq ''c@d'' ''Aa1!Aa1!'' ''Bo''),
        (demo_auth 0, CreateWorkspaceReq 2 \<lparr>CW_Name = ''x'', CW_Slug = ''personal-u'', CW_AvatarURL = ''''\<rparr>)] initial_auth"

lemma personal_slugs_can_be_squatted:
  "map_sum (\<lambda>_. ()) (\<lambda>w. (W_CreatedBy w, W_Kind w)) (fst (GetOrCreatePersonalWorkspace (demo_auth 0) 1 demo_squatted)) =
   Inr (2, WorkspaceKindPersonal)"
  by code_simp

end
