(* ===== verification/RecStore.thy ===== *)
theory RecStore
  imports Breakout
begin

text \<open>
  The world of the recording service (\<open>internal/service/recording\<close>): the entities of \<open>domain/entity/recording.go\<close>
  and \<open>audit.go\<close>, the tables, the environment, and how statements and transactions run. Left out are the fields the
  service never sets or reads: the client's address and agent in an audit entry; key, time and tag of a stored file.

  Other requests, workers and replicas run between any two statements: \<open>re_other\<close> says what they did to the tables
  before the \<open>n\<close>-th statement, \<open>re_calls\<close> what the call service's state is at that moment. A transaction runs at
  once. A statement can fail before it took effect or lose its reply after it did.
\<close>

subsection \<open>Entities\<close>

datatype RecordingStatus =
  RecordingStatusRecording | RecordingStatusProcessing | RecordingStatusReady | RecordingStatusFailed

datatype RecordingStrategy = RecordingStrategyComposite | RecordingStrategyPerTrack | RecordingStrategyBoth

datatype RecordingFormat = RecordingFormatWebM | RecordingFormatMP4 | RecordingFormatBundle

datatype RecordingArtifactKind =
    RecordingArtifactKindAudioTrack | RecordingArtifactKindVideoTrack | RecordingArtifactKindScreenTrack
  | RecordingArtifactKindComposite | RecordingArtifactKindTranscript | RecordingArtifactKindManifest
  | RecordingArtifactKindAIManifest | RecordingArtifactKindSessionBundle

datatype RecordingStorageTier = RecordingStorageTierHot | RecordingStorageTierWarm | RecordingStorageTierArchive

text \<open>Metadata is what its JSON object says, as texts.\<close>

type_synonym metadata = "(string \<times> string) list"

record Recording =
  Rec_ID :: uuid
  Rec_CallID :: uuid
  Rec_WorkspaceID :: uuid
  Rec_StartedBy :: uuid
  Rec_Strategy :: RecordingStrategy
  Rec_Format :: RecordingFormat
  Rec_Status :: RecordingStatus
  Rec_Duration :: "int option"
  Rec_FileSize :: "int option"
  Rec_StoragePath :: string
  Rec_StorageTier :: RecordingStorageTier
  Rec_StorageClass :: string
  Rec_IntegritySHA256 :: string
  Rec_Downloadable :: bool
  Rec_ProcessingAttempts :: int
  Rec_MaxProcessingAttempts :: int
  Rec_LastError :: string
  Rec_Metadata :: metadata
  Rec_EgressID :: "string option"
  Rec_LegalHold :: bool
  Rec_StartedAt :: gotime
  Rec_StoppedAt :: "gotime option"
  Rec_ReadyAt :: "gotime option"
  Rec_NextRetryAt :: "gotime option"
  Rec_TierUpdatedAt :: "gotime option"
  Rec_ExpiresAt :: "gotime option"
  Rec_CreatedAt :: gotime

record RecordingArtifact =
  RA_ID :: uuid
  RA_RecordingID :: uuid
  RA_WorkspaceID :: uuid
  RA_Kind :: RecordingArtifactKind
  RA_SourceUserID :: "uuid option"
  RA_TrackID :: string
  RA_StreamID :: string
  RA_Layer :: string
  RA_Codec :: string
  RA_MimeType :: string
  RA_Format :: string
  RA_StoragePath :: string
  RA_StorageTier :: RecordingStorageTier
  RA_StorageClass :: string
  RA_FileSize :: int
  RA_IntegritySHA256 :: string
  RA_PacketCount :: int
  RA_Duration :: "int option"
  RA_Downloadable :: bool
  RA_Metadata :: metadata
  RA_TierUpdatedAt :: "gotime option"
  RA_CreatedAt :: gotime

record AuditEntry =
  Au_ID :: uuid
  Au_WorkspaceID :: uuid
  Au_ActorID :: uuid
  Au_Action :: string
  Au_TargetType :: string
  Au_TargetID :: string
  Au_Metadata :: metadata
  Au_CreatedAt :: gotime

record ProcessedRecording =
  PR_Format :: RecordingFormat
  PR_StoragePath :: string
  PR_StorageTier :: RecordingStorageTier
  PR_StorageClass :: string
  PR_FileSize :: int
  PR_DurationSeconds :: int
  PR_IntegritySHA256 :: string
  PR_Downloadable :: bool
  PR_Metadata :: metadata
  PR_Artifacts :: "RecordingArtifact list"

record FileInfo =
  FI_Size :: int
  FI_MimeType :: string
  FI_StorageClass :: string

record SignedURLOptions =
  SO_Filename :: string
  SO_ContentType :: string
  SO_ExpiresIn :: int
  SO_Attachment :: bool

subsection \<open>Environment and state\<close>

record rec_db =
  rb_recordings :: "Recording list"
  rb_artifacts :: "RecordingArtifact list"
  rb_audit :: "AuditEntry list"

text \<open>
  The \<open>n\<close> of a collaborator counts what was asked of it before: SQL statements for \<open>re_fault\<close>, \<open>re_ctx\<close>
  (\<open>ctx.Err()\<close>) and \<open>re_sleep\<close> (whether the context ended during a pause), requests to LiveKit and to the store
  for theirs. \<open>re_fault\<close> tells whether the failed statement took effect. \<open>re_netTimeout\<close> and \<open>re_pgCode\<close> classify
  an error as a network timeout and by its SQLSTATE. \<open>re_mapOrder\<close> is the order in which Go iterates over a map.
  Nil collaborators are flags, or \<open>None\<close>.
\<close>

record rec_env =
  re_now :: gotime
  re_call :: call_env
  re_calls :: "nat \<Rightarrow> call_state"
  re_other :: "nat \<Rightarrow> rec_db \<Rightarrow> rec_db"
  re_fault :: "nat \<Rightarrow> string \<Rightarrow> (bool \<times> driver_error) option"
  re_ctx :: "nat \<Rightarrow> sentinel option"
  re_sleep :: "nat \<Rightarrow> sentinel option"
  re_netTimeout :: "go_error \<Rightarrow> bool"
  re_pgCode :: "go_error \<Rightarrow> string option"
  re_tx :: bool
  re_scopeRecordings :: bool
  re_scopeAudit :: bool
  re_audit :: bool
  re_callAccess :: bool
  re_workspaces :: bool
  re_egress :: bool
  re_startEgress :: "nat \<Rightarrow> uuid \<Rightarrow> string \<Rightarrow> go_error + string"
  re_stopEgress :: "nat \<Rightarrow> string \<Rightarrow> go_error option"
  re_broadcaster :: bool
  re_store :: bool
  re_storeGet :: "string \<Rightarrow> go_error + FileInfo"
  re_storeDelete :: "nat \<Rightarrow> string \<Rightarrow> go_error option"
  re_tiered :: "(RecordingStorageTier \<Rightarrow> string) option"
  re_transition :: "nat \<Rightarrow> string \<Rightarrow> RecordingStorageTier \<Rightarrow> string \<Rightarrow> go_error option"
  re_signer :: "(string \<Rightarrow> SignedURLOptions \<Rightarrow> go_error + string) option"
  re_saturated :: bool
  re_hooks :: bool
  re_mapOrder :: "string list \<Rightarrow> string list"
  re_id :: "nat \<Rightarrow> uuid"
  re_uuidString :: "uuid \<Rightarrow> string"
  re_maxAttempts :: int
  re_retryBackoff :: int
  re_retention :: int
  re_quotaBytes :: int
  re_warmAfter :: int
  re_archiveAfter :: int
  re_opTimeout :: int
  re_signedURLTTL :: int

text \<open>
  The state logs what left the process: requests to start and stop egress jobs, broadcasts (\<open>True\<close> is
  \<open>call.recording.started\<close>), keys of objects the store was asked to delete or to move to another tier, hooks, and
  the recordings whose spool directory was removed.
\<close>

record rec_state =
  rs_db :: rec_db
  rs_stmts :: nat
  rs_ids :: nat
  rs_starts :: "(uuid \<times> string) list"
  rs_stops :: "string list"
  rs_events :: "(bool \<times> Recording) list"
  rs_deletes :: "string list"
  rs_moves :: "(string \<times> RecordingStorageTier) list"
  rs_hooks :: "uuid list"
  rs_spools :: "uuid list"

type_synonym 'a rec_handler = "(rec_state, go_error, 'a) handler"

definition rec_New :: "rec_env \<Rightarrow> uuid rec_handler" where
  "rec_New env = (\<lambda>s. (Inr (re_id env (rs_ids s)), s\<lparr>rs_ids := Suc (rs_ids s)\<rparr>))"

text \<open>The others run, then the statement.\<close>

definition rec_tick :: "rec_env \<Rightarrow> rec_state \<Rightarrow> rec_state" where
  "rec_tick env s = s\<lparr>rs_db := re_other env (rs_stmts s) (rs_db s), rs_stmts := Suc (rs_stmts s)\<rparr>"

definition rec_query :: "rec_env \<Rightarrow> string \<Rightarrow> string \<Rightarrow> (rec_db \<Rightarrow> go_error + 'a) \<Rightarrow> 'a rec_handler" where
  "rec_query env op wrap f s =
     (let s1 = rec_tick env s
      in (case re_fault env (rs_stmts s) op of
            Some (_, d) \<Rightarrow> (Inl (Wrapf wrap (driver_error d)), s1)
          | None \<Rightarrow> (f (rs_db s1), s1)))"

definition rec_exec :: "rec_env \<Rightarrow> string \<Rightarrow> string \<Rightarrow> (rec_db \<Rightarrow> go_error + 'a \<times> rec_db) \<Rightarrow> 'a rec_handler" where
  "rec_exec env op wrap f s =
     (let s1 = rec_tick env s;
          s2 = (case f (rs_db s1) of Inl _ \<Rightarrow> s1 | Inr (_, db) \<Rightarrow> s1\<lparr>rs_db := db\<rparr>)
      in (case re_fault env (rs_stmts s) op of
            Some (applied, d) \<Rightarrow> (Inl (Wrapf wrap (driver_error d)), if applied then s2 else s1)
          | None \<Rightarrow> (map_sum id fst (f (rs_db s1)), s2)))"

text \<open>\<open>WithinTx\<close>, for one closure over the recording and audit tables.\<close>

definition rec_alone :: "rec_env \<Rightarrow> rec_env" where
  "rec_alone env = env\<lparr>re_other := (\<lambda>_ db. db)\<rparr>"

definition rec_WithinTx :: "rec_env \<Rightarrow> (rec_env \<Rightarrow> 'a rec_handler) \<Rightarrow> 'a rec_handler" where
  "rec_WithinTx env fn s =
     (let s1 = rec_tick env s
      in (case re_fault env (rs_stmts s) ''TxManager.Begin'' of
            Some (_, d) \<Rightarrow> (Inl (Wrapf ''postgres: begin transaction'' (driver_error d)), s1)
          | None \<Rightarrow>
              (case fn (rec_alone env) s1 of
                 (Inl e, s2) \<Rightarrow> (Inl e, s2\<lparr>rs_db := rs_db s1\<rparr>)
               | (Inr x, s2) \<Rightarrow>
                   let s3 = s2\<lparr>rs_stmts := Suc (rs_stmts s2)\<rparr>
                   in (case re_fault env (rs_stmts s2) ''TxManager.Commit'' of
                         Some (applied, d) \<Rightarrow>
                           (Inl (Wrapf ''postgres: commit transaction'' (driver_error d)),
                            if applied then s3 else s3\<lparr>rs_db := rs_db s1\<rparr>)
                       | None \<Rightarrow> (Inr x, s3)))))"

end
