(* ===== verification/RecRepo.thy ===== *)
theory RecRepo
  imports RecStore
begin

text \<open>
  The statements of \<open>repository/postgres/recording.go\<close> and \<open>audit.go\<close> over the tables \<open>recordings\<close>,
  \<open>recording_artifacts\<close> and \<open>audit_log\<close>, with what migrations 015, 025 and 044 make the database check: the
  status trigger, the ranges, one active recording per call, one recording per egress job, one artifact per object.
\<close>

subsection \<open>What the database checks\<close>

text \<open>\<open>trg_recording_status_transition\<close>.\<close>

fun status_transition :: "RecordingStatus \<Rightarrow> RecordingStatus \<Rightarrow> bool" where
  "status_transition RecordingStatusRecording new =
     (new = RecordingStatusRecording \<or> new = RecordingStatusProcessing \<or> new = RecordingStatusFailed)"
| "status_transition RecordingStatusProcessing new =
     (new = RecordingStatusProcessing \<or> new = RecordingStatusReady \<or> new = RecordingStatusFailed)"
| "status_transition RecordingStatusFailed new = (new = RecordingStatusFailed \<or> new = RecordingStatusProcessing)"
| "status_transition RecordingStatusReady new = (new = RecordingStatusReady)"

definition active_status :: "RecordingStatus \<Rightarrow> bool" where
  "active_status st = (st = RecordingStatusRecording \<or> st = RecordingStatusProcessing)"

definition nonneg :: "int option \<Rightarrow> bool" where
  "nonneg x = (case x of None \<Rightarrow> True | Some n \<Rightarrow> 0 \<le> n)"

definition int4 :: "int \<Rightarrow> bool" where
  "int4 n = (- (2 ^ 31) \<le> n \<and> n < 2 ^ 31)"

definition int4_opt :: "int option \<Rightarrow> bool" where
  "int4_opt x = (case x of None \<Rightarrow> True | Some n \<Rightarrow> int4 n)"

definition recording_checks :: "Recording \<Rightarrow> bool" where
  "recording_checks r =
     (nonneg (Rec_Duration r) \<and> nonneg (Rec_FileSize r) \<and> 0 \<le> Rec_ProcessingAttempts r \<and>
      1 \<le> Rec_MaxProcessingAttempts r \<and> Rec_ProcessingAttempts r \<le> Rec_MaxProcessingAttempts r \<and>
      int4 (Rec_MaxProcessingAttempts r) \<and> int4_opt (Rec_Duration r))"

text \<open>The unique indexes: primary key, \<open>ux_recordings_active_per_call\<close>, \<open>ux_recordings_egress_id\<close>.\<close>

definition recording_clash :: "Recording \<Rightarrow> Recording \<Rightarrow> bool" where
  "recording_clash r q =
     (Rec_ID r = Rec_ID q \<or>
      Rec_CallID r = Rec_CallID q \<and> active_status (Rec_Status r) \<and> active_status (Rec_Status q) \<or>
      Rec_EgressID r \<noteq> None \<and> Rec_EgressID r = Rec_EgressID q)"

text \<open>An \<open>INSERT\<close> parses when it has as many columns as values; the driver sends one argument per placeholder.\<close>

definition insert_parses :: "string list \<Rightarrow> nat list \<Rightarrow> nat \<Rightarrow> bool" where
  "insert_parses cols values_list args = (length cols = length values_list \<and> length (remdups values_list) = args)"

definition recording_columns :: "string list" where
  "recording_columns =
     [''id'', ''call_id'', ''workspace_id'', ''started_by'', ''strategy'', ''format'', ''status'', ''duration'', ''file_size'',
      ''storage_path'', ''storage_tier'', ''storage_class'', ''integrity_sha256'', ''downloadable'', ''processing_attempts'',
      ''max_processing_attempts'', ''last_error'', ''metadata'', ''legal_hold'', ''started_at'', ''stopped_at'', ''ready_at'',
      ''next_retry_at'', ''tier_updated_at'', ''expires_at'', ''created_at'', ''egress_id'']"

definition recording_placeholders :: "nat list" where
  "recording_placeholders =
     [1, 2, 3, 4, 5, 6, 7, 8, 9, 10, 11, 12, 13, 14, 15, 16, 17, 18, 19, 20, 21, 22, 23, 24, 25, 26, 27]"

definition artifact_columns :: "string list" where
  "artifact_columns =
     [''id'', ''recording_id'', ''workspace_id'', ''kind'', ''source_user_id'', ''track_id'', ''stream_id'', ''layer'',
      ''codec'', ''mime_type'', ''format'', ''storage_path'', ''storage_tier'', ''storage_class'', ''file_size'',
      ''integrity_sha256'', ''packet_count'', ''duration'', ''downloadable'', ''metadata'', ''tier_updated_at'', ''created_at'']"

definition artifact_placeholders :: "nat list" where
  "artifact_placeholders = [1, 2, 3, 4, 5, 6, 7, 8, 9, 10, 11, 12, 13, 14, 15, 16, 17, 18, 19, 20, 21]"

definition recording_arguments :: nat where "recording_arguments = 27"

definition artifact_arguments :: nat where "artifact_arguments = 22"

definition sqlstate :: "string \<Rightarrow> string \<Rightarrow> go_error" where
  "sqlstate wrap c = Wrapf wrap (Opaque c)"

subsection \<open>Recordings\<close>

text \<open>
  The foreign key to \<open>calls\<close>; the ones to workspaces and users hold because the workspace is the call's and the
  user is one of its participants.
\<close>

definition insert_recording :: "call_db \<Rightarrow> Recording \<Rightarrow> rec_db \<Rightarrow> go_error + unit \<times> rec_db" where
  "insert_recording calls rec db =
     (if \<not> insert_parses recording_columns recording_placeholders recording_arguments
      then Inl (sqlstate ''postgres: create recording'' ''42601'')
      else if \<not> recording_checks rec then Inl (sqlstate ''postgres: create recording'' ''23514'')
      else if \<exists>q \<in> set (rb_recordings db). recording_clash rec q then Inl (Conflict ''call is already being recorded'')
      else if \<not> (\<exists>c \<in> set (db_calls calls). Call_ID c = Rec_CallID rec)
      then Inl (sqlstate ''postgres: create recording'' ''23503'')
      else Inr ((), db\<lparr>rb_recordings := rb_recordings db @ [rec]\<rparr>))"

text \<open>\<open>UPDATE recordings SET f WHERE id = rid AND P RETURNING ...\<close>.\<close>

definition update_recording ::
  "string \<Rightarrow> uuid \<Rightarrow> (Recording \<Rightarrow> bool) \<Rightarrow> (Recording \<Rightarrow> Recording) \<Rightarrow> rec_db \<Rightarrow> go_error + Recording \<times> rec_db" where
  "update_recording wrap rid P f db =
     (case find (\<lambda>r. Rec_ID r = rid \<and> P r) (rb_recordings db) of
        None \<Rightarrow> Inl (NotFound ''recording not found'')
      | Some r \<Rightarrow>
          if \<not> status_transition (Rec_Status r) (Rec_Status (f r)) then Inl (sqlstate wrap ''P0001'')
          else if \<not> recording_checks (f r) then Inl (sqlstate wrap ''23514'')
          else if \<exists>q \<in> set (rb_recordings db). Rec_ID q \<noteq> rid \<and> recording_clash (f r) q then Inl (sqlstate wrap ''23505'')
          else Inr (f r, db\<lparr>rb_recordings := upd_where (\<lambda>q. Rec_ID q = rid) f (rb_recordings db)\<rparr>))"

definition affected :: "go_error + 'a \<times> rec_db \<Rightarrow> go_error + unit \<times> rec_db" where
  "affected r = map_sum id (\<lambda>(_, db). ((), db)) r"

definition Recordings_Create :: "rec_env \<Rightarrow> Recording \<Rightarrow> unit rec_handler" where
  "Recordings_Create env rec = (\<lambda>s.
     rec_exec env ''RecordingRepo.Create'' ''postgres: create recording''
       (insert_recording (st_db (re_calls env (rs_stmts s))) rec) s)"

definition SetEgressID :: "rec_env \<Rightarrow> uuid \<Rightarrow> string \<Rightarrow> unit rec_handler" where
  "SetEgressID env rid egressID =
     rec_exec env ''RecordingRepo.SetEgressID'' ''postgres: set recording egress id''
       (\<lambda>db. affected (update_recording ''postgres: set recording egress id'' rid (\<lambda>_. True)
          (\<lambda>r. r\<lparr>Rec_EgressID := Some egressID\<rparr>) db))"

definition scanRecording :: "Recording option \<Rightarrow> go_error + Recording" where
  "scanRecording row = (case row of None \<Rightarrow> Inl (NotFound ''recording not found'') | Some r \<Rightarrow> Inr r)"

definition Recordings_GetByID :: "rec_env \<Rightarrow> uuid \<Rightarrow> Recording rec_handler" where
  "Recordings_GetByID env rid =
     rec_query env ''RecordingRepo.GetByID'' ''postgres: scan recording''
       (\<lambda>db. scanRecording (find (\<lambda>r. Rec_ID r = rid) (rb_recordings db)))"

definition GetByEgressID :: "rec_env \<Rightarrow> string \<Rightarrow> Recording rec_handler" where
  "GetByEgressID env egressID =
     rec_query env ''RecordingRepo.GetByEgressID'' ''postgres: scan recording''
       (\<lambda>db. scanRecording (find (\<lambda>r. Rec_EgressID r = Some egressID) (rb_recordings db)))"

definition GetActiveByCall :: "rec_env \<Rightarrow> uuid \<Rightarrow> Recording rec_handler" where
  "GetActiveByCall env callID =
     rec_query env ''RecordingRepo.GetActiveByCall'' ''postgres: scan recording''
       (\<lambda>db. scanRecording (find (\<lambda>_. True)
          (sort_key (\<lambda>r. - Rec_StartedAt r)
             (filter (\<lambda>r. Rec_CallID r = callID \<and> active_status (Rec_Status r)) (rb_recordings db)))))"

definition Recordings_ListByCall :: "rec_env \<Rightarrow> uuid \<Rightarrow> Recording list rec_handler" where
  "Recordings_ListByCall env callID =
     rec_query env ''RecordingRepo.ListByCall'' ''postgres: query recordings''
       (\<lambda>db. Inr (sort_key Rec_StartedAt (filter (\<lambda>r. Rec_CallID r = callID) (rb_recordings db))))"

definition row_limit :: "int \<Rightarrow> nat" where
  "row_limit limit = nat (if limit \<le> 0 then 50 else limit)"

text \<open>\<open>ORDER BY stopped_at NULLS FIRST, created_at\<close>.\<close>

definition ListByStatus :: "rec_env \<Rightarrow> RecordingStatus \<Rightarrow> int \<Rightarrow> Recording list rec_handler" where
  "ListByStatus env status limit =
     rec_query env ''RecordingRepo.ListByStatus'' ''postgres: query recordings''
       (\<lambda>db. Inr (take (row_limit limit)
          (sort_key (\<lambda>r. (case Rec_StoppedAt r of None \<Rightarrow> (0::int, 0) | Some t \<Rightarrow> (1, t), Rec_CreatedAt r))
             (filter (\<lambda>r. Rec_Status r = status) (rb_recordings db)))))"

definition is_processable :: "gotime \<Rightarrow> Recording \<Rightarrow> bool" where
  "is_processable now r =
     ((Rec_Status r = RecordingStatusProcessing \<or> Rec_Status r = RecordingStatusFailed) \<and>
      (case Rec_NextRetryAt r of None \<Rightarrow> True | Some t \<Rightarrow> t \<le> now) \<and>
      (Rec_Status r = RecordingStatusProcessing \<or> Rec_ProcessingAttempts r < Rec_MaxProcessingAttempts r))"

definition ListProcessable :: "rec_env \<Rightarrow> gotime \<Rightarrow> int \<Rightarrow> Recording list rec_handler" where
  "ListProcessable env now limit =
     rec_query env ''RecordingRepo.ListProcessable'' ''postgres: query recordings''
       (\<lambda>db. Inr (take (row_limit limit)
          (sort_key (\<lambda>r. (the (coalesce (coalesce (Rec_NextRetryAt r) (Rec_StoppedAt r)) (Some (Rec_CreatedAt r))), Rec_CreatedAt r))
             (filter (is_processable now) (rb_recordings db)))))"

definition is_expired :: "gotime \<Rightarrow> Recording \<Rightarrow> bool" where
  "is_expired now r =
     ((case Rec_ExpiresAt r of None \<Rightarrow> False | Some t \<Rightarrow> t \<le> now) \<and> Rec_Status r = RecordingStatusReady \<and> \<not> Rec_LegalHold r)"

definition ListExpired :: "rec_env \<Rightarrow> gotime \<Rightarrow> int \<Rightarrow> Recording list rec_handler" where
  "ListExpired env now limit =
     rec_query env ''RecordingRepo.ListExpired'' ''postgres: query recordings''
       (\<lambda>db. Inr (take (row_limit limit) (sort_key (\<lambda>r. the (Rec_ExpiresAt r)) (filter (is_expired now) (rb_recordings db)))))"

definition ready_row :: "gotime \<Rightarrow> Recording \<Rightarrow> Recording \<Rightarrow> Recording" where
  "ready_row now rec r =
     r\<lparr>Rec_Status := RecordingStatusReady, Rec_Format := Rec_Format rec, Rec_Duration := Rec_Duration rec,
       Rec_FileSize := Rec_FileSize rec, Rec_StoragePath := Rec_StoragePath rec, Rec_StorageTier := Rec_StorageTier rec,
       Rec_StorageClass := Rec_StorageClass rec, Rec_IntegritySHA256 := Rec_IntegritySHA256 rec,
       Rec_Downloadable := Rec_Downloadable rec, Rec_LastError := '''', Rec_Metadata := Rec_Metadata rec,
       Rec_ReadyAt := Some now, Rec_TierUpdatedAt := Rec_TierUpdatedAt rec, Rec_NextRetryAt := None\<rparr>"

definition SetReady :: "rec_env \<Rightarrow> Recording \<Rightarrow> unit rec_handler" where
  "SetReady env rec =
     rec_exec env ''RecordingRepo.SetReady'' ''postgres: set recording ready''
       (\<lambda>db. affected (update_recording ''postgres: set recording ready'' (Rec_ID rec) (\<lambda>_. True) (ready_row (re_now env) rec) db))"

definition attempt_row :: "gotime \<Rightarrow> Recording \<Rightarrow> Recording" where
  "attempt_row nextRetryAt r =
     r\<lparr>Rec_Status := RecordingStatusProcessing, Rec_ProcessingAttempts := Rec_ProcessingAttempts r + 1,
       Rec_NextRetryAt := Some nextRetryAt\<rparr>"

definition MarkProcessingAttempt :: "rec_env \<Rightarrow> uuid \<Rightarrow> gotime \<Rightarrow> Recording rec_handler" where
  "MarkProcessingAttempt env rid nextRetryAt =
     rec_exec env ''RecordingRepo.MarkProcessingAttempt'' ''postgres: scan recording''
       (update_recording ''postgres: scan recording'' rid (\<lambda>_. True) (attempt_row nextRetryAt))"

definition failed_row :: "string \<Rightarrow> gotime option \<Rightarrow> Recording \<Rightarrow> Recording" where
  "failed_row lastError nextRetryAt r =
     r\<lparr>Rec_Status := RecordingStatusFailed, Rec_LastError := lastError, Rec_NextRetryAt := nextRetryAt\<rparr>"

definition MarkFailed :: "rec_env \<Rightarrow> uuid \<Rightarrow> string \<Rightarrow> gotime option \<Rightarrow> unit rec_handler" where
  "MarkFailed env rid lastError nextRetryAt =
     rec_exec env ''RecordingRepo.MarkFailed'' ''postgres: mark recording failed''
       (\<lambda>db. affected (update_recording ''postgres: mark recording failed'' rid (\<lambda>_. True) (failed_row lastError nextRetryAt) db))"

definition Recordings_SetLegalHold :: "rec_env \<Rightarrow> uuid \<Rightarrow> bool \<Rightarrow> unit rec_handler" where
  "Recordings_SetLegalHold env rid hold =
     rec_exec env ''RecordingRepo.SetLegalHold'' ''postgres: set legal hold''
       (\<lambda>db. affected (update_recording ''postgres: set legal hold'' rid (\<lambda>_. True) (\<lambda>r. r\<lparr>Rec_LegalHold := hold\<rparr>) db))"

definition UpdateStorageTier :: "rec_env \<Rightarrow> uuid \<Rightarrow> RecordingStorageTier \<Rightarrow> string \<Rightarrow> gotime \<Rightarrow> unit rec_handler" where
  "UpdateStorageTier env rid tier storageClass updatedAt =
     rec_exec env ''RecordingRepo.UpdateStorageTier'' ''postgres: update recording storage tier''
       (\<lambda>db. affected (update_recording ''postgres: update recording storage tier'' rid (\<lambda>_. True)
          (\<lambda>r. r\<lparr>Rec_StorageTier := tier, Rec_StorageClass := storageClass, Rec_TierUpdatedAt := Some updatedAt\<rparr>) db))"

definition stopped_row :: "gotime \<Rightarrow> Recording \<Rightarrow> Recording" where
  "stopped_row now r = r\<lparr>Rec_Status := RecordingStatusProcessing, Rec_StoppedAt := Some now, Rec_NextRetryAt := Some now\<rparr>"

definition Recordings_Stop :: "rec_env \<Rightarrow> uuid \<Rightarrow> Recording rec_handler" where
  "Recordings_Stop env rid =
     rec_exec env ''RecordingRepo.Stop'' ''postgres: scan recording''
       (update_recording ''postgres: scan recording'' rid (\<lambda>r. Rec_Status r = RecordingStatusRecording) (stopped_row (re_now env)))"

text \<open>The artifacts go with the recording (\<open>ON DELETE CASCADE\<close>).\<close>

definition delete_recording :: "uuid \<Rightarrow> rec_db \<Rightarrow> go_error + unit \<times> rec_db" where
  "delete_recording rid db =
     (if \<exists>r \<in> set (rb_recordings db). Rec_ID r = rid
      then Inr ((), db\<lparr>rb_recordings := filter (\<lambda>r. Rec_ID r \<noteq> rid) (rb_recordings db),
                       rb_artifacts := filter (\<lambda>a. RA_RecordingID a \<noteq> rid) (rb_artifacts db)\<rparr>)
      else Inl (NotFound ''recording not found''))"

definition Recordings_Delete :: "rec_env \<Rightarrow> uuid \<Rightarrow> unit rec_handler" where
  "Recordings_Delete env rid = rec_exec env ''RecordingRepo.Delete'' ''postgres: delete recording'' (delete_recording rid)"

subsection \<open>Artifacts\<close>

definition artifact_checks :: "RecordingArtifact \<Rightarrow> bool" where
  "artifact_checks a = (0 \<le> RA_FileSize a \<and> 0 \<le> RA_PacketCount a \<and> nonneg (RA_Duration a) \<and> int4_opt (RA_Duration a))"

definition insert_artifact :: "RecordingArtifact \<Rightarrow> rec_db \<Rightarrow> go_error + rec_db" where
  "insert_artifact a db =
     (if \<not> insert_parses artifact_columns artifact_placeholders artifact_arguments
      then Inl (sqlstate ''postgres: insert recording artifact'' ''42601'')
      else if \<not> artifact_checks a then Inl (sqlstate ''postgres: insert recording artifact'' ''23514'')
      else if \<exists>b \<in> set (rb_artifacts db). RA_ID b = RA_ID a \<or> RA_StoragePath b = RA_StoragePath a
      then Inl (sqlstate ''postgres: insert recording artifact'' ''23505'')
      else if \<not> (\<exists>r \<in> set (rb_recordings db). Rec_ID r = RA_RecordingID a)
      then Inl (sqlstate ''postgres: insert recording artifact'' ''23503'')
      else Inr (db\<lparr>rb_artifacts := rb_artifacts db @ [a]\<rparr>))"

fun insert_artifacts :: "RecordingArtifact list \<Rightarrow> rec_db \<Rightarrow> go_error + rec_db" where
  "insert_artifacts [] db = Inr db"
| "insert_artifacts (a # as) db = (case insert_artifact a db of Inl e \<Rightarrow> Inl e | Inr db' \<Rightarrow> insert_artifacts as db')"

definition replaceArtifactsTx :: "uuid \<Rightarrow> RecordingArtifact list \<Rightarrow> rec_db \<Rightarrow> go_error + unit \<times> rec_db" where
  "replaceArtifactsTx rid artifacts db =
     map_sum id (\<lambda>db'. ((), db'))
       (insert_artifacts artifacts (db\<lparr>rb_artifacts := filter (\<lambda>a. RA_RecordingID a \<noteq> rid) (rb_artifacts db)\<rparr>))"

text \<open>Outside a transaction it opens one of its own; either way it takes effect as a whole or not at all.\<close>

definition ReplaceArtifacts :: "rec_env \<Rightarrow> uuid \<Rightarrow> RecordingArtifact list \<Rightarrow> unit rec_handler" where
  "ReplaceArtifacts env rid artifacts =
     rec_exec env ''RecordingRepo.ReplaceArtifacts'' ''postgres: clear recording artifacts'' (replaceArtifactsTx rid artifacts)"

definition Recordings_ListArtifacts :: "rec_env \<Rightarrow> uuid \<Rightarrow> RecordingArtifact list rec_handler" where
  "Recordings_ListArtifacts env rid =
     rec_query env ''RecordingRepo.ListArtifacts'' ''postgres: list recording artifacts''
       (\<lambda>db. Inr (sort_key (\<lambda>a. (RA_CreatedAt a, RA_ID a)) (filter (\<lambda>a. RA_RecordingID a = rid) (rb_artifacts db))))"

definition GetArtifact :: "rec_env \<Rightarrow> uuid \<Rightarrow> uuid \<Rightarrow> RecordingArtifact rec_handler" where
  "GetArtifact env rid aid =
     rec_query env ''RecordingRepo.GetArtifact'' ''postgres: scan recording artifact''
       (\<lambda>db. case find (\<lambda>a. RA_RecordingID a = rid \<and> RA_ID a = aid) (rb_artifacts db) of
               None \<Rightarrow> Inl (NotFound ''recording artifact not found'')
             | Some a \<Rightarrow> Inr a)"

definition UpdateArtifactStorageTier :: "rec_env \<Rightarrow> uuid \<Rightarrow> uuid \<Rightarrow> RecordingStorageTier \<Rightarrow> string \<Rightarrow> gotime \<Rightarrow> unit rec_handler" where
  "UpdateArtifactStorageTier env rid aid tier storageClass updatedAt =
     rec_exec env ''RecordingRepo.UpdateArtifactStorageTier'' ''postgres: update recording artifact storage tier''
       (\<lambda>db. if \<exists>a \<in> set (rb_artifacts db). RA_RecordingID a = rid \<and> RA_ID a = aid
             then Inr ((), db\<lparr>rb_artifacts := upd_where (\<lambda>a. RA_RecordingID a = rid \<and> RA_ID a = aid)
                    (\<lambda>a. a\<lparr>RA_StorageTier := tier, RA_StorageClass := storageClass, RA_TierUpdatedAt := Some updatedAt\<rparr>)
                    (rb_artifacts db)\<rparr>)
             else Inl (NotFound ''recording artifact not found''))"

definition WorkspaceStorageUsage :: "rec_env \<Rightarrow> uuid \<Rightarrow> int rec_handler" where
  "WorkspaceStorageUsage env workspaceID =
     rec_query env ''RecordingRepo.WorkspaceStorageUsage'' ''postgres: sum workspace recording usage''
       (\<lambda>db. Inr (sum_list (map RA_FileSize (filter (\<lambda>a. RA_WorkspaceID a = workspaceID) (rb_artifacts db)))))"

subsection \<open>The audit log\<close>

definition insert_audit :: "AuditEntry \<Rightarrow> rec_db \<Rightarrow> go_error + unit \<times> rec_db" where
  "insert_audit e db =
     (if \<exists>a \<in> set (rb_audit db). Au_ID a = Au_ID e then Inl (sqlstate ''postgres: create audit entry'' ''23505'')
      else Inr ((), db\<lparr>rb_audit := rb_audit db @ [e]\<rparr>))"

definition Audit_Create :: "rec_env \<Rightarrow> AuditEntry \<Rightarrow> unit rec_handler" where
  "Audit_Create env e = rec_exec env ''AuditRepo.Create'' ''postgres: create audit entry'' (insert_audit e)"

subsection \<open>Retries\<close>

text \<open>\<open>err.Error()\<close>.\<close>

fun sentinel_text :: "sentinel \<Rightarrow> string" where
  "sentinel_text context_Canceled = ''context canceled''"
| "sentinel_text context_DeadlineExceeded = ''context deadline exceeded''"
| "sentinel_text syscall_EPIPE = ''broken pipe''"
| "sentinel_text syscall_ECONNRESET = ''connection reset by peer''"
| "sentinel_text net_ErrClosed = ''use of closed network connection''"
| "sentinel_text (ErrNamed s) = s"

fun Error_text :: "go_error \<Rightarrow> string" and Error_texts :: "go_error list \<Rightarrow> string" where
  "Error_text (AppError c m None) = code_str c @ '': '' @ m"
| "Error_text (AppError c m (Some e)) = code_str c @ '': '' @ m @ '': '' @ Error_text e"
| "Error_text (Sentinel s) = sentinel_text s"
| "Error_text (Opaque m) = m"
| "Error_text (Wrapf m e) = m @ '': '' @ Error_text e"
| "Error_text (Join es) = Error_texts es"
| "Error_texts [] = ''''"
| "Error_texts (e # es) = Error_text e @ (if es = [] then '''' else CHR 0x0A # Error_texts es)"

definition redis_Nil :: sentinel where
  "redis_Nil = ErrNamed ''redis: nil''"

text \<open>\<open>strings.ToLower\<close> on ASCII.\<close>

definition ShouldRetry :: "rec_env \<Rightarrow> go_error \<Rightarrow> bool" where
  "ShouldRetry env err =
     (if errors_Is err redis_Nil \<or> errors_Is err context_Canceled then False
      else if errors_Is err context_DeadlineExceeded then True
      else if re_netTimeout env err then True
      else if re_pgCode env err \<in> set (map Some [''40001'', ''40P01'', ''55P03'', ''53300'', ''57P03'']) then True
      else (let msg = map ascii_lower (Error_text err)
            in list_ex (\<lambda>w. sublist w msg)
                 [''timeout'', ''connection reset'', ''broken pipe'', ''too many clients'', ''pool timeout'',
                  ''readonly'', ''tryagain'', ''loading'']))"

record Policy =
  Po_Timeout :: int
  Po_MaxAttempts :: int
  Po_RetryBackoff :: int
  Po_MaxBackoff :: int

definition normalized :: "Policy \<Rightarrow> Policy" where
  "normalized p =
     p\<lparr>Po_Timeout := (if Po_Timeout p \<le> 0 then 5 * time_Second else Po_Timeout p),
       Po_MaxAttempts := (if Po_MaxAttempts p \<le> 0 then 1 else Po_MaxAttempts p),
       Po_RetryBackoff := (if Po_RetryBackoff p \<le> 0 then 200 * time_Millisecond else Po_RetryBackoff p),
       Po_MaxBackoff := (if Po_MaxBackoff p \<le> 0 then 5 * time_Second else Po_MaxBackoff p)\<rparr>"

text \<open>The attempts after the first; a pause may end with the context.\<close>

fun attempts_left :: "nat \<Rightarrow> rec_env \<Rightarrow> 'a rec_handler \<Rightarrow> 'a rec_handler" where
  "attempts_left 0 env fn s = fn s"
| "attempts_left (Suc left) env fn s =
     (case fn s of
        (Inr value, s1) \<Rightarrow> (Inr value, s1)
      | (Inl err, s1) \<Rightarrow>
          if \<not> ShouldRetry env err \<or> re_ctx env (rs_stmts s1) \<noteq> None then (Inl err, s1)
          else (case re_sleep env (rs_stmts s1) of
                  Some sleepErr \<Rightarrow> (Inl (Join [err, Sentinel sleepErr]), s1)
                | None \<Rightarrow> attempts_left left env fn s1))"

definition DoValue :: "rec_env \<Rightarrow> Policy \<Rightarrow> 'a rec_handler \<Rightarrow> 'a rec_handler" where
  "DoValue env policy fn = attempts_left (nat (Po_MaxAttempts (normalized policy) - 1)) env fn"

end
