(* ===== verification/Recording.thy ===== *)
theory Recording
  imports RecRepo
begin

text \<open>
  \<open>internal/service/recording/service.go\<close>, handler by handler: starting and stopping, the events of LiveKit's egress
  jobs, viewing and downloading, the processing queue, retention, and the movement between storage tiers. Calls,
  participants and access checks are those of the call service's model.
\<close>

subsection \<open>Collaborators\<close>

definition rec_call :: "rec_env \<Rightarrow> (call_env \<Rightarrow> call_state \<Rightarrow> go_error + 'a) \<Rightarrow> 'a rec_handler" where
  "rec_call env f = readM (\<lambda>s. f (re_call env) (re_calls env (rs_stmts s)))"

definition rec_not_found_or :: "go_error \<Rightarrow> string \<Rightarrow> go_error \<Rightarrow> go_error" where
  "rec_not_found_or missing failed err = (if has_code CodeNotFound err then missing else Internal failed (Some err))"

definition StartRoomCompositeFile :: "rec_env \<Rightarrow> uuid \<Rightarrow> string \<Rightarrow> string rec_handler" where
  "StartRoomCompositeFile env callID storageKey = (\<lambda>s.
     (re_startEgress env (length (rs_starts s)) callID storageKey, s\<lparr>rs_starts := rs_starts s @ [(callID, storageKey)]\<rparr>))"

definition StopEgress :: "rec_env \<Rightarrow> string \<Rightarrow> unit rec_handler" where
  "StopEgress env egressID = (\<lambda>s.
     (case re_stopEgress env (length (rs_stops s)) egressID of Some err \<Rightarrow> Inl err | None \<Rightarrow> Inr (),
      s\<lparr>rs_stops := rs_stops s @ [egressID]\<rparr>))"

definition store_Delete :: "rec_env \<Rightarrow> string \<Rightarrow> unit rec_handler" where
  "store_Delete env key = (\<lambda>s.
     (case re_storeDelete env (length (rs_deletes s)) key of Some err \<Rightarrow> Inl err | None \<Rightarrow> Inr (),
      s\<lparr>rs_deletes := rs_deletes s @ [key]\<rparr>))"

definition TransitionObject :: "rec_env \<Rightarrow> string \<Rightarrow> RecordingStorageTier \<Rightarrow> string \<Rightarrow> unit rec_handler" where
  "TransitionObject env key tier storageClass = (\<lambda>s.
     (case re_transition env (length (rs_moves s)) key tier storageClass of Some err \<Rightarrow> Inl err | None \<Rightarrow> Inr (),
      s\<lparr>rs_moves := rs_moves s @ [(key, tier)]\<rparr>))"

definition RemoveSpoolDir :: "uuid \<Rightarrow> unit rec_handler" where
  "RemoveSpoolDir rid = modifyM (\<lambda>s. s\<lparr>rs_spools := rs_spools s @ [rid]\<rparr>)"

definition rec_ignore :: "'a rec_handler \<Rightarrow> unit rec_handler" where
  "rec_ignore m = bindM (tryM m) (\<lambda>_. returnM ())"

definition BroadcastRecordingStarted :: "rec_env \<Rightarrow> Recording \<Rightarrow> unit rec_handler" where
  "BroadcastRecordingStarted env rec =
     (if re_broadcaster env then modifyM (\<lambda>s. s\<lparr>rs_events := rs_events s @ [(True, rec)]\<rparr>) else returnM ())"

definition broadcastRecordingUpdated :: "rec_env \<Rightarrow> Recording \<Rightarrow> unit rec_handler" where
  "broadcastRecordingUpdated env rec =
     (if \<not> re_broadcaster env then returnM ()
      else bindM (tryM (rec_call env (\<lambda>e. Calls_GetByID e (Rec_CallID rec)))) (\<lambda>c.
           (case c of
              Inl (_ :: go_error) \<Rightarrow> returnM ()
            | Inr _ \<Rightarrow> modifyM (\<lambda>s. s\<lparr>rs_events := rs_events s @ [(False, rec)]\<rparr>))))"

subsection \<open>Configuration\<close>

definition maxDuration :: "int \<Rightarrow> int \<Rightarrow> int" where
  "maxDuration value fallback = (if value \<le> 0 then fallback else value)"

text \<open>The defaults of \<open>NewService\<close>.\<close>

definition max_attempts :: "rec_env \<Rightarrow> int" where
  "max_attempts env = (if re_maxAttempts env \<le> 0 then 5 else re_maxAttempts env)"

definition retry_backoff :: "rec_env \<Rightarrow> int" where
  "retry_backoff env = (if re_retryBackoff env \<le> 0 then 10 * time_Second else re_retryBackoff env)"

definition workerPolicy :: "rec_env \<Rightarrow> int \<Rightarrow> Policy" where
  "workerPolicy env maxAttempts =
     \<lparr>Po_Timeout = maxDuration (re_opTimeout env) (15 * time_Second), Po_MaxAttempts = maxAttempts,
      Po_RetryBackoff = retry_backoff env, Po_MaxBackoff = 5 * time_Second\<rparr>"

definition rec_retry :: "rec_env \<Rightarrow> 'a rec_handler \<Rightarrow> 'a rec_handler" where
  "rec_retry env fn = DoValue env (workerPolicy env 2) fn"

definition defaultStorageClass :: "rec_env \<Rightarrow> RecordingStorageTier \<Rightarrow> string" where
  "defaultStorageClass env tier =
     (case re_tiered env of Some f \<Rightarrow> if re_store env then f tier else '''' | None \<Rightarrow> '''')"

definition recordingStorageKey :: "rec_env \<Rightarrow> uuid \<Rightarrow> uuid \<Rightarrow> string" where
  "recordingStorageKey env callID recordingID =
     ''recordings/'' @ re_uuidString env callID @ ''/'' @ re_uuidString env recordingID @ ''.mp4''"

subsection \<open>Audit\<close>

definition audit_entry :: "rec_env \<Rightarrow> uuid \<Rightarrow> uuid \<Rightarrow> uuid \<Rightarrow> string \<Rightarrow> string \<Rightarrow> string \<Rightarrow> metadata \<Rightarrow> AuditEntry" where
  "audit_entry env aid workspaceID actorID action targetType targetID meta =
     \<lparr>Au_ID = aid, Au_WorkspaceID = workspaceID, Au_ActorID = actorID, Au_Action = action, Au_TargetType = targetType,
      Au_TargetID = targetID, Au_Metadata = meta, Au_CreatedAt = re_now env\<rparr>"

definition createAuditTx ::
  "rec_env \<Rightarrow> uuid \<Rightarrow> uuid \<Rightarrow> string \<Rightarrow> string \<Rightarrow> string \<Rightarrow> metadata \<Rightarrow> unit rec_handler" where
  "createAuditTx env workspaceID actorID action targetType targetID meta =
     (if \<not> re_scopeAudit env then returnM ()
      else bindM (rec_New env) (\<lambda>aid. Audit_Create env (audit_entry env aid workspaceID actorID action targetType targetID meta)))"

definition logAudit :: "rec_env \<Rightarrow> uuid \<Rightarrow> uuid \<Rightarrow> string \<Rightarrow> string \<Rightarrow> string \<Rightarrow> metadata \<Rightarrow> unit rec_handler" where
  "logAudit env workspaceID actorID action targetType targetID meta =
     (if \<not> re_audit env then returnM ()
      else bindM (rec_New env) (\<lambda>aid.
           rec_ignore (Audit_Create env (audit_entry env aid workspaceID actorID action targetType targetID meta))))"

definition recordings_scope :: "rec_env \<Rightarrow> unit rec_handler" where
  "recordings_scope env =
     failIf (\<not> re_scopeRecordings env) (Unavailable ''recording transaction scope is not configured'')"

subsection \<open>Starting\<close>

definition ensureQuotaAvailable :: "rec_env \<Rightarrow> uuid \<Rightarrow> unit rec_handler" where
  "ensureQuotaAvailable env workspaceID =
     (if re_quotaBytes env \<le> 0 then returnM ()
      else bindM (mapErrM (\<lambda>err. Internal ''failed to determine workspace recording usage'' (Some err))
                    (WorkspaceStorageUsage env workspaceID)) (\<lambda>usage.
           failIf (usage \<ge> re_quotaBytes env) (Forbidden ''workspace recording storage quota exceeded'')))"

definition require_recorder :: "rec_env \<Rightarrow> uuid \<Rightarrow> uuid \<Rightarrow> string \<Rightarrow> string \<Rightarrow> unit rec_handler" where
  "require_recorder env callID userID stranger refused =
     bindM (mapErrM (rec_not_found_or (Forbidden stranger) ''failed to get participant'')
              (rec_call env (\<lambda>e. GetParticipant e callID userID))) (\<lambda>participant.
     failIf (CP_Role participant \<noteq> CallRoleHost \<and> CP_Role participant \<noteq> CallRoleCoHost) (Forbidden refused))"

definition new_recording :: "rec_env \<Rightarrow> uuid \<Rightarrow> Call \<Rightarrow> uuid \<Rightarrow> uuid \<Rightarrow> Recording" where
  "new_recording env callID call userID recID =
     \<lparr>Rec_ID = recID, Rec_CallID = callID, Rec_WorkspaceID = Call_WorkspaceID call, Rec_StartedBy = userID,
      Rec_Strategy = RecordingStrategyComposite, Rec_Format = RecordingFormatMP4, Rec_Status = RecordingStatusRecording,
      Rec_Duration = None, Rec_FileSize = None, Rec_StoragePath = recordingStorageKey env callID recID,
      Rec_StorageTier = RecordingStorageTierHot, Rec_StorageClass = defaultStorageClass env RecordingStorageTierHot,
      Rec_IntegritySHA256 = '''', Rec_Downloadable = True, Rec_ProcessingAttempts = 0,
      Rec_MaxProcessingAttempts = max_attempts env, Rec_LastError = '''', Rec_Metadata = [], Rec_EgressID = None,
      Rec_LegalHold = False, Rec_StartedAt = re_now env, Rec_StoppedAt = None, Rec_ReadyAt = None, Rec_NextRetryAt = None,
      Rec_TierUpdatedAt = None,
      Rec_ExpiresAt = (if re_retention env > 0 then Some (re_now env + re_retention env) else None),
      Rec_CreatedAt = re_now env\<rparr>"

definition typed_or_internal :: "string \<Rightarrow> go_error \<Rightarrow> go_error" where
  "typed_or_internal msg err =
     (case AsAppError err of Some (c, m, e) \<Rightarrow> AppError c m e | None \<Rightarrow> Internal msg (Some err))"

definition createRecordingRow :: "rec_env \<Rightarrow> uuid \<Rightarrow> uuid \<Rightarrow> Recording \<Rightarrow> metadata \<Rightarrow> unit rec_handler" where
  "createRecordingRow env workspaceID userID rec auditMeta =
     (if re_tx env
      then mapErrM (typed_or_internal ''failed to start recording'')
             (rec_WithinTx env (\<lambda>tx.
                bindM (recordings_scope tx) (\<lambda>_.
                bindM (Recordings_Create tx rec) (\<lambda>_.
                createAuditTx tx workspaceID userID ''recording.started'' ''recording'' (re_uuidString env (Rec_ID rec)) auditMeta))))
      else bindM (mapErrM (typed_or_internal ''failed to start recording'') (Recordings_Create env rec)) (\<lambda>_.
           logAudit env workspaceID userID ''recording.started'' ''recording'' (re_uuidString env (Rec_ID rec)) auditMeta))"

definition start_egress :: "rec_env \<Rightarrow> Recording \<Rightarrow> Recording rec_handler" where
  "start_egress env rec =
     bindM (tryM (StartRoomCompositeFile env (Rec_CallID rec) (Rec_StoragePath rec))) (\<lambda>started.
     (case started of
        Inl err \<Rightarrow>
          bindM (rec_ignore (MarkFailed env (Rec_ID rec) (''failed to start egress: '' @ Error_text err) None)) (\<lambda>_.
          throwM (case AsAppError err of Some (c, m, e) \<Rightarrow> AppError c m e | None \<Rightarrow> Unavailable ''failed to start recording''))
      | Inr egressID \<Rightarrow>
          bindM (rec_ignore (SetEgressID env (Rec_ID rec) egressID)) (\<lambda>_.
          bindM (BroadcastRecordingStarted env (rec\<lparr>Rec_EgressID := Some egressID\<rparr>)) (\<lambda>_.
          returnM (rec\<lparr>Rec_EgressID := Some egressID\<rparr>)))))"

text \<open>The checks before anything is written; the call they were made on.\<close>

definition start_checks :: "rec_env \<Rightarrow> uuid \<Rightarrow> uuid \<Rightarrow> uuid \<Rightarrow> Call rec_handler" where
  "start_checks env workspaceID callID userID =
     bindM (mapErrM (rec_not_found_or (NotFound ''call not found'') ''failed to get call'')
              (rec_call env (\<lambda>e. Calls_GetByID e callID))) (\<lambda>call.
     bindM (failIf (Call_WorkspaceID call \<noteq> workspaceID) (NotFound ''call not found'')) (\<lambda>_.
     bindM (failIf (Call_Status call \<noteq> CallStatusActive) (Forbidden ''can only record active calls'')) (\<lambda>_.
     bindM (failIf (\<not> CS_Recording (Call_Settings call)) (Forbidden ''recording is disabled for this call'')) (\<lambda>_.
     bindM (failIf (\<not> re_egress env) (Unavailable ''recording is not available'')) (\<lambda>_.
     bindM (ensureQuotaAvailable env workspaceID) (\<lambda>_.
     bindM (require_recorder env callID userID ''not a participant in this call'' ''only host or co-host can start recording'') (\<lambda>_.
     bindM (mapErrM (\<lambda>err. Internal ''failed to check existing recordings'' (Some err)) (Recordings_ListByCall env callID)) (\<lambda>existing.
     bindM (failIf (list_ex (\<lambda>r. active_status (Rec_Status r)) existing) (Conflict ''call is already being recorded'')) (\<lambda>_.
     returnM call)))))))))"

definition StartRecording :: "rec_env \<Rightarrow> uuid \<Rightarrow> uuid \<Rightarrow> uuid \<Rightarrow> Recording rec_handler" where
  "StartRecording env workspaceID callID userID =
     bindM (start_checks env workspaceID callID userID) (\<lambda>call.
     bindM (rec_New env) (\<lambda>recID.
     let rec = new_recording env callID call userID recID in
     bindM (createRecordingRow env workspaceID userID rec
              [(''call_id'', re_uuidString env callID), (''strategy'', ''composite''), (''format'', ''mp4'')]) (\<lambda>_.
     start_egress env rec)))"

subsection \<open>Stopping\<close>

definition stop_egress_job :: "rec_env \<Rightarrow> Recording \<Rightarrow> unit rec_handler" where
  "stop_egress_job env rec =
     (case Rec_EgressID rec of
        None \<Rightarrow> returnM ()
      | Some egressID \<Rightarrow>
          if egressID \<noteq> '''' \<and> re_egress env
          then mapErrM (\<lambda>err. Internal ''failed to stop egress'' (Some err)) (StopEgress env egressID) else returnM ())"

definition stop_row :: "rec_env \<Rightarrow> uuid \<Rightarrow> uuid \<Rightarrow> uuid \<Rightarrow> Recording rec_handler" where
  "stop_row env workspaceID recordingID userID =
     (if re_tx env
      then rec_WithinTx env (\<lambda>tx.
             bindM (recordings_scope tx) (\<lambda>_.
             bindM (Recordings_Stop tx recordingID) (\<lambda>r.
             bindM (createAuditTx tx workspaceID userID ''recording.stopped'' ''recording'' (re_uuidString env recordingID) []) (\<lambda>_.
             returnM r))))
      else bindM (Recordings_Stop env recordingID) (\<lambda>r.
           bindM (logAudit env workspaceID userID ''recording.stopped'' ''recording'' (re_uuidString env recordingID) []) (\<lambda>_.
           returnM r)))"

definition StopRecording :: "rec_env \<Rightarrow> uuid \<Rightarrow> uuid \<Rightarrow> uuid \<Rightarrow> unit rec_handler" where
  "StopRecording env workspaceID recordingID userID =
     bindM (mapErrM (rec_not_found_or (NotFound ''recording not found'') ''failed to get recording'')
              (Recordings_GetByID env recordingID)) (\<lambda>rec.
     bindM (failIf (Rec_WorkspaceID rec \<noteq> workspaceID) (NotFound ''recording not found'')) (\<lambda>_.
     if Rec_Status rec \<noteq> RecordingStatusRecording then returnM ()
     else
       bindM (require_recorder env (Rec_CallID rec) userID ''not a participant'' ''only host or co-host can stop recording'') (\<lambda>_.
       bindM (stop_egress_job env rec) (\<lambda>_.
       bindM (tryM (stop_row env workspaceID recordingID userID)) (\<lambda>stopped.
       (case stopped of
          Inl err \<Rightarrow>
            if has_code CodeNotFound err then returnM () else throwM (Internal ''failed to stop recording'' (Some err))
        | Inr r \<Rightarrow> broadcastRecordingUpdated env r))))))"

subsection \<open>Egress events\<close>

definition correlateEgress :: "rec_env \<Rightarrow> string \<Rightarrow> uuid \<Rightarrow> Recording option rec_handler" where
  "correlateEgress env egressID callID =
     bindM (if egressID \<noteq> '''' then tryM (GetByEgressID env egressID) else returnM (Inl (NotFound ''''))) (\<lambda>byEgress.
     (case byEgress of
        Inr rec \<Rightarrow> returnM (Some rec)
      | Inl _ \<Rightarrow>
          bindM (tryM (GetActiveByCall env callID)) (\<lambda>active.
          (case active of
             Inl (_ :: go_error) \<Rightarrow> returnM None
           | Inr rec \<Rightarrow>
               if egressID \<noteq> '''' \<and> (Rec_EgressID rec = None \<or> Rec_EgressID rec = Some '''')
               then bindM (tryM (SetEgressID env (Rec_ID rec) egressID)) (\<lambda>r.
                    returnM (Some (case r of Inr _ \<Rightarrow> rec\<lparr>Rec_EgressID := Some egressID\<rparr> | Inl (_ :: go_error) \<Rightarrow> rec)))
               else returnM (Some rec)))))"

definition terminal_status :: "RecordingStatus \<Rightarrow> bool" where
  "terminal_status st = (st = RecordingStatusReady \<or> st = RecordingStatusFailed)"

text \<open>\<open>finalize\<close> and \<open>finalizeReady\<close>: the artifacts and the ready row, in one transaction if there is a manager.\<close>

definition finalize_recording :: "rec_env \<Rightarrow> Recording \<Rightarrow> RecordingArtifact list \<Rightarrow> unit rec_handler" where
  "finalize_recording env rec artifacts =
     (if re_tx env
      then rec_WithinTx env (\<lambda>tx.
             bindM (recordings_scope tx) (\<lambda>_.
             bindM (ReplaceArtifacts tx (Rec_ID rec) artifacts) (\<lambda>_.
             SetReady tx rec)))
      else bindM (ReplaceArtifacts env (Rec_ID rec) artifacts) (\<lambda>_.
           SetReady env rec))"

definition finished_recording :: "rec_env \<Rightarrow> Recording \<Rightarrow> int \<Rightarrow> int \<Rightarrow> Recording" where
  "finished_recording env rec fileSize dur =
     rec\<lparr>Rec_Format := RecordingFormatMP4, Rec_Status := RecordingStatusReady, Rec_FileSize := Some fileSize,
         Rec_Duration := Some dur, Rec_StorageTier := RecordingStorageTierHot,
         Rec_StorageClass := defaultStorageClass env RecordingStorageTierHot, Rec_Downloadable := True,
         Rec_TierUpdatedAt := Some (re_now env)\<rparr>"

definition egress_artifact :: "rec_env \<Rightarrow> uuid \<Rightarrow> Recording \<Rightarrow> int \<Rightarrow> int \<Rightarrow> RecordingArtifact" where
  "egress_artifact env aid rec fileSize dur =
     \<lparr>RA_ID = aid, RA_RecordingID = Rec_ID rec, RA_WorkspaceID = Rec_WorkspaceID rec,
      RA_Kind = RecordingArtifactKindComposite, RA_SourceUserID = None, RA_TrackID = '''', RA_StreamID = '''',
      RA_Layer = '''', RA_Codec = '''', RA_MimeType = ''video/mp4'', RA_Format = ''mp4'', RA_StoragePath = Rec_StoragePath rec,
      RA_StorageTier = RecordingStorageTierHot, RA_StorageClass = defaultStorageClass env RecordingStorageTierHot,
      RA_FileSize = fileSize, RA_IntegritySHA256 = '''', RA_PacketCount = 0, RA_Duration = Some dur, RA_Downloadable = True,
      RA_Metadata = [], RA_TierUpdatedAt = None, RA_CreatedAt = re_now env\<rparr>"

definition finalizeRecordingReady :: "rec_env \<Rightarrow> Recording \<Rightarrow> int \<Rightarrow> int \<Rightarrow> unit rec_handler" where
  "finalizeRecordingReady env rec0 fileSizeBytes durationSeconds =
     (if terminal_status (Rec_Status rec0) then returnM ()
      else let rec = finished_recording env rec0 fileSizeBytes durationSeconds in
      bindM (rec_New env) (\<lambda>aid.
      bindM (mapErrM (\<lambda>err. Internal ''failed to finalize recording'' (Some err))
               (finalize_recording env rec [egress_artifact env aid rec fileSizeBytes durationSeconds])) (\<lambda>_.
      broadcastRecordingUpdated env rec)))"

definition finalizeRecordingFailed :: "rec_env \<Rightarrow> Recording \<Rightarrow> unit rec_handler" where
  "finalizeRecordingFailed env rec =
     (if terminal_status (Rec_Status rec) then returnM ()
      else bindM (mapErrM (\<lambda>err. Internal ''failed to mark recording failed'' (Some err))
                    (MarkFailed env (Rec_ID rec) ''livekit egress failed'' None)) (\<lambda>_.
           broadcastRecordingUpdated env (rec\<lparr>Rec_Status := RecordingStatusFailed\<rparr>)))"

definition HandleEgressEvent :: "rec_env \<Rightarrow> EgressEventInfo \<Rightarrow> unit rec_handler" where
  "HandleEgressEvent env info =
     bindM (correlateEgress env (EE_EgressID info) (EE_CallID info)) (\<lambda>found.
     (case found of
        None \<Rightarrow> failIf (EE_Phase info = EgressEventEnded) (NotFound ''no recording for egress event'')
      | Some rec \<Rightarrow>
          (case EE_Phase info of
             EgressEventEnded \<Rightarrow>
               if EE_Succeeded info then finalizeRecordingReady env rec (EE_FileSizeBytes info) (EE_DurationSeconds info)
               else finalizeRecordingFailed env rec
           | _ \<Rightarrow> returnM ())))"

definition StopActiveEgressForCall :: "rec_env \<Rightarrow> uuid \<Rightarrow> unit rec_handler" where
  "StopActiveEgressForCall env callID =
     (if \<not> re_egress env then returnM ()
      else bindM (tryM (GetActiveByCall env callID)) (\<lambda>active.
      (case active of
         Inl err \<Rightarrow> if has_code CodeNotFound err then returnM () else throwM err
       | Inr rec \<Rightarrow>
           (case Rec_EgressID rec of
              None \<Rightarrow> returnM ()
            | Some egressID \<Rightarrow> if egressID = '''' then returnM () else StopEgress env egressID))))"

end
