(* ===== verification/RecordingQueue.thy ===== *)
theory RecordingQueue
  imports Recording
begin

text \<open>
  The rest of \<open>internal/service/recording/service.go\<close>: viewing, downloading and legal holds, and the three workers,
  which process what was stopped, delete what expired, and move objects to colder storage.
\<close>

subsection \<open>Viewing and downloading\<close>

definition isWorkspaceAdmin :: "rec_env \<Rightarrow> uuid \<Rightarrow> uuid \<Rightarrow> bool rec_handler" where
  "isWorkspaceAdmin env workspaceID userID =
     (if \<not> re_workspaces env then returnM False
      else bindM (tryM (rec_call env (\<lambda>e s. GetMember (e_dir e) workspaceID userID))) (\<lambda>member.
           returnM (case member of
              Inl (_ :: go_error) \<Rightarrow> False
            | Inr m \<Rightarrow> WM_Role m = WorkspaceRoleOwner \<or> WM_Role m = WorkspaceRoleAdmin)))"

definition requireRecordingViewAccess :: "rec_env \<Rightarrow> uuid \<Rightarrow> uuid \<Rightarrow> uuid \<Rightarrow> unit rec_handler" where
  "requireRecordingViewAccess env workspaceID callID userID =
     (if re_callAccess env then rec_call env (\<lambda>e. CanAccessCall e workspaceID callID userID)
      else bindM (isWorkspaceAdmin env workspaceID userID) (\<lambda>admin.
           if admin then returnM ()
           else bindM (mapErrM (rec_not_found_or (Forbidden ''not authorized to view recording'') ''failed to verify recording access'')
                         (rec_call env (\<lambda>e. GetParticipant e callID userID))) (\<lambda>_. returnM ())))"

definition requireRecordingDownloadAccess :: "rec_env \<Rightarrow> Recording \<Rightarrow> uuid \<Rightarrow> unit rec_handler" where
  "requireRecordingDownloadAccess env rec userID =
     (if re_callAccess env then rec_call env (\<lambda>e. CanAccessCall e (Rec_WorkspaceID rec) (Rec_CallID rec) userID)
      else bindM (isWorkspaceAdmin env (Rec_WorkspaceID rec) userID) (\<lambda>admin.
           if admin \<or> Rec_StartedBy rec = userID then returnM ()
           else requireRecordingViewAccess env (Rec_WorkspaceID rec) (Rec_CallID rec) userID))"

definition getVisibleRecording :: "rec_env \<Rightarrow> uuid \<Rightarrow> uuid \<Rightarrow> uuid \<Rightarrow> Recording rec_handler" where
  "getVisibleRecording env workspaceID recordingID userID =
     bindM (mapErrM (rec_not_found_or (NotFound ''recording not found'') ''failed to get recording'')
              (Recordings_GetByID env recordingID)) (\<lambda>rec.
     bindM (failIf (Rec_WorkspaceID rec \<noteq> workspaceID) (NotFound ''recording not found'')) (\<lambda>_.
     bindM (requireRecordingViewAccess env workspaceID (Rec_CallID rec) userID) (\<lambda>_.
     returnM rec)))"

definition GetRecording :: "rec_env \<Rightarrow> uuid \<Rightarrow> uuid \<Rightarrow> uuid \<Rightarrow> Recording rec_handler" where
  "GetRecording env workspaceID recordingID userID =
     bindM (getVisibleRecording env workspaceID recordingID userID) (\<lambda>rec.
     bindM (logAudit env workspaceID userID ''recording.viewed'' ''recording'' (re_uuidString env recordingID) []) (\<lambda>_.
     returnM rec))"

definition ListRecordings :: "rec_env \<Rightarrow> uuid \<Rightarrow> uuid \<Rightarrow> uuid \<Rightarrow> Recording list rec_handler" where
  "ListRecordings env workspaceID callID userID =
     bindM (mapErrM (\<lambda>_. NotFound ''call not found'') (rec_call env (\<lambda>e. Calls_GetByID e callID))) (\<lambda>call.
     bindM (failIf (Call_WorkspaceID call \<noteq> workspaceID) (NotFound ''call not found'')) (\<lambda>_.
     bindM (requireRecordingViewAccess env workspaceID callID userID) (\<lambda>_.
     mapErrM (\<lambda>err. Internal ''failed to list recordings'' (Some err)) (Recordings_ListByCall env callID))))"

definition ListArtifacts :: "rec_env \<Rightarrow> uuid \<Rightarrow> uuid \<Rightarrow> uuid \<Rightarrow> RecordingArtifact list rec_handler" where
  "ListArtifacts env workspaceID recordingID userID =
     bindM (getVisibleRecording env workspaceID recordingID userID) (\<lambda>rec.
     mapErrM (\<lambda>err. Internal ''failed to list recording artifacts'' (Some err)) (Recordings_ListArtifacts env (Rec_ID rec)))"

definition downloadable_artifact :: "rec_env \<Rightarrow> uuid \<Rightarrow> uuid \<Rightarrow> uuid \<Rightarrow> uuid \<Rightarrow> RecordingArtifact rec_handler" where
  "downloadable_artifact env workspaceID recordingID artifactID userID =
     bindM (getVisibleRecording env workspaceID recordingID userID) (\<lambda>rec.
     bindM (requireRecordingDownloadAccess env rec userID) (\<lambda>_.
     bindM (mapErrM (rec_not_found_or (NotFound ''recording artifact not found'') ''failed to get recording artifact'')
              (GetArtifact env recordingID artifactID)) (\<lambda>artifact.
     bindM (failIf (\<not> RA_Downloadable artifact) (Forbidden ''artifact is not downloadable'')) (\<lambda>_.
     returnM artifact))))"

fun kind_str :: "RecordingArtifactKind \<Rightarrow> string" where
  "kind_str RecordingArtifactKindAudioTrack = ''audio_track''"
| "kind_str RecordingArtifactKindVideoTrack = ''video_track''"
| "kind_str RecordingArtifactKindScreenTrack = ''screen_track''"
| "kind_str RecordingArtifactKindComposite = ''composite_playback''"
| "kind_str RecordingArtifactKindTranscript = ''transcript_audio''"
| "kind_str RecordingArtifactKindManifest = ''manifest''"
| "kind_str RecordingArtifactKindAIManifest = ''ai_manifest''"
| "kind_str RecordingArtifactKindSessionBundle = ''session_bundle''"

definition download_meta :: "rec_env \<Rightarrow> uuid \<Rightarrow> RecordingArtifact \<Rightarrow> metadata" where
  "download_meta env recordingID artifact =
     [(''recording_id'', re_uuidString env recordingID), (''kind'', kind_str (RA_Kind artifact)), (''format'', RA_Format artifact)]"

definition storage_ErrNotFound :: sentinel where "storage_ErrNotFound = ErrNamed ''file not found''"

definition storage_ErrNotSupported :: sentinel where
  "storage_ErrNotSupported = ErrNamed ''storage capability is not supported''"

text \<open>The reader is the object itself; what it yields is not modelled.\<close>

definition DownloadArtifact :: "rec_env \<Rightarrow> uuid \<Rightarrow> uuid \<Rightarrow> uuid \<Rightarrow> uuid \<Rightarrow> (FileInfo \<times> RecordingArtifact) rec_handler" where
  "DownloadArtifact env workspaceID recordingID artifactID userID =
     bindM (downloadable_artifact env workspaceID recordingID artifactID userID) (\<lambda>artifact.
     bindM (mapErrM (\<lambda>err. if errors_Is err storage_ErrNotFound then NotFound ''recording artifact not found''
                            else Internal ''failed to open recording artifact'' (Some err))
              (readM (\<lambda>_. re_storeGet env (RA_StoragePath artifact)))) (\<lambda>info.
     bindM (logAudit env workspaceID userID ''recording.downloaded'' ''recording_artifact''
              (re_uuidString env (RA_ID artifact)) (download_meta env recordingID artifact)) (\<lambda>_.
     returnM (info\<lparr>FI_MimeType := RA_MimeType artifact, FI_Size := RA_FileSize artifact,
                   FI_StorageClass := RA_StorageClass artifact\<rparr>, artifact))))"

definition PresignArtifactDownload ::
  "rec_env \<Rightarrow> uuid \<Rightarrow> uuid \<Rightarrow> uuid \<Rightarrow> uuid \<Rightarrow> (string \<times> RecordingArtifact option) rec_handler" where
  "PresignArtifactDownload env workspaceID recordingID artifactID userID =
     (case re_signer env of
        None \<Rightarrow> returnM ('''', None)
      | Some signer \<Rightarrow>
          bindM (downloadable_artifact env workspaceID recordingID artifactID userID) (\<lambda>artifact.
          (case signer (RA_StoragePath artifact)
                  \<lparr>SO_Filename = re_uuidString env artifactID @ ''.'' @ RA_Format artifact, SO_ContentType = RA_MimeType artifact,
                   SO_ExpiresIn = maxDuration (re_signedURLTTL env) (15 * time_Minute), SO_Attachment = True\<rparr> of
             Inl err \<Rightarrow>
               if errors_Is err storage_ErrNotSupported then returnM ('''', None)
               else throwM (Internal ''failed to sign recording artifact download'' (Some err))
           | Inr url \<Rightarrow>
               bindM (logAudit env workspaceID userID ''recording.downloaded'' ''recording_artifact''
                        (re_uuidString env (RA_ID artifact)) (download_meta env recordingID artifact @ [(''signed_url'', ''true'')])) (\<lambda>_.
               returnM (url, Some artifact)))))"

definition SetLegalHold :: "rec_env \<Rightarrow> uuid \<Rightarrow> bool \<Rightarrow> unit rec_handler" where
  "SetLegalHold env recordingID hold =
     mapErrM (\<lambda>err. Internal ''failed to set legal hold'' (Some err)) (Recordings_SetLegalHold env recordingID hold)"

subsection \<open>Processing\<close>

record MaintenanceStats =
  MS_Processed :: int
  MS_Failed :: int
  MS_Deleted :: int
  MS_Tiered :: int

definition no_stats :: MaintenanceStats where
  "no_stats = \<lparr>MS_Processed = 0, MS_Failed = 0, MS_Deleted = 0, MS_Tiered = 0\<rparr>"

text \<open>What a processor makes of a recording, called after \<open>n\<close> statements; \<open>Inr None\<close> is \<open>nil, nil\<close>.\<close>

type_synonym Processor = "nat \<Rightarrow> Recording \<Rightarrow> go_error + ProcessedRecording option"

definition ensureQuotaForArtifacts :: "rec_env \<Rightarrow> uuid \<Rightarrow> RecordingArtifact list \<Rightarrow> unit rec_handler" where
  "ensureQuotaForArtifacts env workspaceID artifacts =
     (if re_quotaBytes env \<le> 0 then returnM ()
      else bindM (mapErrM (\<lambda>err. Internal ''failed to determine workspace recording usage'' (Some err))
                    (WorkspaceStorageUsage env workspaceID)) (\<lambda>usage.
           let additional = foldl (\<lambda>acc a. wrap64 (acc + RA_FileSize a)) 0 artifacts in
           failIf (wrap64 (usage + additional) > re_quotaBytes env)
             (Forbidden ''workspace recording storage quota would be exceeded'')))"

definition applyStorageTier :: "rec_env \<Rightarrow> ProcessedRecording \<Rightarrow> RecordingStorageTier \<Rightarrow> ProcessedRecording" where
  "applyStorageTier env processed tier =
     (let storageClass = defaultStorageClass env tier
      in processed\<lparr>PR_StorageTier := tier, PR_StorageClass := storageClass,
           PR_Artifacts := map (\<lambda>a. a\<lparr>RA_StorageTier := tier, RA_StorageClass := storageClass,
                                     RA_TierUpdatedAt := Some (re_now env)\<rparr>) (PR_Artifacts processed)\<rparr>)"

definition deleteUploadedArtifacts :: "rec_env \<Rightarrow> RecordingArtifact list \<Rightarrow> unit rec_handler" where
  "deleteUploadedArtifacts env artifacts =
     (if \<not> re_store env then returnM ()
      else forM (filter (\<lambda>p. p \<noteq> '''') (dedup_seen id [] (map RA_StoragePath artifacts)))
             (\<lambda>p. rec_ignore (rec_retry env (store_Delete env p))))"

text \<open>The pause before the next attempt doubles with each attempt, up to one hour.\<close>

fun doubled_delay :: "nat \<Rightarrow> int \<Rightarrow> int" where
  "doubled_delay 0 delay = delay"
| "doubled_delay (Suc n) delay =
     (if wrap64 (delay * 2) > 60 * time_Minute then 60 * time_Minute else doubled_delay n (wrap64 (delay * 2)))"

definition next_retry :: "rec_env \<Rightarrow> Recording \<Rightarrow> gotime option" where
  "next_retry env rec =
     (if Rec_ProcessingAttempts rec < Rec_MaxProcessingAttempts rec
      then Some (re_now env + doubled_delay (nat (Rec_ProcessingAttempts rec - 1)) (retry_backoff env))
      else None)"

definition handleProcessingFailure :: "rec_env \<Rightarrow> Recording \<Rightarrow> go_error \<Rightarrow> unit rec_handler" where
  "handleProcessingFailure env rec cause =
     rec_ignore (rec_retry env (MarkFailed env (Rec_ID rec) (Error_text cause) (next_retry env rec)))"

definition processed_row :: "rec_env \<Rightarrow> Recording \<Rightarrow> ProcessedRecording \<Rightarrow> Recording" where
  "processed_row env rec p =
     rec\<lparr>Rec_Format := PR_Format p, Rec_StoragePath := PR_StoragePath p, Rec_StorageTier := PR_StorageTier p,
         Rec_StorageClass := PR_StorageClass p, Rec_IntegritySHA256 := PR_IntegritySHA256 p,
         Rec_Downloadable := PR_Downloadable p, Rec_FileSize := Some (PR_FileSize p),
         Rec_Duration := Some (PR_DurationSeconds p), Rec_TierUpdatedAt := Some (re_now env), Rec_Metadata := PR_Metadata p\<rparr>"

definition dispatchRecordingReady :: "rec_env \<Rightarrow> Recording \<Rightarrow> unit rec_handler" where
  "dispatchRecordingReady env rec =
     (if \<not> re_hooks env then returnM () else modifyM (\<lambda>s. s\<lparr>rs_hooks := rs_hooks s @ [Rec_ID rec]\<rparr>))"

text \<open>
  One round of the loop of \<open>ProcessPending\<close>: whether the recording was processed, and the error the round
  contributes to \<open>firstErr\<close>. Without a transaction manager a failed finalisation takes the artifacts back.
\<close>

definition finalize_processed :: "rec_env \<Rightarrow> Recording \<Rightarrow> ProcessedRecording \<Rightarrow> (bool \<times> go_error option) rec_handler" where
  "finalize_processed env inProgress p0 =
     (let p = applyStorageTier env p0 RecordingStorageTierHot; rec = processed_row env inProgress p in
      bindM (tryM (rec_retry env (finalize_recording env rec (PR_Artifacts p)))) (\<lambda>finalized.
      (case finalized of
         Inl err \<Rightarrow>
           bindM (deleteUploadedArtifacts env (PR_Artifacts p)) (\<lambda>_.
           bindM (if re_tx env then returnM () else rec_ignore (rec_retry env (ReplaceArtifacts env (Rec_ID rec) []))) (\<lambda>_.
           bindM (handleProcessingFailure env rec err) (\<lambda>_.
           returnM (False, Some err))))
       | Inr _ \<Rightarrow>
           bindM (dispatchRecordingReady env rec) (\<lambda>_.
           bindM (RemoveSpoolDir (Rec_ID rec)) (\<lambda>_.
           returnM (True, None))))))"

definition process_marked :: "rec_env \<Rightarrow> Processor \<Rightarrow> Recording \<Rightarrow> (bool \<times> go_error option) rec_handler" where
  "process_marked env processor inProgress =
     bindM (getM (\<lambda>s. processor (rs_stmts s) inProgress)) (\<lambda>outcome.
     (case outcome of
        Inl err \<Rightarrow> bindM (handleProcessingFailure env inProgress err) (\<lambda>_. returnM (False, Some err))
      | Inr None \<Rightarrow>
          bindM (handleProcessingFailure env inProgress (Internal ''recording processor returned invalid artifact'' None)) (\<lambda>_.
          returnM (False, None))
      | Inr (Some p) \<Rightarrow>
          if PR_StoragePath p = '''' \<or> PR_FileSize p \<le> 0
          then bindM (handleProcessingFailure env inProgress (Internal ''recording processor returned invalid artifact'' None)) (\<lambda>_.
               returnM (False, None))
          else bindM (tryM (ensureQuotaForArtifacts env (Rec_WorkspaceID inProgress) (PR_Artifacts p))) (\<lambda>quota.
               (case quota of
                  Inl err \<Rightarrow>
                    bindM (deleteUploadedArtifacts env (PR_Artifacts p)) (\<lambda>_.
                    bindM (handleProcessingFailure env inProgress err) (\<lambda>_.
                    returnM (False, Some err)))
                | Inr _ \<Rightarrow> finalize_processed env inProgress p))))"

definition process_one :: "rec_env \<Rightarrow> Processor \<Rightarrow> Recording \<Rightarrow> (bool \<times> go_error option) rec_handler" where
  "process_one env processor rec =
     bindM (tryM (rec_retry env (MarkProcessingAttempt env (Rec_ID rec) (re_now env)))) (\<lambda>marked.
     (case marked of
        Inl err \<Rightarrow> returnM (False, Some err)
      | Inr inProgress \<Rightarrow> process_marked env processor inProgress))"

definition count_processed ::
  "MaintenanceStats \<times> go_error option \<Rightarrow> bool \<times> go_error option \<Rightarrow> MaintenanceStats \<times> go_error option" where
  "count_processed acc outcome =
     (case acc of (stats, firstErr) \<Rightarrow>
      case outcome of (processed, err) \<Rightarrow>
        (if processed then stats\<lparr>MS_Processed := MS_Processed stats + 1\<rparr> else stats\<lparr>MS_Failed := MS_Failed stats + 1\<rparr>,
         if firstErr = None then err else firstErr))"

definition process_all ::
  "rec_env \<Rightarrow> Processor \<Rightarrow> Recording list \<Rightarrow> (MaintenanceStats \<times> go_error option) rec_handler" where
  "process_all env processor recs =
     foldM (\<lambda>acc rec. bindM (process_one env processor rec) (\<lambda>outcome. returnM (count_processed acc outcome)))
       (no_stats, None) recs"

text \<open>The statistics are returned beside the error, so the handler itself never returns \<open>Inl\<close>.\<close>

definition ProcessPending :: "rec_env \<Rightarrow> Processor option \<Rightarrow> int \<Rightarrow> (MaintenanceStats \<times> go_error option) rec_handler" where
  "ProcessPending env processor limit0 =
     (case processor of
        None \<Rightarrow> returnM (no_stats, Some (Unavailable ''recording processor is not configured''))
      | Some p \<Rightarrow>
          let limit = (if limit0 \<le> 0 then 50 else limit0) in
          if re_saturated env then returnM (no_stats, Some (Unavailable ''recording processing backpressure is active''))
          else bindM (tryM (rec_retry env (ListProcessable env (re_now env) limit))) (\<lambda>listed.
               (case listed of
                  Inl err \<Rightarrow> returnM (no_stats, Some (Internal ''failed to list pending recordings'' (Some err)))
                | Inr recs \<Rightarrow> process_all env p recs)))"

subsection \<open>Retention\<close>

definition object_paths :: "Recording \<Rightarrow> RecordingArtifact list \<Rightarrow> string list" where
  "object_paths rec artifacts = filter (\<lambda>p. p \<noteq> '''') (dedup_seen id [] (Rec_StoragePath rec # map RA_StoragePath artifacts))"

definition cleanup_one :: "rec_env \<Rightarrow> Recording \<Rightarrow> unit rec_handler" where
  "cleanup_one env rec =
     bindM (mapErrM (\<lambda>err. Internal ''failed to list recording artifacts for deletion'' (Some err))
              (rec_retry env (Recordings_ListArtifacts env (Rec_ID rec)))) (\<lambda>artifacts.
     bindM (forM (if re_store env then re_mapOrder env (object_paths rec artifacts) else []) (\<lambda>key.
              mapErrM (\<lambda>err. Internal ''failed to delete recording object'' (Some err))
                (rec_retry env (store_Delete env key)))) (\<lambda>_.
     bindM (mapErrM (\<lambda>err. Internal ''failed to delete expired recording metadata'' (Some err))
              (rec_retry env (Recordings_Delete env (Rec_ID rec)))) (\<lambda>_.
     RemoveSpoolDir (Rec_ID rec))))"

fun cleanup_all :: "rec_env \<Rightarrow> Recording list \<Rightarrow> MaintenanceStats \<Rightarrow> (MaintenanceStats \<times> go_error option) rec_handler" where
  "cleanup_all env [] stats = returnM (stats, None)"
| "cleanup_all env (rec # recs) stats =
     bindM (tryM (cleanup_one env rec)) (\<lambda>r.
     (case r of
        Inl err \<Rightarrow> returnM (stats, Some err)
      | Inr _ \<Rightarrow> cleanup_all env recs (stats\<lparr>MS_Deleted := MS_Deleted stats + 1\<rparr>)))"

definition CleanupExpired :: "rec_env \<Rightarrow> gotime \<Rightarrow> int \<Rightarrow> (MaintenanceStats \<times> go_error option) rec_handler" where
  "CleanupExpired env now limit0 =
     (let limit = (if limit0 \<le> 0 then 50 else limit0) in
      bindM (tryM (rec_retry env (ListExpired env now limit))) (\<lambda>listed.
      (case listed of
         Inl err \<Rightarrow> returnM (no_stats, Some (Internal ''failed to list expired recordings'' (Some err)))
       | Inr recs \<Rightarrow> cleanup_all env recs no_stats)))"

definition RunMaintenanceOnce ::
  "rec_env \<Rightarrow> Processor option \<Rightarrow> gotime \<Rightarrow> int \<Rightarrow> (MaintenanceStats \<times> go_error option) rec_handler" where
  "RunMaintenanceOnce env processor now batchSize =
     bindM (ProcessPending env processor batchSize) (\<lambda>processed.
     bindM (CleanupExpired env now batchSize) (\<lambda>cleaned.
     returnM ((fst processed)\<lparr>MS_Deleted := MS_Deleted (fst cleaned)\<rparr>,
              if snd processed \<noteq> None then snd processed else snd cleaned)))"

subsection \<open>Storage tiers\<close>

definition targetStorageTier :: "rec_env \<Rightarrow> gotime \<Rightarrow> Recording \<Rightarrow> RecordingStorageTier" where
  "targetStorageTier env now rec =
     (let base = (case Rec_ReadyAt rec of Some t \<Rightarrow> t
                  | None \<Rightarrow> (case Rec_StoppedAt rec of Some t \<Rightarrow> t | None \<Rightarrow> Rec_CreatedAt rec));
          age = now - base
      in if re_archiveAfter env > 0 \<and> age \<ge> re_archiveAfter env then RecordingStorageTierArchive
         else if re_warmAfter env > 0 \<and> age \<ge> re_warmAfter env then RecordingStorageTierWarm
         else RecordingStorageTierHot)"

definition transitionRecordingTier ::
  "rec_env \<Rightarrow> (RecordingStorageTier \<Rightarrow> string) \<Rightarrow> Recording \<Rightarrow> RecordingStorageTier \<Rightarrow> gotime \<Rightarrow> unit rec_handler" where
  "transitionRecordingTier env tieredStore rec target now =
     bindM (rec_retry env (Recordings_ListArtifacts env (Rec_ID rec))) (\<lambda>artifacts.
     bindM (forM (object_paths rec artifacts) (\<lambda>key.
              rec_retry env (TransitionObject env key target (tieredStore target)))) (\<lambda>_.
     bindM (UpdateStorageTier env (Rec_ID rec) target (tieredStore target) now) (\<lambda>_.
     forM artifacts (\<lambda>a. UpdateArtifactStorageTier env (Rec_ID rec) (RA_ID a) target (tieredStore target) now))))"

definition expired_by :: "gotime \<Rightarrow> Recording \<Rightarrow> bool" where
  "expired_by now rec = (case Rec_ExpiresAt rec of None \<Rightarrow> False | Some t \<Rightarrow> \<not> t > now)"

definition tier_one ::
  "rec_env \<Rightarrow> (RecordingStorageTier \<Rightarrow> string) \<Rightarrow> gotime \<Rightarrow> MaintenanceStats \<Rightarrow> Recording \<Rightarrow> MaintenanceStats rec_handler" where
  "tier_one env tieredStore now stats rec =
     (let target = targetStorageTier env now rec in
      if Rec_LegalHold rec \<or> expired_by now rec \<or> target = Rec_StorageTier rec then returnM stats
      else bindM (tryM (transitionRecordingTier env tieredStore rec target now)) (\<lambda>r.
           returnM (case r of
              Inl (_ :: go_error) \<Rightarrow> stats\<lparr>MS_Failed := MS_Failed stats + 1\<rparr>
            | Inr _ \<Rightarrow> stats\<lparr>MS_Tiered := MS_Tiered stats + 1\<rparr>)))"

definition TransitionStorageLifecycle :: "rec_env \<Rightarrow> gotime \<Rightarrow> int \<Rightarrow> (MaintenanceStats \<times> go_error option) rec_handler" where
  "TransitionStorageLifecycle env now limit0 =
     (let limit = (if limit0 \<le> 0 then 50 else limit0) in
      case (if re_store env then re_tiered env else None) of
        None \<Rightarrow> returnM (no_stats, None)
      | Some tieredStore \<Rightarrow>
          bindM (tryM (rec_retry env (ListByStatus env RecordingStatusReady limit))) (\<lambda>listed.
          (case listed of
             Inl err \<Rightarrow> returnM (no_stats, Some (Internal ''failed to list ready recordings for lifecycle transition'' (Some err)))
           | Inr recs \<Rightarrow> bindM (foldM (tier_one env tieredStore now) no_stats recs) (\<lambda>stats. returnM (stats, None)))))"

end
