(* ===== verification/RecordingSystem.thy ===== *)
theory RecordingSystem
  imports RecordingQueue
begin

text \<open>
  The recording service as a system: its requests and the rounds of its workers, and what a relation between the
  tables needs so that all of them stay within it, whatever fails, is retried, or runs in between.
\<close>

subsection \<open>Relations that all handlers keep\<close>

definition quiet_update :: "(Recording \<Rightarrow> Recording) \<Rightarrow> bool" where
  "quiet_update f \<longleftrightarrow>
     (\<forall>r. Rec_ID (f r) = Rec_ID r \<and> Rec_CallID (f r) = Rec_CallID r \<and>
        (Rec_Status (f r) = RecordingStatusReady \<longrightarrow> Rec_Status r = RecordingStatusReady))"

definition same_objects :: "(RecordingArtifact \<Rightarrow> RecordingArtifact) \<Rightarrow> bool" where
  "same_objects g \<longleftrightarrow>
     (\<forall>a. RA_ID (g a) = RA_ID a \<and> RA_RecordingID (g a) = RA_RecordingID a \<and> RA_StoragePath (g a) = RA_StoragePath a)"

text \<open>
  \<open>W\<close> selects the environments, among them what the others may do. Any statement that keeps the relation keeps it
  under faults, lost replies, transactions and retries.
\<close>

locale recording_steps = run_relation D for D :: "rec_db \<Rightarrow> rec_db \<Rightarrow> bool" +
  fixes W :: "rec_env \<Rightarrow> bool"
  assumes alone: "W env \<Longrightarrow> W (rec_alone env)"
    and others: "W env \<Longrightarrow> D db (re_other env n db)"
begin

definition L :: "rec_state \<Rightarrow> rec_state \<Rightarrow> bool" where
  "L s s' \<longleftrightarrow> D (rs_db s) (rs_db s')"

lemma L_I: "D (rs_db s) (rs_db s') \<Longrightarrow> L s s'"
  by (simp add: L_def)

end

sublocale recording_steps \<subseteq> run: run_relation "L"
  by unfold_locales (auto simp: L_def intro: R_trans)

lemma bindM_getM [simp]: "bindM (getM f) k s = k (f s) s"
  by (simp add: bindM_def getM_def)

lemma rec_tick_db: "rs_db (rec_tick env s) = re_other env (rs_stmts s) (rs_db s)"
  by (simp add: rec_tick_def)

lemma affected_Inr: "affected r = Inr (x, db') \<Longrightarrow> \<exists>y. r = Inr (y, db')"
  by (cases r) (auto simp: affected_def)

context recording_steps
begin

lemma tick_keeps: "W env \<Longrightarrow> L s (rec_tick env s)"
  by (rule L_I) (simp add: rec_tick_db others)

lemma query_keeps: "W env \<Longrightarrow> keepsM L (rec_query env op wrap f)"
  by (rule keepsMI) (simp add: rec_query_def Let_def tick_keeps split: option.splits prod.splits)

lemma exec_keeps:
  assumes "W env" and step: "\<And>db x db'. f db = Inr (x, db') \<Longrightarrow> D db db'"
  shows "keepsM L (rec_exec env op wrap f)"
proof (rule keepsMI)
  fix s
  have tick: "L s (rec_tick env s)" by (rule tick_keeps [OF assms(1)])
  have "L (rec_tick env s) (rec_tick env s\<lparr>rs_db := db\<rparr>)" if "f (rs_db (rec_tick env s)) = Inr (x, db)" for x db
    using step [OF that] by (simp add: L_def)
  then show "L s (snd (rec_exec env op wrap f s))"
    using tick by (auto simp: rec_exec_def Let_def intro: run.R_trans split: option.splits sum.splits prod.splits)
qed

lemma tx_keeps:
  assumes "W env" and body: "\<And>tx. W tx \<Longrightarrow> keepsM L (fn tx)"
  shows "keepsM L (rec_WithinTx env fn)"
proof (rule keepsMI)
  fix s
  let ?s1 = "rec_tick env s"
  have tick: "L s ?s1" by (rule tick_keeps [OF assms(1)])
  obtain r s2 where run: "fn (rec_alone env) ?s1 = (r, s2)" by (cases "fn (rec_alone env) ?s1")
  have "L ?s1 s2" using keepsMD [OF body [OF alone [OF assms(1)]], of ?s1] run by simp
  then show "L s (snd (rec_WithinTx env fn s))"
    using tick run by (cases r) (auto simp: rec_WithinTx_def Let_def L_def intro: R_trans split: option.splits)
qed

lemma silent_keeps:
  "keepsM L (rec_New env)" "keepsM L (rec_call env g)" "keepsM L (StartRoomCompositeFile env c k)" "keepsM L (StopEgress env e)"
  "keepsM L (store_Delete env k)" "keepsM L (TransitionObject env k tier cl)" "keepsM L (RemoveSpoolDir rid)"
  "keepsM L (BroadcastRecordingStarted env rec)" "keepsM L (dispatchRecordingReady env rec)"
  by (auto simp: keepsM_def L_def rec_New_def rec_call_def StartRoomCompositeFile_def StopEgress_def store_Delete_def
      TransitionObject_def RemoveSpoolDir_def BroadcastRecordingStarted_def dispatchRecordingReady_def monad_simps)

lemma event_keeps: "keepsM L (modifyM (\<lambda>s. s\<lparr>rs_events := e s\<rparr>))"
  by (rule run.keeps_modifyM) (simp add: L_def)

lemma case_prod_keeps: "(\<And>a b. keepsM L (k a b)) \<Longrightarrow> keepsM L (case z of (a, b) \<Rightarrow> k a b)"
  by (cases z) simp

lemma attempts_keep: "keepsM L fn \<Longrightarrow> keepsM L (attempts_left left env fn)"
proof (induction left)
  case 0
  then show ?case by (simp add: keepsM_def)
next
  case (Suc left)
  have "L s (snd (attempts_left (Suc left) env fn s))" for s
  proof (cases "fn s")
    case (Pair r s1)
    have 1: "L s s1" using keepsMD [OF Suc.prems, of s] Pair by simp
    moreover have "L s1 (snd (attempts_left left env fn s1))" by (rule keepsMD [OF Suc.IH [OF Suc.prems]])
    ultimately show ?thesis using Pair by (auto intro: run.R_trans split: sum.splits option.splits)
  qed
  then show ?case by (rule keepsMI)
qed

lemma retry_keeps: "keepsM L fn \<Longrightarrow> keepsM L (rec_retry env fn)"
  by (simp add: rec_retry_def DoValue_def attempts_keep)

lemmas steps =
  run.keeps_bindM run.keeps_mapErrM run.keeps_tryM run.keeps_returnM run.keeps_throwM run.keeps_readM run.keeps_getM
  run.keeps_failIf run.keeps_forM run.keeps_foldM run.keeps_If run.keeps_case_option run.keeps_case_sum
  silent_keeps event_keeps case_prod_keeps retry_keeps

lemma ignore_keeps: "keepsM L m \<Longrightarrow> keepsM L (rec_ignore m)"
  unfolding rec_ignore_def by (intro steps)

end

text \<open>
  The statements are the interface, and so is the pair that makes a recording ready; \<open>empties\<close> says whether
  processors may hand over a recording without artifacts.
\<close>

locale recording_writes = recording_steps D W for D :: "rec_db \<Rightarrow> rec_db \<Rightarrow> bool" and W :: "rec_env \<Rightarrow> bool" +
  fixes empties :: bool
  assumes inserted: "insert_recording calls rec db = Inr (x, db') \<Longrightarrow> Rec_Status rec = RecordingStatusRecording \<Longrightarrow> D db db'"
    and updated: "update_recording wrap rid P f db = Inr (y, db') \<Longrightarrow> quiet_update f \<Longrightarrow> D db db'"
    and deleted: "delete_recording rid db = Inr (x, db') \<Longrightarrow> D db db'"
    and cleared: "D db (db\<lparr>rb_artifacts := filter (\<lambda>a. RA_RecordingID a \<noteq> rid) (rb_artifacts db)\<rparr>)"
    and moved: "same_objects g \<Longrightarrow> D db (db\<lparr>rb_artifacts := upd_where Q g (rb_artifacts db)\<rparr>)"
    and audited: "D db (db\<lparr>rb_audit := log\<rparr>)"
    and finalize_keeps: "W env \<Longrightarrow> artifacts \<noteq> [] \<or> empties \<Longrightarrow> keepsM L (finalize_recording env rec artifacts)"
begin

lemma update_keeps:
  "W env \<Longrightarrow> quiet_update f \<Longrightarrow> keepsM L (rec_exec env op wrap (update_recording wrap' rid P f))"
  "W env \<Longrightarrow> quiet_update f \<Longrightarrow> keepsM L (rec_exec env op wrap (\<lambda>db. affected (update_recording wrap' rid P f db)))"
  by (rule exec_keeps, assumption, blast intro: updated dest: affected_Inr)+

lemma quiet_rows:
  "quiet_update (attempt_row t)" "quiet_update (failed_row e n)" "quiet_update (stopped_row t)"
  "quiet_update (\<lambda>r. r\<lparr>Rec_EgressID := e'\<rparr>)" "quiet_update (\<lambda>r. r\<lparr>Rec_LegalHold := h\<rparr>)"
  "quiet_update (\<lambda>r. r\<lparr>Rec_StorageTier := tier, Rec_StorageClass := c, Rec_TierUpdatedAt := u\<rparr>)"
  by (simp_all add: quiet_update_def attempt_row_def failed_row_def stopped_row_def)

lemma updates_keep:
  assumes "W env"
  shows "keepsM L (SetEgressID env rid e)" "keepsM L (MarkProcessingAttempt env rid t)" "keepsM L (MarkFailed env rid m n)"
    "keepsM L (Recordings_SetLegalHold env rid h)" "keepsM L (UpdateStorageTier env rid tier c u)" "keepsM L (Recordings_Stop env rid)"
  using assms unfolding SetEgressID_def MarkProcessingAttempt_def MarkFailed_def Recordings_SetLegalHold_def
    UpdateStorageTier_def Recordings_Stop_def
  by (intro update_keeps quiet_rows; assumption)+

lemma create_keeps: "W env \<Longrightarrow> Rec_Status rec = RecordingStatusRecording \<Longrightarrow> keepsM L (Recordings_Create env rec)"
  unfolding Recordings_Create_def keepsM_def by (metis exec_keeps inserted keepsMD)

lemma delete_keeps: "W env \<Longrightarrow> keepsM L (Recordings_Delete env rid)"
  unfolding Recordings_Delete_def by (rule exec_keeps) (assumption, rule deleted)

lemma clear_keeps: "W env \<Longrightarrow> keepsM L (ReplaceArtifacts env rid [])"
  unfolding ReplaceArtifacts_def by (rule exec_keeps) (auto simp: replaceArtifactsTx_def intro: cleared)

lemma artifact_tier_keeps: "W env \<Longrightarrow> keepsM L (UpdateArtifactStorageTier env rid aid tier c u)"
  unfolding UpdateArtifactStorageTier_def
  by (rule exec_keeps) (auto simp: same_objects_def intro!: moved split: if_splits)

lemma audit_keeps: "W env \<Longrightarrow> keepsM L (Audit_Create env e)"
  unfolding Audit_Create_def by (rule exec_keeps) (auto simp: insert_audit_def intro: audited split: if_splits)

lemma queries_keep:
  assumes "W env"
  shows "keepsM L (Recordings_GetByID env rid)" "keepsM L (GetByEgressID env e)" "keepsM L (GetActiveByCall env c)"
    "keepsM L (Recordings_ListByCall env c)" "keepsM L (ListByStatus env st limit)" "keepsM L (ListProcessable env now limit)"
    "keepsM L (ListExpired env now limit)" "keepsM L (Recordings_ListArtifacts env rid)" "keepsM L (GetArtifact env rid aid)"
    "keepsM L (WorkspaceStorageUsage env w)"
  using assms unfolding Recordings_GetByID_def GetByEgressID_def GetActiveByCall_def Recordings_ListByCall_def ListByStatus_def
    ListProcessable_def ListExpired_def Recordings_ListArtifacts_def GetArtifact_def WorkspaceStorageUsage_def
  by (rule query_keeps)+

lemmas statements = updates_keep delete_keeps clear_keeps artifact_tier_keeps audit_keeps queries_keep tx_keeps ignore_keeps

lemma logging_keeps:
  assumes "W env"
  shows "keepsM L (createAuditTx env w u a t i m)" "keepsM L (logAudit env w u a t i m)" "keepsM L (recordings_scope env)"
    "keepsM L (broadcastRecordingUpdated env rec)" "keepsM L (ensureQuotaAvailable env w)" "keepsM L (require_recorder env c u m1 m2)"
  using assms unfolding createAuditTx_def logAudit_def recordings_scope_def broadcastRecordingUpdated_def
    ensureQuotaAvailable_def require_recorder_def
  by (intro steps statements; assumption)+

lemma create_row_keeps:
  "W env \<Longrightarrow> Rec_Status rec = RecordingStatusRecording \<Longrightarrow> keepsM L (createRecordingRow env w u rec m)"
  unfolding createRecordingRow_def by (intro steps statements logging_keeps create_keeps; assumption)

lemma StartRecording_keeps: "W env \<Longrightarrow> keepsM L (StartRecording env w c u)"
  unfolding StartRecording_def start_checks_def start_egress_def Let_def
  by (intro steps statements logging_keeps create_row_keeps; (assumption | simp add: new_recording_def))

lemma StopRecording_keeps: "W env \<Longrightarrow> keepsM L (StopRecording env w r u)"
  unfolding StopRecording_def stop_row_def stop_egress_job_def
  by (intro steps statements logging_keeps; assumption)

lemma correlate_keeps: "W env \<Longrightarrow> keepsM L (correlateEgress env e c)"
  unfolding correlateEgress_def by (intro steps statements; assumption)

lemma egress_final_keeps:
  assumes "W env"
  shows "keepsM L (finalizeRecordingReady env rec n d)" "keepsM L (finalizeRecordingFailed env rec)"
  using assms unfolding finalizeRecordingReady_def finalizeRecordingFailed_def Let_def
  by (intro steps statements logging_keeps finalize_keeps; (assumption | simp))+

lemma HandleEgressEvent_keeps: "W env \<Longrightarrow> keepsM L (HandleEgressEvent env info)"
  unfolding HandleEgressEvent_def
  by (cases "EE_Phase info"; simp; intro steps correlate_keeps egress_final_keeps; assumption)

lemma StopActive_keeps: "W env \<Longrightarrow> keepsM L (StopActiveEgressForCall env c)"
  unfolding StopActiveEgressForCall_def by (intro steps statements; assumption)

lemma access_keeps:
  assumes "W env"
  shows "keepsM L (isWorkspaceAdmin env w u)" "keepsM L (requireRecordingViewAccess env w c u)"
    "keepsM L (requireRecordingDownloadAccess env rec u)" "keepsM L (getVisibleRecording env w r u)"
  using assms unfolding getVisibleRecording_def requireRecordingDownloadAccess_def requireRecordingViewAccess_def isWorkspaceAdmin_def
  by (intro steps statements; assumption)+

lemma views_keep:
  assumes "W env"
  shows "keepsM L (GetRecording env w r u)" "keepsM L (ListRecordings env w c u)" "keepsM L (ListArtifacts env w r u)"
    "keepsM L (DownloadArtifact env w r a u)" "keepsM L (PresignArtifactDownload env w r a u)" "keepsM L (SetLegalHold env r h)"
  using assms unfolding GetRecording_def ListRecordings_def ListArtifacts_def DownloadArtifact_def PresignArtifactDownload_def
    SetLegalHold_def downloadable_artifact_def
  by (intro steps statements access_keeps logging_keeps; assumption)+

lemma failure_keeps:
  assumes "W env"
  shows "keepsM L (handleProcessingFailure env rec cause)" "keepsM L (deleteUploadedArtifacts env as)"
    "keepsM L (ensureQuotaForArtifacts env w as)"
  using assms unfolding handleProcessingFailure_def deleteUploadedArtifacts_def ensureQuotaForArtifacts_def Let_def
  by (intro steps statements; assumption)+

definition processor_ok :: "Processor \<Rightarrow> bool" where
  "processor_ok processor \<longleftrightarrow> empties \<or> (\<forall>n r p. processor n r = Inr (Some p) \<longrightarrow> PR_Artifacts p \<noteq> [])"

lemma finalize_processed_keeps:
  "W env \<Longrightarrow> PR_Artifacts p \<noteq> [] \<or> empties \<Longrightarrow> keepsM L (finalize_processed env rec p)"
  unfolding finalize_processed_def Let_def
  by (intro steps statements failure_keeps finalize_keeps; (assumption | simp add: applyStorageTier_def Let_def))

lemma process_marked_keeps:
  assumes "W env" and "processor_ok processor"
  shows "keepsM L (process_marked env processor rec)"
proof (rule keepsMI)
  fix s
  have fail: "keepsM L (bindM (handleProcessingFailure env rec e) (\<lambda>_. returnM r))" for e and r :: "bool \<times> go_error option"
    using assms(1) by (intro steps failure_keeps; assumption)
  show "L s (snd (process_marked env processor rec s))"
  proof (cases "processor (rs_stmts s) rec")
    case (Inl e)
    then show ?thesis
      using keepsMD [OF fail] by (simp add: process_marked_def)
  next
    case (Inr outcome)
    show ?thesis
    proof (cases outcome)
      case None
      then show ?thesis
        using Inr keepsMD [OF fail] by (simp add: process_marked_def)
    next
      case (Some p)
      then have "PR_Artifacts p \<noteq> [] \<or> empties" using assms(2) Inr by (auto simp: processor_ok_def)
      then have quota: "keepsM L (bindM (tryM (ensureQuotaForArtifacts env w (PR_Artifacts p))) (\<lambda>quota.
        (case quota of
           Inl err \<Rightarrow> bindM (deleteUploadedArtifacts env (PR_Artifacts p)) (\<lambda>_.
             bindM (handleProcessingFailure env rec err) (\<lambda>_. returnM (False, Some err)))
         | Inr _ \<Rightarrow> finalize_processed env rec p)))" for w
        using assms(1) by - (intro steps failure_keeps finalize_processed_keeps; assumption)
      show ?thesis
        using Inr Some keepsMD [OF fail] keepsMD [OF quota] by (simp add: process_marked_def)
    qed
  qed
qed

lemma ProcessPending_keeps:
  assumes "W env" and "pred_option processor_ok processor"
  shows "keepsM L (ProcessPending env processor limit)"
proof (cases processor)
  case (Some p)
  then have "processor_ok p" using assms(2) by simp
  with assms(1) show ?thesis
    unfolding ProcessPending_def process_all_def process_one_def Let_def Some option.case
    by - (intro steps statements process_marked_keeps; assumption)
qed (simp add: ProcessPending_def)

lemma cleanup_all_keeps: "W env \<Longrightarrow> keepsM L (cleanup_all env recs stats)"
  by (induction recs arbitrary: stats) (auto simp: cleanup_one_def intro!: steps statements)

lemma CleanupExpired_keeps: "W env \<Longrightarrow> keepsM L (CleanupExpired env now limit)"
  unfolding CleanupExpired_def Let_def by (intro steps statements cleanup_all_keeps; assumption)

lemma maintenance_keeps: "W env \<Longrightarrow> pred_option processor_ok processor \<Longrightarrow> keepsM L (RunMaintenanceOnce env processor now n)"
  unfolding RunMaintenanceOnce_def by (intro steps ProcessPending_keeps CleanupExpired_keeps; assumption)

lemma lifecycle_keeps: "W env \<Longrightarrow> keepsM L (TransitionStorageLifecycle env now limit)"
  unfolding TransitionStorageLifecycle_def tier_one_def transitionRecordingTier_def Let_def
  by (intro steps statements; assumption)

end

subsection \<open>Requests\<close>

text \<open>\<open>OtherSteps\<close> stands for whatever runs between two requests; a request's environment says the same of its statements.\<close>

datatype rec_request =
    StartRecordingReq uuid uuid uuid
  | StopRecordingReq uuid uuid uuid
  | EgressEventReq EgressEventInfo
  | StopActiveEgressReq uuid
  | GetRecordingReq uuid uuid uuid
  | ListRecordingsReq uuid uuid uuid
  | ListArtifactsReq uuid uuid uuid
  | DownloadReq uuid uuid uuid uuid
  | PresignReq uuid uuid uuid uuid
  | LegalHoldReq uuid bool
  | ProcessReq "Processor option" int
  | CleanupReq gotime int
  | MaintenanceReq "Processor option" gotime int
  | TierReq gotime int

fun rec_serve :: "rec_env \<Rightarrow> rec_request \<Rightarrow> rec_state \<Rightarrow> rec_state" where
  "rec_serve env (StartRecordingReq w c u) s = snd (StartRecording env w c u s)"
| "rec_serve env (StopRecordingReq w r u) s = snd (StopRecording env w r u s)"
| "rec_serve env (EgressEventReq info) s = snd (HandleEgressEvent env info s)"
| "rec_serve env (StopActiveEgressReq c) s = snd (StopActiveEgressForCall env c s)"
| "rec_serve env (GetRecordingReq w r u) s = snd (GetRecording env w r u s)"
| "rec_serve env (ListRecordingsReq w c u) s = snd (ListRecordings env w c u s)"
| "rec_serve env (ListArtifactsReq w r u) s = snd (ListArtifacts env w r u s)"
| "rec_serve env (DownloadReq w r a u) s = snd (DownloadArtifact env w r a u s)"
| "rec_serve env (PresignReq w r a u) s = snd (PresignArtifactDownload env w r a u s)"
| "rec_serve env (LegalHoldReq r hold) s = snd (SetLegalHold env r hold s)"
| "rec_serve env (ProcessReq processor limit) s = snd (ProcessPending env processor limit s)"
| "rec_serve env (CleanupReq now limit) s = snd (CleanupExpired env now limit s)"
| "rec_serve env (MaintenanceReq processor now limit) s = snd (RunMaintenanceOnce env processor now limit s)"
| "rec_serve env (TierReq now limit) s = snd (TransitionStorageLifecycle env now limit s)"

fun rec_execute :: "(rec_env \<times> rec_request) list \<Rightarrow> rec_state \<Rightarrow> rec_state" where
  "rec_execute [] s = s"
| "rec_execute ((env, req) # reqs) s = rec_execute reqs (rec_serve env req s)"

lemma rec_execute_append: "rec_execute (xs @ ys) s = rec_execute ys (rec_execute xs s)"
  by (induction xs s rule: rec_execute.induct) simp_all

definition empty_rec_db :: rec_db where
  "empty_rec_db = \<lparr>rb_recordings = [], rb_artifacts = [], rb_audit = []\<rparr>"

definition initial_rec :: rec_state where
  "initial_rec =
     \<lparr>rs_db = empty_rec_db, rs_stmts = 0, rs_ids = 0, rs_starts = [], rs_stops = [], rs_events = [], rs_deletes = [],
      rs_moves = [], rs_hooks = [], rs_spools = []\<rparr>"

fun request_processor :: "rec_request \<Rightarrow> Processor option" where
  "request_processor (ProcessReq processor _) = processor"
| "request_processor (MaintenanceReq processor _ _) = processor"
| "request_processor _ = None"

context recording_writes
begin

lemmas request_handlers =
  StartRecording_keeps StopRecording_keeps HandleEgressEvent_keeps StopActive_keeps views_keep ProcessPending_keeps
  CleanupExpired_keeps maintenance_keeps lifecycle_keeps

lemma serve:
  assumes "W env" and "pred_option processor_ok (request_processor req)"
  shows "L s (rec_serve env req s)"
  using assms(2)
  by - (cases req; simp only: rec_serve.simps request_processor.simps; rule keepsMD [where R = L];
      (rule request_handlers [OF assms(1)]; assumption?))

lemma execution:
  "list_all (\<lambda>(env, req). W env \<and> pred_option processor_ok (request_processor req)) reqs \<Longrightarrow> L s (rec_execute reqs s)"
  by (induction reqs s rule: rec_execute.induct) (auto intro: run.R_trans serve)

end

end
