(* ===== verification/RecordingInvariant.thy ===== *)
theory RecordingInvariant
  imports RecordingSystem
begin

text \<open>
  Two interpretations of the interface: the tables stay well formed, with one active recording per call; and no
  recording becomes ready, because the statement that stores its artifacts cannot be executed.
\<close>

subsection \<open>Well-formed tables\<close>

definition recordings_ok :: "Recording list \<Rightarrow> bool" where
  "recordings_ok rows \<longleftrightarrow>
     distinct (map Rec_ID rows) \<and> (\<forall>r \<in> set rows. recording_checks r) \<and>
     (\<forall>r \<in> set rows. \<forall>q \<in> set rows. Rec_ID r \<noteq> Rec_ID q \<longrightarrow> \<not> recording_clash r q)"

definition artifacts_ok :: "rec_db \<Rightarrow> bool" where
  "artifacts_ok db \<longleftrightarrow>
     distinct (map RA_StoragePath (rb_artifacts db)) \<and>
     (\<forall>a \<in> set (rb_artifacts db). RA_RecordingID a \<in> Rec_ID ` set (rb_recordings db))"

definition rec_inv :: "rec_db \<Rightarrow> bool" where
  "rec_inv db \<longleftrightarrow> recordings_ok (rb_recordings db) \<and> artifacts_ok db"

definition keeps_inv :: "rec_db \<Rightarrow> rec_db \<Rightarrow> bool" where
  "keeps_inv db db' \<longleftrightarrow> (rec_inv db \<longrightarrow> rec_inv db')"

definition fair :: "rec_env \<Rightarrow> bool" where
  "fair env \<longleftrightarrow> (\<forall>n db. keeps_inv db (re_other env n db))"

lemma clash_sym: "recording_clash r q = recording_clash q r"
  by (auto simp: recording_clash_def)

lemma recordings_okD:
  assumes "recordings_ok rows"
  shows "distinct (map Rec_ID rows)" and "r \<in> set rows \<Longrightarrow> recording_checks r"
    and "r \<in> set rows \<Longrightarrow> q \<in> set rows \<Longrightarrow> Rec_ID r \<noteq> Rec_ID q \<Longrightarrow> \<not> recording_clash r q"
  using assms unfolding recordings_ok_def by blast+

lemma recordings_okI:
  "distinct (map Rec_ID rows) \<Longrightarrow> (\<And>r. r \<in> set rows \<Longrightarrow> recording_checks r) \<Longrightarrow>
   (\<And>r q. r \<in> set rows \<Longrightarrow> q \<in> set rows \<Longrightarrow> Rec_ID r \<noteq> Rec_ID q \<Longrightarrow> \<not> recording_clash r q) \<Longrightarrow> recordings_ok rows"
  unfolding recordings_ok_def by blast

lemma recordings_ok_append:
  assumes "recordings_ok rows" and "recording_checks r" and free: "\<And>q. q \<in> set rows \<Longrightarrow> \<not> recording_clash r q"
  shows "recordings_ok (rows @ [r])"
proof (rule recordings_okI)
  have "Rec_ID r \<notin> Rec_ID ` set rows" using free by (auto simp: recording_clash_def)
  then show "distinct (map Rec_ID (rows @ [r]))" using recordings_okD(1) [OF assms(1)] by simp
next
  show "recording_checks q" if "q \<in> set (rows @ [r])" for q
    using that assms(1,2) by (auto intro: recordings_okD(2))
next
  show "\<not> recording_clash p q" if "p \<in> set (rows @ [r])" "q \<in> set (rows @ [r])" "Rec_ID p \<noteq> Rec_ID q" for p q
    using that free [of p] free [of q] recordings_okD(3) [OF assms(1), of p q] clash_sym [of p r] by auto
qed

lemma recordings_ok_filter: "recordings_ok rows \<Longrightarrow> recordings_ok (filter P rows)"
  by (auto simp: recordings_ok_def distinct_map_filter)

lemma recordings_ok_update:
  assumes ok: "recordings_ok rows" and id: "Rec_ID (f r) = rid"
    and r: "r \<in> set rows" "Rec_ID r = rid" and checks: "recording_checks (f r)"
    and free: "\<And>q. q \<in> set rows \<Longrightarrow> Rec_ID q \<noteq> rid \<Longrightarrow> \<not> recording_clash (f r) q"
  shows "recordings_ok (upd_where (\<lambda>q. Rec_ID q = rid) f rows)"
proof -
  have only: "q = r" if "q \<in> set rows" "Rec_ID q = rid" for q
    using distinct_key_eq [OF recordings_okD(1) [OF ok], of q r] that r by simp
  have "map Rec_ID (upd_where (\<lambda>q. Rec_ID q = rid) f rows) = map Rec_ID rows"
    using only id by (auto simp: upd_where_def)
  moreover have row: "q = f r \<or> q \<in> set rows \<and> Rec_ID q \<noteq> rid" if "q \<in> set (upd_where (\<lambda>q. Rec_ID q = rid) f rows)" for q
    using upd_where_elem [OF that] only by (auto split: if_splits)
  ultimately show ?thesis
  proof (intro recordings_okI)
    show "recording_checks q" if "q \<in> set (upd_where (\<lambda>q. Rec_ID q = rid) f rows)" for q
      using row [OF that] checks recordings_okD(2) [OF ok, of q] by blast
  next
    show "\<not> recording_clash p q"
      if "p \<in> set (upd_where (\<lambda>q. Rec_ID q = rid) f rows)" "q \<in> set (upd_where (\<lambda>q. Rec_ID q = rid) f rows)" "Rec_ID p \<noteq> Rec_ID q"
      for p q
      using row [OF that(1)] row [OF that(2)] that(3) free [of p] free [of q] recordings_okD(3) [OF ok, of p q]
        clash_sym [of p "f r"] by blast
  qed (simp add: recordings_okD(1) [OF ok])
qed

lemma inserted_ok:
  assumes "insert_recording calls rec db = Inr (x, db')"
  shows "keeps_inv db db'"
proof -
  have db': "db' = db\<lparr>rb_recordings := rb_recordings db @ [rec]\<rparr>" "recording_checks rec"
    "\<And>q. q \<in> set (rb_recordings db) \<Longrightarrow> \<not> recording_clash rec q"
    using assms by (auto simp: insert_recording_def split: if_splits)
  show ?thesis
    unfolding keeps_inv_def rec_inv_def db'(1) using recordings_ok_append [OF _ db'(2,3)] by (auto simp: artifacts_ok_def)
qed

lemma update_run:
  assumes "update_recording wrap rid P f db = Inr (y, db')"
  shows "\<exists>r \<in> set (rb_recordings db). Rec_ID r = rid \<and> P r \<and> y = f r \<and> status_transition (Rec_Status r) (Rec_Status (f r)) \<and>
    recording_checks (f r) \<and> (\<forall>q \<in> set (rb_recordings db). Rec_ID q \<noteq> rid \<longrightarrow> \<not> recording_clash (f r) q) \<and>
    db' = db\<lparr>rb_recordings := upd_where (\<lambda>q. Rec_ID q = rid) f (rb_recordings db)\<rparr>"
  using assms by (auto simp: update_recording_def dest!: find_SomeD split: option.splits if_splits)

lemma updated_ok:
  assumes "update_recording wrap rid P f db = Inr (y, db')" and ids: "\<And>r. Rec_ID (f r) = Rec_ID r"
  shows "keeps_inv db db'"
proof -
  obtain r where r: "r \<in> set (rb_recordings db)" "Rec_ID r = rid" "recording_checks (f r)"
    "\<And>q. q \<in> set (rb_recordings db) \<Longrightarrow> Rec_ID q \<noteq> rid \<Longrightarrow> \<not> recording_clash (f r) q"
    and db': "db' = db\<lparr>rb_recordings := upd_where (\<lambda>q. Rec_ID q = rid) f (rb_recordings db)\<rparr>"
    using update_run [OF assms(1)] by blast
  have "map Rec_ID (upd_where (\<lambda>q. Rec_ID q = rid) f (rb_recordings db)) = map Rec_ID (rb_recordings db)"
    by (rule map_upd_where) (rule ids)
  then have "Rec_ID ` set (upd_where (\<lambda>q. Rec_ID q = rid) f (rb_recordings db)) = Rec_ID ` set (rb_recordings db)"
    by (metis list.set_map)
  then show ?thesis
    unfolding keeps_inv_def rec_inv_def db'
    using recordings_ok_update [where r = r and f = f and rid = rid and rows = "rb_recordings db"] r ids
    by (simp add: artifacts_ok_def)
qed

lemma deleted_ok: "delete_recording rid db = Inr (x, db') \<Longrightarrow> keeps_inv db db'"
  by (fastforce simp: delete_recording_def keeps_inv_def rec_inv_def artifacts_ok_def recordings_ok_filter distinct_map_filter image_iff
      split: if_splits)

lemma insert_artifacts_recordings: "insert_artifacts as db = Inr db' \<Longrightarrow> rb_recordings db' = rb_recordings db"
  by (induction as arbitrary: db) (auto simp: insert_artifact_def split: sum.splits if_splits)

lemma insert_artifacts_ok: "insert_artifacts as db = Inr db' \<Longrightarrow> artifacts_ok db \<Longrightarrow> artifacts_ok db'"
proof (induction as arbitrary: db)
  case (Cons a as)
  then obtain db1 where db1: "insert_artifact a db = Inr db1" "insert_artifacts as db1 = Inr db'" by (auto split: sum.splits)
  obtain r where r: "r \<in> set (rb_recordings db)" "Rec_ID r = RA_RecordingID a" "RA_StoragePath a \<notin> RA_StoragePath ` set (rb_artifacts db)"
    and eq: "db1 = db\<lparr>rb_artifacts := rb_artifacts db @ [a]\<rparr>"
    using db1(1) by (fastforce simp: insert_artifact_def split: if_splits)
  have "RA_RecordingID a \<in> Rec_ID ` set (rb_recordings db)" using r(1,2) by (metis image_eqI)
  then have "artifacts_ok db1" using Cons.prems(2) r(3) by (simp add: artifacts_ok_def eq)
  with db1 show ?case by (intro Cons.IH)
qed simp

lemma replaced_ok:
  assumes "replaceArtifactsTx rid as db = Inr (x, db')"
  shows "keeps_inv db db'"
proof -
  let ?db = "db\<lparr>rb_artifacts := filter (\<lambda>a. RA_RecordingID a \<noteq> rid) (rb_artifacts db)\<rparr>"
  have ins: "insert_artifacts as ?db = Inr db'"
    using assms by (cases "insert_artifacts as ?db") (auto simp: replaceArtifactsTx_def)
  have "artifacts_ok ?db" if "artifacts_ok db" using that by (auto simp: artifacts_ok_def distinct_map_filter)
  with insert_artifacts_ok [OF ins] insert_artifacts_recordings [OF ins] show ?thesis
    by (simp add: keeps_inv_def rec_inv_def)
qed

lemma fair_alone: "fair env \<Longrightarrow> fair (rec_alone env)"
  by (simp add: fair_def rec_alone_def keeps_inv_def)

lemma fair_others: "fair env \<Longrightarrow> keeps_inv db (re_other env n db)"
  by (simp add: fair_def)

interpretation tables: recording_steps keeps_inv fair
  by unfold_locales (simp add: keeps_inv_def, simp add: keeps_inv_def, rule fair_alone, assumption, rule fair_others)

lemma ready_row_ids: "Rec_ID (ready_row t rec r) = Rec_ID r"
  by (simp add: ready_row_def)

lemma SetReady_ok: "fair env \<Longrightarrow> keepsM tables.L (SetReady env rec)"
  unfolding SetReady_def by (rule tables.exec_keeps) (auto dest!: affected_Inr intro: updated_ok ready_row_ids)

lemma ReplaceArtifacts_ok: "fair env \<Longrightarrow> keepsM tables.L (ReplaceArtifacts env rid as)"
  unfolding ReplaceArtifacts_def by (rule tables.exec_keeps) (assumption, rule replaced_ok)

interpretation tables: recording_writes keeps_inv fair True
proof
  show "keepsM tables.L (finalize_recording env rec as)" if "fair env" for env rec as
    using that unfolding finalize_recording_def recordings_scope_def
    by - (intro tables.steps tables.tx_keeps SetReady_ok ReplaceArtifacts_ok; assumption)
next
  show "keeps_inv db db'" if "update_recording wrap rid P f db = Inr (y, db')" "quiet_update f" for wrap rid P f db y db'
    using that by (auto intro!: updated_ok simp: quiet_update_def)
next
  show "keeps_inv db (db\<lparr>rb_artifacts := filter (\<lambda>a. RA_RecordingID a \<noteq> rid) (rb_artifacts db)\<rparr>)" for db rid
    by (auto simp: keeps_inv_def rec_inv_def artifacts_ok_def distinct_map_filter)
next
  show "keeps_inv db (db\<lparr>rb_artifacts := upd_where Q g (rb_artifacts db)\<rparr>)" if "same_objects g" for db Q g
  proof -
    have "map RA_StoragePath (upd_where Q g as) = map RA_StoragePath as" for as
      using that by (induction as) (auto simp: same_objects_def)
    moreover have "\<exists>b \<in> set as. RA_RecordingID a = RA_RecordingID b" if "a \<in> set (upd_where Q g as)" for a as
      using upd_where_elem [OF that] \<open>same_objects g\<close> by (auto simp: same_objects_def split: if_splits)
    ultimately show ?thesis by (fastforce simp: keeps_inv_def rec_inv_def artifacts_ok_def)
  qed
next
  show "keeps_inv db (db\<lparr>rb_audit := log\<rparr>)" for db log
    by (simp add: keeps_inv_def rec_inv_def artifacts_ok_def)
qed (rule inserted_ok deleted_ok; assumption)+

subsection \<open>Nothing becomes ready\<close>

text \<open>The insert has one column more than values, so PostgreSQL rejects it, and the list of artifacts with it.\<close>

lemma artifacts_never_stored: "as \<noteq> [] \<Longrightarrow> \<exists>e. replaceArtifactsTx rid as db = Inl e"
  by (cases as) (simp_all add: replaceArtifactsTx_def insert_artifact_def insert_parses_def artifact_columns_def
      artifact_placeholders_def)

definition none_ready :: "rec_db \<Rightarrow> bool" where
  "none_ready db \<longleftrightarrow> (\<forall>r \<in> set (rb_recordings db). Rec_Status r \<noteq> RecordingStatusReady)"

definition stays_unready :: "rec_db \<Rightarrow> rec_db \<Rightarrow> bool" where
  "stays_unready db db' \<longleftrightarrow> (none_ready db \<longrightarrow> none_ready db')"

definition unready_others :: "rec_env \<Rightarrow> bool" where
  "unready_others env \<longleftrightarrow> (\<forall>n db. stays_unready db (re_other env n db))"

interpretation unready: recording_steps stays_unready unready_others
  by unfold_locales (auto simp: stays_unready_def unready_others_def rec_alone_def)

lemma ReplaceArtifacts_fails: "as \<noteq> [] \<Longrightarrow> \<exists>e. fst (ReplaceArtifacts env rid as s) = Inl e"
  using artifacts_never_stored [of as rid "rs_db (rec_tick env s)"]
  by (auto simp: ReplaceArtifacts_def rec_exec_def Let_def split: option.splits)

lemma ReplaceArtifacts_unready: "unready_others env \<Longrightarrow> as \<noteq> [] \<Longrightarrow> keepsM unready.L (ReplaceArtifacts env rid as)"
  unfolding ReplaceArtifacts_def by (rule unready.exec_keeps) (assumption, metis artifacts_never_stored Inl_Inr_False)

lemma bindM_fails: "\<exists>e. fst (m s) = Inl e \<Longrightarrow> snd (bindM m k s) = snd (m s)"
  by (cases "m s") (auto simp: bindM_def)

lemma replace_then_unready:
  assumes "unready_others env" and "as \<noteq> []"
  shows "keepsM unready.L (bindM (ReplaceArtifacts env rid as) k)"
  by (rule keepsMI) (simp add: bindM_fails [OF ReplaceArtifacts_fails [OF assms(2)]] keepsMD [OF ReplaceArtifacts_unready [OF assms]])

lemma unready_writes:
  "insert_recording calls rec db = Inr (x, db') \<Longrightarrow> Rec_Status rec = RecordingStatusRecording \<Longrightarrow> stays_unready db db'"
  "delete_recording rid db = Inr (x, db') \<Longrightarrow> stays_unready db db'"
  "rb_recordings db' = rb_recordings db \<Longrightarrow> stays_unready db db'"
  by (auto simp: stays_unready_def none_ready_def insert_recording_def delete_recording_def split: if_splits)

lemma unready_update:
  assumes "update_recording wrap rid P f db = Inr (y, db')" and "quiet_update f"
  shows "stays_unready db db'"
proof -
  have "db' = db\<lparr>rb_recordings := upd_where (\<lambda>q. Rec_ID q = rid) f (rb_recordings db)\<rparr>"
    using update_run [OF assms(1)] by blast
  then show ?thesis
    using assms(2) by (auto simp: stays_unready_def none_ready_def quiet_update_def set_upd_where)
qed

interpretation unready: recording_writes stays_unready unready_others False
proof
  show "keepsM unready.L (finalize_recording env rec as)" if "unready_others env" "as \<noteq> [] \<or> False" for env rec as
    using that unfolding finalize_recording_def recordings_scope_def
    by - (intro unready.steps unready.tx_keeps replace_then_unready; simp)
qed (rule unready_writes(1) unready_update unready_writes(2); assumption | rule unready_writes(3); simp)+

end
