(* ===== verification/RecordingRuns.thy ===== *)
theory RecordingRuns
  imports RecordingInvariant
begin

text \<open>
  How the handlers of the recording service run when nothing runs in between, for the properties that say what one
  request achieves: statements, transactions and the shared checks, read backwards from their success.
\<close>

definition solo :: "rec_env \<Rightarrow> bool" where
  "solo env \<longleftrightarrow> (\<forall>n db. re_other env n db = db)"

definition no_faults :: "rec_env \<Rightarrow> bool" where
  "no_faults env \<longleftrightarrow> (\<forall>n op. re_fault env n op = None)"

abbreviation (input) rows :: "rec_state \<Rightarrow> Recording list" where
  "rows s \<equiv> rb_recordings (rs_db s)"

text \<open>Only counters, the audit log and the log of broadcasts may differ: what checks and logging do.\<close>

definition untouched :: "rec_state \<Rightarrow> rec_state \<Rightarrow> bool" where
  "untouched s s' \<longleftrightarrow>
     rows s' = rows s \<and> rb_artifacts (rs_db s') = rb_artifacts (rs_db s) \<and> rs_starts s' = rs_starts s \<and> rs_stops s' = rs_stops s \<and>
     rs_deletes s' = rs_deletes s"

lemma solo_alone [simp]: "solo (rec_alone env)"
  by (simp add: solo_def rec_alone_def)

lemma alone_fields [simp]:
  "re_fault (rec_alone env) = re_fault env" "re_now (rec_alone env) = re_now env" "re_calls (rec_alone env) = re_calls env"
  "no_faults (rec_alone env) = no_faults env" "re_scopeRecordings (rec_alone env) = re_scopeRecordings env"
  "re_scopeAudit (rec_alone env) = re_scopeAudit env" "re_id (rec_alone env) = re_id env"
  by (simp_all add: rec_alone_def no_faults_def)

lemma solo_tick: "solo env \<Longrightarrow> rec_tick env s = s\<lparr>rs_stmts := Suc (rs_stmts s)\<rparr>"
  by (simp add: solo_def rec_tick_def)

lemma query_Inr:
  "solo env \<Longrightarrow> rec_query env op wrap f s = (Inr x, s') \<Longrightarrow> f (rs_db s) = Inr x \<and> s' = s\<lparr>rs_stmts := Suc (rs_stmts s)\<rparr>"
  by (auto simp: rec_query_def Let_def solo_tick split: option.splits)

lemma exec_Inr:
  assumes "solo env" and "rec_exec env op wrap f s = (Inr x, s')"
  shows "\<exists>db. f (rs_db s) = Inr (x, db) \<and> s' = s\<lparr>rs_stmts := Suc (rs_stmts s), rs_db := db\<rparr>"
  using assms by (cases "f (rs_db s)") (auto simp: rec_exec_def Let_def solo_tick split: option.splits prod.splits)

lemma tx_Inr:
  assumes "solo env" and "rec_WithinTx env fn s = (Inr x, s')"
  shows "\<exists>s2. fn (rec_alone env) (s\<lparr>rs_stmts := Suc (rs_stmts s)\<rparr>) = (Inr x, s2) \<and> s' = s2\<lparr>rs_stmts := Suc (rs_stmts s2)\<rparr>"
  using assms by (auto simp: rec_WithinTx_def Let_def solo_tick split: option.splits prod.splits sum.splits)

interpretation touched: run_relation untouched
  by unfold_locales (simp_all add: untouched_def)

lemma untouched_query: "solo env \<Longrightarrow> keepsM untouched (rec_query env op wrap f)"
  by (rule keepsMI) (simp add: rec_query_def Let_def solo_tick untouched_def split: option.splits)

lemma untouched_exec:
  "solo env \<Longrightarrow> (\<And>db x db'. f db = Inr (x, db') \<Longrightarrow> rb_recordings db' = rb_recordings db \<and> rb_artifacts db' = rb_artifacts db) \<Longrightarrow>
   keepsM untouched (rec_exec env op wrap f)"
  by (rule keepsMI) (auto simp: rec_exec_def Let_def solo_tick untouched_def split: option.splits sum.splits prod.splits)

lemma untouched_logs:
  "keepsM untouched (rec_New env)" "keepsM untouched (rec_call env g)" "keepsM untouched (BroadcastRecordingStarted env rec)"
  "keepsM untouched (modifyM (\<lambda>s. s\<lparr>rs_events := ev s\<rparr>))"
  by (auto simp: keepsM_def untouched_def rec_New_def rec_call_def BroadcastRecordingStarted_def monad_simps)

lemma untouched_audit: "solo env \<Longrightarrow> keepsM untouched (Audit_Create env e)"
  unfolding Audit_Create_def by (rule untouched_exec) (auto simp: insert_audit_def split: if_splits)

lemmas untouched_steps =
  touched.keeps_bindM touched.keeps_mapErrM touched.keeps_tryM touched.keeps_returnM touched.keeps_throwM touched.keeps_readM
  touched.keeps_getM touched.keeps_failIf touched.keeps_If touched.keeps_case_option touched.keeps_case_sum
  untouched_query untouched_logs untouched_audit

lemma untouched_checks:
  assumes "solo env"
  shows "keepsM untouched (ensureQuotaAvailable env w)" "keepsM untouched (require_recorder env c u m1 m2)"
    "keepsM untouched (createAuditTx env w u a t i m)" "keepsM untouched (logAudit env w u a t i m)"
    "keepsM untouched (broadcastRecordingUpdated env rec)" "keepsM untouched (Recordings_ListByCall env c)"
  using assms unfolding ensureQuotaAvailable_def require_recorder_def createAuditTx_def logAudit_def rec_ignore_def
    broadcastRecordingUpdated_def WorkspaceStorageUsage_def Recordings_ListByCall_def
  by (intro untouched_steps; assumption)+

lemma keeps_run: "keepsM R m \<Longrightarrow> m s = (r, s') \<Longrightarrow> R s s'"
  by (metis keepsMD snd_conv)

lemma untouched_trans: "untouched s t \<Longrightarrow> untouched t u \<Longrightarrow> untouched s u"
  by (rule touched.R_trans)

lemma untouched_stmts [simp]: "untouched s (s\<lparr>rs_stmts := n\<rparr>)" "untouched (s\<lparr>rs_stmts := n\<rparr>) s' = untouched s s'"
  "untouched s (s'\<lparr>rs_stmts := n\<rparr>) = untouched s s'"
  by (simp_all add: untouched_def)

subsection \<open>The new row\<close>

lemma insert_run:
  "insert_recording calls rec db = Inr (x, db') \<Longrightarrow> db' = db\<lparr>rb_recordings := rb_recordings db @ [rec]\<rparr> \<and>
   recording_checks rec \<and> (\<forall>q \<in> set (rb_recordings db). \<not> recording_clash rec q)"
  by (auto simp: insert_recording_def split: if_splits)

lemma row_created:
  assumes "solo env" and "Recordings_Create env rec s = (Inr (), s')"
  shows "rows s' = rows s @ [rec] \<and> rb_artifacts (rs_db s') = rb_artifacts (rs_db s) \<and> rs_starts s' = rs_starts s \<and>
    recording_checks rec \<and> (\<forall>q \<in> set (rows s). \<not> recording_clash rec q)"
  using exec_Inr [OF assms(1) assms(2) [unfolded Recordings_Create_def]] by (auto dest!: insert_run)

lemma createRecordingRow_run:
  assumes env: "solo env" and run: "createRecordingRow env w u rec m s = (Inr (), s')"
  shows "rows s' = rows s @ [rec] \<and> rs_starts s' = rs_starts s \<and> recording_checks rec \<and>
    (\<forall>q \<in> set (rows s). \<not> recording_clash rec q)"
proof (cases "re_tx env")
  case True
  let ?a = "createAuditTx (rec_alone env) w u ''recording.started'' ''recording'' (re_uuidString env (Rec_ID rec)) m"
  obtain s1 s2 where c: "Recordings_Create (rec_alone env) rec (s\<lparr>rs_stmts := Suc (rs_stmts s)\<rparr>) = (Inr (), s1)"
    and a: "?a s1 = (Inr (), s2)" and s': "s' = s2\<lparr>rs_stmts := Suc (rs_stmts s2)\<rparr>"
    using run True tx_Inr [OF env] by (fastforce simp: createRecordingRow_def recordings_scope_def run_Inr)
  have "untouched s1 s'" using keeps_run [OF untouched_checks(3) a] s' by simp
  then show ?thesis using row_created [OF solo_alone c] by (simp add: untouched_def)
next
  case False
  obtain s1 where c: "Recordings_Create env rec s = (Inr (), s1)"
    and a: "logAudit env w u ''recording.started'' ''recording'' (re_uuidString env (Rec_ID rec)) m s1 = (Inr (), s')"
    using run False by (auto simp: createRecordingRow_def run_Inr)
  have "untouched s1 s'" by (rule keeps_run [OF untouched_checks(4) [OF env] a])
  then show ?thesis using row_created [OF env c] by (simp add: untouched_def)
qed

subsection \<open>Runs of \<open>StartRecording\<close>\<close>

definition same_starts :: "rec_state \<Rightarrow> rec_state \<Rightarrow> bool" where
  "same_starts s s' \<longleftrightarrow> rs_starts s' = rs_starts s"

interpretation starts: run_relation same_starts
  by unfold_locales (simp_all add: same_starts_def)

lemma starts_exec: "keepsM same_starts (rec_exec env op wrap f)"
  by (rule keepsMI) (auto simp: rec_exec_def Let_def rec_tick_def same_starts_def split: option.splits sum.splits prod.splits)

lemma starts_tx:
  assumes "\<And>tx. keepsM same_starts (fn tx)"
  shows "keepsM same_starts (rec_WithinTx env fn)"
proof (rule keepsMI)
  fix s
  obtain r s2 where run: "fn (rec_alone env) (rec_tick env s) = (r, s2)" by (cases "fn (rec_alone env) (rec_tick env s)")
  then have "rs_starts s2 = rs_starts s"
    using keepsMD [OF assms [of "rec_alone env"], of "rec_tick env s"] by (simp add: same_starts_def rec_tick_def)
  then show "same_starts s (snd (rec_WithinTx env fn s))"
    using run by (cases r) (auto simp: rec_WithinTx_def Let_def same_starts_def rec_tick_def split: option.splits)
qed

lemma starts_create: "keepsM same_starts (createRecordingRow env w u rec m)"
proof -
  have "keepsM same_starts (Recordings_Create e rec)" for e
    unfolding Recordings_Create_def by (rule keepsMI) (rule keepsMD [OF starts_exec])
  moreover have "keepsM same_starts (Audit_Create e a)" for e a unfolding Audit_Create_def by (rule starts_exec)
  moreover have "keepsM same_starts (rec_New e)" for e by (simp add: keepsM_def rec_New_def same_starts_def)
  ultimately show ?thesis
    unfolding createRecordingRow_def createAuditTx_def logAudit_def rec_ignore_def recordings_scope_def
    by - (intro starts.keeps_bindM starts.keeps_mapErrM starts.keeps_If starts_tx starts.keeps_failIf starts.keeps_returnM
        starts.keeps_tryM; simp)
qed

text \<open>A handler that succeeded, or asked LiveKit for a job, got past its first statement.\<close>

definition got_on :: "go_error + 'a \<Rightarrow> rec_state \<Rightarrow> rec_state \<Rightarrow> bool" where
  "got_on r s s' \<longleftrightarrow> \<not> isl r \<or> rs_starts s' \<noteq> rs_starts s"

lemma past:
  assumes "bindM m k s = (r, s')" and "keepsM R m" and "got_on r s s'" and "\<And>t u. R t u \<Longrightarrow> rs_starts u = rs_starts t"
  obtains x s1 where "m s = (Inr x, s1)" and "R s s1" and "k x s1 = (r, s')" and "got_on r s1 s'"
proof (cases "m s")
  case (Pair q s1)
  have R: "R s s1" by (rule keeps_run [OF assms(2) Pair])
  show ?thesis
  proof (cases q)
    case (Inl e)
    with assms(1,3) Pair assms(4) [OF R] show ?thesis by (auto simp: bindM_def got_on_def)
  next
    case (Inr x)
    with assms(1,3) Pair assms(4) [OF R] R show ?thesis by (intro that [of x s1]) (simp_all add: bindM_def got_on_def)
  qed
qed

lemma untouched_starts: "untouched t u \<Longrightarrow> rs_starts u = rs_starts t"
  by (simp add: untouched_def)

lemmas past_check = past [where R = untouched, OF _ _ _ untouched_starts]

definition may_record :: "rec_env \<Rightarrow> uuid \<Rightarrow> uuid \<Rightarrow> uuid \<Rightarrow> call_state \<Rightarrow> call_state \<Rightarrow> bool" where
  "may_record env ws cid u cs cs' \<longleftrightarrow>
     (\<exists>call p. Calls_GetByID (re_call env) cid cs = Inr call \<and> Call_WorkspaceID call = ws \<and> Call_Status call = CallStatusActive \<and>
        CS_Recording (Call_Settings call) \<and> GetParticipant (re_call env) cid u cs' = Inr p \<and>
        (CP_Role p = CallRoleHost \<or> CP_Role p = CallRoleCoHost))"

lemma start_checks_run:
  assumes env: "solo env" and run: "start_checks env ws cid u s = (Inr call, s')"
  shows "\<exists>n. may_record env ws cid u (re_calls env (rs_stmts s)) (re_calls env n)"
    and "\<forall>q \<in> set (rows s). Rec_CallID q = cid \<longrightarrow> \<not> active_status (Rec_Status q)"
proof -
  obtain s1 s2 s3 existing where 1: "Calls_GetByID (re_call env) cid (re_calls env (rs_stmts s)) = Inr call"
      "Call_WorkspaceID call = ws" "Call_Status call = CallStatusActive" "CS_Recording (Call_Settings call)"
    and 2: "ensureQuotaAvailable env ws s = (Inr (), s1)"
    and 3: "require_recorder env cid u ''not a participant in this call'' ''only host or co-host can start recording'' s1 = (Inr (), s2)"
    and 4: "Recordings_ListByCall env cid s2 = (Inr existing, s3)" "\<not> list_ex (\<lambda>r. active_status (Rec_Status r)) existing"
    using run by (auto simp: start_checks_def rec_call_def run_Inr)
  obtain p where "GetParticipant (re_call env) cid u (re_calls env (rs_stmts s1)) = Inr p" "CP_Role p = CallRoleHost \<or> CP_Role p = CallRoleCoHost"
    using 3 by (auto simp: require_recorder_def rec_call_def run_Inr)
  with 1 show "\<exists>n. may_record env ws cid u (re_calls env (rs_stmts s)) (re_calls env n)"
    unfolding may_record_def by blast
  have "untouched s s2"
    using keeps_run [OF untouched_checks(1) [OF env] 2] keeps_run [OF untouched_checks(2) [OF env] 3] by (rule untouched_trans)
  moreover have "set existing = {q \<in> set (rows s2). Rec_CallID q = cid}"
    using query_Inr [OF env 4(1) [unfolded Recordings_ListByCall_def]] by auto
  ultimately show "\<forall>q \<in> set (rows s). Rec_CallID q = cid \<longrightarrow> \<not> active_status (Rec_Status q)"
    using 4(2) by (auto simp: list_ex_iff untouched_def)
qed

lemma untouched_start_checks: "solo env \<Longrightarrow> keepsM untouched (start_checks env ws cid u)"
  unfolding start_checks_def by (intro untouched_steps untouched_checks; assumption)

lemma StartRecording_run:
  assumes env: "solo env" and run: "StartRecording env ws cid u s = (r, s')" and on: "got_on r s s'"
  shows "\<exists>n. may_record env ws cid u (re_calls env (rs_stmts s)) (re_calls env n)"
    and "\<forall>q \<in> set (rows s). Rec_CallID q = cid \<longrightarrow> \<not> active_status (Rec_Status q)"
    and "\<exists>call recID rec s2. rec = new_recording env cid call u recID \<and> rows s2 = rows s @ [rec] \<and> rs_starts s2 = rs_starts s \<and>
      recording_checks rec \<and> (\<forall>q \<in> set (rows s). \<not> recording_clash rec q) \<and> start_egress env rec s2 = (r, s')"
proof -
  obtain call s1 where 1: "start_checks env ws cid u s = (Inr call, s1)" "untouched s s1"
    and run1: "bindM (rec_New env) (\<lambda>recID.
     let rec = new_recording env cid call u recID in
     bindM (createRecordingRow env ws u rec
              [(''call_id'', re_uuidString env cid), (''strategy'', ''composite''), (''format'', ''mp4'')]) (\<lambda>_.
     start_egress env rec)) s1 = (r, s')" and on1: "got_on r s1 s'"
    by (rule past_check [OF run [unfolded StartRecording_def] untouched_start_checks [OF env] on])
  show "\<exists>n. may_record env ws cid u (re_calls env (rs_stmts s)) (re_calls env n)"
    "\<forall>q \<in> set (rows s). Rec_CallID q = cid \<longrightarrow> \<not> active_status (Rec_Status q)"
    by (rule start_checks_run [OF env 1(1)])+
  obtain recID s2 where 2: "untouched s1 s2"
    and run2: "bindM (createRecordingRow env ws u (new_recording env cid call u recID)
              [(''call_id'', re_uuidString env cid), (''strategy'', ''composite''), (''format'', ''mp4'')]) (\<lambda>_.
     start_egress env (new_recording env cid call u recID)) s2 = (r, s')" and on2: "got_on r s2 s'"
    by (rule past_check [OF run1 [unfolded Let_def] untouched_logs(1) on1])
  obtain s3 where 3: "createRecordingRow env ws u (new_recording env cid call u recID)
              [(''call_id'', re_uuidString env cid), (''strategy'', ''composite''), (''format'', ''mp4'')] s2 = (Inr (), s3)"
    and run3: "start_egress env (new_recording env cid call u recID) s3 = (r, s')"
    by (rule past [OF run2 starts_create on2]) (auto simp: same_starts_def)
  have "untouched s s2" by (rule untouched_trans [OF 1(2) 2])
  then show "\<exists>call recID rec s2. rec = new_recording env cid call u recID \<and> rows s2 = rows s @ [rec] \<and> rs_starts s2 = rs_starts s \<and>
      recording_checks rec \<and> (\<forall>q \<in> set (rows s). \<not> recording_clash rec q) \<and> start_egress env rec s2 = (r, s')"
    using createRecordingRow_run [OF env 3] run3
    by (intro exI [of _ call] exI [of _ recID] exI [of _ "new_recording env cid call u recID"] exI [of _ s3])
      (simp add: untouched_def)
qed

subsection \<open>The row after the request to LiveKit\<close>

lemma rows_after_exec:
  assumes "solo env"
  shows "rows (snd (rec_exec env op wrap f s)) = rows s \<or>
    (\<exists>x db. f (rs_db s) = Inr (x, db) \<and> rows (snd (rec_exec env op wrap f s)) = rb_recordings db)"
  using assms by (auto simp: rec_exec_def Let_def solo_tick split: option.splits sum.splits)

lemma update_last:
  assumes "rb_recordings db = xs @ [rec]" and "\<forall>q \<in> set xs. Rec_ID q \<noteq> Rec_ID rec" and "quiet_update f"
    and "update_recording wrap (Rec_ID rec) P f db = Inr (y, db')"
  shows "rb_recordings db' = xs @ [f rec]"
  using update_run [OF assms(4)] assms(1,2) by (auto simp: upd_where_def map_idI)

lemma quiet_rows_of:
  "quiet_update (\<lambda>r. r\<lparr>Rec_EgressID := e\<rparr>)" "quiet_update (failed_row m n)"
  by (simp_all add: quiet_update_def failed_row_def)

lemma rec_ignore_run: "rec_ignore m s = (Inr (), snd (m s))"
  by (simp add: rec_ignore_def monad_simps)

lemma start_egress_run:
  assumes env: "solo env" and rows: "rows s = xs @ [rec]" "\<forall>q \<in> set xs. Rec_ID q \<noteq> Rec_ID rec" "Rec_EgressID rec = None"
    and run: "start_egress env rec s = (Inr res, s')"
  shows "rs_starts s' = rs_starts s @ [(Rec_CallID rec, Rec_StoragePath rec)] \<and>
    (\<exists>e. res = rec\<lparr>Rec_EgressID := Some e\<rparr> \<and> (rows s' = xs @ [res] \<or> rows s' = xs @ [rec]))"
proof -
  let ?s1 = "s\<lparr>rs_starts := rs_starts s @ [(Rec_CallID rec, Rec_StoragePath rec)]\<rparr>"
  obtain e where e: "re_startEgress env (length (rs_starts s)) (Rec_CallID rec) (Rec_StoragePath rec) = Inr e"
    and r: "res = rec\<lparr>Rec_EgressID := Some e\<rparr>"
    and s': "BroadcastRecordingStarted env res (snd (SetEgressID env (Rec_ID rec) e ?s1)) = (Inr (), s')"
    using run by (auto simp: start_egress_def StartRoomCompositeFile_def run_Inr rec_ignore_run split: sum.splits)
  let ?s2 = "snd (SetEgressID env (Rec_ID rec) e ?s1)"
  have "untouched ?s2 s'" by (rule keeps_run [OF untouched_logs(3) s'])
  moreover have "same_starts ?s1 ?s2" unfolding SetEgressID_def by (rule keepsMD [OF starts_exec])
  moreover have "rows ?s2 = xs @ [rec] \<or> rows ?s2 = xs @ [res]"
  proof -
    let ?u = "update_recording ''postgres: set recording egress id'' (Rec_ID rec) (\<lambda>_. True) (\<lambda>r. r\<lparr>Rec_EgressID := Some e\<rparr>) (rs_db ?s1)"
    have "rows ?s2 = rows ?s1 \<or> (\<exists>x db. affected ?u = Inr (x, db) \<and> rows ?s2 = rb_recordings db)"
      unfolding SetEgressID_def by (rule rows_after_exec [OF env])
    then show ?thesis
    proof
      assume "\<exists>x db. affected ?u = Inr (x, db) \<and> rows ?s2 = rb_recordings db"
      then obtain y db where "?u = Inr (y, db)" "rows ?s2 = rb_recordings db" using affected_Inr by blast
      then show ?thesis using update_last [OF _ rows(2) quiet_rows_of(1)] rows(1) r by simp
    qed (simp add: rows(1))
  qed
  ultimately show ?thesis using r by (auto simp: untouched_def same_starts_def)
qed

lemma exec_ok:
  assumes "solo env" and "no_faults env" and "f (rs_db s) = Inr (x, db)"
  shows "rec_exec env op wrap f s = (Inr x, s\<lparr>rs_stmts := Suc (rs_stmts s), rs_db := db\<rparr>)"
  using assms by (simp add: rec_exec_def Let_def solo_tick no_faults_def)

lemma find_last: "(\<forall>q \<in> set xs. \<not> Q q) \<Longrightarrow> Q x \<Longrightarrow> find Q (xs @ [x]) = Some x"
  by (induction xs) auto

lemma update_last_ok:
  assumes "rb_recordings db = xs @ [rec]" and "\<forall>q \<in> set xs. Rec_ID q \<noteq> Rec_ID rec" and "P rec"
    and "status_transition (Rec_Status rec) (Rec_Status (f rec))" and "recording_checks (f rec)"
    and "\<forall>q \<in> set xs. \<not> recording_clash (f rec) q"
  shows "\<exists>db'. update_recording wrap (Rec_ID rec) P f db = Inr (f rec, db')"
  using assms by (auto simp: update_recording_def find_last)

lemma start_egress_failed:
  assumes env: "solo env" "no_faults env" and rows: "rows s = xs @ [rec]" "\<forall>q \<in> set xs. Rec_ID q \<noteq> Rec_ID rec"
    and new: "Rec_Status rec = RecordingStatusRecording" "recording_checks rec" "\<forall>q \<in> set xs. \<not> recording_clash rec q"
    and run: "start_egress env rec s = (Inl err, s')"
  shows "\<exists>m. rows s' = xs @ [failed_row m None rec]"
proof -
  let ?s1 = "s\<lparr>rs_starts := rs_starts s @ [(Rec_CallID rec, Rec_StoragePath rec)]\<rparr>"
  obtain m where s': "s' = snd (MarkFailed env (Rec_ID rec) m None ?s1)"
    using run by (auto simp: start_egress_def StartRoomCompositeFile_def monad_simps rec_ignore_def BroadcastRecordingStarted_def
        split: sum.splits if_splits)
  have "\<forall>q \<in> set xs. \<not> recording_clash (failed_row m None rec) q"
    using new(3) rows(2) by (auto simp: recording_clash_def failed_row_def active_status_def)
  then obtain db where db: "update_recording ''postgres: mark recording failed'' (Rec_ID rec) (\<lambda>_. True) (failed_row m None) (rs_db s) =
      Inr (failed_row m None rec, db)"
    using update_last_ok [OF rows, of "\<lambda>_. True" "failed_row m None"] new(1,2)
    by (fastforce simp: failed_row_def recording_checks_def)
  then have "s' = ?s1\<lparr>rs_stmts := Suc (rs_stmts ?s1), rs_db := db\<rparr>"
    unfolding s' MarkFailed_def by (subst exec_ok [OF env]) (simp_all add: affected_def)
  then show ?thesis using update_last [OF rows quiet_rows_of(2) db] by auto
qed

subsection \<open>Stopping\<close>

lemma audit_no_code: "Audit_Create env e s = (Inl err, s') \<Longrightarrow> \<not> has_code c err"
  by (auto simp: Audit_Create_def rec_exec_def Let_def insert_audit_def sqlstate_def split: option.splits if_splits)

lemma logAudit_run: "logAudit env w u a t i m s \<noteq> (Inl e, s')"
  by (auto simp: logAudit_def monad_simps rec_ignore_def rec_New_def)

lemma createAuditTx_no_code: "createAuditTx env w u a t i m s = (Inl err, s') \<Longrightarrow> \<not> has_code c err"
  by (auto simp: createAuditTx_def bindM_def rec_New_def returnM_def audit_no_code split: if_splits)

lemma Stop_run:
  assumes env: "solo env" and run: "Recordings_Stop env rid s = (q, s')"
  shows "q = Inl err \<Longrightarrow> has_code CodeNotFound err \<Longrightarrow> \<forall>r \<in> set (rows s). Rec_ID r = rid \<longrightarrow> Rec_Status r \<noteq> RecordingStatusRecording"
    and "q = Inr r \<Longrightarrow> rows s' = upd_where (\<lambda>q. Rec_ID q = rid) (stopped_row (re_now env)) (rows s)"
proof -
  assume "q = Inl err" "has_code CodeNotFound err"
  then show "\<forall>r \<in> set (rows s). Rec_ID r = rid \<longrightarrow> Rec_Status r \<noteq> RecordingStatusRecording"
    using run env
    by (auto simp: Recordings_Stop_def rec_exec_def Let_def solo_tick update_recording_def sqlstate_def find_None_iff'
        split: option.splits if_splits sum.splits)
next
  assume "q = Inr r"
  then show "rows s' = upd_where (\<lambda>q. Rec_ID q = rid) (stopped_row (re_now env)) (rows s)"
    using exec_Inr [OF env run [unfolded Recordings_Stop_def \<open>q = Inr r\<close>]] by (auto dest!: update_run)
qed

lemma stop_row_run:
  assumes env: "solo env" and run: "stop_row env ws rid u s = (q, s')"
  shows "q = Inl err \<Longrightarrow> has_code CodeNotFound err \<Longrightarrow> \<forall>r \<in> set (rows s). Rec_ID r = rid \<longrightarrow> Rec_Status r \<noteq> RecordingStatusRecording"
    and "q = Inr r \<Longrightarrow> rows s' = upd_where (\<lambda>q. Rec_ID q = rid) (stopped_row (re_now env)) (rows s)"
proof -
  assume q: "q = Inl err" "has_code CodeNotFound err"
  show "\<forall>r \<in> set (rows s). Rec_ID r = rid \<longrightarrow> Rec_Status r \<noteq> RecordingStatusRecording"
  proof (cases "re_tx env")
    case True
    let ?s = "s\<lparr>rs_stmts := Suc (rs_stmts s)\<rparr>"
    obtain q1 s1 where stop: "Recordings_Stop (rec_alone env) rid ?s = (q1, s1)" by (cases "Recordings_Stop (rec_alone env) rid ?s")
    then have "q1 = Inl err"
      using run q True
      by (auto simp: stop_row_def rec_WithinTx_def Let_def solo_tick [OF env] bindM_def recordings_scope_def failIf_def throwM_def
          returnM_def Unavailable_def dest: createAuditTx_no_code split: option.splits sum.splits prod.splits if_splits)
    then show ?thesis using Stop_run(1) [OF solo_alone stop _ q(2)] by simp
  next
    case False
    obtain q1 s1 where stop: "Recordings_Stop env rid s = (q1, s1)" by (cases "Recordings_Stop env rid s")
    then have "q1 = Inl err"
      using run q False by (auto simp: stop_row_def bindM_def returnM_def logAudit_run split: sum.splits prod.splits)
    then show ?thesis using Stop_run(1) [OF env stop _ q(2)] by simp
  qed
next
  assume q: "q = Inr r"
  show "rows s' = upd_where (\<lambda>q. Rec_ID q = rid) (stopped_row (re_now env)) (rows s)"
  proof (cases "re_tx env")
    case True
    obtain s1 s2 where 1: "Recordings_Stop (rec_alone env) rid (s\<lparr>rs_stmts := Suc (rs_stmts s)\<rparr>) = (Inr r, s1)"
      and 2: "createAuditTx (rec_alone env) ws u ''recording.stopped'' ''recording'' (re_uuidString env rid) [] s1 = (Inr (), s2)"
      and 3: "s' = s2\<lparr>rs_stmts := Suc (rs_stmts s2)\<rparr>"
      using run q True tx_Inr [OF env] by (fastforce simp: stop_row_def recordings_scope_def run_Inr)
    have "untouched s1 s'" using keeps_run [OF untouched_checks(3) 2] 3 by simp
    then show ?thesis using Stop_run(2) [OF solo_alone 1] by (simp add: untouched_def)
  next
    case False
    obtain s1 where 1: "Recordings_Stop env rid s = (Inr r, s1)"
      and 2: "logAudit env ws u ''recording.stopped'' ''recording'' (re_uuidString env rid) [] s1 = (Inr (), s')"
      using run q False by (auto simp: stop_row_def run_Inr)
    have "untouched s1 s'" by (rule keeps_run [OF untouched_checks(4) [OF env] 2])
    then show ?thesis using Stop_run(2) [OF env 1] by (simp add: untouched_def)
  qed
qed

definition not_recording :: "uuid \<Rightarrow> uuid \<Rightarrow> rec_state \<Rightarrow> bool" where
  "not_recording ws rid s \<longleftrightarrow>
     (\<exists>r. find (\<lambda>r. Rec_ID r = rid) (rows s) = Some r \<and> Rec_WorkspaceID r = ws \<and> Rec_Status r \<noteq> RecordingStatusRecording)"

lemma untouched_not_recording: "untouched s s' \<Longrightarrow> not_recording ws rid s' = not_recording ws rid s"
  by (simp add: untouched_def not_recording_def)

lemma stop_job_rows: "stop_egress_job env rec s = (Inr (), s') \<Longrightarrow> rs_db s' = rs_db s"
  by (auto simp: stop_egress_job_def StopEgress_def mapErrM_def returnM_def split: option.splits if_splits)

lemma GetByID_Inr:
  "solo env \<Longrightarrow> Recordings_GetByID env rid s = (Inr r, s') \<Longrightarrow>
   find (\<lambda>r. Rec_ID r = rid) (rows s) = Some r \<and> s' = s\<lparr>rs_stmts := Suc (rs_stmts s)\<rparr>"
  by (auto simp: Recordings_GetByID_def scanRecording_def dest!: query_Inr split: option.splits)

lemma StopRecording_run:
  assumes env: "solo env" and run: "StopRecording env ws rid u s = (Inr (), s')"
  shows "not_recording ws rid s'"
proof -
  obtain r s1 where get: "Recordings_GetByID env rid s = (Inr r, s1)" and ws: "Rec_WorkspaceID r = ws"
    and rest: "(if Rec_Status r \<noteq> RecordingStatusRecording then returnM ()
       else bindM (require_recorder env (Rec_CallID r) u ''not a participant'' ''only host or co-host can stop recording'') (\<lambda>_.
       bindM (stop_egress_job env r) (\<lambda>_.
       bindM (tryM (stop_row env ws rid u)) (\<lambda>stopped.
       (case stopped of
          Inl err \<Rightarrow> if has_code CodeNotFound err then returnM () else throwM (Internal ''failed to stop recording'' (Some err))
        | Inr r \<Rightarrow> broadcastRecordingUpdated env r))))) s1 = (Inr (), s')"
    using run by (auto simp: StopRecording_def run_Inr)
  note r = GetByID_Inr [OF env get]
  show ?thesis
  proof (cases "Rec_Status r = RecordingStatusRecording")
    case False
    with rest have "s' = s1" by (simp add: returnM_def)
    with False r ws show ?thesis by (auto simp: not_recording_def)
  next
    case True
    with rest obtain s2 s3 s4 stopped where
      2: "require_recorder env (Rec_CallID r) u ''not a participant'' ''only host or co-host can stop recording'' s1 = (Inr (), s2)"
      and 3: "stop_egress_job env r s2 = (Inr (), s3)" and 4: "stop_row env ws rid u s3 = (stopped, s4)"
      and 5: "(case stopped of
          Inl err \<Rightarrow> if has_code CodeNotFound err then returnM () else throwM (Internal ''failed to stop recording'' (Some err))
        | Inr r \<Rightarrow> broadcastRecordingUpdated env r) s4 = (Inr (), s')"
      by (auto simp: run_Inr)
    have "rows s3 = rows s"
      using r keeps_run [OF untouched_checks(2) [OF env] 2] stop_job_rows [OF 3] by (simp add: untouched_def)
    moreover have "r \<in> set (rows s)" "Rec_ID r = rid" using r find_SomeD by fastforce+
    ultimately have "\<not> (stopped = Inl err \<and> has_code CodeNotFound err)" for err
      using stop_row_run(1) [OF env 4, of err] True by metis
    then obtain q where q: "stopped = Inr q" using 5 by (cases stopped) (auto simp: throwM_def split: if_splits)
    then have "rows s4 = upd_where (\<lambda>q. Rec_ID q = rid) (stopped_row (re_now env)) (rows s)"
      using stop_row_run(2) [OF env 4] \<open>rows s3 = rows s\<close> by simp
    then have "find (\<lambda>r. Rec_ID r = rid) (rows s4) = Some (stopped_row (re_now env) r)"
      using r \<open>Rec_ID r = rid\<close> by (simp add: find_upd_where stopped_row_def)
    then have "not_recording ws rid s4" using ws by (simp add: not_recording_def stopped_row_def)
    then show ?thesis
      using 5 q keeps_run [OF untouched_checks(5) [OF env]] untouched_not_recording by fastforce
  qed
qed

lemma not_isl_run: "\<not> isl (fst z) \<Longrightarrow> \<exists>x s. z = (Inr x, s)"
  by (cases z, rename_tac r s, case_tac r) auto

end
