(* ===== verification/RecordingTheorems.thy ===== *)
theory RecordingTheorems
  imports RecordingRuns Scenario
begin

text \<open>
  The properties of the recording service, each with a concrete run in which it applies, and closed runs that show
  what goes wrong with egress events, the processing queue and legal holds.
\<close>

subsection \<open>A deployment\<close>

text \<open>
  The workspace of \<open>Scenario\<close>, with recording enabled in call 100, its host 10 and the participant 11. LiveKit
  answers with the egress jobs \<open>e\<close>, \<open>ex\<close>, and so on.
\<close>

definition rec_demo_calls :: call_state where
  "rec_demo_calls =
     demo_state ((demo_call CallStatusActive)\<lparr>Call_Settings := demo_settings\<lparr>CS_Recording := True\<rparr>\<rparr>)
       [demo_part 102 11 CallRoleParticipant ParticipantStatusConnected]"

definition rec_demo :: "gotime \<Rightarrow> rec_env" where
  "rec_demo now =
     \<lparr>re_now = now, re_call = demo_env True, re_calls = (\<lambda>_. rec_demo_calls), re_other = (\<lambda>_ db. db),
      re_fault = (\<lambda>_ _. None), re_ctx = (\<lambda>_. None), re_sleep = (\<lambda>_. None), re_netTimeout = (\<lambda>_. False),
      re_pgCode = (\<lambda>_. None), re_tx = True, re_scopeRecordings = True, re_scopeAudit = True, re_audit = True,
      re_callAccess = True, re_workspaces = True, re_egress = True,
      re_startEgress = (\<lambda>n _ _. Inr (CHR ''e'' # replicate n CHR ''x'')), re_stopEgress = (\<lambda>_ _. None),
      re_broadcaster = True, re_store = True, re_storeGet = (\<lambda>_. Inr \<lparr>FI_Size = 0, FI_MimeType = '''', FI_StorageClass = ''''\<rparr>),
      re_storeDelete = (\<lambda>_ _. None), re_tiered = None, re_transition = (\<lambda>_ _ _ _. None), re_signer = None,
      re_saturated = False, re_hooks = True, re_mapOrder = id, re_id = Suc, re_uuidString = (\<lambda>n. if n = 100 then ''c'' else replicate n CHR ''u''),
      re_maxAttempts = 2, re_retryBackoff = 0, re_retention = 100, re_quotaBytes = 0, re_warmAfter = 0,
      re_archiveAfter = 0, re_opTimeout = 0, re_signedURLTTL = 0\<rparr>"

definition ended :: "string \<Rightarrow> bool \<Rightarrow> EgressEventInfo" where
  "ended egressID succeeded =
     \<lparr>EE_EgressID = egressID, EE_CallID = 100, EE_Phase = EgressEventEnded, EE_Succeeded = succeeded, EE_FileSizeBytes = 5,
      EE_DurationSeconds = 7\<rparr>"

lemma demo_others: "fair (rec_demo t)" "unready_others (rec_demo t)"
  by (simp_all add: fair_def unready_others_def rec_demo_def keeps_inv_def stays_unready_def)

definition demo_recorded :: rec_state where
  "demo_recorded = rec_execute [(rec_demo 1, StartRecordingReq 1 100 10)] initial_rec"

definition demo_stopped :: rec_state where
  "demo_stopped = rec_execute [(rec_demo 2, StopRecordingReq 1 1 10)] demo_recorded"

subsection \<open>All executions\<close>

lemma execution_inv:
  assumes "list_all (\<lambda>(env, _). fair env) reqs"
  shows "rec_inv (rs_db (rec_execute reqs initial_rec))"
proof -
  have "list_all (\<lambda>(env, req). fair env \<and> pred_option tables.processor_ok (request_processor req)) reqs"
    using assms by (auto simp: list_all_iff tables.processor_ok_def pred_option_def)
  then have "keeps_inv (rs_db initial_rec) (rs_db (rec_execute reqs initial_rec))"
    using tables.execution [of reqs initial_rec] by (simp add: tables.L_def)
  then show ?thesis
    by (simp add: keeps_inv_def initial_rec_def empty_rec_db_def rec_inv_def recordings_ok_def artifacts_ok_def)
qed


definition demo_race :: "(rec_env \<times> rec_request) list" where
  "demo_race =
     [(rec_demo 1, StartRecordingReq 1 100 10), (rec_demo 2, StartRecordingReq 1 100 10),
      (rec_demo 3, StopRecordingReq 1 1 10), (rec_demo 4, StartRecordingReq 1 100 10)]"


text \<open>Every processor hands over the artifacts it made; the spool processor always makes at least three.\<close>

definition delivers_artifacts :: "Processor \<Rightarrow> bool" where
  "delivers_artifacts processor \<longleftrightarrow> (\<forall>n r p. processor n r = Inr (Some p) \<longrightarrow> PR_Artifacts p \<noteq> [])"

text \<open>
  C11: no recording ever becomes ready. The insert of \<open>replaceArtifactsTx\<close> names 22 columns and gives 21 values, so neither
  a finished egress job nor the processing queue can store an artifact, as long as nobody else writes ready rows: nothing can
  ever be played or downloaded.
\<close>

theorem no_recording_becomes_ready:
  assumes "list_all (\<lambda>(env, req). unready_others env \<and> pred_option delivers_artifacts (request_processor req)) reqs"
    and "r \<in> set (rb_recordings (rs_db (rec_execute reqs initial_rec)))"
  shows "Rec_Status r \<noteq> RecordingStatusReady"
proof -
  have "unready.processor_ok = delivers_artifacts"
    by (rule ext) (simp add: unready.processor_ok_def delivers_artifacts_def)
  then have "stays_unready (rs_db initial_rec) (rs_db (rec_execute reqs initial_rec))"
    using unready.execution [of reqs initial_rec] assms(1) by (simp add: unready.L_def)
  then show ?thesis
    using assms(2) by (simp add: stays_unready_def none_ready_def initial_rec_def empty_rec_db_def)
qed

definition demo_finish :: "(rec_env \<times> rec_request) list" where
  "demo_finish =
     [(rec_demo 1, StartRecordingReq 1 100 10), (rec_demo 2, StopRecordingReq 1 1 10), (rec_demo 3, EgressEventReq (ended ''e'' True))]"

lemma no_recording_becomes_ready_witness:
  "\<exists>r. r \<in> set (rb_recordings (rs_db (rec_execute demo_finish initial_rec))) \<and>
     Rec_Status r = RecordingStatusProcessing \<and> Rec_Status r \<noteq> RecordingStatusReady"
proof -
  define rows where "rows = rb_recordings (rs_db (rec_execute demo_finish initial_rec))"
  have one: "rows \<noteq> []" "Rec_Status (hd rows) = RecordingStatusProcessing" unfolding rows_def by code_simp+
  have "list_all (\<lambda>(env, req). unready_others env \<and> pred_option delivers_artifacts (request_processor req)) demo_finish"
    by (simp add: demo_finish_def demo_others)
  moreover have "hd rows \<in> set rows" using one(1) by simp
  ultimately have "Rec_Status (hd rows) \<noteq> RecordingStatusReady"
    unfolding rows_def by (rule no_recording_becomes_ready)
  then show ?thesis using one unfolding rows_def by (intro exI [of _ "hd rows"]) (simp add: rows_def)
qed

subsection \<open>Starting\<close>

lemma solo_demo: "solo (rec_demo t)" "no_faults (rec_demo t)" "re_calls (rec_demo t) = (\<lambda>_. rec_demo_calls)" "re_callAccess (rec_demo t)"
  by (simp_all add: solo_def no_faults_def rec_demo_def)

text \<open>
  C17: whoever starts a recording is a host or co-host of an active call of the workspace in which recording is enabled,
  the call had no recording in flight, LiveKit was asked for exactly one job, for the object the row names, and the only
  change of the table is the new row, at most without the job's id.
\<close>

theorem StartRecording_records:
  assumes "solo env" and "StartRecording env ws cid u s = (Inr rec, s')"
  shows "(\<exists>m n. may_record env ws cid u (re_calls env m) (re_calls env n)) \<and>
    (\<forall>q \<in> set (rows s). Rec_CallID q = cid \<longrightarrow> \<not> active_status (Rec_Status q)) \<and>
    Rec_CallID rec = cid \<and> Rec_StartedBy rec = u \<and> Rec_Status rec = RecordingStatusRecording \<and>
    rs_starts s' = rs_starts s @ [(cid, Rec_StoragePath rec)] \<and>
    (rows s' = rows s @ [rec] \<or> rows s' = rows s @ [rec\<lparr>Rec_EgressID := None\<rparr>])"
proof -
  note run = StartRecording_run [OF assms(1,2), unfolded got_on_def, simplified]
  obtain call recID rec0 s2 where rec0: "rec0 = new_recording env cid call u recID" and s2: "rows s2 = rows s @ [rec0]"
    "rs_starts s2 = rs_starts s" "\<forall>q \<in> set (rows s). \<not> recording_clash rec0 q" and eg: "start_egress env rec0 s2 = (Inr rec, s')"
    using run(3) by blast
  have "\<forall>q \<in> set (rows s). Rec_ID q \<noteq> Rec_ID rec0" using s2(3) by (auto simp: recording_clash_def)
  moreover have "Rec_EgressID rec0 = None" by (simp add: rec0 new_recording_def)
  ultimately have "rs_starts s' = rs_starts s2 @ [(Rec_CallID rec0, Rec_StoragePath rec0)]"
    "\<exists>e. rec = rec0\<lparr>Rec_EgressID := Some e\<rparr> \<and> (rows s' = rows s @ [rec] \<or> rows s' = rows s @ [rec0])"
    using start_egress_run [OF assms(1) s2(1) _ _ eg] by blast+
  then show ?thesis
    using run(1,2) s2(2) rec0 by (auto simp: new_recording_def)
qed

lemma StartRecording_records_witness:
  "\<exists>rec s'. StartRecording (rec_demo 1) 1 100 10 initial_rec = (Inr rec, s') \<and> Rec_CallID rec = 100 \<and> Rec_StartedBy rec = 10 \<and>
     (rows s' = [rec] \<or> rows s' = [rec\<lparr>Rec_EgressID := None\<rparr>])"
proof -
  define run where "run = StartRecording (rec_demo 1) 1 100 10 initial_rec"
  have "\<not> isl (fst run)" unfolding run_def by code_simp
  then obtain rec s' where r: "run = (Inr rec, s')" using not_isl_run by blast
  have "rows initial_rec = []" by (simp add: initial_rec_def empty_rec_db_def)
  then show ?thesis
    using StartRecording_records [OF solo_demo(1) r [unfolded run_def]] r by (auto simp: run_def)
qed


definition rec_demo_refused :: rec_env where
  "rec_demo_refused = (rec_demo 1)\<lparr>re_startEgress := (\<lambda>_ _ _. Inl (Opaque ''no egress worker''))\<rparr>"


subsection \<open>Stopping\<close>

text \<open>
  Stopping is idempotent: once a stop has succeeded, a second one succeeds too, and neither asks LiveKit, nor writes, nor
  announces anything again.
\<close>

theorem StopRecording_is_idempotent:
  assumes "solo env" and "StopRecording env ws rid u s = (Inr (), s1)" and "solo env2" and "no_faults env2"
  shows "StopRecording env2 ws rid u2 s1 = (Inr (), s1\<lparr>rs_stmts := Suc (rs_stmts s1)\<rparr>)"
proof -
  obtain r where r: "find (\<lambda>r. Rec_ID r = rid) (rows s1) = Some r" "Rec_WorkspaceID r = ws" "Rec_Status r \<noteq> RecordingStatusRecording"
    using StopRecording_run [OF assms(1,2)] by (auto simp: not_recording_def)
  have "Recordings_GetByID env2 rid s1 = (Inr r, s1\<lparr>rs_stmts := Suc (rs_stmts s1)\<rparr>)"
    using assms(3,4) r(1)
    by (simp add: Recordings_GetByID_def rec_query_def Let_def solo_tick no_faults_def scanRecording_def)
  then show ?thesis using r(2,3) by (simp add: StopRecording_def monad_simps)
qed

lemma StopRecording_is_idempotent_witness:
  "\<exists>s1. StopRecording (rec_demo 2) 1 1 10 demo_recorded = (Inr (), s1) \<and> rs_stops s1 = [''e''] \<and>
     StopRecording (rec_demo 3) 1 1 11 s1 = (Inr (), s1\<lparr>rs_stmts := Suc (rs_stmts s1)\<rparr>)"
proof -
  define run where "run = StopRecording (rec_demo 2) 1 1 10 demo_recorded"
  have 1: "\<not> isl (fst run)" "rs_stops (snd run) = [''e'']" unfolding run_def by code_simp+
  then obtain s1 where r: "run = (Inr (), s1)" using not_isl_run by fastforce
  show ?thesis
    using StopRecording_is_idempotent [OF solo_demo(1) r [unfolded run_def] solo_demo(1,2), of 3 11] r 1(2) by (auto simp: run_def)
qed

subsection \<open>Legal holds\<close>

text \<open>What a hold protects: the row stays, under hold, and so do its artifacts.\<close>

definition held :: "uuid \<Rightarrow> RecordingArtifact list \<Rightarrow> rec_db \<Rightarrow> bool" where
  "held rid as db \<longleftrightarrow>
     rec_inv db \<and> (\<exists>r \<in> set (rb_recordings db). Rec_ID r = rid \<and> Rec_LegalHold r) \<and>
     filter (\<lambda>a. RA_RecordingID a = rid) (rb_artifacts db) = as"

definition respects_hold :: "uuid \<Rightarrow> RecordingArtifact list \<Rightarrow> rec_env \<Rightarrow> bool" where
  "respects_hold rid as env \<longleftrightarrow> (\<forall>n db. held rid as db \<longrightarrow> held rid as (re_other env n db))"

definition stays_held :: "uuid \<Rightarrow> RecordingArtifact list \<Rightarrow> rec_db \<Rightarrow> rec_db \<Rightarrow> bool" where
  "stays_held rid as db db' \<longleftrightarrow> (held rid as db \<longrightarrow> held rid as db')"

interpretation hold: recording_steps "stays_held rid as" "respects_hold rid as" for rid as
  by unfold_locales (auto simp: stays_held_def respects_hold_def rec_alone_def)

lemma hold_delete:
  assumes "respects_hold rid as env" and "other \<noteq> rid"
  shows "keepsM (hold.L rid as) (Recordings_Delete env other)"
  unfolding Recordings_Delete_def
proof (rule hold.exec_keeps [OF assms(1)])
  fix db x db' assume del: "delete_recording other db = Inr (x, db')"
  have inv: "rec_inv db \<Longrightarrow> rec_inv db'" using deleted_ok [OF del] by (simp add: keeps_inv_def)
  have db': "rb_recordings db' = filter (\<lambda>r. Rec_ID r \<noteq> other) (rb_recordings db)"
    "rb_artifacts db' = filter (\<lambda>a. RA_RecordingID a \<noteq> other) (rb_artifacts db)"
    using del by (auto simp: delete_recording_def split: if_splits)
  have "filter (\<lambda>a. RA_RecordingID a = rid) (rb_artifacts db') = filter (\<lambda>a. RA_RecordingID a = rid) (rb_artifacts db)"
    unfolding db' filter_filter by (rule filter_cong) (use assms(2) in auto)
  then show "stays_held rid as db db'" using inv db'(1) assms(2) by (auto simp: stays_held_def held_def)
qed

lemma retry_query:
  assumes "respects_hold rid as env" and "rec_retry env (rec_query env op wrap f) s = (Inr x, s')" and "held rid as (rs_db s)"
  shows "\<exists>t :: rec_state. held rid as (rs_db t) \<and> f (rs_db t) = Inr x"
proof -
  have query: "(\<exists>t :: rec_state. held rid as (rs_db t) \<and> f (rs_db t) = Inr x)"
    if "rec_query env op wrap f s = (Inr x, s')" "held rid as (rs_db s)" for s
  proof (intro exI conjI)
    show "held rid as (rs_db (rec_tick env s))"
      using that(2) hold.tick_keeps [OF assms(1), of s] by (simp add: hold.L_def stays_held_def)
    show "f (rs_db (rec_tick env s)) = Inr x"
      using that(1) by (auto simp: rec_query_def Let_def split: option.splits sum.splits)
  qed
  have "\<exists>t :: rec_state. held rid as (rs_db t) \<and> f (rs_db t) = Inr x"
    if "attempts_left left env (rec_query env op wrap f) s = (Inr x, s')" "held rid as (rs_db s)" for left s
    using that
  proof (induction left arbitrary: s)
    case 0
    then show ?case using query by simp
  next
    case (Suc left)
    obtain r s1 where run: "rec_query env op wrap f s = (r, s1)" by (cases "rec_query env op wrap f s")
    have "held rid as (rs_db s1)"
      using keeps_run [OF hold.query_keeps [OF assms(1)] run] Suc.prems(2) by (simp add: hold.L_def stays_held_def)
    then show ?case
      using Suc.prems Suc.IH [of s1] run query [of s] by (cases r) (auto split: if_splits option.splits)
  qed
  then show ?thesis using assms(2,3) by (auto simp: rec_retry_def DoValue_def)
qed

lemma hold_cleanup:
  assumes "respects_hold rid as env" and "rid \<notin> Rec_ID ` set recs"
  shows "keepsM (hold.L rid as) (cleanup_all env recs stats)"
  using assms(2)
proof (induction recs arbitrary: stats)
  case (Cons rec recs)
  then have "Rec_ID rec \<noteq> rid" by auto
  with Cons assms(1) show ?case
    unfolding cleanup_all.simps cleanup_one_def Recordings_ListArtifacts_def
    by - (intro hold.steps hold.query_keeps hold_delete; (assumption | simp))
qed (simp add: hold.run.keeps_returnM)

text \<open>
  C19: the retention worker never deletes a recording that was under legal hold when it started, nor its artifacts, as long
  as nobody else lifts the hold or deletes it meanwhile; whatever fails or is retried.
\<close>

theorem held_recordings_survive_cleanup:
  assumes "respects_hold rid as env" and "held rid as (rs_db s)"
  shows "held rid as (rs_db (snd (CleanupExpired env now limit s)))"
proof -
  let ?list = "rec_retry env (ListExpired env now (if limit \<le> 0 then 50 else limit))"
  obtain r s1 where list: "?list s = (r, s1)" by (cases "?list s")
  have kept: "held rid as (rs_db s1)"
    using keeps_run [OF hold.retry_keeps [OF hold.query_keeps [OF assms(1)]] list [unfolded ListExpired_def]] assms(2)
    by (simp add: hold.L_def stays_held_def)
  show ?thesis
  proof (cases r)
    case (Inl err)
    then show ?thesis using list kept by (simp add: CleanupExpired_def Let_def monad_simps)
  next
    case (Inr recs)
    obtain t :: rec_state where t: "held rid as (rs_db t)" and recs: "take (row_limit (if limit \<le> 0 then 50 else limit))
        (sort_key (\<lambda>r. the (Rec_ExpiresAt r)) (filter (is_expired now) (rb_recordings (rs_db t)))) = recs"
      using retry_query [OF assms(1) list [unfolded ListExpired_def Inr] assms(2)] unfolding sum.inject by blast
    have sub: "set recs \<subseteq> {r \<in> set (rb_recordings (rs_db t)). is_expired now r}"
      unfolding recs [symmetric] by (auto dest: in_set_takeD)
    obtain h where h: "h \<in> set (rb_recordings (rs_db t))" "Rec_ID h = rid" "Rec_LegalHold h" using t by (auto simp: held_def)
    have "q = h" if "q \<in> set (rb_recordings (rs_db t))" "Rec_ID q = rid" for q
      using t that h(1,2) distinct_key_eq [OF recordings_okD(1), of _ q h] by (auto simp: held_def rec_inv_def)
    then have "rid \<notin> Rec_ID ` set recs" using sub h(3) by (auto simp: is_expired_def)
    from keepsMD [OF hold_cleanup [OF assms(1) this, where stats = no_stats], of s1] kept
    have "held rid as (rs_db (snd (cleanup_all env recs no_stats s1)))" by (simp add: hold.L_def stays_held_def)
    then show ?thesis using list Inr by (simp add: CleanupExpired_def Let_def monad_simps)
  qed
qed

definition ready_demo :: "uuid \<Rightarrow> bool \<Rightarrow> Recording" where
  "ready_demo rid hold =
     (new_recording (rec_demo 1) rid ((demo_call CallStatusActive)) 10 rid)\<lparr>Rec_Status := RecordingStatusReady, Rec_LegalHold := hold\<rparr>"

definition demo_kept :: rec_state where
  "demo_kept = initial_rec\<lparr>rs_db := empty_rec_db\<lparr>rb_recordings := [ready_demo 1 True, ready_demo 2 False]\<rparr>\<rparr>"

lemma held_recordings_survive_cleanup_witness:
  "map Rec_ID (rb_recordings (rs_db (snd (CleanupExpired (rec_demo 500) 500 0 demo_kept)))) = [1] \<and>
   held 1 [] (rs_db (snd (CleanupExpired (rec_demo 500) 500 0 demo_kept)))"
proof -
  have "respects_hold 1 [] (rec_demo 500)" by (simp add: respects_hold_def rec_demo_def)
  moreover have "held 1 [] (rs_db demo_kept)"
    by (simp add: held_def demo_kept_def initial_rec_def empty_rec_db_def rec_inv_def recordings_ok_def artifacts_ok_def
        recording_checks_def recording_clash_def active_status_def ready_demo_def new_recording_def nonneg_def int4_opt_def
        int4_def max_attempts_def rec_demo_def)
  moreover have "map Rec_ID (rb_recordings (rs_db (snd (CleanupExpired (rec_demo 500) 500 0 demo_kept)))) = [1]" by code_simp
  ultimately show ?thesis using held_recordings_survive_cleanup by blast
qed

subsection \<open>Access\<close>

lemma getVisibleRecording_run:
  assumes "solo env" and "re_callAccess env" and "getVisibleRecording env ws rid u s = (Inr rec, s')"
  shows "rec \<in> set (rows s) \<and> Rec_ID rec = rid \<and> Rec_WorkspaceID rec = ws \<and> rs_db s' = rs_db s \<and>
    (\<exists>n. CanAccessCall (re_call env) ws (Rec_CallID rec) u (re_calls env n) = Inr ())"
  using assms(2,3)
  by (auto simp: getVisibleRecording_def requireRecordingViewAccess_def rec_call_def run_Inr
      dest!: GetByID_Inr [OF assms(1)] find_SomeD)

text \<open>
  An artifact is downloaded only from a recording of the caller's workspace, only if it belongs to that recording and is
  downloadable, and only by users the call service lets into the recorded call.
\<close>

theorem downloads_need_call_access:
  assumes "solo env" and "re_callAccess env" and "DownloadArtifact env ws rid aid u s = (Inr (info, a), s')"
  shows "\<exists>rec n. rec \<in> set (rows s) \<and> Rec_ID rec = rid \<and> Rec_WorkspaceID rec = ws \<and>
    CanAccessCall (re_call env) ws (Rec_CallID rec) u (re_calls env n) = Inr () \<and>
    a \<in> set (rb_artifacts (rs_db s)) \<and> RA_RecordingID a = rid \<and> RA_ID a = aid \<and> RA_Downloadable a"
proof -
  obtain rec s1 s2 s3 where vis: "getVisibleRecording env ws rid u s = (Inr rec, s1)"
    and down: "requireRecordingDownloadAccess env rec u s1 = (Inr (), s2)" and get: "GetArtifact env rid aid s2 = (Inr a, s3)"
    and ok: "RA_Downloadable a"
    using assms(3) by (auto simp: DownloadArtifact_def downloadable_artifact_def run_Inr)
  note rec = getVisibleRecording_run [OF assms(1,2) vis]
  have "s2 = s1" using down assms(2) by (auto simp: requireRecordingDownloadAccess_def rec_call_def run_Inr)
  moreover have "a \<in> set (rb_artifacts (rs_db s2)) \<and> RA_RecordingID a = rid \<and> RA_ID a = aid"
    using query_Inr [OF assms(1) get [unfolded GetArtifact_def]] by (auto dest!: find_SomeD split: option.splits)
  ultimately show ?thesis using rec ok by auto
qed

definition demo_artifact :: RecordingArtifact where
  "demo_artifact = egress_artifact (rec_demo 1) 9 ((ready_demo 1 False)\<lparr>Rec_CallID := 100\<rparr>) 5 7"

definition demo_playable :: rec_state where
  "demo_playable =
     initial_rec\<lparr>rs_db := empty_rec_db\<lparr>rb_recordings := [(ready_demo 1 False)\<lparr>Rec_CallID := 100\<rparr>], rb_artifacts := [demo_artifact]\<rparr>\<rparr>"

lemma downloads_need_call_access_witness:
  "\<exists>info a s'. DownloadArtifact (rec_demo 2) 1 1 9 11 demo_playable = (Inr (info, a), s') \<and>
     CanAccessCall (demo_env True) 1 100 11 rec_demo_calls = Inr ()"
proof -
  define run where "run = DownloadArtifact (rec_demo 2) 1 1 9 11 demo_playable"
  have "\<not> isl (fst run)" unfolding run_def by code_simp
  then obtain info a s' where r: "run = (Inr (info, a), s')" using not_isl_run by fastforce
  have "rows demo_playable = [(ready_demo 1 False)\<lparr>Rec_CallID := 100\<rparr>]" by (simp add: demo_playable_def)
  then show ?thesis
    using downloads_need_call_access [OF solo_demo(1,4) r [unfolded run_def]] r
    by (auto simp: run_def solo_demo(3)) (simp add: rec_demo_def)
qed

subsection \<open>The processing queue\<close>

lemma doubled_delay_bounds:
  assumes "0 < d" and "d \<le> 60 * time_Minute"
  shows "d \<le> doubled_delay n d \<and> doubled_delay n d \<le> 60 * time_Minute"
  using assms
proof (induction n arbitrary: d)
  case (Suc n)
  have w: "wrap64 (d * 2) = d * 2"
    using Suc.prems by (simp add: wrap64_def time_Minute_def time_Second_def)
  show ?case
  proof (cases "d * 2 > 60 * time_Minute")
    case False
    then show ?thesis using Suc.IH [of "d * 2"] Suc.prems w by simp
  qed (use Suc.prems w in simp)
qed simp

text \<open>
  A failed attempt is retried after at least the configured pause and at most one hour, and not at all once the
  attempts are used up.
\<close>

theorem retries_back_off_within_an_hour:
  assumes "retry_backoff env \<le> 60 * time_Minute"
  shows "case next_retry env rec of
      Some t \<Rightarrow> Rec_ProcessingAttempts rec < Rec_MaxProcessingAttempts rec \<and>
        re_now env + retry_backoff env \<le> t \<and> t \<le> re_now env + 60 * time_Minute
    | None \<Rightarrow> Rec_MaxProcessingAttempts rec \<le> Rec_ProcessingAttempts rec"
proof -
  have "0 < retry_backoff env" by (simp add: retry_backoff_def time_Second_def)
  then show ?thesis
    using doubled_delay_bounds [OF _ assms, of "nat (Rec_ProcessingAttempts rec - 1)"] by (simp add: next_retry_def)
qed

lemma retries_back_off_within_an_hour_witness:
  "\<exists>t. next_retry (rec_demo 1) ((ready_demo 1 False)\<lparr>Rec_ProcessingAttempts := 1\<rparr>) = Some t \<and> t \<le> 1 + 60 * time_Minute"
proof -
  let ?r = "(ready_demo 1 False)\<lparr>Rec_ProcessingAttempts := 1\<rparr>"
  have "retry_backoff (rec_demo 1) \<le> 60 * time_Minute" by code_simp
  moreover have "next_retry (rec_demo 1) ?r \<noteq> None" by code_simp
  moreover have "re_now (rec_demo 1) = 1" by (simp add: rec_demo_def)
  ultimately show ?thesis using retries_back_off_within_an_hour [of "rec_demo 1" ?r] by auto
qed

subsection \<open>What goes wrong\<close>

text \<open>The row of recording 1, and the statuses, in a state.\<close>

definition status_list :: "rec_state \<Rightarrow> (uuid \<times> RecordingStatus) list" where
  "status_list s = map (\<lambda>r. (Rec_ID r, Rec_Status r)) (rows s)"

text \<open>
  The event of a finished job is correlated by the call when no row has its id, without comparing the job's id with the one
  the row has: here the first recording never got its id, and the late event of its job ends the second recording, which LiveKit
  is still writing.
\<close>

definition lost_backfill :: rec_env where
  "lost_backfill = (rec_demo 1)\<lparr>re_fault := (\<lambda>_ op. if op = ''RecordingRepo.SetEgressID'' then Some (False, Inr ''down'') else None)\<rparr>"

definition no_spool :: Processor where
  "no_spool n rec = Inl (Wrapf ''load recording spool state'' (Opaque ''no such file''))"

definition stale_event_run :: "(rec_env \<times> rec_request) list" where
  "stale_event_run =
     [(lost_backfill, StartRecordingReq 1 100 10), (rec_demo 2, StopRecordingReq 1 1 10), (rec_demo 3, ProcessReq (Some no_spool) 0),
      (rec_demo 4, StartRecordingReq 1 100 10), (rec_demo 5, EgressEventReq (ended ''e'' False))]"

lemma stale_event_fails_another_recording:
  "status_list (rec_execute (take 4 stale_event_run) initial_rec) = [(1, RecordingStatusFailed), (4, RecordingStatusRecording)]"
  "status_list (rec_execute stale_event_run initial_rec) = [(1, RecordingStatusFailed), (4, RecordingStatusFailed)]"
  by code_simp+

text \<open>
  A stopped recording waits for its egress event in the status the processing queue looks for, and the queue looks for a spool
  directory that egress recordings never have: it marks them failed, and the event of the finished file is then ignored.
\<close>

definition discarded_run :: "(rec_env \<times> rec_request) list" where
  "discarded_run =
     [(rec_demo 1, StartRecordingReq 1 100 10), (rec_demo 2, StopRecordingReq 1 1 10), (rec_demo 3, ProcessReq (Some no_spool) 0),
      (rec_demo 4, EgressEventReq (ended ''e'' True))]"

lemma queue_discards_finished_recordings:
  "status_list (rec_execute discarded_run initial_rec) = [(1, RecordingStatusFailed)]"
  "fst (HandleEgressEvent (rec_demo 4) (ended ''e'' True) (rec_execute (take 3 discarded_run) initial_rec)) = Inr ()"
  by code_simp+

text \<open>
  A recording whose last attempt could not be marked as failed stays in processing: the next attempt would exceed
  \<open>recordings_attempts_bounded\<close>, so the queue can neither process nor fail it, and the call cannot be recorded again.
\<close>

definition unmarked :: rec_env where
  "unmarked = (rec_demo 3)\<lparr>re_fault := (\<lambda>_ op. if op = ''RecordingRepo.MarkFailed'' then Some (False, Inr ''down'') else None)\<rparr>"

definition exhausted_run :: "(rec_env \<times> rec_request) list" where
  "exhausted_run =
     [((rec_demo 1)\<lparr>re_maxAttempts := 1\<rparr>, StartRecordingReq 1 100 10), (rec_demo 2, StopRecordingReq 1 1 10),
      (unmarked, ProcessReq (Some no_spool) 0), (rec_demo 99, ProcessReq (Some no_spool) 0)]"

lemma exhausted_recordings_block_the_call:
  "status_list (rec_execute exhausted_run initial_rec) = [(1, RecordingStatusProcessing)]"
  "isl (fst (StartRecording (rec_demo 100) 1 100 10 (rec_execute exhausted_run initial_rec)))"
  by code_simp+

text \<open>
  The retention worker deletes by identifier what it listed before: a hold that is placed between the two does not protect.
\<close>

definition late_hold :: rec_env where
  "late_hold = (rec_demo 500)\<lparr>re_other := (\<lambda>n db. if n = 1 then db\<lparr>rb_recordings := map (\<lambda>r. r\<lparr>Rec_LegalHold := True\<rparr>) (rb_recordings db)\<rparr> else db)\<rparr>"

lemma late_holds_are_ignored:
  "rows (snd (CleanupExpired late_hold 500 0 (initial_rec\<lparr>rs_db := empty_rec_db\<lparr>rb_recordings := [ready_demo 2 False]\<rparr>\<rparr>))) = []"
  by code_simp

text \<open>
  A recording whose job ends by itself, without \<open>StopRecording\<close>, cannot become ready even if the artifacts could be stored:
  the trigger knows no step from recording to ready.
\<close>

lemma unstopped_recordings_cannot_become_ready:
  "\<not> status_transition RecordingStatusRecording RecordingStatusReady"
  by simp

end
