(* ===== verification/Spec2Isabelle.thy ===== *)
theory Spec2Isabelle
  imports AccessTheorems DirectMessages AuthTheorems RecordingTheorems
begin

text \<open>
  \<^bold>\<open>The program.\<close> Aloqa is a team-communication server in Go: workspaces with channels, chat and
  calls over LiveKit. This development verifies its call subsystem, its chat subsystem, its accounts and
  sessions, the recording of calls, and the access control in front of them; paths below are relative to \<open>internal/\<close>.

  \<^bold>\<open>How a handler is modelled.\<close> A method \<open>func (s *Service) H(ctx, args) (T, error)\<close> is a
  definition \<open>H env args :: call_state \<Rightarrow> (go_error + T) \<times> call_state\<close> (\<open>chat_state\<close> in chat) written
  in the state-and-error monad of \<open>Prelude\<close>: \<open>Inl\<close> is the returned error, the second component the
  state the handler leaves behind, also on error. A handler that only reads is a function
  \<open>H env args :: chat_state \<Rightarrow> go_error + T\<close>. The environment \<open>env\<close> holds the configuration,
  the clock, the tables that the service only reads, and what every collaborator outside the
  repository answers (PostgreSQL faults, LiveKit, bcrypt, NATS, presence, identifiers); each theorem is
  for all environments, unless it says otherwise. The state holds the tables the service writes, the
  events it published and the requests it sent. \<open>WithinTx\<close> rolls the tables back on error, and does
  not undo requests that left the process. Requests are served one at a time: PostgreSQL's row locks
  and the interleaving of concurrent handlers are not modelled, except for sessions in Redis and for recordings; an execution is a sequence of requests,
  with workers and webhook deliveries among them, each under an environment of its own.

  \<^bold>\<open>The shared theories.\<close>
  \<^item> \<open>Prelude\<close>: identifiers, the monad, table operations, the locales for relations that all
    steps of a program keep (\<open>run_relation\<close>), shared lemmas. \<open>Strings\<close>: \<open>unicode/utf8\<close> and
    \<open>strings.TrimSpace\<close> on byte strings, the mention pattern.
  \<^item> \<open>Cerrors\<close>: \<open>pkg/cerrors\<close>. \<open>Entity\<close>: \<open>domain/entity\<close>. \<open>Directory\<close>: the
    repositories access control reads.
  \<^item> \<open>Rbac\<close>: \<open>security/rbac\<close>. \<open>Access\<close>: \<open>security/guestaccess\<close>, \<open>security/collabaccess\<close>,
    \<open>security/accesspolicy\<close> and \<open>service/collaboration\<close>. \<open>AccessTheorems\<close>: their properties.

  \<^bold>\<open>The call subsystem.\<close>
  \<^item> \<open>CallState\<close>: events, the environment and the state, transactions. \<open>CallRepo\<close>:
    \<open>repository/postgres/call.go\<close>, \<open>breakout_room.go\<close> and the outbox insert, one definition per
    statement.
  \<^item> \<open>CallSpec\<close>: the abstract specification, a step relation on the statuses of calls and the
    roles and statuses of participants, its invariants, and that each statement refines it.
  \<^item> \<open>CallAccess\<close>, \<open>CallEvents\<close>, \<open>CallLifecycle\<close>, \<open>CallEnding\<close>, \<open>CallMedia\<close>,
    \<open>Breakout\<close>, \<open>Settings\<close>, \<open>CallChat\<close>, \<open>Webhooks\<close>, \<open>CallQueries\<close>: the
    files of \<open>service/call\<close>, handler by handler, each with the lemma that it refines the
    specification.
  \<^item> \<open>RoomInvariant\<close>: the invariant of the breakout-room table. \<open>CallSystem\<close>: requests and
    executions. \<open>Scenario\<close>: a concrete workspace for the instances.
  \<^item> \<open>LifecycleTheorems\<close>, \<open>StartTheorems\<close>, \<open>EndingTheorems\<close>, \<open>MediaTheorems\<close>, \<open>BridgeTheorems\<close>,
    \<open>RoomTheorems\<close>, \<open>ChatTheorems\<close>: what the handlers achieve, each branch: starting, joining, ending,
    media control and tokens, the LiveKit bridge, breakout rooms and settings, messages in calls and the
    call history. This theory: the properties of whole executions.

  \<^bold>\<open>The chat subsystem.\<close>
  \<^item> \<open>ChatStore\<close>: the tables, the environment and the state of chat. \<open>ChatRepo\<close>: the statements of
    \<open>repository/postgres/channel.go\<close>, \<open>message.go\<close>, \<open>channel_access_grant.go\<close>,
    \<open>channel_access_state.go\<close>, \<open>file.go\<close> (sharing and resolving) and \<open>search.go\<close> (enqueueing), with the
    unique constraints and foreign keys of the schema. Access control reads the tables of the state.
  \<^item> \<open>Channels\<close>, \<open>Messages\<close>: \<open>service/chat/service.go\<close>, handler by handler: channels, members, direct
    messages and read marks; messages, threads, reactions, pins, pages.
  \<^item> \<open>ChatSystem\<close>: requests and executions, and the locales for relations that all handlers keep.
    \<open>ChatInvariant\<close>: the well-formedness of the tables and the history of messages, which all keep.
  \<^item> \<open>Paging\<close>: a concrete workspace, and the reading of a channel page after page.
  \<^item> \<open>MessagingTheorems\<close>, \<open>ChannelTheorems\<close>, \<open>Membership\<close>, \<open>DirectMessages\<close>: what sending, editing,
    deleting, reading and reacting do; who gets into a closed channel, and how; direct messages.

  \<^bold>\<open>Accounts and sessions.\<close>
  \<^item> \<open>Validate\<close>: the struct validation all services share. \<open>Names\<close>: avatar colours, slugs. \<open>AuthStore\<close>: the
    tables of accounts and workspaces and the keys in Redis, with their expiry; a pipeline that fails has run a
    prefix of its commands, a transaction that loses its reply has run or not. \<open>AuthRepo\<close>:
    \<open>repository/postgres/user.go\<close> and \<open>workspace.go\<close>.
  \<^item> \<open>Sessions\<close>: \<open>service/auth/session.go\<close>. \<open>Auth\<close>: \<open>service/auth/service.go\<close>. \<open>AuthSystem\<close>: requests and
    executions, and the locale for relations that all requests keep.
  \<^item> \<open>TokenInvariant\<close>: refresh keys never come back. \<open>SessionInvariant\<close>: sessions, keys and sets of ids fit
    together, and sessions never come back. Both are interpretations of the locale, for generators of tokens and
    identifiers that do not repeat themselves.
  \<^item> \<open>SessionRaces\<close>: rotations and the touch worker at their own grain, interleaved with everything else.
    \<open>TokenFlow\<close>, \<open>AuthTheorems\<close>: what login, refresh, logout, registration and deactivation achieve, and five
    things that go wrong.

  \<^bold>\<open>Recordings.\<close> Web servers and workers share the tables of recordings, so the environment says what the
  others do to them before each statement (\<open>re_other\<close>), and theorems state what they rely on: that the others keep
  the invariant (\<open>fair\<close>), or that there are none (\<open>solo\<close>). A transaction runs at once. A statement may fail or lose its reply.
  \<^item> \<open>RecStore\<close>: \<open>domain/entity/recording.go\<close>, the tables, statements and transactions. \<open>RecRepo\<close>:
    \<open>repository/postgres/recording.go\<close> with the trigger, ranges and unique indexes of the migrations; the retries of
    \<open>platform/reliability/policy.go\<close>.
  \<^item> \<open>Recording\<close>, \<open>RecordingQueue\<close>: \<open>service/recording/service.go\<close>: starting, stopping, egress events; viewing,
    downloading, the processing queue, retention, storage tiers.
  \<^item> \<open>RecordingSystem\<close>: requests and executions, and the locales for relations that all of them keep.
    \<open>RecordingInvariant\<close>: two interpretations, the well-formedness of the tables and that no recording is ready.
    \<open>RecordingRuns\<close>, \<open>RecordingTheorems\<close>: what starting and stopping achieve, legal holds (a third
    interpretation), downloads, pauses between attempts, and five things that go wrong.

  \<^bold>\<open>Loops.\<close> Loops over slices are folds or structural recursion. The page loops of
  \<open>ListChannels\<close> and \<open>ListRecentCalls\<close> are functions with a termination proof: each round
  strictly shrinks what is left to read. The numbered slugs and the hops along rotation grace records are counted in the code, by
  25 and 8. No definition of the program needs fuel; \<open>scroll\<close>, the client
  that follows the cursors of \<open>GetMessages\<close>, has as fuel the number of pages it may read, and one more
  than there are messages is proved to be enough.

  \<^bold>\<open>Not modelled.\<close> HTTP and WebSocket handlers (decoding around the services), the SFU's media
  plane (I/O over a WebRTC library; only its room table is modelled), the observability
  summaries, mediaops (node placement over Redis; a parameter here), TURN credentials, and the
  calendar service. Of recordings: the processor (spool directories, ffmpeg and uploads; a parameter), and the tickers of
  the workers, which only call what is modelled. Of accounts: the listing of workspace members, a search for display, and
  what the demo seeder writes. Of chat: the directory listing, the list of archived channels, the
  search for mentions and the feed of mentions, which only read; the search worker behind the queue;
  the columns that are only displayed (the reply count and the author's row of a message). PostgreSQL's
  regular expressions for the handle of a user are a parameter.
\<close>

section \<open>The service as a whole\<close>

text \<open>A run of the scenario: user 10 starts a call, 11 joins it, 10 ends it, 12 tries to join.\<close>

definition demo_run :: "(call_env \<times> call_request) list" where
  "demo_run =
     [(demo_env True, Lifecycle (StartCallReq 1 10 CallTypeGroup ''standup'' None demo_settings ''''
         \<lparr>AO_AccessLevel = AccessLevelPublic, AO_InvitedMemberIDs = []\<rparr>)),
      (demo_env False, Lifecycle (JoinCallReq 1 100 11 '''')),
      (demo_env True, Lifecycle (EndCallReq 1 100 10)),
      (demo_env True, Lifecycle (JoinCallReq 1 100 12 ''''))]"

lemma execute_initial_ok:
  "call_ok (st_db (execute reqs initial_state))" "rooms_ok (st_db (execute reqs initial_state))"
  using execute_call_ok [OF initial_ok(1)] breakouts.execute [of initial_state reqs] initial_ok(2)
  by (simp_all add: rooms_rel_def)

lemmas execute_keys_ok = execute_initial_ok(1) [unfolded call_ok_def, THEN conjunct1]

lemma execute_runs:
  "call_step\<^sup>*\<^sup>* (roster_of (st_db (execute reqs initial_state))) (roster_of (st_db (execute (reqs @ reqs') initial_state)))"
  using execute_call_ok [OF execute_initial_ok(1), of reqs' reqs] by (simp add: execute_append)

text \<open>
  C2: whatever requests the service has served, whatever failed on the way: a participant of an
  ended call is never connected, joining or waiting (no zombie participants).
\<close>

theorem ended_calls_have_no_live_participants:
  assumes "c \<in> set (db_calls (st_db (execute reqs initial_state)))" "Call_Status c = CallStatusEnded"
    and "p \<in> set (db_parts (st_db (execute reqs initial_state)))" "CP_CallID p = Call_ID c"
  shows "\<not> live_status (CP_Status p)"
proof -
  let ?db = "st_db (execute reqs initial_state)"
  have "no_zombies (roster_of ?db)" using execute_initial_ok(1) by (simp add: call_ok_def)
  moreover have "status_of ?db (CP_CallID p) = Some CallStatusEnded"
    using status_of_call [OF execute_keys_ok assms(1)] assms(2,4) by simp
  ultimately show ?thesis
    using part_of_row [OF execute_keys_ok assms(3)] by (auto simp: no_zombies_def roster_of_def)
qed

theorem ended_calls_have_no_live_participants_witness:
  "\<exists>c \<in> set (db_calls (st_db (execute demo_run initial_state))).
     Call_Status c = CallStatusEnded \<and>
     (\<exists>p \<in> set (db_parts (st_db (execute demo_run initial_state))).
        CP_UserID p = 11 \<and> CP_CallID p = Call_ID c \<and> \<not> live_status (CP_Status p))"
proof -
  let ?db = "st_db (execute demo_run initial_state)"
  have c: "hd (db_calls ?db) \<in> set (db_calls ?db)" "Call_Status (hd (db_calls ?db)) = CallStatusEnded" by code_simp+
  have p: "db_parts ?db ! 1 \<in> set (db_parts ?db)" "CP_CallID (db_parts ?db ! 1) = Call_ID (hd (db_calls ?db))"
    "CP_UserID (db_parts ?db ! 1) = 11" by code_simp+
  show ?thesis using ended_calls_have_no_live_participants [OF c p(1,2)] c p by blast
qed

text \<open>
  C3: in every execution a call has at most one host row, and a user at most one row per call.
\<close>

theorem calls_have_one_host:
  assumes "p \<in> set (db_parts (st_db (execute reqs initial_state)))"
    and "q \<in> set (db_parts (st_db (execute reqs initial_state)))"
    and "CP_CallID p = CP_CallID q"
    and "CP_UserID p = CP_UserID q \<or> CP_Role p = CallRoleHost \<and> CP_Role q = CallRoleHost"
  shows "p = q"
proof -
  let ?r = "roster_of (st_db (execute reqs initial_state))"
  have h: "single_host ?r" using execute_initial_ok(1) by (simp add: call_ok_def)
  have row: "ro_parts ?r (CP_CallID x, CP_UserID x) = Some (CP_Role x, CP_Status x)" if "x \<in> {p, q}" for x
    using part_of_row [OF execute_keys_ok, of x] that assms(1,2) by (auto simp: roster_of_def)
  have "CP_UserID p = CP_UserID q"
    using single_hostD [OF h, of "CP_CallID q"] row [of p] row [of q] assms(3,4) by fastforce
  then show ?thesis using same_key_row [OF execute_keys_ok assms(1,2,3)] by simp
qed

theorem calls_have_one_host_witness:
  "\<exists>p \<in> set (db_parts (st_db (execute demo_run initial_state))).
     \<forall>q \<in> set (db_parts (st_db (execute demo_run initial_state))).
       CP_CallID p = CP_CallID q \<and> CP_Role q = CallRoleHost \<longrightarrow> p = q"
proof -
  let ?db = "st_db (execute demo_run initial_state)"
  have p: "db_parts ?db ! 0 \<in> set (db_parts ?db)" "CP_Role (db_parts ?db ! 0) = CallRoleHost" by code_simp+
  show ?thesis using calls_have_one_host [OF p(1)] p by blast
qed

text \<open>
  C1: the service refines the lifecycle specification: between any two points of any execution,
  the status of every call and the role and status of every participant have moved only along
  the steps of the specification (create, activate, finish with hang-up, enter, move, change of
  a non-host role, transfer of the host role, removal).
\<close>

theorem service_refines_call_spec:
  "call_step\<^sup>*\<^sup>* (roster_of (st_db (execute reqs initial_state)))
     (roster_of (st_db (execute (reqs @ reqs') initial_state)))"
  by (rule execute_runs)

text \<open>
  C4: a call never disappears and only moves forward, from ringing over active to ended, so an
  ended call stays ended.
\<close>

theorem call_status_moves_forward:
  assumes "status_of (st_db (execute reqs initial_state)) cid = Some st"
  shows "\<exists>st'. status_of (st_db (execute (reqs @ reqs') initial_state)) cid = Some st' \<and> status_rank st \<le> status_rank st'"
  using call_run_status_mono [OF execute_runs, of reqs cid st reqs'] assms by (simp add: roster_of_def)

theorem call_status_moves_forward_witness:
  "\<exists>st'. status_of (st_db (execute demo_run initial_state)) 100 = Some st' \<and> status_rank CallStatusActive \<le> status_rank st'"
proof -
  have a: "status_of (st_db (execute (take 2 demo_run) initial_state)) 100 = Some CallStatusActive" by code_simp
  show ?thesis using call_status_moves_forward [OF a, of "drop 2 demo_run"] by simp
qed

text \<open>
  C5: in every execution a call has at most eight active breakout rooms and every stored time
  limit fits the column.
\<close>

theorem breakout_rooms_capped:
  "active_rooms (st_db (execute reqs initial_state)) cid \<le> 8 \<and>
   list_all (\<lambda>r. time_limit_fits (BR_TimeLimit r)) (db_rooms (st_db (execute reqs initial_state)))"
  using execute_initial_ok(2) by (simp add: rooms_ok_def list_all_iff)

end
